(* ===== verification/Prelude.thy ===== *)
theory Prelude
  imports Main "HOL-Library.Char_ord" "HOL-Library.List_Lexorder" "HOL-Library.Code_Target_Nat"
begin

text \<open>
  Shared vocabulary of the development: results and state passing for Rust's
  \<^verbatim>\<open>Result\<close> and \<^verbatim>\<open>&mut self\<close>, saturating unsigned arithmetic, decimal numbers as Rust
  prints and parses them, and strings as sequences of UTF-8 bytes with the pieces of
  \<^verbatim>\<open>str\<close> the source uses (\<^verbatim>\<open>chars\<close>, \<^verbatim>\<open>trim\<close>, \<^verbatim>\<open>from_utf8\<close>, \<^verbatim>\<open>from_utf8_lossy\<close>).

  A Rust \<^verbatim>\<open>String\<close>, \<^verbatim>\<open>&str\<close> and \<^verbatim>\<open>Vec<u8>\<close> are all an Isabelle \<^typ>\<open>string\<close>: one
  \<^typ>\<open>char\<close> is one byte, so \<^const>\<open>length\<close> is Rust's \<^verbatim>\<open>len()\<close> and the order of
  \<^verbatim>\<open>HOL-Library.List_Lexorder\<close> is Rust's bytewise order.
\<close>

section \<open>Fact collections\<close>

named_theorems res_simps "evaluation of results and of state-passing programs"
named_theorems res_inv "inversion of a successful result"

section \<open>Results and state passing\<close>

text \<open>\<^verbatim>\<open>Result<A, E>\<close> is \<^typ>\<open>'e + 'a\<close>: \<^const>\<open>Inl\<close> is \<^verbatim>\<open>Err\<close>, \<^const>\<open>Inr\<close> is \<^verbatim>\<open>Ok\<close>.\<close>

fun rbind :: "'e + 'a \<Rightarrow> ('a \<Rightarrow> 'e + 'b) \<Rightarrow> 'e + 'b" where
  "rbind (Inl e) f = Inl e"
| "rbind (Inr a) f = f a"

definition rguard :: "bool \<Rightarrow> 'e \<Rightarrow> 'e + unit" where
  "rguard c e = (if c then Inr () else Inl e)"

text \<open>\<^verbatim>\<open>iter().map(f).collect::<Result<Vec<_>, _>>()\<close>: the first error wins.\<close>

fun rmapM :: "('a \<Rightarrow> 'e + 'b) \<Rightarrow> 'a list \<Rightarrow> 'e + 'b list" where
  "rmapM f [] = Inr []"
| "rmapM f (x # xs) = rbind (f x) (\<lambda>y. rbind (rmapM f xs) (\<lambda>ys. Inr (y # ys)))"

fun rforM :: "('a \<Rightarrow> 'e + unit) \<Rightarrow> 'a list \<Rightarrow> 'e + unit" where
  "rforM f [] = Inr ()"
| "rforM f (x # xs) = rbind (f x) (\<lambda>_. rforM f xs)"

type_synonym ('s, 'e, 'a) sm = "'s \<Rightarrow> ('e + 'a) \<times> 's"

definition sbind :: "('s, 'e, 'a) sm \<Rightarrow> ('a \<Rightarrow> ('s, 'e, 'b) sm) \<Rightarrow> ('s, 'e, 'b) sm" where
  "sbind m f = (\<lambda>s. case m s of (Inl e, t) \<Rightarrow> (Inl e, t) | (Inr a, t) \<Rightarrow> f a t)"

definition sret :: "'a \<Rightarrow> ('s, 'e, 'a) sm" where
  "sret a = (\<lambda>s. (Inr a, s))"

definition sfail :: "'e \<Rightarrow> ('s, 'e, 'a) sm" where
  "sfail e = (\<lambda>s. (Inl e, s))"

definition slift :: "'e + 'a \<Rightarrow> ('s, 'e, 'a) sm" where
  "slift r = (\<lambda>s. (r, s))"

fun smapM :: "('a \<Rightarrow> ('s, 'e, 'b) sm) \<Rightarrow> 'a list \<Rightarrow> ('s, 'e, 'b list) sm" where
  "smapM f [] = sret []"
| "smapM f (x # xs) = sbind (f x) (\<lambda>y. sbind (smapM f xs) (\<lambda>ys. sret (y # ys)))"

fun sforM :: "('a \<Rightarrow> ('s, 'e, unit) sm) \<Rightarrow> 'a list \<Rightarrow> ('s, 'e, unit) sm" where
  "sforM f [] = sret ()"
| "sforM f (x # xs) = sbind (f x) (\<lambda>_. sforM f xs)"

lemma rbind_Inr_iff [res_inv]:
  "rbind m f = Inr b \<longleftrightarrow> (\<exists>a. m = Inr a \<and> f a = Inr b)"
  by (cases m) auto

lemma rbind_Inl_iff:
  "rbind m f = Inl e \<longleftrightarrow> m = Inl e \<or> (\<exists>a. m = Inr a \<and> f a = Inl e)"
  by (cases m) auto

lemma rguard_Inr_iff [res_inv]: "rguard c e = Inr u \<longleftrightarrow> c"
  by (simp add: rguard_def)

lemma rguard_simps [res_simps, simp]: "rguard True e = Inr ()" "rguard False e = Inl e"
  by (simp_all add: rguard_def)

lemma rmapM_Inr_iff:
  "rmapM f xs = Inr ys \<longleftrightarrow> list_all2 (\<lambda>x y. f x = Inr y) xs ys"
  by (induction xs arbitrary: ys) (auto simp: rbind_Inr_iff list_all2_Cons1)

lemma rmapM_Inr_length: "rmapM f xs = Inr ys \<Longrightarrow> length ys = length xs"
  by (metis rmapM_Inr_iff list_all2_lengthD)

lemma rmapM_total: "(\<And>x. x \<in> set xs \<Longrightarrow> f x = Inr (g x)) \<Longrightarrow> rmapM f xs = Inr (map g xs)"
  by (induction xs) auto

lemma rforM_Inr_iff [res_inv]: "rforM f xs = Inr u \<longleftrightarrow> (\<forall>x\<in>set xs. f x = Inr ())"
  by (induction xs) (auto simp: rbind_Inr_iff)

lemma sbind_simps [res_simps]:
  "sbind (sret a) f s = f a s"
  "sbind (sfail e) f s = (Inl e, s)"
  "sbind (slift r) f s = (case r of Inl e \<Rightarrow> (Inl e, s) | Inr a \<Rightarrow> f a s)"
  by (auto simp: sbind_def sret_def sfail_def slift_def split: sum.splits)

lemma sret_apply [res_simps]: "sret a s = (Inr a, s)"
  by (simp add: sret_def)

lemma sfail_apply [res_simps]: "sfail e s = (Inl e, s)"
  by (simp add: sfail_def)

lemma slift_apply [res_simps]: "slift r s = (r, s)"
  by (simp add: slift_def)

lemma sbind_Inr_iff [res_inv]:
  "sbind m f s = (Inr b, t) \<longleftrightarrow> (\<exists>a u. m s = (Inr a, u) \<and> f a u = (Inr b, t))"
  by (auto simp: sbind_def split: prod.splits sum.splits)

lemma sbind_Inl_iff:
  "sbind m f s = (Inl e, t) \<longleftrightarrow>
     m s = (Inl e, t) \<or> (\<exists>a u. m s = (Inr a, u) \<and> f a u = (Inl e, t))"
  by (auto simp: sbind_def split: prod.splits sum.splits)

lemma sbind_eval: "m s = (Inr a, u) \<Longrightarrow> sbind m f s = f a u"
  by (simp add: sbind_def)

lemma sbind_eval_err: "m s = (Inl e, u) \<Longrightarrow> sbind m f s = (Inl e, u)"
  by (simp add: sbind_def)

lemma sbind_slift [simp]:
  "sbind (slift (Inr a)) f = f a" "sbind (slift (Inl e)) f = sfail e"
  by (auto simp: sbind_def slift_def sfail_def)

lemma sbind_assoc: "sbind (sbind m f) g = sbind m (\<lambda>a. sbind (f a) g)"
  by (rule ext) (auto simp: sbind_def split: prod.splits sum.splits)

section \<open>Unsigned integers that saturate\<close>

definition u64_max :: nat where
  "u64_max = 2 ^ 64 - 1"

definition sat_add :: "nat \<Rightarrow> nat \<Rightarrow> nat" where
  "sat_add a b = min (a + b) u64_max"

lemma sat_add_le: "sat_add a b \<le> u64_max"
  by (simp add: sat_add_def)

lemma sat_add_exact: "a + b \<le> u64_max \<Longrightarrow> sat_add a b = a + b"
  by (simp add: sat_add_def)

lemma sat_add_mono: "a \<le> u64_max \<Longrightarrow> a \<le> sat_add a b"
  by (simp add: sat_add_def)

section \<open>Bytes\<close>

definition code :: "char \<Rightarrow> nat" where
  "code c = of_char c"

definition is_digit :: "char \<Rightarrow> bool" where
  "is_digit c \<longleftrightarrow> 48 \<le> code c \<and> code c \<le> 57"

definition is_ascii_alnum :: "char \<Rightarrow> bool" where
  "is_ascii_alnum c \<longleftrightarrow>
     is_digit c \<or> (65 \<le> code c \<and> code c \<le> 90) \<or> (97 \<le> code c \<and> code c \<le> 122)"

definition is_hexdigit :: "char \<Rightarrow> bool" where
  "is_hexdigit c \<longleftrightarrow>
     is_digit c \<or> (65 \<le> code c \<and> code c \<le> 70) \<or> (97 \<le> code c \<and> code c \<le> 102)"

definition to_ascii_lower :: "char \<Rightarrow> char" where
  "to_ascii_lower c = (if 65 \<le> code c \<and> code c \<le> 90 then char_of (code c + 32) else c)"

definition eq_ignore_ascii_case :: "string \<Rightarrow> string \<Rightarrow> bool" where
  "eq_ignore_ascii_case a b \<longleftrightarrow> map to_ascii_lower a = map to_ascii_lower b"

lemma code_lt_256 [simp]: "code c < 256"
  by (cases c) (simp add: code_def of_char_def)

lemma code_char_of [simp]: "n < 256 \<Longrightarrow> code (char_of n) = n"
  by (simp add: code_def)

lemma code_inj: "code a = code b \<longleftrightarrow> a = b"
  by (simp add: code_def)

section \<open>Decimal numbers\<close>

definition digit_char :: "nat \<Rightarrow> char" where
  "digit_char d = char_of (48 + d)"

fun dec_nat :: "nat \<Rightarrow> string" where
  "dec_nat n = (if n < 10 then [digit_char n] else dec_nat (n div 10) @ [digit_char (n mod 10)])"

declare dec_nat.simps [simp del]

definition dec_int :: "int \<Rightarrow> string" where
  "dec_int i = (if i < 0 then CHR ''-'' # dec_nat (nat (- i)) else dec_nat (nat i))"

fun parse_digits :: "nat \<Rightarrow> string \<Rightarrow> nat option" where
  "parse_digits acc [] = Some acc"
| "parse_digits acc (c # cs) =
     (if is_digit c then parse_digits (acc * 10 + (code c - 48)) cs else None)"

text \<open>
  \<^verbatim>\<open>str::parse::<uN>()\<close>: an optional plus sign, at least one digit, nothing else, and a
  value of the type. \<^verbatim>\<open>str::parse::<i64>()\<close> also takes a minus sign.
\<close>

definition parse_unsigned :: "nat \<Rightarrow> string \<Rightarrow> nat option" where
  "parse_unsigned mx s =
     (let ds = (case s of [] \<Rightarrow> [] | c # r \<Rightarrow> if c = CHR ''+'' then r else s)
      in if ds = [] then None
         else case parse_digits 0 ds of
                None \<Rightarrow> None
              | Some n \<Rightarrow> if n \<le> mx then Some n else None)"

definition parse_i64 :: "string \<Rightarrow> int option" where
  "parse_i64 s =
     (case s of
        [] \<Rightarrow> None
      | c # r \<Rightarrow>
          if c = CHR ''-'' then
            (case parse_unsigned (2 ^ 63) (if r \<noteq> [] \<and> hd r = CHR ''+'' then [] else r) of
               None \<Rightarrow> None | Some n \<Rightarrow> Some (- int n))
          else map_option int (parse_unsigned (2 ^ 63 - 1) s))"

lemma code_digit_char: "d < 10 \<Longrightarrow> code (digit_char d) = 48 + d"
  by (simp add: digit_char_def)

lemma is_digit_digit_char [simp]: "d < 10 \<Longrightarrow> is_digit (digit_char d)"
  by (simp add: is_digit_def code_digit_char)

lemma parse_digits_append:
  "parse_digits acc (xs @ ys) =
     (case parse_digits acc xs of None \<Rightarrow> None | Some a \<Rightarrow> parse_digits a ys)"
  by (induction xs arbitrary: acc) auto

lemma dec_nat_ne [simp]: "dec_nat n \<noteq> []"
  by (subst dec_nat.simps) simp

lemma dec_nat_digits: "c \<in> set (dec_nat n) \<Longrightarrow> is_digit c"
proof (induction n rule: dec_nat.induct)
  case (1 n)
  show ?case
  proof (cases "n < 10")
    case True
    with 1 show ?thesis by (simp add: dec_nat.simps[of n])
  next
    case False
    with 1 show ?thesis by (auto simp: dec_nat.simps[of n])
  qed
qed

lemma parse_digits_dec_nat: "parse_digits 0 (dec_nat n) = Some n"
proof (induction n rule: dec_nat.induct)
  case (1 n)
  show ?case
  proof (cases "n < 10")
    case True
    then show ?thesis by (simp add: dec_nat.simps[of n] code_digit_char)
  next
    case False
    with 1 show ?thesis
      by (simp add: dec_nat.simps[of n] parse_digits_append code_digit_char)
  qed
qed

lemma not_digit_signs [simp]: "\<not> is_digit CHR ''+''" "\<not> is_digit CHR ''-''"
  by (simp_all add: is_digit_def code_def)

lemma dec_nat_hd: "\<exists>c r. dec_nat n = c # r \<and> is_digit c"
proof (cases "dec_nat n")
  case Nil
  then show ?thesis by simp
next
  case (Cons c r)
  then show ?thesis using dec_nat_digits[of c n] by auto
qed

lemma parse_unsigned_dec_nat: "n \<le> mx \<Longrightarrow> parse_unsigned mx (dec_nat n) = Some n"
proof -
  assume "n \<le> mx"
  moreover obtain c r where "dec_nat n = c # r" "is_digit c"
    using dec_nat_hd by blast
  moreover have "parse_digits 0 (dec_nat n) = Some n" by (rule parse_digits_dec_nat)
  ultimately show ?thesis by (auto simp: parse_unsigned_def Let_def)
qed

lemma parse_unsigned_le: "parse_unsigned mx s = Some n \<Longrightarrow> n \<le> mx"
  by (auto simp: parse_unsigned_def Let_def split: option.splits if_splits)

lemma parse_i64_dec_int:
  assumes "- (2 ^ 63) \<le> i" "i < 2 ^ 63"
  shows "parse_i64 (dec_int i) = Some i"
proof (cases "i < 0")
  case True
  obtain c r where cr: "dec_nat (nat (- i)) = c # r" "is_digit c"
    using dec_nat_hd by blast
  have "nat (- i) \<le> 2 ^ 63" using assms by simp
  then have "parse_unsigned (2 ^ 63) (dec_nat (nat (- i))) = Some (nat (- i))"
    by (rule parse_unsigned_dec_nat)
  with True cr show ?thesis by (auto simp: parse_i64_def dec_int_def)
next
  case False
  obtain c r where cr: "dec_nat (nat i) = c # r" "is_digit c"
    using dec_nat_hd by blast
  have "nat i \<le> 2 ^ 63 - 1" using assms by simp
  then have "parse_unsigned (2 ^ 63 - 1) (dec_nat (nat i)) = Some (nat i)"
    by (rule parse_unsigned_dec_nat)
  with False cr show ?thesis by (auto simp: parse_i64_def dec_int_def)
qed

section \<open>UTF-8\<close>

text \<open>
  \<^verbatim>\<open>utf8_step\<close> reads the next item of a byte sequence as Rust's decoder does: a
  well-formed character with its length, or an ill-formed sequence with the length of its
  longest prefix that could still start a character.
\<close>

fun utf8_conts :: "(nat \<times> nat) list \<Rightarrow> string \<Rightarrow> nat \<Rightarrow> bool \<times> nat" where
  "utf8_conts [] cs n = (True, n)"
| "utf8_conts (r # rs) [] n = (False, n)"
| "utf8_conts (r # rs) (c # cs) n =
     (if fst r \<le> code c \<and> code c \<le> snd r then utf8_conts rs cs (Suc n) else (False, n))"

fun utf8_step :: "string \<Rightarrow> bool \<times> nat" where
  "utf8_step [] = (True, 0)"
| "utf8_step (c # cs) =
     (let b = code c; t = (128, 191) in
      if b < 128 then (True, 1)
      else if 194 \<le> b \<and> b \<le> 223 then utf8_conts [t] cs 1
      else if b = 224 then utf8_conts [(160, 191), t] cs 1
      else if b = 237 then utf8_conts [(128, 159), t] cs 1
      else if 225 \<le> b \<and> b \<le> 239 then utf8_conts [t, t] cs 1
      else if b = 240 then utf8_conts [(144, 191), t, t] cs 1
      else if 241 \<le> b \<and> b \<le> 243 then utf8_conts [t, t, t] cs 1
      else if b = 244 then utf8_conts [(128, 143), t, t] cs 1
      else (False, 1))"

declare utf8_step.simps [simp del]

fun utf8_chunks :: "string \<Rightarrow> (bool \<times> string) list" where
  "utf8_chunks [] = []"
| "utf8_chunks (c # cs) =
     (let r = utf8_step (c # cs)
      in (fst r, c # take (snd r - 1) cs) # utf8_chunks (drop (snd r - 1) cs))"

definition utf8_valid :: "string \<Rightarrow> bool" where
  "utf8_valid s \<longleftrightarrow> list_all fst (utf8_chunks s)"

text \<open>\<^verbatim>\<open>str::chars()\<close>: the characters, each as its own bytes.\<close>

definition utf8_chars :: "string \<Rightarrow> string list" where
  "utf8_chars s = map snd (utf8_chunks s)"

definition replacement_char :: string where
  "replacement_char = [char_of (239::nat), char_of (191::nat), char_of (189::nat)]"

text \<open>\<^verbatim>\<open>String::from_utf8\<close> and \<^verbatim>\<open>String::from_utf8_lossy\<close>.\<close>

definition from_utf8 :: "string \<Rightarrow> string option" where
  "from_utf8 s = (if utf8_valid s then Some s else None)"

definition utf8_lossy :: "string \<Rightarrow> string" where
  "utf8_lossy s = concat (map (\<lambda>p. if fst p then snd p else replacement_char) (utf8_chunks s))"

lemma utf8_chars_simps [simp]: "utf8_chars [] = []"
  by (simp add: utf8_chars_def)

lemma concat_utf8_chars [simp]: "concat (utf8_chars s) = s"
  unfolding utf8_chars_def by (induction s rule: utf8_chunks.induct) (auto simp: Let_def)

lemma utf8_chars_nonempty: "c \<in> set (utf8_chars s) \<Longrightarrow> c \<noteq> []"
  unfolding utf8_chars_def by (induction s rule: utf8_chunks.induct) (auto simp: Let_def)

lemma utf8_chars_eq_Nil [simp]: "utf8_chars s = [] \<longleftrightarrow> s = []"
  by (metis concat.simps(1) concat_utf8_chars utf8_chars_simps)

lemma utf8_lossy_valid: "utf8_valid s \<Longrightarrow> utf8_lossy s = s"
proof -
  assume v: "utf8_valid s"
  then have "map (\<lambda>p. if fst p then snd p else replacement_char) (utf8_chunks s) =
      map snd (utf8_chunks s)"
    by (auto simp: utf8_valid_def list_all_iff)
  then have "utf8_lossy s = concat (utf8_chars s)"
    by (simp only: utf8_lossy_def utf8_chars_def)
  then show ?thesis by simp
qed

definition is_ascii_str :: "string \<Rightarrow> bool" where
  "is_ascii_str s \<longleftrightarrow> list_all (\<lambda>c. code c < 128) s"

lemma utf8_chunks_ascii: "is_ascii_str s \<Longrightarrow> utf8_chunks s = map (\<lambda>c. (True, [c])) s"
  by (induction s) (auto simp: is_ascii_str_def Let_def utf8_step.simps(2))

lemma utf8_valid_ascii: "is_ascii_str s \<Longrightarrow> utf8_valid s"
  by (simp add: utf8_valid_def utf8_chunks_ascii list_all_iff)

lemma utf8_chars_ascii: "is_ascii_str s \<Longrightarrow> utf8_chars s = map (\<lambda>c. [c]) s"
  by (simp add: utf8_chars_def utf8_chunks_ascii comp_def)

text \<open>\<^verbatim>\<open>char::is_whitespace()\<close> (the Unicode property), by the bytes of the character.\<close>

definition is_ws :: "string \<Rightarrow> bool" where
  "is_ws c \<longleftrightarrow>
     (case map code c of
        [a] \<Rightarrow> (9 \<le> a \<and> a \<le> 13) \<or> a = 32
      | [a, b] \<Rightarrow> a = 194 \<and> (b = 133 \<or> b = 160)
      | [a, b, d] \<Rightarrow>
          (a = 225 \<and> b = 154 \<and> d = 128)
          \<or> (a = 226 \<and> b = 128 \<and> ((128 \<le> d \<and> d \<le> 138) \<or> d = 168 \<or> d = 169 \<or> d = 175))
          \<or> (a = 226 \<and> b = 129 \<and> d = 159)
          \<or> (a = 227 \<and> b = 128 \<and> d = 128)
      | _ \<Rightarrow> False)"

text \<open>\<^verbatim>\<open>str::trim()\<close>, and \<^verbatim>\<open>str::trim().is_empty()\<close>, the emptiness test of every validator.\<close>

definition str_trim :: "string \<Rightarrow> string" where
  "str_trim s = concat (rev (dropWhile is_ws (rev (dropWhile is_ws (utf8_chars s)))))"

definition blank :: "string \<Rightarrow> bool" where
  "blank s \<longleftrightarrow> str_trim s = []"

lemma blank_Nil [simp]: "blank []"
  by (simp add: blank_def str_trim_def)

lemma concat_nonempty_Nil: "[] \<notin> set xss \<Longrightarrow> concat xss = [] \<longleftrightarrow> xss = []"
  by (cases xss) auto

lemma blank_iff: "blank s \<longleftrightarrow> (\<forall>c\<in>set (utf8_chars s). is_ws c)"
proof -
  let ?t = "dropWhile is_ws (utf8_chars s)"
  have ne: "[] \<notin> set (rev (dropWhile is_ws (rev ?t)))"
    using utf8_chars_nonempty by (metis set_dropWhileD set_rev)
  have "blank s \<longleftrightarrow> rev (dropWhile is_ws (rev ?t)) = []"
    using concat_nonempty_Nil[OF ne] unfolding blank_def str_trim_def .
  also have "\<dots> \<longleftrightarrow> (\<forall>c\<in>set ?t. is_ws c)" by (simp add: dropWhile_eq_Nil_conv)
  also have "\<dots> \<longleftrightarrow> ?t = []"
    by (metis dropWhile_eq_Nil_conv dropWhile_idem empty_iff empty_set)
  finally show ?thesis by (simp add: dropWhile_eq_Nil_conv)
qed

lemma not_blank_ne: "\<not> blank s \<Longrightarrow> s \<noteq> []"
  by auto

text \<open>
  \<^verbatim>\<open>BufRead::lines()\<close>: lines end at a line feed, a carriage return before it is dropped, and
  an unterminated rest is a line of its own.
\<close>

definition LF :: char where "LF = CHR 0x0A"
definition CR :: char where "CR = CHR 0x0D"

definition strip_cr :: "string \<Rightarrow> string" where
  "strip_cr l = (if l \<noteq> [] \<and> last l = CR then butlast l else l)"

fun split_lines :: "string \<Rightarrow> string \<Rightarrow> string list" where
  "split_lines acc [] = (if acc = [] then [] else [rev acc])"
| "split_lines acc (c # cs) =
     (if c = LF then strip_cr (rev acc) # split_lines [] cs else split_lines (c # acc) cs)"

definition lines_of :: "string \<Rightarrow> string list" where
  "lines_of s = split_lines [] s"

lemma split_lines_line:
  "LF \<notin> set l \<Longrightarrow> split_lines acc (l @ LF # s) = strip_cr (rev acc @ l) # lines_of s"
  by (induction l arbitrary: acc) (auto simp: lines_of_def)

lemma lines_of_line: "LF \<notin> set l \<Longrightarrow> lines_of (l @ LF # s) = strip_cr l # lines_of s"
  using split_lines_line[of l "[]" s] by (simp add: lines_of_def)

lemma lines_of_Nil [simp]: "lines_of [] = []"
  by (simp add: lines_of_def)

lemma lines_of_concat:
  assumes "\<forall>l\<in>set ls. LF \<notin> set l \<and> (l = [] \<or> last l \<noteq> CR)"
  shows "lines_of (concat (map (\<lambda>l. l @ [LF]) ls) @ s) = ls @ lines_of s"
  using assms
proof (induction ls)
  case Nil
  then show ?case by simp
next
  case (Cons l ls)
  then have "lines_of (l @ LF # concat (map (\<lambda>l. l @ [LF]) ls) @ s) =
      strip_cr l # lines_of (concat (map (\<lambda>l. l @ [LF]) ls) @ s)"
    by (intro lines_of_line) simp
  with Cons show ?case by (auto simp: strip_cr_def)
qed

section \<open>Evaluation\<close>

text \<open>Short cuts for evaluating the two tests on ASCII text by rewriting.\<close>

fun ascii_bits :: "char \<Rightarrow> bool" where
  "ascii_bits (Char b0 b1 b2 b3 b4 b5 b6 b7) \<longleftrightarrow> \<not> b7"

fun letter_bits :: "char \<Rightarrow> bool" where
  "letter_bits (Char b0 b1 b2 b3 b4 b5 b6 b7) \<longleftrightarrow> \<not> b7 \<and> b6"

lemma ascii_bits_code: "ascii_bits c \<longleftrightarrow> code c < 128"
  by (cases c) (auto simp: code_def of_char_def split: if_splits)

lemma letter_bits_code: "letter_bits c \<longleftrightarrow> 64 \<le> code c \<and> code c < 128"
  by (cases c) (auto simp: code_def of_char_def split: if_splits)

lemma utf8_valid_code [code]:
  "utf8_valid s \<longleftrightarrow> (if list_all ascii_bits s then True else list_all fst (utf8_chunks s))"
proof -
  have "ascii_bits = (\<lambda>c. code c < 128)" using ascii_bits_code by blast
  then have "list_all ascii_bits s \<Longrightarrow> utf8_valid s"
    by (intro utf8_valid_ascii) (simp add: is_ascii_str_def)
  then show ?thesis by (auto simp: utf8_valid_def)
qed

lemma blank_code [code]:
  "blank s \<longleftrightarrow> (if list_all ascii_bits s \<and> list_ex letter_bits s then False else str_trim s = [])"
proof -
  have "\<not> blank s" if a: "list_all ascii_bits s" and l: "list_ex letter_bits s"
  proof -
    have "is_ascii_str s" using a ascii_bits_code by (auto simp: is_ascii_str_def list_all_iff)
    moreover obtain c where "c \<in> set s" "letter_bits c" using l by (auto simp: list_ex_iff)
    moreover have "\<not> is_ws [c]" using \<open>letter_bits c\<close> letter_bits_code[of c] by (auto simp: is_ws_def)
    ultimately show ?thesis by (auto simp: blank_iff utf8_chars_ascii)
  qed
  then show ?thesis by (auto simp: blank_def)
qed

end
