(* ===== verification/Resp.thy ===== *)
theory Resp
  imports Prelude
begin

text \<open>
  The RESP2 codec of \<^verbatim>\<open>src/redis.rs\<close>: \<^verbatim>\<open>RedisError\<close>, \<^verbatim>\<open>RespValue\<close> with its typed
  accessors, \<^verbatim>\<open>encode_command\<close> and the recursive reader \<^verbatim>\<open>read_resp\<close>. The stream that
  \<^verbatim>\<open>R: Read\<close> delivers is the string of bytes still to come; when it runs out,
  \<^verbatim>\<open>read_exact\<close> fails. The reader is bounded in nesting, line length and bulk length.
\<close>

section \<open>Errors and replies\<close>

datatype redis_error =
    RInvalid string
  | RIo string
  | RProtocol string
  | RJson string
  | RConflict nat nat

datatype resp =
    Simple string
  | Error string
  | Integer int
  | Bulk "string option"
  | Array "resp list option"

definition MAX_RESP_LINE_BYTES :: nat where
  "MAX_RESP_LINE_BYTES = 64 * 1024"

definition MAX_RESP_BULK_BYTES :: nat where
  "MAX_RESP_BULK_BYTES = 32 * 1024 * 1024"

definition MAX_RESP_DEPTH :: nat where
  "MAX_RESP_DEPTH = 16"

section \<open>Typed accessors\<close>

fun into_success :: "string \<Rightarrow> resp \<Rightarrow> redis_error + unit" where
  "into_success cmd (Simple v) = Inr ()"
| "into_success cmd (Integer v) = Inr ()"
| "into_success cmd r = Inl (RProtocol (cmd @ '' returned an unsuccessful response''))"

fun into_integer_or_success :: "string \<Rightarrow> resp \<Rightarrow> redis_error + unit" where
  "into_integer_or_success cmd (Integer v) = Inr ()"
| "into_integer_or_success cmd (Simple v) = Inr ()"
| "into_integer_or_success cmd r =
     Inl (RProtocol (cmd @ '' returned neither an integer nor a success response''))"

fun into_integer :: "string \<Rightarrow> resp \<Rightarrow> redis_error + int" where
  "into_integer cmd (Integer v) = Inr v"
| "into_integer cmd r = Inl (RProtocol (cmd @ '' returned a non-integer response''))"

fun into_bulk :: "string \<Rightarrow> resp \<Rightarrow> redis_error + string option" where
  "into_bulk cmd (Bulk v) = Inr v"
| "into_bulk cmd r = Inl (RProtocol (cmd @ '' returned a non-bulk response''))"

fun into_array :: "string \<Rightarrow> resp \<Rightarrow> redis_error + resp list" where
  "into_array cmd (Array (Some vs)) = Inr vs"
| "into_array cmd (Array None) = Inr []"
| "into_array cmd r = Inl (RProtocol (cmd @ '' returned a non-array response''))"

section \<open>Requests\<close>

definition CRLF :: string where "CRLF = [CR, LF]"

definition encode_argument :: "string \<Rightarrow> string" where
  "encode_argument a = ''$'' @ dec_nat (length a) @ CRLF @ a @ CRLF"

definition encode_command :: "string list \<Rightarrow> string" where
  "encode_command args =
     ''*'' @ dec_nat (length args) @ CRLF @ concat (map encode_argument args)"

section \<open>The reader\<close>

definition read_exact_bytes :: "nat \<Rightarrow> (string, redis_error, string) sm" where
  "read_exact_bytes n = (\<lambda>s.
     if n \<le> length s then (Inr (take n s), drop n s) else (Inl (RIo ''UnexpectedEof''), []))"

fun read_resp_line_loop :: "string \<Rightarrow> (string, redis_error, string) sm" where
  "read_resp_line_loop line [] = (Inl (RIo ''UnexpectedEof''), [])"
| "read_resp_line_loop line (b # s) =
     (if b = LF then
        (if line \<noteq> [] \<and> last line = CR then (Inr (butlast line), s)
         else (Inl (RProtocol ''RESP line is missing CRLF''), s))
      else if MAX_RESP_LINE_BYTES < length (line @ [b]) then
        (Inl (RProtocol ''RESP line is too large''), s)
      else read_resp_line_loop (line @ [b]) s)"

definition read_resp_line :: "(string, redis_error, string) sm" where
  "read_resp_line = read_resp_line_loop []"

definition parse_resp_int :: "string \<Rightarrow> string \<Rightarrow> redis_error + int" where
  "parse_resp_int msg line =
     (case parse_i64 (utf8_lossy line) of None \<Rightarrow> Inl (RProtocol msg) | Some v \<Rightarrow> Inr v)"

text \<open>
  \<^verbatim>\<open>usize::try_from\<close> of a non-negative \<^verbatim>\<open>i64\<close> cannot fail on the 64-bit targets of the
  program, so its branch is left out.
\<close>

function read_resp :: "nat \<Rightarrow> (string, redis_error, resp) sm"
  and read_values :: "nat \<Rightarrow> nat \<Rightarrow> (string, redis_error, resp list) sm" where
  "read_resp d =
     (if MAX_RESP_DEPTH < d then sfail (RProtocol ''RESP nesting is too deep'')
      else sbind (read_exact_bytes 1) (\<lambda>p.
        let prefix = hd p in
        if prefix = CHR ''+'' then sbind read_resp_line (\<lambda>l. sret (Simple l))
        else if prefix = CHR ''-'' then sbind read_resp_line (\<lambda>l. sret (Error (utf8_lossy l)))
        else if prefix = CHR '':'' then
          sbind read_resp_line (\<lambda>l.
            sbind (slift (parse_resp_int ''RESP integer is invalid'' l)) (\<lambda>v. sret (Integer v)))
        else if prefix = CHR ''$'' then
          sbind read_resp_line (\<lambda>l.
            sbind (slift (parse_resp_int ''RESP bulk length is invalid'' l)) (\<lambda>n.
              if n < 0 then sret (Bulk None)
              else if int MAX_RESP_BULK_BYTES < n then
                sfail (RProtocol ''RESP bulk value is too large'')
              else sbind (read_exact_bytes (nat n)) (\<lambda>v.
                sbind (read_exact_bytes 2) (\<lambda>t.
                  if t \<noteq> CRLF then sfail (RProtocol ''RESP bulk value is missing CRLF'')
                  else sret (Bulk (Some v))))))
        else if prefix = CHR ''*'' then
          sbind read_resp_line (\<lambda>l.
            sbind (slift (parse_resp_int ''RESP array length is invalid'' l)) (\<lambda>n.
              if n < 0 then sret (Array None)
              else if int MAX_RESP_BULK_BYTES < n then
                sfail (RProtocol ''RESP array is too large'')
              else sbind (read_values d (nat n)) (\<lambda>vs. sret (Array (Some vs)))))
        else sfail (RProtocol ''RESP response has an unknown prefix'')))"
| "read_values d n =
     (if n = 0 then sret []
      else sbind (read_resp (Suc d)) (\<lambda>v.
        sbind (read_values d (n - 1)) (\<lambda>vs. sret (v # vs))))"
  by pat_completeness auto
termination
  by (relation
      "measures
        [\<lambda>x. case x of Inl d \<Rightarrow> Suc MAX_RESP_DEPTH - d | Inr p \<Rightarrow> Suc MAX_RESP_DEPTH - fst p,
         \<lambda>x. case x of Inl d \<Rightarrow> if MAX_RESP_DEPTH < d then 0 else 2 | Inr p \<Rightarrow> 1,
         \<lambda>x. case x of Inl d \<Rightarrow> 0 | Inr p \<Rightarrow> snd p]")
    auto

declare read_resp.simps [simp del] read_values.simps [simp del]

section \<open>The wire format of a reply\<close>

text \<open>
  What a RESP2 server sends for a reply, and the replies within the reader's limits. Both
  are specifications: the source only reads replies.
\<close>

fun resp_bytes :: "resp \<Rightarrow> string" where
  "resp_bytes (Simple l) = ''+'' @ l @ CRLF"
| "resp_bytes (Error e) = ''-'' @ e @ CRLF"
| "resp_bytes (Integer i) = '':'' @ dec_int i @ CRLF"
| "resp_bytes (Bulk None) = ''$-1'' @ CRLF"
| "resp_bytes (Bulk (Some b)) = ''$'' @ dec_nat (length b) @ CRLF @ b @ CRLF"
| "resp_bytes (Array None) = ''*-1'' @ CRLF"
| "resp_bytes (Array (Some vs)) =
     ''*'' @ dec_nat (length vs) @ CRLF @ concat (map resp_bytes vs)"

definition line_ok :: "string \<Rightarrow> bool" where
  "line_ok l \<longleftrightarrow> LF \<notin> set l \<and> length l < MAX_RESP_LINE_BYTES"

fun resp_ok :: "nat \<Rightarrow> resp \<Rightarrow> bool" where
  "resp_ok d (Simple l) \<longleftrightarrow> d \<le> MAX_RESP_DEPTH \<and> line_ok l"
| "resp_ok d (Error e) \<longleftrightarrow> d \<le> MAX_RESP_DEPTH \<and> line_ok e \<and> utf8_valid e"
| "resp_ok d (Integer i) \<longleftrightarrow> d \<le> MAX_RESP_DEPTH \<and> - (2 ^ 63) \<le> i \<and> i < 2 ^ 63"
| "resp_ok d (Bulk None) \<longleftrightarrow> d \<le> MAX_RESP_DEPTH"
| "resp_ok d (Bulk (Some b)) \<longleftrightarrow> d \<le> MAX_RESP_DEPTH \<and> length b \<le> MAX_RESP_BULK_BYTES"
| "resp_ok d (Array None) \<longleftrightarrow> d \<le> MAX_RESP_DEPTH"
| "resp_ok d (Array (Some vs)) \<longleftrightarrow>
     d \<le> MAX_RESP_DEPTH \<and> length vs \<le> MAX_RESP_BULK_BYTES \<and> list_all (resp_ok (Suc d)) vs"

lemma encode_argument_bytes: "encode_argument a = resp_bytes (Bulk (Some a))"
  by (simp add: encode_argument_def)

lemma encode_command_bytes:
  "encode_command args = resp_bytes (Array (Some (map (\<lambda>a. Bulk (Some a)) args)))"
  by (simp add: encode_command_def encode_argument_def[abs_def] comp_def)

section \<open>Reading what was written\<close>

lemma CR_LF [simp]: "CR \<noteq> LF" "LF \<noteq> CR"
  by (simp_all add: CR_def LF_def)

lemma read_exact_bytes_append [simp]:
  "n = length b \<Longrightarrow> read_exact_bytes n (b @ s) = (Inr b, s)"
  by (simp add: read_exact_bytes_def)

lemma read_line_loop_append:
  assumes "LF \<notin> set l" "length acc + length l < MAX_RESP_LINE_BYTES"
  shows "read_resp_line_loop acc (l @ CRLF @ s) = (Inr (acc @ l), s)"
  using assms
proof (induction l arbitrary: acc)
  case Nil
  then show ?case by (simp add: CRLF_def)
next
  case (Cons c l)
  then have "read_resp_line_loop (acc @ [c]) (l @ CRLF @ s) = (Inr ((acc @ [c]) @ l), s)"
    by (intro Cons.IH) auto
  with Cons.prems show ?case by auto
qed

lemma read_resp_line_append:
  "line_ok l \<Longrightarrow> read_resp_line (l @ CRLF @ s) = (Inr l, s)"
  using read_line_loop_append[of l "[]" s] by (simp add: read_resp_line_def line_ok_def)

lemma digits_line:
  assumes "\<forall>c\<in>set l. is_digit c \<or> c = CHR ''-''" "length l < MAX_RESP_LINE_BYTES"
  shows "line_ok l"
proof -
  have "\<not> is_digit LF" by (simp add: is_digit_def LF_def code_def)
  moreover have "LF \<noteq> CHR ''-''" by (simp add: LF_def)
  ultimately show ?thesis using assms by (auto simp: line_ok_def)
qed

lemma digit_ascii: "is_digit c \<Longrightarrow> code c < 128"
  by (simp add: is_digit_def)

lemma utf8_lossy_digits:
  assumes "\<forall>c\<in>set l. is_digit c \<or> c = CHR ''-''"
  shows "utf8_lossy l = l"
proof -
  have "code CHR ''-'' < 128" by (simp add: code_def)
  then have "is_ascii_str l"
    using assms digit_ascii by (auto simp: is_ascii_str_def list_all_iff)
  then show ?thesis by (simp add: utf8_lossy_valid utf8_valid_ascii)
qed

text \<open>A 64-bit number has few digits: every decimal digit is worth at least three bits.\<close>

lemma length_dec_nat: "n < 10 ^ Suc k \<Longrightarrow> length (dec_nat n) \<le> Suc k"
proof (induction k arbitrary: n)
  case 0
  then show ?case by (simp add: dec_nat.simps[of n])
next
  case (Suc k)
  have "n div 10 < 10 ^ Suc k" using Suc.prems by (simp add: less_mult_imp_div_less)
  with Suc.IH show ?case by (auto simp: dec_nat.simps[of n])
qed

lemma dec_int_chars: "c \<in> set (dec_int i) \<Longrightarrow> is_digit c \<or> c = CHR ''-''"
  by (auto simp: dec_int_def dest: dec_nat_digits split: if_splits)

lemma length_dec_int:
  assumes "- (2 ^ 63) \<le> i" "i < 2 ^ 63"
  shows "length (dec_int i) \<le> 21"
proof -
  have "nat i < 10 ^ Suc 19" "nat (- i) < 10 ^ Suc 19" using assms by simp_all
  then have "length (dec_nat (nat i)) \<le> Suc 19" "length (dec_nat (nat (- i))) \<le> Suc 19"
    by (blast intro: length_dec_nat)+
  then show ?thesis by (auto simp: dec_int_def)
qed

lemma parse_resp_int_dec_int:
  assumes "- (2 ^ 63) \<le> i" "i < 2 ^ 63"
  shows "parse_resp_int msg (dec_int i) = Inr i"
  using parse_i64_dec_int[OF assms] utf8_lossy_digits[of "dec_int i"] dec_int_chars
  by (auto simp: parse_resp_int_def)

lemma line_ok_dec_int:
  assumes "- (2 ^ 63) \<le> i" "i < 2 ^ 63"
  shows "line_ok (dec_int i)"
  using length_dec_int[OF assms] dec_int_chars
  by (intro digits_line) (auto simp: MAX_RESP_LINE_BYTES_def)

lemma dec_int_int [simp]: "dec_int (int n) = dec_nat n"
  by (simp add: dec_int_def)

lemma read_header:
  assumes "- (2 ^ 63) \<le> i" "i < 2 ^ 63"
  shows "read_resp_line (dec_int i @ CRLF @ s) = (Inr (dec_int i), s)"
  by (rule read_resp_line_append[OF line_ok_dec_int[OF assms]])

lemma read_prefix [simp]: "read_exact_bytes 1 (c # s) = (Inr [c], s)"
  by (simp add: read_exact_bytes_def)

lemma read_prefix_Suc [simp]: "read_exact_bytes (Suc 0) (c # s) = (Inr [c], s)"
  by (simp add: read_exact_bytes_def)

lemma minus_one_header: "''-1'' = dec_int (-1)"
  by code_simp

lemma read_simple:
  assumes "d \<le> MAX_RESP_DEPTH" "line_ok l"
  shows "read_resp d (resp_bytes (Simple l) @ s) = (Inr (Simple l), s)"
  using assms read_resp_line_append[of l s]
  by (simp add: read_resp.simps[of d] sbind_def sret_def)

lemma read_error:
  assumes "d \<le> MAX_RESP_DEPTH" "line_ok l" "utf8_valid l"
  shows "read_resp d (resp_bytes (Error l) @ s) = (Inr (Error l), s)"
  using assms read_resp_line_append[of l s]
  by (simp add: read_resp.simps[of d] sbind_def sret_def utf8_lossy_valid)

lemma read_integer:
  assumes "d \<le> MAX_RESP_DEPTH" "- (2 ^ 63) \<le> i" "i < 2 ^ 63"
  shows "read_resp d (resp_bytes (Integer i) @ s) = (Inr (Integer i), s)"
  using assms read_header[of i s] parse_resp_int_dec_int[of i]
  by (simp add: read_resp.simps[of d] sbind_def sret_def slift_def)

lemma read_bulk:
  assumes "d \<le> MAX_RESP_DEPTH" "length b \<le> MAX_RESP_BULK_BYTES"
  shows "read_resp d (resp_bytes (Bulk (Some b)) @ s) = (Inr (Bulk (Some b)), s)"
proof -
  have r: "- (2 ^ 63) \<le> int (length b)" "int (length b) < 2 ^ 63"
    using assms by (simp_all add: MAX_RESP_BULK_BYTES_def)
  have "read_exact_bytes 2 (CRLF @ s) = (Inr CRLF, s)"
    by (rule read_exact_bytes_append) (simp add: CRLF_def)
  with assms r read_header[of "int (length b)" "b @ CRLF @ s"]
    parse_resp_int_dec_int[of "int (length b)"]
  show ?thesis by (simp add: read_resp.simps[of d] sbind_def sret_def slift_def)
qed

lemma read_null:
  assumes "d \<le> MAX_RESP_DEPTH"
  shows "read_resp d (resp_bytes (Bulk None) @ s) = (Inr (Bulk None), s)"
    and "read_resp d (resp_bytes (Array None) @ s) = (Inr (Array None), s)"
  using assms read_header[of "-1" s] parse_resp_int_dec_int[of "-1"]
  by (simp_all add: read_resp.simps[of d] sbind_def sret_def slift_def minus_one_header[symmetric])

lemma read_values_append:
  assumes "\<forall>v\<in>set vs. \<forall>s. read_resp (Suc d) (resp_bytes v @ s) = (Inr v, s)"
  shows "read_values d (length vs) (concat (map resp_bytes vs) @ s) = (Inr vs, s)"
  using assms
proof (induction vs)
  case Nil
  then show ?case by (simp add: read_values.simps[of d 0] sret_def)
next
  case (Cons v vs)
  then show ?case by (simp add: read_values.simps[of d "Suc (length vs)"] sbind_def sret_def)
qed

lemma read_array:
  assumes "d \<le> MAX_RESP_DEPTH" "length vs \<le> MAX_RESP_BULK_BYTES"
    and "\<forall>v\<in>set vs. \<forall>s. read_resp (Suc d) (resp_bytes v @ s) = (Inr v, s)"
  shows "read_resp d (resp_bytes (Array (Some vs)) @ s) = (Inr (Array (Some vs)), s)"
proof -
  have r: "- (2 ^ 63) \<le> int (length vs)" "int (length vs) < 2 ^ 63"
    using assms by (simp_all add: MAX_RESP_BULK_BYTES_def)
  with assms read_header[of "int (length vs)" "concat (map resp_bytes vs) @ s"]
    parse_resp_int_dec_int[of "int (length vs)"] read_values_append[OF assms(3), of s]
  show ?thesis by (simp add: read_resp.simps[of d] sbind_def sret_def slift_def)
qed

lemma read_resp_bytes: "resp_ok d v \<Longrightarrow> read_resp d (resp_bytes v @ s) = (Inr v, s)"
proof (induction v arbitrary: d s)
  case (Bulk b)
  then show ?case by (cases b) (auto simp: read_bulk read_null simp del: resp_bytes.simps)
next
  case (Array vs)
  show ?case
  proof (cases vs)
    case None
    with Array.prems show ?thesis by (simp add: read_null del: resp_bytes.simps)
  next
    case (Some ws)
    with Array.prems have ok: "d \<le> MAX_RESP_DEPTH" "length ws \<le> MAX_RESP_BULK_BYTES"
      "\<forall>w\<in>set ws. resp_ok (Suc d) w" by (auto simp: list_all_iff)
    with Array.IH Some show ?thesis
      by (auto intro!: read_array simp del: resp_bytes.simps)
  qed
qed (auto simp: read_simple read_error read_integer simp del: resp_bytes.simps)

section \<open>Framing: the reader takes one reply and leaves the rest\<close>

text \<open>
  A reader is framed when the bytes it consumed determine what it returned: whatever
  follows them is left untouched. Framing is closed under sequencing.
\<close>

definition framed :: "(string, redis_error, 'a) sm \<Rightarrow> bool" where
  "framed m \<longleftrightarrow>
     (\<forall>s v r. m s = (Inr v, r) \<longrightarrow> (\<exists>p. s = p @ r \<and> (\<forall>t. m (p @ t) = (Inr v, t))))"

lemma framedD: "framed m \<Longrightarrow> m s = (Inr v, r) \<Longrightarrow> \<exists>p. s = p @ r \<and> (\<forall>t. m (p @ t) = (Inr v, t))"
  by (auto simp: framed_def)

lemma framed_sret [intro]: "framed (sret a)"
  by (auto simp: framed_def sret_def)

lemma framed_sfail [intro]: "framed (sfail e)"
  by (auto simp: framed_def sfail_def)

lemma framed_slift [intro]: "framed (slift r)"
  by (auto simp: framed_def slift_def)

lemma framed_sbind [intro]:
  assumes m: "framed m" and f: "\<And>a. framed (f a)"
  shows "framed (sbind m f)"
  unfolding framed_def
proof (intro allI impI)
  fix s v r
  assume "sbind m f s = (Inr v, r)"
  then obtain a u where a: "m s = (Inr a, u)" and b: "f a u = (Inr v, r)"
    by (auto simp: sbind_Inr_iff)
  obtain p where p: "s = p @ u" "\<forall>t. m (p @ t) = (Inr a, t)"
    using framedD[OF m a] by blast
  obtain q where q: "u = q @ r" "\<forall>t. f a (q @ t) = (Inr v, t)"
    using framedD[OF f b] by blast
  have "\<forall>t. sbind m f ((p @ q) @ t) = (Inr v, t)"
    using p(2) q(2) by (simp add: sbind_def)
  with p(1) q(1) show "\<exists>p. s = p @ r \<and> (\<forall>t. sbind m f (p @ t) = (Inr v, t))"
    by (intro exI[of _ "p @ q"]) simp
qed

lemma framed_if [intro]: "framed a \<Longrightarrow> framed b \<Longrightarrow> framed (if c then a else b)"
  by simp

lemma framed_read_exact [intro]: "framed (read_exact_bytes n)"
  unfolding framed_def
proof (intro allI impI)
  fix s v r
  assume "read_exact_bytes n s = (Inr v, r)"
  then have "n \<le> length s" "v = take n s" "r = drop n s"
    by (auto simp: read_exact_bytes_def split: if_splits)
  then show "\<exists>p. s = p @ r \<and> (\<forall>t. read_exact_bytes n (p @ t) = (Inr v, t))"
    by (intro exI[of _ "take n s"]) simp
qed

lemma framed_line_loop: "framed (read_resp_line_loop acc)"
  unfolding framed_def
proof (intro allI impI)
  fix s v r
  show "read_resp_line_loop acc s = (Inr v, r) \<Longrightarrow>
      \<exists>p. s = p @ r \<and> (\<forall>t. read_resp_line_loop acc (p @ t) = (Inr v, t))"
  proof (induction acc s rule: read_resp_line_loop.induct)
    case (1 acc)
    then show ?case by simp
  next
    case (2 acc b s)
    show ?case
    proof (cases "b = LF")
      case True
      with 2(2) show ?thesis by (intro exI[of _ "[b]"]) (auto split: if_splits)
    next
      case False
      with 2 obtain p where "s = p @ r" "\<forall>t. read_resp_line_loop (acc @ [b]) (p @ t) = (Inr v, t)"
        by (auto split: if_splits)
      with False 2(2) show ?thesis by (intro exI[of _ "b # p"]) (auto split: if_splits)
    qed
  qed
qed

lemma framed_read_line [intro]: "framed read_resp_line"
  unfolding read_resp_line_def by (rule framed_line_loop)

lemma framed_read_values:
  assumes "framed (read_resp (Suc d))"
  shows "framed (read_values d n)"
proof (induction n)
  case 0
  then show ?case by (auto simp: read_values.simps[of d 0])
next
  case (Suc n)
  with assms show ?case by (auto simp: read_values.simps[of d "Suc n"])
qed

text \<open>Both readers recurse one level deeper; the induction is on the levels left.\<close>

lemma depth_induct [case_names deeper]:
  assumes "\<And>d. (d \<le> MAX_RESP_DEPTH \<Longrightarrow> P (Suc d)) \<Longrightarrow> P d"
  shows "P d"
proof (induction "Suc MAX_RESP_DEPTH - d" arbitrary: d rule: less_induct)
  case less
  show ?case by (rule assms, rule less) simp
qed

lemma framed_read_resp: "framed (read_resp d)"
proof (induction d rule: depth_induct)
  case (deeper d)
  show ?case
  proof (cases "d \<le> MAX_RESP_DEPTH")
    case True
    with deeper have "framed (read_values d n)" for n by (simp add: framed_read_values)
    then show ?thesis unfolding read_resp.simps[of d] Let_def
      by (intro framed_if framed_sbind framed_sret framed_sfail framed_slift framed_read_exact
          framed_read_line)
  next
    case False
    then show ?thesis by (auto simp: read_resp.simps[of d])
  qed
qed

text \<open>
  C3. Framing of replies. A reply that was read is determined by a non-empty prefix of the
  stream, and the reader leaves everything after that prefix for the next reply. This is
  what makes pipelining sound: reply \<open>k\<close> never sees the bytes of reply \<open>k + 1\<close>.
\<close>

theorem read_resp_framed:
  assumes "read_resp d s = (Inr v, r)"
  shows "\<exists>p. p \<noteq> [] \<and> s = p @ r \<and> (\<forall>t. read_resp d (p @ t) = (Inr v, t))"
proof -
  obtain p where p: "s = p @ r" "\<forall>t. read_resp d (p @ t) = (Inr v, t)"
    using framedD[OF framed_read_resp assms] by blast
  have "read_resp d [] \<noteq> (Inr v, [])"
    by (simp add: read_resp.simps[of d] sbind_def sfail_def read_exact_bytes_def)
  then have "p \<noteq> []" using p(2) by (metis append_Nil2)
  with p show ?thesis by blast
qed

theorem read_resp_framed_witness:
  "read_resp 0 (resp_bytes (Integer 7) @ ''+'') = (Inr (Integer 7), ''+'') \<and>
   (\<exists>p. p \<noteq> [] \<and> resp_bytes (Integer 7) @ ''+'' = p @ ''+'' \<and> (\<forall>t. read_resp 0 (p @ t) = (Inr (Integer 7), t)))"
proof -
  have "read_resp 0 (resp_bytes (Integer 7) @ ''+'') = (Inr (Integer 7), ''+'')"
    by (rule read_resp_bytes) (simp add: MAX_RESP_DEPTH_def)
  with read_resp_framed[OF this] show ?thesis by blast
qed

section \<open>Bounds on what the reader accepts\<close>

fun within_limits :: "nat \<Rightarrow> resp \<Rightarrow> bool" where
  "within_limits d (Simple l) \<longleftrightarrow> d \<le> MAX_RESP_DEPTH \<and> length l < MAX_RESP_LINE_BYTES"
| "within_limits d (Error e) \<longleftrightarrow> d \<le> MAX_RESP_DEPTH"
| "within_limits d (Integer i) \<longleftrightarrow> d \<le> MAX_RESP_DEPTH \<and> - (2 ^ 63) \<le> i \<and> i < 2 ^ 63"
| "within_limits d (Bulk b) \<longleftrightarrow>
     d \<le> MAX_RESP_DEPTH \<and> (case b of None \<Rightarrow> True | Some v \<Rightarrow> length v \<le> MAX_RESP_BULK_BYTES)"
| "within_limits d (Array None) \<longleftrightarrow> d \<le> MAX_RESP_DEPTH"
| "within_limits d (Array (Some vs)) \<longleftrightarrow>
     d \<le> MAX_RESP_DEPTH \<and> length vs \<le> MAX_RESP_BULK_BYTES \<and> list_all (within_limits (Suc d)) vs"

lemma line_loop_length:
  "read_resp_line_loop acc s = (Inr l, r) \<Longrightarrow> length acc \<le> MAX_RESP_LINE_BYTES \<Longrightarrow>
     length l < MAX_RESP_LINE_BYTES"
proof (induction acc s rule: read_resp_line_loop.induct)
  case (2 acc b s)
  then show ?case
    by (cases "b = LF"; cases acc rule: rev_cases) (auto split: if_splits simp: less_eq_Suc_le)
qed simp

lemma read_line_length: "read_resp_line s = (Inr l, r) \<Longrightarrow> length l < MAX_RESP_LINE_BYTES"
  unfolding read_resp_line_def by (erule line_loop_length) simp

lemma parse_i64_range: "parse_i64 s = Some i \<Longrightarrow> - (2 ^ 63) \<le> i \<and> i < 2 ^ 63"
  by (auto simp: parse_i64_def dest!: parse_unsigned_le split: list.splits if_splits option.splits)

lemma parse_resp_int_range:
  "parse_resp_int m l = Inr i \<Longrightarrow> - (2 ^ 63) \<le> i \<and> i < 2 ^ 63"
  by (auto simp: parse_resp_int_def dest!: parse_i64_range split: option.splits)

lemma read_exact_length: "read_exact_bytes n s = (Inr v, r) \<Longrightarrow> length v = n"
  by (auto simp: read_exact_bytes_def split: if_splits)

lemma read_values_limits:
  assumes "\<And>s v r. read_resp (Suc d) s = (Inr v, r) \<Longrightarrow> within_limits (Suc d) v"
  shows "read_values d n s = (Inr vs, r) \<Longrightarrow>
    length vs = n \<and> list_all (within_limits (Suc d)) vs"
proof (induction n arbitrary: s vs)
  case 0
  then show ?case by (simp add: read_values.simps[of d 0] sret_def)
next
  case (Suc n)
  from Suc.prems show ?case
    by (auto simp: read_values.simps[of d "Suc n"] sbind_Inr_iff sret_def dest: Suc.IH assms)
qed

lemma read_within_limits: "read_resp d s = (Inr v, r) \<Longrightarrow> within_limits d v"
proof (induction d arbitrary: s v r rule: depth_induct)
  case (deeper d)
  then have d: "d \<le> MAX_RESP_DEPTH"
    by (auto simp: read_resp.simps[of d] sfail_def split: if_splits)
  have vs: "length vs = n \<and> list_all (within_limits (Suc d)) vs"
    if "read_values d n s = (Inr vs, r)" for n s vs r
    by (rule read_values_limits[OF deeper.IH[OF d] that])
  from deeper.prems d show ?case
    by (auto simp: read_resp.simps[of d] Let_def sbind_Inr_iff sret_def sfail_def slift_def
        split: if_splits dest: read_line_length parse_resp_int_range read_exact_length vs)
qed

section \<open>Properties of the codec\<close>

text \<open>
  C1. Replies round trip. For every reply within the reader's limits, at every nesting
  depth, reading its wire form gives the reply back and leaves the following bytes alone:
  bulk strings are binary safe, null values and empty arrays are told apart, and integers
  keep the full range of \<open>i64\<close>.
\<close>

theorem reply_round_trip:
  assumes "resp_ok d v"
  shows "read_resp d (resp_bytes v @ s) = (Inr v, s)"
  using assms by (rule read_resp_bytes)

theorem reply_round_trip_witness:
  "read_resp 0 (resp_bytes (Array (Some [Integer (-5), Bulk (Some [LF]), Bulk None, Array None])) @ ''+'') =
     (Inr (Array (Some [Integer (-5), Bulk (Some [LF]), Bulk None, Array None])), ''+'')"
  by (rule reply_round_trip) (simp add: MAX_RESP_DEPTH_def MAX_RESP_BULK_BYTES_def)

text \<open>A decimal header ends at its carriage return, so headers are a prefix code.\<close>

lemma header_cancel:
  assumes "dec_nat m @ CRLF @ s = dec_nat n @ CRLF @ t"
  shows "m = n \<and> s = t"
proof -
  have d: "takeWhile is_digit (dec_nat k @ CRLF @ u) = dec_nat k" for k u
    using dec_nat_digits[of _ k] by (subst takeWhile_append2) (auto simp: CRLF_def CR_def is_digit_def code_def)
  have e: "dec_nat m = dec_nat n" using d[of m s] d[of n t] assms by simp
  then have "m = n" using parse_digits_dec_nat by (metis option.inject)
  with assms e show ?thesis by (simp add: CRLF_def)
qed

lemma arguments_cancel:
  assumes "length as = length bs"
    and "concat (map encode_argument as) @ s = concat (map encode_argument bs) @ t"
  shows "as = bs \<and> s = t"
  using assms
proof (induction as bs arbitrary: s t rule: list_induct2)
  case (Cons a as b bs)
  let ?r = "\<lambda>cs u. concat (map encode_argument cs) @ u"
  have "dec_nat (length a) @ CRLF @ (a @ CRLF @ ?r as s) = dec_nat (length b) @ CRLF @ (b @ CRLF @ ?r bs t)"
    using Cons.prems by (simp add: encode_argument_def[of a] encode_argument_def[of b])
  then have "length a = length b" "a @ CRLF @ ?r as s = b @ CRLF @ ?r bs t"
    using header_cancel by blast+
  then have "a = b" "?r as s = ?r bs t" by (simp_all add: append_eq_append_conv)
  with Cons.IH[of s t] show ?case by simp
qed simp

lemma command_cancel:
  assumes "encode_command a @ s = encode_command b @ t"
  shows "a = b \<and> s = t"
proof -
  have "dec_nat (length a) @ CRLF @ (concat (map encode_argument a) @ s) =
      dec_nat (length b) @ CRLF @ (concat (map encode_argument b) @ t)"
    using assms by (simp add: encode_command_def)
  from header_cancel[OF this] show ?thesis using arguments_cancel by blast
qed

lemma batch_inj: "concat (map encode_command cs) = concat (map encode_command ds) \<Longrightarrow> cs = ds"
proof (induction cs arbitrary: ds)
  case Nil
  then show ?case by (cases ds) (auto simp: encode_command_def)
next
  case (Cons a cs)
  then obtain b ds' where ds: "ds = b # ds'" by (cases ds) (auto simp: encode_command_def)
  with Cons.prems command_cancel[of a "concat (map encode_command cs)" b "concat (map encode_command ds')"]
  have "a = b" "concat (map encode_command cs) = concat (map encode_command ds')" by auto
  with Cons.IH ds show ?case by simp
qed

text \<open>
  C2. Requests are unambiguous. Two command batches have the same bytes on the wire only when they
  are the same commands with the same arguments: no argument, whatever bytes it holds, can
  be taken for protocol syntax, for another argument or for another command.
\<close>

theorem requests_unambiguous:
  "concat (map encode_command cs) = concat (map encode_command ds) \<longleftrightarrow> cs = ds"
  using batch_inj by auto

text \<open>
  Bounds on replies. Whatever bytes arrive, a reply the reader accepts nests at most 16 deep,
  its simple lines stay below 64 KiB, its bulk values and array lengths at most 32 MiB and
  its integers in \<open>i64\<close>.
\<close>

theorem reply_within_limits:
  assumes "read_resp d s = (Inr v, r)"
  shows "within_limits d v"
  using assms by (rule read_within_limits)

theorem reply_within_limits_witness:
  "read_resp 15 (resp_bytes (Array (Some [Integer 7]))) = (Inr (Array (Some [Integer 7])), []) \<and>
     within_limits 15 (Array (Some [Integer 7]))"
proof -
  have "resp_ok 15 (Array (Some [Integer 7]))" by (simp add: MAX_RESP_DEPTH_def MAX_RESP_BULK_BYTES_def)
  from read_resp_bytes[OF this, of "[]"]
  have "read_resp 15 (resp_bytes (Array (Some [Integer 7]))) = (Inr (Array (Some [Integer 7])), [])"
    by (simp only: append_Nil2)
  with reply_within_limits[OF this] show ?thesis by blast
qed

end
