(* ===== verification/RedisConfig.thy ===== *)
theory RedisConfig
  imports Resp
begin

text \<open>
  Configuration of the Redis adapter (\<^verbatim>\<open>src/redis.rs\<close>): the validators of namespaces,
  operation keys and names and native entities, the endpoint parsed from a URL or from host
  fields, its percent-decoded credentials, and the loopback-only host check with the address
  parser of Rust's standard library it relies on.
\<close>

section \<open>Validators\<close>

definition is_word_byte :: "char \<Rightarrow> bool" where
  "is_word_byte b \<longleftrightarrow> is_ascii_alnum b \<or> b = CHR ''_'' \<or> b = CHR ''-''"

definition validate_kind_id :: "string \<Rightarrow> string \<Rightarrow> redis_error + unit" where
  "validate_kind_id kind eid =
     (if blank kind \<or> \<not> list_all is_word_byte kind then
        Inl (RInvalid ''native entity kind contains unsupported characters'')
      else if blank eid \<or> 256 < length eid then
        Inl (RInvalid ''native entity id must be non-empty and bounded'')
      else Inr ())"

definition validate_operation_name :: "string \<Rightarrow> redis_error + unit" where
  "validate_operation_name name =
     (if name = [] \<or> 128 < length name
         \<or> \<not> list_all (\<lambda>b. is_word_byte b \<or> b = CHR ''/'') name then
        Inl (RInvalid ''operation name contains unsupported characters'')
      else Inr ())"

definition validate_namespace :: "string \<Rightarrow> redis_error + unit" where
  "validate_namespace ns =
     (if ns = [] \<or> \<not> list_all (\<lambda>c. is_word_byte c \<or> c = CHR '':'' \<or> c = CHR ''.'') ns then
        Inl (RInvalid
          (''namespace may contain only ASCII letters, digits, '' @
           [CHR 0x27, CHR ''.'', CHR 0x27] @ '', '' @ [CHR 0x27, CHR ''_'', CHR 0x27] @ '', '' @
           [CHR 0x27, CHR ''-'', CHR 0x27] @ '' or '' @ [CHR 0x27, CHR '':'', CHR 0x27]))
      else Inr ())"

definition validate_operation_key :: "string \<Rightarrow> redis_error + unit" where
  "validate_operation_key k =
     (if length k \<noteq> 64 \<or> \<not> list_all is_hexdigit k then
        Inl (RInvalid ''operation idempotency key must be a SHA-256 hex digest'')
      else Inr ())"

section \<open>Pieces of \<^verbatim>\<open>str\<close> the URL parser uses\<close>

fun strip_prefix :: "string \<Rightarrow> string \<Rightarrow> string option" where
  "strip_prefix [] s = Some s"
| "strip_prefix (p # ps) [] = None"
| "strip_prefix (p # ps) (c # cs) = (if p = c then strip_prefix ps cs else None)"

fun split_once :: "char \<Rightarrow> string \<Rightarrow> (string \<times> string) option" where
  "split_once d [] = None"
| "split_once d (c # cs) =
     (if c = d then Some ([], cs)
      else map_option (\<lambda>p. (c # fst p, snd p)) (split_once d cs))"

definition rsplit_once :: "char \<Rightarrow> string \<Rightarrow> (string \<times> string) option" where
  "rsplit_once d s = map_option (\<lambda>p. (rev (snd p), rev (fst p))) (split_once d (rev s))"

definition trim_brackets :: "string \<Rightarrow> string" where
  "trim_brackets s =
     (let b = (\<lambda>c. c = CHR ''['' \<or> c = CHR '']'')
      in rev (dropWhile b (rev (dropWhile b s))))"

lemma strip_prefix_append [simp]: "strip_prefix p (p @ s) = Some s"
  by (induction p) auto

lemma strip_prefix_Some: "strip_prefix p s = Some r \<longleftrightarrow> s = p @ r"
  by (induction p s rule: strip_prefix.induct) auto

lemma split_once_append [simp]: "d \<notin> set a \<Longrightarrow> split_once d (a @ d # b) = Some (a, b)"
  by (induction a) auto

lemma split_once_None [simp]: "d \<notin> set a \<Longrightarrow> split_once d a = None"
  by (induction a) auto

lemma split_once_Some: "split_once d s = Some (a, b) \<longleftrightarrow> s = a @ d # b \<and> d \<notin> set a"
proof (induction s arbitrary: a)
  case Nil
  then show ?case by simp
next
  case (Cons c s)
  show ?case
  proof (cases a)
    case Nil
    then show ?thesis by auto
  next
    case (Cons x xs)
    with Cons.IH[of xs] show ?thesis by auto
  qed
qed

lemma rsplit_once_append [simp]: "d \<notin> set b \<Longrightarrow> rsplit_once d (a @ d # b) = Some (a, b)"
  by (simp add: rsplit_once_def)

lemma rsplit_once_None [simp]: "d \<notin> set a \<Longrightarrow> rsplit_once d a = None"
  by (simp add: rsplit_once_def)

section \<open>Addresses, as \<^verbatim>\<open>core::net\<close> parses them\<close>

definition hex_value :: "char \<Rightarrow> nat option" where
  "hex_value c =
     (if is_digit c then Some (code c - 48)
      else if 97 \<le> code c \<and> code c \<le> 102 then Some (code c - 87)
      else if 65 \<le> code c \<and> code c \<le> 70 then Some (code c - 55)
      else None)"

definition dec_value :: "char \<Rightarrow> nat option" where
  "dec_value c = (if is_digit c then Some (code c - 48) else None)"

text \<open>
  A number of at most \<open>mx\<close> digits: its value, how many digits it had, and the rest. A longer
  run of digits is no number.
\<close>

fun read_digits :: "(char \<Rightarrow> nat option) \<Rightarrow> nat \<Rightarrow> nat \<Rightarrow> nat \<Rightarrow> string \<Rightarrow> nat \<times> nat \<times> string" where
  "read_digits v radix acc n [] = (acc, n, [])"
| "read_digits v radix acc n (c # cs) =
     (case v c of
        None \<Rightarrow> (acc, n, c # cs)
      | Some d \<Rightarrow> read_digits v radix (acc * radix + d) (Suc n) cs)"

definition read_octet :: "string \<Rightarrow> (nat \<times> string) option" where
  "read_octet s =
     (let (x, n, r) = read_digits dec_value 10 0 0 s
      in if n = 0 \<or> 3 < n \<or> 255 < x \<or> (1 < n \<and> hd s = CHR ''0'') then None else Some (x, r))"

definition read_hextet :: "string \<Rightarrow> (nat \<times> string) option" where
  "read_hextet s =
     (let (x, n, r) = read_digits hex_value 16 0 0 s
      in if n = 0 \<or> 4 < n then None else Some (x, r))"

text \<open>\<^verbatim>\<open>read_separator\<close>: the separator precedes every element but the first.\<close>

definition after_sep :: "char \<Rightarrow> nat \<Rightarrow> string \<Rightarrow> string option" where
  "after_sep d i s =
     (if i = 0 then Some s
      else case s of [] \<Rightarrow> None | c # cs \<Rightarrow> if c = d then Some cs else None)"

fun read_octets :: "nat \<Rightarrow> nat \<Rightarrow> string \<Rightarrow> (nat list \<times> string) option" where
  "read_octets 0 i s = Some ([], s)"
| "read_octets (Suc k) i s =
     (case Option.bind (after_sep CHR ''.'' i s) read_octet of
        None \<Rightarrow> None
      | Some (x, r) \<Rightarrow> map_option (\<lambda>p. (x # fst p, snd p)) (read_octets k (Suc i) r))"

definition read_ipv4 :: "string \<Rightarrow> (nat list \<times> string) option" where
  "read_ipv4 s = read_octets 4 0 s"

text \<open>
  \<^verbatim>\<open>read_groups\<close> of the standard library with \<open>k\<close> groups left of the limit, starting at
  group \<open>i\<close>: the groups read, whether the last two came from an embedded IPv4 address, and
  the rest.
\<close>

fun read_groups :: "nat \<Rightarrow> nat \<Rightarrow> string \<Rightarrow> nat list \<times> bool \<times> string" where
  "read_groups 0 i s = ([], False, s)"
| "read_groups (Suc k) i s =
     (case (if 0 < k then Option.bind (after_sep CHR '':'' i s) read_ipv4 else None) of
        Some (os, r) \<Rightarrow> ([os ! 0 * 256 + os ! 1, os ! 2 * 256 + os ! 3], True, r)
      | None \<Rightarrow>
          (case Option.bind (after_sep CHR '':'' i s) read_hextet of
             None \<Rightarrow> ([], False, s)
           | Some (g, r) \<Rightarrow>
               (let (gs, v4, r') = read_groups k (Suc i) r in (g # gs, v4, r'))))"

definition read_ipv6 :: "string \<Rightarrow> (nat list \<times> string) option" where
  "read_ipv6 s =
     (let (head, v4, r) = read_groups 8 0 s
      in if length head = 8 then Some (head, r)
         else if v4 then None
         else case strip_prefix ''::'' r of
                None \<Rightarrow> None
              | Some r' \<Rightarrow>
                  (let (tail, _, r'') = read_groups (8 - (length head + 1)) 0 r'
                   in Some (head @ replicate (8 - length head - length tail) 0 @ tail, r'')))"

definition parse_ipv4 :: "string \<Rightarrow> nat list option" where
  "parse_ipv4 s = (case read_ipv4 s of Some (os, []) \<Rightarrow> Some os | _ \<Rightarrow> None)"

definition parse_ipv6 :: "string \<Rightarrow> nat list option" where
  "parse_ipv6 s = (case read_ipv6 s of Some (gs, []) \<Rightarrow> Some gs | _ \<Rightarrow> None)"

text \<open>\<^verbatim>\<open>s.parse::<IpAddr>().map(is_loopback).unwrap_or(false)\<close>.\<close>

definition ip_is_loopback :: "string \<Rightarrow> bool" where
  "ip_is_loopback s =
     (case read_ipv4 s of
        Some (os, r) \<Rightarrow> r = [] \<and> hd os = 127
      | None \<Rightarrow> parse_ipv6 s = Some [0, 0, 0, 0, 0, 0, 0, 1])"

section \<open>Hosts\<close>

definition validate_redis_host :: "string \<Rightarrow> redis_error + unit" where
  "validate_redis_host host =
     (let h = trim_brackets host
      in if eq_ignore_ascii_case h ''localhost'' \<or> ip_is_loopback h then Inr ()
         else Inl (RInvalid
           (''only loopback Redis endpoints are supported; use a local TLS proxy '' @
            ''for remote Redis'')))"

section \<open>Credentials\<close>

definition hex_digit :: "char \<Rightarrow> redis_error + nat" where
  "hex_digit c =
     (if is_digit c then Inr (code c - 48)
      else if 97 \<le> code c \<and> code c \<le> 102 then Inr (code c - 97 + 10)
      else if 65 \<le> code c \<and> code c \<le> 70 then Inr (code c - 65 + 10)
      else Inl (RInvalid ''Redis credentials contain an invalid percent escape''))"

fun percent_decode_bytes :: "string \<Rightarrow> redis_error + string" where
  "percent_decode_bytes [] = Inr []"
| "percent_decode_bytes (c # cs) =
     (if c = CHR ''%'' then
        (case cs of
           h # l # r \<Rightarrow>
             rbind (hex_digit h) (\<lambda>high. rbind (hex_digit l) (\<lambda>low.
               rbind (percent_decode_bytes r) (\<lambda>d. Inr (char_of (high * 16 + low) # d))))
         | _ \<Rightarrow> Inl (RInvalid ''Redis credentials contain an incomplete percent escape''))
      else rbind (percent_decode_bytes cs) (\<lambda>d. Inr (c # d)))"

definition percent_decode :: "string \<Rightarrow> redis_error + string" where
  "percent_decode value =
     rbind (percent_decode_bytes value) (\<lambda>d.
       case from_utf8 d of
         None \<Rightarrow> Inl (RInvalid ''Redis credentials must be valid UTF-8'')
       | Some t \<Rightarrow> Inr t)"

section \<open>Endpoints\<close>

record redis_endpoint =
  ep_host :: string
  ep_port :: nat
  ep_database :: nat
  ep_username :: "string option"
  ep_password :: "string option"

definition parse_port :: "string \<Rightarrow> redis_error + nat" where
  "parse_port s =
     (case parse_unsigned (2 ^ 16 - 1) s of
        None \<Rightarrow> Inl (RInvalid ''Redis port must be a valid integer'')
      | Some p \<Rightarrow> Inr p)"

definition parse_database :: "string \<Rightarrow> redis_error + nat" where
  "parse_database s =
     (case parse_unsigned (2 ^ 32 - 1) s of
        None \<Rightarrow> Inl (RInvalid ''Redis database must be a non-negative integer'')
      | Some n \<Rightarrow> Inr n)"

definition non_empty :: "string option \<Rightarrow> string option" where
  "non_empty v = (case v of None \<Rightarrow> None | Some s \<Rightarrow> if s = [] then None else Some s)"

definition from_host_fields ::
  "string \<Rightarrow> string option \<Rightarrow> string option \<Rightarrow> string option \<Rightarrow> string option \<Rightarrow>
     redis_error + redis_endpoint" where
  "from_host_fields host port database username password =
     (if blank host then Inl (RInvalid ''Redis host must not be empty'')
      else rbind (validate_redis_host host) (\<lambda>_.
        rbind (parse_port (case port of None \<Rightarrow> ''6379'' | Some p \<Rightarrow> p)) (\<lambda>p.
        rbind (parse_database (case database of None \<Rightarrow> ''0'' | Some d \<Rightarrow> d)) (\<lambda>d.
        Inr \<lparr>ep_host = host, ep_port = p, ep_database = d,
             ep_username = non_empty username, ep_password = non_empty password\<rparr>))))"

definition parse_credentials :: "string option \<Rightarrow> redis_error + string option \<times> string option" where
  "parse_credentials credentials =
     (case credentials of
        None \<Rightarrow> Inr (None, None)
      | Some c \<Rightarrow>
          (let (username, password) =
             (case split_once CHR '':'' c of None \<Rightarrow> ([], c) | Some p \<Rightarrow> p)
           in rbind (percent_decode username) (\<lambda>u.
                rbind (percent_decode password) (\<lambda>p.
                  Inr (non_empty (Some u), Some p)))))"

definition parse_host_port :: "string \<Rightarrow> redis_error + string \<times> nat" where
  "parse_host_port host_port =
     (case strip_prefix ''['' host_port of
        Some rest \<Rightarrow>
          (case split_once CHR '']'' rest of
             None \<Rightarrow> Inl (RInvalid ''Redis IPv6 host is missing closing bracket'')
           | Some (host, after) \<Rightarrow>
               (case strip_prefix '':'' after of
                  Some value \<Rightarrow> rbind (parse_port value) (\<lambda>p. Inr (host, p))
                | None \<Rightarrow> Inr (host, 6379)))
      | None \<Rightarrow>
          (let (host, port) =
             (case rsplit_once CHR '':'' host_port of
                None \<Rightarrow> (host_port, ''6379'') | Some p \<Rightarrow> p)
           in rbind (parse_port port) (\<lambda>p. Inr (host, p))))"

definition split_authority :: "string \<Rightarrow> string option \<times> string" where
  "split_authority authority =
     (case rsplit_once CHR ''@'' authority of
        None \<Rightarrow> (None, authority)
      | Some (credentials, host_port) \<Rightarrow> (Some credentials, host_port))"

definition parse_endpoint :: "string \<Rightarrow> redis_error + redis_endpoint" where
  "parse_endpoint url =
     (case strip_prefix ''redis://'' url of
        None \<Rightarrow> Inl (RInvalid ''only redis:// URLs are supported by the bundled adapter'')
      | Some remainder \<Rightarrow>
          (let (authority, database) =
             (case split_once CHR ''/'' remainder of None \<Rightarrow> (remainder, []) | Some p \<Rightarrow> p)
           in if authority = [] \<or> CHR ''/'' \<in> set database \<or> CHR ''?'' \<in> set database then
                Inl (RInvalid ''Redis URL has an invalid authority or database'')
              else rbind (if database = [] then Inr 0 else parse_database database) (\<lambda>db.
                rbind (parse_credentials (fst (split_authority authority))) (\<lambda>up.
                rbind (parse_host_port (snd (split_authority authority))) (\<lambda>hp.
                if fst hp = [] then Inl (RInvalid ''Redis host must not be empty'')
                else rbind (validate_redis_host (fst hp)) (\<lambda>_.
                  Inr \<lparr>ep_host = fst hp, ep_port = snd hp, ep_database = db,
                       ep_username = fst up, ep_password = snd up\<rparr>))))))"

text \<open>
  The process environment is a map from names to byte strings; a value that is not UTF-8 is
  an error, not a missing value.
\<close>

type_synonym environment = "string \<Rightarrow> string option"

fun first_env_value :: "environment \<Rightarrow> string list \<Rightarrow> redis_error + string option" where
  "first_env_value env [] = Inr None"
| "first_env_value env (n # ns) =
     (case env n of
        None \<Rightarrow> first_env_value env ns
      | Some v \<Rightarrow>
          if utf8_valid v then Inr (Some v)
          else Inl (RInvalid (n @ '' must be valid UTF-8'')))"

definition endpoint_from_env :: "environment \<Rightarrow> redis_error + redis_endpoint option" where
  "endpoint_from_env env =
     rbind (first_env_value env [''MEMORY_MCP_REDIS_URL'', ''REDIS_URL'']) (\<lambda>url.
     case url of
       Some u \<Rightarrow> rbind (parse_endpoint u) (\<lambda>e. Inr (Some e))
     | None \<Rightarrow>
         rbind (first_env_value env [''MEMORY_MCP_REDIS_HOST'', ''REDIS_HOST'']) (\<lambda>host.
         case host of
           None \<Rightarrow> Inr None
         | Some h \<Rightarrow>
             rbind (first_env_value env [''MEMORY_MCP_REDIS_PORT'', ''REDIS_PORT'']) (\<lambda>port.
             rbind (first_env_value env
               [''MEMORY_MCP_REDIS_DATABASE'', ''MEMORY_MCP_REDIS_DB'', ''REDIS_DATABASE'',
                ''REDIS_DB'']) (\<lambda>database.
             rbind (first_env_value env
               [''MEMORY_MCP_REDIS_USERNAME'', ''MEMORY_MCP_REDIS_USER'', ''REDIS_USERNAME'',
                ''REDIS_USER'']) (\<lambda>username.
             rbind (first_env_value env
               [''MEMORY_MCP_REDIS_PASSWORD'', ''MEMORY_MCP_REDIS_PASS'', ''REDIS_PASSWORD'',
                ''REDIS_PASS'']) (\<lambda>password.
             rbind (from_host_fields h port database username password) (\<lambda>e. Inr (Some e))))))))"

text \<open>\<^verbatim>\<open>RedisAdapter::configured\<close>: whether any of the four variables is set at all.\<close>

definition redis_configured :: "environment \<Rightarrow> bool" where
  "redis_configured env \<longleftrightarrow>
     list_ex (\<lambda>n. env n \<noteq> None)
       [''MEMORY_MCP_REDIS_URL'', ''REDIS_URL'', ''MEMORY_MCP_REDIS_HOST'', ''REDIS_HOST'']"

section \<open>Facts about the parser\<close>

lemma parse_port_range: "parse_port s = Inr p \<Longrightarrow> p < 2 ^ 16"
  by (auto simp: parse_port_def dest!: parse_unsigned_le split: option.splits)

lemma parse_port_dec_nat: "p < 2 ^ 16 \<Longrightarrow> parse_port (dec_nat p) = Inr p"
  by (simp add: parse_port_def parse_unsigned_dec_nat)

lemma parse_database_range: "parse_database s = Inr p \<Longrightarrow> p < 2 ^ 32"
  by (auto simp: parse_database_def dest!: parse_unsigned_le split: option.splits)

lemma parse_database_dec_nat: "n < 2 ^ 32 \<Longrightarrow> parse_database (dec_nat n) = Inr n"
  by (simp add: parse_database_def parse_unsigned_dec_nat)

lemma parse_host_port_range: "parse_host_port s = Inr hp \<Longrightarrow> snd hp < 2 ^ 16"
  by (auto simp: parse_host_port_def rbind_Inr_iff split: option.splits prod.splits
      dest: parse_port_range)

text \<open>An endpoint that may be connected to.\<close>

definition endpoint_ok :: "redis_endpoint \<Rightarrow> bool" where
  "endpoint_ok e \<longleftrightarrow>
     ep_host e \<noteq> [] \<and> validate_redis_host (ep_host e) = Inr () \<and>
     ep_port e < 2 ^ 16 \<and> ep_database e < 2 ^ 32 \<and> ep_username e \<noteq> Some []"

lemma non_empty_ne: "non_empty v \<noteq> Some []"
  by (auto simp: non_empty_def split: option.splits)

lemma parse_endpoint_ok: "parse_endpoint url = Inr e \<Longrightarrow> endpoint_ok e"
  by (auto simp: parse_endpoint_def endpoint_ok_def Let_def rbind_Inr_iff parse_credentials_def
      non_empty_ne
      split: option.splits prod.splits if_splits
      dest: parse_host_port_range parse_database_range)

lemma from_host_fields_ok: "from_host_fields h p d u w = Inr e \<Longrightarrow> endpoint_ok e"
  by (auto simp: from_host_fields_def endpoint_ok_def rbind_Inr_iff non_empty_ne
      split: if_splits dest: parse_port_range parse_database_range not_blank_ne)

lemma endpoint_from_env_ok: "endpoint_from_env env = Inr (Some e) \<Longrightarrow> endpoint_ok e"
  by (auto simp: endpoint_from_env_def rbind_Inr_iff simp del: first_env_value.simps
      split: option.splits dest: parse_endpoint_ok from_host_fields_ok)

section \<open>Writing an endpoint as a URL\<close>

text \<open>The canonical URL of an endpoint, with escaped credentials: a specification.\<close>

definition hex_char :: "nat \<Rightarrow> char" where
  "hex_char d = (if d < 10 then digit_char d else char_of (55 + d))"

definition percent_escape :: "char \<Rightarrow> string" where
  "percent_escape c =
     (if is_ascii_alnum c then [c]
      else [CHR ''%'', hex_char (code c div 16), hex_char (code c mod 16)])"

definition percent_encode :: "string \<Rightarrow> string" where
  "percent_encode s = concat (map percent_escape s)"

definition render_credentials :: "string option \<Rightarrow> string option \<Rightarrow> string" where
  "render_credentials u p =
     (case p of None \<Rightarrow> []
      | Some w \<Rightarrow>
          percent_encode (case u of None \<Rightarrow> [] | Some v \<Rightarrow> v) @ '':'' @ percent_encode w @ ''@'')"

definition render_host :: "string \<Rightarrow> string" where
  "render_host h = (if CHR '':'' \<in> set h then ''['' @ h @ '']'' else h)"

definition render_endpoint :: "redis_endpoint \<Rightarrow> string" where
  "render_endpoint e =
     ''redis://'' @ render_credentials (ep_username e) (ep_password e)
     @ render_host (ep_host e) @ '':'' @ dec_nat (ep_port e) @ ''/'' @ dec_nat (ep_database e)"

definition plain_host :: "string \<Rightarrow> bool" where
  "plain_host h \<longleftrightarrow> list_all (\<lambda>c. c \<notin> set ''/@[]'') h"

lemma hex_digit_hex_char: "d < 16 \<Longrightarrow> hex_digit (hex_char d) = Inr d"
  by (auto simp: hex_digit_def hex_char_def is_digit_def code_digit_char)

lemma alnum_not_percent: "is_ascii_alnum c \<Longrightarrow> c \<noteq> CHR ''%''"
  by (auto simp: is_ascii_alnum_def is_digit_def code_def)

lemma percent_decode_bytes_escape:
  "percent_decode_bytes (percent_escape c @ s) = rbind (percent_decode_bytes s) (\<lambda>d. Inr (c # d))"
proof (cases "is_ascii_alnum c")
  case True
  then show ?thesis by (simp add: percent_escape_def alnum_not_percent)
next
  case False
  have "code c div 16 < 16" using code_lt_256[of c] by (intro less_mult_imp_div_less) simp
  moreover have "char_of (code c) = c" by (simp add: code_def)
  ultimately show ?thesis using False
    by (simp add: percent_escape_def hex_digit_hex_char)
qed

lemma percent_decode_bytes_encode: "percent_decode_bytes (percent_encode s) = Inr s"
  unfolding percent_encode_def by (induction s) (auto simp: percent_decode_bytes_escape)

lemma percent_decode_encode: "utf8_valid s \<Longrightarrow> percent_decode (percent_encode s) = Inr s"
  by (simp add: percent_decode_def percent_decode_bytes_encode from_utf8_def)

lemma hex_char_alnum: "d < 16 \<Longrightarrow> is_ascii_alnum (hex_char d)"
  by (auto simp: hex_char_def is_ascii_alnum_def is_digit_def code_digit_char)

lemma percent_encode_chars: "c \<in> set (percent_encode s) \<Longrightarrow> is_ascii_alnum c \<or> c = CHR ''%''"
proof -
  have "code x div 16 < 16" for x
    using code_lt_256[of x] by (intro less_mult_imp_div_less) simp
  then show "c \<in> set (percent_encode s) \<Longrightarrow> is_ascii_alnum c \<or> c = CHR ''%''"
    by (auto simp: percent_encode_def percent_escape_def hex_char_alnum split: if_splits)
qed

lemma percent_encode_special:
  "c \<in> set ''/@:[]?'' \<Longrightarrow> c \<notin> set (percent_encode s)"
  by (auto dest!: percent_encode_chars simp: is_ascii_alnum_def is_digit_def code_def)

lemma dec_nat_special: "c \<in> set ''/@:[]?'' \<Longrightarrow> c \<notin> set (dec_nat n)"
  by (auto dest!: dec_nat_digits simp: is_digit_def code_def)

lemma parse_host_port_render:
  assumes h: "plain_host h" and p: "p < 2 ^ 16"
  shows "parse_host_port (render_host h @ '':'' @ dec_nat p) = Inr (h, p)"
proof (cases "CHR '':'' \<in> set h")
  case True
  have "CHR '']'' \<notin> set h" using h by (auto simp: plain_host_def list_all_iff)
  then have "split_once CHR '']'' (h @ CHR '']'' # '':'' @ dec_nat p) = Some (h, '':'' @ dec_nat p)"
    by (rule split_once_append)
  with True p show ?thesis
    by (simp add: parse_host_port_def render_host_def parse_port_dec_nat)
next
  case False
  have "h @ '':'' @ dec_nat p \<noteq> ''['' @ r" for r
    using h by (cases h) (auto simp: plain_host_def)
  then have n: "strip_prefix ''['' (h @ '':'' @ dec_nat p) = None"
    by (metis option.exhaust strip_prefix_Some)
  have "rsplit_once CHR '':'' (h @ CHR '':'' # dec_nat p) = Some (h, dec_nat p)"
    by (rule rsplit_once_append) (simp add: dec_nat_special)
  with False n p show ?thesis
    by (simp add: parse_host_port_def render_host_def parse_port_dec_nat)
qed

lemma parse_credentials_render:
  assumes "utf8_valid w" "\<forall>v. u = Some v \<longrightarrow> v \<noteq> [] \<and> utf8_valid v"
  shows "parse_credentials
      (Some (percent_encode (case u of None \<Rightarrow> [] | Some v \<Rightarrow> v) @ '':'' @ percent_encode w)) =
    Inr (u, Some w)"
proof -
  let ?v = "case u of None \<Rightarrow> [] | Some v \<Rightarrow> v"
  have "split_once CHR '':'' (percent_encode ?v @ CHR '':'' # percent_encode w) =
      Some (percent_encode ?v, percent_encode w)"
    by (rule split_once_append) (simp add: percent_encode_special)
  moreover have "percent_decode (percent_encode ?v) = Inr ?v"
    using assms(2) by (intro percent_decode_encode) (auto split: option.splits simp: utf8_valid_def)
  moreover have "non_empty (Some ?v) = u"
    using assms(2) by (auto simp: non_empty_def split: option.splits)
  ultimately show ?thesis
    using assms(1) by (simp add: parse_credentials_def percent_decode_encode)
qed

lemma authority_split:
  assumes h: "plain_host h" and ok: "\<forall>v. p = Some v \<longrightarrow> utf8_valid v"
    "\<forall>v. u = Some v \<longrightarrow> v \<noteq> [] \<and> utf8_valid v \<and> p \<noteq> None"
  shows "\<exists>c. split_authority (render_credentials u p @ render_host h @ '':'' @ dec_nat n) =
      (c, render_host h @ '':'' @ dec_nat n) \<and> parse_credentials c = Inr (u, p)"
proof -
  have no: "CHR ''@'' \<notin> set (render_host h @ '':'' @ dec_nat n)"
    using h by (auto simp: render_host_def plain_host_def list_all_iff dec_nat_special)
  show ?thesis
  proof (cases p)
    case None
    with ok have "u = None" by (cases u) auto
    with None no show ?thesis
      by (simp add: render_credentials_def parse_credentials_def split_authority_def)
  next
    case (Some w)
    let ?c = "percent_encode (case u of None \<Rightarrow> [] | Some v \<Rightarrow> v) @ '':'' @ percent_encode w"
    have "rsplit_once CHR ''@'' (?c @ CHR ''@'' # render_host h @ '':'' @ dec_nat n) =
        Some (?c, render_host h @ '':'' @ dec_nat n)"
      using no by (rule rsplit_once_append)
    moreover have "parse_credentials (Some ?c) = Inr (u, Some w)"
      using ok Some by (intro parse_credentials_render) auto
    ultimately show ?thesis using Some by (simp add: render_credentials_def split_authority_def)
  qed
qed

text \<open>
  C4. Round trip of endpoints. Parsing the canonical URL of a connectable endpoint gives the
  endpoint back, with arbitrary UTF-8 credentials (percent-escaped) and with an IPv6 host in
  brackets.
\<close>

theorem parse_render_endpoint:
  assumes ok: "endpoint_ok e" and h: "plain_host (ep_host e)"
    and p: "\<forall>v. ep_password e = Some v \<longrightarrow> utf8_valid v"
    and u: "\<forall>v. ep_username e = Some v \<longrightarrow> utf8_valid v \<and> ep_password e \<noteq> None"
  shows "parse_endpoint (render_endpoint e) = Inr e"
proof -
  let ?a = "render_credentials (ep_username e) (ep_password e) @ render_host (ep_host e) @ '':''
    @ dec_nat (ep_port e)"
  have "CHR ''/'' \<notin> set ?a"
    using h by (auto simp: render_credentials_def render_host_def plain_host_def list_all_iff
        dec_nat_special percent_encode_special split: option.splits)
  then have "split_once CHR ''/'' (?a @ CHR ''/'' # dec_nat (ep_database e)) =
      Some (?a, dec_nat (ep_database e))"
    by (rule split_once_append)
  moreover obtain c where
    "split_authority ?a = (c, render_host (ep_host e) @ '':'' @ dec_nat (ep_port e))"
    "parse_credentials c = Inr (ep_username e, ep_password e)"
    using authority_split[OF h p, of "ep_username e" "ep_port e"] u ok
    by (auto simp: endpoint_ok_def)
  ultimately show ?thesis
    using ok parse_host_port_render[OF h, of "ep_port e"]
    by (simp add: parse_endpoint_def render_endpoint_def endpoint_ok_def parse_database_dec_nat
        dec_nat_special)
qed

lemma example_hosts:
  "validate_redis_host ''::1'' = Inr ()" "validate_redis_host ''127.0.0.1'' = Inr ()"
  "utf8_valid ''u:@1''" "utf8_valid ''p/%''"
  by code_simp+

theorem parse_render_endpoint_witness:
  "parse_endpoint (render_endpoint \<lparr>ep_host = ''::1'', ep_port = 6380, ep_database = 2,
       ep_username = Some ''u:@1'', ep_password = Some ''p/%''\<rparr>) =
     Inr \<lparr>ep_host = ''::1'', ep_port = 6380, ep_database = 2,
       ep_username = Some ''u:@1'', ep_password = Some ''p/%''\<rparr>"
  by (rule parse_render_endpoint)
    (simp_all add: endpoint_ok_def example_hosts plain_host_def)

section \<open>Only loopback hosts\<close>

text \<open>
  What the host check admits, stated without the parser: \<^verbatim>\<open>localhost\<close> in any case, a dotted
  IPv4 address of the block 127.0.0.0/8 in canonical decimal, or a spelling of the IPv6
  loopback address.
\<close>

definition loopback_host :: "string \<Rightarrow> bool" where
  "loopback_host h \<longleftrightarrow>
     map to_ascii_lower (trim_brackets h) = ''localhost''
     \<or> (\<exists>a b c. a < 256 \<and> b < 256 \<and> c < 256 \<and>
          trim_brackets h =
            ''127.'' @ dec_nat a @ ''.'' @ dec_nat b @ ''.'' @ dec_nat c)
     \<or> parse_ipv6 (trim_brackets h) = Some [0, 0, 0, 0, 0, 0, 0, 1]"

lemma digit_char_code: "is_digit c \<Longrightarrow> digit_char (code c - 48) = c"
  by (simp add: digit_char_def is_digit_def code_def)

lemma read_digits_dec:
  "read_digits dec_value 10 acc k s = (x, n, r) \<Longrightarrow>
     \<exists>ds. s = ds @ r \<and> list_all is_digit ds \<and> n = k + length ds \<and> parse_digits acc ds = Some x"
proof (induction s arbitrary: acc k)
  case Nil
  then show ?case by simp
next
  case (Cons c s)
  show ?case
  proof (cases "is_digit c")
    case True
    then have "dec_value c = Some (code c - 48)" by (simp add: dec_value_def)
    with Cons.prems have
      "read_digits dec_value 10 (acc * 10 + (code c - 48)) (Suc k) s = (x, n, r)"
      by simp
    from Cons.IH[OF this] obtain ds where "s = ds @ r" "list_all is_digit ds"
      "n = Suc k + length ds" "parse_digits (acc * 10 + (code c - 48)) ds = Some x" by blast
    with True show ?thesis by (intro exI[of _ "c # ds"]) simp
  next
    case False
    with Cons.prems show ?thesis by (auto simp: dec_value_def)
  qed
qed

text \<open>Digits without a redundant leading zero are the canonical form of their value.\<close>

lemma dec_nat_of_digits:
  assumes "list_all is_digit ds" "ds \<noteq> []" "1 < length ds \<Longrightarrow> hd ds \<noteq> CHR ''0''"
    and "parse_digits 0 ds = Some x"
  shows "dec_nat x = ds"
  using assms
proof (induction ds arbitrary: x rule: rev_induct)
  case Nil
  then show ?case by simp
next
  case (snoc c ds)
  have c: "is_digit c" "code c - 48 < 10" using snoc.prems(1) by (auto simp: is_digit_def)
  obtain y where y: "parse_digits 0 ds = Some y" "x = y * 10 + (code c - 48)"
    using snoc.prems(4) c by (auto simp: parse_digits_append split: option.splits)
  show ?case
  proof (cases "ds = []")
    case True
    with y c show ?thesis
      by (simp add: dec_nat.simps[of "code c - 48"] digit_char_code)
  next
    case False
    with snoc.prems(3) have h: "hd ds \<noteq> CHR ''0''" by simp
    have d: "dec_nat y = ds"
      using snoc.prems(1) False h y(1) by (intro snoc.IH) auto
    have "dec_nat 0 = ''0''" by code_simp
    with d h have "0 < y" by (cases y) auto
    with y c d show ?thesis 
      by (simp add: dec_nat.simps[of "y * 10 + (code c - 48)"] digit_char_code)
  qed
qed

lemma read_octet_Some: "read_octet s = Some (x, r) \<Longrightarrow> s = dec_nat x @ r \<and> x < 256"
proof -
  assume a: "read_octet s = Some (x, r)"
  obtain y n t where d: "read_digits dec_value 10 0 0 s = (y, n, t)" by (metis prod_cases3)
  from a d have e: "n \<noteq> 0" "n \<le> 3" "x \<le> 255" "1 < n \<longrightarrow> hd s \<noteq> CHR ''0''" "y = x" "t = r"
    by (auto simp: read_octet_def split: if_splits)
  from read_digits_dec[OF d] obtain ds where
    ds: "s = ds @ t" "list_all is_digit ds" "n = length ds" "parse_digits 0 ds = Some y"
    by auto
  have "dec_nat y = ds"
    using ds e by (intro dec_nat_of_digits) (auto simp: hd_append)
  with ds e show ?thesis by simp
qed

lemma after_sep_Some: "after_sep d i s = Some t \<longleftrightarrow> (if i = 0 then s = t else s = d # t)"
  by (auto simp: after_sep_def split: list.splits if_splits)

lemma read_ipv4_Some:
  assumes "read_ipv4 s = Some (os, r)"
  shows "\<exists>w a b c. os = [w, a, b, c] \<and> a < 256 \<and> b < 256 \<and> c < 256 \<and>
     s = dec_nat w @ ''.'' @ dec_nat a @ ''.'' @ dec_nat b @ ''.'' @ dec_nat c @ r"
  using assms
  by (auto simp: read_ipv4_def eval_nat_numeral after_sep_Some bind_eq_Some_conv
      split: option.splits dest!: read_octet_Some)

lemma ip_is_loopback_host:
  assumes "ip_is_loopback h"
  shows "(\<exists>a b c. a < 256 \<and> b < 256 \<and> c < 256 \<and>
       h = ''127.'' @ dec_nat a @ ''.'' @ dec_nat b @ ''.'' @ dec_nat c)
     \<or> parse_ipv6 h = Some [0, 0, 0, 0, 0, 0, 0, 1]"
proof (cases "read_ipv4 h")
  case None
  with assms show ?thesis by (simp add: ip_is_loopback_def)
next
  case (Some p)
  obtain os r where p: "p = (os, r)" by (cases p)
  with assms Some have l: "r = []" "hd os = 127" by (auto simp: ip_is_loopback_def)
  have n: "dec_nat 127 = ''127''" by code_simp
  have "read_ipv4 h = Some (os, [])" using Some p l by simp
  from read_ipv4_Some[OF this] obtain w a b c where w: "os = [w, a, b, c]"
      "a < 256" "b < 256" "c < 256"
      "h = dec_nat w @ ''.'' @ dec_nat a @ ''.'' @ dec_nat b @ ''.'' @ dec_nat c @ []"
    by blast
  with l n have "h = ''127.'' @ dec_nat a @ ''.'' @ dec_nat b @ ''.'' @ dec_nat c" by simp
  with w(2-4) show ?thesis by blast
qed

lemma validate_redis_host_loopback: "validate_redis_host h = Inr () \<Longrightarrow> loopback_host h"
proof -
  have l: "map to_ascii_lower ''localhost'' = ''localhost''" by code_simp
  assume "validate_redis_host h = Inr ()"
  then show ?thesis
    using ip_is_loopback_host[of "trim_brackets h"] l
    by (auto simp: validate_redis_host_def loopback_host_def eq_ignore_ascii_case_def Let_def
        split: if_splits)
qed

text \<open>
  Loopback only. Whatever the environment holds, an endpoint the adapter accepts names a
  loopback host; no remote host name or address is ever connected to by name.
\<close>

theorem endpoint_from_env_loopback:
  assumes "endpoint_from_env env = Inr (Some e)"
  shows "loopback_host (ep_host e) \<and> ep_port e < 2 ^ 16 \<and> ep_database e < 2 ^ 32"
  using endpoint_from_env_ok[OF assms]
  by (simp add: endpoint_ok_def validate_redis_host_loopback)

theorem endpoint_from_env_loopback_witness:
  "endpoint_from_env ([''REDIS_HOST'' \<mapsto> ''127.0.0.1'', ''REDIS_PORT'' \<mapsto> dec_nat 6380]) =
     Inr (Some \<lparr>ep_host = ''127.0.0.1'', ep_port = 6380, ep_database = 0,
       ep_username = None, ep_password = None\<rparr>) \<and> loopback_host ''127.0.0.1''"
proof -
  have v: "utf8_valid (dec_nat 6380)"
    by (rule utf8_valid_ascii) (simp add: is_ascii_str_def list_all_iff digit_ascii dec_nat_digits)
  have "utf8_valid ''127.0.0.1''" "\<not> blank ''127.0.0.1''" "parse_unsigned 4294967295 ''0'' = Some 0"
    by (code_simp, code_simp, simp add: parse_unsigned_def is_digit_def code_def)
  then have e: "endpoint_from_env ([''REDIS_HOST'' \<mapsto> ''127.0.0.1'', ''REDIS_PORT'' \<mapsto> dec_nat 6380]) =
      Inr (Some \<lparr>ep_host = ''127.0.0.1'', ep_port = 6380, ep_database = 0,
        ep_username = None, ep_password = None\<rparr>)"
    using v by (simp add: endpoint_from_env_def from_host_fields_def example_hosts parse_port_def
        parse_database_def parse_unsigned_dec_nat non_empty_def)
  with endpoint_from_env_loopback[OF e] show ?thesis by simp
qed

end
