(* ===== verification/RedisConn.thy ===== *)
theory RedisConn
  imports RedisConfig
begin

text \<open>
  The connection layer of \<open>src/redis.rs\<close>: \<open>RedisConnection\<close> with its payload-free counters,
  pipelined \<open>commands\<close>, single \<open>command\<close>, and the handshake of \<open>connect\<close> and
  \<open>connect_endpoint\<close>. The socket is a parameter: the peer takes the bytes of one write and
  either fails or returns the bytes it will send back, which wait in the input buffer until
  \<open>read_resp\<close> takes them.
\<close>

section \<open>State\<close>

record redis_metrics =
  m_commands :: nat
  m_request_bytes :: nat
  m_response_bytes :: nat

record 'srv redis_connection =
  srv :: 'srv
  inbuf :: string
  metrics :: redis_metrics

definition default_metrics :: redis_metrics where
  "default_metrics = \<lparr>m_commands = 0, m_request_bytes = 0, m_response_bytes = 0\<rparr>"

type_synonym 'srv peer = "'srv \<Rightarrow> string \<Rightarrow> 'srv \<times> string option"

type_synonym ('srv, 'a) conn = "('srv redis_connection, redis_error, 'a) sm"

section \<open>Commands\<close>

definition add_request :: "nat \<Rightarrow> nat \<Rightarrow> redis_metrics \<Rightarrow> redis_metrics" where
  "add_request n len m =
     m\<lparr>m_commands := sat_add (m_commands m) n, m_request_bytes := sat_add (m_request_bytes m) len\<rparr>"

definition read_reply :: "('srv, resp) conn" where
  "read_reply c =
     (case read_resp 0 (inbuf c) of (r, rest) \<Rightarrow>
        (r, c\<lparr>inbuf := rest,
              metrics := (metrics c)\<lparr>m_response_bytes :=
                sat_add (m_response_bytes (metrics c)) (length (inbuf c) - length rest)\<rparr>\<rparr>))"

definition commands :: "'srv peer \<Rightarrow> string list list \<Rightarrow> ('srv, resp list) conn" where
  "commands peer cmds c =
     (if cmds = [] then (Inr [], c)
      else
        let request = concat (map encode_command cmds)
        in case peer (srv c) request of
             (s, None) \<Rightarrow> (Inl (RIo ''write failed''), c\<lparr>srv := s\<rparr>)
           | (s, Some answer) \<Rightarrow>
               smapM (\<lambda>_. read_reply) cmds
                 (c\<lparr>srv := s, inbuf := inbuf c @ answer,
                    metrics := add_request (length cmds) (length request) (metrics c)\<rparr>))"

text \<open>
  The adapter reaches its connection only through \<open>commands\<close>; whatever runs a batch is the
  parameter \<open>exec\<close> from here on.
\<close>

type_synonym 'c executor = "string list list \<Rightarrow> ('c, redis_error, resp list) sm"

definition exec_command :: "'c executor \<Rightarrow> string list \<Rightarrow> ('c, redis_error, resp) sm" where
  "exec_command exec args =
     sbind (exec [args]) (\<lambda>responses.
       if responses = [] then sfail (RProtocol ''Redis returned no response'')
       else case last responses of
              Error message \<Rightarrow> sfail (RProtocol message)
            | response \<Rightarrow> sret response)"

definition command :: "'srv peer \<Rightarrow> string list \<Rightarrow> ('srv, resp) conn" where
  "command peer = exec_command (commands peer)"

section \<open>Handshake\<close>

definition auth_command :: "redis_endpoint \<Rightarrow> string list option" where
  "auth_command e =
     map_option
       (\<lambda>password. [''AUTH''] @ (case ep_username e of None \<Rightarrow> [] | Some u \<Rightarrow> [u]) @ [password])
       (ep_password e)"

text \<open>
  An address the host name resolves to: whether it is a loopback address, and the server
  behind it when the connection is accepted.
\<close>

record 'srv address =
  addr_loopback :: bool
  addr_server :: "redis_error + 'srv"

definition login :: "'srv peer \<Rightarrow> redis_endpoint \<Rightarrow> ('srv, unit) conn" where
  "login peer e =
     sbind (case auth_command e of None \<Rightarrow> sret () | Some args \<Rightarrow> sbind (command peer args) (\<lambda>_. sret ()))
       (\<lambda>_. if ep_database e \<noteq> 0 then
              sbind (command peer [''SELECT'', dec_nat (ep_database e)]) (\<lambda>_. sret ())
            else sret ())"

fun connect_loop ::
  "'srv peer \<Rightarrow> redis_endpoint \<Rightarrow> redis_error option \<Rightarrow> 'srv address list
     \<Rightarrow> redis_error + 'srv redis_connection" where
  "connect_loop peer e last_error [] =
     Inl (case last_error of None \<Rightarrow> RIo ''no Redis address'' | Some x \<Rightarrow> x)"
| "connect_loop peer e last_error (a # as) =
     (if \<not> addr_loopback a then
        connect_loop peer e (Some (RIo ''Redis endpoint resolved outside loopback'')) as
      else case addr_server a of
             Inl x \<Rightarrow> connect_loop peer e (Some x) as
           | Inr s \<Rightarrow>
               (case login peer e \<lparr>srv = s, inbuf = [], metrics = default_metrics\<rparr> of
                  (Inl x, c) \<Rightarrow> Inl x
                | (Inr _, c) \<Rightarrow> Inr c))"

definition connect ::
  "'srv peer \<Rightarrow> (string \<Rightarrow> nat \<Rightarrow> redis_error + 'srv address list) \<Rightarrow> redis_endpoint
     \<Rightarrow> redis_error + 'srv redis_connection" where
  "connect peer resolve e =
     rbind (resolve (ep_host e) (ep_port e)) (connect_loop peer e None)"

definition ping :: "'c executor \<Rightarrow> ('c, redis_error, unit) sm" where
  "ping exec =
     sbind (exec_command exec [''PING'']) (\<lambda>pong.
       if pong = Simple ''PONG'' then sret ()
       else sfail (RProtocol ''PING did not return PONG''))"

record 'srv redis_adapter =
  connection :: "'srv redis_connection"
  namespace :: string

definition connect_endpoint ::
  "'srv peer \<Rightarrow> (string \<Rightarrow> nat \<Rightarrow> redis_error + 'srv address list) \<Rightarrow> redis_endpoint \<Rightarrow> string
     \<Rightarrow> redis_error + 'srv redis_adapter" where
  "connect_endpoint peer resolve e ns =
     rbind (validate_namespace ns) (\<lambda>_.
     rbind (connect peer resolve e) (\<lambda>c.
       case ping (commands peer) c of
         (Inl x, c') \<Rightarrow> Inl x
       | (Inr _, c') \<Rightarrow> Inr \<lparr>connection = c', namespace = ns\<rparr>))"

definition from_env_with_namespace_suffix ::
  "'srv peer \<Rightarrow> (string \<Rightarrow> nat \<Rightarrow> redis_error + 'srv address list)
     \<Rightarrow> (string \<Rightarrow> string option) \<Rightarrow> string \<Rightarrow> redis_error + 'srv redis_adapter option" where
  "from_env_with_namespace_suffix peer resolve env suffix =
     rbind (endpoint_from_env env) (\<lambda>found.
       case found of
         None \<Rightarrow> Inr None
       | Some e \<Rightarrow>
           let ns = (case env ''MEMORY_MCP_REDIS_NAMESPACE'' of
                       None \<Rightarrow> ''memory-mcp''
                     | Some v \<Rightarrow> if utf8_valid v then v else ''memory-mcp'');
               ns = (if suffix = [] then ns else ns @ '':'' @ suffix)
           in rbind (connect_endpoint peer resolve e ns) (\<lambda>a. Inr (Some a)))"

section \<open>Pipelining\<close>

lemma sat_add_assoc: "sat_add (sat_add a x) y = sat_add a (x + y)"
  by (simp add: sat_add_def)

lemma read_reply_bytes:
  assumes "resp_ok 0 r" "inbuf c = resp_bytes r @ s"
  shows "read_reply c =
    (Inr r, c\<lparr>inbuf := s, metrics := (metrics c)\<lparr>m_response_bytes :=
       sat_add (m_response_bytes (metrics c)) (length (resp_bytes r))\<rparr>\<rparr>)"
  using assms by (simp add: read_reply_def read_resp_bytes)

lemma read_replies_bytes:
  assumes "length rs = length cmds" "\<forall>r\<in>set rs. resp_ok 0 r"
    and "inbuf c = concat (map resp_bytes rs) @ s"
    and "m_response_bytes (metrics c) \<le> u64_max"
  shows "smapM (\<lambda>_. read_reply) cmds c =
    (Inr rs, c\<lparr>inbuf := s, metrics := (metrics c)\<lparr>m_response_bytes :=
       sat_add (m_response_bytes (metrics c)) (length (concat (map resp_bytes rs)))\<rparr>\<rparr>)"
  using assms
proof (induction rs cmds arbitrary: c rule: list_induct2')
  case 1
  then show ?case by (simp add: sret_def sat_add_def)
next
  case (4 r rs x cmds)
  let ?c = "c\<lparr>inbuf := concat (map resp_bytes rs) @ s, metrics := (metrics c)\<lparr>m_response_bytes :=
      sat_add (m_response_bytes (metrics c)) (length (resp_bytes r))\<rparr>\<rparr>"
  have "read_reply c = (Inr r, ?c)" using 4 by (intro read_reply_bytes) auto
  moreover have "smapM (\<lambda>_. read_reply) cmds ?c =
      (Inr rs, ?c\<lparr>inbuf := s, metrics := (metrics ?c)\<lparr>m_response_bytes :=
        sat_add (m_response_bytes (metrics ?c)) (length (concat (map resp_bytes rs)))\<rparr>\<rparr>)"
    using 4 by (intro "4.IH") (auto simp: sat_add_le)
  ultimately show ?case
    by (simp add: sbind_eval sret_def sat_add_assoc)
qed auto

lemma commands_reply:
  assumes "cmds \<noteq> []"
    and "peer (srv c) (concat (map encode_command cmds)) = (s, Some (concat (map resp_bytes rs)))"
    and "length rs = length cmds" "\<forall>r\<in>set rs. resp_ok 0 r" "inbuf c = []"
    and "m_response_bytes (metrics c) \<le> u64_max"
  shows "commands peer cmds c =
    (Inr rs, c\<lparr>srv := s, metrics := \<lparr>
       m_commands = sat_add (m_commands (metrics c)) (length cmds),
       m_request_bytes = sat_add (m_request_bytes (metrics c)) (length (concat (map encode_command cmds))),
       m_response_bytes = sat_add (m_response_bytes (metrics c)) (length (concat (map resp_bytes rs)))\<rparr>\<rparr>)"
proof -
  let ?c = "c\<lparr>srv := s, inbuf := concat (map resp_bytes rs),
      metrics := add_request (length cmds) (length (concat (map encode_command cmds))) (metrics c)\<rparr>"
  have "smapM (\<lambda>_. read_reply) cmds ?c =
      (Inr rs, ?c\<lparr>inbuf := [], metrics := (metrics ?c)\<lparr>m_response_bytes :=
        sat_add (m_response_bytes (metrics ?c)) (length (concat (map resp_bytes rs)))\<rparr>\<rparr>)"
    using assms by (intro read_replies_bytes) (auto simp: add_request_def)
  moreover have "commands peer cmds c = smapM (\<lambda>_. read_reply) cmds ?c"
    using assms by (simp add: commands_def)
  ultimately show ?thesis using assms(5)
    by (cases c; cases "metrics c") (simp add: add_request_def)
qed

text \<open>
  Pipelining. When the peer answers a batch with the wire form of one reply per command,
  \<open>commands\<close> returns exactly these replies in the order of the commands, consumes every
  byte of the answer, and the metrics grow by the number of commands and by the bytes
  written and read (saturating at the top of \<open>u64\<close>).
\<close>

theorem commands_pipelined:
  assumes "cmds \<noteq> []"
    and "peer (srv c) (concat (map encode_command cmds)) = (s, Some (concat (map resp_bytes rs)))"
    and "length rs = length cmds" "\<forall>r\<in>set rs. resp_ok 0 r" "inbuf c = []"
    and "m_response_bytes (metrics c) \<le> u64_max"
  shows "commands peer cmds c =
    (Inr rs, c\<lparr>srv := s, metrics := \<lparr>
       m_commands = sat_add (m_commands (metrics c)) (length cmds),
       m_request_bytes = sat_add (m_request_bytes (metrics c)) (length (concat (map encode_command cmds))),
       m_response_bytes = sat_add (m_response_bytes (metrics c)) (length (concat (map resp_bytes rs)))\<rparr>\<rparr>)"
  using assms by (rule commands_reply)

theorem commands_pipelined_witness:
  "commands (\<lambda>(s::unit) q. (s, Some (concat (map resp_bytes [Simple ''PONG'', Bulk None]))))
     [[''PING''], [''GET'', ''k'']] \<lparr>srv = (), inbuf = [], metrics = default_metrics\<rparr> =
   (Inr [Simple ''PONG'', Bulk None],
    \<lparr>srv = (), inbuf = [], metrics = \<lparr>m_commands = 2, m_request_bytes = 34, m_response_bytes = 12\<rparr>\<rparr>)"
proof -
  let ?p = "\<lambda>(s::unit) q::string. (s, Some (concat (map resp_bytes [Simple ''PONG'', Bulk None])))"
  let ?c = "\<lparr>srv = (), inbuf = [], metrics = default_metrics\<rparr>"
  have "\<forall>r\<in>set [Simple ''PONG'', Bulk None]. resp_ok 0 r"
    by (simp add: line_ok_def MAX_RESP_LINE_BYTES_def MAX_RESP_DEPTH_def LF_def)
  moreover have "length (concat (map encode_command [[''PING''], [''GET'', ''k'']])) = 34" by code_simp
  moreover have "length (concat (map resp_bytes [Simple ''PONG'', Bulk None])) = 12" by code_simp
  ultimately show ?thesis
    using commands_pipelined[of "[[''PING''], [''GET'', ''k'']]" ?p ?c "()" "[Simple ''PONG'', Bulk None]"]
    by (simp add: default_metrics_def sat_add_def u64_max_def)
qed

section \<open>The handshake\<close>

lemma read_reply_metrics:
  "read_reply c = (r, c') \<Longrightarrow> m_commands (metrics c') = m_commands (metrics c)"
  by (auto simp: read_reply_def split: prod.splits)

lemma smapM_read_metrics:
  "smapM (\<lambda>_. read_reply) xs c = (r, c') \<Longrightarrow> m_commands (metrics c') = m_commands (metrics c)"
proof (induction xs arbitrary: c r)
  case Nil
  then show ?case by (simp add: sret_def)
next
  case (Cons x xs)
  then show ?case
    by (auto simp: sbind_def sret_def split: prod.splits sum.splits dest!: read_reply_metrics)
qed

lemma commands_metrics:
  "commands peer cmds c = (Inr rs, c') \<Longrightarrow>
     m_commands (metrics c') = (if cmds = [] then m_commands (metrics c)
       else sat_add (m_commands (metrics c)) (length cmds))"
  by (auto simp: commands_def add_request_def Let_def
      split: if_splits prod.splits option.splits dest!: smapM_read_metrics)

lemma command_metrics:
  "command peer args c = (Inr r, c') \<Longrightarrow> m_commands (metrics c') = sat_add (m_commands (metrics c)) 1"
  by (auto simp: command_def exec_command_def sbind_Inr_iff sfail_def sret_def
      split: if_splits resp.splits dest!: commands_metrics)

text \<open>
  C5. Only loopback is contacted. Replacing the server behind every address that is not a
  loopback address never changes the outcome of connecting: such addresses are skipped
  even when the host name resolves to them.
\<close>

theorem connect_ignores_remote:
  "connect_loop peer e last_error
     (map (\<lambda>a. if addr_loopback a then a else a\<lparr>addr_server := other a\<rparr>) as) =
   connect_loop peer e last_error as"
  by (induction as arbitrary: last_error) (auto split: sum.splits)

lemma connect_loop_Inr:
  "connect_loop peer e le as = Inr c \<Longrightarrow>
     \<exists>a\<in>set as. \<exists>s. addr_loopback a \<and> addr_server a = Inr s \<and>
       login peer e \<lparr>srv = s, inbuf = [], metrics = default_metrics\<rparr> = (Inr (), c)"
  by (induction as arbitrary: le) (auto split: if_splits sum.splits prod.splits)

definition handshake_commands :: "redis_endpoint \<Rightarrow> nat" where
  "handshake_commands e =
     (if ep_password e = None then 0 else 1) + (if ep_database e = 0 then 0 else 1) + 1"

lemma login_metrics:
  "login peer e c = (Inr (), c') \<Longrightarrow> m_commands (metrics c) = 0 \<Longrightarrow>
     Suc (m_commands (metrics c')) = handshake_commands e"
  by (auto simp: login_def auth_command_def handshake_commands_def sbind_Inr_iff sret_def
      sat_add_def u64_max_def split: option.splits if_splits dest!: command_metrics)

text \<open>
  The handshake. An adapter built from an endpoint has a valid key namespace, sits on a
  loopback address of the endpoint's host, and its server has answered the whole
  handshake: \<open>AUTH\<close> exactly when a password is configured, \<open>SELECT\<close> exactly when the
  database is not 0, and \<open>PING\<close>, which the command counter shows.
\<close>

theorem connect_endpoint_handshake:
  assumes "connect_endpoint peer resolve e ns = Inr a"
  shows "validate_namespace ns = Inr () \<and> namespace a = ns \<and>
    m_commands (metrics (connection a)) = handshake_commands e \<and>
    (\<exists>addresses. resolve (ep_host e) (ep_port e) = Inr addresses \<and>
       (\<exists>address\<in>set addresses. addr_loopback address \<and> (\<exists>s. addr_server address = Inr s)))"
proof -
  obtain c c' where c: "validate_namespace ns = Inr ()" "connect peer resolve e = Inr c"
      "ping (commands peer) c = (Inr (), c')" "a = \<lparr>connection = c', namespace = ns\<rparr>"
  proof -
    obtain c where "validate_namespace ns = Inr ()" "connect peer resolve e = Inr c"
        "(case ping (commands peer) c of (Inl x, c') \<Rightarrow> Inl x
          | (Inr _, c') \<Rightarrow> Inr \<lparr>connection = c', namespace = ns\<rparr>) = Inr a"
      using assms by (auto simp: connect_endpoint_def rbind_Inr_iff)
    then show thesis using that by (cases "ping (commands peer) c") (auto split: sum.splits)
  qed
  obtain addresses where r: "resolve (ep_host e) (ep_port e) = Inr addresses"
      and l: "connect_loop peer e None addresses = Inr c"
    using c(2) by (auto simp: connect_def rbind_Inr_iff)
  obtain ad s where ad: "ad \<in> set addresses" "addr_loopback ad" "addr_server ad = Inr s"
      "login peer e \<lparr>srv = s, inbuf = [], metrics = default_metrics\<rparr> = (Inr (), c)"
    using connect_loop_Inr[OF l] by auto
  from ad(4) have "Suc (m_commands (metrics c)) = handshake_commands e"
    by (rule login_metrics) (simp add: default_metrics_def)
  moreover have "m_commands (metrics c') = sat_add (m_commands (metrics c)) 1"
    using c(3) by (auto simp: ping_def command_def[symmetric] fun_cong[OF command_def, symmetric] sbind_Inr_iff sret_def sfail_def
        split: if_splits dest!: command_metrics)
  moreover have "handshake_commands e \<le> 3" by (simp add: handshake_commands_def)
  ultimately have "m_commands (metrics c') = handshake_commands e"
    by (simp add: sat_add_def u64_max_def)
  with c r ad show ?thesis by auto
qed

text \<open>A server that answers each write with the next reply of a script.\<close>

fun script_peer :: "resp list peer" where
  "script_peer [] q = ([], None)"
| "script_peer (r # rs) q = (rs, Some (resp_bytes r))"

lemma script_command:
  assumes "resp_ok 0 r" "\<forall>e. r \<noteq> Error e" "srv c = r # rs" "inbuf c = []"
    and "m_response_bytes (metrics c) \<le> u64_max"
  shows "\<exists>m. command script_peer args c = (Inr r, c\<lparr>srv := rs, metrics := m\<rparr>) \<and>
    m_response_bytes m \<le> u64_max"
  using commands_reply[of "[args]" script_peer c rs "[r]"] assms
  by (auto simp: command_def exec_command_def sbind_def sret_def sat_add_le split: resp.splits)

theorem connect_endpoint_handshake_witness:
  "\<exists>a. connect_endpoint script_peer
     (\<lambda>h p. Inr [\<lparr>addr_loopback = False, addr_server = Inr []\<rparr>,
                 \<lparr>addr_loopback = True, addr_server = Inr [Simple ''OK'', Simple ''OK'', Simple ''PONG'']\<rparr>])
     \<lparr>ep_host = ''localhost'', ep_port = 6379, ep_database = 2, ep_username = None,
       ep_password = Some ''p''\<rparr> ''ns'' = Inr a \<and> m_commands (metrics (connection a)) = 3"
proof -
  let ?s = "[Simple ''OK'', Simple ''OK'', Simple ''PONG'']"
  let ?r = "\<lambda>(h::string) (p::nat). Inr [\<lparr>addr_loopback = False, addr_server = Inr []\<rparr>,
      \<lparr>addr_loopback = True, addr_server = Inr ?s\<rparr>]"
  let ?e = "\<lparr>ep_host = ''localhost'', ep_port = 6379, ep_database = 2, ep_username = None,
      ep_password = Some ''p''\<rparr>"
  have ok: "resp_ok 0 (Simple ''OK'')" "resp_ok 0 (Simple ''PONG'')"
    by (simp_all add: line_ok_def MAX_RESP_LINE_BYTES_def MAX_RESP_DEPTH_def LF_def)
  let ?c = "\<lparr>srv = ?s, inbuf = [], metrics = default_metrics\<rparr>"
  obtain m1 where m1: "command script_peer [''AUTH'', ''p''] ?c = (Inr (Simple ''OK''),
      ?c\<lparr>srv := tl ?s, metrics := m1\<rparr>)" "m_response_bytes m1 \<le> u64_max"
    using script_command[OF ok(1), of ?c "tl ?s"] by (auto simp: default_metrics_def)
  let ?c1 = "?c\<lparr>srv := tl ?s, metrics := m1\<rparr>"
  obtain m2 where m2: "command script_peer [''SELECT'', dec_nat 2] ?c1 = (Inr (Simple ''OK''),
      ?c1\<lparr>srv := tl (tl ?s), metrics := m2\<rparr>)" "m_response_bytes m2 \<le> u64_max"
    using script_command[OF ok(1), of ?c1 "tl (tl ?s)"] m1(2) by auto
  let ?c2 = "?c1\<lparr>srv := tl (tl ?s), metrics := m2\<rparr>"
  obtain m3 where m3: "command script_peer [''PING''] ?c2 = (Inr (Simple ''PONG''),
      ?c2\<lparr>srv := [], metrics := m3\<rparr>)"
    using script_command[OF ok(2), of ?c2 "[]"] m2(2) by auto
  have "validate_namespace ''ns'' = Inr ()" by code_simp
  then have "\<exists>a. connect_endpoint script_peer ?r ?e ''ns'' = Inr a"
    using m1 m2 m3
    by (simp add: connect_endpoint_def connect_def login_def auth_command_def ping_def command_def[symmetric] sbind_eval
        sret_def)
  then obtain a where a: "connect_endpoint script_peer ?r ?e ''ns'' = Inr a" by blast
  with connect_endpoint_handshake[OF a] show ?thesis by (simp add: handshake_commands_def)
qed

end
