(* ===== verification/RedisContract.thy ===== *)
theory RedisContract
  imports RedisConn
begin

text \<open>
  What the adapter relies on from the Redis server, which is not part of the repository: the
  documented effect of the few commands it sends, \<open>WATCH\<close>/\<open>MULTI\<close>/\<open>EXEC\<close> included, with
  other clients free to change the keyspace between any two commands. The locale
  \<open>redis_client\<close> states this contract for an executor of batches; every theorem on the
  adapter that needs the server has it as a hypothesis. It is interpreted on the connection
  layer, over a reference server that speaks the protocol byte by byte.
\<close>

section \<open>The documented commands\<close>

datatype rvalue = RStr string | RSet "string list"

type_synonym keyspace = "string \<Rightarrow> rvalue option"

definition wrongtype :: resp where
  "wrongtype = Error ''WRONGTYPE Operation against a key holding the wrong kind of value''"

definition redis_incr :: "keyspace \<Rightarrow> string \<Rightarrow> keyspace \<times> resp" where
  "redis_incr ks k =
     (case ks k of
        None \<Rightarrow> (ks(k \<mapsto> RStr (dec_int 1)), Integer 1)
      | Some (RSet _) \<Rightarrow> (ks, wrongtype)
      | Some (RStr s) \<Rightarrow>
          (case parse_i64 s of
             None \<Rightarrow> (ks, Error ''ERR value is not an integer or out of range'')
           | Some i \<Rightarrow>
               if dec_int i = s \<and> i + 1 < 2 ^ 63
               then (ks(k \<mapsto> RStr (dec_int (i + 1))), Integer (i + 1))
               else (ks, Error ''ERR value is not an integer or out of range'')))"

definition redis_members :: "keyspace \<Rightarrow> string \<Rightarrow> string list option" where
  "redis_members ks k =
     (case ks k of None \<Rightarrow> Some [] | Some (RSet xs) \<Rightarrow> Some xs | Some (RStr _) \<Rightarrow> None)"

definition redis_sadd :: "keyspace \<Rightarrow> string \<Rightarrow> string \<Rightarrow> keyspace \<times> resp" where
  "redis_sadd ks k m =
     (case redis_members ks k of
        None \<Rightarrow> (ks, wrongtype)
      | Some xs \<Rightarrow> if m \<in> set xs then (ks, Integer 0) else (ks(k \<mapsto> RSet (xs @ [m])), Integer 1))"

definition redis_srem :: "keyspace \<Rightarrow> string \<Rightarrow> string \<Rightarrow> keyspace \<times> resp" where
  "redis_srem ks k m =
     (case redis_members ks k of
        None \<Rightarrow> (ks, wrongtype)
      | Some xs \<Rightarrow>
          if m \<in> set xs then
            (ks(k := (if removeAll m xs = [] then None else Some (RSet (removeAll m xs)))), Integer 1)
          else (ks, Integer 0))"

definition apply_command :: "keyspace \<Rightarrow> string list \<Rightarrow> keyspace \<times> resp" where
  "apply_command ks args =
     (let c = hd args; k = args ! 1; v = args ! 2; n = length args in
      if args = [''PING''] then (ks, Simple ''PONG'')
      else if c = ''GET'' \<and> n = 2 then
        (ks, case ks k of None \<Rightarrow> Bulk None | Some (RStr s) \<Rightarrow> Bulk (Some s) | Some (RSet _) \<Rightarrow> wrongtype)
      else if c = ''SMEMBERS'' \<and> n = 2 then
        (ks, case redis_members ks k of None \<Rightarrow> wrongtype
             | Some xs \<Rightarrow> Array (Some (map (\<lambda>x. Bulk (Some x)) xs)))
      else if c = ''INCR'' \<and> n = 2 then redis_incr ks k
      else if c = ''DEL'' \<and> n = 2 then
        (ks(k := None), Integer (if ks k = None then 0 else 1))
      else if c = ''SADD'' \<and> n = 3 then redis_sadd ks k v
      else if c = ''SREM'' \<and> n = 3 then redis_srem ks k v
      else if c = ''SET'' \<and> (n = 3 \<or> (n = 5 \<and> args ! 3 = ''EX'')) then
        (ks(k \<mapsto> RStr v), Simple ''OK'')
      else if c = ''SET'' \<and> n = 4 \<and> args ! 3 = ''NX'' then
        (if ks k = None then (ks(k \<mapsto> RStr v), Simple ''OK'') else (ks, Bulk None))
      else (ks, Error ''ERR unknown command''))"

fun apply_commands :: "keyspace \<Rightarrow> string list list \<Rightarrow> keyspace \<times> resp list" where
  "apply_commands ks [] = (ks, [])"
| "apply_commands ks (c # cs) =
     (case apply_command ks c of (ks1, r) \<Rightarrow> case apply_commands ks1 cs of (ks2, rs) \<Rightarrow> (ks2, r # rs))"

definition is_read :: "string list \<Rightarrow> bool" where
  "is_read args \<longleftrightarrow> hd args \<in> {''GET'', ''SMEMBERS'', ''PING''}"

section \<open>One connection's view of the server\<close>

text \<open>
  The journal is a ghost: what this connection wrote, each entry with the keyspace it was
  applied to at that instant and with the commands and replies of one atomic step.
\<close>

record entry =
  je_before :: keyspace
  je_commands :: "string list list"
  je_replies :: "resp list"

record redis_view =
  keyspace :: keyspace
  watched :: "string list"
  dirty :: bool
  queue :: "string list list option"
  journal :: "entry list"

definition redis_step :: "redis_view \<Rightarrow> string list \<Rightarrow> redis_view \<times> resp" where
  "redis_step v args =
     (case queue v of
        Some q \<Rightarrow>
          if args = [''EXEC''] then
            if dirty v then (v\<lparr>watched := [], dirty := False, queue := None\<rparr>, Array None)
            else
              (case apply_commands (keyspace v) q of (ks, rs) \<Rightarrow>
                 (v\<lparr>keyspace := ks, watched := [], dirty := False, queue := None,
                    journal := journal v @
                      [\<lparr>je_before = keyspace v, je_commands = q, je_replies = rs\<rparr>]\<rparr>,
                  Array (Some rs)))
          else (v\<lparr>queue := Some (q @ [args])\<rparr>, Simple ''QUEUED'')
      | None \<Rightarrow>
          if hd args = ''WATCH'' then (v\<lparr>watched := watched v @ tl args\<rparr>, Simple ''OK'')
          else if args = [''UNWATCH''] then (v\<lparr>watched := [], dirty := False\<rparr>, Simple ''OK'')
          else if args = [''MULTI''] then (v\<lparr>queue := Some []\<rparr>, Simple ''OK'')
          else
            (case apply_command (keyspace v) args of (ks, r) \<Rightarrow>
               (if is_read args then v
                else v\<lparr>keyspace := ks,
                       dirty := (dirty v \<or> (\<exists>k\<in>set (watched v). ks k \<noteq> keyspace v k)),
                       journal := journal v @
                         [\<lparr>je_before = keyspace v, je_commands = [args], je_replies = [r]\<rparr>]\<rparr>,
                r)))"

text \<open>
  Between two commands other clients, expiry and eviction may change any key; a change of
  a watched key marks the connection.
\<close>

definition interferes :: "redis_view \<Rightarrow> redis_view \<Rightarrow> bool" where
  "interferes v w \<longleftrightarrow>
     watched w = watched v \<and> queue w = queue v \<and> journal w = journal v \<and>
     (dirty v \<longrightarrow> dirty w) \<and> (watched v = [] \<longrightarrow> dirty w = dirty v) \<and>
     (\<not> dirty w \<longrightarrow> (\<forall>k\<in>set (watched v). keyspace w k = keyspace v k))"

fun served :: "string list list \<Rightarrow> redis_view \<Rightarrow> resp list \<Rightarrow> redis_view \<Rightarrow> bool" where
  "served [] v rs w \<longleftrightarrow> rs = [] \<and> interferes v w"
| "served (c # cs) v rs w \<longleftrightarrow>
     (\<exists>u r rs'. interferes v u \<and> rs = r # rs' \<and> snd (redis_step u c) = r \<and>
        served cs (fst (redis_step u c)) rs' w)"

section \<open>Facts on the contract\<close>

lemma interferes_refl [simp]: "interferes v v"
  by (simp add: interferes_def)

lemma interferes_trans: "interferes u v \<Longrightarrow> interferes v w \<Longrightarrow> interferes u w"
  by (auto simp: interferes_def)

lemma interferesD:
  "interferes v w \<Longrightarrow> queue w = queue v \<and> journal w = journal v \<and> watched w = watched v"
  by (simp add: interferes_def)

lemma served_append:
  "served (cs @ ds) v rs w \<longleftrightarrow>
     (\<exists>rs1 rs2 u. rs = rs1 @ rs2 \<and> served cs v rs1 u \<and> served ds u rs2 w)"
proof (induction cs arbitrary: v rs)
  case Nil
  have "served ds v rs w \<longleftrightarrow> (\<exists>u. interferes v u \<and> served ds u rs w)"
    by (cases ds) (auto intro: interferes_trans interferes_refl)
  then show ?case by simp
next
  case (Cons c cs)
  then show ?case by (auto simp: Cons_eq_append_conv) blast+
qed

lemma served_length: "served cs v rs w \<Longrightarrow> length rs = length cs"
  by (induction cs v rs w rule: served.induct) auto

text \<open>
  The contract. On a connection in step with the server (\<open>synced\<close>), the replies of a batch
  that succeeds are those of its commands, each executed once and in order, and the
  connection stays in step; a batch that fails has executed a prefix of its commands. The
  connection layer itself never reports a revision conflict.
\<close>

definition not_conflict :: "redis_error \<Rightarrow> bool" where
  "not_conflict x \<longleftrightarrow> (\<forall>a b. x \<noteq> RConflict a b)"

locale redis_client =
  fixes exec :: "'c executor" and view :: "'c \<Rightarrow> redis_view" and synced :: "'c \<Rightarrow> bool"
  assumes exec_ok:
    "synced c \<Longrightarrow> exec cmds c = (Inr rs, c') \<Longrightarrow> synced c' \<and> served cmds (view c) rs (view c')"
  and exec_failed:
    "synced c \<Longrightarrow> exec cmds c = (Inl x, c') \<Longrightarrow>
       not_conflict x \<and> (\<exists>n rs. n \<le> length cmds \<and> served (take n cmds) (view c) rs (view c'))"
begin

definition triple ::
  "(redis_view \<Rightarrow> bool) \<Rightarrow> ('c, redis_error, 'a) sm \<Rightarrow> ('a \<Rightarrow> redis_view \<Rightarrow> bool)
     \<Rightarrow> (redis_error \<Rightarrow> redis_view \<Rightarrow> bool) \<Rightarrow> bool" where
  "triple P m Q R \<longleftrightarrow>
     (\<forall>c r c'. synced c \<longrightarrow> P (view c) \<longrightarrow> m c = (r, c') \<longrightarrow>
        (case r of Inr a \<Rightarrow> synced c' \<and> Q a (view c') | Inl x \<Rightarrow> R x (view c')))"

lemma tripleI:
  assumes "\<And>c a c'. synced c \<Longrightarrow> P (view c) \<Longrightarrow> m c = (Inr a, c') \<Longrightarrow> synced c' \<and> Q a (view c')"
    and "\<And>c x c'. synced c \<Longrightarrow> P (view c) \<Longrightarrow> m c = (Inl x, c') \<Longrightarrow> R x (view c')"
  shows "triple P m Q R"
  using assms by (auto simp: triple_def split: sum.splits)

lemma triple_Inr:
  "triple P m Q R \<Longrightarrow> synced c \<Longrightarrow> P (view c) \<Longrightarrow> m c = (Inr a, c') \<Longrightarrow> synced c' \<and> Q a (view c')"
  by (auto simp: triple_def)

lemma triple_Inl:
  "triple P m Q R \<Longrightarrow> synced c \<Longrightarrow> P (view c) \<Longrightarrow> m c = (Inl x, c') \<Longrightarrow> R x (view c')"
  by (auto simp: triple_def)

lemma triple_snd:
  assumes "triple P m (\<lambda>_. J) (\<lambda>_. J)" "synced c" "P (view c)"
  shows "J (view (snd (m c)))"
  using triple_Inr[OF assms] triple_Inl[OF assms] by (cases "m c"; cases "fst (m c)") auto

lemma triple_sbind:
  assumes "triple P m Q R" "\<And>a. triple (Q a) (f a) S R"
  shows "triple P (sbind m f) S R"
proof (rule tripleI)
  fix c a c' assume c: "synced c" "P (view c)" "sbind m f c = (Inr a, c')"
  then obtain b u where "m c = (Inr b, u)" "f b u = (Inr a, c')" by (auto simp: sbind_Inr_iff)
  with triple_Inr[OF assms(1) c(1,2)] triple_Inr[OF assms(2)] show "synced c' \<and> S a (view c')" by blast
next
  fix c x c' assume c: "synced c" "P (view c)" "sbind m f c = (Inl x, c')"
  then consider "m c = (Inl x, c')" | b u where "m c = (Inr b, u)" "f b u = (Inl x, c')"
    by (auto simp: sbind_Inl_iff)
  then show "R x (view c')"
    using triple_Inl[OF assms(1) c(1,2)] triple_Inr[OF assms(1) c(1,2)] triple_Inl[OF assms(2)]
    by cases blast+
qed

lemma triple_sret [intro]: "(\<And>v. P v \<Longrightarrow> Q a v) \<Longrightarrow> triple P (sret a) Q R"
  by (auto simp: triple_def sret_def)

lemma triple_sfail [intro]: "(\<And>v. P v \<Longrightarrow> R x v) \<Longrightarrow> triple P (sfail x) Q R"
  by (auto simp: triple_def sfail_def)

lemma triple_slift [intro]:
  "(\<And>a v. P v \<Longrightarrow> r = Inr a \<Longrightarrow> Q a v) \<Longrightarrow> (\<And>x v. P v \<Longrightarrow> r = Inl x \<Longrightarrow> R x v) \<Longrightarrow> triple P (slift r) Q R"
  by (auto simp: triple_def slift_def split: sum.splits)

lemma triple_conseq:
  assumes "triple P m Q R" "\<And>v. P' v \<Longrightarrow> P v" "\<And>a v. Q a v \<Longrightarrow> Q' a v" "\<And>x v. R x v \<Longrightarrow> R' x v"
  shows "triple P' m Q' R'"
  by (rule tripleI) (use triple_Inr[OF assms(1)] triple_Inl[OF assms(1)] assms(2-) in blast)+

text \<open>A batch: what holds after all its commands, and what holds after any prefix of them.\<close>

lemma triple_exec:
  assumes "\<And>v rs w. P v \<Longrightarrow> served cmds v rs w \<Longrightarrow> Q rs w"
    and "\<And>v n rs w x. P v \<Longrightarrow> n \<le> length cmds \<Longrightarrow> served (take n cmds) v rs w \<Longrightarrow> not_conflict x \<Longrightarrow> R x w"
  shows "triple P (exec cmds) Q R"
  by (rule tripleI) (use exec_ok exec_failed assms in blast)+

lemma triple_command:
  assumes "\<And>v w. P v \<Longrightarrow> interferes v w \<Longrightarrow> P w"
    and "\<And>v. P v \<Longrightarrow> Q (snd (redis_step v args)) (fst (redis_step v args))"
    and "\<And>r v w. Q r v \<Longrightarrow> interferes v w \<Longrightarrow> Q r w"
    and "\<And>x v. P v \<Longrightarrow> not_conflict x \<Longrightarrow> R x v"
    and "\<And>x r v. Q r v \<Longrightarrow> not_conflict x \<Longrightarrow> R x v"
  shows "triple P (exec_command exec args) Q R"
  unfolding exec_command_def
proof (rule triple_sbind)
  show "triple P (exec [args]) (\<lambda>rs v. \<exists>r. rs = [r] \<and> Q r v) R"
  proof (rule triple_exec)
    fix v rs w assume "P v" "served [args] v rs w"
    then show "\<exists>r. rs = [r] \<and> Q r w" using assms(1,2,3) by fastforce
  next
    fix v n rs w x
    assume p: "P v" "not_conflict x" and n: "n \<le> length [args]" and s: "served (take n [args]) v rs w"
    show "R x w"
    proof (cases n)
      case 0
      with s p assms(1,4) show ?thesis by simp
    next
      case (Suc m)
      with s n obtain u where u: "interferes v u" "interferes (fst (redis_step u args)) w" by auto
      with p assms(1) have "P u" by blast
      with assms(2,3,5) u p show ?thesis by blast
    qed
  qed
  fix rs
  show "triple (\<lambda>v. \<exists>r. rs = [r] \<and> Q r v)
      (if rs = [] then sfail (RProtocol ''Redis returned no response'')
       else case last rs of Error m \<Rightarrow> sfail (RProtocol m) | r \<Rightarrow> sret r) Q R"
    using assms(5) by (auto simp: triple_def sfail_def sret_def not_conflict_def split: resp.splits)
qed

end

text \<open>Commands that only read, or that only queue, leave the journal alone.\<close>

lemma step_read:
  "queue v = None \<Longrightarrow> is_read args \<Longrightarrow> fst (redis_step v args) = v \<and>
     snd (redis_step v args) = snd (apply_command (keyspace v) args)"
  by (auto simp: redis_step_def is_read_def split: prod.split)

lemma step_watch:
  "queue v = None \<Longrightarrow> redis_step v (''WATCH'' # ks) = (v\<lparr>watched := watched v @ ks\<rparr>, Simple ''OK'')"
  by (simp add: redis_step_def)

lemma step_multi: "queue v = None \<Longrightarrow> redis_step v [''MULTI''] = (v\<lparr>queue := Some []\<rparr>, Simple ''OK'')"
  by (simp add: redis_step_def)

lemma step_unwatch:
  "queue v = None \<Longrightarrow> redis_step v [''UNWATCH''] = (v\<lparr>watched := [], dirty := False\<rparr>, Simple ''OK'')"
  by (simp add: redis_step_def)

lemma step_queue:
  "queue v = Some q \<Longrightarrow> args \<noteq> [''EXEC''] \<Longrightarrow>
     redis_step v args = (v\<lparr>queue := Some (q @ [args])\<rparr>, Simple ''QUEUED'')"
  by (simp add: redis_step_def)

lemmas step_simps = step_watch step_multi step_unwatch step_queue

lemma served_read:
  assumes "served [args] v [r] w" "queue v = None" "is_read args"
  shows "\<exists>u. interferes v u \<and> interferes u w \<and> r = snd (apply_command (keyspace u) args)"
proof -
  obtain u where u: "interferes v u" "snd (redis_step u args) = r"
      "interferes (fst (redis_step u args)) w"
    using assms(1) by auto
  then have "queue u = None" using assms(2) interferesD by force
  with step_read[of u args] assms(3) u show ?thesis by auto
qed

lemma apply_get:
  "apply_command ks [''GET'', k] =
     (ks, case ks k of None \<Rightarrow> Bulk None | Some (RStr s) \<Rightarrow> Bulk (Some s) | Some (RSet _) \<Rightarrow> wrongtype)"
  by (simp add: apply_command_def)

lemma is_read_simps [simp]:
  "is_read (''GET'' # as)" "is_read (''SMEMBERS'' # as)" "is_read (''PING'' # as)"
  by (simp_all add: is_read_def)

end
