(* ===== verification/RedisAdapter.thy ===== *)
theory RedisAdapter
  imports RedisContract
begin

text \<open>
  \<open>RedisAdapter\<close> of \<open>src/redis.rs\<close> above the connection: its key space, the reads of
  revision, snapshot, ledger, manifest and entities, and the two publishing transactions.
  The adapter's \<open>namespace\<close>, the digest and the JSON encoders are a record \<open>env\<close>; the
  connection is the executor of batches of \<open>RedisConn\<close>.
\<close>

section \<open>Data\<close>

definition MAX_SNAPSHOT_BYTES :: nat where "MAX_SNAPSHOT_BYTES = 32 * 1024 * 1024"
definition MAX_NATIVE_ENTITY_BYTES :: nat where "MAX_NATIVE_ENTITY_BYTES = 256 * 1024"
definition MAX_NATIVE_ENTITIES :: nat where "MAX_NATIVE_ENTITIES = 4096"
definition MAX_NATIVE_PROJECTION_BYTES :: nat where "MAX_NATIVE_PROJECTION_BYTES = 8 * 1024 * 1024"
definition MAX_LEDGER_RECORD_BYTES :: nat where "MAX_LEDGER_RECORD_BYTES = 8 * 1024"
definition NATIVE_SCHEMA_VERSION :: nat where "NATIVE_SCHEMA_VERSION = 2"

definition IDEMPOTENCY_MARKER_TTL_SECONDS :: nat where
  "IDEMPOTENCY_MARKER_TTL_SECONDS = 7 * 24 * 60 * 60"

definition NATIVE_SYSTEM_SCOPE :: string where
  "NATIVE_SYSTEM_SCOPE = ''__system__''"

record 'p redis_entity_record =
  en_kind :: string
  en_id :: string
  en_payload :: 'p

record 'p redis_native_projection =
  np_workspace :: string
  np_entities :: "'p redis_entity_record list"

record redis_native_entity_key =
  nk_kind :: string
  nk_id :: string

record 'p redis_native_delta =
  nd_workspace :: string
  nd_upserts :: "'p redis_entity_record list"
  nd_deletes :: "redis_native_entity_key list"
  nd_entity_count :: nat

record redis_operation =
  op_idempotency_key :: string
  op_name :: string
  op_workspace :: string

record redis_operation_ledger =
  ol_operation_key :: string
  ol_operation_name :: string
  ol_workspace_hash :: string
  ol_status :: string
  ol_revision :: nat
  ol_entity_count :: nat
  ol_reason :: "string option"

record redis_native_manifest =
  nm_schema_version :: nat
  nm_revision :: nat
  nm_entity_count :: nat

text \<open>The digest is \<open>hex::encode(Sha256::digest(_))\<close>, the coders are \<open>serde_json\<close>'s.\<close>

record 'p env =
  env_namespace :: string
  digest :: "string \<Rightarrow> string"
  entity_json :: "'p redis_entity_record \<Rightarrow> redis_error + string"
  entity_of_json :: "string \<Rightarrow> redis_error + 'p redis_entity_record"
  ledger_json :: "redis_operation_ledger \<Rightarrow> redis_error + string"
  ledger_of_json :: "string \<Rightarrow> redis_error + redis_operation_ledger"
  manifest_json :: "redis_native_manifest \<Rightarrow> redis_error + string"
  manifest_of_json :: "string \<Rightarrow> redis_error + redis_native_manifest"

section \<open>Keys\<close>

definition key :: "'p env \<Rightarrow> string \<Rightarrow> string" where
  "key env suffix = env_namespace env @ '':'' @ suffix"

definition workspace_key :: "'p env \<Rightarrow> string \<Rightarrow> string" where
  "workspace_key env workspace = key env (''workspace:'' @ digest env workspace)"

definition state_snapshot_key :: "'p env \<Rightarrow> string" where
  "state_snapshot_key env = key env ''state:snapshot''"

definition state_revision_key :: "'p env \<Rightarrow> string" where
  "state_revision_key env = key env ''state:revision''"

definition operation_marker_key :: "'p env \<Rightarrow> string \<Rightarrow> string" where
  "operation_marker_key env k = key env (''operation:'' @ k)"

definition operation_ledger_key :: "'p env \<Rightarrow> string \<Rightarrow> string" where
  "operation_ledger_key env k = key env (''operation:ledger:'' @ k)"

definition native_index_key :: "'p env \<Rightarrow> string \<Rightarrow> string" where
  "native_index_key env workspace = key env (''native:index:'' @ digest env workspace)"

definition native_manifest_key :: "'p env \<Rightarrow> string \<Rightarrow> string" where
  "native_manifest_key env workspace = key env (''native:manifest:'' @ digest env workspace)"

definition native_schema_key :: "'p env \<Rightarrow> string" where
  "native_schema_key env = key env ''native:schema''"

definition native_entity_key_from_parts :: "'p env \<Rightarrow> string \<Rightarrow> string \<Rightarrow> string \<Rightarrow> string" where
  "native_entity_key_from_parts env workspace kind eid =
     key env (''native:entity:'' @ digest env workspace @ '':'' @ kind @ '':'' @ digest env eid)"

definition native_entity_key :: "'p env \<Rightarrow> string \<Rightarrow> 'p redis_entity_record \<Rightarrow> string" where
  "native_entity_key env workspace entity =
     native_entity_key_from_parts env workspace (en_kind entity) (en_id entity)"

definition fact_key :: "'p env \<Rightarrow> string \<Rightarrow> string \<Rightarrow> string" where
  "fact_key env txt workspace =
     key env (''fact:'' @ digest env workspace @ '':'' @ digest env txt)"

section \<open>Reads\<close>

definition get_bulk :: "'c executor \<Rightarrow> string \<Rightarrow> ('c, redis_error, string option) sm" where
  "get_bulk exec k =
     sbind (exec_command exec [''GET'', k]) (\<lambda>r. slift (into_bulk ''GET'' r))"

definition parse_state_revision_response :: "resp \<Rightarrow> redis_error + nat" where
  "parse_state_revision_response r =
     rbind (into_bulk ''GET'' r) (\<lambda>v.
       case v of
         None \<Rightarrow> Inr 0
       | Some b \<Rightarrow>
           if \<not> utf8_valid b then Inl (RProtocol ''state revision is not UTF-8'')
           else case parse_unsigned u64_max b of
                  None \<Rightarrow> Inl (RProtocol ''state revision is not an integer'')
                | Some n \<Rightarrow> Inr n)"

definition state_revision :: "'p env \<Rightarrow> 'c executor \<Rightarrow> ('c, redis_error, nat) sm" where
  "state_revision env exec =
     sbind (exec_command exec [''GET'', state_revision_key env])
       (\<lambda>r. slift (parse_state_revision_response r))"

definition state_snapshot :: "'p env \<Rightarrow> 'c executor \<Rightarrow> ('c, redis_error, string option) sm" where
  "state_snapshot env exec =
     sbind (get_bulk exec (state_snapshot_key env)) (\<lambda>v.
       case v of
         None \<Rightarrow> sret None
       | Some b \<Rightarrow>
           if MAX_SNAPSHOT_BYTES < length b
           then sfail (RProtocol ''state snapshot exceeds the configured size limit'')
           else sret (Some b))"

fun decode_option :: "(string \<Rightarrow> redis_error + 'a) \<Rightarrow> string option \<Rightarrow> redis_error + 'a option" where
  "decode_option f None = Inr None"
| "decode_option f (Some b) = rbind (f b) (\<lambda>a. Inr (Some a))"

definition operation_ledger ::
  "'p env \<Rightarrow> 'c executor \<Rightarrow> string \<Rightarrow> ('c, redis_error, redis_operation_ledger option) sm" where
  "operation_ledger env exec k =
     sbind (slift (validate_operation_key k)) (\<lambda>_.
     sbind (get_bulk exec (operation_ledger_key env k)) (\<lambda>v.
     slift (decode_option (ledger_of_json env) v)))"

definition ledger_committed :: "redis_operation_ledger option \<Rightarrow> bool" where
  "ledger_committed l = (case l of None \<Rightarrow> False | Some r \<Rightarrow> ol_status r = ''committed'')"

definition operation_applied :: "'p env \<Rightarrow> 'c executor \<Rightarrow> string \<Rightarrow> ('c, redis_error, bool) sm" where
  "operation_applied env exec k =
     sbind (slift (validate_operation_key k)) (\<lambda>_.
     sbind (operation_ledger env exec k) (\<lambda>l.
     if ledger_committed l then sret True
     else sbind (get_bulk exec (operation_marker_key env k)) (\<lambda>v. sret (v \<noteq> None))))"

definition native_manifest ::
  "'p env \<Rightarrow> 'c executor \<Rightarrow> string \<Rightarrow> ('c, redis_error, redis_native_manifest option) sm" where
  "native_manifest env exec workspace =
     (if blank workspace then sfail (RInvalid ''native manifest workspace must not be empty'')
      else sbind (get_bulk exec (native_manifest_key env workspace)) (\<lambda>v.
             slift (decode_option (manifest_of_json env) v)))"

definition native_schema_needs_rebuild :: "'p env \<Rightarrow> 'c executor \<Rightarrow> ('c, redis_error, bool) sm" where
  "native_schema_needs_rebuild env exec =
     sbind (get_bulk exec (native_schema_key env)) (\<lambda>v.
       case v of
         None \<Rightarrow> sret True
       | Some b \<Rightarrow>
           if \<not> utf8_valid b then sfail (RProtocol ''native schema marker is not valid UTF-8'')
           else sret ((case parse_unsigned 255 b of None \<Rightarrow> 0 | Some n \<Rightarrow> n) < NATIVE_SCHEMA_VERSION))"

text \<open>\<open>sort_by\<close> of entity records is stable and compares kind, then id.\<close>

definition entity_le :: "'p redis_entity_record \<Rightarrow> 'p redis_entity_record \<Rightarrow> bool" where
  "entity_le a b \<longleftrightarrow> en_kind a < en_kind b \<or> (en_kind a = en_kind b \<and> en_id a \<le> en_id b)"

fun insert_entity ::
  "'p redis_entity_record \<Rightarrow> 'p redis_entity_record list \<Rightarrow> 'p redis_entity_record list" where
  "insert_entity x [] = [x]"
| "insert_entity x (y # ys) = (if entity_le x y then x # y # ys else y # insert_entity x ys)"

definition sort_entities :: "'p redis_entity_record list \<Rightarrow> 'p redis_entity_record list" where
  "sort_entities xs = foldr insert_entity xs []"

definition smembers :: "'c executor \<Rightarrow> string \<Rightarrow> ('c, redis_error, resp list) sm" where
  "smembers exec k =
     sbind (exec_command exec [''SMEMBERS'', k]) (\<lambda>r. slift (into_array ''SMEMBERS'' r))"

definition read_entity ::
  "'p env \<Rightarrow> 'c executor \<Rightarrow> resp \<Rightarrow> ('c, redis_error, 'p redis_entity_record list) sm" where
  "read_entity env exec member =
     sbind (slift (into_bulk ''SMEMBERS'' member)) (\<lambda>k.
       case k of
         None \<Rightarrow> sret []
       | Some k \<Rightarrow>
           sbind (get_bulk exec k) (\<lambda>v.
             case v of
               None \<Rightarrow> sret []
             | Some b \<Rightarrow> sbind (slift (entity_of_json env b)) (\<lambda>e. sret [e])))"

definition native_entities ::
  "'p env \<Rightarrow> 'c executor \<Rightarrow> string \<Rightarrow> ('c, redis_error, 'p redis_entity_record list) sm" where
  "native_entities env exec workspace =
     (if blank workspace then sfail (RInvalid ''native entity workspace must not be empty'')
      else sbind (smembers exec (native_index_key env workspace)) (\<lambda>keys.
        if MAX_NATIVE_ENTITIES < length keys then
          sfail (RProtocol ''native entity index exceeds the configured count limit'')
        else sbind (smapM (read_entity env exec) keys) (\<lambda>ess. sret (sort_entities (concat ess)))))"

section \<open>Publishing transactions: what is checked first\<close>

text \<open>
  The validation loops thread the running totals and the sets of names seen so far; a list
  stands for each \<open>BTreeSet\<close>. The saturating sums never saturate: each is checked against its limit at every step.
\<close>

definition encode_bounded ::
  "'p env \<Rightarrow> string \<Rightarrow> nat \<Rightarrow> 'p redis_entity_record \<Rightarrow> redis_error + nat" where
  "encode_bounded env what bytes e =
     rbind (entity_json env e) (\<lambda>b.
       if MAX_NATIVE_ENTITY_BYTES < length b then
         Inl (RInvalid ''native entity exceeds the configured size limit'')
       else let bytes = bytes + length b
            in if MAX_NATIVE_PROJECTION_BYTES < bytes then
                 Inl (RInvalid (what @ '' exceeds the configured size limit''))
               else Inr bytes)"

fun validate_projection_entities ::
  "'p env \<Rightarrow> string \<Rightarrow> nat \<times> (string \<times> string \<times> string) list \<Rightarrow> 'p redis_entity_record list
     \<Rightarrow> redis_error + nat \<times> (string \<times> string \<times> string) list" where
  "validate_projection_entities env ws (bytes, seen) [] = Inr (bytes, seen)"
| "validate_projection_entities env ws (bytes, seen) (e # es) =
     rbind (validate_kind_id (en_kind e) (en_id e)) (\<lambda>_.
     if (ws, en_kind e, en_id e) \<in> set seen then Inl (RInvalid ''native entity keys must be unique'')
     else rbind (encode_bounded env ''native entity projection'' bytes e) (\<lambda>bytes.
       validate_projection_entities env ws (bytes, (ws, en_kind e, en_id e) # seen) es))"

fun validate_projections ::
  "'p env \<Rightarrow> nat \<times> nat \<times> string list \<times> (string \<times> string \<times> string) list
     \<Rightarrow> 'p redis_native_projection list \<Rightarrow> redis_error + nat" where
  "validate_projections env (tot, bytes, names, seen) [] = Inr tot"
| "validate_projections env (tot, bytes, names, seen) (p # ps) =
     (if blank (np_workspace p) then
        Inl (RInvalid ''native projection workspace must not be empty'')
      else if np_workspace p \<in> set names then
        Inl (RInvalid ''native projections must have unique workspaces'')
      else if MAX_NATIVE_ENTITIES - tot < length (np_entities p) then
        Inl (RInvalid ''native entity projection exceeds the configured count limit'')
      else rbind (validate_projection_entities env (np_workspace p) (bytes, seen) (np_entities p)) (\<lambda>r.
        validate_projections env
          (tot + length (np_entities p), fst r, np_workspace p # names, snd r) ps))"

fun validate_delta_upserts ::
  "'p env \<Rightarrow> nat \<times> (string \<times> string) list \<Rightarrow> 'p redis_entity_record list
     \<Rightarrow> redis_error + nat \<times> (string \<times> string) list" where
  "validate_delta_upserts env (bytes, seen) [] = Inr (bytes, seen)"
| "validate_delta_upserts env (bytes, seen) (e # es) =
     rbind (validate_kind_id (en_kind e) (en_id e)) (\<lambda>_.
     if (en_kind e, en_id e) \<in> set seen then Inl (RInvalid ''native delta entity keys must be unique'')
     else rbind (encode_bounded env ''native delta'' bytes e) (\<lambda>bytes.
       validate_delta_upserts env (bytes, (en_kind e, en_id e) # seen) es))"

fun validate_delta_deletes ::
  "(string \<times> string) list \<Rightarrow> redis_native_entity_key list \<Rightarrow> redis_error + unit" where
  "validate_delta_deletes seen [] = Inr ()"
| "validate_delta_deletes seen (k # ks) =
     rbind (validate_kind_id (nk_kind k) (nk_id k)) (\<lambda>_.
     if (nk_kind k, nk_id k) \<in> set seen then
       Inl (RInvalid ''native delta entity keys must be unique'')
     else validate_delta_deletes ((nk_kind k, nk_id k) # seen) ks)"

fun validate_deltas ::
  "'p env \<Rightarrow> nat \<times> nat \<times> string list \<Rightarrow> 'p redis_native_delta list \<Rightarrow> redis_error + nat" where
  "validate_deltas env (tot, bytes, names) [] = Inr tot"
| "validate_deltas env (tot, bytes, names) (d # ds) =
     (if blank (nd_workspace d) then Inl (RInvalid ''native delta workspace must not be empty'')
      else if nd_workspace d \<in> set names then
        Inl (RInvalid ''native deltas must have unique workspaces'')
      else if MAX_NATIVE_ENTITIES < nd_entity_count d then
        Inl (RInvalid ''native delta entity count exceeds the configured limit'')
      else let tot = tot + nd_entity_count d
           in if MAX_NATIVE_ENTITIES < tot then
                Inl (RInvalid ''native delta entity count exceeds the configured limit'')
              else rbind (validate_delta_upserts env (bytes, []) (nd_upserts d)) (\<lambda>r.
                rbind (validate_delta_deletes (snd r) (nd_deletes d)) (\<lambda>_.
                validate_deltas env (tot, fst r, nd_workspace d # names) ds)))"

fun unique_operations :: "string list \<Rightarrow> redis_operation list \<Rightarrow> redis_error + unit" where
  "unique_operations seen [] = Inr ()"
| "unique_operations seen (p # ps) =
     (if op_idempotency_key p \<in> set seen then
        Inl (RInvalid ''native operation ledger keys must be unique'')
      else unique_operations (op_idempotency_key p # seen) ps)"

definition validate_operations :: "redis_operation list \<Rightarrow> redis_error + unit" where
  "validate_operations ops =
     rbind (rforM (\<lambda>p. rbind (validate_operation_key (op_idempotency_key p)) (\<lambda>_.
                        validate_operation_name (op_name p))) ops) (\<lambda>_.
     unique_operations [] ops)"

section \<open>Publishing transactions: the watched revision\<close>

text \<open>\<open>WATCH\<close> and \<open>GET\<close> travel in one batch; another revision than the expected one unwatches.\<close>

definition watch_preflight ::
  "'p env \<Rightarrow> 'c executor \<Rightarrow> string list \<Rightarrow> nat \<Rightarrow> ('c, redis_error, unit) sm" where
  "watch_preflight env exec watch_keys expected =
     sbind (exec [''WATCH'' # watch_keys, [''GET'', state_revision_key env]]) (\<lambda>responses.
       case responses of
         [watch_reply, revision] \<Rightarrow>
           if watch_reply \<noteq> Simple ''OK'' then sfail (RProtocol ''WATCH did not return OK'')
           else sbind (slift (parse_state_revision_response revision)) (\<lambda>actual.
             if actual \<noteq> expected then
               (\<lambda>c. (Inl (RConflict expected actual), snd (exec_command exec [''UNWATCH''] c)))
             else sret ())
       | _ \<Rightarrow> sfail (RProtocol ''WATCH preflight returned an unexpected response count''))"

section \<open>Publishing transactions: the result of EXEC\<close>

definition exec_values ::
  "'p env \<Rightarrow> 'c executor \<Rightarrow> nat \<Rightarrow> resp \<Rightarrow> ('c, redis_error, resp list) sm" where
  "exec_values env exec expected result =
     (case result of
        Array (Some values) \<Rightarrow> sret values
      | Array None \<Rightarrow>
          (\<lambda>c. case state_revision env exec c of
                 (Inl _, c') \<Rightarrow> (Inl (RConflict expected expected), c')
               | (Inr actual, c') \<Rightarrow> (Inl (RConflict expected actual), c'))
      | _ \<Rightarrow> sfail (RProtocol ''EXEC returned a non-array response''))"

text \<open>One check per queued command, in the order of the queue; \<open>INCR\<close> gives the revision.\<close>

datatype check = CSuccess string | CIntegerOrSuccess string | CRevision

definition run_check :: "check \<Rightarrow> resp \<Rightarrow> redis_error + int option" where
  "run_check k r =
     (case k of
        CSuccess what \<Rightarrow> rbind (into_success what r) (\<lambda>_. Inr None)
      | CIntegerOrSuccess what \<Rightarrow> rbind (into_integer_or_success what r) (\<lambda>_. Inr None)
      | CRevision \<Rightarrow> rbind (into_integer ''INCR'' r) (\<lambda>i. Inr (Some i)))"

definition transaction_revision :: "check list \<Rightarrow> resp list \<Rightarrow> redis_error + nat" where
  "transaction_revision checks values =
     (if length values \<noteq> length checks then
        Inl (RProtocol ''EXEC returned an unexpected result count'')
      else rbind (rmapM (\<lambda>(k, r). run_check k r) (zip checks values)) (\<lambda>rs.
        case concat (map (\<lambda>r. case r of None \<Rightarrow> [] | Some i \<Rightarrow> [i]) rs) of
          i # _ \<Rightarrow> if i < 0 then Inl (RProtocol ''state revision overflowed'') else Inr (nat i)
        | [] \<Rightarrow> Inl (RProtocol ''state revision overflowed'')))"

section \<open>Publishing the state image with its projections\<close>

type_synonym queue_item = "redis_error + string list \<times> string"

definition queue_transaction_command ::
  "'c executor \<Rightarrow> string list \<Rightarrow> string \<Rightarrow> ('c, redis_error, unit) sm" where
  "queue_transaction_command exec args what =
     sbind (exec_command exec args) (\<lambda>queued.
       if queued = Simple ''QUEUED'' then sret ()
       else sfail (RProtocol (what @ '' was not queued in the Redis transaction'')))"

text \<open>A record is encoded just before its command is queued, so the first failure wins.\<close>

definition queue_items :: "'c executor \<Rightarrow> queue_item list \<Rightarrow> ('c, redis_error, unit) sm" where
  "queue_items exec items =
     sforM (\<lambda>item. sbind (slift item) (\<lambda>(args, what). queue_transaction_command exec args what)) items"

fun old_entity_keys ::
  "'p env \<Rightarrow> 'c executor \<Rightarrow> string list \<Rightarrow> string list \<Rightarrow> ('c, redis_error, string list) sm" where
  "old_entity_keys env exec found [] = sret found"
| "old_entity_keys env exec found (w # ws) =
     sbind (smembers exec (native_index_key env w)) (\<lambda>keys.
       if MAX_NATIVE_ENTITIES < length keys \<or> MAX_NATIVE_ENTITIES < length found + length keys then
         sfail (RProtocol ''native entity index exceeds the configured count limit'')
       else sbind (slift (rmapM (into_bulk ''SMEMBERS'') keys)) (\<lambda>ks.
         old_entity_keys env exec
           (found @ concat (map (\<lambda>k. case k of None \<Rightarrow> [] | Some b \<Rightarrow> [b]) ks)) ws))"

definition committed_ledger :: "'p env \<Rightarrow> nat \<Rightarrow> nat \<Rightarrow> redis_operation \<Rightarrow> redis_operation_ledger" where
  "committed_ledger env next_revision entities p =
     \<lparr>ol_operation_key = op_idempotency_key p, ol_operation_name = op_name p,
      ol_workspace_hash = digest env (op_workspace p), ol_status = ''committed'',
      ol_revision = next_revision, ol_entity_count = entities, ol_reason = None\<rparr>"

definition encode_ledger :: "'p env \<Rightarrow> string \<Rightarrow> redis_operation_ledger \<Rightarrow> redis_error + string" where
  "encode_ledger env what ledger =
     rbind (ledger_json env ledger) (\<lambda>b.
       if MAX_LEDGER_RECORD_BYTES < length b
       then Inl (RInvalid (what @ '' record exceeds the configured size limit''))
       else Inr b)"

definition ledger_item :: "'p env \<Rightarrow> nat \<Rightarrow> nat \<Rightarrow> redis_operation \<Rightarrow> queue_item" where
  "ledger_item env next_revision entities p =
     rbind (encode_ledger env ''operation ledger'' (committed_ledger env next_revision entities p)) (\<lambda>b.
       Inr ([''SET'', operation_ledger_key env (op_idempotency_key p), b], ''SET operation ledger''))"

definition marker_item :: "'p env \<Rightarrow> redis_operation \<Rightarrow> queue_item" where
  "marker_item env p =
     Inr ([''SET'', operation_marker_key env (op_idempotency_key p), ''1'', ''EX'',
           dec_nat IDEMPOTENCY_MARKER_TTL_SECONDS], ''idempotency marker'')"

definition manifest_item :: "'p env \<Rightarrow> nat \<Rightarrow> string \<Rightarrow> nat \<Rightarrow> queue_item" where
  "manifest_item env next_revision workspace entities =
     rbind (manifest_json env \<lparr>nm_schema_version = NATIVE_SCHEMA_VERSION,
       nm_revision = next_revision, nm_entity_count = entities\<rparr>) (\<lambda>b.
     Inr ([''SET'', native_manifest_key env workspace, b], ''SET native manifest''))"

definition entity_items :: "'p env \<Rightarrow> string \<Rightarrow> 'p redis_entity_record \<Rightarrow> queue_item list" where
  "entity_items env workspace e =
     [rbind (entity_json env e) (\<lambda>b.
        Inr ([''SET'', native_entity_key env workspace e, b], ''SET native entity'')),
      Inr ([''SADD'', native_index_key env workspace, native_entity_key env workspace e],
        ''SADD native index'')]"

definition schema_item :: "'p env \<Rightarrow> queue_item" where
  "schema_item env =
     Inr ([''SET'', native_schema_key env, dec_nat NATIVE_SCHEMA_VERSION], ''SET native schema'')"

definition incr_item :: "'p env \<Rightarrow> queue_item" where
  "incr_item env = Inr ([''INCR'', state_revision_key env], ''INCR revision'')"

definition state_items ::
  "'p env \<Rightarrow> string \<Rightarrow> 'p redis_native_projection list \<Rightarrow> redis_operation list \<Rightarrow> string list
     \<Rightarrow> nat \<Rightarrow> nat \<Rightarrow> queue_item list" where
  "state_items env snapshot projections ops old_keys tot next_revision =
     [Inr ([''SET'', state_snapshot_key env, snapshot], ''SET snapshot''),
      incr_item env, schema_item env]
     @ map (\<lambda>k. Inr ([''DEL'', k], ''DEL native entity'')) old_keys
     @ map (\<lambda>p. Inr ([''DEL'', native_index_key env (np_workspace p)], ''DEL native index'')) projections
     @ concat (map (\<lambda>p. concat (map (entity_items env (np_workspace p)) (np_entities p))) projections)
     @ map (ledger_item env next_revision tot) ops
     @ map (marker_item env) ops
     @ map (\<lambda>p. manifest_item env next_revision (np_workspace p) (length (np_entities p))) projections"

definition state_checks ::
  "'p redis_native_projection list \<Rightarrow> redis_operation list \<Rightarrow> string list \<Rightarrow> check list" where
  "state_checks projections ops old_keys =
     [CSuccess ''SET snapshot'', CRevision, CSuccess ''SET native schema'']
     @ map (\<lambda>_. CIntegerOrSuccess ''DEL native entity'') old_keys
     @ map (\<lambda>_. CIntegerOrSuccess ''DEL native index'') projections
     @ concat (map (\<lambda>p. concat (map (\<lambda>_. [CSuccess ''SET native entity'',
         CIntegerOrSuccess ''SADD native index'']) (np_entities p))) projections)
     @ map (\<lambda>_. CSuccess ''SET operation ledger'') ops
     @ map (\<lambda>_. CSuccess ''idempotency marker SET'') ops
     @ map (\<lambda>_. CSuccess ''SET native manifest'') projections"

definition validate_state ::
  "'p env \<Rightarrow> string \<Rightarrow> 'p redis_native_projection list \<Rightarrow> redis_operation list \<Rightarrow> redis_error + nat" where
  "validate_state env snapshot projections ops =
     (if snapshot = [] then Inl (RInvalid ''state snapshot must not be empty'')
      else if MAX_SNAPSHOT_BYTES < length snapshot then
        Inl (RInvalid ''state snapshot exceeds the configured size limit'')
      else rbind (validate_projections env (0, 0, [], []) projections) (\<lambda>tot.
        rbind (validate_operations ops) (\<lambda>_. Inr tot)))"

definition publish_state_with_projections ::
  "'p env \<Rightarrow> 'c executor \<Rightarrow> nat \<Rightarrow> string \<Rightarrow> 'p redis_native_projection list \<Rightarrow> redis_operation list
     \<Rightarrow> ('c, redis_error, nat) sm" where
  "publish_state_with_projections env exec expected snapshot projections ops =
     sbind (slift (validate_state env snapshot projections ops)) (\<lambda>tot.
     sbind (watch_preflight env exec
       ([state_snapshot_key env, state_revision_key env, native_schema_key env]
        @ map (\<lambda>p. native_index_key env (np_workspace p)) projections) expected) (\<lambda>_.
     sbind (old_entity_keys env exec [] (map np_workspace projections)) (\<lambda>old_keys.
     sbind (exec_command exec [''MULTI'']) (\<lambda>multi.
     if multi \<noteq> Simple ''OK'' then sfail (RProtocol ''MULTI did not return OK'')
     else
       sbind (queue_items exec
         (state_items env snapshot projections ops old_keys tot (sat_add expected 1))) (\<lambda>_.
       sbind (exec_command exec [''EXEC'']) (\<lambda>result.
       sbind (exec_values env exec expected result) (\<lambda>values.
       slift (transaction_revision (state_checks projections ops old_keys) values))))))))"

definition publish_state_with_operations ::
  "'p env \<Rightarrow> 'c executor \<Rightarrow> nat \<Rightarrow> string \<Rightarrow> string list \<Rightarrow> ('c, redis_error, nat) sm" where
  "publish_state_with_operations env exec expected snapshot keys =
     publish_state_with_projections env exec expected snapshot []
       (map (\<lambda>k. \<lparr>op_idempotency_key = k, op_name = ''unknown'', op_workspace = []\<rparr>) keys)"

definition publish_state :: "'p env \<Rightarrow> 'c executor \<Rightarrow> nat \<Rightarrow> string \<Rightarrow> ('c, redis_error, nat) sm" where
  "publish_state env exec expected snapshot =
     publish_state_with_operations env exec expected snapshot []"

section \<open>Publishing native deltas\<close>

definition execute_batched_transaction ::
  "'c executor \<Rightarrow> string list list \<Rightarrow> ('c, redis_error, resp) sm" where
  "execute_batched_transaction exec queued =
     sbind (exec ([''MULTI''] # queued @ [[''EXEC'']])) (\<lambda>responses.
       if length responses < 2 then
         sfail (RProtocol ''batched Redis transaction returned too few responses'')
       else sbind (slift (into_success ''MULTI'' (hd responses))) (\<lambda>_.
         if \<exists>r\<in>set (butlast (tl responses)). r \<noteq> Simple ''QUEUED'' then
           sfail (RProtocol ''Redis transaction command was not queued'')
         else case last responses of
                Error message \<Rightarrow> sfail (RProtocol message)
              | result \<Rightarrow> sret result))"

definition delta_items ::
  "'p env \<Rightarrow> 'p redis_native_delta \<Rightarrow> queue_item list" where
  "delta_items env d =
     concat (map (\<lambda>k.
       let ek = native_entity_key_from_parts env (nd_workspace d) (nk_kind k) (nk_id k)
       in [Inr ([''SREM'', native_index_key env (nd_workspace d), ek], ''SREM native index''),
           Inr ([''DEL'', ek], ''DEL native entity'')]) (nd_deletes d))
     @ concat (map (entity_items env (nd_workspace d)) (nd_upserts d))"

definition deltas_items ::
  "'p env \<Rightarrow> 'p redis_native_delta list \<Rightarrow> redis_operation list \<Rightarrow> nat \<Rightarrow> nat \<Rightarrow> queue_item list" where
  "deltas_items env deltas ops tot next_revision =
     [schema_item env, incr_item env]
     @ concat (map (delta_items env) deltas)
     @ concat (map (\<lambda>p. [ledger_item env next_revision tot p, marker_item env p]) ops)
     @ map (\<lambda>d. manifest_item env next_revision (nd_workspace d) (nd_entity_count d)) deltas"

definition deltas_checks :: "'p redis_native_delta list \<Rightarrow> redis_operation list \<Rightarrow> check list" where
  "deltas_checks deltas ops =
     [CSuccess ''SET native schema'', CRevision]
     @ concat (map (\<lambda>d.
         concat (map (\<lambda>_. [CIntegerOrSuccess ''SREM native index'',
           CIntegerOrSuccess ''DEL native entity'']) (nd_deletes d))
         @ concat (map (\<lambda>_. [CSuccess ''SET native entity'',
           CIntegerOrSuccess ''SADD native index'']) (nd_upserts d))) deltas)
     @ concat (map (\<lambda>_. [CSuccess ''SET operation ledger'', CSuccess ''idempotency marker SET'']) ops)
     @ map (\<lambda>_. CSuccess ''SET native manifest'') deltas"

definition validate_native_deltas ::
  "'p env \<Rightarrow> 'p redis_native_delta list \<Rightarrow> redis_operation list \<Rightarrow> redis_error + nat" where
  "validate_native_deltas env deltas ops =
     rbind (validate_deltas env (0, 0, []) deltas) (\<lambda>tot.
     rbind (validate_operations ops) (\<lambda>_. Inr tot))"

definition publish_native_deltas ::
  "'p env \<Rightarrow> 'c executor \<Rightarrow> nat \<Rightarrow> 'p redis_native_delta list \<Rightarrow> redis_operation list
     \<Rightarrow> ('c, redis_error, nat) sm" where
  "publish_native_deltas env exec expected deltas ops =
     sbind (slift (validate_native_deltas env deltas ops)) (\<lambda>tot.
     sbind (watch_preflight env exec
       ([state_revision_key env, native_schema_key env]
        @ map (\<lambda>d. native_index_key env (nd_workspace d)) deltas) expected) (\<lambda>_.
     sbind (slift (rmapM (\<lambda>item. item) (deltas_items env deltas ops tot (sat_add expected 1)))) (\<lambda>queued.
     sbind (execute_batched_transaction exec (map fst queued)) (\<lambda>result.
     sbind (exec_values env exec expected result) (\<lambda>values.
     slift (transaction_revision (deltas_checks deltas ops) values))))))"

section \<open>Conflicts in the ledger\<close>

definition record_operation_conflict ::
  "'p env \<Rightarrow> 'c executor \<Rightarrow> redis_operation \<Rightarrow> string \<Rightarrow> nat \<Rightarrow> ('c, redis_error, unit) sm" where
  "record_operation_conflict env exec p reason revision =
     sbind (slift (validate_operation_key (op_idempotency_key p))) (\<lambda>_.
     sbind (slift (validate_operation_name (op_name p))) (\<lambda>_.
     if reason = [] \<or> 256 < length reason \<or> LF \<in> set reason then
       sfail (RInvalid ''operation conflict reason must be bounded and single-line'')
     else sbind (operation_ledger env exec (op_idempotency_key p)) (\<lambda>l.
     if ledger_committed l then sret ()
     else sbind (slift (encode_ledger env ''operation conflict''
            \<lparr>ol_operation_key = op_idempotency_key p, ol_operation_name = op_name p,
             ol_workspace_hash = digest env (op_workspace p), ol_status = ''conflict'',
             ol_revision = revision, ol_entity_count = 0, ol_reason = Some reason\<rparr>)) (\<lambda>b.
          sbind (exec_command exec [''SET'', operation_ledger_key env (op_idempotency_key p), b]) (\<lambda>r.
          slift (into_success ''SET operation conflict'' r))))))"

end
