(* ===== verification/NativeDelta.thy ===== *)
theory NativeDelta
  imports RedisAdapter "HOL-Library.Product_Lexorder"
begin

text \<open>
  The pointwise projection updates of \<open>src/backend.rs\<close>: \<open>native_deltas\<close> compares the cached
  projections with the current ones, and \<open>apply_native_cache\<close> records what was published. A
  \<open>BTreeMap\<close> is an association list with strictly ascending keys.
\<close>

section \<open>Ordered maps\<close>

fun bt_insert :: "'k::linorder \<Rightarrow> 'v \<Rightarrow> ('k \<times> 'v) list \<Rightarrow> ('k \<times> 'v) list" where
  "bt_insert k v [] = [(k, v)]"
| "bt_insert k v ((l, w) # m) =
     (if k < l then (k, v) # (l, w) # m else if k = l then (k, v) # m else (l, w) # bt_insert k v m)"

definition bt_collect :: "('k::linorder \<times> 'v) list \<Rightarrow> ('k \<times> 'v) list" where
  "bt_collect ps = foldl (\<lambda>m (k, v). bt_insert k v m) [] ps"

definition bt_ok :: "('k::linorder \<times> 'v) list \<Rightarrow> bool" where
  "bt_ok m \<longleftrightarrow> sorted_wrt (<) (map fst m)"

lemma bt_insert_keys [simp]: "fst ` set (bt_insert k v m) = insert k (fst ` set m)"
  by (induction k v m rule: bt_insert.induct) auto

lemma bt_insert_ok: "bt_ok m \<Longrightarrow> bt_ok (bt_insert k v m)"
proof (induction k v m rule: bt_insert.induct)
  case (2 k v l w m)
  have "\<forall>x\<in>fst ` set (bt_insert k v m). l < x" if "l < k" using that 2(2) by (auto simp: bt_ok_def)
  with 2 show ?case by (auto simp: bt_ok_def)
qed (simp add: bt_ok_def)

lemma bt_insert_map: "bt_ok m \<Longrightarrow> map_of (bt_insert k v m) = (map_of m)(k \<mapsto> v)"
  by (induction k v m rule: bt_insert.induct) (auto simp: bt_ok_def)

lemma bt_fold:
  "bt_ok m \<Longrightarrow> bt_ok (foldl (\<lambda>m (k, v). bt_insert k v m) m ps) \<and>
     map_of (foldl (\<lambda>m (k, v). bt_insert k v m) m ps) = map_of m ++ map_of (rev ps)"
proof (induction ps arbitrary: m)
  case (Cons p ps)
  then show ?case
    by (cases p) (auto simp: bt_insert_ok bt_insert_map map_add_def split: option.splits)
qed simp

lemma bt_collect_ok: "bt_ok (bt_collect ps)"
  and bt_collect_map: "map_of (bt_collect ps) = map_of (rev ps)"
  using bt_fold[of "[]" ps] by (auto simp: bt_collect_def bt_ok_def)

lemma bt_ok_distinct: "bt_ok m \<Longrightarrow> distinct (map fst m)"
  unfolding bt_ok_def using strict_sorted_iff by blast

section \<open>Deltas\<close>

definition entity_key :: "'p redis_entity_record \<Rightarrow> string \<times> string" where
  "entity_key e = (en_kind e, en_id e)"

definition entity_map :: "'p redis_entity_record list \<Rightarrow> ((string \<times> string) \<times> 'p redis_entity_record) list" where
  "entity_map es = bt_collect (map (\<lambda>e. (entity_key e, e)) es)"

definition native_delta ::
  "'p redis_native_projection list \<Rightarrow> 'p redis_native_projection \<Rightarrow> 'p redis_native_delta" where
  "native_delta previous projection =
     (let prev = (case find (\<lambda>c. np_workspace c = np_workspace projection) previous of
                    None \<Rightarrow> [] | Some c \<Rightarrow> entity_map (np_entities c));
          cur = entity_map (np_entities projection)
      in \<lparr>nd_workspace = np_workspace projection,
          nd_upserts = map snd (filter (\<lambda>(k, e). map_of prev k \<noteq> Some e) cur),
          nd_deletes = map (\<lambda>(kind, eid). \<lparr>nk_kind = kind, nk_id = eid\<rparr>)
            (filter (\<lambda>k. map_of cur k = None) (map fst prev)),
          nd_entity_count = length (np_entities projection)\<rparr>)"

definition native_deltas ::
  "'p redis_native_projection list \<Rightarrow> 'p redis_native_projection list \<Rightarrow> 'p redis_native_delta list" where
  "native_deltas previous current = map (native_delta previous) current"

fun cache_put ::
  "'p redis_native_projection list \<Rightarrow> 'p redis_native_projection \<Rightarrow> 'p redis_native_projection list" where
  "cache_put [] p = [p]"
| "cache_put (c # cs) p = (if np_workspace c = np_workspace p then p # cs else c # cache_put cs p)"

definition apply_native_cache ::
  "'p redis_native_projection list \<Rightarrow> 'p redis_native_projection list \<Rightarrow> 'p redis_native_projection list" where
  "apply_native_cache cache current = foldl cache_put cache current"

section \<open>What a delta does\<close>

text \<open>The entities of a scope as a map, and the effect of a delta on such a map.\<close>

definition scope_map ::
  "'p redis_native_projection list \<Rightarrow> string \<Rightarrow> string \<times> string \<Rightarrow> 'p redis_entity_record option" where
  "scope_map ps ws =
     (case find (\<lambda>c. np_workspace c = ws) ps of
        None \<Rightarrow> Map.empty | Some c \<Rightarrow> map_of (entity_map (np_entities c)))"

definition apply_delta ::
  "'p redis_native_delta \<Rightarrow> (string \<times> string \<Rightarrow> 'p redis_entity_record option)
     \<Rightarrow> string \<times> string \<Rightarrow> 'p redis_entity_record option" where
  "apply_delta d m k =
     (case find (\<lambda>e. entity_key e = k) (nd_upserts d) of
        Some e \<Rightarrow> Some e
      | None \<Rightarrow> if \<exists>x\<in>set (nd_deletes d). (nk_kind x, nk_id x) = k then None else m k)"

lemma entity_map_ok [simp]: "bt_ok (entity_map es)"
  by (simp add: entity_map_def bt_collect_ok)

lemma entity_map_key: "(k, e) \<in> set (entity_map es) \<Longrightarrow> entity_key e = k \<and> e \<in> set es"
proof -
  assume "(k, e) \<in> set (entity_map es)"
  then have "map_of (entity_map es) k = Some e" by (simp add: bt_ok_distinct)
  then have "map_of (rev (map (\<lambda>e. (entity_key e, e)) es)) k = Some e"
    by (simp add: entity_map_def bt_collect_map)
  then show ?thesis by (auto dest: map_of_SomeD)
qed

lemma upserts_find:
  "find (\<lambda>e. entity_key e = k) (map snd (filter (\<lambda>(k, e). P k e) (entity_map es))) =
     (case map_of (entity_map es) k of None \<Rightarrow> None | Some e \<Rightarrow> if P k e then Some e else None)"
proof -
  have "find (\<lambda>e. entity_key e = k) (map snd (filter (\<lambda>(k, e). P k e) m)) =
      (case map_of m k of None \<Rightarrow> None | Some e \<Rightarrow> if P k e then Some e else None)"
    if "\<forall>(k, e)\<in>set m. entity_key e = k" "distinct (map fst m)" for m :: "((string \<times> string) \<times> 'a redis_entity_record) list"
    using that
  proof (induction m)
    case (Cons p m)
    obtain l e where p: "p = (l, e)" by (cases p)
    show ?case
    proof (cases "l = k")
      case True
      then have "map_of m k = None" using Cons.prems p by (simp add: map_of_eq_None_iff)
      with Cons True p show ?thesis by auto
    next
      case False
      with Cons p show ?thesis by auto
    qed
  qed simp
  then show ?thesis using entity_map_key bt_ok_distinct[OF entity_map_ok] by blast
qed

lemma deletes_iff:
  "(\<exists>x\<in>set (nd_deletes (native_delta ps p)). (nk_kind x, nk_id x) = k) \<longleftrightarrow>
     scope_map ps (np_workspace p) k \<noteq> None \<and> map_of (entity_map (np_entities p)) k = None"
proof -
  let ?key = "\<lambda>x. (nk_kind x, nk_id x)"
  let ?prev = "case find (\<lambda>c. np_workspace c = np_workspace p) ps of
      None \<Rightarrow> [] | Some c \<Rightarrow> entity_map (np_entities c)"
  have "map ?key (nd_deletes (native_delta ps p)) =
      filter (\<lambda>k. map_of (entity_map (np_entities p)) k = None) (map fst ?prev)"
    by (auto simp: native_delta_def Let_def comp_def case_prod_beta)
  then have "k \<in> ?key ` set (nd_deletes (native_delta ps p)) \<longleftrightarrow>
      k \<in> fst ` set ?prev \<and> map_of (entity_map (np_entities p)) k = None"
    by (metis (mono_tags, lifting) list.set_map mem_Collect_eq set_filter)
  moreover have "k \<in> fst ` set ?prev \<longleftrightarrow> scope_map ps (np_workspace p) k \<noteq> None"
    unfolding scope_map_def
    by (cases "find (\<lambda>c. np_workspace c = np_workspace p) ps")
      (simp_all only: option.case map_of_eq_None_iff not_not list.set image_empty empty_iff map_of.simps simp_thms)
  ultimately show ?thesis by (auto simp: image_iff)
qed

lemma upserts_find_delta:
  "find (\<lambda>e. entity_key e = k) (nd_upserts (native_delta ps p)) =
     (case map_of (entity_map (np_entities p)) k of None \<Rightarrow> None
      | Some e \<Rightarrow> if scope_map ps (np_workspace p) k \<noteq> Some e then Some e else None)"
  by (auto simp: native_delta_def Let_def upserts_find scope_map_def split: option.splits)

lemma native_delta_exact_map:
  "apply_delta (native_delta ps p) (scope_map ps (np_workspace p)) k = map_of (entity_map (np_entities p)) k"
  by (auto simp: apply_delta_def upserts_find_delta deletes_iff split: option.splits)

text \<open>
  C6. Deltas are exact. Applied to the entities last known of the scope, the delta of a projection
  yields the entities of the projection: every changed or new entity is upserted, every
  vanished one deleted, and nothing else changes.
\<close>

theorem native_delta_exact:
  "apply_delta (native_delta ps p) (scope_map ps (np_workspace p)) = map_of (entity_map (np_entities p))"
  by (rule ext) (rule native_delta_exact_map)

text \<open>
  Deltas are minimal. The upserted keys are exactly those whose entity is new or differs from the
  one last known, the deleted keys exactly those known before and absent now, and no key occurs
  twice in a delta. In particular an unchanged scope has an empty delta.
\<close>

theorem native_delta_minimal:
  "let d = native_delta ps p; prev = scope_map ps (np_workspace p);
       cur = map_of (entity_map (np_entities p))
   in entity_key ` set (nd_upserts d) = {k. \<exists>e. cur k = Some e \<and> prev k \<noteq> Some e} \<and>
      (\<lambda>x. (nk_kind x, nk_id x)) ` set (nd_deletes d) = {k. prev k \<noteq> None \<and> cur k = None} \<and>
      distinct (map entity_key (nd_upserts d) @ map (\<lambda>x. (nk_kind x, nk_id x)) (nd_deletes d))"
proof -
  let ?d = "native_delta ps p" and ?prev = "scope_map ps (np_workspace p)"
  let ?cur = "entity_map (np_entities p)"
  define prev where "prev = (case find (\<lambda>c. np_workspace c = np_workspace p) ps of
      None \<Rightarrow> [] | Some c \<Rightarrow> entity_map (np_entities c))"
  have prev: "bt_ok prev" "map_of prev = ?prev"
    by (auto simp: prev_def scope_map_def bt_ok_def entity_map_ok[unfolded bt_ok_def] split: option.splits)
  have u: "nd_upserts ?d = map snd (filter (\<lambda>(k, e). map_of prev k \<noteq> Some e) ?cur)"
    and del: "map (\<lambda>x. (nk_kind x, nk_id x)) (nd_deletes ?d) =
      filter (\<lambda>k. map_of ?cur k = None) (map fst prev)"
    by (auto simp: native_delta_def Let_def prev_def comp_def case_prod_beta)
  have uk: "map entity_key (nd_upserts ?d) = map fst (filter (\<lambda>(k, e). map_of prev k \<noteq> Some e) ?cur)"
    unfolding u by (auto dest: entity_map_key)
  have "entity_key ` set (nd_upserts ?d) = fst ` set (filter (\<lambda>(k, e). map_of prev k \<noteq> Some e) ?cur)"
    using uk by (metis list.set_map)
  also have "\<dots> = {k. \<exists>e. map_of ?cur k = Some e \<and> ?prev k \<noteq> Some e}"
    using bt_ok_distinct[OF entity_map_ok, of "np_entities p"] unfolding prev(2)
    by (force simp: image_iff dest: map_of_SomeD)
  finally have 1: "entity_key ` set (nd_upserts ?d) = {k. \<exists>e. map_of ?cur k = Some e \<and> ?prev k \<noteq> Some e}" .
  have 2: "(\<lambda>x. (nk_kind x, nk_id x)) ` set (nd_deletes ?d) = {k. ?prev k \<noteq> None \<and> map_of ?cur k = None}"
    using deletes_iff[of ps p] by (auto simp: image_iff) metis+
  have "distinct (map fst (filter q ?cur))" for q
    using bt_ok_distinct[OF entity_map_ok] by (rule distinct_map_filter)
  moreover have "distinct (filter (\<lambda>k. map_of ?cur k = None) (map fst prev))"
    using bt_ok_distinct[OF prev(1)] by simp
  ultimately have 3: "distinct (map entity_key (nd_upserts ?d) @ map (\<lambda>x. (nk_kind x, nk_id x)) (nd_deletes ?d))"
    unfolding uk del by (auto simp: map_of_eq_None_iff)
  from 1 2 3 show ?thesis unfolding Let_def by blast
qed

lemma find_cache_put:
  "find (\<lambda>c. np_workspace c = ws) (cache_put cs p) =
     (if ws = np_workspace p then Some p else find (\<lambda>c. np_workspace c = ws) cs)"
  by (induction cs p rule: cache_put.induct) auto

text \<open>
  The cache follows what was published. After a publish of projections with distinct scopes the
  cache holds exactly these projections for their scopes and the old ones for all others, so
  the next delta is computed against what Redis was told.
\<close>

theorem native_cache_follows:
  assumes "distinct (map np_workspace current)"
  shows "find (\<lambda>c. np_workspace c = ws) (apply_native_cache cache current) =
    (case find (\<lambda>c. np_workspace c = ws) current of
       Some p \<Rightarrow> Some p | None \<Rightarrow> find (\<lambda>c. np_workspace c = ws) cache)"
  using assms unfolding apply_native_cache_def
proof (induction current arbitrary: cache)
  case (Cons p ps)
  have "find (\<lambda>c. np_workspace c = np_workspace p) ps = None"
    using Cons.prems unfolding find_None_iff distinct.simps list.map by (metis image_eqI list.set_map)
  with Cons show ?case by (auto simp: find_cache_put split: option.splits)
qed simp

theorem native_cache_follows_witness:
  "find (\<lambda>c. np_workspace c = ''w'')
     (apply_native_cache [\<lparr>np_workspace = ''w'', np_entities = []\<rparr>, \<lparr>np_workspace = ''v'', np_entities = []\<rparr>]
       [\<lparr>np_workspace = ''w'', np_entities = [\<lparr>en_kind = ''fact'', en_id = ''1'', en_payload = ()\<rparr>]\<rparr>]) =
   Some \<lparr>np_workspace = ''w'', np_entities = [\<lparr>en_kind = ''fact'', en_id = ''1'', en_payload = ()\<rparr>]\<rparr>"
  by (subst native_cache_follows) simp_all

end
