(* ===== verification/Json.thy ===== *)
theory Json
  imports Prelude Complex_Main
begin

text \<open>
  JSON values as \<open>serde_json::Value\<close> holds them, with the accessors the source uses. An
  object is an association list with distinct keys in ascending order (\<open>serde_json::Map\<close> is
  a \<open>BTreeMap\<close>). A number is an integer of the range of \<open>i64\<close> or \<open>u64\<close>, or a finite \<open>f64\<close>,
  which is a rational number.
\<close>

datatype json =
    JNull
  | JBool bool
  | JInt int
  | JFloat rat
  | JString string
  | JArray "json list"
  | JObject "(string \<times> json) list"

type_synonym json_map = "(string \<times> json) list"

fun as_str :: "json \<Rightarrow> string option" where
  "as_str (JString s) = Some s"
| "as_str _ = None"

fun as_bool :: "json \<Rightarrow> bool option" where
  "as_bool (JBool b) = Some b"
| "as_bool _ = None"

fun as_object :: "json \<Rightarrow> json_map option" where
  "as_object (JObject m) = Some m"
| "as_object _ = None"

fun as_array :: "json \<Rightarrow> json list option" where
  "as_array (JArray vs) = Some vs"
| "as_array _ = None"

fun as_i64 :: "json \<Rightarrow> int option" where
  "as_i64 (JInt i) = (if - (2 ^ 63) \<le> i \<and> i < 2 ^ 63 then Some i else None)"
| "as_i64 _ = None"

fun as_u64 :: "json \<Rightarrow> nat option" where
  "as_u64 (JInt i) = (if 0 \<le> i \<and> i < 2 ^ 64 then Some (nat i) else None)"
| "as_u64 _ = None"

text \<open>\<open>as_f64\<close> of an integer rounds to the nearest \<open>f64\<close>; below 2^53 that is exact.\<close>

definition jget :: "json_map \<Rightarrow> string \<Rightarrow> json option" where
  "jget m k = map_of m k"

definition get_str :: "json_map \<Rightarrow> string \<Rightarrow> string option" where
  "get_str m k = Option.bind (jget m k) as_str"

text \<open>\<open>a.or_else(|| b)\<close> and \<open>a.or(b)\<close>.\<close>

fun or_else :: "'a option \<Rightarrow> 'a option \<Rightarrow> 'a option" where
  "or_else None b = b"
| "or_else (Some a) b = Some a"

definition option_filter :: "('a \<Rightarrow> bool) \<Rightarrow> 'a option \<Rightarrow> 'a option" where
  "option_filter p v = (case v of None \<Rightarrow> None | Some a \<Rightarrow> if p a then Some a else None)"

datatype store_error =
    SIo string
  | SSql string
  | SInvalid string

end
