(* ===== verification/Outbox.thy ===== *)
theory Outbox
  imports Json
begin

text \<open>
  The durable outbox of \<open>src/backend.rs\<close>: an append-only file of JSON lines, each a pending
  operation or the completion of one, folded into the list of pending entries, with a size
  bound, a separate audit file and an atomic compaction.

  The files are their bytes (\<open>None\<close> while a file does not exist). \<open>ob_io\<close> is the outcome of
  the coming file operations, \<open>False\<close> for one that fails; a failed write leaves the file as
  it was. The JSON coder of events and audit records is a parameter, \<open>codec\<close>.
\<close>

section \<open>Data\<close>

definition MAX_OUTBOX_BYTES :: nat where "MAX_OUTBOX_BYTES = 8 * 1024 * 1024"

definition MAX_RECONCILIATION_AUDIT_BYTES :: nat where
  "MAX_RECONCILIATION_AUDIT_BYTES = 1024 * 1024"

record outbox_entry =
  oe_idempotency_key :: string
  oe_name :: string
  oe_arguments :: json
  oe_redis_committed :: bool

datatype outbox_event = Pending outbox_entry | Completed string

record outbox =
  ob_file :: "string option"
  ob_audit :: "string option"
  ob_io :: "bool list"

record event_codec =
  encode_event :: "outbox_event \<Rightarrow> string"
  decode_event :: "string \<Rightarrow> store_error + outbox_event"
  encode_audit :: "string \<Rightarrow> string \<Rightarrow> string"

type_synonym 'a outbox_op = "(outbox, store_error, 'a) sm"

section \<open>Reading\<close>

fun replace_entry :: "outbox_entry \<Rightarrow> outbox_entry list \<Rightarrow> outbox_entry list" where
  "replace_entry e [] = []"
| "replace_entry e (x # xs) =
     (if oe_idempotency_key x = oe_idempotency_key e then e # xs else x # replace_entry e xs)"

definition has_key :: "string \<Rightarrow> outbox_entry list \<Rightarrow> bool" where
  "has_key k es \<longleftrightarrow> (\<exists>e\<in>set es. oe_idempotency_key e = k)"

fun apply_event :: "outbox_event \<Rightarrow> outbox_entry list \<Rightarrow> outbox_entry list" where
  "apply_event (Pending e) es =
     (if has_key (oe_idempotency_key e) es then replace_entry e es else es @ [e])"
| "apply_event (Completed k) es = filter (\<lambda>e. oe_idempotency_key e \<noteq> k) es"

fun pending_lines ::
  "event_codec \<Rightarrow> outbox_entry list \<Rightarrow> string list \<Rightarrow> store_error + outbox_entry list" where
  "pending_lines codec es [] = Inr es"
| "pending_lines codec es (l # ls) =
     (if \<not> utf8_valid l then Inl (SIo ''stream did not contain valid UTF-8'')
      else if blank l then pending_lines codec es ls
      else rbind (decode_event codec l) (\<lambda>ev. pending_lines codec (apply_event ev es) ls))"

text \<open>\<open>File::open\<close> of an existing file may fail.\<close>

definition next_io :: "unit outbox_op" where
  "next_io ob =
     (case ob_io ob of
        [] \<Rightarrow> (Inr (), ob)
      | b # bs \<Rightarrow> (if b then Inr () else Inl (SIo ''file operation failed''), ob\<lparr>ob_io := bs\<rparr>))"

definition pending :: "event_codec \<Rightarrow> outbox_entry list outbox_op" where
  "pending codec ob =
     (case ob_file ob of
        None \<Rightarrow> (Inr [], ob)
      | Some f \<Rightarrow> sbind next_io (\<lambda>_. slift (pending_lines codec [] (lines_of f))) ob)"

section \<open>Writing\<close>

definition file_size :: "string option \<Rightarrow> nat" where
  "file_size f = (case f of None \<Rightarrow> 0 | Some b \<Rightarrow> length b)"

definition file_append :: "string option \<Rightarrow> string \<Rightarrow> string option" where
  "file_append f line = Some ((case f of None \<Rightarrow> [] | Some b \<Rightarrow> b) @ line @ [LF])"

definition append :: "event_codec \<Rightarrow> outbox_event \<Rightarrow> unit outbox_op" where
  "append codec ev ob =
     (let encoded = encode_event codec ev
      in if MAX_OUTBOX_BYTES < file_size (ob_file ob) + (length encoded + 1) then
           (Inl (SInvalid ''durable outbox exceeds the configured size limit''), ob)
         else sbind next_io (\<lambda>_ ob1. (Inr (), ob1\<lparr>ob_file := file_append (ob_file ob1) encoded\<rparr>)) ob)"

definition append_pending :: "event_codec \<Rightarrow> outbox_entry \<Rightarrow> unit outbox_op" where
  "append_pending codec e =
     sbind (pending codec) (\<lambda>es.
       if has_key (oe_idempotency_key e) es then sret () else append codec (Pending e))"

definition mark_redis_committed :: "event_codec \<Rightarrow> string \<Rightarrow> unit outbox_op" where
  "mark_redis_committed codec k =
     sbind (pending codec) (\<lambda>es.
       case filter (\<lambda>e. oe_idempotency_key e = k) es of
         e # _ \<Rightarrow> append codec (Pending (e\<lparr>oe_redis_committed := True\<rparr>))
       | [] \<Rightarrow> sfail (SInvalid ''Redis-committed outbox entry is missing''))"

definition complete :: "event_codec \<Rightarrow> string \<Rightarrow> unit outbox_op" where
  "complete codec k = append codec (Completed k)"

definition audit :: "event_codec \<Rightarrow> string \<Rightarrow> string \<Rightarrow> unit outbox_op" where
  "audit codec k reason ob =
     (let encoded = encode_audit codec k reason
      in if MAX_RECONCILIATION_AUDIT_BYTES < file_size (ob_audit ob) + (length encoded + 1) then
           (Inl (SInvalid ''reconciliation audit exceeds the configured size limit''), ob)
         else sbind next_io (\<lambda>_ ob1. (Inr (), ob1\<lparr>ob_audit := file_append (ob_audit ob1) encoded\<rparr>)) ob)"

definition reject :: "event_codec \<Rightarrow> string \<Rightarrow> string \<Rightarrow> unit outbox_op" where
  "reject codec k reason = sbind (audit codec k reason) (\<lambda>_. complete codec k)"

text \<open>The new image is written beside the file and renamed over it.\<close>

definition compact :: "event_codec \<Rightarrow> outbox_entry list \<Rightarrow> unit outbox_op" where
  "compact codec es ob =
     (if es = [] then
        (case ob_file ob of
           None \<Rightarrow> (Inr (), ob)
         | Some _ \<Rightarrow> sbind next_io (\<lambda>_ ob1. (Inr (), ob1\<lparr>ob_file := Some []\<rparr>)) ob)
      else sbind next_io (\<lambda>_ ob1.
        (Inr (), ob1\<lparr>ob_file :=
           Some (concat (map (\<lambda>e. encode_event codec (Pending e) @ [LF]) es))\<rparr>)) ob)"

section \<open>What the file says\<close>

text \<open>
  The contract of the coder: one non-blank line of UTF-8 per event that decodes to the event
  (\<open>serde_json\<close> escapes control characters and ends an object with a brace).
\<close>

locale outbox_codec =
  fixes codec :: event_codec
  assumes decode_encode: "decode_event codec (encode_event codec ev) = Inr ev"
    and encode_line: "LF \<notin> set (encode_event codec ev)"
    and encode_utf8: "utf8_valid (encode_event codec ev)"
    and encode_not_blank: "\<not> blank (encode_event codec ev)"
    and encode_not_cr: "last (encode_event codec ev) \<noteq> CR"

definition render_events :: "event_codec \<Rightarrow> outbox_event list \<Rightarrow> string" where
  "render_events codec evs = concat (map (\<lambda>ev. encode_event codec ev @ [LF]) evs)"

definition stored :: "event_codec \<Rightarrow> outbox \<Rightarrow> outbox_event list \<Rightarrow> bool" where
  "stored codec ob evs \<longleftrightarrow>
     (case ob_file ob of None \<Rightarrow> evs = [] | Some f \<Rightarrow> f = render_events codec evs)"

definition fold_events :: "outbox_event list \<Rightarrow> outbox_entry list" where
  "fold_events evs = fold apply_event evs []"

text \<open>The abstraction: the outbox file denotes the pending entries, in order of arrival.\<close>

definition denotes :: "event_codec \<Rightarrow> outbox \<Rightarrow> outbox_entry list \<Rightarrow> bool" where
  "denotes codec ob es \<longleftrightarrow> (\<exists>evs. stored codec ob evs \<and> fold_events evs = es)"

definition keys :: "outbox_entry list \<Rightarrow> string list" where
  "keys es = map oe_idempotency_key es"

lemma has_key_keys: "has_key k es \<longleftrightarrow> k \<in> set (keys es)"
  by (auto simp: has_key_def keys_def)

lemma keys_simps [simp]: "keys [] = []" "keys (e # es) = oe_idempotency_key e # keys es"
  "keys (es @ fs) = keys es @ keys fs"
  by (simp_all add: keys_def)

lemma keys_replace [simp]: "keys (replace_entry e es) = keys es"
  by (induction es) auto

lemma keys_filter: "keys (filter (\<lambda>e. oe_idempotency_key e \<noteq> k) es) = filter (\<lambda>x. x \<noteq> k) (keys es)"
  by (induction es) auto

lemma apply_event_distinct: "distinct (keys es) \<Longrightarrow> distinct (keys (apply_event ev es))"
  by (cases ev) (auto simp: has_key_keys keys_filter)

lemma fold_apply_distinct: "distinct (keys es) \<Longrightarrow> distinct (keys (fold apply_event evs es))"
  by (induction evs arbitrary: es) (auto simp: apply_event_distinct)

lemma fold_events_distinct: "distinct (keys (fold_events evs))"
  by (simp add: fold_events_def fold_apply_distinct)

lemma fold_events_snoc [simp]: "fold_events (evs @ [ev]) = apply_event ev (fold_events evs)"
  by (simp add: fold_events_def)

lemma fold_pending_distinct:
  "distinct (keys (fs @ es)) \<Longrightarrow> fold apply_event (map Pending es) fs = fs @ es"
  by (induction es arbitrary: fs) (auto simp: has_key_keys)

lemma fold_events_pending: "distinct (keys es) \<Longrightarrow> fold_events (map Pending es) = es"
  using fold_pending_distinct[of "[]" es] by (simp add: fold_events_def)

lemma replace_entry_map:
  "distinct (keys es) \<Longrightarrow> e \<in> set es \<Longrightarrow> oe_idempotency_key e = k \<Longrightarrow> oe_idempotency_key f = k \<Longrightarrow>
     replace_entry f es = map (\<lambda>x. if oe_idempotency_key x = k then f else x) es"
proof (induction es)
  case (Cons x es)
  show ?case
  proof (cases "oe_idempotency_key x = k")
    case True
    then have "\<forall>y\<in>set es. oe_idempotency_key y \<noteq> k"
      using Cons.prems(1) by (metis distinct.simps(2) has_key_def has_key_keys keys_simps(2))
    then have "map (\<lambda>x. if oe_idempotency_key x = k then f else x) es = es" by (intro map_idI) auto
    with True Cons.prems(4) show ?thesis by simp
  next
    case False
    with Cons show ?thesis by auto
  qed
qed simp

definition mark_entry :: "string \<Rightarrow> outbox_entry \<Rightarrow> outbox_entry" where
  "mark_entry k e = (if oe_idempotency_key e = k then e\<lparr>oe_redis_committed := True\<rparr> else e)"

lemma replace_mark:
  assumes "distinct (keys es)" "e \<in> set es" "oe_idempotency_key e = k"
  shows "replace_entry (e\<lparr>oe_redis_committed := True\<rparr>) es = map (mark_entry k) es"
proof -
  have "x = e" if "x \<in> set es" "oe_idempotency_key x = k" for x
    using assms that by (auto simp: keys_def distinct_map inj_on_def)
  then have "map (\<lambda>x. if oe_idempotency_key x = k then e\<lparr>oe_redis_committed := True\<rparr> else x) es =
      map (mark_entry k) es"
    by (auto simp: mark_entry_def)
  with assms show ?thesis by (subst replace_entry_map[where k = k and e = e]) auto
qed

lemma next_io_files:
  "next_io ob = (r, ob1) \<Longrightarrow> ob_file ob1 = ob_file ob \<and> ob_audit ob1 = ob_audit ob"
  by (auto simp: next_io_def split: list.splits if_splits)

lemma pending_files:
  "pending codec ob = (r, ob1) \<Longrightarrow> ob_file ob1 = ob_file ob \<and> ob_audit ob1 = ob_audit ob"
  by (auto simp: pending_def sbind_def slift_def
      split: option.splits prod.splits sum.splits dest!: next_io_files)

lemma append_Inr:
  "append codec ev ob = (Inr (), ob1) \<Longrightarrow>
     ob_file ob1 = file_append (ob_file ob) (encode_event codec ev) \<and> ob_audit ob1 = ob_audit ob \<and>
     file_size (ob_file ob1) \<le> MAX_OUTBOX_BYTES"
  by (auto simp: append_def Let_def sbind_Inr_iff file_append_def file_size_def
      split: if_splits option.splits dest!: next_io_files)

lemma append_Inl:
  "append codec ev ob = (Inl x, ob1) \<Longrightarrow> ob_file ob1 = ob_file ob \<and> ob_audit ob1 = ob_audit ob"
  by (auto simp: append_def Let_def sbind_Inl_iff split: if_splits dest!: next_io_files)

lemma audit_file: "audit codec k reason ob = (r, ob1) \<Longrightarrow> ob_file ob1 = ob_file ob"
  by (auto simp: audit_def Let_def sbind_def split: if_splits sum.splits prod.splits dest!: next_io_files)

lemma denotes_file: "ob_file ob1 = ob_file ob \<Longrightarrow> denotes codec ob1 es = denotes codec ob es"
  by (simp add: denotes_def stored_def)

lemma denotes_distinct: "denotes codec ob es \<Longrightarrow> distinct (keys es)"
  by (auto simp: denotes_def fold_events_distinct)

context outbox_codec begin

lemma lines_render: "lines_of (render_events codec evs) = map (encode_event codec) evs"
proof -
  have "render_events codec evs = concat (map (\<lambda>l. l @ [LF]) (map (encode_event codec) evs)) @ []"
    by (simp add: render_events_def comp_def)
  also have "lines_of \<dots> = map (encode_event codec) evs @ lines_of []"
    using encode_line encode_not_cr by (intro lines_of_concat) auto
  finally show ?thesis by simp
qed

lemma pending_lines_render:
  "pending_lines codec es (map (encode_event codec) evs) = Inr (fold apply_event evs es)"
  by (induction evs arbitrary: es) (auto simp: encode_utf8 encode_not_blank decode_encode)

lemma pending_denotes:
  assumes "denotes codec ob es" "pending codec ob = (Inr fs, ob1)"
  shows "fs = es \<and> denotes codec ob1 es"
proof -
  have "fs = es"
    using assms
    by (auto simp: denotes_def stored_def pending_def sbind_Inr_iff slift_def lines_render
        pending_lines_render fold_events_def split: option.splits)
  with assms denotes_file pending_files show ?thesis by metis
qed

lemma append_denotes:
  assumes "denotes codec ob es" "append codec ev ob = (Inr (), ob1)"
  shows "denotes codec ob1 (apply_event ev es)"
proof -
  obtain evs where "stored codec ob evs" "fold_events evs = es" using assms(1) by (auto simp: denotes_def)
  then have "stored codec ob1 (evs @ [ev])" "fold_events (evs @ [ev]) = apply_event ev es"
    using append_Inr[OF assms(2)]
    by (auto simp: stored_def file_append_def render_events_def split: option.splits)
  then show ?thesis unfolding denotes_def by blast
qed

lemma append_failed: "denotes codec ob es \<Longrightarrow> append codec ev ob = (Inl x, ob1) \<Longrightarrow> denotes codec ob1 es"
  using append_Inl denotes_file by metis

lemma append_pending_denotes:
  assumes "denotes codec ob es" "append_pending codec e ob = (Inr (), ob1)"
  shows "denotes codec ob1 (if has_key (oe_idempotency_key e) es then es else es @ [e])"
proof -
  obtain fs ob2 where p: "pending codec ob = (Inr fs, ob2)"
      "(if has_key (oe_idempotency_key e) fs then sret () else append codec (Pending e)) ob2 = (Inr (), ob1)"
    using assms(2) by (auto simp: append_pending_def sbind_Inr_iff)
  from pending_denotes[OF assms(1) p(1)] p(2) append_denotes[of ob2 es "Pending e" ob1]
  show ?thesis by (auto simp: sret_def split: if_splits)
qed

lemma append_pending_failed:
  "denotes codec ob es \<Longrightarrow> append_pending codec e ob = (Inl x, ob1) \<Longrightarrow> denotes codec ob1 es"
  by (auto simp: append_pending_def sbind_Inl_iff sret_def split: if_splits
      dest: pending_files denotes_file pending_denotes append_failed)

lemma mark_denotes:
  assumes "denotes codec ob es" "mark_redis_committed codec k ob = (Inr (), ob1)"
  shows "has_key k es \<and> denotes codec ob1 (map (mark_entry k) es)"
proof -
  obtain fs ob2 where p: "pending codec ob = (Inr fs, ob2)"
      "(case filter (\<lambda>e. oe_idempotency_key e = k) fs of
         e # _ \<Rightarrow> append codec (Pending (e\<lparr>oe_redis_committed := True\<rparr>))
       | [] \<Rightarrow> sfail (SInvalid ''Redis-committed outbox entry is missing'')) ob2 = (Inr (), ob1)"
    using assms(2) by (auto simp: mark_redis_committed_def sbind_Inr_iff)
  from pending_denotes[OF assms(1) p(1)] have d: "fs = es" "denotes codec ob2 es" by auto
  with p(2) obtain e rest where e: "filter (\<lambda>e. oe_idempotency_key e = k) es = e # rest"
      "append codec (Pending (e\<lparr>oe_redis_committed := True\<rparr>)) ob2 = (Inr (), ob1)"
    by (auto simp: sfail_def split: list.splits)
  have "e \<in> set (filter (\<lambda>e. oe_idempotency_key e = k) es)" by (simp add: e(1))
  then have m: "e \<in> set es" "oe_idempotency_key e = k" by auto
  then have k: "has_key k es" by (auto simp: has_key_def)
  from append_denotes[OF d(2) e(2)] replace_mark[OF denotes_distinct[OF d(2)] m] m(2) k
  show ?thesis by simp
qed

lemma mark_failed:
  assumes "denotes codec ob es" "mark_redis_committed codec k ob = (Inl x, ob1)"
  shows "denotes codec ob1 es"
proof (cases "pending codec ob")
  case (Pair r ob2)
  have d: "denotes codec ob2 es" using pending_files[OF Pair] denotes_file assms(1) by metis
  show ?thesis
    using assms(2) Pair d append_failed[OF d]
    by (auto simp: mark_redis_committed_def sbind_def sfail_def split: sum.splits list.splits)
qed

lemma complete_denotes:
  "denotes codec ob es \<Longrightarrow> complete codec k ob = (Inr (), ob1) \<Longrightarrow>
     denotes codec ob1 (filter (\<lambda>e. oe_idempotency_key e \<noteq> k) es)"
  unfolding complete_def by (drule (1) append_denotes) simp

lemma complete_failed: "denotes codec ob es \<Longrightarrow> complete codec k ob = (Inl x, ob1) \<Longrightarrow> denotes codec ob1 es"
  unfolding complete_def by (rule append_failed)

lemma audit_denotes: "denotes codec ob es \<Longrightarrow> audit codec k why ob = (r, ob1) \<Longrightarrow> denotes codec ob1 es"
  using audit_file denotes_file by metis

lemma reject_denotes:
  assumes "denotes codec ob es" "reject codec k why ob = (Inr (), ob1)"
  shows "denotes codec ob1 (filter (\<lambda>e. oe_idempotency_key e \<noteq> k) es)"
proof -
  obtain ob2 where "audit codec k why ob = (Inr (), ob2)" "complete codec k ob2 = (Inr (), ob1)"
    using assms(2) by (auto simp: reject_def sbind_Inr_iff)
  with audit_denotes[OF assms(1)] complete_denotes show ?thesis by blast
qed

lemma reject_failed:
  assumes "denotes codec ob es" "reject codec k why ob = (Inl x, ob1)"
  shows "denotes codec ob1 es"
proof (cases "audit codec k why ob")
  case (Pair r ob2)
  have d: "denotes codec ob2 es" by (rule audit_denotes[OF assms(1) Pair])
  show ?thesis
    using assms(2) Pair d complete_failed[OF d] by (auto simp: reject_def sbind_def split: sum.splits)
qed

lemma compact_denotes:
  assumes "compact codec es ob = (Inr (), ob1)" "distinct (keys es)"
  shows "denotes codec ob1 es"
proof (cases "es = []")
  case True
  with assms(1) show ?thesis
    by (auto simp: compact_def sbind_Inr_iff denotes_def stored_def fold_events_def render_events_def
        split: option.splits intro!: exI[of _ "[]"])
next
  case False
  with assms have "stored codec ob1 (map Pending es)"
    by (auto simp: compact_def sbind_Inr_iff stored_def render_events_def comp_def)
  with fold_events_pending[OF assms(2)] show ?thesis by (auto simp: denotes_def)
qed

lemma compact_failed: "compact codec es ob = (Inl x, ob1) \<Longrightarrow> ob_file ob1 = ob_file ob"
  by (auto simp: compact_def sbind_Inl_iff split: if_splits option.splits dest!: next_io_files)

end

end
