(* ===== verification/OutboxCodec.thy ===== *)
theory OutboxCodec
  imports Outbox
begin

text \<open>
  A reference coder for the contract of \<open>Outbox\<close>: a prefix code for JSON values with strings
  in letters, one line per event. It stands for \<open>serde_json\<close> in the interpretation of
  \<open>outbox_codec\<close> and in the concrete runs of the witnesses.
\<close>

section \<open>Strings and numbers\<close>

definition letter :: "nat \<Rightarrow> char" where
  "letter d = char_of (97 + d)"

text \<open>Some letters and digits stand for themselves, every other byte is escaped.\<close>

fun plain :: "char \<Rightarrow> bool" where
  "plain (Char b0 b1 b2 b3 b4 b5 b6 b7) \<longleftrightarrow>
     \<not> b7 \<and> b5 \<and> (if b6 then \<not> (b4 \<and> b3) else b4 \<and> \<not> b3)"

fun enc_bytes :: "string \<Rightarrow> string" where
  "enc_bytes [] = '';''"
| "enc_bytes (c # cs) =
     (if plain c then c # enc_bytes cs
      else CHR ''!'' # letter (code c div 16) # letter (code c mod 16) # enc_bytes cs)"

fun dec_bytes :: "string \<Rightarrow> (string \<times> string) option" where
  "dec_bytes [] = None"
| "dec_bytes (a # s) =
     (if plain a then map_option (\<lambda>(cs, r). (a # cs, r)) (dec_bytes s)
      else if a = CHR '';'' then Some ([], s)
      else case s of
             b # c # t \<Rightarrow>
               map_option (\<lambda>(cs, r). (char_of ((code b - 97) * 16 + (code c - 97)) # cs, r)) (dec_bytes t)
           | _ \<Rightarrow> None)"

definition enc_int :: "int \<Rightarrow> string" where
  "enc_int i = dec_int i @ '';''"

definition dec_int_of :: "string \<Rightarrow> (int \<times> string) option" where
  "dec_int_of s =
     (let ds = takeWhile (\<lambda>c. c \<noteq> CHR '';'') s; r = tl (dropWhile (\<lambda>c. c \<noteq> CHR '';'') s)
      in case ds of
           [] \<Rightarrow> None
         | c # cs \<Rightarrow>
             if c = CHR ''-'' then map_option (\<lambda>n. (- int n, r)) (parse_digits 0 cs)
             else map_option (\<lambda>n. (int n, r)) (parse_digits 0 ds))"

lemma letter_simps [simp]:
  "d < 16 \<Longrightarrow> code (letter d) = 97 + d" "d < 16 \<Longrightarrow> letter d \<noteq> CHR '';''"
proof -
  show c: "code (letter d) = 97 + d" if "d < 16" using that by (simp add: letter_def)
  show "letter d \<noteq> CHR '';''" if "d < 16" using c[OF that] by (auto simp: code_def)
qed

lemma div16 [simp]: "code c div 16 < 16"
  using code_lt_256[of c] by (intro less_mult_imp_div_less) simp

lemma nibbles [simp]: "char_of (code c div 16 * 16 + code c mod 16) = c"
  by (simp add: code_def)

lemma char_of_code [simp]: "char_of (code c) = c"
  by (simp add: code_def)

lemma dec_enc_bytes [simp]: "dec_bytes (enc_bytes cs @ s) = Some (cs, s)"
  by (induction cs) auto

lemma semicolon_not_digit: "\<not> is_digit CHR '';''"
  by (simp add: is_digit_def code_def)

lemma digits_no_semicolon: "c \<in> set (dec_nat n) \<Longrightarrow> c \<noteq> CHR '';''"
  using dec_nat_digits[of c n] by (auto simp: is_digit_def code_def)

lemma dec_int_no_semicolon: "c \<in> set (dec_int i) \<Longrightarrow> c \<noteq> CHR '';''"
  by (auto simp: dec_int_def dest: digits_no_semicolon split: if_splits)

lemma dec_enc_int [simp]: "dec_int_of (enc_int i @ s) = Some (i, s)"
proof -
  let ?p = "\<lambda>c. c \<noteq> CHR '';''"
  have t: "takeWhile ?p (enc_int i @ s) = dec_int i"
    by (simp add: enc_int_def takeWhile_append2 dec_int_no_semicolon)
  have d: "tl (dropWhile ?p (enc_int i @ s)) = s"
    by (simp add: enc_int_def dropWhile_append2 dec_int_no_semicolon)
  obtain c r where c: "dec_nat (nat i) = c # r" "is_digit c" using dec_nat_hd by blast
  have m: "c \<noteq> CHR ''-''" using c(2) by auto
  have p: "parse_digits 0 (c # r) = Some (nat i)" using parse_digits_dec_nat[of "nat i"] c by simp
  show ?thesis
    using t d c m p parse_digits_dec_nat
    by (auto simp: dec_int_of_def Let_def dec_int_def simp del: parse_digits.simps)
qed

section \<open>JSON values and events\<close>

fun enc_json :: "json \<Rightarrow> string" where
  "enc_json JNull = ''N''"
| "enc_json (JBool b) = (if b then ''T'' else ''F'')"
| "enc_json (JInt i) = ''I'' @ enc_int i"
| "enc_json (JFloat r) = ''R'' @ enc_int (fst (quotient_of r)) @ enc_int (snd (quotient_of r))"
| "enc_json (JString s) = ''S'' @ enc_bytes s"
| "enc_json (JArray vs) = ''A'' @ concat (map (\<lambda>v. ''V'' @ enc_json v) vs) @ ''E''"
| "enc_json (JObject m) = ''O'' @ concat (map (\<lambda>p. ''V'' @ enc_bytes (fst p) @ enc_json (snd p)) m) @ ''E''"

fun dec_json :: "nat \<Rightarrow> string \<Rightarrow> (json \<times> string) option"
  and dec_values :: "nat \<Rightarrow> string \<Rightarrow> (json list \<times> string) option"
  and dec_members :: "nat \<Rightarrow> string \<Rightarrow> (json_map \<times> string) option" where
  "dec_json 0 s = None"
| "dec_json (Suc n) s =
     (case s of
        [] \<Rightarrow> None
      | c # r \<Rightarrow>
          if c = CHR ''N'' then Some (JNull, r)
          else if c = CHR ''T'' then Some (JBool True, r)
          else if c = CHR ''F'' then Some (JBool False, r)
          else if c = CHR ''I'' then map_option (\<lambda>(i, r). (JInt i, r)) (dec_int_of r)
          else if c = CHR ''R'' then
            Option.bind (dec_int_of r) (\<lambda>(a, r). map_option (\<lambda>(b, r). (JFloat (Fract a b), r)) (dec_int_of r))
          else if c = CHR ''S'' then map_option (\<lambda>(b, r). (JString b, r)) (dec_bytes r)
          else if c = CHR ''A'' then map_option (\<lambda>(vs, r). (JArray vs, r)) (dec_values n r)
          else if c = CHR ''O'' then map_option (\<lambda>(m, r). (JObject m, r)) (dec_members n r)
          else None)"
| "dec_values 0 s = None"
| "dec_values (Suc n) s =
     (case s of
        [] \<Rightarrow> None
      | c # r \<Rightarrow>
          if c = CHR ''E'' then Some ([], r)
          else Option.bind (dec_json n r) (\<lambda>(v, r). map_option (\<lambda>(vs, r). (v # vs, r)) (dec_values n r)))"
| "dec_members 0 s = None"
| "dec_members (Suc n) s =
     (case s of
        [] \<Rightarrow> None
      | c # r \<Rightarrow>
          if c = CHR ''E'' then Some ([], r)
          else Option.bind (dec_bytes r) (\<lambda>(k, r).
                 Option.bind (dec_json n r) (\<lambda>(v, r).
                   map_option (\<lambda>(m, r). ((k, v) # m, r)) (dec_members n r))))"

lemma dec_values_append:
  assumes "\<And>v n s. v \<in> set vs \<Longrightarrow> length (enc_json v) \<le> n \<Longrightarrow> dec_json n (enc_json v @ s) = Some (v, s)"
    and "length (concat (map (\<lambda>v. ''V'' @ enc_json v) vs)) < n"
  shows "dec_values n (concat (map (\<lambda>v. ''V'' @ enc_json v) vs) @ ''E'' @ s) = Some (vs, s)"
  using assms
proof (induction vs arbitrary: n)
  case Nil
  then show ?case by (cases n) auto
next
  case (Cons v vs)
  then obtain m where "n = Suc m" by (cases n) auto
  with Cons show ?case by simp
qed

lemma dec_members_append:
  assumes "\<And>p n s. p \<in> set ps \<Longrightarrow> length (enc_json (snd p)) \<le> n \<Longrightarrow>
      dec_json n (enc_json (snd p) @ s) = Some (snd p, s)"
    and "length (concat (map (\<lambda>p. ''V'' @ enc_bytes (fst p) @ enc_json (snd p)) ps)) < n"
  shows "dec_members n (concat (map (\<lambda>p. ''V'' @ enc_bytes (fst p) @ enc_json (snd p)) ps) @ ''E'' @ s) =
    Some (ps, s)"
  using assms
proof (induction ps arbitrary: n)
  case Nil
  then show ?case by (cases n) auto
next
  case (Cons p ps)
  then obtain m where "n = Suc m" by (cases n) auto
  with Cons show ?case by simp
qed

lemma Fract_quotient: "Fract (fst (quotient_of r)) (snd (quotient_of r)) = r"
  by (metis Fract_of_int_quotient prod.collapse quotient_of_div)

lemma dec_enc_json: "length (enc_json v) \<le> n \<Longrightarrow> dec_json n (enc_json v @ s) = Some (v, s)"
proof (induction v arbitrary: n s)
  case (JArray vs)
  then obtain m where n: "n = Suc m" by (cases n) auto
  then have "dec_values m (concat (map (\<lambda>v. ''V'' @ enc_json v) vs) @ ''E'' @ s) = Some (vs, s)"
    using JArray by (intro dec_values_append) auto
  then show ?case by (simp add: n)
next
  case (JObject ps)
  then obtain m where n: "n = Suc m" by (cases n) auto
  have "dec_members m (concat (map (\<lambda>p. ''V'' @ enc_bytes (fst p) @ enc_json (snd p)) ps) @ ''E'' @ s) =
      Some (ps, s)"
    using JObject n by (intro dec_members_append) (force simp: snds.simps)+
  then show ?case by (simp add: n)
next
  case (JInt i)
  then show ?case by (cases n) auto
next
  case (JFloat r)
  then show ?case by (cases n) (auto simp: Fract_quotient)
next
  case (JString b)
  then show ?case by (cases n) auto
next
  case JNull
  then show ?case by (cases n) auto
next
  case (JBool b)
  then show ?case by (cases n; cases b) auto
qed

fun enc_event :: "outbox_event \<Rightarrow> string" where
  "enc_event (Pending e) =
     ''P'' @ enc_bytes (oe_idempotency_key e) @ enc_bytes (oe_name e)
     @ (if oe_redis_committed e then ''T'' else ''F'') @ enc_json (oe_arguments e)"
| "enc_event (Completed k) = ''C'' @ enc_bytes k"

definition dec_event :: "string \<Rightarrow> store_error + outbox_event" where
  "dec_event l =
     (let bad = Inl (SInvalid ''outbox record is invalid'') in
      case l of
        [] \<Rightarrow> bad
      | c # r \<Rightarrow>
          if c = CHR ''C'' then (case dec_bytes r of Some (k, _) \<Rightarrow> Inr (Completed k) | None \<Rightarrow> bad)
          else case dec_bytes r of
            None \<Rightarrow> bad
          | Some (k, r) \<Rightarrow>
              (case dec_bytes r of
                 Some (n, b # r) \<Rightarrow>
                   (case dec_json (length r) r of
                      None \<Rightarrow> bad
                    | Some (args, _) \<Rightarrow>
                        Inr (Pending \<lparr>oe_idempotency_key = k, oe_name = n, oe_arguments = args,
                                      oe_redis_committed = (b = CHR ''T'')\<rparr>))
               | _ \<Rightarrow> bad))"

definition ref_codec :: event_codec where
  "ref_codec = \<lparr>encode_event = enc_event, decode_event = dec_event,
     encode_audit = (\<lambda>k reason. enc_bytes k @ enc_bytes reason)\<rparr>"

lemma dec_enc_event: "dec_event (enc_event ev) = Inr ev"
proof (cases ev)
  case (Pending e)
  then show ?thesis
    using dec_enc_json[of "oe_arguments e" _ "[]"] by (simp add: dec_event_def Let_def)
next
  case (Completed k)
  then show ?thesis
    using dec_enc_bytes[of k "[]"] by (simp add: dec_event_def Let_def del: dec_enc_bytes)
qed

text \<open>The code uses printable ASCII only.\<close>

definition printable :: "string \<Rightarrow> bool" where
  "printable s \<longleftrightarrow> (\<forall>c\<in>set s. 33 \<le> code c \<and> code c < 128)"

lemma printable_simps [simp]:
  "printable []" "printable (c # s) \<longleftrightarrow> 33 \<le> code c \<and> code c < 128 \<and> printable s"
  "printable (s @ t) \<longleftrightarrow> printable s \<and> printable t" "printable (concat ss) \<longleftrightarrow> (\<forall>s\<in>set ss. printable s)"
  by (auto simp: printable_def)

lemma plain_code: "plain c \<Longrightarrow> 33 \<le> code c \<and> code c < 128"
  by (cases c) (auto simp: code_def of_char_def split: if_splits)

lemma printable_bytes [simp]: "printable (enc_bytes s)"
proof (induction s)
  case (Cons c s)
  have "code c div 16 < 16" "code c mod 16 < 31" using mod_less_divisor[of 16 "code c"] by simp_all
  moreover have "code CHR ''!'' = 33" by (simp add: code_def)
  ultimately show ?case using plain_code[of c] Cons by (simp del: div16)
qed (simp add: code_def)

lemma printable_int [simp]: "printable (enc_int i)"
proof -
  have "printable (dec_nat n)" for n
    using dec_nat_digits[of _ n] by (force simp: printable_def is_digit_def)
  then show ?thesis by (simp add: enc_int_def dec_int_def code_def)
qed

lemma printable_json [simp]: "printable (enc_json v)"
  by (induction v) (auto simp: code_def snds.simps)

lemma printable_event: "printable (enc_event ev)" "enc_event ev \<noteq> []"
  by (cases ev; auto simp: code_def)+

lemma printable_line:
  assumes "printable s" "s \<noteq> []"
  shows "LF \<notin> set s" "utf8_valid s" "\<not> blank s" "last s \<noteq> CR"
proof -
  have a: "is_ascii_str s" using assms(1) by (auto simp: is_ascii_str_def list_all_iff printable_def)
  show "LF \<notin> set s" using assms(1) by (auto simp: printable_def LF_def code_def)
  show "utf8_valid s" by (rule utf8_valid_ascii[OF a])
  obtain c r where s: "s = c # r" using assms(2) by (cases s) auto
  with assms(1) have "\<not> is_ws [c]" by (auto simp: is_ws_def)
  then show "\<not> blank s" using a s by (auto simp: blank_iff utf8_chars_ascii)
  have "last s \<in> set s" using assms(2) by simp
  then show "last s \<noteq> CR" using assms(1) by (auto simp: printable_def CR_def code_def)
qed

interpretation ref: outbox_codec ref_codec
  by unfold_locales
    (simp_all add: ref_codec_def dec_enc_event printable_line[OF printable_event])

section \<open>Properties of the outbox\<close>

text \<open>
  C7. The outbox refines an ordered map. The file denotes a list of entries with distinct keys, and
  each operation that succeeds changes this list as a map keeps its order of insertion:
  \<open>append_pending\<close> adds an entry unless its key is present, \<open>mark_redis_committed\<close> needs
  the key and sets its flag in place, \<open>complete\<close> and \<open>reject\<close> remove the key, and
  \<open>compact\<close> of the pending list changes nothing.
\<close>

theorem outbox_refines_map:
  assumes "outbox_codec codec" "denotes codec ob es"
  shows "distinct (keys es) \<and>
    (\<forall>r ob1. pending codec ob = (Inr r, ob1) \<longrightarrow> r = es \<and> denotes codec ob1 es) \<and>
    (\<forall>e ob1. append_pending codec e ob = (Inr (), ob1) \<longrightarrow>
       denotes codec ob1 (if has_key (oe_idempotency_key e) es then es else es @ [e])) \<and>
    (\<forall>k ob1. mark_redis_committed codec k ob = (Inr (), ob1) \<longrightarrow>
       has_key k es \<and> denotes codec ob1 (map (mark_entry k) es)) \<and>
    (\<forall>k ob1. complete codec k ob = (Inr (), ob1) \<longrightarrow>
       denotes codec ob1 (filter (\<lambda>e. oe_idempotency_key e \<noteq> k) es)) \<and>
    (\<forall>k why ob1. reject codec k why ob = (Inr (), ob1) \<longrightarrow>
       denotes codec ob1 (filter (\<lambda>e. oe_idempotency_key e \<noteq> k) es)) \<and>
    (\<forall>ob1. compact codec es ob = (Inr (), ob1) \<longrightarrow> denotes codec ob1 es)"
proof -
  note d = denotes_distinct[OF assms(2)]
  have 1: "\<forall>r ob1. pending codec ob = (Inr r, ob1) \<longrightarrow> r = es \<and> denotes codec ob1 es"
    using outbox_codec.pending_denotes[OF assms] by blast
  have 2: "\<forall>e ob1. append_pending codec e ob = (Inr (), ob1) \<longrightarrow>
       denotes codec ob1 (if has_key (oe_idempotency_key e) es then es else es @ [e])"
    using outbox_codec.append_pending_denotes[OF assms] by simp
  have 3: "\<forall>k ob1. mark_redis_committed codec k ob = (Inr (), ob1) \<longrightarrow>
       has_key k es \<and> denotes codec ob1 (map (mark_entry k) es)"
    using outbox_codec.mark_denotes[OF assms] by simp
  have 4: "\<forall>k ob1. complete codec k ob = (Inr (), ob1) \<longrightarrow>
       denotes codec ob1 (filter (\<lambda>e. oe_idempotency_key e \<noteq> k) es)"
    using outbox_codec.complete_denotes[OF assms] by simp
  have 5: "\<forall>k why ob1. reject codec k why ob = (Inr (), ob1) \<longrightarrow>
       denotes codec ob1 (filter (\<lambda>e. oe_idempotency_key e \<noteq> k) es)"
    using outbox_codec.reject_denotes[OF assms] by simp
  have 6: "\<forall>ob1. compact codec es ob = (Inr (), ob1) \<longrightarrow> denotes codec ob1 es"
    using outbox_codec.compact_denotes[OF assms(1) _ d] by simp
  show ?thesis by (intro conjI d 1 2 3 4 5 6)
qed

definition example_entry :: "string \<Rightarrow> outbox_entry" where
  "example_entry k = \<lparr>oe_idempotency_key = k, oe_name = ''remember_fact'',
     oe_arguments = JObject [(''text'', JString ''queued'')], oe_redis_committed = False\<rparr>"

definition example_outbox :: outbox where
  "example_outbox = \<lparr>ob_file = Some (render_events ref_codec
     [Pending (example_entry ''a''), Pending (example_entry ''b''), Completed ''a'']),
     ob_audit = None, ob_io = []\<rparr>"

lemma example_outbox_denotes: "denotes ref_codec example_outbox [example_entry ''b'']"
proof -
  have "fold_events [Pending (example_entry ''a''), Pending (example_entry ''b''), Completed ''a''] =
      [example_entry ''b'']" by code_simp
  then show ?thesis unfolding denotes_def stored_def example_outbox_def by auto
qed

theorem outbox_refines_map_witness:
  "\<exists>ob1. append_pending ref_codec (example_entry ''c'') example_outbox = (Inr (), ob1) \<and>
     denotes ref_codec ob1 [example_entry ''b'', example_entry ''c'']"
proof -
  have "fst (append_pending ref_codec (example_entry ''c'') example_outbox) = Inr ()" by code_simp
  then obtain ob1 where ob1: "append_pending ref_codec (example_entry ''c'') example_outbox = (Inr (), ob1)"
    by (cases "append_pending ref_codec (example_entry ''c'') example_outbox") auto
  have k: "has_key (oe_idempotency_key (example_entry ''c'')) [example_entry ''b''] = False" by code_simp
  have H: "\<forall>e ob1. append_pending ref_codec e example_outbox = (Inr (), ob1) \<longrightarrow>
      denotes ref_codec ob1 (if has_key (oe_idempotency_key e) [example_entry ''b'']
        then [example_entry ''b''] else [example_entry ''b''] @ [e])"
    using outbox_refines_map[OF ref.outbox_codec_axioms example_outbox_denotes] by (elim conjE)
  from H[rule_format, OF ob1] have "denotes ref_codec ob1 [example_entry ''b'', example_entry ''c'']"
    unfolding k by simp
  with ob1 show ?thesis by blast
qed



section \<open>The size bound\<close>

definition entries_size :: "event_codec \<Rightarrow> outbox_entry list \<Rightarrow> nat" where
  "entries_size codec es = length (render_events codec (map Pending es))"

lemma entries_size_simps [simp]:
  "entries_size codec [] = 0"
  "entries_size codec (e # es) = Suc (length (encode_event codec (Pending e))) + entries_size codec es"
  "entries_size codec (es @ fs) = entries_size codec es + entries_size codec fs"
  by (simp_all add: entries_size_def render_events_def)

lemma entries_size_filter: "entries_size codec (filter p es) \<le> entries_size codec es"
  by (induction es) auto

lemma entries_size_replace:
  "entries_size codec (replace_entry e es) \<le> entries_size codec es + Suc (length (encode_event codec (Pending e)))"
  by (induction es) auto

lemma apply_event_size:
  "entries_size codec (apply_event ev es) \<le> entries_size codec es + Suc (length (encode_event codec ev))"
  by (cases ev) (auto simp: entries_size_replace[simplified] intro: le_trans[OF entries_size_filter])

lemma fold_events_size: "entries_size codec (fold_events evs) \<le> length (render_events codec evs)"
proof (induction evs rule: rev_induct)
  case (snoc ev evs)
  then show ?case
    using apply_event_size[of codec ev "fold_events evs"] by (simp add: render_events_def)
qed (simp add: fold_events_def)

lemma compact_size:
  assumes "denotes codec ob es" "compact codec es ob = (r, ob1)"
  shows "file_size (ob_file ob1) \<le> file_size (ob_file ob)"
proof -
  obtain evs where "stored codec ob evs" "fold_events evs = es" using assms(1) by (auto simp: denotes_def)
  then have "entries_size codec es \<le> file_size (ob_file ob)"
    using fold_events_size[of codec evs] by (auto simp: stored_def file_size_def fold_events_def split: option.splits)
  with assms(2) show ?thesis
    by (auto simp: compact_def sbind_def file_size_def entries_size_def render_events_def comp_def
        split: if_splits option.splits prod.splits sum.splits dest!: next_io_files)
qed

lemma append_size:
  "append codec ev ob = (r, ob1) \<Longrightarrow> file_size (ob_file ob) \<le> MAX_OUTBOX_BYTES \<Longrightarrow>
     file_size (ob_file ob1) \<le> MAX_OUTBOX_BYTES"
  by (cases r) (auto dest: append_Inl append_Inr)

text \<open>
  C9. Bounded growth. Every operation keeps the outbox file within 8 MiB, whatever the sizes of the
  queued requests: an append that would exceed the bound is refused, and compacting the
  pending entries never makes the file longer.
\<close>

theorem outbox_size_bound:
  assumes "file_size (ob_file ob) \<le> MAX_OUTBOX_BYTES"
    and "append_pending codec e ob = (r, ob1) \<or> mark_redis_committed codec k ob = (r, ob1) \<or>
      complete codec k ob = (r, ob1) \<or> reject codec k why ob = (r, ob1) \<or>
      (denotes codec ob es \<and> compact codec es ob = (r, ob1))"
  shows "file_size (ob_file ob1) \<le> MAX_OUTBOX_BYTES"
proof -
  have p: "pending codec ob = (q, ob2) \<Longrightarrow> file_size (ob_file ob2) \<le> MAX_OUTBOX_BYTES" for q ob2
    using assms(1) pending_files by metis
  have 1: "append_pending codec e ob = (r, ob1) \<Longrightarrow> file_size (ob_file ob1) \<le> MAX_OUTBOX_BYTES"
    by (auto simp: append_pending_def sbind_def sret_def
        split: prod.splits sum.splits if_splits dest!: p append_size)
  have 2: "mark_redis_committed codec k ob = (r, ob1) \<Longrightarrow> file_size (ob_file ob1) \<le> MAX_OUTBOX_BYTES"
    by (auto simp: mark_redis_committed_def sbind_def sfail_def
        split: prod.splits sum.splits list.splits dest!: p append_size)
  have 3: "complete codec k ob = (r, ob1) \<Longrightarrow> file_size (ob_file ob1) \<le> MAX_OUTBOX_BYTES"
    using assms(1) append_size unfolding complete_def by blast
  have 4: "reject codec k why ob = (r, ob1) \<Longrightarrow> file_size (ob_file ob1) \<le> MAX_OUTBOX_BYTES"
    using assms(1) append_size audit_file unfolding complete_def
    by (auto simp: reject_def sbind_def complete_def split: prod.splits sum.splits)
  have 5: "denotes codec ob es \<Longrightarrow> compact codec es ob = (r, ob1) \<Longrightarrow> file_size (ob_file ob1) \<le> MAX_OUTBOX_BYTES"
    using compact_size assms(1) le_trans by blast
  from assms(2) 1 2 3 4 5 show ?thesis by blast
qed

theorem outbox_size_bound_witness:
  "\<exists>r ob1. append_pending ref_codec (example_entry ''c'') example_outbox = (r, ob1) \<and>
     file_size (ob_file ob1) \<le> MAX_OUTBOX_BYTES"
proof -
  have "file_size (ob_file example_outbox) \<le> MAX_OUTBOX_BYTES" by code_simp
  from outbox_size_bound[OF this] show ?thesis by (metis surj_pair)
qed

end
