(* ===== verification/Programs.thy ===== *)
theory Programs
  imports Prelude
begin

text \<open>
  Programs over an explicit state: reading and changing it, and the closure of "keeps this
  predicate" under the constructors of programs. The invariants of the coordinator and of the
  store are proved with it.
\<close>

section \<open>The state\<close>

definition get_state :: "('s, 'e, 's) sm" where
  "get_state s = (Inr s, s)"

definition modify_state :: "('s \<Rightarrow> 's) \<Rightarrow> ('s, 'e, unit) sm" where
  "modify_state f s = (Inr (), f s)"

section \<open>Operations that keep a predicate\<close>

definition keeps :: "('s \<Rightarrow> bool) \<Rightarrow> ('s, 'e, 'a) sm \<Rightarrow> bool" where
  "keeps P m \<longleftrightarrow> (\<forall>s. P s \<longrightarrow> P (snd (m s)))"

text \<open>A program also keeps a predicate when its value satisfies \<open>Q\<close>.\<close>

definition keeps_val :: "('s \<Rightarrow> bool) \<Rightarrow> ('s, 'e, 'a) sm \<Rightarrow> ('a \<Rightarrow> bool) \<Rightarrow> bool" where
  "keeps_val P m Q \<longleftrightarrow> (\<forall>s. P s \<longrightarrow> P (snd (m s)) \<and> (\<forall>a. fst (m s) = Inr a \<longrightarrow> Q a))"

named_theorems keeping "closure of keeps under the program constructors"

lemma keeps_val_keeps: "keeps_val P m Q \<Longrightarrow> keeps P m"
  by (simp add: keeps_def keeps_val_def)

lemma keepsD: "keeps P m \<Longrightarrow> P s \<Longrightarrow> m s = (r, t) \<Longrightarrow> P t"
  by (metis keeps_def snd_conv)

lemma keeps_sbind_val: "keeps_val P m Q \<Longrightarrow> (\<And>a. Q a \<Longrightarrow> keeps P (f a)) \<Longrightarrow> keeps P (sbind m f)"
  by (auto simp: keeps_def keeps_val_def sbind_def split: prod.splits sum.splits)

lemma keeps_sbind [keeping]:
  assumes "keeps P m" "\<And>a. keeps P (f a)"
  shows "keeps P (sbind m f)"
  by (rule keeps_sbind_val[where Q = "\<lambda>_. True"]) (use assms in \<open>auto simp: keeps_def keeps_val_def\<close>)

lemma keeps_sbind_slift [keeping]:
  "(\<And>a. r = Inr a \<Longrightarrow> keeps P (f a)) \<Longrightarrow> keeps P (sbind (slift r) f)"
  by (cases r) (simp_all add: keeps_def sfail_def)

lemma keeps_basic [keeping]:
  "keeps P (sret a)" "keeps P (sfail e)" "keeps P (slift r)" "keeps P get_state"
  by (simp_all add: keeps_def sret_def sfail_def slift_def get_state_def)

lemma keeps_modify [keeping]: "(\<And>s. P s \<Longrightarrow> P (f s)) \<Longrightarrow> keeps P (modify_state f)"
  by (simp add: keeps_def modify_state_def)

lemma keeps_if [keeping]: "keeps P m \<Longrightarrow> keeps P n \<Longrightarrow> keeps P (if b then m else n)"
  by simp

lemma keeps_smapM [keeping]: "(\<And>x. keeps P (f x)) \<Longrightarrow> keeps P (smapM f xs)"
  by (induction xs) (auto intro!: keeping)

lemma keeps_sforM [keeping]: "(\<And>x. keeps P (f x)) \<Longrightarrow> keeps P (sforM f xs)"
  by (induction xs) (auto intro!: keeping)

lemma keeps_option [keeping]:
  "keeps P m \<Longrightarrow> (\<And>x. keeps P (f x)) \<Longrightarrow> keeps P (case v of None \<Rightarrow> m | Some x \<Rightarrow> f x)"
  by (cases v) auto

lemma keeps_prod [keeping]: "(\<And>a b. keeps P (f a b)) \<Longrightarrow> keeps P (case p of (a, b) \<Rightarrow> f a b)"
  by (cases p) simp

lemma keeps_restored [keeping]:
  "(\<And>x. keeps P (f x)) \<Longrightarrow> (\<And>a. keeps P (g a)) \<Longrightarrow>
     keeps P (case r of (Inl x, st) \<Rightarrow> f x | (Inr u, st) \<Rightarrow> g st)"
  by (auto split: prod.splits sum.splits)

section \<open>Programs that perform steps of a relation\<close>

text \<open>
  A program performs a relation under an invariant when it moves every state with the invariant
  by a sequence of steps of the relation. It is the refinement of programs to the elementary
  steps of a specification.
\<close>

definition performs :: "('s \<Rightarrow> bool) \<Rightarrow> ('s \<Rightarrow> 's \<Rightarrow> bool) \<Rightarrow> ('s, 'e, 'a) sm \<Rightarrow> bool" where
  "performs I R m \<longleftrightarrow> (\<forall>s. I s \<longrightarrow> R\<^sup>*\<^sup>* s (snd (m s)))"

locale guarded_steps =
  fixes I :: "'s \<Rightarrow> bool" and R :: "'s \<Rightarrow> 's \<Rightarrow> bool"
  assumes keeps_I: "R s t \<Longrightarrow> I s \<Longrightarrow> I t"
begin

lemma keeps_I_star: "R\<^sup>*\<^sup>* s t \<Longrightarrow> I s \<Longrightarrow> I t"
  by (induction rule: rtranclp_induct) (auto intro: keeps_I)

lemma one_step: "(\<And>s. I s \<Longrightarrow> snd (m s) = s \<or> R s (snd (m s))) \<Longrightarrow> performs I R m"
  unfolding performs_def by (metis rtranclp.rtrancl_refl r_into_rtranclp)

lemma performsD: "performs I R m \<Longrightarrow> I s \<Longrightarrow> m s = (r, t) \<Longrightarrow> R\<^sup>*\<^sup>* s t"
  by (metis performs_def snd_conv)

lemma basic:
  "performs I R (sret a)" "performs I R (sfail e)" "performs I R (slift r)" "performs I R get_state"
  by (simp_all add: performs_def sret_def sfail_def slift_def get_state_def)

lemma sbind:
  assumes "performs I R m" "\<And>a. performs I R (f a)"
  shows "performs I R (sbind m f)"
proof -
  have "R\<^sup>*\<^sup>* s (snd (sbind m f s))" if s: "I s" for s
  proof (cases "m s")
    case (Pair r t)
    have st: "R\<^sup>*\<^sup>* s t" by (rule performsD[OF assms(1) s Pair])
    then have "I t" using s by (rule keeps_I_star)
    then have "R\<^sup>*\<^sup>* t (snd (f a t))" for a using assms(2)[of a] by (simp add: performs_def)
    then show ?thesis using st Pair
      by (cases r) (auto simp: sbind_def intro: rtranclp_trans)
  qed
  then show ?thesis by (simp add: performs_def)
qed

lemma bind_lifted: "(\<And>a. r = Inr a \<Longrightarrow> performs I R (f a)) \<Longrightarrow> performs I R (sbind (slift r) f)"
  by (cases r) (simp_all add: performs_def sfail_def)

lemma branch:
  "performs I R m \<Longrightarrow> performs I R n \<Longrightarrow> performs I R (if b then m else n)"
  "performs I R m \<Longrightarrow> (\<And>x. performs I R (g x)) \<Longrightarrow> performs I R (case v of None \<Rightarrow> m | Some x \<Rightarrow> g x)"
  by (auto split: option.split)

lemma loops:
  "(\<And>x. performs I R (f x)) \<Longrightarrow> performs I R (smapM f xs)"
  "(\<And>x. performs I R (h x)) \<Longrightarrow> performs I R (sforM h xs)"
  by (induction xs) (auto intro!: basic sbind)

text \<open>A loop whose body performs the relation where \<open>J\<close> holds, and keeps \<open>J\<close>.\<close>

lemma local_loop:
  assumes "\<And>x s. x \<in> set xs \<Longrightarrow> I s \<Longrightarrow> J s \<Longrightarrow> R\<^sup>*\<^sup>* s (snd (f x s)) \<and> J (snd (f x s))"
  shows "I s \<Longrightarrow> J s \<Longrightarrow> R\<^sup>*\<^sup>* s (snd (smapM f xs s))"
  using assms
proof (induction xs arbitrary: s)
  case (Cons x xs)
  obtain r t where f: "f x s = (r, t)" by fastforce
  with Cons.prems have st: "R\<^sup>*\<^sup>* s t" "J t" by (metis list.set_intros(1) snd_conv)+
  then have "R\<^sup>*\<^sup>* t (snd (smapM f xs t))"
    using Cons.prems keeps_I_star[OF st(1)] by (intro Cons.IH) auto
  then show ?case using st(1) f
    by (cases r; cases "smapM f xs t") (auto simp: sbind_def sret_def intro: rtranclp_trans split: sum.split)
qed (simp add: sret_def)

end

end
