(* ===== verification/Coordinator.thy ===== *)
theory Coordinator
  imports NativeDelta OutboxCodec Programs
begin

text \<open>
  The backend coordinator of \<open>src/backend.rs\<close>: the SQLite standby and the in-memory active
  store, the Redis adapter, the outbox and the cache of published projections; attaching to
  Redis, reconciliation, fallback, the watcher's tick and \<open>execute_tool\<close>.

  The store (\<open>src/store.rs\<close> over SQLite) is a parameter here: its state \<open>'st\<close> with the
  operations the coordinator calls, in \<open>world\<close>. The adapter's connection \<open>'c\<close> runs batches
  by \<open>w_exec\<close>, as in \<open>RedisAdapter\<close>. The coordinator's mutex makes each call below one
  atomic step, so a step takes the state and returns it.
\<close>

section \<open>State\<close>

datatype backend_kind = Redis | Sqlite

datatype backend_tool_error = InvalidParams string | Execution store_error

definition MAX_REPLAY_BATCH :: nat where "MAX_REPLAY_BATCH = 64"
definition SNAPSHOT_CHECKPOINT_OPERATIONS :: nat where "SNAPSHOT_CHECKPOINT_OPERATIONS = 256"

record ('st, 'p, 'c) coordinator_inner =
  ci_store :: 'st
  ci_active_store :: "'st option"
  ci_redis :: "'c option"
  ci_mode :: backend_kind
  ci_revision :: nat
  ci_last_snapshot_revision :: nat
  ci_last_remote_revision :: "nat option"
  ci_outbox :: outbox
  ci_redis_configured :: bool
  ci_redis_totals :: redis_metrics
  ci_sync_ticks :: nat
  ci_sync_errors :: nat
  ci_last_sync_micros :: nat
  ci_native_cache :: "'p redis_native_projection list"
  ci_background_standby_sync :: bool
  ci_recovery_uses_local_state :: bool
  ci_recovery_replay_committed :: bool

text \<open>
  The store's operations: a fresh in-memory store, the full image and its restore, the
  projections (\<open>native_projection_for_databases\<close>, \<open>native_projection_for_workspace\<close>), the
  names \<open>standby_already_contains\<close> looks at, and \<open>replay_tool\<close>.
\<close>

record ('st, 'p, 'c) world =
  w_env :: "'p env"
  w_exec :: "'c executor"
  w_metrics :: "'c \<Rightarrow> redis_metrics"
  w_codec :: event_codec
  w_request_json :: "json \<Rightarrow> store_error + string"
  w_in_memory :: "store_error + 'st"
  w_snapshot_bytes :: "'st \<Rightarrow> store_error + string"
  w_restore_snapshot_bytes :: "string \<Rightarrow> ('st, store_error, unit) sm"
  w_project_databases :: "'st \<Rightarrow> store_error + 'p redis_native_projection"
  w_project_workspace :: "'st \<Rightarrow> string \<Rightarrow> store_error + 'p redis_native_projection"
  w_list_workspace_ids :: "'st \<Rightarrow> store_error + string list"
  w_database_names :: "'st \<Rightarrow> store_error + string list"
  w_workspace_names :: "'st \<Rightarrow> store_error + string list"
  w_replay_tool :: "string \<Rightarrow> json_map \<Rightarrow> ('st, store_error, json) sm"

type_synonym ('st, 'p, 'c, 'a) coord = "(('st, 'p, 'c) coordinator_inner, store_error, 'a) sm"

definition coordinator_new :: "'st \<Rightarrow> outbox \<Rightarrow> bool \<Rightarrow> ('st, 'p, 'c) coordinator_inner" where
  "coordinator_new store outbox configured =
     \<lparr>ci_store = store, ci_active_store = None, ci_redis = None, ci_mode = Sqlite,
      ci_revision = 0, ci_last_snapshot_revision = 0, ci_last_remote_revision = None,
      ci_outbox = outbox, ci_redis_configured = configured, ci_redis_totals = default_metrics,
      ci_sync_ticks = 0, ci_sync_errors = 0, ci_last_sync_micros = 0, ci_native_cache = [],
      ci_background_standby_sync = False, ci_recovery_uses_local_state = False,
      ci_recovery_replay_committed = False\<rparr>"

definition redis_store_error :: "redis_error \<Rightarrow> store_error" where
  "redis_store_error x =
     SInvalid (''Redis backend unavailable: '' @
       (case x of
          RInvalid m \<Rightarrow> ''invalid Redis configuration: '' @ m
        | RIo m \<Rightarrow> ''Redis I/O error: '' @ m
        | RProtocol m \<Rightarrow> ''Redis protocol error: '' @ m
        | RJson m \<Rightarrow> ''Redis JSON encoding error: '' @ m
        | RConflict e a \<Rightarrow> ''Redis state revision changed (expected '' @ dec_nat e @ '', actual ''
            @ dec_nat a @ '')''))"

definition redis_unavailable :: store_error where
  "redis_unavailable = SInvalid ''Redis connection is not available''"

section \<open>Access to the parts of the state\<close>

definition active_store :: "('st, 'p, 'c) coordinator_inner \<Rightarrow> 'st" where
  "active_store s = (case ci_active_store s of Some a \<Rightarrow> a | None \<Rightarrow> ci_store s)"

definition map_error :: "('e \<Rightarrow> 'f) \<Rightarrow> 'e + 'a \<Rightarrow> 'f + 'a" where
  "map_error f r = (case r of Inl x \<Rightarrow> Inl (f x) | Inr a \<Rightarrow> Inr a)"

definition on_outbox :: "'a outbox_op \<Rightarrow> ('st, 'p, 'c, 'a) coord" where
  "on_outbox m s = (case m (ci_outbox s) of (r, ob) \<Rightarrow> (r, s\<lparr>ci_outbox := ob\<rparr>))"

definition on_standby :: "('st, 'e, 'a) sm \<Rightarrow> (('st, 'p, 'c) coordinator_inner, 'e, 'a) sm" where
  "on_standby m s = (case m (ci_store s) of (r, st) \<Rightarrow> (r, s\<lparr>ci_store := st\<rparr>))"

definition on_active :: "('st, 'e, 'a) sm \<Rightarrow> (('st, 'p, 'c) coordinator_inner, 'e, 'a) sm" where
  "on_active m s =
     (case ci_active_store s of
        Some a \<Rightarrow> (case m a of (r, a') \<Rightarrow> (r, s\<lparr>ci_active_store := Some a'\<rparr>))
      | None \<Rightarrow> on_standby m s)"

text \<open>An adapter call when a connection is there; the call's own error type is kept.\<close>

definition on_redis ::
  "('e \<Rightarrow> 'f) \<Rightarrow> 'f \<Rightarrow> ('c, 'e, 'a) sm \<Rightarrow> (('st, 'p, 'c) coordinator_inner, 'f, 'a) sm" where
  "on_redis wrap missing m s =
     (case ci_redis s of
        None \<Rightarrow> (Inl missing, s)
      | Some c \<Rightarrow> (case m c of (r, c') \<Rightarrow> (map_error wrap r, s\<lparr>ci_redis := Some c'\<rparr>)))"

definition with_redis ::
  "('c, redis_error, 'a) sm \<Rightarrow> ('st, 'p, 'c, 'a) coord" where
  "with_redis = on_redis redis_store_error redis_unavailable"

section \<open>Requests and projections\<close>

definition operation_key :: "('st, 'p, 'c) world \<Rightarrow> string \<Rightarrow> json_map \<Rightarrow> store_error + string" where
  "operation_key w name arguments =
     rbind (w_request_json w (JObject [(''arguments'', JObject arguments), (''name'', JString name)]))
       (\<lambda>encoded. Inr (digest (w_env w) encoded))"

definition operation_workspace :: "string \<Rightarrow> json_map \<Rightarrow> string option" where
  "operation_workspace name arguments =
     (let nonblank = option_filter (\<lambda>v. \<not> blank v) in
      or_else
        (nonblank (Option.bind (or_else (jget arguments ''workspace'') (jget arguments ''workspace_id'')) as_str))
        (if name \<in> {''create_workspace'', ''archive_workspace'', ''reset_workspace''}
         then nonblank (get_str arguments ''id'') else None))"

definition or_default :: "string option \<Rightarrow> string" where
  "or_default v = (case v of None \<Rightarrow> [] | Some s \<Rightarrow> s)"

definition redis_operation_for_entry :: "outbox_entry \<Rightarrow> redis_operation" where
  "redis_operation_for_entry e =
     \<lparr>op_idempotency_key = oe_idempotency_key e, op_name = oe_name e,
      op_workspace = or_default
        (Option.bind (as_object (oe_arguments e)) (operation_workspace (oe_name e)))\<rparr>"

definition standby_already_contains ::
  "('st, 'p, 'c) world \<Rightarrow> 'st \<Rightarrow> string \<Rightarrow> json_map \<Rightarrow> store_error + bool" where
  "standby_already_contains w st name arguments =
     (if name = ''create_database'' then
        (case get_str arguments ''name'' of
           None \<Rightarrow> Inr False
         | Some d \<Rightarrow> rbind (w_database_names w st) (\<lambda>ns. Inr (d \<in> set ns)))
      else if name = ''create_workspace'' then
        (case Option.bind (or_else (jget arguments ''id'') (jget arguments ''workspace'')) as_str of
           None \<Rightarrow> Inr False
         | Some ws \<Rightarrow> rbind (w_workspace_names w st) (\<lambda>ns. Inr (ws \<in> set ns)))
      else Inr False)"

definition native_projections_for_operation ::
  "('st, 'p, 'c) world \<Rightarrow> 'st \<Rightarrow> string \<Rightarrow> json_map \<Rightarrow> store_error + 'p redis_native_projection list" where
  "native_projections_for_operation w st name arguments =
     rbind (w_project_databases w st) (\<lambda>db.
       case operation_workspace name arguments of
         None \<Rightarrow> Inr [db]
       | Some ws \<Rightarrow> rbind (w_project_workspace w st ws) (\<lambda>p. Inr [db, p]))"

text \<open>A \<open>BTreeSet\<close> of names, in ascending order.\<close>

definition workspace_set :: "string list \<Rightarrow> string list" where
  "workspace_set ws = map fst (bt_collect (map (\<lambda>x. (x, ())) ws))"

definition entry_workspaces :: "outbox_entry list \<Rightarrow> string list" where
  "entry_workspaces es =
     concat (map (\<lambda>e. case Option.bind (as_object (oe_arguments e)) (operation_workspace (oe_name e)) of
                        None \<Rightarrow> [] | Some ws \<Rightarrow> [ws]) es)"

definition native_projections_for_entries ::
  "('st, 'p, 'c) world \<Rightarrow> 'st \<Rightarrow> outbox_entry list \<Rightarrow> store_error + 'p redis_native_projection list" where
  "native_projections_for_entries w st es =
     rbind (w_project_databases w st) (\<lambda>db.
     rbind (rmapM (w_project_workspace w st) (workspace_set (entry_workspaces es))) (\<lambda>ps.
     Inr (db # ps)))"

definition native_projections_for_all_workspaces ::
  "('st, 'p, 'c) world \<Rightarrow> 'st \<Rightarrow> store_error + 'p redis_native_projection list" where
  "native_projections_for_all_workspaces w st =
     rbind (w_project_databases w st) (\<lambda>db.
     rbind (w_list_workspace_ids w st) (\<lambda>ids.
     rbind (rmapM (w_project_workspace w st) ids) (\<lambda>ps. Inr (db # ps))))"

definition native_projections_from_redis ::
  "('st, 'p, 'c) world \<Rightarrow> 'st \<Rightarrow> ('c, store_error, 'p redis_native_projection list) sm" where
  "native_projections_from_redis w st =
     (let read = (\<lambda>ws c. case native_entities (w_env w) (w_exec w) ws c of
          (r, c') \<Rightarrow> (map_error redis_store_error
            (rbind r (\<lambda>es. Inr \<lparr>np_workspace = ws, np_entities = es\<rparr>)), c'))
      in sbind (read NATIVE_SYSTEM_SCOPE) (\<lambda>system.
         sbind (slift (w_list_workspace_ids w st)) (\<lambda>ids.
         sbind (smapM read ids) (\<lambda>ps. sret (system # ps)))))"

section \<open>Reading a consistent remote state\<close>

definition store_errors :: "('c, redis_error, 'a) sm \<Rightarrow> ('c, store_error, 'a) sm" where
  "store_errors m c = (case m c of (r, c') \<Rightarrow> (map_error redis_store_error r, c'))"

fun read_consistent_tries ::
  "('st, 'p, 'c) world \<Rightarrow> nat \<Rightarrow> ('c, store_error, (nat \<times> string) option) sm" where
  "read_consistent_tries w 0 =
     sfail (SInvalid ''Redis state changed while reading a bounded snapshot'')"
| "read_consistent_tries w (Suc n) =
     sbind (store_errors (state_revision (w_env w) (w_exec w))) (\<lambda>before.
     sbind (store_errors (state_snapshot (w_env w) (w_exec w))) (\<lambda>snapshot.
     sbind (store_errors (state_revision (w_env w) (w_exec w))) (\<lambda>after.
     if before = after then sret (map_option (\<lambda>b. (after, b)) snapshot)
     else read_consistent_tries w n)))"

definition read_consistent_state ::
  "('st, 'p, 'c) world \<Rightarrow> ('c, store_error, (nat \<times> string) option) sm" where
  "read_consistent_state w = read_consistent_tries w 2"

section \<open>Publishing\<close>

definition store_error_text :: "store_error \<Rightarrow> string" where
  "store_error_text x =
     (case x of SIo m \<Rightarrow> ''io error: '' @ m | SSql m \<Rightarrow> ''sqlite error: '' @ m | SInvalid m \<Rightarrow> m)"

text \<open>
  \<open>native_deltas\<close> never fails in the source (its only error type is carried by \<open>collect\<close>), so
  \<open>publish_local_deltas\<close> fails only when the connection is missing or the publish fails.
\<close>

definition publish_local_deltas ::
  "('st, 'p, 'c) world \<Rightarrow> redis_operation list \<Rightarrow> 'p redis_native_projection list
     \<Rightarrow> (('st, 'p, 'c) coordinator_inner, redis_error, unit) sm" where
  "publish_local_deltas w ops projections s =
     (case on_redis (\<lambda>x. x) (RProtocol ''Redis connection is not available'')
             (publish_native_deltas (w_env w) (w_exec w) (ci_revision s)
               (native_deltas (ci_native_cache s) projections) ops) s of
        (Inl x, s1) \<Rightarrow> (Inl x, s1)
      | (Inr revision, s1) \<Rightarrow>
          (Inr (), s1\<lparr>ci_revision := revision,
                      ci_native_cache := apply_native_cache (ci_native_cache s1) projections,
                      ci_last_remote_revision := Some revision\<rparr>))"

definition checkpoint_snapshot :: "('st, 'p, 'c) world \<Rightarrow> ('st, 'p, 'c, unit) coord" where
  "checkpoint_snapshot w =
     sbind get_state (\<lambda>s.
     sbind (slift (w_snapshot_bytes w (active_store s))) (\<lambda>snapshot.
     sbind (slift (native_projections_for_all_workspaces w (active_store s))) (\<lambda>projections.
     sbind (with_redis (publish_state_with_projections (w_env w) (w_exec w)
              (ci_revision s) snapshot projections [])) (\<lambda>revision.
     modify_state (\<lambda>s. s\<lparr>ci_revision := revision, ci_last_snapshot_revision := revision,
       ci_last_remote_revision := Some revision, ci_native_cache := projections\<rparr>)))))"

definition checkpoint_snapshot_if_due :: "('st, 'p, 'c) world \<Rightarrow> ('st, 'p, 'c, unit) coord" where
  "checkpoint_snapshot_if_due w =
     sbind get_state (\<lambda>s.
       if ci_mode s \<noteq> Redis
          \<or> ci_revision s - ci_last_snapshot_revision s < SNAPSHOT_CHECKPOINT_OPERATIONS
       then sret () else checkpoint_snapshot w)"

section \<open>Mirroring and replaying committed entries\<close>

definition mirror_entry :: "('st, 'p, 'c) world \<Rightarrow> outbox_entry \<Rightarrow> ('st, 'p, 'c, unit) coord" where
  "mirror_entry w e =
     (case as_object (oe_arguments e) of
        None \<Rightarrow> sfail (SInvalid ''committed outbox entry has invalid arguments'')
      | Some arguments \<Rightarrow>
          (\<lambda>s. case on_standby (w_replay_tool w (oe_name e) arguments) s of
                 (Inr _, s1) \<Rightarrow> (Inr (), s1)
               | (Inl x, s1) \<Rightarrow>
                   (case standby_already_contains w (ci_store s1) (oe_name e) arguments of
                      Inl y \<Rightarrow> (Inl y, s1)
                    | Inr True \<Rightarrow> (Inr (), s1)
                    | Inr False \<Rightarrow>
                        (Inl (SInvalid (''standby SQLite mirror for '' @ oe_name e @ '' failed: ''
                           @ store_error_text x)), s1))))"

fun mirror_entries ::
  "('st, 'p, 'c) world \<Rightarrow> string list \<Rightarrow> outbox_entry list \<Rightarrow> ('st, 'p, 'c, string list) coord" where
  "mirror_entries w mirrored [] = sret mirrored"
| "mirror_entries w mirrored (e # es) =
     sbind (mirror_entry w e) (\<lambda>_. mirror_entries w (mirrored @ [oe_idempotency_key e]) es)"

definition mirror_committed_outbox :: "('st, 'p, 'c) world \<Rightarrow> ('st, 'p, 'c, unit) coord" where
  "mirror_committed_outbox w =
     sbind (on_outbox (pending (w_codec w))) (\<lambda>es.
     sbind (mirror_entries w [] (take MAX_REPLAY_BATCH (filter oe_redis_committed es))) (\<lambda>mirrored.
     sbind (sforM (\<lambda>k. on_outbox (complete (w_codec w) k)) mirrored) (\<lambda>_.
     sbind (on_outbox (pending (w_codec w))) (\<lambda>remaining.
     on_outbox (compact (w_codec w) remaining)))))"

definition replay_entry :: "('st, 'p, 'c) world \<Rightarrow> outbox_entry \<Rightarrow> ('st, 'p, 'c, unit) coord" where
  "replay_entry w e =
     (case as_object (oe_arguments e) of
        None \<Rightarrow> sfail (SInvalid ''committed outbox entry has invalid arguments'')
      | Some arguments \<Rightarrow>
          (\<lambda>s. case on_active (w_replay_tool w (oe_name e) arguments) s of
                 (Inr _, s1) \<Rightarrow> (Inr (), s1)
               | (Inl x, s1) \<Rightarrow>
                   (Inl (SInvalid (''active Redis recovery replay for '' @ oe_name e @ '' failed: ''
                      @ store_error_text x)), s1)))"

definition replay_committed_into_active :: "('st, 'p, 'c) world \<Rightarrow> ('st, 'p, 'c, unit) coord" where
  "replay_committed_into_active w =
     sbind get_state (\<lambda>s.
       if \<not> ci_recovery_replay_committed s then sret ()
       else sbind (on_outbox (pending (w_codec w))) (\<lambda>es.
         sforM (replay_entry w) (take MAX_REPLAY_BATCH (filter oe_redis_committed es))))"

section \<open>Synchronising from Redis\<close>

text \<open>\<open>take()\<close> of the connection around the call: it is put back whatever the result.\<close>

definition sync_from_redis_current :: "('st, 'p, 'c) world \<Rightarrow> ('st, 'p, 'c, unit) coord" where
  "sync_from_redis_current w =
     sbind (on_redis (\<lambda>x. x) redis_unavailable (read_consistent_state w)) (\<lambda>remote.
       case remote of
         None \<Rightarrow> sfail (SInvalid ''Redis state snapshot is missing'')
       | Some (revision, snapshot) \<Rightarrow>
           sbind (on_standby (w_restore_snapshot_bytes w snapshot)) (\<lambda>_.
           sbind get_state (\<lambda>s.
           sbind (if ci_active_store s = None
                  then sbind (slift (w_in_memory w)) (\<lambda>a. modify_state (\<lambda>s. s\<lparr>ci_active_store := Some a\<rparr>))
                  else sret ()) (\<lambda>_.
           sbind (on_active (w_restore_snapshot_bytes w snapshot)) (\<lambda>_.
           sbind get_state (\<lambda>s.
           sbind (slift (w_snapshot_bytes w (active_store s))) (\<lambda>standby.
           sbind (on_standby (w_restore_snapshot_bytes w standby)) (\<lambda>_.
           sbind (slift (native_projections_for_all_workspaces w (active_store s))) (\<lambda>cache.
           modify_state (\<lambda>s. s\<lparr>ci_native_cache := cache, ci_revision := revision,
             ci_last_snapshot_revision := revision,
             ci_last_remote_revision := Some revision\<rparr>))))))))))"

section \<open>Reconciliation\<close>

text \<open>
  The state of the loop over the uncommitted entries: those to publish, the keys whose effect
  the local image already has, and the rejected ones with the reason.
\<close>

record reconcile_acc =
  ra_applied :: "outbox_entry list"
  ra_locally_present :: "string list"
  ra_rejected :: "(outbox_entry \<times> string) list"

definition ledger_status :: "redis_operation_ledger option \<Rightarrow> string option" where
  "ledger_status l = map_option ol_status l"

definition already_committed ::
  "('st, 'p, 'c) world \<Rightarrow> outbox_entry \<Rightarrow> string \<Rightarrow> ('st, 'p, 'c, unit) coord" where
  "already_committed w e why =
     sbind (on_outbox (audit (w_codec w) (oe_idempotency_key e) why)) (\<lambda>_.
     on_outbox (mark_redis_committed (w_codec w) (oe_idempotency_key e)))"

definition reconcile_replay ::
  "('st, 'p, 'c) world \<Rightarrow> reconcile_acc \<Rightarrow> outbox_entry \<Rightarrow> ('st, 'p, 'c, reconcile_acc) coord" where
  "reconcile_replay w acc e =
     (case as_object (oe_arguments e) of
        None \<Rightarrow> sret (acc\<lparr>ra_rejected := ra_rejected acc @ [(e, ''invalid_arguments'')]\<rparr>)
      | Some arguments \<Rightarrow>
          (\<lambda>s. case on_active (w_replay_tool w (oe_name e) arguments) s of
                 (Inr _, s1) \<Rightarrow> (Inr (acc\<lparr>ra_applied := ra_applied acc @ [e]\<rparr>), s1)
               | (Inl _, s1) \<Rightarrow>
                   sbind (with_redis (record_operation_conflict (w_env w) (w_exec w)
                            (redis_operation_for_entry e) ''redis_priority_replay_rejected''
                            (ci_revision s1))) (\<lambda>_.
                     sret (acc\<lparr>ra_rejected :=
                       ra_rejected acc @ [(e, ''redis_priority_replay_rejected'')]\<rparr>)) s1))"

definition reconcile_entry ::
  "('st, 'p, 'c) world \<Rightarrow> reconcile_acc \<Rightarrow> outbox_entry \<Rightarrow> ('st, 'p, 'c, reconcile_acc) coord" where
  "reconcile_entry w acc e =
     sbind (with_redis (operation_ledger (w_env w) (w_exec w) (oe_idempotency_key e))) (\<lambda>ledger.
       if ledger_status ledger = Some ''committed'' then
         sbind (already_committed w e ''already_committed_in_redis_ledger'') (\<lambda>_. sret acc)
       else if ledger_status ledger = Some ''conflict'' then
         sret (acc\<lparr>ra_rejected := ra_rejected acc @ [(e, ''redis_ledger_conflict'')]\<rparr>)
       else sbind (with_redis (operation_applied (w_env w) (w_exec w) (oe_idempotency_key e)))
         (\<lambda>applied.
         if applied then
           sbind (already_committed w e ''already_committed_in_redis'') (\<lambda>_. sret acc)
         else sbind get_state (\<lambda>s.
           if ci_recovery_uses_local_state s then
             sret (acc\<lparr>ra_locally_present := ra_locally_present acc @ [oe_idempotency_key e],
                       ra_applied := ra_applied acc @ [e]\<rparr>)
           else reconcile_replay w acc e)))"

fun reconcile_entries ::
  "('st, 'p, 'c) world \<Rightarrow> reconcile_acc \<Rightarrow> outbox_entry list \<Rightarrow> ('st, 'p, 'c, reconcile_acc) coord" where
  "reconcile_entries w acc [] = sret acc"
| "reconcile_entries w acc (e # es) =
     sbind (reconcile_entry w acc e) (\<lambda>acc. reconcile_entries w acc es)"

definition record_conflicts ::
  "('st, 'p, 'c) world \<Rightarrow> nat \<Rightarrow> outbox_entry list \<Rightarrow> ('st, 'p, 'c, unit) coord" where
  "record_conflicts w actual es =
     sforM (\<lambda>e. with_redis (record_operation_conflict (w_env w) (w_exec w)
       (redis_operation_for_entry e) ''redis_priority_conflict'' actual)) es"

definition publish_applied ::
  "('st, 'p, 'c) world \<Rightarrow> reconcile_acc \<Rightarrow> ('st, 'p, 'c, reconcile_acc) coord" where
  "publish_applied w acc =
     (if ra_applied acc = [] then sret acc
      else sbind get_state (\<lambda>s.
        sbind (slift (native_projections_for_entries w (active_store s) (ra_applied acc))) (\<lambda>projections.
          (\<lambda>s. case publish_local_deltas w (map redis_operation_for_entry (ra_applied acc)) projections s of
                 (Inr _, s1) \<Rightarrow> (Inr acc, s1)
               | (Inl x, s1) \<Rightarrow>
                   (case x of
                      RConflict _ actual \<Rightarrow>
                        sbind (if ci_redis s1 = None then sret ()
                               else record_conflicts w actual (ra_applied acc)) (\<lambda>_.
                        sbind (sync_from_redis_current w) (\<lambda>_.
                        sret (acc\<lparr>ra_applied := [], ra_rejected := ra_rejected acc
                          @ map (\<lambda>e. (e, ''redis_priority_conflict'')) (ra_applied acc)\<rparr>))) s1
                    | _ \<Rightarrow> (Inl (redis_store_error x), s1))))))"

definition settle_entry ::
  "('st, 'p, 'c) world \<Rightarrow> reconcile_acc \<Rightarrow> outbox_entry \<Rightarrow> ('st, 'p, 'c, unit) coord" where
  "settle_entry w acc e =
     on_outbox (if oe_idempotency_key e \<in> set (ra_locally_present acc)
                then complete (w_codec w) (oe_idempotency_key e)
                else mark_redis_committed (w_codec w) (oe_idempotency_key e))"

definition reconcile_outbox :: "('st, 'p, 'c) world \<Rightarrow> ('st, 'p, 'c, unit) coord" where
  "reconcile_outbox w =
     sbind (replay_committed_into_active w) (\<lambda>_.
     sbind (mirror_committed_outbox w) (\<lambda>_.
     sbind (on_outbox (pending (w_codec w))) (\<lambda>es.
     if es = [] then
       modify_state (\<lambda>s. s\<lparr>ci_recovery_replay_committed := False, ci_recovery_uses_local_state := False\<rparr>)
     else
       sbind (reconcile_entries w \<lparr>ra_applied = [], ra_locally_present = [], ra_rejected = []\<rparr>
                (take MAX_REPLAY_BATCH (filter (\<lambda>e. \<not> oe_redis_committed e) es))) (\<lambda>acc.
       sbind (publish_applied w acc) (\<lambda>acc.
       sbind (if ra_locally_present acc = [] then sret () else checkpoint_snapshot w) (\<lambda>_.
       sbind (sforM (settle_entry w acc) (ra_applied acc)) (\<lambda>_.
       sbind (sforM (\<lambda>(e, why). on_outbox (reject (w_codec w) (oe_idempotency_key e) why))
                (ra_rejected acc)) (\<lambda>_.
       sbind (on_outbox (pending (w_codec w))) (\<lambda>remaining.
       sbind (on_outbox (compact (w_codec w) remaining)) (\<lambda>_.
       sbind (mirror_committed_outbox w) (\<lambda>_.
       sbind (on_outbox (pending (w_codec w))) (\<lambda>remaining.
       let uses = (\<exists>e\<in>set remaining. \<not> oe_redis_committed e)
       in modify_state (\<lambda>s. s\<lparr>ci_recovery_uses_local_state := uses,
            ci_recovery_replay_committed := (\<not> uses \<and> (\<exists>e\<in>set remaining. oe_redis_committed e))\<rparr>)))))))))))))"

section \<open>Attaching to Redis\<close>

text \<open>
  Until it succeeds, \<open>attach_redis\<close> holds the adapter apart from the coordinator: its state is
  the coordinator with that connection.
\<close>

type_synonym ('st, 'p, 'c, 'a) attaching =
  "(('st, 'p, 'c) coordinator_inner \<times> 'c, store_error, 'a) sm"

definition att_coord :: "('st, 'p, 'c, 'a) coord \<Rightarrow> ('st, 'p, 'c, 'a) attaching" where
  "att_coord m = (\<lambda>(s, c). case m s of (r, s1) \<Rightarrow> (r, (s1, c)))"

definition att_redis :: "('c, store_error, 'a) sm \<Rightarrow> ('st, 'p, 'c, 'a) attaching" where
  "att_redis m = (\<lambda>(s, c). case m c of (r, c1) \<Rightarrow> (r, (s, c1)))"

text \<open>What attaching settled: the store to serve from and the cache of published projections.\<close>

definition attach_existing ::
  "('st, 'p, 'c) world \<Rightarrow> bool \<Rightarrow> string option \<Rightarrow> nat \<Rightarrow> string \<Rightarrow> 'st
     \<Rightarrow> ('st, 'p, 'c, 'st \<times> 'p redis_native_projection list) attaching" where
  "attach_existing w recovering local revision snapshot fresh =
     sbind (if recovering then sret ()
            else att_coord (on_standby (w_restore_snapshot_bytes w snapshot))) (\<lambda>_.
     let active_snapshot = (case local of None \<Rightarrow> snapshot | Some b \<Rightarrow> b) in
     case w_restore_snapshot_bytes w active_snapshot fresh of
       (Inl x, _) \<Rightarrow> sfail x
     | (Inr _, active) \<Rightarrow>
         sbind (slift (native_projections_for_all_workspaces w active)) (\<lambda>projections.
         sbind (att_redis (store_errors (native_schema_needs_rebuild (w_env w) (w_exec w)))) (\<lambda>rebuild.
         sbind (if rebuild then att_redis (store_errors (publish_state_with_projections (w_env w)
                  (w_exec w) revision active_snapshot projections []))
                else sret revision) (\<lambda>revision.
         sbind (att_coord (modify_state (\<lambda>s. s\<lparr>ci_revision := revision\<rparr>))) (\<lambda>_.
         sbind (if recovering \<and> \<not> rebuild then att_redis (native_projections_from_redis w active)
                else sret projections) (\<lambda>cache.
         sbind (att_coord (modify_state (\<lambda>s. s\<lparr>ci_last_remote_revision := Some revision\<rparr>))) (\<lambda>_.
         sret (active, cache))))))))"

definition attach_empty ::
  "('st, 'p, 'c) world \<Rightarrow> 'st \<Rightarrow> ('st, 'p, 'c, 'st \<times> 'p redis_native_projection list) attaching" where
  "attach_empty w fresh =
     sbind (att_coord get_state) (\<lambda>s.
     sbind (slift (w_snapshot_bytes w (ci_store s))) (\<lambda>snapshot.
     sbind (slift (native_projections_for_all_workspaces w (ci_store s))) (\<lambda>projections.
     sbind (att_redis (store_errors (publish_state_with_projections (w_env w) (w_exec w)
              0 snapshot projections []))) (\<lambda>revision.
     sbind (att_coord (modify_state (\<lambda>s. s\<lparr>ci_revision := revision,
              ci_last_remote_revision := Some revision\<rparr>))) (\<lambda>_.
     case w_restore_snapshot_bytes w snapshot fresh of
       (Inl x, _) \<Rightarrow> sfail x
     | (Inr _, active) \<Rightarrow> sret (active, projections))))))"

definition attach_adapter ::
  "('st, 'p, 'c) world \<Rightarrow> ('st, 'p, 'c, unit) attaching" where
  "attach_adapter w =
     sbind (slift (w_in_memory w)) (\<lambda>fresh.
     sbind (att_coord (on_outbox (pending (w_codec w)))) (\<lambda>es.
     sbind (att_coord get_state) (\<lambda>s.
     let recovering = (ci_mode s = Sqlite \<and> (\<exists>e\<in>set es. \<not> oe_redis_committed e));
         replay = (\<not> recovering \<and> (\<exists>e\<in>set es. oe_redis_committed e)) in
     sbind (if recovering then sbind (slift (w_snapshot_bytes w (ci_store s))) (\<lambda>b. sret (Some b))
            else sret None) (\<lambda>local.
     sbind (att_redis (read_consistent_state w)) (\<lambda>remote.
     sbind (case remote of
              Some (revision, snapshot) \<Rightarrow> attach_existing w recovering local revision snapshot fresh
            | None \<Rightarrow> attach_empty w fresh) (\<lambda>(active, cache).
     sbind (slift (w_snapshot_bytes w active)) (\<lambda>standby.
     sbind (att_coord (on_standby (w_restore_snapshot_bytes w standby))) (\<lambda>_ (s, c).
       (Inr (), (s\<lparr>ci_active_store := Some active, ci_redis := Some c, ci_mode := Redis,
          ci_last_snapshot_revision := ci_revision s, ci_native_cache := cache,
          ci_recovery_uses_local_state := recovering, ci_recovery_replay_committed := replay\<rparr>, c))))))))))"

definition attach_redis :: "('st, 'p, 'c) world \<Rightarrow> 'c \<Rightarrow> ('st, 'p, 'c, unit) coord" where
  "attach_redis w c s =
     (case attach_adapter w (s, c) of
        (Inl x, (s1, _)) \<Rightarrow> (Inl x, s1)
      | (Inr _, (s1, _)) \<Rightarrow> reconcile_outbox w s1)"

section \<open>Fallback, reconnection and the tick\<close>

definition add_metrics :: "redis_metrics \<Rightarrow> redis_metrics \<Rightarrow> redis_metrics" where
  "add_metrics a b =
     \<lparr>m_commands = sat_add (m_commands a) (m_commands b),
      m_request_bytes = sat_add (m_request_bytes a) (m_request_bytes b),
      m_response_bytes = sat_add (m_response_bytes a) (m_response_bytes b)\<rparr>"

definition record_redis_metrics ::
  "redis_metrics \<Rightarrow> ('st, 'p, 'c) coordinator_inner \<Rightarrow> ('st, 'p, 'c) coordinator_inner" where
  "record_redis_metrics m s = s\<lparr>ci_redis_totals := add_metrics (ci_redis_totals s) m\<rparr>"

definition enter_sqlite_fallback ::
  "('st, 'p, 'c) world \<Rightarrow> ('st, 'p, 'c) coordinator_inner \<Rightarrow> ('st, 'p, 'c) coordinator_inner" where
  "enter_sqlite_fallback w s =
     (let s1 = (case ci_active_store s of
                  None \<Rightarrow> s
                | Some a \<Rightarrow>
                    (let t = s\<lparr>ci_active_store := None\<rparr>
                     in case w_snapshot_bytes w a of
                          Inl _ \<Rightarrow> t
                        | Inr b \<Rightarrow> t\<lparr>ci_store := snd (w_restore_snapshot_bytes w b (ci_store t))\<rparr>));
          s2 = (case ci_redis s1 of
                  None \<Rightarrow> s1
                | Some c \<Rightarrow> record_redis_metrics (w_metrics w c) (s1\<lparr>ci_redis := None\<rparr>))
      in s2\<lparr>ci_mode := Sqlite\<rparr>)"

definition prepare_for_operation ::
  "('st, 'p, 'c) world \<Rightarrow> ('st, 'p, 'c) coordinator_inner \<Rightarrow> ('st, 'p, 'c) coordinator_inner" where
  "prepare_for_operation w s =
     (if ci_mode s = Redis \<and> ci_redis s = None then enter_sqlite_fallback w s else s)"

text \<open>\<open>found\<close> is what \<open>RedisAdapter::from_env()\<close> returns at this moment.\<close>

definition try_reconnect ::
  "('st, 'p, 'c) world \<Rightarrow> redis_error + 'c option \<Rightarrow> ('st, 'p, 'c, unit) coord" where
  "try_reconnect w found s =
     (if \<not> ci_redis_configured s \<or> ci_redis s \<noteq> None then (Inr (), s)
      else case found of
             Inl x \<Rightarrow> (Inl (redis_store_error x), s)
           | Inr None \<Rightarrow> (Inr (), s)
           | Inr (Some c) \<Rightarrow> attach_redis w c s)"

definition tick ::
  "('st, 'p, 'c) world \<Rightarrow> redis_error + 'c option \<Rightarrow> ('st, 'p, 'c, unit) coord" where
  "tick w found =
     sbind get_state (\<lambda>s.
       if ci_redis s = None then try_reconnect w found
       else if ci_mode s = Redis then
         sbind (with_redis (state_revision (w_env w) (w_exec w))) (\<lambda>remote.
         sbind (modify_state (\<lambda>s. s\<lparr>ci_last_remote_revision := Some remote\<rparr>)) (\<lambda>_.
         sbind get_state (\<lambda>s.
         sbind (if remote \<noteq> ci_revision s then sync_from_redis_current w else sret ()) (\<lambda>_.
         sbind (reconcile_outbox w) (\<lambda>_. checkpoint_snapshot_if_due w)))))
       else try_reconnect w found)"

definition open_with_configuration ::
  "('st, 'p, 'c) world \<Rightarrow> 'st \<Rightarrow> outbox \<Rightarrow> bool \<Rightarrow> redis_error + 'c option
     \<Rightarrow> ('st, 'p, 'c) coordinator_inner" where
  "open_with_configuration w store outbox configured found =
     (let s = (coordinator_new store outbox configured)\<lparr>ci_background_standby_sync := configured\<rparr>
      in if configured then
           case found of
             Inr (Some c) \<Rightarrow>
               (case attach_redis w c s of
                  (Inl _, s1) \<Rightarrow> enter_sqlite_fallback w s1
                | (Inr _, s1) \<Rightarrow> s1)
           | _ \<Rightarrow> s
         else s)"

section \<open>The watcher\<close>

text \<open>
  One round of \<open>watcher_loop\<close>: the tick under the lock, its counters, and the delay before
  the next round (in milliseconds; \<open>Duration::saturating_mul\<close> does not saturate below the
  bounds of \<open>configured_duration\<close>).
\<close>

definition watcher_round ::
  "('st, 'p, 'c) world \<Rightarrow> nat \<Rightarrow> nat \<Rightarrow> redis_error + 'c option \<Rightarrow> nat
     \<Rightarrow> ('st, 'p, 'c) coordinator_inner \<times> nat \<Rightarrow> ('st, 'p, 'c) coordinator_inner \<times> nat" where
  "watcher_round w interval max_backoff found elapsed = (\<lambda>(s, delay).
     (case tick w found s of
        (r, s1) \<Rightarrow>
          (let s2 = s1\<lparr>ci_sync_ticks := sat_add (ci_sync_ticks s1) 1,
                       ci_last_sync_micros := min elapsed u64_max\<rparr>
           in case r of
                Inr _ \<Rightarrow> (s2, interval)
              | Inl _ \<Rightarrow> (s2\<lparr>ci_sync_errors := sat_add (ci_sync_errors s2) 1\<rparr>,
                          min (delay * 2) max_backoff))))"

definition configured_duration :: "(string \<Rightarrow> string option) \<Rightarrow> string \<Rightarrow> nat \<Rightarrow> nat \<Rightarrow> nat \<Rightarrow> nat" where
  "configured_duration env name dflt lo hi =
     (case Option.bind (option_filter utf8_valid (env name)) (parse_unsigned u64_max) of
        None \<Rightarrow> dflt
      | Some v \<Rightarrow> max lo (min v hi))"

section \<open>Tools\<close>

definition mutating_tools :: "string list" where
  "mutating_tools =
     [''remember_fact'', ''add_fact'', ''absorb'', ''ingest_turn'', ''confirm_fact'',
      ''sweep_freshness'', ''decay_sweep'', ''embed_backfill'', ''run_begin'', ''run_end'',
      ''link_run'', ''record_measurement'', ''record_feedback'', ''categorize_pending'',
      ''forget_fact'', ''restore_fact'', ''put_context'', ''ingest_document'', ''reduce_context'',
      ''capture_event'', ''handoff_begin'', ''handoff_accept'', ''handoff_cancel'',
      ''remember_entity'', ''remember_relation'', ''suggest_relations'',
      ''suggest_relation_candidates'', ''confirm_relation_candidate'',
      ''reject_relation_candidate'', ''record_decision'', ''attach_evidence'', ''create_database'',
      ''archive_database'', ''delete_database'', ''select_database'', ''reset_database'',
      ''create_workspace'', ''archive_workspace'', ''reset_workspace'']"

definition is_state_mutating :: "string \<Rightarrow> bool" where
  "is_state_mutating name \<longleftrightarrow> name \<in> set mutating_tools"

definition exec_error :: "'a outbox_op \<Rightarrow> (('st, 'p, 'c) coordinator_inner, backend_tool_error, 'a) sm" where
  "exec_error m s = (case on_outbox m s of (r, s1) \<Rightarrow> (map_error Execution r, s1))"

definition lift_execution ::
  "('st, 'p, 'c, 'a) coord \<Rightarrow> (('st, 'p, 'c) coordinator_inner, backend_tool_error, 'a) sm" where
  "lift_execution m s = (case m s of (r, s1) \<Rightarrow> (map_error Execution r, s1))"

text \<open>What follows a successful mutation while Redis is primary.\<close>

definition publish_operation ::
  "('st, 'p, 'c) world \<Rightarrow> string \<Rightarrow> string \<Rightarrow> json_map \<Rightarrow> json
     \<Rightarrow> (('st, 'p, 'c) coordinator_inner, backend_tool_error, json) sm" where
  "publish_operation w k name arguments result s =
     (case native_projections_for_operation w (active_store s) name arguments of
        Inl _ \<Rightarrow> (Inr result, enter_sqlite_fallback w s)
      | Inr projections \<Rightarrow>
          (case publish_local_deltas w
                  [\<lparr>op_idempotency_key = k, op_name = name,
                    op_workspace = or_default (operation_workspace name arguments)\<rparr>] projections s of
             (Inr _, s1) \<Rightarrow>
               sbind (exec_error (mark_redis_committed (w_codec w) k)) (\<lambda>_.
               sbind get_state (\<lambda>s.
               sbind (if ci_background_standby_sync s then sret ()
                      else lift_execution (mirror_committed_outbox w)) (\<lambda>_. sret result))) s1
           | (Inl x, s1) \<Rightarrow>
               (case x of
                  RConflict _ _ \<Rightarrow>
                    (Inl (Execution (SInvalid
                       ''Redis state changed; operation was queued for reconciliation'')),
                     enter_sqlite_fallback w s1)
                | _ \<Rightarrow> (Inr result, enter_sqlite_fallback w s1))))"

definition new_entry :: "string \<Rightarrow> string \<Rightarrow> json_map \<Rightarrow> outbox_entry" where
  "new_entry k name arguments =
     \<lparr>oe_idempotency_key = k, oe_name = name, oe_arguments = JObject arguments,
      oe_redis_committed = False\<rparr>"

definition execute_mutation ::
  "('st, 'p, 'c) world \<Rightarrow> string \<Rightarrow> string \<Rightarrow> json_map \<Rightarrow> ('st, backend_tool_error, json) sm
     \<Rightarrow> (('st, 'p, 'c) coordinator_inner, backend_tool_error, json) sm" where
  "execute_mutation w k name arguments operation =
     sbind (exec_error (append_pending (w_codec w) (new_entry k name arguments))) (\<lambda>_ s.
       case on_active operation s of
         (Inr result, s1) \<Rightarrow>
           (if ci_mode s1 = Redis then publish_operation w k name arguments result s1
            else (Inr result, s1))
       | (Inl x, s1) \<Rightarrow>
           sbind (exec_error (complete (w_codec w) k)) (\<lambda>_.
           sbind (exec_error (pending (w_codec w))) (\<lambda>remaining.
           sbind (exec_error (compact (w_codec w) remaining)) (\<lambda>_. sfail x))) s1)"

definition execute_tool ::
  "('st, 'p, 'c) world \<Rightarrow> string \<Rightarrow> json_map \<Rightarrow> ('st, backend_tool_error, json) sm
     \<Rightarrow> (('st, 'p, 'c) coordinator_inner, backend_tool_error, json) sm" where
  "execute_tool w name arguments operation s =
     (let s = prepare_for_operation w s
      in if is_state_mutating name then
           (case operation_key w name arguments of
              Inl x \<Rightarrow> (Inl (Execution x), s)
            | Inr k \<Rightarrow> execute_mutation w k name arguments operation s)
         else on_active operation s)"

section \<open>Status\<close>

record backend_status =
  bs_backend :: backend_kind
  bs_redis_configured :: bool
  bs_redis_connected :: bool
  bs_redis_revision :: "nat option"
  bs_standby_revision :: nat
  bs_standby_lag :: "nat option"
  bs_outbox_depth :: nat
  bs_metrics :: redis_metrics
  bs_sync_ticks :: nat
  bs_sync_errors :: nat
  bs_last_sync_micros :: nat

definition status :: "('st, 'p, 'c) world \<Rightarrow> ('st, 'p, 'c, backend_status) coord" where
  "status w =
     sbind (on_outbox (pending (w_codec w))) (\<lambda>es.
     sbind get_state (\<lambda>s.
     let connected = (ci_redis s \<noteq> None);
         revision = (if connected then ci_last_remote_revision s else None);
         current = (case ci_redis s of None \<Rightarrow> default_metrics | Some c \<Rightarrow> w_metrics w c)
     in sret \<lparr>bs_backend = ci_mode s, bs_redis_configured = ci_redis_configured s,
          bs_redis_connected = connected, bs_redis_revision = revision,
          bs_standby_revision = ci_revision s,
          bs_standby_lag = map_option (\<lambda>r. r - ci_revision s) revision,
          bs_outbox_depth = length es, bs_metrics = add_metrics (ci_redis_totals s) current,
          bs_sync_ticks = ci_sync_ticks s, bs_sync_errors = ci_sync_errors s,
          bs_last_sync_micros = ci_last_sync_micros s\<rparr>))"

end
