(* ===== verification/RedisServer.thy ===== *)
theory RedisServer
  imports RedisContract
begin

text \<open>
  A reference server for the contract of \<open>RedisContract\<close>. It decodes the bytes of a write,
  runs the commands, and sends the replies; a script of keyspace changes stands for the
  other clients, one change before each command. It shows that the contract is met by the
  connection layer of \<open>src/redis.rs\<close> over the wire protocol, and gives the witnesses of the
  adapter's theorems their concrete runs.
\<close>

type_synonym server = "redis_view \<times> (keyspace \<Rightarrow> keyspace) list"

definition intrude :: "(keyspace \<Rightarrow> keyspace) \<Rightarrow> redis_view \<Rightarrow> redis_view" where
  "intrude f v =
     (let ks = f (keyspace v)
      in v\<lparr>keyspace := ks, dirty := (dirty v \<or> (\<exists>k\<in>set (watched v). ks k \<noteq> keyspace v k))\<rparr>)"

fun serve_command :: "server \<Rightarrow> string list \<Rightarrow> server \<times> resp" where
  "serve_command (v, fs) c =
     (case redis_step (case fs of [] \<Rightarrow> v | f # _ \<Rightarrow> intrude f v) c of (w, r) \<Rightarrow> ((w, tl fs), r))"

fun serve :: "server \<Rightarrow> string list list \<Rightarrow> server \<times> resp list" where
  "serve s [] = (s, [])"
| "serve s (c # cs) =
     (case serve_command s c of (s1, r) \<Rightarrow> case serve s1 cs of (s2, rs) \<Rightarrow> (s2, r # rs))"

definition direct_exec :: "server executor" where
  "direct_exec cmds s = (case serve s cmds of (t, rs) \<Rightarrow> (Inr rs, t))"

definition bulk_args :: "resp list \<Rightarrow> string list option" where
  "bulk_args vs =
     (if list_all (\<lambda>v. case v of Bulk (Some _) \<Rightarrow> True | _ \<Rightarrow> False) vs
      then Some (map (\<lambda>v. case v of Bulk (Some b) \<Rightarrow> b | _ \<Rightarrow> []) vs) else None)"

function decode_requests :: "string \<Rightarrow> string list list option" where
  "decode_requests s =
     (if s = [] then Some []
      else case read_resp 0 s of
             (Inr (Array (Some vs)), r) \<Rightarrow>
               if length r < length s then
                 (case bulk_args vs of
                    None \<Rightarrow> None | Some c \<Rightarrow> map_option ((#) c) (decode_requests r))
               else None
           | _ \<Rightarrow> None)"
  by pat_completeness auto
termination by (relation "measure length") auto

declare decode_requests.simps [simp del]

definition ref_peer :: "server peer" where
  "ref_peer s q =
     (case decode_requests q of
        None \<Rightarrow> (s, None)
      | Some cmds \<Rightarrow>
          case serve s cmds of (t, rs) \<Rightarrow>
            if concat (map encode_command cmds) = q \<and> list_all (resp_ok 0) rs
            then (t, Some (concat (map resp_bytes rs))) else (s, None))"

lemma interferes_intrude [simp]: "interferes v (intrude f v)"
  by (auto simp: interferes_def intrude_def Let_def)

lemma serve_served: "serve s cmds = (s', rs) \<Longrightarrow> served cmds (fst s) rs (fst s')"
proof (induction cmds arbitrary: s rs)
  case (Cons c cs)
  obtain v fs where s: "s = (v, fs)" by (cases s)
  let ?u = "case fs of [] \<Rightarrow> v | f # _ \<Rightarrow> intrude f v"
  have "interferes v ?u" by (auto split: list.split)
  moreover have "served cs (fst (redis_step ?u c)) (tl rs) (fst s')" "rs = snd (redis_step ?u c) # tl rs"
    using Cons.prems Cons.IH[of "(fst (redis_step ?u c), tl fs)" "tl rs"]
    by (auto simp: s Let_def split: prod.splits)
  ultimately show ?case by (auto simp: s)
qed simp

lemma serve_length: "length (snd (serve s cmds)) = length cmds"
  by (induction cmds arbitrary: s) (auto split: prod.split, metis snd_conv)

interpretation direct: redis_client direct_exec fst "\<lambda>_. True"
  by unfold_locales (auto simp: direct_exec_def intro: serve_served split: prod.splits)

definition in_step :: "server redis_connection \<Rightarrow> bool" where
  "in_step c \<longleftrightarrow> inbuf c = [] \<and> m_response_bytes (metrics c) \<le> u64_max"

lemma ref_peer_cases:
  "ref_peer s (concat (map encode_command cmds)) = (s, None) \<or>
   (ref_peer s (concat (map encode_command cmds)) =
      (fst (serve s cmds), Some (concat (map resp_bytes (snd (serve s cmds))))) \<and>
    (\<forall>r\<in>set (snd (serve s cmds)). resp_ok 0 r))"
proof (cases "decode_requests (concat (map encode_command cmds))")
  case None
  then show ?thesis by (simp add: ref_peer_def)
next
  case (Some ds)
  then show ?thesis
    using batch_inj[of ds cmds]
    by (auto simp: ref_peer_def list_all_iff split: prod.split)
qed

lemma ref_commands:
  assumes "in_step c"
  shows "(\<exists>m. commands ref_peer cmds c = (Inr (snd (serve (srv c) cmds)),
             c\<lparr>srv := fst (serve (srv c) cmds), metrics := m\<rparr>) \<and> m_response_bytes m \<le> u64_max)
       \<or> (\<exists>x. commands ref_peer cmds c = (Inl x, c) \<and> not_conflict x)"
proof (cases "cmds = []")
  case True
  with assms show ?thesis by (intro disjI1 exI[of _ "metrics c"]) (auto simp: commands_def in_step_def)
next
  case False
  show ?thesis
  proof (cases "ref_peer (srv c) (concat (map encode_command cmds)) = (srv c, None)")
    case True
    with False show ?thesis by (intro disjI2) (auto simp: commands_def not_conflict_def)
  next
    case other: False
    with ref_peer_cases[of "srv c" cmds] have
      "ref_peer (srv c) (concat (map encode_command cmds)) =
        (fst (serve (srv c) cmds), Some (concat (map resp_bytes (snd (serve (srv c) cmds)))))"
      "\<forall>r\<in>set (snd (serve (srv c) cmds)). resp_ok 0 r" by auto
    from commands_reply[where cmds = cmds and peer = ref_peer and c = c, OF False this(1) serve_length this(2)] assms
    show ?thesis by (intro disjI1) (auto simp: in_step_def sat_add_le)
  qed
qed

interpretation wire: redis_client "commands ref_peer" "\<lambda>c. fst (srv c)" in_step
proof
  fix c cmds rs c'
  assume "in_step c" "commands ref_peer cmds c = (Inr rs, c')"
  with ref_commands[of c cmds]
  show "in_step c' \<and> served cmds (fst (srv c)) rs (fst (srv c'))"
    using serve_served[of "srv c" cmds "fst (serve (srv c) cmds)" "snd (serve (srv c) cmds)"]
    by (auto simp: in_step_def)
next
  fix c cmds x c'
  assume "in_step c" "commands ref_peer cmds c = (Inl x, c')"
  with ref_commands[of c cmds] have "not_conflict x" "c' = c" by auto
  then show "not_conflict x \<and>
      (\<exists>n rs. n \<le> length cmds \<and> served (take n cmds) (fst (srv c)) rs (fst (srv c')))"
    by (auto intro!: exI[of _ 0] exI[of _ "[]"])
qed

end
