(* ===== verification/RedisPublish.thy ===== *)
theory RedisPublish
  imports RedisAdapter RedisServer
begin

text \<open>
  Correctness of the two publishing transactions of \<open>src/redis.rs\<close> against the server's
  contract: whatever other clients do in between, a publish applies all its writes in one
  step on a keyspace that still holds the expected revision, or none of them, and what it
  returns tells which.
\<close>

section \<open>States of a publishing connection\<close>

definition idle :: "redis_view \<Rightarrow> bool" where
  "idle v \<longleftrightarrow> queue v = None \<and> watched v = [] \<and> \<not> dirty v"

text \<open>The revision a keyspace holds, as the adapter reads it.\<close>

definition revision_in :: "'p env \<Rightarrow> keyspace \<Rightarrow> redis_error + nat" where
  "revision_in env ks =
     parse_state_revision_response (snd (apply_command ks [''GET'', state_revision_key env]))"

definition armed :: "'p env \<Rightarrow> nat \<Rightarrow> redis_view \<Rightarrow> bool" where
  "armed env e v \<longleftrightarrow>
     state_revision_key env \<in> set (watched v) \<and>
     (\<not> dirty v \<longrightarrow> revision_in env (keyspace v) = Inr e)"

lemma revision_in_cong:
  "ks (state_revision_key env) = ks' (state_revision_key env) \<Longrightarrow>
     revision_in env ks = revision_in env ks'"
  by (simp add: revision_in_def apply_get)

lemma armed_interferes: "armed env e v \<Longrightarrow> interferes v w \<Longrightarrow> armed env e w"
  using revision_in_cong[of "keyspace v" env "keyspace w"] by (auto simp: armed_def interferes_def)

text \<open>
  The outcome: nothing of this connection was applied, or the queue was applied as one
  journal entry, to a keyspace with the expected revision.
\<close>

lemma idle_interferes: "idle v \<Longrightarrow> interferes v w \<Longrightarrow> idle w"
  by (auto simp: idle_def interferes_def)

definition applied_once ::
  "'p env \<Rightarrow> nat \<Rightarrow> entry list \<Rightarrow> string list list \<Rightarrow> redis_view \<Rightarrow> bool" where
  "applied_once env e j q v \<longleftrightarrow>
     (\<exists>ks. journal v = j @ [\<lparr>je_before = ks, je_commands = q, je_replies = snd (apply_commands ks q)\<rparr>]
        \<and> revision_in env ks = Inr e)"

definition exec_outcome ::
  "'p env \<Rightarrow> nat \<Rightarrow> entry list \<Rightarrow> string list list \<Rightarrow> resp \<Rightarrow> redis_view \<Rightarrow> bool" where
  "exec_outcome env e j q r v \<longleftrightarrow>
     idle v \<and>
     (r = Array None \<and> journal v = j
      \<or> (\<exists>ks. r = Array (Some (snd (apply_commands ks q))) \<and> revision_in env ks = Inr e \<and>
           journal v = j @ [\<lparr>je_before = ks, je_commands = q,
                             je_replies = snd (apply_commands ks q)\<rparr>]))"

definition failed_outcome ::
  "'p env \<Rightarrow> nat \<Rightarrow> entry list \<Rightarrow> (string list list \<Rightarrow> bool) \<Rightarrow> redis_error \<Rightarrow> redis_view \<Rightarrow> bool" where
  "failed_outcome env e j Qs x v \<longleftrightarrow>
     journal v = j \<or> (not_conflict x \<and> (\<exists>q. Qs q \<and> applied_once env e j q v))"

lemma exec_outcome_interferes:
  "exec_outcome env e j q r v \<Longrightarrow> interferes v w \<Longrightarrow> exec_outcome env e j q r w"
  by (auto simp: exec_outcome_def intro: idle_interferes dest: interferesD)

lemma exec_outcome_failed:
  "exec_outcome env e j q r v \<Longrightarrow> not_conflict x \<Longrightarrow> Qs q \<Longrightarrow> failed_outcome env e j Qs x v"
  by (auto simp: exec_outcome_def failed_outcome_def applied_once_def)

lemma step_exec:
  assumes "queue v = Some q" "armed env e v" "journal v = j"
  shows "exec_outcome env e j q (snd (redis_step v [''EXEC''])) (fst (redis_step v [''EXEC'']))"
  using assms by (auto simp: redis_step_def exec_outcome_def armed_def idle_def split: prod.split)

section \<open>The stages\<close>

definition watching :: "'p env \<Rightarrow> nat \<Rightarrow> entry list \<Rightarrow> redis_view \<Rightarrow> bool" where
  "watching env e j v \<longleftrightarrow> queue v = None \<and> journal v = j \<and> armed env e v"

definition queueing :: "'p env \<Rightarrow> nat \<Rightarrow> entry list \<Rightarrow> string list list \<Rightarrow> redis_view \<Rightarrow> bool" where
  "queueing env e j q v \<longleftrightarrow> queue v = Some q \<and> journal v = j \<and> armed env e v"

lemma watching_interferes: "watching env e j v \<Longrightarrow> interferes v w \<Longrightarrow> watching env e j w"
  by (auto simp: watching_def armed_interferes dest: interferesD)

lemma queueing_interferes: "queueing env e j q v \<Longrightarrow> interferes v w \<Longrightarrow> queueing env e j q w"
  by (auto simp: queueing_def armed_interferes dest: interferesD)

lemma watching_multi:
  "watching env e j v \<Longrightarrow> queueing env e j [] (fst (redis_step v [''MULTI'']))"
  by (simp add: watching_def queueing_def step_multi armed_def)

lemma queueing_step:
  "queueing env e j q v \<Longrightarrow> args \<noteq> [''EXEC''] \<Longrightarrow>
     snd (redis_step v args) = Simple ''QUEUED'' \<and> queueing env e j (q @ [args]) (fst (redis_step v args))"
  by (auto simp: queueing_def step_queue armed_def)

lemma watching_queue: "watching env e j v \<Longrightarrow> queue v = None"
  by (simp add: watching_def)

lemma queueing_exec:
  "queueing env e j q v \<Longrightarrow>
     exec_outcome env e j q (snd (redis_step v [''EXEC''])) (fst (redis_step v [''EXEC'']))"
  by (rule step_exec) (simp_all add: queueing_def)

lemma watching_failed: "watching env e j v \<Longrightarrow> failed_outcome env e j Qs x v"
  by (simp add: watching_def failed_outcome_def)

lemma queueing_failed: "queueing env e j p v \<Longrightarrow> failed_outcome env e j Qs x v"
  by (simp add: queueing_def failed_outcome_def)

lemma served_queueing:
  assumes "served cs v rs w" "queueing env e j q v" "\<forall>c\<in>set cs. c \<noteq> [''EXEC'']"
  shows "queueing env e j (q @ cs) w \<and> rs = map (\<lambda>_. Simple ''QUEUED'') cs"
  using assms
proof (induction cs v rs w arbitrary: q rule: served.induct)
  case (1 v rs w)
  then show ?case by (auto intro: queueing_interferes)
next
  case (2 c cs v rs w)
  then obtain u r rs' where u: "interferes v u" "rs = r # rs'" "snd (redis_step u c) = r"
      "served cs (fst (redis_step u c)) rs' w" by auto
  with 2 have "queueing env e j q u" by (auto intro: queueing_interferes)
  with 2 have s: "snd (redis_step u c) = Simple ''QUEUED''"
      "queueing env e j (q @ [c]) (fst (redis_step u c))" by (simp_all add: queueing_step)
  from "2.IH"[OF u(4) s(2)] "2.prems"(3) u s show ?case by simp
qed

context redis_client begin

lemma triple_read:
  assumes "\<And>v. P v \<Longrightarrow> queue v = None" "\<And>v w. P v \<Longrightarrow> interferes v w \<Longrightarrow> P w"
    and "\<And>x v. P v \<Longrightarrow> R x v" and "is_read args"
  shows "triple P (exec_command exec args) (\<lambda>r v. P v) R"
proof (rule triple_command)
  fix v assume "P v"
  with step_read[of v args] assms(1,4) show "P (fst (redis_step v args))" by simp
qed (use assms in auto)

lemma served_preflight:
  assumes s: "served [''WATCH'' # ks, [''GET'', state_revision_key env]] v rs w"
    and v: "idle v" "journal v = j" and k: "state_revision_key env \<in> set ks"
  shows "\<exists>g. rs = [Simple ''OK'', g] \<and> queue w = None \<and> journal w = j \<and>
    (\<forall>e. parse_state_revision_response g = Inr e \<longrightarrow> watching env e j w)"
proof -
  obtain u1 u2 where u: "interferes v u1"
      "interferes (fst (redis_step u1 (''WATCH'' # ks))) u2"
      "rs = [snd (redis_step u1 (''WATCH'' # ks)), snd (redis_step u2 [''GET'', state_revision_key env])]"
      "interferes (fst (redis_step u2 [''GET'', state_revision_key env])) w"
    using s by (auto simp: Cons_eq_append_conv)
  have q1: "queue u1 = None" "journal u1 = j" using u(1) v by (auto simp: idle_def dest: interferesD)
  then have s1: "redis_step u1 (''WATCH'' # ks) = (u1\<lparr>watched := watched u1 @ ks\<rparr>, Simple ''OK'')"
    by (intro step_watch)
  with u(2) q1 have q2: "queue u2 = None" "journal u2 = j" "watched u2 = watched u1 @ ks"
    by (auto dest: interferesD)
  with step_read[of u2 "[''GET'', state_revision_key env]"]
  have s2: "fst (redis_step u2 [''GET'', state_revision_key env]) = u2"
    "snd (redis_step u2 [''GET'', state_revision_key env]) =
       snd (apply_command (keyspace u2) [''GET'', state_revision_key env])" by simp_all
  have "armed env e u2" if "parse_state_revision_response
      (snd (apply_command (keyspace u2) [''GET'', state_revision_key env])) = Inr e" for e
    using that q2 k by (simp add: armed_def revision_in_def)
  with q2 have "parse_state_revision_response
      (snd (apply_command (keyspace u2) [''GET'', state_revision_key env])) = Inr e \<Longrightarrow>
      watching env e j u2" for e
    by (simp add: watching_def)
  with u(3,4) s1 s2 q2 show ?thesis by (auto dest: interferesD intro: watching_interferes)
qed

lemma served_preflight_prefix:
  assumes s: "served (take n [''WATCH'' # ks, [''GET'', k]]) v rs w" and v: "idle v"
  shows "queue w = None \<and> journal w = journal v"
proof -
  have w: "queue (fst (redis_step u (''WATCH'' # ks))) = None \<and>
      journal (fst (redis_step u (''WATCH'' # ks))) = journal u" if "queue u = None" for u
    using that by (simp add: step_watch)
  have g: "fst (redis_step u [''GET'', k]) = u" if "queue u = None" for u
    using that step_read[of u "[''GET'', k]"] by simp
  consider "n = 0" | "n = 1" | "n \<ge> 2" by linarith
  then show ?thesis
  proof cases
    case 1
    with s v show ?thesis by (auto simp: idle_def dest: interferesD)
  next
    case 2
    with s v w show ?thesis by (auto simp: idle_def dest!: interferesD)
  next
    case 3
    then have "take n [''WATCH'' # ks, [''GET'', k]] = [''WATCH'' # ks, [''GET'', k]]" by simp
    with s obtain u1 u2 where u: "interferes v u1"
        "interferes (fst (redis_step u1 (''WATCH'' # ks))) u2"
        "interferes (fst (redis_step u2 [''GET'', k])) w" by auto
    have "queue u1 = None \<and> journal u1 = journal v" using u(1) v by (auto simp: idle_def dest: interferesD)
    with w u(2) have "queue u2 = None \<and> journal u2 = journal v" by (auto dest!: interferesD)
    with g u(3) show ?thesis by (auto dest!: interferesD)
  qed
qed

end

section \<open>The publishing transactions\<close>

definition item_ok :: "queue_item \<Rightarrow> bool" where
  "item_ok item \<longleftrightarrow> (case item of Inl _ \<Rightarrow> True | Inr p \<Rightarrow> 2 \<le> length (fst p))"

lemma item_ok_simps [simp]:
  "item_ok (Inr (a, w)) \<longleftrightarrow> 2 \<le> length a"
  "(\<And>b. item_ok (f b)) \<Longrightarrow> item_ok (rbind m f)"
  by (simp add: item_ok_def) (cases m; simp add: item_ok_def)

context redis_client begin

lemma triple_unwatch:
  "triple (\<lambda>v. queue v = None \<and> journal v = j) (exec_command exec [''UNWATCH''])
     (\<lambda>_ v. journal v = j) (\<lambda>_ v. journal v = j)"
proof (rule triple_conseq)
  show "triple (\<lambda>v. queue v = None \<and> journal v = j) (exec_command exec [''UNWATCH''])
     (\<lambda>_ v. queue v = None \<and> journal v = j) (\<lambda>_ v. queue v = None \<and> journal v = j)"
    by (rule triple_command) (auto simp: step_unwatch dest: interferesD)
qed auto

lemma triple_preflight:
  assumes "state_revision_key env \<in> set ks"
  shows "triple (\<lambda>v. idle v \<and> journal v = j) (watch_preflight env exec ks e)
    (\<lambda>_. watching env e j) (\<lambda>_ v. journal v = j)"
  unfolding watch_preflight_def
proof (rule triple_sbind)
  show "triple (\<lambda>v. idle v \<and> journal v = j) (exec [''WATCH'' # ks, [''GET'', state_revision_key env]])
     (\<lambda>rs v. \<exists>g. rs = [Simple ''OK'', g] \<and> queue v = None \<and> journal v = j \<and>
        (\<forall>e. parse_state_revision_response g = Inr e \<longrightarrow> watching env e j v)) (\<lambda>_ v. journal v = j)"
    using served_preflight[OF _ _ _ assms] served_preflight_prefix
    by (intro triple_exec) (blast, metis)
next
  fix rs
  show "triple (\<lambda>v. \<exists>g. rs = [Simple ''OK'', g] \<and> queue v = None \<and> journal v = j \<and>
      (\<forall>e. parse_state_revision_response g = Inr e \<longrightarrow> watching env e j v))
    (case rs of [watch_reply, revision] \<Rightarrow>
        if watch_reply \<noteq> Simple ''OK'' then sfail (RProtocol ''WATCH did not return OK'')
        else sbind (slift (parse_state_revision_response revision)) (\<lambda>actual.
          if actual \<noteq> e then
            (\<lambda>c. (Inl (RConflict e actual), snd (exec_command exec [''UNWATCH''] c)))
          else sret ())
     | _ \<Rightarrow> sfail (RProtocol ''WATCH preflight returned an unexpected response count''))
    (\<lambda>_. watching env e j) (\<lambda>_ v. journal v = j)"
    (is "triple ?P ?m ?Q ?R")
  proof (cases "\<exists>g. rs = [Simple ''OK'', g]")
    case False
    then show ?thesis by (auto simp: triple_def)
  next
    case True
    then obtain g where rs: "rs = [Simple ''OK'', g]" by blast
    show ?thesis
    proof (cases "parse_state_revision_response g")
      case (Inl x)
      then show ?thesis by (auto simp: rs triple_def sbind_def slift_def)
    next
      case (Inr a)
      have u: "journal (view (snd (exec_command exec [''UNWATCH''] c))) = j"
        if "synced c" "queue (view c) = None" "journal (view c) = j" for c
        by (rule triple_snd[OF triple_unwatch]) (use that in auto)
      have m: "?m = (\<lambda>c. if a \<noteq> e then (Inl (RConflict e a), snd (exec_command exec [''UNWATCH''] c))
          else (Inr (), c))"
        by (rule ext) (simp add: rs Inr sbind_def slift_def sret_def)
      show ?thesis
        unfolding m by (rule tripleI) (auto simp: Inr rs u split: if_splits)
    qed
  qed
qed

lemma triple_smembers:
  "triple (watching env e j) (smembers exec k) (\<lambda>_. watching env e j) (failed_outcome env e j Qs)"
  unfolding smembers_def
  by (rule triple_sbind, rule triple_read)
    (auto intro: watching_interferes watching_failed dest: watching_queue)

lemma triple_old_keys:
  "triple (watching env e j) (old_entity_keys env exec found ws) (\<lambda>_. watching env e j)
     (failed_outcome env e j Qs)"
proof (induction ws arbitrary: found)
  case Nil
  then show ?case by auto
next
  case (Cons w ws)
  show ?case
    unfolding old_entity_keys.simps
  proof (rule triple_sbind[OF triple_smembers])
    fix keys
    show "triple (watching env e j)
      (if MAX_NATIVE_ENTITIES < length keys \<or> MAX_NATIVE_ENTITIES < length found + length keys then
         sfail (RProtocol ''native entity index exceeds the configured count limit'')
       else sbind (slift (rmapM (into_bulk ''SMEMBERS'') keys)) (\<lambda>ks.
         old_entity_keys env exec
           (found @ concat (map (\<lambda>k. case k of None \<Rightarrow> [] | Some b \<Rightarrow> [b]) ks)) ws))
      (\<lambda>_. watching env e j) (failed_outcome env e j Qs)"
      by (auto intro: watching_failed triple_sbind[OF triple_slift Cons.IH])
  qed
qed

lemma triple_multi:
  "triple (watching env e j) (exec_command exec [''MULTI'']) (\<lambda>_. queueing env e j [])
     (failed_outcome env e j Qs)"
  by (rule triple_command)
    (auto intro: watching_interferes queueing_interferes watching_multi watching_failed queueing_failed)

lemma triple_queue_command:
  assumes "args \<noteq> [''EXEC'']"
  shows "triple (queueing env e j p) (queue_transaction_command exec args what)
    (\<lambda>_. queueing env e j (p @ [args])) (failed_outcome env e j Qs)"
  unfolding queue_transaction_command_def
proof (rule triple_sbind)
  show "triple (queueing env e j p) (exec_command exec args) (\<lambda>_. queueing env e j (p @ [args]))
      (failed_outcome env e j Qs)"
    by (rule triple_command)
      (use assms in \<open>auto intro: queueing_interferes queueing_failed simp: queueing_step\<close>)
qed (auto intro: queueing_failed)

text \<open>Items never queue \<open>EXEC\<close>: each has at least two arguments.\<close>

lemma triple_queue_items:
  assumes "\<forall>item\<in>set items. item_ok item"
  shows "triple (queueing env e j p) (queue_items exec items)
    (\<lambda>_ v. \<exists>args. rmapM (\<lambda>item. item) items = Inr args \<and> queueing env e j (p @ map fst args) v)
    (failed_outcome env e j Qs)"
  using assms
proof (induction items arbitrary: p)
  case Nil
  then show ?case by (auto simp: queue_items_def)
next
  case (Cons item items)
  show ?case
  proof (cases item)
    case (Inl x)
    then show ?thesis
      by (auto simp: queue_items_def triple_def sbind_def slift_def intro: queueing_failed)
  next
    case (Inr aw)
    obtain a w where aw: "aw = (a, w)" by (cases aw)
    have "a \<noteq> [''EXEC'']" using Cons.prems Inr aw by (auto simp: item_ok_def)
    then have "triple (queueing env e j p)
        (sbind (queue_transaction_command exec a w) (\<lambda>_. queue_items exec items))
        (\<lambda>_ v. \<exists>args. rmapM (\<lambda>item. item) items = Inr args \<and>
          queueing env e j ((p @ [a]) @ map fst args) v) (failed_outcome env e j Qs)"
      using Cons.prems by (intro triple_sbind[OF triple_queue_command Cons.IH]) auto
    moreover have "queue_items exec (item # items) =
        sbind (queue_transaction_command exec a w) (\<lambda>_. queue_items exec items)"
      by (rule ext) (auto simp: queue_items_def Inr aw sbind_def slift_def split: prod.splits sum.splits)
    ultimately show ?thesis
      by (auto simp: Inr aw elim!: triple_conseq)
  qed
qed

lemma triple_exec_command:
  assumes "Qs q"
  shows "triple (queueing env e j q) (exec_command exec [''EXEC'']) (\<lambda>r. exec_outcome env e j q r)
     (failed_outcome env e j Qs)"
  by (rule triple_command)
    (auto intro: queueing_interferes queueing_failed exec_outcome_interferes exec_outcome_failed
        queueing_exec assms)

lemma triple_revision:
  "triple (\<lambda>v. queue v = None \<and> journal v = j) (state_revision env exec)
     (\<lambda>_ v. journal v = j) (\<lambda>_ v. journal v = j)"
proof (rule triple_conseq)
  show "triple (\<lambda>v. queue v = None \<and> journal v = j) (state_revision env exec)
     (\<lambda>_ v. queue v = None \<and> journal v = j) (\<lambda>_ v. queue v = None \<and> journal v = j)"
    unfolding state_revision_def
    by (rule triple_sbind, rule triple_read) (auto dest: interferesD)
qed auto

lemma triple_exec_values:
  assumes "Qs q"
  shows "triple (exec_outcome env e j q r) (exec_values env exec e r)
     (\<lambda>vs v. idle v \<and> (\<exists>ks. vs = snd (apply_commands ks q) \<and> revision_in env ks = Inr e \<and>
        journal v = j @ [\<lparr>je_before = ks, je_commands = q, je_replies = snd (apply_commands ks q)\<rparr>]))
     (failed_outcome env e j Qs)" (is "triple _ _ ?Q _")
proof (cases "r = Array None")
  case True
  have m: "exec_values env exec e r c = (Inl (RConflict e (case fst (state_revision env exec c) of
      Inl _ \<Rightarrow> e | Inr actual \<Rightarrow> actual)), snd (state_revision env exec c))" for c
    by (auto simp: True exec_values_def split: prod.splits sum.splits)
  have "journal (view (snd (state_revision env exec c))) = j"
    if "synced c" "queue (view c) = None" "journal (view c) = j" for c
    by (rule triple_snd[OF triple_revision]) (use that in auto)
  then show ?thesis
    by (auto simp: m[unfolded True] True triple_def exec_outcome_def failed_outcome_def idle_def)
next
  case False
  then show ?thesis
    by (auto simp: triple_def exec_values_def exec_outcome_def sret_def sfail_def
        split: resp.splits option.splits)

qed

end

section \<open>The revision a committed publish returns\<close>

lemma parse_unsigned_dec_int: "parse_unsigned mx (dec_int i) = Some e \<Longrightarrow> i = int e"
proof (cases "i < 0")
  case True
  then show "parse_unsigned mx (dec_int i) = Some e \<Longrightarrow> i = int e"
    by (simp add: dec_int_def parse_unsigned_def Let_def)
next
  case False
  then show "parse_unsigned mx (dec_int i) = Some e \<Longrightarrow> i = int e"
    using parse_unsigned_dec_nat[of "nat i" "nat i"] parse_digits_dec_nat[of "nat i"] dec_nat_hd[of "nat i"]
    by (auto simp: dec_int_def parse_unsigned_def Let_def split: if_splits option.splits)
qed

lemma incr_revision:
  assumes "revision_in env ks = Inr e"
    and "into_integer what (snd (redis_incr ks (state_revision_key env))) = Inr i"
  shows "i = int e + 1"
  using assms
  by (auto simp: revision_in_def apply_get parse_state_revision_response_def redis_incr_def wrongtype_def
      split: option.splits rvalue.splits if_splits dest: parse_unsigned_dec_int)

lemma apply_set: "apply_command ks [''SET'', k, b] = (ks(k \<mapsto> RStr b), Simple ''OK'')"
  by (simp add: apply_command_def)

lemma apply_incr: "apply_command ks [''INCR'', k] = redis_incr ks k"
  by (simp add: apply_command_def)

lemma transaction_revision_incr:
  assumes "revision_in env ks = Inr e" "k \<noteq> state_revision_key env"
    and "transaction_revision (CSuccess w # CRevision # cs)
      (snd (apply_commands ks ([''SET'', k, b] # [''INCR'', state_revision_key env] # q))) = Inr n"
  shows "n = e + 1"
proof -
  let ?ks = "ks(k \<mapsto> RStr b)"
  have "revision_in env ?ks = Inr e"
    using assms(1,2) revision_in_cong[of ?ks env ks] by simp
  moreover obtain i where "into_integer ''INCR'' (snd (redis_incr ?ks (state_revision_key env))) = Inr i"
      "n = nat i" "0 \<le> i"
    using assms(3)
    by (auto simp: transaction_revision_def rbind_Inr_iff apply_set apply_incr run_check_def
        split: if_splits prod.splits)
  ultimately show ?thesis using incr_revision[of env ?ks e "''INCR''" i] by simp
qed

lemma keys_distinct [simp]:
  "state_snapshot_key env \<noteq> state_revision_key env" "native_schema_key env \<noteq> state_revision_key env"
  by (simp_all add: state_snapshot_key_def state_revision_key_def native_schema_key_def key_def)

lemma item_ok_entity [simp]: "item \<in> set (entity_items env ws x) \<Longrightarrow> item_ok item"
  by (auto simp: entity_items_def)

lemma item_ok_delta [simp]: "item \<in> set (delta_items env d) \<Longrightarrow> item_ok item"
  by (auto simp: delta_items_def Let_def)

lemma state_items_ok: "\<forall>item\<in>set (state_items env s ps ops old t n). item_ok item"
  by (auto simp: state_items_def incr_item_def schema_item_def ledger_item_def marker_item_def
      manifest_item_def)

lemma deltas_items_ok: "\<forall>item\<in>set (deltas_items env ds ops t n). item_ok item"
  by (auto simp: deltas_items_def incr_item_def schema_item_def ledger_item_def marker_item_def
      manifest_item_def)

lemma item_not_exec:
  "rmapM (\<lambda>item. item) items = Inr args \<Longrightarrow> \<forall>item\<in>set items. item_ok item \<Longrightarrow>
     \<forall>a\<in>set (map fst args). a \<noteq> [''EXEC'']"
proof (induction items arbitrary: args)
  case (Cons item items)
  then show ?case
    by (cases item) (fastforce simp: rbind_Inr_iff item_ok_def)+
qed simp

lemma rmapM_error: "rmapM f xs = Inl x \<Longrightarrow> \<exists>a\<in>set xs. f a = Inl x"
  by (induction xs) (auto simp: rbind_Inl_iff)

lemma accessor_errors:
  "into_success w r = Inl x \<Longrightarrow> not_conflict x" "into_integer_or_success w r = Inl x \<Longrightarrow> not_conflict x"
  "into_integer w r = Inl x \<Longrightarrow> not_conflict x"
  by (cases r; auto simp: not_conflict_def)+

lemma run_check_error: "run_check k r = Inl x \<Longrightarrow> not_conflict x"
  by (auto simp: run_check_def rbind_Inl_iff split: check.splits dest: accessor_errors)

lemma transaction_revision_error: "transaction_revision checks vs = Inl x \<Longrightarrow> not_conflict x"
proof -
  have p: "not_conflict (RProtocol m)" for m by (simp add: not_conflict_def)
  have "rmapM (\<lambda>(k, r). run_check k r) zs = Inl x \<Longrightarrow> not_conflict x" for zs
    by (auto dest!: rmapM_error run_check_error)
  then have m: "rbind (rmapM (\<lambda>(k, r). run_check k r) zs) f = Inl x \<Longrightarrow>
      (\<And>rs. f rs = Inl x \<Longrightarrow> not_conflict x) \<Longrightarrow> not_conflict x" for zs and f :: "_ \<Rightarrow> _ + nat"
    by (auto simp: rbind_Inl_iff)
  assume "transaction_revision checks vs = Inl x"
  then show "not_conflict x"
    unfolding transaction_revision_def
    by (split if_split_asm) (use p in \<open>auto elim!: m split: list.splits if_splits\<close>)
qed

section \<open>Admissible queues\<close>

text \<open>The writes a publish may queue; the old entity keys are those the server listed.\<close>

definition state_queue ::
  "'p env \<Rightarrow> nat \<Rightarrow> string \<Rightarrow> 'p redis_native_projection list \<Rightarrow> redis_operation list
     \<Rightarrow> string list list \<Rightarrow> bool" where
  "state_queue env e snapshot ps ops q \<longleftrightarrow>
     (\<exists>tot old args. validate_state env snapshot ps ops = Inr tot \<and>
        rmapM (\<lambda>item. item) (state_items env snapshot ps ops old tot (sat_add e 1)) = Inr args \<and>
        q = map fst args)"

definition deltas_queue ::
  "'p env \<Rightarrow> nat \<Rightarrow> 'p redis_native_delta list \<Rightarrow> redis_operation list \<Rightarrow> string list list \<Rightarrow> bool" where
  "deltas_queue env e ds ops q \<longleftrightarrow>
     (\<exists>tot args. validate_native_deltas env ds ops = Inr tot \<and>
        rmapM (\<lambda>item. item) (deltas_items env ds ops tot (sat_add e 1)) = Inr args \<and>
        q = map fst args)"

definition commits :: "'p env \<Rightarrow> nat \<Rightarrow> check list \<Rightarrow> string list list \<Rightarrow> bool" where
  "commits env e checks q \<longleftrightarrow>
     (\<forall>ks n. revision_in env ks = Inr e \<longrightarrow>
        transaction_revision checks (snd (apply_commands ks q)) = Inr n \<longrightarrow> n = e + 1)"

lemma commits_state:
  assumes "rmapM (\<lambda>item. item) (state_items env snapshot ps ops old tot nx) = Inr args"
  shows "commits env e (state_checks ps ops old) (map fst args)"
proof -
  obtain q where "map fst args =
      [''SET'', state_snapshot_key env, snapshot] # [''INCR'', state_revision_key env] # q"
    using assms by (auto simp: state_items_def incr_item_def rbind_Inr_iff)
  then show ?thesis
    unfolding commits_def state_checks_def
    using transaction_revision_incr[of env _ e "state_snapshot_key env"] by auto
qed

lemma commits_deltas:
  assumes "rmapM (\<lambda>item. item) (deltas_items env ds ops tot nx) = Inr args"
  shows "commits env e (deltas_checks ds ops) (map fst args)"
proof -
  obtain q b where "map fst args =
      [''SET'', native_schema_key env, b] # [''INCR'', state_revision_key env] # q"
    using assms by (auto simp: deltas_items_def incr_item_def schema_item_def rbind_Inr_iff)
  then show ?thesis
    unfolding commits_def deltas_checks_def
    using transaction_revision_incr[of env _ e "native_schema_key env"] by auto
qed

context redis_client begin

lemma triple_tail:
  assumes "Qs q" "commits env e checks q"
  shows "triple (exec_outcome env e j q r)
    (sbind (exec_values env exec e r) (\<lambda>values. slift (transaction_revision checks values)))
    (\<lambda>n v. n = e + 1 \<and> idle v \<and> applied_once env e j q v) (failed_outcome env e j Qs)"
proof (rule triple_sbind[OF triple_exec_values[where Qs = Qs, OF assms(1)]], rule triple_slift)
  fix vs n and v :: redis_view
  assume "idle v \<and> (\<exists>ks. vs = snd (apply_commands ks q) \<and> revision_in env ks = Inr e \<and>
    journal v = j @ [\<lparr>je_before = ks, je_commands = q, je_replies = snd (apply_commands ks q)\<rparr>])"
    and "transaction_revision checks vs = Inr n"
  with assms(2) show "n = e + 1 \<and> idle v \<and> applied_once env e j q v"
    by (auto simp: commits_def applied_once_def)
next
  fix vs x and v :: redis_view
  assume "idle v \<and> (\<exists>ks. vs = snd (apply_commands ks q) \<and> revision_in env ks = Inr e \<and>
    journal v = j @ [\<lparr>je_before = ks, je_commands = q, je_replies = snd (apply_commands ks q)\<rparr>])"
    and "transaction_revision checks vs = Inl x"
  with assms(1) show "failed_outcome env e j Qs x v"
    by (auto simp: failed_outcome_def applied_once_def dest: transaction_revision_error)
qed

lemma triple_queue_exec:
  assumes "\<forall>item\<in>set items. item_ok item"
    and "\<And>args. rmapM (\<lambda>item. item) items = Inr args \<Longrightarrow> Qs (map fst args) \<and> commits env e checks (map fst args)"
  shows "triple (queueing env e j [])
    (sbind (queue_items exec items) (\<lambda>_.
     sbind (exec_command exec [''EXEC'']) (\<lambda>result.
     sbind (exec_values env exec e result) (\<lambda>values.
     slift (transaction_revision checks values)))))
    (\<lambda>n v. n = e + 1 \<and> idle v \<and> (\<exists>q. Qs q \<and> applied_once env e j q v)) (failed_outcome env e j Qs)"
proof (cases "rmapM (\<lambda>item. item) items")
  case (Inl x)
  show ?thesis
    by (rule triple_sbind[OF triple_queue_items[OF assms(1)]]) (auto simp: Inl triple_def)
next
  case (Inr args)
  then have q: "Qs (map fst args)" "commits env e checks (map fst args)" using assms(2) by auto
  show ?thesis
  proof (rule triple_sbind)
    show "triple (queueing env e j []) (queue_items exec items) (\<lambda>_. queueing env e j (map fst args))
        (failed_outcome env e j Qs)"
      by (rule triple_conseq[OF triple_queue_items[OF assms(1)]]) (auto simp: Inr)
    show "triple (queueing env e j (map fst args))
        (sbind (exec_command exec [''EXEC'']) (\<lambda>result.
         sbind (exec_values env exec e result) (\<lambda>values.
         slift (transaction_revision checks values))))
        (\<lambda>n v. n = e + 1 \<and> idle v \<and> (\<exists>q. Qs q \<and> applied_once env e j q v)) (failed_outcome env e j Qs)"
      by (rule triple_sbind[OF triple_exec_command[where Qs = Qs, OF q(1)]],
          rule triple_conseq[OF triple_tail[where Qs = Qs, OF q]]) (use q in auto)
  qed
qed

lemma triple_publish_state:
  "triple (\<lambda>v. idle v \<and> journal v = j) (publish_state_with_projections env exec e snapshot ps ops)
     (\<lambda>n v. n = e + 1 \<and> idle v \<and> (\<exists>q. state_queue env e snapshot ps ops q \<and> applied_once env e j q v))
     (failed_outcome env e j (state_queue env e snapshot ps ops))"
proof (cases "validate_state env snapshot ps ops")
  case (Inl x)
  then show ?thesis
    unfolding publish_state_with_projections_def by (auto simp: failed_outcome_def)
next
  case (Inr tot)
  let ?Q = "\<lambda>n v. n = e + 1 \<and> idle v \<and> (\<exists>q. state_queue env e snapshot ps ops q \<and> applied_once env e j q v)"
  let ?R = "failed_outcome env e j (state_queue env e snapshot ps ops)"
  have run: "triple (queueing env e j [])
     (if multi \<noteq> Simple ''OK'' then sfail (RProtocol ''MULTI did not return OK'')
      else sbind (queue_items exec (state_items env snapshot ps ops old tot (sat_add e 1))) (\<lambda>_.
        sbind (exec_command exec [''EXEC'']) (\<lambda>result.
        sbind (exec_values env exec e result) (\<lambda>values.
        slift (transaction_revision (state_checks ps ops old) values))))) ?Q ?R" for multi old
  proof (cases "multi = Simple ''OK''")
    case True
    have "state_queue env e snapshot ps ops (map fst args)"
      if "rmapM (\<lambda>item. item) (state_items env snapshot ps ops old tot (sat_add e 1)) = Inr args" for args
      using that Inr by (auto simp: state_queue_def)
    with commits_state show ?thesis
      unfolding True by (subst if_not_P) (blast intro!: triple_queue_exec state_items_ok)+
  qed (auto intro: queueing_failed)
  show ?thesis
    unfolding publish_state_with_projections_def Inr sbind_slift
    by (rule triple_sbind[OF _ triple_sbind[OF triple_old_keys triple_sbind[OF triple_multi run]]],
        rule triple_conseq[OF triple_preflight])
      (auto simp: failed_outcome_def)
qed

end

context redis_client begin

lemma triple_batched:
  assumes "Qs q" "\<forall>a\<in>set q. a \<noteq> [''EXEC'']"
  shows "triple (watching env e j) (execute_batched_transaction exec q)
    (\<lambda>r. exec_outcome env e j q r) (failed_outcome env e j Qs)"
  unfolding execute_batched_transaction_def
proof (rule triple_sbind)
  let ?cmds = "[''MULTI''] # q @ [[''EXEC'']]"
  have full: "\<exists>r. rs = Simple ''OK'' # map (\<lambda>_. Simple ''QUEUED'') q @ [r] \<and> exec_outcome env e j q r w"
    if v: "watching env e j v" and s: "served ?cmds v rs w" for v rs w
  proof -
    obtain u rs1 where u: "interferes v u" "rs = snd (redis_step u [''MULTI'']) # rs1"
        "served (q @ [[''EXEC'']]) (fst (redis_step u [''MULTI''])) rs1 w" using s by auto
    then have wu: "watching env e j u" using v by (auto intro: watching_interferes)
    obtain rs2 rs3 x where x: "rs1 = rs2 @ rs3" "served q (fst (redis_step u [''MULTI''])) rs2 x"
        "served [[''EXEC'']] x rs3 w" using u(3) by (auto simp: served_append)
    have "queueing env e j q x" "rs2 = map (\<lambda>_. Simple ''QUEUED'') q"
      using served_queueing[OF x(2) watching_multi[OF wu] assms(2)] by auto
    moreover obtain y where y: "interferes x y" "rs3 = [snd (redis_step y [''EXEC''])]"
        "interferes (fst (redis_step y [''EXEC''])) w" using x(3) by auto
    ultimately show ?thesis
      using u(2) x(1) wu queueing_exec[of env e j q y]
      by (auto simp: step_multi watching_queue intro: queueing_interferes exec_outcome_interferes)
  qed
  have part: "failed_outcome env e j Qs x w"
    if v: "watching env e j v" and n: "n \<le> length ?cmds" "not_conflict x"
      and s: "served (take n ?cmds) v rs w" for v n rs w x
  proof (cases "n = length ?cmds")
    case True
    with s have "served ?cmds v rs w" by simp
    with full[OF v this] n(2) assms(1) show ?thesis by (auto intro: exec_outcome_failed)
  next
    case False
    show ?thesis
    proof (cases n)
      case 0
      with s v show ?thesis by (auto intro: watching_failed watching_interferes)
    next
      case (Suc m)
      with False n have t: "take n ?cmds = [''MULTI''] # take m q" by auto
      obtain u rs1 where u: "interferes v u" "served (take m q) (fst (redis_step u [''MULTI''])) rs1 w"
        using s unfolding t by auto
      then have "queueing env e j [] (fst (redis_step u [''MULTI'']))"
        using v by (auto intro: watching_multi watching_interferes)
      with served_queueing[OF u(2) this] assms(2) show ?thesis
        by (auto intro: queueing_failed dest: in_set_takeD)
    qed
  qed
  show "triple (watching env e j) (exec ?cmds)
     (\<lambda>rs v. \<exists>r. rs = Simple ''OK'' # map (\<lambda>_. Simple ''QUEUED'') q @ [r] \<and> exec_outcome env e j q r v)
     (failed_outcome env e j Qs)"
    using full part by (intro triple_exec) blast+
  fix rs
  show "triple (\<lambda>v. \<exists>r. rs = Simple ''OK'' # map (\<lambda>_. Simple ''QUEUED'') q @ [r] \<and> exec_outcome env e j q r v)
    (if length rs < 2 then
       sfail (RProtocol ''batched Redis transaction returned too few responses'')
     else sbind (slift (into_success ''MULTI'' (hd rs))) (\<lambda>_.
       if \<exists>r\<in>set (butlast (tl rs)). r \<noteq> Simple ''QUEUED'' then
         sfail (RProtocol ''Redis transaction command was not queued'')
       else case last rs of Error message \<Rightarrow> sfail (RProtocol message) | result \<Rightarrow> sret result))
    (\<lambda>r. exec_outcome env e j q r) (failed_outcome env e j Qs)"
    (is "triple ?P ?m ?Q ?R")
  proof (cases "\<exists>r. rs = Simple ''OK'' # map (\<lambda>_. Simple ''QUEUED'') q @ [r]")
    case False
    then show ?thesis by (auto simp: triple_def)
  next
    case True
    then obtain r where rs: "rs = Simple ''OK'' # map (\<lambda>_. Simple ''QUEUED'') q @ [r]" by blast
    have m: "?m = (case r of Error message \<Rightarrow> sfail (RProtocol message) | result \<Rightarrow> sret result)"
      by (simp add: rs butlast_append)
    have P: "?P = exec_outcome env e j q r" by (auto simp: rs)
    show ?thesis
      unfolding m P
      by (cases r) (auto simp: exec_outcome_def)
  qed
qed

lemma triple_publish_deltas:
  "triple (\<lambda>v. idle v \<and> journal v = j) (publish_native_deltas env exec e ds ops)
     (\<lambda>n v. n = e + 1 \<and> idle v \<and> (\<exists>q. deltas_queue env e ds ops q \<and> applied_once env e j q v))
     (failed_outcome env e j (deltas_queue env e ds ops))"
proof (cases "validate_native_deltas env ds ops")
  case (Inl x)
  then show ?thesis
    unfolding publish_native_deltas_def by (auto simp: failed_outcome_def)
next
  case (Inr tot)
  let ?Q = "\<lambda>n v. n = e + 1 \<and> idle v \<and> (\<exists>q. deltas_queue env e ds ops q \<and> applied_once env e j q v)"
  let ?R = "failed_outcome env e j (deltas_queue env e ds ops)"
  let ?items = "rmapM (\<lambda>item. item) (deltas_items env ds ops tot (sat_add e 1))"
  have run: "triple (watching env e j)
     (sbind (slift ?items) (\<lambda>queued.
      sbind (execute_batched_transaction exec (map fst queued)) (\<lambda>result.
      sbind (exec_values env exec e result) (\<lambda>values.
      slift (transaction_revision (deltas_checks ds ops) values))))) ?Q ?R"
  proof (cases ?items)
    case (Inl x)
    then show ?thesis by (auto intro: watching_failed)
  next
    case items: (Inr args)
    have q: "deltas_queue env e ds ops (map fst args)"
      using Inr items by (auto simp: deltas_queue_def)
    have x: "\<forall>a\<in>set (map fst args). a \<noteq> [''EXEC'']"
      by (rule item_not_exec[OF items deltas_items_ok])
    show ?thesis
      unfolding items sbind_slift
      by (rule triple_sbind[OF triple_batched[where Qs = "deltas_queue env e ds ops", OF q x]],
          rule triple_conseq[OF triple_tail[where Qs = "deltas_queue env e ds ops",
            OF q commits_deltas[OF items]]]) (use q in auto)
  qed
  show ?thesis
    unfolding publish_native_deltas_def Inr sbind_slift
    by (rule triple_sbind[OF _ run], rule triple_conseq[OF triple_preflight])
      (auto simp: failed_outcome_def)
qed

end

section \<open>A small server to publish to\<close>

definition example_view :: redis_view where
  "example_view = \<lparr>keyspace = Map.empty, watched = [], dirty = False, queue = None, journal = []\<rparr>"

definition example_env :: "unit env" where
  "example_env = \<lparr>env_namespace = ''n'', digest = (\<lambda>s. s),
     entity_json = (\<lambda>e. Inr (en_kind e @ en_id e)), entity_of_json = (\<lambda>_. Inl (RJson [])),
     ledger_json = (\<lambda>l. Inr (ol_status l)), ledger_of_json = (\<lambda>_. Inl (RJson [])),
     manifest_json = (\<lambda>m. Inr (dec_nat (nm_revision m))), manifest_of_json = (\<lambda>_. Inl (RJson []))\<rparr>"

text \<open>The script lets another client raise the revision before the given command.\<close>

definition example_conn :: "nat option \<Rightarrow> server redis_connection" where
  "example_conn raised = \<lparr>srv = (example_view, case raised of None \<Rightarrow> []
       | Some n \<Rightarrow> replicate n (\<lambda>ks. ks) @ [\<lambda>ks. ks(''n:state:revision'' \<mapsto> RStr ''7'')]),
     inbuf = [], metrics = default_metrics\<rparr>"

definition example_operation :: redis_operation where
  "example_operation = \<lparr>op_idempotency_key = replicate 64 CHR ''a'', op_name = ''remember'',
     op_workspace = ''w''\<rparr>"

definition example_entity :: "unit redis_entity_record" where
  "example_entity = \<lparr>en_kind = ''fact'', en_id = ''1'', en_payload = ()\<rparr>"

definition example_projection :: "unit redis_native_projection" where
  "example_projection = \<lparr>np_workspace = ''w'', np_entities = [example_entity]\<rparr>"

definition example_delta :: "unit redis_native_delta" where
  "example_delta = \<lparr>nd_workspace = ''w'', nd_upserts = [example_entity],
     nd_deletes = [\<lparr>nk_kind = ''run'', nk_id = ''2''\<rparr>], nd_entity_count = 1\<rparr>"

lemma example_conn_ready:
  "in_step (example_conn r)" "idle (fst (srv (example_conn r)))"
  "journal (fst (srv (example_conn r))) = []"
  by (simp_all add: example_conn_def in_step_def idle_def example_view_def default_metrics_def)

section \<open>Properties\<close>

text \<open>
  C10. Publishing the state is atomic. Against any server that keeps the contract, and whatever
  other clients do, a publish that returns a revision has applied all its queued writes in
  one step, to a keyspace that held the expected revision at that instant, and returns the
  successor of that revision; nothing else was written, and the connection is out of the
  transaction with nothing watched.
\<close>

theorem publish_state_committed:
  assumes "redis_client exec view synced" "synced c" "idle (view c)"
    and "publish_state_with_projections env exec e snapshot ps ops c = (Inr n, c')"
  shows "n = e + 1 \<and> idle (view c') \<and>
    (\<exists>q. state_queue env e snapshot ps ops q \<and> applied_once env e (journal (view c)) q (view c'))"
  using redis_client.triple_Inr[OF assms(1) redis_client.triple_publish_state[OF assms(1)] assms(2) _ assms(4)]
    assms(3) by auto

theorem publish_state_committed_witness:
  "\<exists>c'. publish_state_with_projections example_env (commands ref_peer) 0 ''s''
       [example_projection] [example_operation] (example_conn None) = (Inr 1, c') \<and>
     (\<exists>q. applied_once example_env 0 [] q (fst (srv c')))"
proof -
  have "fst (publish_state_with_projections example_env (commands ref_peer) 0 ''s''
       [example_projection] [example_operation] (example_conn None)) = Inr 1"
    by code_simp
  then obtain c' where c': "publish_state_with_projections example_env (commands ref_peer) 0 ''s''
       [example_projection] [example_operation] (example_conn None) = (Inr 1, c')"
    by (cases "publish_state_with_projections example_env (commands ref_peer) 0 ''s''
       [example_projection] [example_operation] (example_conn None)") auto
  from publish_state_committed[OF wire.redis_client_axioms example_conn_ready(1,2) c'] c'
  show ?thesis by (auto simp: example_conn_ready not_conflict_def)
qed

text \<open>
  C11. A failed publish never half-applies. Whatever error a publish of the state returns, either this
  connection wrote nothing or its whole queue was applied at the expected revision; after a
  revision conflict it wrote nothing.
\<close>

theorem publish_state_failed:
  assumes "redis_client exec view synced" "synced c" "idle (view c)"
    and "publish_state_with_projections env exec e snapshot ps ops c = (Inl x, c')"
  shows "journal (view c') = journal (view c) \<or>
    (not_conflict x \<and>
     (\<exists>q. state_queue env e snapshot ps ops q \<and> applied_once env e (journal (view c)) q (view c')))"
  using redis_client.triple_Inl[OF assms(1) redis_client.triple_publish_state[OF assms(1)] assms(2) _ assms(4)]
    assms(3) by (auto simp: failed_outcome_def)

theorem publish_state_failed_witness:
  "\<exists>c'. publish_state_with_projections example_env (commands ref_peer) 0 ''s''
       [example_projection] [example_operation] (example_conn (Some 4)) = (Inl (RConflict 0 7), c') \<and>
     journal (fst (srv c')) = []"
proof -
  have "fst (publish_state_with_projections example_env (commands ref_peer) 0 ''s''
       [example_projection] [example_operation] (example_conn (Some 4))) = Inl (RConflict 0 7)"
    by code_simp
  then obtain c' where c': "publish_state_with_projections example_env (commands ref_peer) 0 ''s''
       [example_projection] [example_operation] (example_conn (Some 4)) = (Inl (RConflict 0 7), c')"
    by (cases "publish_state_with_projections example_env (commands ref_peer) 0 ''s''
       [example_projection] [example_operation] (example_conn (Some 4))") auto
  from publish_state_failed[OF wire.redis_client_axioms example_conn_ready(1,2) c'] c'
  show ?thesis by (auto simp: example_conn_ready not_conflict_def)
qed

text \<open>
  C12. Publishing deltas is atomic. The same holds of the pointwise publish, which sends its whole
  transaction in one batch: a returned revision is the successor of the expected one and
  all queued point updates, ledgers, markers and manifests were applied in one step at that
  revision.
\<close>

theorem publish_deltas_committed:
  assumes "redis_client exec view synced" "synced c" "idle (view c)"
    and "publish_native_deltas env exec e ds ops c = (Inr n, c')"
  shows "n = e + 1 \<and> idle (view c') \<and>
    (\<exists>q. deltas_queue env e ds ops q \<and> applied_once env e (journal (view c)) q (view c'))"
  using redis_client.triple_Inr[OF assms(1) redis_client.triple_publish_deltas[OF assms(1)] assms(2) _ assms(4)]
    assms(3) by auto

theorem publish_deltas_committed_witness:
  "\<exists>c'. publish_native_deltas example_env (commands ref_peer) 0
       [example_delta] [example_operation] (example_conn None) = (Inr 1, c') \<and>
     (\<exists>q. applied_once example_env 0 [] q (fst (srv c')))"
proof -
  have "fst (publish_native_deltas example_env (commands ref_peer) 0
       [example_delta] [example_operation] (example_conn None)) = Inr 1"
    by code_simp
  then obtain c' where c': "publish_native_deltas example_env (commands ref_peer) 0
       [example_delta] [example_operation] (example_conn None) = (Inr 1, c')"
    by (cases "publish_native_deltas example_env (commands ref_peer) 0
       [example_delta] [example_operation] (example_conn None)") auto
  from publish_deltas_committed[OF wire.redis_client_axioms example_conn_ready(1,2) c'] c'
  show ?thesis by (auto simp: example_conn_ready not_conflict_def)
qed

text \<open>
  C13. A failed delta publish never half-applies, even when the connection breaks in the middle of the
  batch; after a revision conflict nothing was written.
\<close>

theorem publish_deltas_failed:
  assumes "redis_client exec view synced" "synced c" "idle (view c)"
    and "publish_native_deltas env exec e ds ops c = (Inl x, c')"
  shows "journal (view c') = journal (view c) \<or>
    (not_conflict x \<and>
     (\<exists>q. deltas_queue env e ds ops q \<and> applied_once env e (journal (view c)) q (view c')))"
  using redis_client.triple_Inl[OF assms(1) redis_client.triple_publish_deltas[OF assms(1)] assms(2) _ assms(4)]
    assms(3) by (auto simp: failed_outcome_def)

theorem publish_deltas_failed_witness:
  "\<exists>c'. publish_native_deltas example_env (commands ref_peer) 0
       [example_delta] [example_operation] (example_conn (Some 4)) = (Inl (RConflict 0 7), c') \<and>
     journal (fst (srv c')) = []"
proof -
  have "fst (publish_native_deltas example_env (commands ref_peer) 0
       [example_delta] [example_operation] (example_conn (Some 4))) = Inl (RConflict 0 7)"
    by code_simp
  then obtain c' where c': "publish_native_deltas example_env (commands ref_peer) 0
       [example_delta] [example_operation] (example_conn (Some 4)) = (Inl (RConflict 0 7), c')"
    by (cases "publish_native_deltas example_env (commands ref_peer) 0
       [example_delta] [example_operation] (example_conn (Some 4))") auto
  from publish_deltas_failed[OF wire.redis_client_axioms example_conn_ready(1,2) c'] c'
  show ?thesis by (auto simp: example_conn_ready not_conflict_def)
qed

end
