(* ===== verification/CoordinatorInv.thy ===== *)
theory CoordinatorInv
  imports Coordinator RedisPublish
begin

text \<open>
  Invariants of the coordinator of \<open>src/backend.rs\<close>: its mode agrees with what it holds, its
  outbox stays readable whatever fails, and what this means for reads, failures, fallback and
  the watcher.
\<close>

section \<open>Invariants of the coordinator\<close>

text \<open>
  Outbox operations keep the outbox readable: when its file denotes some entries, it still
  does afterwards.
\<close>

definition outbox_step :: "event_codec \<Rightarrow> outbox \<Rightarrow> outbox \<Rightarrow> bool" where
  "outbox_step codec ob ob1 \<longleftrightarrow> ((\<exists>es. denotes codec ob es) \<longrightarrow> (\<exists>es. denotes codec ob1 es))"

lemma outbox_step_file: "ob_file ob1 = ob_file ob \<Longrightarrow> outbox_step codec ob ob1"
  using denotes_file unfolding outbox_step_def by metis

lemma pending_lines_distinct:
  "distinct (keys es) \<Longrightarrow> pending_lines codec es ls = Inr fs \<Longrightarrow> distinct (keys fs)"
proof (induction ls arbitrary: es)
  case (Cons l ls)
  from Cons.prems show ?case
    by (auto simp: rbind_Inr_iff split: if_splits intro: Cons.IH[OF _ _] apply_event_distinct)
qed simp

lemma pending_distinct: "pending codec ob = (Inr es, ob1) \<Longrightarrow> distinct (keys es)"
  using pending_lines_distinct[of "[]"]
  by (auto simp: pending_def sbind_Inr_iff slift_def split: option.splits)

context outbox_codec begin

lemma step_pending: "outbox_step codec ob (snd (pending codec ob))"
  using pending_files[of codec ob] by (cases "pending codec ob") (auto intro: outbox_step_file)

lemma step_append: "outbox_step codec ob (snd (append codec ev ob))"
  by (cases "append codec ev ob"; cases "fst (append codec ev ob)")
    (auto simp: outbox_step_def intro: append_denotes append_failed)

lemma step_append_pending: "outbox_step codec ob (snd (append_pending codec e ob))"
  by (cases "append_pending codec e ob"; cases "fst (append_pending codec e ob)")
    (auto simp: outbox_step_def intro: append_pending_denotes append_pending_failed)

lemma step_mark: "outbox_step codec ob (snd (mark_redis_committed codec k ob))"
  by (cases "mark_redis_committed codec k ob"; cases "fst (mark_redis_committed codec k ob)")
    (auto simp: outbox_step_def dest: mark_denotes intro: mark_failed)

lemma step_complete: "outbox_step codec ob (snd (complete codec k ob))"
  unfolding complete_def by (rule step_append)

lemma step_audit: "outbox_step codec ob (snd (audit codec k why ob))"
  by (cases "audit codec k why ob") (auto intro: outbox_step_file audit_file)

lemma step_reject: "outbox_step codec ob (snd (reject codec k why ob))"
  by (cases "reject codec k why ob"; cases "fst (reject codec k why ob)")
    (auto simp: outbox_step_def intro: reject_denotes reject_failed)

lemma step_compact: "distinct (keys es) \<Longrightarrow> outbox_step codec ob (snd (compact codec es ob))"
  by (cases "compact codec es ob"; cases "fst (compact codec es ob)")
    (auto simp: outbox_step_def intro: compact_denotes outbox_step_file[unfolded outbox_step_def, rule_format] dest: compact_failed)

end

text \<open>Publishing and synchronising from Redis do not touch the outbox.\<close>

lemma outbox_kept:
  "keeps (\<lambda>s. ci_outbox s = ob) (on_standby m)" "keeps (\<lambda>s. ci_outbox s = ob) (on_active n)"
  "keeps (\<lambda>s. ci_outbox s = ob) (on_redis f x k)" "keeps (\<lambda>s. ci_outbox s = ob) (with_redis l)"
  by (auto simp: keeps_def on_standby_def on_active_def on_redis_def with_redis_def
      split: prod.splits option.splits)

lemma outbox_kept_publish:
  fixes w :: "('st, 'p, 'c) world"
  shows "keeps (\<lambda>s. ci_outbox s = ob) (publish_local_deltas w ops ps)"
  unfolding keeps_def
proof (intro allI impI)
  fix s :: "('st, 'p, 'c) coordinator_inner" assume s: "ci_outbox s = ob"
  let ?m = "on_redis (\<lambda>x. x) (RProtocol ''Redis connection is not available'')
      (publish_native_deltas (w_env w) (w_exec w) (ci_revision s) (native_deltas (ci_native_cache s) ps) ops)"
  obtain r t where t: "?m s = (r, t)" by fastforce
  have "ci_outbox t = ob" by (rule keepsD[OF outbox_kept(3) s t])
  then show "ci_outbox (snd (publish_local_deltas w ops ps s)) = ob"
    by (auto simp: publish_local_deltas_def t split: sum.split)
qed

lemma outbox_kept_sync: "keeps (\<lambda>s. ci_outbox s = ob) (sync_from_redis_current w)"
  unfolding sync_from_redis_current_def by (intro keeping outbox_kept) simp_all

lemma outbox_kept_conflicts: "keeps (\<lambda>s. ci_outbox s = ob) (record_conflicts w n es)"
  unfolding record_conflicts_def by (intro keeping outbox_kept)

section \<open>Falling back\<close>

text \<open>
  What falling back makes of the state: the standby takes over the active image when that can
  be written and read back, the connection's counters are kept, and the Redis mode is left.
\<close>

definition fallback_store :: "('st, 'p, 'c) world \<Rightarrow> ('st, 'p, 'c) coordinator_inner \<Rightarrow> 'st" where
  "fallback_store w s =
     (case ci_active_store s of
        None \<Rightarrow> ci_store s
      | Some a \<Rightarrow>
          (case w_snapshot_bytes w a of
             Inl _ \<Rightarrow> ci_store s
           | Inr b \<Rightarrow> snd (w_restore_snapshot_bytes w b (ci_store s))))"

definition fallback_totals :: "('st, 'p, 'c) world \<Rightarrow> ('st, 'p, 'c) coordinator_inner \<Rightarrow> redis_metrics" where
  "fallback_totals w s =
     (case ci_redis s of
        None \<Rightarrow> ci_redis_totals s
      | Some c \<Rightarrow> add_metrics (ci_redis_totals s) (w_metrics w c))"

lemma fallback_form:
  "enter_sqlite_fallback w s =
     s\<lparr>ci_active_store := None, ci_redis := None, ci_mode := Sqlite,
       ci_store := fallback_store w s, ci_redis_totals := fallback_totals w s\<rparr>"
proof (cases "ci_active_store s")
  case None
  then show ?thesis
    by (cases "ci_redis s") (simp_all add: enter_sqlite_fallback_def fallback_store_def
        fallback_totals_def record_redis_metrics_def Let_def)
next
  case (Some a)
  then show ?thesis
    by (cases "ci_redis s"; cases "w_snapshot_bytes w a")
      (simp_all add: enter_sqlite_fallback_def fallback_store_def
        fallback_totals_def record_redis_metrics_def Let_def)
qed

text \<open>
  The contract of an invariant: which changes of the parts of the state it must survive. The
  client is the whole coordinator, verified once: first the operations that stay in one mode.
\<close>

locale coordinator_core =
  fixes P :: "('st, 'p, 'c) coordinator_inner \<Rightarrow> bool" and w :: "('st, 'p, 'c) world"
  assumes codec: "outbox_codec (w_codec w)"
    and inv_store: "P s \<Longrightarrow> P (s\<lparr>ci_store := st\<rparr>)"
    and inv_active: "P s \<Longrightarrow> ci_active_store s = Some a \<Longrightarrow> P (s\<lparr>ci_active_store := Some b\<rparr>)"
    and inv_first_active: "P s \<Longrightarrow> ci_redis s \<noteq> None \<Longrightarrow> P (s\<lparr>ci_active_store := Some b\<rparr>)"
    and inv_redis: "P s \<Longrightarrow> ci_redis s = Some c \<Longrightarrow> P (s\<lparr>ci_redis := Some d\<rparr>)"
    and inv_outbox: "P s \<Longrightarrow> outbox_step (w_codec w) (ci_outbox s) ob \<Longrightarrow> P (s\<lparr>ci_outbox := ob\<rparr>)"
    and inv_revision: "P s \<Longrightarrow> P (s\<lparr>ci_revision := n\<rparr>)"
    and inv_snapshot: "P s \<Longrightarrow> P (s\<lparr>ci_last_snapshot_revision := n\<rparr>)"
    and inv_remote: "P s \<Longrightarrow> P (s\<lparr>ci_last_remote_revision := v\<rparr>)"
    and inv_cache: "P s \<Longrightarrow> P (s\<lparr>ci_native_cache := cs\<rparr>)"
    and inv_totals: "P s \<Longrightarrow> P (s\<lparr>ci_redis_totals := m\<rparr>)"
    and inv_local: "P s \<Longrightarrow> P (s\<lparr>ci_recovery_uses_local_state := b1\<rparr>)"
    and inv_replay: "P s \<Longrightarrow> P (s\<lparr>ci_recovery_replay_committed := b1\<rparr>)"
begin

lemmas inv_fields = inv_revision inv_snapshot inv_remote inv_cache inv_totals inv_local inv_replay

sublocale outbox_codec "w_codec w" by (rule codec)

lemma keeps_outbox [keeping]:
  "(\<And>ob. outbox_step (w_codec w) ob (snd (m ob))) \<Longrightarrow> keeps P (on_outbox m)"
  by (auto simp: keeps_def on_outbox_def split: prod.splits) (metis inv_outbox snd_conv)

lemmas keeps_steps [keeping] =
  keeps_outbox[OF step_pending] keeps_outbox[OF step_append_pending] keeps_outbox[OF step_mark]
  keeps_outbox[OF step_complete] keeps_outbox[OF step_audit] keeps_outbox[OF step_reject]

lemma keeps_compact: "distinct (keys es) \<Longrightarrow> keeps P (on_outbox (compact (w_codec w) es))"
  by (intro keeping step_compact)

lemma keeps_pending_val:
  "keeps_val P (on_outbox (pending (w_codec w))) (\<lambda>es. distinct (keys es))"
proof -
  have "keeps P (on_outbox (pending (w_codec w)))" by (intro keeping)
  then show ?thesis
    by (auto simp: keeps_val_def keeps_def on_outbox_def split: prod.splits dest: pending_distinct)
qed

lemma keeps_standby [keeping]: "keeps P (on_standby m)"
  by (auto simp: keeps_def on_standby_def inv_store split: prod.splits)

lemma keeps_active [keeping]: "keeps P (on_active m)"
  using keeps_standby[of m]
  by (auto simp: keeps_def on_active_def inv_active split: prod.splits option.splits)

lemma keeps_redis [keeping]: "keeps P (on_redis f x m)"
  by (auto simp: keeps_def on_redis_def inv_redis split: prod.splits option.splits)

lemma keeps_with_redis [keeping]: "keeps P (with_redis m)"
  unfolding with_redis_def by (rule keeps_redis)

end

context coordinator_core begin

lemma keeps_publish [keeping]: "keeps P (publish_local_deltas w ops ps)"
  unfolding keeps_def
proof (intro allI impI)
  fix s assume s: "P s"
  let ?m = "on_redis (\<lambda>x. x) (RProtocol ''Redis connection is not available'')
      (publish_native_deltas (w_env w) (w_exec w) (ci_revision s) (native_deltas (ci_native_cache s) ps) ops)"
  obtain r t where t: "?m s = (r, t)" by fastforce
  have "P t" by (rule keepsD[OF keeps_redis s t])
  then show "P (snd (publish_local_deltas w ops ps s))"
    by (auto simp: publish_local_deltas_def t split: sum.split intro!: inv_fields)
qed

lemma keeps_checkpoint [keeping]: "keeps P (checkpoint_snapshot w)"
  unfolding checkpoint_snapshot_def by (intro keeping inv_fields)

lemma keeps_checkpoint_due [keeping]: "keeps P (checkpoint_snapshot_if_due w)"
  unfolding checkpoint_snapshot_if_due_def by (intro keeping)

lemma keeps_mirror_entry [keeping]: "keeps P (mirror_entry w e)"
proof (cases "as_object (oe_arguments e)")
  case (Some args)
  show ?thesis
    unfolding keeps_def
  proof (intro allI impI)
    fix s assume s: "P s"
    obtain r t where t: "on_standby (w_replay_tool w (oe_name e) args) s = (r, t)" by fastforce
    then have "P t" using s keepsD[OF keeps_standby] by blast
    then show "P (snd (mirror_entry w e s))"
      using t Some by (auto simp: mirror_entry_def split: sum.split bool.split)
  qed
qed (simp add: mirror_entry_def keeping)

lemma keeps_mirror_entries [keeping]: "keeps P (mirror_entries w acc es)"
  by (induction es arbitrary: acc) (auto intro: keeping)

lemma keeps_mirror [keeping]: "keeps P (mirror_committed_outbox w)"
  unfolding mirror_committed_outbox_def
  by (intro keeping keeps_sbind_val[OF keeps_pending_val] keeps_compact)

lemma keeps_replay_entry [keeping]: "keeps P (replay_entry w e)"
proof (cases "as_object (oe_arguments e)")
  case (Some args)
  show ?thesis
    unfolding keeps_def
  proof (intro allI impI)
    fix s assume s: "P s"
    obtain r t where t: "on_active (w_replay_tool w (oe_name e) args) s = (r, t)" by fastforce
    then have "P t" using s keepsD[OF keeps_active] by blast
    then show "P (snd (replay_entry w e s))"
      using t Some by (auto simp: replay_entry_def split: sum.split)
  qed
qed (simp add: replay_entry_def keeping)

lemma keeps_replay [keeping]: "keeps P (replay_committed_into_active w)"
  unfolding replay_committed_into_active_def by (intro keeping)

text \<open>The active store is created only after the connection answered, so it is there.\<close>

definition connected :: "('st, 'p, 'c) coordinator_inner \<Rightarrow> bool" where
  "connected s \<longleftrightarrow> P s \<and> ci_redis s \<noteq> None"

lemma connected_keeps [keeping]: "keeps connected (on_standby m)" "keeps connected (on_active n)"
  using keeps_standby[of m] keeps_active[of n]
  by (auto simp: keeps_def connected_def on_standby_def on_active_def
      split: prod.splits option.splits)

lemma connected_fields:
  "connected s \<Longrightarrow> connected (s\<lparr>ci_native_cache := cs, ci_revision := n,
     ci_last_snapshot_revision := n, ci_last_remote_revision := v\<rparr>)"
  "connected s \<Longrightarrow> connected (s\<lparr>ci_active_store := Some b\<rparr>)"
  by (auto simp: connected_def intro!: inv_fields inv_first_active)

lemma keeps_sync [keeping]: "keeps P (sync_from_redis_current w)"
  unfolding keeps_def
proof (intro allI impI)
  fix s assume s: "P s"
  let ?read = "on_redis (\<lambda>x. x) redis_unavailable (read_consistent_state w)"
  let ?rest = "\<lambda>remote. case remote of
       None \<Rightarrow> sfail (SInvalid ''Redis state snapshot is missing'')
     | Some (revision, snapshot) \<Rightarrow>
         sbind (on_standby (w_restore_snapshot_bytes w snapshot)) (\<lambda>_.
         sbind get_state (\<lambda>s.
         sbind (if ci_active_store s = None
                then sbind (slift (w_in_memory w)) (\<lambda>a. modify_state (\<lambda>s. s\<lparr>ci_active_store := Some a\<rparr>))
                else sret ()) (\<lambda>_.
         sbind (on_active (w_restore_snapshot_bytes w snapshot)) (\<lambda>_.
         sbind get_state (\<lambda>s.
         sbind (slift (w_snapshot_bytes w (active_store s))) (\<lambda>standby.
         sbind (on_standby (w_restore_snapshot_bytes w standby)) (\<lambda>_.
         sbind (slift (native_projections_for_all_workspaces w (active_store s))) (\<lambda>cache.
         modify_state (\<lambda>s. s\<lparr>ci_native_cache := cache, ci_revision := revision,
           ci_last_snapshot_revision := revision,
           ci_last_remote_revision := Some revision\<rparr>)))))))))"
  have rest: "keeps connected (?rest remote)" for remote
    by (cases remote) (auto intro!: keeping connected_fields)
  obtain r t where t: "?read s = (r, t)" by fastforce
  have p: "P t" by (rule keepsD[OF keeps_redis s t])
  show "P (snd (sync_from_redis_current w s))"
  proof (cases r)
    case (Inl x)
    with t p show ?thesis by (simp add: sync_from_redis_current_def sbind_eval_err)
  next
    case (Inr remote)
    then have "ci_redis t \<noteq> None" using t by (auto simp: on_redis_def split: option.splits prod.splits)
    with p have "connected t" by (simp add: connected_def)
    then have "connected (snd (?rest remote t))" using rest unfolding keeps_def by blast
    moreover have "sync_from_redis_current w s = ?rest remote t"
      unfolding sync_from_redis_current_def using t Inr by (simp add: sbind_eval)
    ultimately show ?thesis by (simp add: connected_def)
  qed
qed

lemma keeps_reconcile_entry [keeping]: "keeps P (reconcile_entry w acc e)"
proof -
  have "keeps P (reconcile_replay w acc e)"
  proof (cases "as_object (oe_arguments e)")
    case (Some args)
    show ?thesis
      unfolding keeps_def
    proof (intro allI impI)
      fix s assume s: "P s"
      obtain r t where t: "on_active (w_replay_tool w (oe_name e) args) s = (r, t)" by fastforce
      then have "P t" using s keepsD[OF keeps_active] by blast
      moreover have "keeps P (sbind (with_redis m) (\<lambda>_. sret a))" for m :: "('c, redis_error, unit) sm"
          and a :: reconcile_acc by (intro keeping)
      ultimately show "P (snd (reconcile_replay w acc e s))"
        using t Some unfolding keeps_def by (auto simp: reconcile_replay_def split: sum.split)
    qed
  qed (simp add: reconcile_replay_def keeping)
  then show ?thesis
    unfolding reconcile_entry_def already_committed_def by (intro keeping)
qed

lemma keeps_reconcile_entries [keeping]: "keeps P (reconcile_entries w acc es)"
  by (induction es arbitrary: acc) (auto intro!: keeping)

lemma keeps_record_conflicts [keeping]: "keeps P (record_conflicts w n es)"
  unfolding record_conflicts_def by (intro keeping)

lemma keeps_publish_applied [keeping]: "keeps P (publish_applied w acc)"
proof -
  have H: "keeps P (\<lambda>s. case publish_local_deltas w ops ps s of
       (Inr _, s1) \<Rightarrow> (Inr acc, s1)
     | (Inl x, s1) \<Rightarrow>
         (case x of
            RConflict _ actual \<Rightarrow>
              sbind (if ci_redis s1 = None then sret () else record_conflicts w actual (ra_applied acc)) (\<lambda>_.
              sbind (sync_from_redis_current w) (\<lambda>_.
              sret (acc\<lparr>ra_applied := [], ra_rejected := ra_rejected acc
                @ map (\<lambda>e. (e, ''redis_priority_conflict'')) (ra_applied acc)\<rparr>))) s1
          | _ \<Rightarrow> (Inl (redis_store_error x), s1)))" for ops ps
    unfolding keeps_def
  proof (intro allI impI)
    fix s assume s: "P s"
    obtain r t where t: "publish_local_deltas w ops ps s = (r, t)" by fastforce
    then have p: "P t" using s keepsD[OF keeps_publish] by blast
    have "keeps P (sbind (if b then sret () else record_conflicts w n es) (\<lambda>_.
        sbind (sync_from_redis_current w) (\<lambda>_. sret a)))" for b n es and a :: reconcile_acc
      by (intro keeping)
    then show "P (snd (case publish_local_deltas w ops ps s of
       (Inr _, s1) \<Rightarrow> (Inr acc, s1)
     | (Inl x, s1) \<Rightarrow>
         (case x of
            RConflict _ actual \<Rightarrow>
              sbind (if ci_redis s1 = None then sret () else record_conflicts w actual (ra_applied acc)) (\<lambda>_.
              sbind (sync_from_redis_current w) (\<lambda>_.
              sret (acc\<lparr>ra_applied := [], ra_rejected := ra_rejected acc
                @ map (\<lambda>e. (e, ''redis_priority_conflict'')) (ra_applied acc)\<rparr>))) s1
          | _ \<Rightarrow> (Inl (redis_store_error x), s1))))"
      using p t unfolding keeps_def by (auto split: sum.split redis_error.split)
  qed
  show ?thesis unfolding publish_applied_def by (intro keeping H)
qed

lemma keeps_settle [keeping]: "keeps P (settle_entry w acc e)"
  unfolding settle_entry_def by (auto intro: keeping)

lemma keeps_rejects [keeping]:
  "keeps P (sforM (\<lambda>(e, why). on_outbox (reject (w_codec w) (oe_idempotency_key e) why)) xs)"
  by (auto intro!: keeping split: prod.split)

lemma keeps_reconcile [keeping]: "keeps P (reconcile_outbox w)"
  unfolding reconcile_outbox_def Let_def
  by (intro keeping keeps_sbind_val[OF keeps_pending_val] keeps_compact inv_fields)

end

text \<open>The invariants that also survive a change of mode.\<close>

locale coordinator_invariant = coordinator_core P w
  for P :: "('st, 'p, 'c) coordinator_inner \<Rightarrow> bool" and w :: "('st, 'p, 'c) world" +
  assumes inv_attach: "P s \<Longrightarrow> P (s\<lparr>ci_active_store := Some b, ci_redis := Some d, ci_mode := Redis\<rparr>)"
    and inv_fallback: "P s \<Longrightarrow> P (s\<lparr>ci_active_store := None, ci_redis := None, ci_mode := Sqlite\<rparr>)"
begin

lemma keeps_fallback: "P s \<Longrightarrow> P (enter_sqlite_fallback w s)"
  unfolding fallback_form by (auto intro!: inv_fallback inv_fields inv_store)

text \<open>Attaching: the invariant is that of the coordinator, the adapter is still apart.\<close>

lemma attach_closure [keeping]:
  "keeps P m \<Longrightarrow> keeps (\<lambda>(s, c). P s) (att_coord m)"
  "keeps (\<lambda>(s, c). P s) (att_redis n)"
  by (force simp: keeps_def att_coord_def att_redis_def split: prod.splits)+

lemma keeps_attach_existing [keeping]:
  "keeps (\<lambda>(s, c). P s) (attach_existing w recovering local revision snapshot fresh)"
  unfolding attach_existing_def Let_def by (intro keeping inv_fields)

lemma keeps_attach_empty [keeping]: "keeps (\<lambda>(s, c). P s) (attach_empty w fresh)"
  unfolding attach_empty_def by (intro keeping inv_fields)

lemma keeps_attached:
  "keeps (\<lambda>(s, c). P s) (\<lambda>(s, c).
     (Inr (), (s\<lparr>ci_active_store := Some active, ci_redis := Some c, ci_mode := Redis,
        ci_last_snapshot_revision := ci_revision s, ci_native_cache := cache,
        ci_recovery_uses_local_state := recovering, ci_recovery_replay_committed := replay\<rparr>, c)))"
  by (auto simp: keeps_def intro!: inv_fields inv_attach)

lemma keeps_attach_adapter: "keeps (\<lambda>(s, c). P s) (attach_adapter w)"
  unfolding attach_adapter_def Let_def by (intro keeping keeps_attached)

lemma keeps_attach [keeping]: "keeps P (attach_redis w c)"
  unfolding keeps_def
proof (intro allI impI)
  fix s assume "P s"
  obtain r t d where t: "attach_adapter w (s, c) = (r, (t, d))" by (metis surj_pair)
  with keeps_attach_adapter \<open>P s\<close> have "P t" unfolding keeps_def by (metis case_prod_conv snd_conv)
  with keeps_reconcile t show "P (snd (attach_redis w c s))"
    unfolding keeps_def by (auto simp: attach_redis_def split: sum.split)
qed

lemma keeps_reconnect [keeping]: "keeps P (try_reconnect w found)"
  using keeps_attach by (auto simp: keeps_def try_reconnect_def split: sum.split option.split)

lemma keeps_tick [keeping]: "keeps P (tick w found)"
  unfolding tick_def by (intro keeping inv_fields)

lemma keeps_prepare: "P s \<Longrightarrow> P (prepare_for_operation w s)"
  by (simp add: prepare_for_operation_def keeps_fallback)

lemma keeps_exec [keeping]:
  "keeps P (on_outbox m) \<Longrightarrow> keeps P (exec_error m)" "keeps P n \<Longrightarrow> keeps P (lift_execution n)"
  by (force simp: keeps_def exec_error_def lift_execution_def split: prod.splits)+

lemma keeps_exec_pending:
  "keeps_val P (exec_error (pending (w_codec w))) (\<lambda>es. distinct (keys es))"
proof -
  have "keeps P (exec_error (pending (w_codec w)))" by (intro keeping)
  then show ?thesis
    by (auto simp: keeps_val_def keeps_def exec_error_def on_outbox_def map_error_def
        split: prod.splits sum.splits dest: pending_distinct)
qed

lemma keeps_publish_operation [keeping]: "keeps P (publish_operation w k name arguments result)"
  unfolding keeps_def
proof (intro allI impI)
  fix s assume s: "P s"
  show "P (snd (publish_operation w k name arguments result s))"
  proof (cases "native_projections_for_operation w (active_store s) name arguments")
    case (Inl x)
    with s show ?thesis by (simp add: publish_operation_def keeps_fallback)
  next
    case (Inr ps)
    let ?op = "[\<lparr>op_idempotency_key = k, op_name = name,
      op_workspace = or_default (operation_workspace name arguments)\<rparr>]"
    obtain r t where t: "publish_local_deltas w ?op ps s = (r, t)" by fastforce
    have p: "P t" by (rule keepsD[OF keeps_publish s t])
    have "keeps P (sbind (exec_error (mark_redis_committed (w_codec w) k)) (\<lambda>_.
        sbind get_state (\<lambda>s.
        sbind (if ci_background_standby_sync s then sret ()
               else lift_execution (mirror_committed_outbox w)) (\<lambda>_. sret result))))"
      by (intro keeping)
    with p Inr t show ?thesis
      unfolding keeps_def
      by (auto simp: publish_operation_def keeps_fallback split: sum.split redis_error.split)
  qed
qed

lemma keeps_compact_exec: "distinct (keys es) \<Longrightarrow> keeps P (exec_error (compact (w_codec w) es))"
  by (intro keeping keeps_compact) 

lemma keeps_execute_mutation [keeping]: "keeps P (execute_mutation w k name arguments operation)"
proof -
  have "keeps P (\<lambda>s. case on_active operation s of
         (Inr result, s1) \<Rightarrow>
           (if ci_mode s1 = Redis then publish_operation w k name arguments result s1
            else (Inr result, s1))
       | (Inl x, s1) \<Rightarrow>
           sbind (exec_error (complete (w_codec w) k)) (\<lambda>_.
           sbind (exec_error (pending (w_codec w))) (\<lambda>remaining.
           sbind (exec_error (compact (w_codec w) remaining)) (\<lambda>_. sfail x))) s1)" (is "keeps P ?m")
    unfolding keeps_def
  proof (intro allI impI)
    fix s assume s: "P s"
    obtain r t where t: "on_active operation s = (r, t)" by fastforce
    have p: "P t" by (rule keepsD[OF keeps_active s t])
    have c: "keeps P (sbind (exec_error (complete (w_codec w) k)) (\<lambda>_.
        sbind (exec_error (pending (w_codec w))) (\<lambda>remaining.
        sbind (exec_error (compact (w_codec w) remaining)) (\<lambda>_. sfail x)) :: (_, _, json) sm))"
      for x :: backend_tool_error
      by (intro keeping keeps_sbind_val[OF keeps_exec_pending] keeps_compact_exec)
    from p t c keeps_publish_operation show "P (snd (?m s))"
      unfolding keeps_def by (auto split: sum.split)
  qed
  then show ?thesis unfolding execute_mutation_def by (intro keeping)
qed

lemma keeps_execute_tool: "P s \<Longrightarrow> P (snd (execute_tool w name arguments operation s))"
proof -
  assume "P s"
  then have "P (prepare_for_operation w s)" by (rule keeps_prepare)
  then show ?thesis
    using keeps_execute_mutation keeps_active[of operation] unfolding execute_tool_def keeps_def Let_def
    by (auto split: sum.split)
qed

lemma keeps_status [keeping]: "keeps P (status w)"
  unfolding status_def Let_def by (intro keeping)

end

end
