(* ===== verification/CoordinatorRun.thy ===== *)
theory CoordinatorRun
  imports CoordinatorInv
begin

text \<open>
  The coordinator as it runs: the states reachable by tool calls, watcher rounds and status
  requests, what holds in all of them, and what one tool call does to the outbox, to Redis
  and to the standby.
\<close>

section \<open>Reachable states\<close>

text \<open>
  Between two calls the coordinator serves from Redis exactly when it holds a connection, it
  has an active store exactly then, and its outbox can be read.
\<close>

definition coordinator_ok :: "('st, 'p, 'c) world \<Rightarrow> ('st, 'p, 'c) coordinator_inner \<Rightarrow> bool" where
  "coordinator_ok w s \<longleftrightarrow>
     (ci_mode s = Redis \<longleftrightarrow> ci_redis s \<noteq> None) \<and> (ci_active_store s \<noteq> None \<longleftrightarrow> ci_redis s \<noteq> None) \<and>
     (\<exists>es. denotes (w_codec w) (ci_outbox s) es)"

inductive coordinator_step ::
  "('st, 'p, 'c) world \<Rightarrow> ('st, 'p, 'c) coordinator_inner \<Rightarrow> ('st, 'p, 'c) coordinator_inner \<Rightarrow> bool"
  for w :: "('st, 'p, 'c) world" where
  tool: "execute_tool w name arguments operation s = (r, t) \<Longrightarrow> coordinator_step w s t"
| watch: "watcher_round w interval max_backoff found elapsed (s, delay) = (t, delay') \<Longrightarrow> coordinator_step w s t"
| report: "status w s = (b, t) \<Longrightarrow> coordinator_step w s t"

inductive coordinator_reachable ::
  "('st, 'p, 'c) world \<Rightarrow> ('st, 'p, 'c) coordinator_inner \<Rightarrow> bool" for w :: "('st, 'p, 'c) world" where
  opened: "denotes (w_codec w) ob es \<Longrightarrow>
    coordinator_reachable w (open_with_configuration w store ob configured found)"
| stepped: "coordinator_reachable w s \<Longrightarrow> coordinator_step w s t \<Longrightarrow> coordinator_reachable w t"

inductive_cases coordinator_stepE: "coordinator_step w s t"

lemma ok_invariant: "outbox_codec (w_codec w) \<Longrightarrow> coordinator_invariant (coordinator_ok w) w"
  by (intro coordinator_invariant.intro coordinator_core.intro coordinator_invariant_axioms.intro)
    (auto simp: coordinator_ok_def outbox_step_def)

interpretation modes: coordinator_invariant "coordinator_ok (w\<lparr>w_codec := ref_codec\<rparr>)" "w\<lparr>w_codec := ref_codec\<rparr>"
  for w :: "('st, 'p, 'c) world"
  by (rule ok_invariant) (simp add: ref.outbox_codec_axioms)

lemmas ok_keeps =
  coordinator_invariant.keeps_attach[OF ok_invariant] coordinator_invariant.keeps_tick[OF ok_invariant]
  coordinator_invariant.keeps_status[OF ok_invariant]

lemma ok_new:
  "denotes (w_codec w) ob es \<Longrightarrow>
     coordinator_ok w ((coordinator_new store ob configured)\<lparr>ci_background_standby_sync := b\<rparr>)"
  by (auto simp: coordinator_ok_def coordinator_new_def)

lemma ok_opened:
  assumes "outbox_codec (w_codec w)" "denotes (w_codec w) ob es"
  shows "coordinator_ok w (open_with_configuration w store ob configured found)"
proof -
  let ?s = "(coordinator_new store ob configured)\<lparr>ci_background_standby_sync := configured\<rparr>"
  note ok = ok_new[OF assms(2)]
  have "coordinator_ok w (snd (attach_redis w c ?s))" for c
    using ok_keeps(1)[OF assms(1)] ok unfolding keeps_def by blast
  then show ?thesis
    using ok coordinator_invariant.keeps_fallback[OF ok_invariant[OF assms(1)]]
    by (auto simp: open_with_configuration_def Let_def split: sum.split option.split prod.split) (metis snd_conv)+
qed

lemma ok_counters:
  "coordinator_ok w s \<Longrightarrow> coordinator_ok w (s\<lparr>ci_sync_ticks := a, ci_last_sync_micros := b\<rparr>)"
  "coordinator_ok w s \<Longrightarrow> coordinator_ok w (s\<lparr>ci_sync_errors := c\<rparr>)"
  by (auto simp: coordinator_ok_def)

lemma ok_step:
  assumes "outbox_codec (w_codec w)" "coordinator_step w s t" "coordinator_ok w s"
  shows "coordinator_ok w t"
  using assms(2)
proof cases
  case (tool name arguments operation r)
  then show ?thesis
    using coordinator_invariant.keeps_execute_tool[OF ok_invariant[OF assms(1)] assms(3)] by (metis snd_conv)
next
  case (watch interval max_backoff found elapsed delay delay')
  have "coordinator_ok w (snd (tick w found s))"
    using ok_keeps(2)[OF assms(1)] assms(3) unfolding keeps_def by blast
  with watch show ?thesis
    by (auto simp: watcher_round_def Let_def ok_counters split: prod.splits sum.splits)
next
  case (report b)
  then show ?thesis using ok_keeps(3)[OF assms(1)] assms(3) unfolding keeps_def by (metis snd_conv)
qed

section \<open>A small world\<close>

text \<open>
  A store that is the list of its operations, with the image, projections and names the
  coordinator asks for, over the reference server.
\<close>

fun store_image :: "string list \<Rightarrow> string" where
  "store_image [] = ''.''"
| "store_image (x # xs) = x @ CHR '','' # store_image xs"

fun image_store :: "string \<Rightarrow> string \<Rightarrow> string list" where
  "image_store x [] = []"
| "image_store x (c # cs) = (if c = CHR '','' then x # image_store [] cs else image_store (x @ [c]) cs)"

definition toy_digest :: "string \<Rightarrow> string" where
  "toy_digest s =
     (case s of [] \<Rightarrow> [] | c # _ \<Rightarrow> if c = CHR ''{'' then replicate 63 CHR ''0'' @ [char_of (48 + code (last s) mod 8)] else s)"

definition toy_entities :: "string list \<Rightarrow> unit redis_entity_record list" where
  "toy_entities st = map (\<lambda>x. \<lparr>en_kind = ''fact'', en_id = x, en_payload = ()\<rparr>) st"

definition toy_world :: "(string list, unit, server) world" where
  "toy_world =
     \<lparr>w_env = example_env\<lparr>digest := toy_digest\<rparr>, w_exec = direct_exec,
      w_metrics = (\<lambda>_. default_metrics\<lparr>m_commands := 3\<rparr>), w_codec = ref_codec,
      w_request_json = (\<lambda>j. case j of
          JObject [_, (_, JString name)] \<Rightarrow> Inr (CHR ''{'' # name) | _ \<Rightarrow> Inl (SInvalid ''request'')),
      w_in_memory = Inr [], w_snapshot_bytes = (\<lambda>st. Inr (store_image st)),
      w_restore_snapshot_bytes = (\<lambda>b st. (Inr (), image_store [] b)),
      w_project_databases = (\<lambda>st. Inr \<lparr>np_workspace = NATIVE_SYSTEM_SCOPE, np_entities = []\<rparr>),
      w_project_workspace = (\<lambda>st ws. Inr \<lparr>np_workspace = ws, np_entities = toy_entities st\<rparr>),
      w_list_workspace_ids = (\<lambda>st. Inr [''w'']), w_database_names = (\<lambda>st. Inr []),
      w_workspace_names = (\<lambda>st. Inr []),
      w_replay_tool = (\<lambda>name arguments st. (Inr JNull, st @ [name]))\<rparr>"

definition toy_tool :: "string \<Rightarrow> (string list, backend_tool_error, json) sm" where
  "toy_tool name st = (Inr JNull, st @ [name])"

definition toy_outbox :: outbox where
  "toy_outbox = \<lparr>ob_file = None, ob_audit = None, ob_io = []\<rparr>"

text \<open>A fresh coordinator on an empty server.\<close>

definition toy_open :: "(string list, unit, server) coordinator_inner" where
  "toy_open = open_with_configuration toy_world [''old''] toy_outbox True (Inr (Some (example_view, [])))"

definition toy_arguments :: json_map where
  "toy_arguments = [(''workspace'', JString ''w'')]"

definition toy_used :: "(string list, unit, server) coordinator_inner" where
  "toy_used = snd (execute_tool toy_world ''absorb'' toy_arguments (toy_tool ''absorb'') toy_open)"

definition toy_entry :: "char \<Rightarrow> bool \<Rightarrow> outbox_entry" where
  "toy_entry c b = \<lparr>oe_idempotency_key = replicate 64 c, oe_name = ''a'',
     oe_arguments = JObject toy_arguments, oe_redis_committed = b\<rparr>"

definition toy_queued :: "bool \<Rightarrow> (string list, unit, server) coordinator_inner" where
  "toy_queued b = toy_open\<lparr>ci_outbox := toy_outbox\<lparr>ob_file :=
     Some (render_events ref_codec [Pending (toy_entry CHR ''1'' b)])\<rparr>\<rparr>"

lemma toy_queued_denotes: "denotes (w_codec toy_world) (ci_outbox (toy_queued b)) [toy_entry CHR ''1'' b]"
proof -
  have "fold_events [Pending (toy_entry CHR ''1'' b)] = [toy_entry CHR ''1'' b]"
    by (simp add: fold_events_def has_key_def)
  moreover have "stored ref_codec (ci_outbox (toy_queued b)) [Pending (toy_entry CHR ''1'' b)]"
    by (simp add: stored_def toy_queued_def)
  ultimately show ?thesis unfolding denotes_def toy_world_def by auto
qed

lemma toy_codec: "outbox_codec (w_codec toy_world)"
  by (simp add: toy_world_def ref.outbox_codec_axioms)

section \<open>Successful runs and the entries of the outbox\<close>

lemma on_outbox_Inr_iff:
  "on_outbox m s = (Inr a, t) \<longleftrightarrow> (\<exists>ob. m (ci_outbox s) = (Inr a, ob) \<and> t = s\<lparr>ci_outbox := ob\<rparr>)"
  by (auto simp: on_outbox_def split: prod.splits)

text \<open>
  A Hoare triple for the runs that succeed: the assertions see the state and the entries its
  outbox denotes.
\<close>

definition succeeds ::
  "('st, 'p, 'c) world \<Rightarrow> (outbox_entry list \<Rightarrow> ('st, 'p, 'c) coordinator_inner \<Rightarrow> bool)
     \<Rightarrow> (('st, 'p, 'c) coordinator_inner, 'e, 'a) sm
     \<Rightarrow> ('a \<Rightarrow> outbox_entry list \<Rightarrow> ('st, 'p, 'c) coordinator_inner \<Rightarrow> bool) \<Rightarrow> bool" where
  "succeeds w A m B \<longleftrightarrow>
     (\<forall>s es a t. denotes (w_codec w) (ci_outbox s) es \<longrightarrow> A es s \<longrightarrow> m s = (Inr a, t) \<longrightarrow>
        (\<exists>es1. denotes (w_codec w) (ci_outbox t) es1 \<and> B a es1 t))"

named_theorems succeeding "rules for successful runs"

lemma succeedsI:
  assumes "\<And>s es a t. denotes (w_codec w) (ci_outbox s) es \<Longrightarrow> A es s \<Longrightarrow> m s = (Inr a, t) \<Longrightarrow>
    \<exists>es1. denotes (w_codec w) (ci_outbox t) es1 \<and> B a es1 t"
  shows "succeeds w A m B"
  using assms unfolding succeeds_def by blast

lemma succeedsD:
  assumes "succeeds w A m B" "denotes (w_codec w) (ci_outbox s) es" "A es s" "m s = (Inr a, t)"
  obtains es1 where "denotes (w_codec w) (ci_outbox t) es1" "B a es1 t"
  using assms unfolding succeeds_def by blast

lemma succeeds_conseq:
  "succeeds w A m B \<Longrightarrow> (\<And>es s. A' es s \<Longrightarrow> A es s) \<Longrightarrow> (\<And>a es s. B a es s \<Longrightarrow> B' a es s) \<Longrightarrow> succeeds w A' m B'"
  unfolding succeeds_def by metis

lemma succeeds_sbind:
  assumes "succeeds w A m B" "\<And>a. succeeds w (B a) (f a) C"
  shows "succeeds w A (sbind m f) C"
proof (rule succeedsI)
  fix s es a t
  assume "denotes (w_codec w) (ci_outbox s) es" "A es s" "sbind m f s = (Inr a, t)"
  then obtain b u es1 where u: "f b u = (Inr a, t)" "denotes (w_codec w) (ci_outbox u) es1" "B b es1 u"
    using assms(1) by (auto simp: sbind_Inr_iff elim!: succeedsD)
  with assms(2) show "\<exists>es1. denotes (w_codec w) (ci_outbox t) es1 \<and> C a es1 t"
    by (auto elim!: succeedsD)
qed

lemma succeeds_basic [succeeding]:
  "(\<And>es s. A es s \<Longrightarrow> B a es s) \<Longrightarrow> succeeds w A (sret a) B"
  "(\<And>es s. A es s \<Longrightarrow> C s es s) \<Longrightarrow> succeeds w A get_state C"
  "succeeds w A (sfail x) E"
  "(\<And>es s b. A es s \<Longrightarrow> r = Inr b \<Longrightarrow> D b es s) \<Longrightarrow> succeeds w A (slift r) D"
  by (auto simp: succeeds_def sret_def get_state_def sfail_def slift_def split: sum.splits)

lemma succeeds_modify [succeeding]:
  "(\<And>es s. A es s \<Longrightarrow> B () es (f s) \<and> ci_outbox (f s) = ci_outbox s) \<Longrightarrow> succeeds w A (modify_state f) B"
  by (auto simp: succeeds_def modify_state_def)

lemma succeeds_parts [succeeding]:
  "(\<And>es s a st. A es s \<Longrightarrow> B a es (s\<lparr>ci_store := st\<rparr>)) \<Longrightarrow> succeeds w A (on_standby m) B"
  "(\<And>es s a st. A es s \<Longrightarrow> C a es (s\<lparr>ci_store := st\<rparr>) \<and> C a es (s\<lparr>ci_active_store := Some st\<rparr>)) \<Longrightarrow>
     succeeds w A (on_active n) C"
  "(\<And>es s a c. A es s \<Longrightarrow> E a es (s\<lparr>ci_redis := Some c\<rparr>)) \<Longrightarrow> succeeds w A (on_redis f x k) E"
  "(\<And>es s a c. A es s \<Longrightarrow> D a es (s\<lparr>ci_redis := Some c\<rparr>)) \<Longrightarrow> succeeds w A (with_redis l) D"
  by (auto simp: succeeds_def on_standby_def on_active_def on_redis_def with_redis_def
      split: prod.splits option.splits)

lemma succeeds_if [succeeding]:
  "(b \<Longrightarrow> succeeds w A m B) \<Longrightarrow> (\<not> b \<Longrightarrow> succeeds w A n B) \<Longrightarrow> succeeds w A (if b then m else n) B"
  by simp

lemma succeeds_option [succeeding]:
  "(v = None \<Longrightarrow> succeeds w A m B) \<Longrightarrow> (\<And>x. v = Some x \<Longrightarrow> succeeds w A (f x) B) \<Longrightarrow>
     succeeds w A (case v of None \<Rightarrow> m | Some x \<Rightarrow> f x) B"
  by (cases v) auto

text \<open>A loop keeps an assertion indexed by the elements that are left.\<close>

lemma succeeds_sforM:
  assumes "\<And>x rest. succeeds w (A (x # rest)) (f x) (\<lambda>_. A rest)"
  shows "succeeds w (A xs) (sforM f xs) (\<lambda>_. A [])"
proof (induction xs)
  case (Cons x xs)
  show ?case unfolding sforM.simps by (rule succeeds_sbind[OF assms]) (rule Cons.IH)
next
  case Nil
  show ?case unfolding sforM.simps by (rule succeeds_basic(1))
qed

text \<open>The outbox operations on the entries they denote.\<close>

locale coordinator_outbox = outbox_codec "w_codec w" for w :: "('st, 'p, 'c) world"
begin

lemma succeeds_outbox:
  assumes "\<And>es ob a ob1. denotes (w_codec w) ob es \<Longrightarrow> m ob = (Inr a, ob1) \<Longrightarrow>
      \<exists>es1. denotes (w_codec w) ob1 es1 \<and> E es a es1"
    and "\<And>es s a es1 ob. A es s \<Longrightarrow> E es a es1 \<Longrightarrow> B a es1 (s\<lparr>ci_outbox := ob\<rparr>)"
  shows "succeeds w A (on_outbox m) B"
proof (rule succeedsI)
  fix s es a t
  assume s: "denotes (w_codec w) (ci_outbox s) es" "A es s" "on_outbox m s = (Inr a, t)"
  then obtain ob where ob: "m (ci_outbox s) = (Inr a, ob)" "t = s\<lparr>ci_outbox := ob\<rparr>"
    by (auto simp: on_outbox_Inr_iff)
  from assms(1)[OF s(1) ob(1)] obtain es1 where "denotes (w_codec w) ob es1" "E es a es1" by blast
  with assms(2)[OF s(2)] ob(2) show "\<exists>es1. denotes (w_codec w) (ci_outbox t) es1 \<and> B a es1 t" by auto
qed

lemma succeeds_pending [succeeding]:
  assumes "\<And>es s ob. A es s \<Longrightarrow> distinct (keys es) \<Longrightarrow> B es es (s\<lparr>ci_outbox := ob\<rparr>)"
  shows "succeeds w A (on_outbox (pending (w_codec w))) B"
  by (rule succeeds_outbox[where E = "\<lambda>es a es1. a = es \<and> es1 = es \<and> distinct (keys es)"])
    (use assms pending_denotes denotes_distinct in blast)+

lemma succeeds_complete [succeeding]:
  assumes "\<And>es s ob. A es s \<Longrightarrow> B () (filter (\<lambda>e. oe_idempotency_key e \<noteq> k) es) (s\<lparr>ci_outbox := ob\<rparr>)"
  shows "succeeds w A (on_outbox (complete (w_codec w) k)) B"
  by (rule succeeds_outbox[where E = "\<lambda>es a es1. es1 = filter (\<lambda>e. oe_idempotency_key e \<noteq> k) es"])
    (use assms complete_denotes in auto)

lemma succeeds_reject [succeeding]:
  assumes "\<And>es s ob. A es s \<Longrightarrow> B () (filter (\<lambda>e. oe_idempotency_key e \<noteq> k) es) (s\<lparr>ci_outbox := ob\<rparr>)"
  shows "succeeds w A (on_outbox (reject (w_codec w) k why)) B"
  by (rule succeeds_outbox[where E = "\<lambda>es a es1. es1 = filter (\<lambda>e. oe_idempotency_key e \<noteq> k) es"])
    (use assms reject_denotes in auto)

lemma succeeds_mark [succeeding]:
  assumes "\<And>es s ob. A es s \<Longrightarrow> has_key k es \<Longrightarrow> B () (map (mark_entry k) es) (s\<lparr>ci_outbox := ob\<rparr>)"
  shows "succeeds w A (on_outbox (mark_redis_committed (w_codec w) k)) B"
  by (rule succeeds_outbox[where E = "\<lambda>es a es1. has_key k es \<and> es1 = map (mark_entry k) es"])
    (use assms mark_denotes in auto)

lemma succeeds_audit [succeeding]:
  assumes "\<And>es s ob. A es s \<Longrightarrow> B () es (s\<lparr>ci_outbox := ob\<rparr>)"
  shows "succeeds w A (on_outbox (audit (w_codec w) k why)) B"
  by (rule succeeds_outbox[where E = "\<lambda>es a es1. es1 = es"]) (use assms audit_denotes in auto)

lemma succeeds_compact:
  assumes "distinct (keys fs)" "\<And>es s ob. A es s \<Longrightarrow> B () fs (s\<lparr>ci_outbox := ob\<rparr>)"
  shows "succeeds w A (on_outbox (compact (w_codec w) fs)) B"
  by (rule succeeds_outbox[where E = "\<lambda>es a es1. es1 = fs"]) (use assms compact_denotes in auto)

text \<open>Reading the pending entries and rewriting the file with them changes nothing.\<close>

lemma succeeds_compacted [succeeding]:
  assumes "\<And>es s ob. A es s \<Longrightarrow> B () es (s\<lparr>ci_outbox := ob\<rparr>)"
  shows "succeeds w A (sbind (on_outbox (pending (w_codec w))) (\<lambda>es. on_outbox (compact (w_codec w) es))) B"
proof (rule succeedsI)
  fix s es a t
  assume s: "denotes (w_codec w) (ci_outbox s) es" "A es s"
    and m: "sbind (on_outbox (pending (w_codec w))) (\<lambda>es. on_outbox (compact (w_codec w) es)) s = (Inr a, t)"
  obtain fs ob1 ob2 where ob: "pending (w_codec w) (ci_outbox s) = (Inr fs, ob1)"
      "compact (w_codec w) fs ob1 = (Inr (), ob2)" "t = s\<lparr>ci_outbox := ob2\<rparr>"
    using m by (auto simp: sbind_Inr_iff on_outbox_Inr_iff)
  from pending_denotes[OF s(1) ob(1)] denotes_distinct have "fs = es" "distinct (keys es)" by blast+
  with compact_denotes ob(2) have "denotes (w_codec w) ob2 es" by blast
  then show "\<exists>es1. denotes (w_codec w) (ci_outbox t) es1 \<and> B a es1 t"
    using assms[OF s(2)] ob(3) by auto
qed

end

interpretation ref_run: coordinator_outbox "w\<lparr>w_codec := ref_codec\<rparr>" for w :: "('st, 'p, 'c) world"
  by (intro coordinator_outbox.intro) (simp add: ref.outbox_codec_axioms)

end
