(* ===== verification/CoordinatorReconcile.thy ===== *)
theory CoordinatorReconcile
  imports CoordinatorRun
begin

text \<open>
  What a successful reconciliation achieves: the operations of the outbox that Redis has not
  seen are settled, 64 at a time, and the committed ones reach the standby in their order.
\<close>

section \<open>The operations still open\<close>

definition open_keys :: "outbox_entry list \<Rightarrow> string list" where
  "open_keys es = keys (filter (\<lambda>e. \<not> oe_redis_committed e) es)"

lemma open_keys_filter [simp]:
  "open_keys (filter (\<lambda>e. oe_idempotency_key e \<noteq> k) es) = filter (\<lambda>x. x \<noteq> k) (open_keys es)"
  by (induction es) (auto simp: open_keys_def)

lemma open_keys_mark [simp]:
  "open_keys (map (mark_entry k) es) = filter (\<lambda>x. x \<noteq> k) (open_keys es)"
  by (induction es) (auto simp: open_keys_def mark_entry_def)

lemma open_keys_distinct: "distinct (keys es) \<Longrightarrow> distinct (open_keys es)"
  by (auto simp: open_keys_def keys_def distinct_map_filter)

lemma keys_take_open: "keys (take n (filter (\<lambda>e. \<not> oe_redis_committed e) es)) = take n (open_keys es)"
  by (simp add: open_keys_def keys_def take_map)

section \<open>Reconciliation\<close>

text \<open>The entries the loop has put aside, to publish or to reject.\<close>

definition handled :: "reconcile_acc \<Rightarrow> string set" where
  "handled acc = set (keys (ra_applied acc)) \<union> set (keys (map fst (ra_rejected acc)))"

definition open_within :: "string set \<Rightarrow> outbox_entry list \<Rightarrow> 's \<Rightarrow> bool" where
  "open_within X es s \<longleftrightarrow> set (open_keys es) \<subseteq> X"

lemma open_within_fields [simp]:
  "open_within X es (s\<lparr>ci_store := a\<rparr>) = open_within X es s"
  "open_within X es (s\<lparr>ci_active_store := b\<rparr>) = open_within X es s"
  "open_within X es (s\<lparr>ci_redis := c\<rparr>) = open_within X es s"
  "open_within X es (s\<lparr>ci_outbox := d\<rparr>) = open_within X es s"
  by (simp_all add: open_within_def)

lemma open_within_shrinks:
  "open_within X es s \<Longrightarrow> open_within X (filter (\<lambda>e. oe_idempotency_key e \<noteq> k) es) s"
  "open_within X es s \<Longrightarrow> open_within X (map (mark_entry k) es) s"
  "open_within (insert k X) es s \<Longrightarrow> open_within X (filter (\<lambda>e. oe_idempotency_key e \<noteq> k) es) s"
  "open_within (insert k X) es s \<Longrightarrow> open_within X (map (mark_entry k) es) s"
  by (auto simp: open_within_def)

text \<open>The flags at the end say whether open operations are left.\<close>

definition settled :: "string set \<Rightarrow> outbox_entry list \<Rightarrow> ('st, 'p, 'c) coordinator_inner \<Rightarrow> bool" where
  "settled X es s \<longleftrightarrow> open_within X es s \<and> distinct (keys es) \<and>
     ci_recovery_uses_local_state s = (open_keys es \<noteq> [])"

context coordinator_outbox begin

lemma mirror_entry_within [succeeding]:
  "succeeds w (open_within X) (mirror_entry w e) (\<lambda>_. open_within X)"
  by (rule succeedsI)
    (auto simp: mirror_entry_def on_standby_def open_within_def sfail_def
      split: option.splits prod.splits sum.splits bool.splits)

lemma mirror_entries_open [succeeding]:
  "succeeds w (open_within X) (mirror_entries w acc es) (\<lambda>_. open_within X)"
  by (induction es arbitrary: acc)
    (auto intro: succeeds_basic(1) succeeds_sbind[OF mirror_entry_within])

lemma mirror_open [succeeding]:
  "succeeds w (open_within X) (mirror_committed_outbox w) (\<lambda>_. open_within X)"
  unfolding mirror_committed_outbox_def
proof (rule succeeds_sbind[OF succeeds_pending[where B = "\<lambda>_. open_within X"]])
  fix es
  show "succeeds w (open_within X)
     (sbind (mirror_entries w [] (take MAX_REPLAY_BATCH (filter oe_redis_committed es))) (\<lambda>mirrored.
      sbind (sforM (\<lambda>k. on_outbox (complete (w_codec w) k)) mirrored) (\<lambda>_.
      sbind (on_outbox (pending (w_codec w))) (\<lambda>remaining.
      on_outbox (compact (w_codec w) remaining))))) (\<lambda>_. open_within X)"
    by (intro succeeds_sbind[OF mirror_entries_open] succeeds_sbind[OF succeeds_sforM[where A = "\<lambda>_. open_within X"]]
        succeeding) (auto intro: open_within_shrinks)
qed simp

lemma replay_within [succeeding]:
  "succeeds w (open_within X) (replay_committed_into_active w) (\<lambda>_. open_within X)"
proof -
  have e: "succeeds w (open_within X) (replay_entry w e) (\<lambda>_. open_within X)" for e
    by (rule succeedsI)
      (auto simp: replay_entry_def on_active_def on_standby_def open_within_def sfail_def
        split: option.splits prod.splits sum.splits)
  show ?thesis
    unfolding replay_committed_into_active_def
    by (intro succeeds_sbind[OF succeeds_basic(2)[where C = "\<lambda>_. open_within X"]] succeeding
        succeeds_sbind[OF succeeds_pending[where B = "\<lambda>_. open_within X"]]
        succeeds_sforM[where A = "\<lambda>_. open_within X"] e) simp_all
qed

lemma audited_within [succeeding]:
  "succeeds w (open_within (insert (oe_idempotency_key e) X)) (already_committed w e why) (\<lambda>_. open_within X)"
  unfolding already_committed_def
  by (rule succeeds_sbind[OF succeeds_audit[where B = "\<lambda>_. open_within (insert (oe_idempotency_key e) X)"]])
    (auto intro!: succeeds_mark open_within_shrinks(4))

lemma open_within_mono: "open_within X es s \<Longrightarrow> X \<subseteq> Y \<Longrightarrow> open_within Y es s"
  by (auto simp: open_within_def)

lemma reconcile_replay_within:
  "succeeds w (open_within (insert (oe_idempotency_key e) (handled acc \<union> X))) (reconcile_replay w acc e)
     (\<lambda>acc. open_within (handled acc \<union> X))"
proof (cases "as_object (oe_arguments e)")
  case None
  then show ?thesis
    by (auto simp: reconcile_replay_def handled_def intro!: succeeds_basic(1))
next
  case (Some args)
  show ?thesis
  proof (rule succeedsI)
    fix s es a t
    assume s: "denotes (w_codec w) (ci_outbox s) es"
        "open_within (insert (oe_idempotency_key e) (handled acc \<union> X)) es s"
        "reconcile_replay w acc e s = (Inr a, t)"
    then have "ci_outbox t = ci_outbox s \<and> handled a = insert (oe_idempotency_key e) (handled acc)"
      by (auto simp: reconcile_replay_def Some on_active_def on_standby_def with_redis_def on_redis_def
          sbind_Inr_iff sret_def handled_def split: option.splits prod.splits sum.splits)
    with s show "\<exists>es1. denotes (w_codec w) (ci_outbox t) es1 \<and> open_within (handled a \<union> X) es1 t"
      by (auto simp: open_within_def)
  qed
qed

lemma reconcile_entry_within:
  "succeeds w (open_within (insert (oe_idempotency_key e) (handled acc \<union> X))) (reconcile_entry w acc e)
     (\<lambda>acc. open_within (handled acc \<union> X))"
proof -
  let ?A = "open_within (insert (oe_idempotency_key e) (handled acc \<union> X))"
  have fin: "succeeds w ?A (sbind (already_committed w e why) (\<lambda>_. sret acc)) (\<lambda>acc. open_within (handled acc \<union> X))"
    for why by (rule succeeds_sbind[OF audited_within]) (auto intro: succeeds_basic(1))
  have rejected: "succeeds w ?A (sret (acc\<lparr>ra_rejected := ra_rejected acc @ [(e, why)]\<rparr>))
      (\<lambda>acc. open_within (handled acc \<union> X))" for why
    by (auto intro!: succeeds_basic(1) simp: handled_def)
  have present: "succeeds w ?A (sret (acc\<lparr>ra_locally_present := ra_locally_present acc @ [oe_idempotency_key e],
      ra_applied := ra_applied acc @ [e]\<rparr>)) (\<lambda>acc. open_within (handled acc \<union> X))"
    by (auto intro!: succeeds_basic(1) simp: handled_def)
  show ?thesis
    unfolding reconcile_entry_def
    by (intro succeeds_sbind[OF succeeds_parts(4)[where D = "\<lambda>_. ?A"]]
        succeeds_sbind[OF succeeds_basic(2)[where C = "\<lambda>_. ?A"]]
        succeeds_if fin rejected present reconcile_replay_within) auto
qed

lemma reconcile_entries_within [succeeding]:
  "succeeds w (open_within (set (keys es) \<union> handled acc \<union> X)) (reconcile_entries w acc es)
     (\<lambda>acc. open_within (handled acc \<union> X))"
proof (induction es arbitrary: acc)
  case Nil
  show ?case by (auto intro: succeeds_basic(1))
next
  case (Cons e es)
  have "succeeds w (open_within (insert (oe_idempotency_key e) (handled acc \<union> (set (keys es) \<union> X))))
      (reconcile_entry w acc e) (\<lambda>acc. open_within (handled acc \<union> (set (keys es) \<union> X)))"
    by (rule reconcile_entry_within)
  moreover have "insert (oe_idempotency_key e) (handled acc \<union> (set (keys es) \<union> X)) =
      set (keys (e # es)) \<union> handled acc \<union> X"
    "handled acc \<union> (set (keys es) \<union> X) = set (keys es) \<union> handled acc \<union> X" for acc by auto
  ultimately show ?case
    unfolding reconcile_entries.simps by (metis (no_types, lifting) Cons.IH succeeds_sbind)
qed

lemma publish_applied_within [succeeding]:
  "succeeds w (open_within (handled acc \<union> X)) (publish_applied w acc) (\<lambda>acc. open_within (handled acc \<union> X))"
proof (rule succeedsI)
  fix s es a t
  assume s: "denotes (w_codec w) (ci_outbox s) es" "open_within (handled acc \<union> X) es s"
    and p: "publish_applied w acc s = (Inr a, t)"
  have "ci_outbox t = ci_outbox s \<and> handled a = handled acc"
  proof (cases "ra_applied acc = []")
    case True
    with p show ?thesis by (simp add: publish_applied_def sret_def)
  next
    case False
    obtain ps where ps: "native_projections_for_entries w (active_store s) (ra_applied acc) = Inr ps"
      using p False by (auto simp: publish_applied_def get_state_def sbind_Inr_iff slift_def)
    obtain r u where u: "publish_local_deltas w (map redis_operation_for_entry (ra_applied acc)) ps s = (r, u)"
      by fastforce
    have ou: "ci_outbox u = ci_outbox s" by (rule keepsD[OF outbox_kept_publish _ u]) simp
    show ?thesis
    proof (cases r)
      case (Inr x)
      with p False ps u ou show ?thesis
        by (auto simp: publish_applied_def get_state_def sbind_def slift_def)
    next
      case (Inl x)
      let ?m = "\<lambda>n. sbind (if ci_redis u = None then sret () else record_conflicts w n (ra_applied acc)) (\<lambda>_.
          sync_from_redis_current w)"
      have k: "keeps (\<lambda>s. ci_outbox s = ob) (?m n)" for ob n
        by (intro keeping outbox_kept_conflicts outbox_kept_sync)
      obtain e n where x: "x = RConflict e n" "sbind (?m n) (\<lambda>_.
          sret (acc\<lparr>ra_applied := [], ra_rejected := ra_rejected acc
            @ map (\<lambda>e. (e, ''redis_priority_conflict'')) (ra_applied acc)\<rparr>)) u = (Inr a, t)"
        using p False ps u Inl
        by (auto simp: publish_applied_def get_state_def sbind_def slift_def sret_def
            split: redis_error.splits sum.splits prod.splits if_splits)
      then obtain y where "?m n u = (Inr y, t)" and a: "a = acc\<lparr>ra_applied := [],
          ra_rejected := ra_rejected acc @ map (\<lambda>e. (e, ''redis_priority_conflict'')) (ra_applied acc)\<rparr>"
        by (subst (asm) sbind_Inr_iff) (auto simp: sret_def)
      then have "ci_outbox t = ci_outbox s" using keepsD[OF k ou] by blast
      with a show ?thesis by (auto simp: handled_def keys_def comp_def)
    qed
  qed
  with s show "\<exists>es1. denotes (w_codec w) (ci_outbox t) es1 \<and> open_within (handled a \<union> X) es1 t"
    by (auto simp: open_within_def)
qed

lemma checkpoint_within [succeeding]:
  "succeeds w (open_within X) (checkpoint_snapshot w) (\<lambda>_. open_within X)"
  unfolding checkpoint_snapshot_def
  by (intro succeeds_sbind[OF succeeds_basic(2)[where C = "\<lambda>_. open_within X"]]
      succeeds_sbind[OF succeeds_basic(4)[where D = "\<lambda>_. open_within X"]]
      succeeds_sbind[OF succeeds_parts(4)[where D = "\<lambda>_. open_within X"]] succeeds_modify)
    (simp_all add: open_within_def)

lemma settle_within:
  "succeeds w (open_within (insert (oe_idempotency_key e) X)) (settle_entry w acc e) (\<lambda>_. open_within X)"
  by (cases "oe_idempotency_key e \<in> set (ra_locally_present acc)")
    (auto simp: settle_entry_def intro!: succeeds_complete succeeds_mark open_within_shrinks(3,4))

lemma settle_all_within [succeeding]:
  "succeeds w (open_within (set (keys es) \<union> X)) (sforM (settle_entry w acc) es) (\<lambda>_. open_within X)"
proof -
  have "succeeds w (open_within (set (keys es) \<union> X)) (sforM (settle_entry w acc) es)
      (\<lambda>_. open_within (set (keys []) \<union> X))"
    by (rule succeeds_sforM[where A = "\<lambda>es. open_within (set (keys es) \<union> X)"])
      (use settle_within in simp)
  then show ?thesis by simp
qed

lemma reject_all_within [succeeding]:
  "succeeds w (open_within (set (keys (map fst es)) \<union> X))
     (sforM (\<lambda>(e, why). on_outbox (reject (w_codec w) (oe_idempotency_key e) why)) es) (\<lambda>_. open_within X)"
proof -
  have "succeeds w (open_within (set (keys (map fst es)) \<union> X))
     (sforM (\<lambda>(e, why). on_outbox (reject (w_codec w) (oe_idempotency_key e) why)) es)
      (\<lambda>_. open_within (set (keys (map fst ([] :: (outbox_entry \<times> string) list))) \<union> X))"
    by (rule succeeds_sforM[where A = "\<lambda>es. open_within (set (keys (map fst es)) \<union> X)"])
      (auto split: prod.split intro!: succeeds_reject open_within_shrinks(3))
  then show ?thesis by simp
qed

lemma compacted_then:
  assumes "succeeds w (open_within X) m B"
  shows "succeeds w (open_within X) (sbind (on_outbox (pending (w_codec w)))
     (\<lambda>remaining. sbind (on_outbox (compact (w_codec w) remaining)) (\<lambda>_. m))) B"
proof -
  have "succeeds w (open_within X) (sbind (on_outbox (pending (w_codec w)))
     (\<lambda>es. on_outbox (compact (w_codec w) es))) (\<lambda>_. open_within X)"
    by (rule succeeds_compacted) simp
  from succeeds_sbind[OF this assms] show ?thesis by (simp add: sbind_assoc)
qed

lemma flags_settled:
  "succeeds w (open_within X)
     (sbind (on_outbox (pending (w_codec w))) (\<lambda>remaining.
       let uses = (\<exists>e\<in>set remaining. \<not> oe_redis_committed e)
       in modify_state (\<lambda>s. s\<lparr>ci_recovery_uses_local_state := uses,
            ci_recovery_replay_committed := (\<not> uses \<and> (\<exists>e\<in>set remaining. oe_redis_committed e))\<rparr>)))
     (\<lambda>_. settled X)"
  by (rule succeeds_sbind[OF succeeds_pending[where B = "\<lambda>fs es s. fs = es \<and> distinct (keys es) \<and> open_within X es s"]])
    (auto simp: Let_def settled_def open_within_def open_keys_def keys_def filter_empty_conv
      intro!: succeeds_modify)

lemma reconcile_rest:
  assumes "distinct (keys fs)"
  shows "succeeds w (\<lambda>es s. es = fs)
     (sbind (reconcile_entries w \<lparr>ra_applied = [], ra_locally_present = [], ra_rejected = []\<rparr>
                (take MAX_REPLAY_BATCH (filter (\<lambda>e. \<not> oe_redis_committed e) fs))) (\<lambda>acc.
       sbind (publish_applied w acc) (\<lambda>acc.
       sbind (if ra_locally_present acc = [] then sret () else checkpoint_snapshot w) (\<lambda>_.
       sbind (sforM (settle_entry w acc) (ra_applied acc)) (\<lambda>_.
       sbind (sforM (\<lambda>(e, why). on_outbox (reject (w_codec w) (oe_idempotency_key e) why))
                (ra_rejected acc)) (\<lambda>_.
       sbind (on_outbox (pending (w_codec w))) (\<lambda>remaining.
       sbind (on_outbox (compact (w_codec w) remaining)) (\<lambda>_.
       sbind (mirror_committed_outbox w) (\<lambda>_.
       sbind (on_outbox (pending (w_codec w))) (\<lambda>remaining.
       let uses = (\<exists>e\<in>set remaining. \<not> oe_redis_committed e)
       in modify_state (\<lambda>s. s\<lparr>ci_recovery_uses_local_state := uses,
            ci_recovery_replay_committed := (\<not> uses \<and> (\<exists>e\<in>set remaining. oe_redis_committed e))\<rparr>)))))))))))
     (\<lambda>_. settled (set (drop MAX_REPLAY_BATCH (open_keys fs))))"
proof -
  let ?n = MAX_REPLAY_BATCH and ?X = "set (drop MAX_REPLAY_BATCH (open_keys fs))"
  let ?acc = "\<lparr>ra_applied = [], ra_locally_present = [], ra_rejected = []\<rparr>"
  have start: "succeeds w (\<lambda>es s. es = fs)
      (reconcile_entries w ?acc (take ?n (filter (\<lambda>e. \<not> oe_redis_committed e) fs)))
      (\<lambda>acc. open_within (handled acc \<union> ?X))"
  proof (rule succeeds_conseq[OF reconcile_entries_within[where X = ?X]])
    have "set (open_keys fs) = set (take ?n (open_keys fs)) \<union> ?X"
      by (metis append_take_drop_id set_append)
    then show "open_within (set (keys (take ?n (filter (\<lambda>e. \<not> oe_redis_committed e) fs))) \<union> handled ?acc \<union> ?X) es s"
      if "es = fs" for es s using that by (auto simp: keys_take_open open_within_def)
  qed
  have mid: "succeeds w (open_within (handled acc \<union> ?X))
      (if ra_locally_present acc = [] then sret () else checkpoint_snapshot w)
      (\<lambda>_. open_within (set (keys (ra_applied acc)) \<union> (set (keys (map fst (ra_rejected acc))) \<union> ?X)))" for acc
    using succeeds_if[OF succeeds_basic(1) checkpoint_within]
    by (auto simp: handled_def Un_assoc intro!: succeeds_if succeeds_basic(1) checkpoint_within)
  show ?thesis
    by (intro succeeds_sbind[OF start] succeeds_sbind[OF publish_applied_within] succeeds_sbind[OF mid]
        succeeds_sbind[OF settle_all_within] succeeds_sbind[OF reject_all_within] compacted_then
        succeeds_sbind[OF mirror_open] flags_settled)
qed

lemma reconcile_settled:
  "succeeds w (open_within K) (reconcile_outbox w)
     (\<lambda>_ es s. \<exists>fs. open_within K fs s \<and> distinct (keys fs) \<and>
        settled (set (drop MAX_REPLAY_BATCH (open_keys fs))) es s)"
proof -
  have "succeeds w (\<lambda>es s. fs = es \<and> distinct (keys es) \<and> open_within K es s)
      (if fs = [] then
         modify_state (\<lambda>s. s\<lparr>ci_recovery_replay_committed := False, ci_recovery_uses_local_state := False\<rparr>)
       else sbind (reconcile_entries w \<lparr>ra_applied = [], ra_locally_present = [], ra_rejected = []\<rparr>
                (take MAX_REPLAY_BATCH (filter (\<lambda>e. \<not> oe_redis_committed e) fs))) (\<lambda>acc.
       sbind (publish_applied w acc) (\<lambda>acc.
       sbind (if ra_locally_present acc = [] then sret () else checkpoint_snapshot w) (\<lambda>_.
       sbind (sforM (settle_entry w acc) (ra_applied acc)) (\<lambda>_.
       sbind (sforM (\<lambda>(e, why). on_outbox (reject (w_codec w) (oe_idempotency_key e) why))
                (ra_rejected acc)) (\<lambda>_.
       sbind (on_outbox (pending (w_codec w))) (\<lambda>remaining.
       sbind (on_outbox (compact (w_codec w) remaining)) (\<lambda>_.
       sbind (mirror_committed_outbox w) (\<lambda>_.
       sbind (on_outbox (pending (w_codec w))) (\<lambda>remaining.
       let uses = (\<exists>e\<in>set remaining. \<not> oe_redis_committed e)
       in modify_state (\<lambda>s. s\<lparr>ci_recovery_uses_local_state := uses,
            ci_recovery_replay_committed := (\<not> uses \<and> (\<exists>e\<in>set remaining. oe_redis_committed e))\<rparr>)))))))))))
      (\<lambda>_ es s. \<exists>fs. open_within K fs s \<and> distinct (keys fs) \<and>
        settled (set (drop MAX_REPLAY_BATCH (open_keys fs))) es s)" (is "succeeds w ?A ?m ?B") for fs
  proof (cases "fs = []")
    case True
    then show ?thesis
      by (auto intro!: succeeds_modify exI[of _ "[]"] simp: settled_def open_within_def open_keys_def)
  next
    case False
    show ?thesis
    proof (rule succeedsI)
      fix s es a t
      assume s: "denotes (w_codec w) (ci_outbox s) es" "?A es s" "?m s = (Inr a, t)"
      then have "distinct (keys fs)" by auto
      from reconcile_rest[OF this] s False
      show "\<exists>es1. denotes (w_codec w) (ci_outbox t) es1 \<and> ?B a es1 t"
        by (auto elim!: succeedsD simp: open_within_def)
    qed
  qed
  note rest = this
  show ?thesis
    unfolding reconcile_outbox_def
    by (rule succeeds_sbind[OF replay_within], rule succeeds_sbind[OF mirror_open],
        rule succeeds_sbind[OF succeeds_pending[where B = "\<lambda>fs es s. fs = es \<and> distinct (keys es) \<and> open_within K es s"]],
        simp, rule rest)
qed

end

section \<open>Mirroring\<close>

text \<open>What replaying one committed entry makes of the standby.\<close>

definition replayed :: "('st, 'p, 'c) world \<Rightarrow> 'st \<Rightarrow> outbox_entry \<Rightarrow> 'st" where
  "replayed w st e =
     (case as_object (oe_arguments e) of
        None \<Rightarrow> st | Some arguments \<Rightarrow> snd (w_replay_tool w (oe_name e) arguments st))"

lemma mirror_entry_state:
  "mirror_entry w e s = (Inr a, t) \<Longrightarrow> t = s\<lparr>ci_store := replayed w (ci_store s) e\<rparr>"
  by (auto simp: mirror_entry_def on_standby_def replayed_def sfail_def
      split: option.splits prod.splits sum.splits bool.splits)

lemma mirror_entries_state:
  "mirror_entries w acc es s = (Inr ks, t) \<Longrightarrow>
     ks = acc @ keys es \<and> t = s\<lparr>ci_store := foldl (replayed w) (ci_store s) es\<rparr>"
proof (induction es arbitrary: acc s)
  case (Cons e es)
  then obtain u where "mirror_entry w e s = (Inr (), u)"
      "mirror_entries w (acc @ [oe_idempotency_key e]) es u = (Inr ks, t)"
    by (auto simp: sbind_Inr_iff)
  with Cons.IH mirror_entry_state show ?case by fastforce
qed (auto simp: sret_def)

definition same_but_outbox ::
  "('st, 'p, 'c) coordinator_inner \<Rightarrow> ('st, 'p, 'c) coordinator_inner \<Rightarrow> bool" where
  "same_but_outbox s t \<longleftrightarrow> (\<exists>ob. t = s\<lparr>ci_outbox := ob\<rparr>)"

lemma same_but_outbox_step: "same_but_outbox s t \<Longrightarrow> same_but_outbox s (t\<lparr>ci_outbox := ob\<rparr>)"
  by (auto simp: same_but_outbox_def)

context coordinator_outbox begin

lemma completed_all:
  "succeeds w (\<lambda>es t. es = fs \<and> same_but_outbox s t)
     (sforM (\<lambda>k. on_outbox (complete (w_codec w) k)) ks)
     (\<lambda>_ es t. es = filter (\<lambda>e. oe_idempotency_key e \<notin> set ks) fs \<and> same_but_outbox s t)"
proof -
  let ?A = "\<lambda>rest es t. filter (\<lambda>e. oe_idempotency_key e \<notin> set rest) es =
      filter (\<lambda>e. oe_idempotency_key e \<notin> set ks) fs \<and> same_but_outbox s t"
  have "succeeds w (?A ks) (sforM (\<lambda>k. on_outbox (complete (w_codec w) k)) ks) (\<lambda>_. ?A [])"
    by (rule succeeds_sforM[where A = ?A])
      (auto intro!: succeeds_complete simp: same_but_outbox_step conj_commute)
  then show ?thesis by (rule succeeds_conseq) auto
qed

lemma mirror_exactly:
  assumes "denotes (w_codec w) (ci_outbox s) es" "mirror_committed_outbox w s = (Inr (), t)"
  defines "batch \<equiv> take MAX_REPLAY_BATCH (filter oe_redis_committed es)"
  shows "denotes (w_codec w) (ci_outbox t) (filter (\<lambda>e. oe_idempotency_key e \<notin> set (keys batch)) es) \<and>
    same_but_outbox (s\<lparr>ci_store := foldl (replayed w) (ci_store s) batch\<rparr>) t"
proof -
  obtain fs ob ks u where p: "pending (w_codec w) (ci_outbox s) = (Inr fs, ob)"
      "mirror_entries w [] (take MAX_REPLAY_BATCH (filter oe_redis_committed fs)) (s\<lparr>ci_outbox := ob\<rparr>) = (Inr ks, u)"
      and rest: "sbind (sforM (\<lambda>k. on_outbox (complete (w_codec w) k)) ks) (\<lambda>_.
       sbind (on_outbox (pending (w_codec w))) (\<lambda>remaining. on_outbox (compact (w_codec w) remaining))) u
        = (Inr (), t)"
    using assms(2) by (auto simp: mirror_committed_outbox_def sbind_Inr_iff[of "on_outbox _"]
        sbind_Inr_iff[of "mirror_entries _ _ _"] on_outbox_Inr_iff)
  from pending_denotes[OF assms(1) p(1)] have fs: "fs = es" and d: "denotes (w_codec w) ob es" by auto
  let ?s = "s\<lparr>ci_store := foldl (replayed w) (ci_store s) batch\<rparr>"
  have u: "ks = keys batch" "u = ?s\<lparr>ci_outbox := ob\<rparr>"
    using mirror_entries_state[OF p(2)] by (auto simp: fs batch_def)
  have "succeeds w (\<lambda>fs t. fs = es \<and> same_but_outbox ?s t)
      (sbind (sforM (\<lambda>k. on_outbox (complete (w_codec w) k)) ks) (\<lambda>_.
       sbind (on_outbox (pending (w_codec w))) (\<lambda>remaining. on_outbox (compact (w_codec w) remaining))))
      (\<lambda>_ fs t. fs = filter (\<lambda>e. oe_idempotency_key e \<notin> set ks) es \<and> same_but_outbox ?s t)"
    by (rule succeeds_sbind[OF completed_all]) (auto intro!: succeeds_compacted same_but_outbox_step)
  from succeedsD[OF this _ _ rest] d u show ?thesis
    by (auto simp: same_but_outbox_def)
qed

end

section \<open>Properties\<close>



text \<open>
  C19. The standby mirrors Redis in order. A successful mirroring replays the oldest committed
  operations, at most 64, once each and in the order they were queued, onto the standby, and
  removes exactly these from the outbox; nothing else of the coordinator changes.
\<close>

theorem mirror_exact:
  assumes "outbox_codec (w_codec w)" "denotes (w_codec w) (ci_outbox s) es"
    and "mirror_committed_outbox w s = (Inr (), t)"
  shows "let batch = take MAX_REPLAY_BATCH (filter oe_redis_committed es) in
    ci_store t = foldl (replayed w) (ci_store s) batch \<and>
    denotes (w_codec w) (ci_outbox t) (filter (\<lambda>e. oe_idempotency_key e \<notin> set (keys batch)) es) \<and>
    t = s\<lparr>ci_store := ci_store t, ci_outbox := ci_outbox t\<rparr>"
  using coordinator_outbox.mirror_exactly[OF coordinator_outbox.intro[OF assms(1)] assms(2,3)]
  by (auto simp: same_but_outbox_def Let_def)

theorem mirror_exact_witness:
  "\<exists>t. mirror_committed_outbox toy_world (toy_queued True) = (Inr (), t) \<and> ci_store t = [''old'', ''a'']"
proof -
  have "fst (mirror_committed_outbox toy_world (toy_queued True)) = Inr ()" by code_simp
  then obtain t where t: "mirror_committed_outbox toy_world (toy_queued True) = (Inr (), t)"
    by (cases "mirror_committed_outbox toy_world (toy_queued True)") auto
  have b: "take MAX_REPLAY_BATCH (filter oe_redis_committed [toy_entry CHR ''1'' True]) = [toy_entry CHR ''1'' True]"
    "as_object (oe_arguments (toy_entry CHR ''1'' True)) = Some toy_arguments"
    "oe_name (toy_entry CHR ''1'' True) = ''a''"
    by (simp_all add: MAX_REPLAY_BATCH_def toy_entry_def)
  have "ci_store (toy_queued True) = [''old'']" by code_simp
  moreover have "w_replay_tool toy_world name args st = (Inr JNull, st @ [name])" for name args st
    by (simp add: toy_world_def)
  moreover have "ci_store t = foldl (replayed toy_world) (ci_store (toy_queued True)) [toy_entry CHR ''1'' True]"
    using mirror_exact[OF toy_codec toy_queued_denotes t] unfolding Let_def b(1) by blast
  ultimately show ?thesis using t by (simp add: b(2,3) replayed_def)
qed

end
