(* ===== verification/CoordinatorTools.thy ===== *)
theory CoordinatorTools
  imports CoordinatorReconcile
begin

text \<open>
  One tool call through the coordinator: what an answer promises about the outbox, the
  standby and Redis, and what an error leaves behind.
\<close>

section \<open>Publishing one operation\<close>

lemma publish_local_cases:
  assumes "publish_local_deltas w ops ps s = (r, t)"
  obtains (missing) x where "ci_redis s = None" "r = Inl x" "not_conflict x" "t = s"
  | (failed) c x c' where "ci_redis s = Some c" "r = Inl x" "t = s\<lparr>ci_redis := Some c'\<rparr>"
      "publish_native_deltas (w_env w) (w_exec w) (ci_revision s) (native_deltas (ci_native_cache s) ps) ops c
        = (Inl x, c')"
  | (published) c n c' where "ci_redis s = Some c" "r = Inr ()"
      "t = s\<lparr>ci_redis := Some c', ci_revision := n,
         ci_native_cache := apply_native_cache (ci_native_cache s) ps, ci_last_remote_revision := Some n\<rparr>"
      "publish_native_deltas (w_env w) (w_exec w) (ci_revision s) (native_deltas (ci_native_cache s) ps) ops c
        = (Inr n, c')"
  using assms
  by (auto simp: publish_local_deltas_def on_redis_def map_error_def not_conflict_def
      split: option.splits prod.splits sum.splits)

text \<open>The entries once the operation is queued, and the operation as Redis sees it.\<close>

definition queued :: "string \<Rightarrow> string \<Rightarrow> json_map \<Rightarrow> outbox_entry list \<Rightarrow> outbox_entry list" where
  "queued k name arguments es =
     (if has_key k es then es else es @ [new_entry k name arguments])"

definition tool_operation :: "string \<Rightarrow> string \<Rightarrow> json_map \<Rightarrow> redis_operation" where
  "tool_operation k name arguments =
     \<lparr>op_idempotency_key = k, op_name = name,
      op_workspace = or_default (operation_workspace name arguments)\<rparr>"

definition conflict_error :: backend_tool_error where
  "conflict_error = Execution (SInvalid ''Redis state changed; operation was queued for reconciliation'')"

text \<open>The state after the operation ran: its store is the active one, the entry is queued.\<close>

definition ran ::
  "('st, 'p, 'c) coordinator_inner \<Rightarrow> 'st \<Rightarrow> outbox \<Rightarrow> ('st, 'p, 'c) coordinator_inner" where
  "ran s a ob =
     (case ci_active_store s of
        None \<Rightarrow> s\<lparr>ci_store := a, ci_outbox := ob\<rparr>
      | Some _ \<Rightarrow> s\<lparr>ci_active_store := Some a, ci_outbox := ob\<rparr>)"

lemma ran_simps [simp]:
  "ci_redis (ran s a ob) = ci_redis s" "ci_mode (ran s a ob) = ci_mode s"
  "ci_outbox (ran s a ob) = ob" "ci_revision (ran s a ob) = ci_revision s"
  "ci_native_cache (ran s a ob) = ci_native_cache s" "active_store (ran s a ob) = a"
  "ci_background_standby_sync (ran s a ob) = ci_background_standby_sync s"
  "(ran s a ob)\<lparr>ci_outbox := ob1\<rparr> = ran s a ob1"
  by (auto simp: ran_def active_store_def split: option.split)

lemma on_active_ran:
  "on_active m (s\<lparr>ci_outbox := ob\<rparr>) = (case m (active_store s) of (r, a) \<Rightarrow> (r, ran s a ob))"
  by (auto simp: on_active_def on_standby_def active_store_def ran_def split: option.split prod.split)

lemma exec_error_eq:
  "exec_error m s = (case m (ci_outbox s) of (r, ob) \<Rightarrow> (map_error Execution r, s\<lparr>ci_outbox := ob\<rparr>))"
  by (auto simp: exec_error_def on_outbox_def split: prod.split)

context outbox_codec begin

lemma queued_denotes:
  "denotes codec ob es \<Longrightarrow> append_pending codec (new_entry k name arguments) ob = (Inr (), ob1) \<Longrightarrow>
     denotes codec ob1 (queued k name arguments es)"
  using append_pending_denotes[of ob es "new_entry k name arguments" ob1]
  by (simp add: queued_def new_entry_def)

end

text \<open>After a failed operation its entry is removed, unless the outbox fails.\<close>

definition cleanup ::
  "event_codec \<Rightarrow> string \<Rightarrow> backend_tool_error \<Rightarrow> (('st, 'p, 'c) coordinator_inner, backend_tool_error, json) sm" where
  "cleanup codec k y =
     sbind (exec_error (complete codec k)) (\<lambda>_.
     sbind (exec_error (pending codec)) (\<lambda>remaining.
     sbind (exec_error (compact codec remaining)) (\<lambda>_. sfail y)))"

lemma cleanup_cases:
  assumes "outbox_codec codec" "denotes codec (ci_outbox u) es"
  shows "\<exists>x ob. cleanup codec k y u = (Inl x, u\<lparr>ci_outbox := ob\<rparr>) \<and>
    (denotes codec ob es \<or> denotes codec ob (filter (\<lambda>e. oe_idempotency_key e \<noteq> k) es))"
proof -
  let ?es = "filter (\<lambda>e. oe_idempotency_key e \<noteq> k) es"
  obtain r1 ob1 where c: "complete codec k (ci_outbox u) = (r1, ob1)" by fastforce
  obtain r2 ob2 where p: "pending codec ob1 = (r2, ob2)" by fastforce
  obtain r3 ob3 where q: "compact codec (case r2 of Inr fs \<Rightarrow> fs | Inl _ \<Rightarrow> []) ob2 = (r3, ob3)" by fastforce
  show ?thesis
  proof (cases r1)
    case (Inl x)
    with c outbox_codec.complete_failed[OF assms] show ?thesis
      by (auto simp: cleanup_def sbind_def exec_error_eq map_error_def)
  next
    case (Inr _)
    then have d1: "denotes codec ob1 ?es" using outbox_codec.complete_denotes[OF assms] c by simp
    have d2: "denotes codec ob2 ?es" using d1 pending_files[OF p] denotes_file by metis
    show ?thesis
    proof (cases r2)
      case (Inl x)
      with c Inr p d2 show ?thesis
        by (auto simp: cleanup_def sbind_def exec_error_eq map_error_def)
    next
      case fs: (Inr fs)
      then have fs': "fs = ?es" using outbox_codec.pending_denotes[OF assms(1) d1] p by blast
      have "denotes codec ob3 ?es"
      proof (cases r3)
        case (Inl x)
        then have "ob_file ob3 = ob_file ob2" using q outbox_codec.compact_failed[OF assms(1)] by blast
        with d2 denotes_file show ?thesis by blast
      next
        case (Inr x)
        then have "compact codec ?es ob2 = (Inr (), ob3)" using q fs fs' by simp
        then show ?thesis using outbox_codec.compact_denotes[OF assms(1)] denotes_distinct[OF d2] by blast
      qed
      with c Inr p fs q show ?thesis
        by (auto simp: cleanup_def sbind_def exec_error_eq map_error_def sfail_def split: sum.split)
    qed
  qed
qed

text \<open>The four ways publishing one operation ends, in background mode.\<close>

lemma publish_operation_cases:
  assumes "publish_operation w k name arguments v u = (r, t)" "ci_background_standby_sync u"
    and "outbox_codec (w_codec w)" "denotes (w_codec w) (ci_outbox u) es"
  obtains (fallback) u1 where "r = Inr v" "t = enter_sqlite_fallback w u1"
      "u1 = u \<or> (\<exists>c. u1 = u\<lparr>ci_redis := c\<rparr>)"
  | (conflict) c c' e n ps where "r = Inl conflict_error" "ci_redis u = Some c"
      "t = enter_sqlite_fallback w (u\<lparr>ci_redis := Some c'\<rparr>)"
      "native_projections_for_operation w (active_store u) name arguments = Inr ps"
      "publish_native_deltas (w_env w) (w_exec w) (ci_revision u) (native_deltas (ci_native_cache u) ps)
         [tool_operation k name arguments] c = (Inl (RConflict e n), c')"
  | (published) c n c' ps ob where "ci_redis u = Some c"
      "native_projections_for_operation w (active_store u) name arguments = Inr ps"
      "publish_native_deltas (w_env w) (w_exec w) (ci_revision u) (native_deltas (ci_native_cache u) ps)
         [tool_operation k name arguments] c = (Inr n, c')"
      "t = u\<lparr>ci_redis := Some c', ci_revision := n, ci_outbox := ob,
         ci_native_cache := apply_native_cache (ci_native_cache u) ps, ci_last_remote_revision := Some n\<rparr>"
      "r = Inr v \<and> denotes (w_codec w) ob (map (mark_entry k) es) \<or>
       (\<exists>y. r = Inl (Execution y)) \<and> denotes (w_codec w) ob es"
proof (cases "native_projections_for_operation w (active_store u) name arguments")
  case (Inl x)
  with assms(1) fallback show thesis by (auto simp: publish_operation_def)
next
  case (Inr ps)
  obtain r1 u1 where p: "publish_local_deltas w [tool_operation k name arguments] ps u = (r1, u1)" by fastforce
  show thesis
    using p
  proof (cases rule: publish_local_cases)
    case (missing x)
    with assms(1) Inr p fallback show thesis
      by (auto simp: publish_operation_def tool_operation_def not_conflict_def split: redis_error.splits)
  next
    case (failed c x c')
    show thesis
    proof (cases "\<exists>e n. x = RConflict e n")
      case True
      with failed assms(1) Inr p conflict show thesis
        by (auto simp: publish_operation_def tool_operation_def conflict_error_def)
    next
      case False
      with failed assms(1) Inr p show thesis
        by (intro fallback[of "u\<lparr>ci_redis := Some c'\<rparr>"])
          (auto simp: publish_operation_def tool_operation_def split: redis_error.splits)
    qed
  next
    case pub: (published c n c')
    obtain r2 ob where m: "mark_redis_committed (w_codec w) k (ci_outbox u) = (r2, ob)" by fastforce
    have "t = u\<lparr>ci_redis := Some c', ci_revision := n, ci_outbox := ob,
         ci_native_cache := apply_native_cache (ci_native_cache u) ps, ci_last_remote_revision := Some n\<rparr>
      \<and> (case r2 of Inr _ \<Rightarrow> r = Inr v | Inl y \<Rightarrow> r = Inl (Execution y))"
      using assms(1,2) Inr p pub m
      by (auto simp: publish_operation_def tool_operation_def exec_error_eq sbind_def get_state_def
          sret_def map_error_def split: sum.splits)
    moreover have "denotes (w_codec w) ob (case r2 of Inr _ \<Rightarrow> map (mark_entry k) es | Inl _ \<Rightarrow> es)"
      using outbox_codec.mark_denotes[OF assms(3,4)] outbox_codec.mark_failed[OF assms(3,4)] m
      by (cases r2) auto
    ultimately show thesis
      using published[OF pub(1) Inr pub(4)] by (cases r2) auto
  qed
qed

section \<open>One tool call\<close>

lemma prepare_ok: "coordinator_ok w s \<Longrightarrow> prepare_for_operation w s = s"
  by (auto simp: prepare_for_operation_def coordinator_ok_def)

text \<open>A mutating call, once its key is known, in background mode.\<close>

lemma mutation_cases:
  assumes "execute_tool w name arguments operation s = (r, t)"
    and "outbox_codec (w_codec w)" "coordinator_ok w s" "denotes (w_codec w) (ci_outbox s) es"
    and "is_state_mutating name" "operation_key w name arguments = Inr k" "ci_background_standby_sync s"
  obtains (refused) x ob where "r = Inl (Execution x)" "t = s\<lparr>ci_outbox := ob\<rparr>" "denotes (w_codec w) ob es"
  | (failed) y a x ob where "operation (active_store s) = (Inl y, a)" "t = ran s a ob" "r = Inl x"
      "denotes (w_codec w) ob (queued k name arguments es) \<or>
       denotes (w_codec w) ob (filter (\<lambda>e. oe_idempotency_key e \<noteq> k) (queued k name arguments es))"
  | (local) v a ob where "operation (active_store s) = (Inr v, a)" "ci_mode s = Sqlite" "r = Inr v"
      "t = ran s a ob" "denotes (w_codec w) ob (queued k name arguments es)"
  | (remote) v a ob where "operation (active_store s) = (Inr v, a)" "ci_mode s = Redis"
      "denotes (w_codec w) ob (queued k name arguments es)"
      "publish_operation w k name arguments v (ran s a ob) = (r, t)"
proof -
  note c = assms(2,4)
  obtain r1 ob1 where ap: "append_pending (w_codec w) (new_entry k name arguments) (ci_outbox s) = (r1, ob1)"
    by fastforce
  have run: "execute_mutation w k name arguments operation s = (r, t)"
    using assms(1,5,6) prepare_ok[OF assms(3)] by (simp add: execute_tool_def Let_def)
  show thesis
  proof (cases r1)
    case (Inl x)
    with run ap outbox_codec.append_pending_failed[OF c] show thesis
      by (intro refused[of x ob1]) (auto simp: execute_mutation_def sbind_def exec_error_eq map_error_def)
  next
    case (Inr x)
    then have d: "denotes (w_codec w) ob1 (queued k name arguments es)"
      using outbox_codec.queued_denotes[OF c] ap by simp
    obtain r2 a where op: "operation (active_store s) = (r2, a)" by fastforce
    have act: "on_active operation (s\<lparr>ci_outbox := ob1\<rparr>) = (r2, ran s a ob1)"
      by (simp add: on_active_ran op)
    show thesis
    proof (cases r2)
      case v: (Inr v)
      have res: "(if ci_mode s = Redis then publish_operation w k name arguments v (ran s a ob1)
          else (Inr v, ran s a ob1)) = (r, t)"
        using run ap Inr act v by (simp add: execute_mutation_def sbind_def exec_error_eq map_error_def)
      show thesis
      proof (cases "ci_mode s")
        case Redis
        with res show thesis by (intro remote[OF op[unfolded v] Redis d]) simp
      next
        case Sqlite
        with res show thesis by (intro local[OF op[unfolded v] Sqlite _ _ d]) simp_all
      qed
    next
      case y: (Inl y)
      have run1: "cleanup (w_codec w) k y (ran s a ob1) = (r, t)"
        using run ap Inr act y
        by (simp add: execute_mutation_def cleanup_def sbind_def exec_error_eq map_error_def)
      have d1: "denotes (w_codec w) (ci_outbox (ran s a ob1)) (queued k name arguments es)" using d by simp
      from cleanup_cases[OF assms(2) d1]
      obtain x ob where cl: "cleanup (w_codec w) k y (ran s a ob1) = (Inl x, (ran s a ob1)\<lparr>ci_outbox := ob\<rparr>)"
          and q: "denotes (w_codec w) ob (queued k name arguments es) \<or>
           denotes (w_codec w) ob (filter (\<lambda>e. oe_idempotency_key e \<noteq> k) (queued k name arguments es))"
        by blast
      have "r = Inl x" "t = ran s a ob" using run1 cl by simp_all
      with failed[OF op[unfolded y] _ _ q] show thesis by blast
    qed
  qed
qed

lemma fallback_fields [simp]:
  "ci_mode (enter_sqlite_fallback w s) = Sqlite" "ci_outbox (enter_sqlite_fallback w s) = ci_outbox s"
  "ci_store (enter_sqlite_fallback w s) = fallback_store w s"
  "ci_revision (enter_sqlite_fallback w s) = ci_revision s"
  "ci_redis (enter_sqlite_fallback w s) = None"
  by (simp_all add: fallback_form)

section \<open>The small world, run\<close>

lemma toy_reachable: "coordinator_reachable toy_world toy_open"
  unfolding toy_open_def
  by (rule coordinator_reachable.opened[of _ _ "[]"])
    (auto simp: denotes_def stored_def fold_events_def toy_outbox_def render_events_def)

lemma toy_open_ok: "coordinator_ok toy_world toy_open"
  using toy_reachable by (induction rule: coordinator_reachable.induct) (auto intro: ok_opened ok_step toy_codec)

lemma toy_open_state:
  "ci_redis toy_open \<noteq> None \<and> idle (fst (the (ci_redis toy_open))) \<and>
     ci_background_standby_sync toy_open \<and> ci_revision toy_open = 1 \<and> ci_mode toy_open = Redis"
  by code_simp

definition toy_key :: string where
  "toy_key = toy_digest (CHR ''{'' # ''absorb'')"

lemma toy_mutation:
  "is_state_mutating ''absorb''" "operation_key toy_world ''absorb'' toy_arguments = Inr toy_key"
proof -
  show "is_state_mutating ''absorb''" by code_simp
  show "operation_key toy_world ''absorb'' toy_arguments = Inr toy_key"
    by (simp add: operation_key_def toy_world_def toy_key_def)
qed

lemma toy_run:
  "execute_tool toy_world ''absorb'' toy_arguments (toy_tool ''absorb'') toy_open = (Inr JNull, toy_used)"
  "ci_mode toy_used = Redis"
proof -
  have "(case execute_tool toy_world ''absorb'' toy_arguments (toy_tool ''absorb'') toy_open of
      (Inr v, t) \<Rightarrow> v = JNull \<and> ci_mode t = Redis | _ \<Rightarrow> False)" by code_simp
  then show "execute_tool toy_world ''absorb'' toy_arguments (toy_tool ''absorb'') toy_open = (Inr JNull, toy_used)"
    "ci_mode toy_used = Redis"
    unfolding toy_used_def
    by (cases "execute_tool toy_world ''absorb'' toy_arguments (toy_tool ''absorb'') toy_open"; auto split: sum.splits)+
qed

lemma toy_direct: "redis_client (w_exec toy_world) fst (\<lambda>_. True)"
  by (simp add: toy_world_def direct.redis_client_axioms)

section \<open>Properties\<close>



text \<open>
  C15. An acknowledged mutation is durable. When a mutating tool call returns a value in background
  mode, the operation ran on the active store and its outbox holds the operation's entry
  behind all earlier ones: marked as committed while Redis serves; still open after the call
  ran on, or fell back to, SQLite, whose store then has the operation's effect (after a
  fallback, by the active image).
\<close>

theorem acknowledged_mutation_durable:
  assumes "outbox_codec (w_codec w)" "coordinator_ok w s" "denotes (w_codec w) (ci_outbox s) es"
    and "is_state_mutating name" "operation_key w name arguments = Inr k" "ci_background_standby_sync s"
    and "execute_tool w name arguments operation s = (Inr v, t)"
  shows "\<exists>a. operation (active_store s) = (Inr v, a) \<and>
    (ci_mode t = Redis \<and> ci_active_store t = Some a \<and> ci_store t = ci_store s \<and>
       denotes (w_codec w) (ci_outbox t) (map (mark_entry k) (queued k name arguments es)) \<or>
     ci_mode t = Sqlite \<and> ci_revision t = ci_revision s \<and>
       ci_store t = (case ci_mode s of Sqlite \<Rightarrow> a
         | Redis \<Rightarrow> fallback_store w (s\<lparr>ci_active_store := Some a\<rparr>)) \<and>
       denotes (w_codec w) (ci_outbox t) (queued k name arguments es))"
  using assms(7,1-6)
proof (cases rule: mutation_cases)
  case (local v' a ob)
  then have "ci_active_store s = None" using assms(2) by (auto simp: coordinator_ok_def)
  with local show ?thesis by (simp add: ran_def)
next
  case (remote v' a ob)
  obtain a0 where act: "ci_active_store s = Some a0" using assms(2) remote(2) by (auto simp: coordinator_ok_def)
  have ran: "ran s a ob = s\<lparr>ci_active_store := Some a, ci_outbox := ob\<rparr>" by (simp add: ran_def act)
  have den: "denotes (w_codec w) (ci_outbox (ran s a ob)) (queued k name arguments es)" using remote(3) by simp
  have bg: "ci_background_standby_sync (ran s a ob)" using assms(6) by simp
  from remote(4) bg assms(1) den show ?thesis
  proof (cases rule: publish_operation_cases)
    case (fallback u1)
    then have "fallback_store w u1 = fallback_store w (s\<lparr>ci_active_store := Some a\<rparr>)"
      "ci_outbox u1 = ob" "ci_revision u1 = ci_revision s"
      by (auto simp: fallback_store_def ran split: sum.split)
    with fallback remote show ?thesis by simp
  next
    case (published c n c' ps ob1)
    with remote show ?thesis by (auto simp: ran)
  qed simp
qed simp_all

theorem acknowledged_mutation_durable_witness:
  "\<exists>es. ci_mode toy_used = Redis \<and> ci_active_store toy_used = Some (active_store toy_open @ [''absorb'']) \<and>
     denotes (w_codec toy_world) (ci_outbox toy_used)
       (map (mark_entry toy_key) (queued toy_key ''absorb'' toy_arguments es))"
proof -
  obtain es where es: "denotes (w_codec toy_world) (ci_outbox toy_open) es"
    using toy_open_ok by (auto simp: coordinator_ok_def)
  have "toy_tool ''absorb'' (active_store toy_open) = (Inr JNull, a) \<Longrightarrow> a = active_store toy_open @ [''absorb'']" for a
    by (simp add: toy_tool_def)
  with acknowledged_mutation_durable[OF toy_codec toy_open_ok es toy_mutation _ toy_run(1)] toy_open_state toy_run(2)
  show ?thesis by auto
qed

text \<open>
  C16. A committed mutation is published exactly once. When a mutating call returns a value and the
  coordinator still serves from Redis, then the point updates of the operation, with its
  ledger and marker, were applied to Redis in one transaction at the coordinator's revision,
  nothing else was written by this connection, and revision and cache have advanced by this
  one operation, whatever other clients do.
\<close>

theorem committed_mutation_published:
  assumes "outbox_codec (w_codec w)" "coordinator_ok w s" "ci_redis s = Some c"
    and "redis_client (w_exec w) view synced" "synced c" "idle (view c)"
    and "is_state_mutating name" "operation_key w name arguments = Inr k" "ci_background_standby_sync s"
    and "execute_tool w name arguments operation s = (Inr v, t)" "ci_mode t = Redis"
  shows "\<exists>a ps c' q. operation (active_store s) = (Inr v, a) \<and>
    native_projections_for_operation w a name arguments = Inr ps \<and> ci_redis t = Some c' \<and>
    deltas_queue (w_env w) (ci_revision s) (native_deltas (ci_native_cache s) ps)
      [tool_operation k name arguments] q \<and>
    applied_once (w_env w) (ci_revision s) (journal (view c)) q (view c') \<and> idle (view c') \<and>
    ci_revision t = ci_revision s + 1 \<and> ci_last_remote_revision t = Some (ci_revision s + 1) \<and>
    ci_native_cache t = apply_native_cache (ci_native_cache s) ps"
proof -
  obtain es where es: "denotes (w_codec w) (ci_outbox s) es" using assms(2) by (auto simp: coordinator_ok_def)
  have mode: "ci_mode s = Redis" using assms(2,3) by (auto simp: coordinator_ok_def)
  from assms(10,1,2) es assms(7,8,9) show ?thesis
  proof (cases rule: mutation_cases)
    case (remote v' a ob)
    have den: "denotes (w_codec w) (ci_outbox (ran s a ob)) (queued k name arguments es)" using remote(3) by simp
    have bg: "ci_background_standby_sync (ran s a ob)" using assms(9) by simp
    from remote(4) bg assms(1) den show ?thesis
    proof (cases rule: publish_operation_cases)
      case (fallback u1)
      with assms(11) show ?thesis by simp
    next
      case (published d n c' ps ob1)
      then have "publish_native_deltas (w_env w) (w_exec w) (ci_revision s) (native_deltas (ci_native_cache s) ps)
         [tool_operation k name arguments] c = (Inr n, c')" using assms(3) by simp
      note com = redis_client.triple_Inr[OF assms(4) redis_client.triple_publish_deltas[OF assms(4)] assms(5) _ this,
          of "journal (view c)"]
      from published have v: "v = v'" by auto
      show ?thesis
        using com assms(6) published remote(1)
        by (intro exI[of _ a] exI[of _ ps] exI[of _ c']) (auto simp: v)
    qed simp
  qed (use mode in simp_all)
qed

theorem committed_mutation_published_witness:
  "\<exists>c' q. ci_redis toy_used = Some c' \<and>
     applied_once (w_env toy_world) (ci_revision toy_open) (journal (fst (the (ci_redis toy_open)))) q (fst c') \<and>
     ci_revision toy_used = 2"
proof -
  obtain c where c: "ci_redis toy_open = Some c" "idle (fst c)" using toy_open_state by auto
  from committed_mutation_published[OF toy_codec toy_open_ok c(1) toy_direct TrueI c(2) toy_mutation _ toy_run]
    toy_open_state c(1)
  show ?thesis by auto
qed



text \<open>A tool that fails on the store.\<close>

definition toy_failing :: "(string list, backend_tool_error, json) sm" where
  "toy_failing st = (Inl (InvalidParams ''no''), st)"


text \<open>
  C20. Reads are local. A tool that does not change the state runs on the active store and touches
  neither the outbox nor Redis nor any other field; its result is returned as it is.
\<close>

theorem reads_are_local:
  assumes "coordinator_ok w s" "\<not> is_state_mutating name"
    and "execute_tool w name arguments operation s = (r, t)"
  shows "\<exists>a. operation (active_store s) = (r, a) \<and> t = ran s a (ci_outbox s)"
proof -
  have "on_active operation (s\<lparr>ci_outbox := ci_outbox s\<rparr>) = (r, t)"
    using assms prepare_ok[OF assms(1)] by (simp add: execute_tool_def Let_def)
  then show ?thesis unfolding on_active_ran by (auto split: prod.splits)
qed

text \<open>A tool that reads.\<close>

definition toy_read :: "(string list, backend_tool_error, json) sm" where
  "toy_read st = (Inr JNull, st)"

theorem reads_are_local_witness:
  "\<exists>t. execute_tool toy_world ''get_context'' [] toy_read toy_open = (Inr JNull, t) \<and>
     ci_outbox t = ci_outbox toy_open \<and> ci_redis t = ci_redis toy_open"
proof -
  have m: "\<not> is_state_mutating ''get_context''" by code_simp
  obtain r t where run: "execute_tool toy_world ''get_context'' [] toy_read toy_open = (r, t)" by fastforce
  from reads_are_local[OF toy_open_ok m run] run show ?thesis by (auto simp: toy_read_def)
qed

section \<open>Fallback and the watcher\<close>

text \<open>
  Falling back loses no accounting. Falling back to SQLite keeps the queued operations, the
  revision, and the totals of commands and bytes that the status reports, and reports the
  SQLite backend without a connection.
\<close>

theorem fallback_keeps_status:
  assumes "status w s = (Inr b, s1)" "status w (enter_sqlite_fallback w s) = (Inr b1, s2)"
  shows "bs_metrics b1 = bs_metrics b \<and> bs_outbox_depth b1 = bs_outbox_depth b \<and>
    bs_standby_revision b1 = bs_standby_revision b \<and> bs_sync_ticks b1 = bs_sync_ticks b \<and>
    bs_sync_errors b1 = bs_sync_errors b \<and> bs_backend b1 = Sqlite \<and> \<not> bs_redis_connected b1 \<and>
    bs_redis_revision b1 = None \<and> bs_standby_lag b1 = None"
proof -
  obtain r ob where p: "pending (w_codec w) (ci_outbox s) = (r, ob)" by fastforce
  have sat: "sat_add (sat_add m n) 0 = sat_add m n" for m n by (simp add: sat_add_def)
  have metrics: "add_metrics (fallback_totals w s) default_metrics =
      add_metrics (ci_redis_totals s) (case ci_redis s of None \<Rightarrow> default_metrics | Some c \<Rightarrow> w_metrics w c)"
    by (cases "ci_redis s") (simp_all add: fallback_totals_def add_metrics_def default_metrics_def sat)
  show ?thesis
    using assms metrics p
    by (cases r) (auto simp: status_def fallback_form sbind_def on_outbox_def get_state_def sret_def Let_def)
qed

theorem fallback_keeps_status_witness:
  "\<exists>b b1 s1 s2. status toy_world toy_open = (Inr b, s1) \<and>
     status toy_world (enter_sqlite_fallback toy_world toy_open) = (Inr b1, s2) \<and>
     bs_metrics b1 = bs_metrics b \<and> bs_backend b = Redis \<and> bs_backend b1 = Sqlite"
proof -
  have "(case status toy_world toy_open of (Inr b, _) \<Rightarrow> bs_backend b = Redis | _ \<Rightarrow> False) \<and>
      (case fst (status toy_world (enter_sqlite_fallback toy_world toy_open)) of Inr _ \<Rightarrow> True | _ \<Rightarrow> False)"
    by code_simp
  then obtain b b1 s1 s2 where b: "status toy_world toy_open = (Inr b, s1)" "bs_backend b = Redis"
      "status toy_world (enter_sqlite_fallback toy_world toy_open) = (Inr b1, s2)"
    by (cases "status toy_world toy_open";
        cases "status toy_world (enter_sqlite_fallback toy_world toy_open)") (auto split: sum.splits)
  with fallback_keeps_status[OF b(1,3)] show ?thesis by auto
qed

text \<open>The watcher over many rounds, from the delays the environment configures.\<close>

definition DEFAULT_WATCH_INTERVAL :: nat where "DEFAULT_WATCH_INTERVAL = 5000"
definition MIN_WATCH_INTERVAL :: nat where "MIN_WATCH_INTERVAL = 250"
definition MAX_WATCH_INTERVAL :: nat where "MAX_WATCH_INTERVAL = 60000"
definition DEFAULT_MAX_BACKOFF :: nat where "DEFAULT_MAX_BACKOFF = 60000"

definition watch_interval :: "(string \<Rightarrow> string option) \<Rightarrow> nat" where
  "watch_interval env = configured_duration env ''MEMORY_MCP_REDIS_WATCH_INTERVAL_MS''
     DEFAULT_WATCH_INTERVAL MIN_WATCH_INTERVAL MAX_WATCH_INTERVAL"

definition watch_max_backoff :: "(string \<Rightarrow> string option) \<Rightarrow> nat" where
  "watch_max_backoff env = configured_duration env ''MEMORY_MCP_REDIS_MAX_BACKOFF_MS''
     DEFAULT_MAX_BACKOFF MIN_WATCH_INTERVAL MAX_WATCH_INTERVAL"

fun watcher_loop ::
  "('st, 'p, 'c) world \<Rightarrow> nat \<Rightarrow> nat \<Rightarrow> ((redis_error + 'c option) \<times> nat) list
     \<Rightarrow> ('st, 'p, 'c) coordinator_inner \<times> nat \<Rightarrow> ('st, 'p, 'c) coordinator_inner \<times> nat" where
  "watcher_loop w interval max_backoff [] sd = sd"
| "watcher_loop w interval max_backoff ((found, elapsed) # rounds) sd =
     watcher_loop w interval max_backoff rounds (watcher_round w interval max_backoff found elapsed sd)"

lemma configured_bounds: "lo \<le> dflt \<Longrightarrow> dflt \<le> hi \<Longrightarrow> configured_duration env name dflt lo hi \<in> {lo..hi}"
  by (auto simp: configured_duration_def split: option.split)

lemma watch_config:
  "watch_interval env \<in> {MIN_WATCH_INTERVAL..MAX_WATCH_INTERVAL}"
  "watch_max_backoff env \<in> {MIN_WATCH_INTERVAL..MAX_WATCH_INTERVAL}"
  unfolding watch_interval_def watch_max_backoff_def
  by (rule configured_bounds; simp add: DEFAULT_WATCH_INTERVAL_def DEFAULT_MAX_BACKOFF_def
      MIN_WATCH_INTERVAL_def MAX_WATCH_INTERVAL_def)+

lemma watcher_loop_delay:
  "interval \<in> {lo..hi} \<Longrightarrow> max_backoff \<in> {lo..hi} \<Longrightarrow> snd sd \<in> {lo..hi} \<Longrightarrow>
     snd (watcher_loop w interval max_backoff rounds sd) \<in> {lo..hi}"
proof (induction rounds arbitrary: sd)
  case (Cons x rounds)
  obtain found elapsed where x: "x = (found, elapsed)" by fastforce
  have "snd (watcher_round w interval max_backoff found elapsed sd) \<in> {lo..hi}"
    using Cons.prems by (cases sd) (auto simp: watcher_round_def Let_def split: prod.split sum.split)
  with Cons x show ?case by simp
qed simp

text \<open>
  C21. The watcher's pace is bounded. Whatever the environment configures and however the rounds end,
  every delay of the watcher lies between a quarter of a second and a minute.
\<close>

theorem watcher_delay_bounds:
  "snd (watcher_loop w (watch_interval env) (watch_max_backoff env) rounds (s, watch_interval env))
     \<in> {MIN_WATCH_INTERVAL..MAX_WATCH_INTERVAL}"
  by (rule watcher_loop_delay[OF watch_config]) (simp add: watch_config(1)[simplified])

text \<open>Holding a connection is an invariant of everything the watcher does while Redis serves.\<close>

definition connected :: "('st, 'p, 'c) coordinator_inner \<Rightarrow> bool" where
  "connected s \<longleftrightarrow> ci_mode s = Redis \<and> ci_redis s \<noteq> None"

lemma connected_core: "outbox_codec (w_codec w) \<Longrightarrow> coordinator_core connected w"
  by (intro coordinator_core.intro) (auto simp: connected_def)

interpretation link: coordinator_core connected "w\<lparr>w_codec := ref_codec\<rparr>" for w :: "('st, 'p, 'c) world"
  by (rule connected_core) (simp add: ref.outbox_codec_axioms)

text \<open>
  C22. The watcher never drops a connection. While Redis serves, a round of the watcher does not depend
  on what the environment offers as a new connection, and it keeps its connection and the
  Redis mode whatever errors its commands return: a connection that broke is only given up by
  the next mutating tool call.
\<close>

theorem tick_keeps_connection:
  assumes "outbox_codec (w_codec w)" "ci_mode s = Redis" "ci_redis s \<noteq> None"
  shows "tick w found s = tick w found' s \<and> ci_mode (snd (tick w found s)) = Redis \<and>
    ci_redis (snd (tick w found s)) \<noteq> None"
proof -
  let ?m = "sbind (with_redis (state_revision (w_env w) (w_exec w))) (\<lambda>remote.
       sbind (modify_state (\<lambda>s. s\<lparr>ci_last_remote_revision := Some remote\<rparr>)) (\<lambda>_.
       sbind get_state (\<lambda>s.
       sbind (if remote \<noteq> ci_revision s then sync_from_redis_current w else sret ()) (\<lambda>_.
       sbind (reconcile_outbox w) (\<lambda>_. checkpoint_snapshot_if_due w)))))"
  note core = connected_core[OF assms(1)]
  have tick: "tick w f s = ?m s" for f
    using assms(2,3) by (cases "ci_redis s") (simp_all add: tick_def sbind_def get_state_def)
  have "keeps connected ?m"
    by (intro keeping coordinator_core.keeps_with_redis[OF core] coordinator_core.keeps_sync[OF core]
        coordinator_core.keeps_reconcile[OF core] coordinator_core.keeps_checkpoint_due[OF core])
      (simp add: connected_def)
  with assms(2,3) have "connected (snd (?m s))" unfolding keeps_def connected_def by blast
  then show ?thesis by (simp add: tick connected_def)
qed

theorem tick_keeps_connection_witness:
  "ci_redis (snd (tick toy_world (Inr None) toy_open)) \<noteq> None"
  using tick_keeps_connection[OF toy_codec] toy_open_state by blast

section \<open>A restart\<close>

text \<open>What the watcher's next round makes of a state, and a new process on the same files.\<close>

definition toy_watched ::
  "(string list, unit, server) coordinator_inner \<Rightarrow> (string list, unit, server) coordinator_inner" where
  "toy_watched s = fst (watcher_round toy_world 5000 60000 (Inr None) 7 (s, 5000))"

definition toy_restarted ::
  "(string list, unit, server) coordinator_inner \<Rightarrow> (string list, unit, server) coordinator_inner" where
  "toy_restarted s = open_with_configuration toy_world (ci_store s) (ci_outbox s) True (Inr (ci_redis s))"


end
