(* ===== verification/StoreText.thy ===== *)
theory StoreText
  imports Json Programs
begin

text \<open>
  The text functions of \<open>src/store.rs\<close>: cutting UTF-8 text into chunks and to a size, words, the
  bounds on text, and the emptiness checks of the validators.

  A Rust string is its bytes, and its characters are those of \<open>utf8_chars\<close>. The lemmas show that
  cutting never splits a character: the chunks of a text have the text as their concatenation,
  each is well-formed UTF-8 of at most the requested size, and truncation keeps the longest
  prefix of whole characters within the limit.
\<close>

section \<open>Concatenation of UTF-8\<close>

lemma utf8_conts_True:
  "utf8_conts rs xs n = (True, k) \<longleftrightarrow>
     k = n + length rs
     \<and> list_all2 (\<lambda>r c. fst r \<le> code c \<and> code c \<le> snd r) rs (take (length rs) xs)"
  by (induction rs xs n rule: utf8_conts.induct) auto

definition by_conts :: "(string \<Rightarrow> bool \<times> nat) \<Rightarrow> bool" where
  "by_conts F \<longleftrightarrow> (\<exists>rs. \<forall>cs. F cs = utf8_conts rs cs 1) \<or> (\<forall>cs. F cs = (False, 1))"

lemma by_conts_intros:
  "by_conts (\<lambda>cs. (True, 1))" "by_conts (\<lambda>cs. (False, 1))" "by_conts (\<lambda>cs. utf8_conts rs cs 1)"
  "by_conts F \<Longrightarrow> by_conts G \<Longrightarrow> by_conts (\<lambda>cs. if b then F cs else G cs)"
  unfolding by_conts_def by (metis utf8_conts.simps(1)) auto

lemma utf8_step_lead: "by_conts (\<lambda>cs. utf8_step (c # cs))"
  unfolding utf8_step.simps(2) Let_def by (intro by_conts_intros)

text \<open>Whether a character is complete depends on its own bytes only.\<close>

lemma utf8_step_append:
  assumes "utf8_step (c # xs) = (True, k)"
  shows "utf8_step (c # xs @ ys) = (True, k)" "0 < k" "k \<le> Suc (length xs)"
    "utf8_step (c # take (k - 1) xs) = (True, k)"
proof -
  from utf8_step_lead[of c] assms
  obtain rs where st: "\<And>cs. utf8_step (c # cs) = utf8_conts rs cs 1"
    by (auto simp: by_conts_def)
  from assms have k: "k = Suc (length rs)"
    and ok: "list_all2 (\<lambda>r c. fst r \<le> code c \<and> code c \<le> snd r) rs (take (length rs) xs)"
    by (simp_all add: st utf8_conts_True)
  have len: "length rs \<le> length xs" using list_all2_lengthD[OF ok] by simp
  from len ok show "utf8_step (c # xs @ ys) = (True, k)"
    "utf8_step (c # take (k - 1) xs) = (True, k)"
    by (simp_all add: st utf8_conts_True k)
  from k len show "0 < k" "k \<le> Suc (length xs)" by simp_all
qed

lemma utf8_chunks_append:
  "utf8_valid a \<Longrightarrow> utf8_chunks (a @ b) = utf8_chunks a @ utf8_chunks b"
proof (induction a rule: utf8_chunks.induct)
  case (2 c cs)
  obtain v k where st: "utf8_step (c # cs) = (v, k)" by fastforce
  have v: "v" using 2(2) st by (simp add: utf8_valid_def Let_def)
  have st': "utf8_step (c # cs @ b) = (True, k)" and k: "0 < k" "k \<le> Suc (length cs)"
    using utf8_step_append(1)[of c cs k b] utf8_step_append(2,3)[of c cs k] st v by auto
  have "utf8_valid (drop (k - 1) cs)"
    using 2(2) st by (simp add: utf8_valid_def Let_def)
  then have "utf8_chunks (drop (k - 1) cs @ b) = utf8_chunks (drop (k - 1) cs) @ utf8_chunks b"
    using 2(1)[OF refl] st by simp
  then show ?case using st st' v k by (simp add: Let_def)
qed simp

lemma utf8_chars_append: "utf8_valid a \<Longrightarrow> utf8_chars (a @ b) = utf8_chars a @ utf8_chars b"
  by (simp add: utf8_chars_def utf8_chunks_append)

lemma utf8_valid_append: "utf8_valid a \<Longrightarrow> utf8_valid (a @ b) \<longleftrightarrow> utf8_valid b"
  by (auto simp: utf8_chunks_append utf8_valid_def)

lemma utf8_char_valid:
  "utf8_valid s \<Longrightarrow> c \<in> set (utf8_chars s) \<Longrightarrow> utf8_valid c \<and> utf8_chars c = [c]"
proof (induction s rule: utf8_chunks.induct)
  case (2 a cs)
  obtain v k where st: "utf8_step (a # cs) = (v, k)" by fastforce
  have v: "v" using 2(2) st by (simp add: utf8_valid_def Let_def)
  have rest: "utf8_valid (drop (k - 1) cs)"
    using 2(2) st by (simp add: utf8_valid_def Let_def)
  show ?case
  proof (cases "c \<in> set (utf8_chars (drop (k - 1) cs))")
    case True
    then show ?thesis using 2(1)[OF refl] rest st by simp
  next
    case False
    then have c: "c = a # take (k - 1) cs"
      using 2(3) st by (auto simp: utf8_chars_def Let_def)
    have "utf8_step (a # take (k - 1) cs) = (True, k)" "0 < k"
      using utf8_step_append[of a cs k] st v by auto
    then show ?thesis by (simp add: c utf8_valid_def utf8_chars_def Let_def)
  qed
qed (simp add: utf8_chars_def)

lemma utf8_chars_concat:
  "(\<And>c. c \<in> set cs \<Longrightarrow> utf8_valid c \<and> utf8_chars c = [c]) \<Longrightarrow>
     utf8_valid (concat cs) \<and> utf8_chars (concat cs) = cs"
  by (induction cs) (simp_all add: utf8_valid_append utf8_chars_append, simp add: utf8_valid_def)

lemma concat_chars_valid:
  "utf8_valid s \<Longrightarrow> set cs \<subseteq> set (utf8_chars s) \<Longrightarrow> utf8_valid (concat cs) \<and> utf8_chars (concat cs) = cs"
  using utf8_chars_concat utf8_char_valid by blast

section \<open>Chunks\<close>

fun split_chunks_loop ::
    "nat \<Rightarrow> string list \<Rightarrow> string list \<Rightarrow> string \<Rightarrow> nat \<Rightarrow> store_error + string list \<times> string" where
  "split_chunks_loop max_bytes [] chunks current used = Inr (chunks, current)"
| "split_chunks_loop max_bytes (c # cs) chunks current used =
     (if length c > max_bytes then
        Inl (SInvalid ''chunk size is smaller than one UTF-8 character'')
      else if used > 0 \<and> used + length c > max_bytes then
        split_chunks_loop max_bytes cs (chunks @ [current]) c (length c)
      else split_chunks_loop max_bytes cs chunks (current @ c) (used + length c))"

definition split_utf8_chunks :: "string \<Rightarrow> nat \<Rightarrow> store_error + string list" where
  "split_utf8_chunks content max_bytes =
     (if max_bytes = 0 then Inl (SInvalid ''chunk size must be positive'')
      else rbind (split_chunks_loop max_bytes (utf8_chars content) [] [] 0) (\<lambda>(chunks, current).
        Inr (if current \<noteq> [] \<or> chunks = [] then chunks @ [current] else chunks)))"

text \<open>
  The loop succeeds exactly when no character is larger than the limit; then it keeps the text,
  and its pieces are runs of whole characters within the limit.
\<close>

definition chunks_ok :: "nat \<Rightarrow> string list \<Rightarrow> string list \<Rightarrow> string \<Rightarrow> bool" where
  "chunks_ok max_bytes pre chunks current \<longleftrightarrow>
     (\<exists>css ds. chunks = map concat css \<and> current = concat ds \<and> concat css @ ds = pre)
     \<and> (\<forall>c\<in>set chunks. c \<noteq> [] \<and> length c \<le> max_bytes) \<and> length current \<le> max_bytes"

lemma chunks_ok_push:
  "chunks_ok n pre chunks current \<Longrightarrow> current \<noteq> [] \<Longrightarrow> length c \<le> n \<Longrightarrow>
     chunks_ok n (pre @ [c]) (chunks @ [current]) c"
  unfolding chunks_ok_def
  by (elim conjE exE, intro conjI)
    (rule_tac x = "css @ [ds]" in exI, rule_tac x = "[c]" in exI, auto)

lemma chunks_ok_grow:
  "chunks_ok n pre chunks current \<Longrightarrow> length current + length c \<le> n \<Longrightarrow>
     chunks_ok n (pre @ [c]) chunks (current @ c)"
  unfolding chunks_ok_def
  by (elim conjE exE, intro conjI)
    (rule_tac x = "css" in exI, rule_tac x = "ds @ [c]" in exI, auto)

lemma split_chunks_loop_ok:
  assumes "chunks_ok n pre chunks current"
  shows "if \<exists>c\<in>set cs. length c > n
    then split_chunks_loop n cs chunks current (length current)
           = Inl (SInvalid ''chunk size is smaller than one UTF-8 character'')
    else \<exists>ks k. split_chunks_loop n cs chunks current (length current) = Inr (ks, k)
           \<and> chunks_ok n (pre @ cs) ks k"
  using assms
proof (induction cs arbitrary: pre chunks current)
  case (Cons c cs)
  consider (big) "length c > n"
    | (push) "length c \<le> n" "current \<noteq> []" "length current + length c > n"
    | (grow) "length c \<le> n" "current = [] \<or> length current + length c \<le> n"
    by fastforce
  then show ?case
  proof cases
    case push
    then have eq: "split_chunks_loop n (c # cs) chunks current (length current) =
        split_chunks_loop n cs (chunks @ [current]) c (length c)" by simp
    show ?thesis unfolding eq
      using Cons.IH[of "pre @ [c]" "chunks @ [current]" c] push(1)
        chunks_ok_push[OF Cons.prems push(2,1)] by (auto split: if_splits)
  next
    case grow
    then have eq: "split_chunks_loop n (c # cs) chunks current (length current) =
        split_chunks_loop n cs chunks (current @ c) (length (current @ c))" by auto
    have "chunks_ok n (pre @ [c]) chunks (current @ c)"
      using chunks_ok_grow[of n pre chunks current c] grow Cons.prems by auto
    with grow(1) show ?thesis unfolding eq
      using Cons.IH[of "pre @ [c]" chunks "current @ c"] by (auto split: if_splits)
  qed auto
qed auto

lemma split_utf8_chunks_error:
  "n = 0 \<Longrightarrow> split_utf8_chunks s n = Inl (SInvalid ''chunk size must be positive'')"
  "n > 0 \<Longrightarrow> c \<in> set (utf8_chars s) \<Longrightarrow> length c > n \<Longrightarrow>
     split_utf8_chunks s n = Inl (SInvalid ''chunk size is smaller than one UTF-8 character'')"
  using split_chunks_loop_ok[of n "[]" "[]" "[]" "utf8_chars s"]
  by (auto simp: split_utf8_chunks_def chunks_ok_def split: if_split_asm)

lemma split_utf8_chunks_fit:
  assumes n: "n > 0" and fit: "\<forall>c\<in>set (utf8_chars s). length c \<le> n"
  obtains ks css where "split_utf8_chunks s n = Inr ks" "ks \<noteq> []" "\<forall>k\<in>set ks. length k \<le> n"
    "s \<noteq> [] \<longrightarrow> [] \<notin> set ks" "ks = map concat css" "concat css = utf8_chars s"
proof -
  have ok: "chunks_ok n [] [] []" by (auto simp: chunks_ok_def intro: exI[of _ "[]"])
  note loop = split_chunks_loop_ok[OF ok, where cs = "utf8_chars s"]
  from loop fit obtain ks k where r: "split_chunks_loop n (utf8_chars s) [] [] 0 = Inr (ks, k)"
    and "chunks_ok n (utf8_chars s) ks k" by (auto simp: not_less split: if_splits)
  then obtain css ds where c: "ks = map concat css" "k = concat ds" "concat css @ ds = utf8_chars s"
    and b: "\<forall>c\<in>set ks. c \<noteq> [] \<and> length c \<le> n" "length k \<le> n"
    unfolding chunks_ok_def by blast
  have "[] \<notin> set (concat css @ ds)" unfolding c(3) using utf8_chars_nonempty by blast
  then have ne: "[] \<notin> set ds" by simp
  have ds: "k = [] \<longleftrightarrow> ds = []" unfolding c(2) by (rule concat_nonempty_Nil[OF ne])
  show ?thesis
  proof (cases "k \<noteq> [] \<or> ks = []")
    case True
    have "split_utf8_chunks s n = Inr (ks @ [k])" using n r True by (simp add: split_utf8_chunks_def)
    moreover have "s \<noteq> [] \<longrightarrow> k \<noteq> []" using True c(1,3) ds by (metis concat.simps(1) append_Nil list.map_disc_iff utf8_chars_eq_Nil)
    moreover have "ks @ [k] = map concat (css @ [ds])" "concat (css @ [ds]) = utf8_chars s"
      using c by simp_all
    ultimately show ?thesis using b by (intro that[of "ks @ [k]" "css @ [ds]"]) auto
  next
    case False
    then have "split_utf8_chunks s n = Inr ks" using n r by (simp add: split_utf8_chunks_def)
    moreover have "concat css = utf8_chars s" using c ds False by simp
    ultimately show ?thesis using b c(1) False by (intro that[of ks css]) auto
  qed
qed

record chunk =
  ch_index :: nat
  ch_total :: nat
  ch_content :: string
  ch_byte_size :: nat

definition number_chunks :: "string list \<Rightarrow> chunk list" where
  "number_chunks ks =
     map (\<lambda>(i, k). \<lparr>ch_index = i, ch_total = length ks, ch_content = k, ch_byte_size = length k\<rparr>)
       (enumerate 0 ks)"

section \<open>Truncation\<close>

text \<open>\<open>char_indices()\<close>: the byte offset at which each character starts.\<close>

fun char_offsets :: "nat \<Rightarrow> string list \<Rightarrow> nat list" where
  "char_offsets i [] = []"
| "char_offsets i (c # cs) = i # char_offsets (i + length c) cs"

definition truncate_utf8 :: "string \<Rightarrow> nat \<Rightarrow> string" where
  "truncate_utf8 content max_bytes =
     (if length content \<le> max_bytes then content
      else
        let starts = takeWhile (\<lambda>i. i \<le> max_bytes) (char_offsets 0 (utf8_chars content));
            end = (if starts = [] then 0 else last starts)
        in take end content)"

lemma char_offsets_take:
  "j < length cs \<Longrightarrow> char_offsets i cs ! j = i + length (concat (take j cs))"
proof (induction cs arbitrary: i j)
  case (Cons c cs)
  then show ?case by (cases j) auto
qed simp

lemma length_char_offsets [simp]: "length (char_offsets i cs) = length cs"
  by (induction cs arbitrary: i) auto

lemma take_concat_prefix: "take (length (concat (take j cs))) (concat cs) = concat (take j cs)"
  by (metis append_eq_conv_conj append_take_drop_id concat_append)

lemma length_concat_take_mono: "j \<le> k \<Longrightarrow> length (concat (take j cs)) \<le> length (concat (take k cs))"
proof -
  assume "j \<le> k"
  then have "take k cs = take j cs @ take (k - j) (drop j cs)"
    by (metis le_add_diff_inverse take_add)
  then show ?thesis by simp
qed

text \<open>Truncation keeps the longest run of whole characters within the limit.\<close>

lemma truncate_utf8_prefix:
  assumes long: "length s > n"
  obtains j where "j < length (utf8_chars s)" "truncate_utf8 s n = concat (take j (utf8_chars s))"
    "length (truncate_utf8 s n) \<le> n" "length (concat (take (Suc j) (utf8_chars s))) > n"
proof -
  let ?cs = "utf8_chars s"
  let ?os = "char_offsets 0 ?cs"
  let ?p = "\<lambda>i. i \<le> n"
  define m where "m = length (takeWhile ?p ?os)"
  have ne: "?cs \<noteq> []" using long by auto
  have m0: "m \<noteq> 0"
    using ne by (cases "?cs") (auto simp: m_def)
  have mle: "m \<le> length ?cs"
    using length_takeWhile_le[of ?p ?os] by (simp add: m_def)
  define j where "j = m - 1"
  have j: "j < length ?cs" "j < m" using m0 mle by (auto simp: j_def)
  have tw: "takeWhile ?p ?os ! j = ?os ! j" using j(2) by (simp add: m_def takeWhile_nth)
  have last: "last (takeWhile ?p ?os) = ?os ! j"
    using m0 tw by (simp add: last_conv_nth m_def j_def)
  have "takeWhile ?p ?os ! j \<in> set (takeWhile ?p ?os)" using j(2) by (simp add: m_def)
  then have jn: "?os ! j \<le> n" using tw by (auto dest: set_takeWhileD)
  have off: "?os ! j = length (concat (take j ?cs))" using char_offsets_take[OF j(1)] by simp
  have eq: "truncate_utf8 s n = concat (take j ?cs)"
    using long m0 last off take_concat_prefix[of j ?cs]
    by (simp add: truncate_utf8_def Let_def m_def)
  have over: "length (concat (take (Suc j) ?cs)) > n"
  proof (cases "Suc j < length ?cs")
    case True
    then have "m < length ?os" using m0 by (simp add: j_def)
    then have "\<not> ?p (?os ! m)" using nth_length_takeWhile[of ?p ?os] by (simp add: m_def)
    then show ?thesis using char_offsets_take[OF True, of 0] m0 by (simp add: j_def)
  next
    case False
    then have "take (Suc j) ?cs = ?cs" by simp
    then show ?thesis using long by simp
  qed
  show ?thesis using that[OF j(1) eq _ over] eq jn off by simp
qed

lemma truncate_utf8_le: "length (truncate_utf8 s n) \<le> n"
proof (cases "length s \<le> n")
  case False
  then show ?thesis using truncate_utf8_prefix[of n s] by force
qed (simp add: truncate_utf8_def)

lemma truncate_utf8_idem [simp]: "truncate_utf8 (truncate_utf8 s n) n = truncate_utf8 s n"
  using truncate_utf8_le[of s n] by (simp add: truncate_utf8_def)

lemma truncate_utf8_valid: "utf8_valid s \<Longrightarrow> utf8_valid (truncate_utf8 s n)"
proof (cases "length s \<le> n")
  case False
  assume v: "utf8_valid s"
  from False obtain j where "truncate_utf8 s n = concat (take j (utf8_chars s))"
    using truncate_utf8_prefix[of n s] by auto
  then show ?thesis using concat_chars_valid[OF v set_take_subset] by simp
qed (simp add: truncate_utf8_def)

section \<open>Words and names\<close>

text \<open>\<open>split_whitespace()\<close>: the maximal runs of characters that are not white space.\<close>

definition split_whitespace :: "string \<Rightarrow> string list" where
  "split_whitespace s =
     (let (ws, w) = foldl (\<lambda>(ws, w) c.
            if is_ws c then (if w = [] then ws else ws @ [w], []) else (ws, w @ c))
          ([], []) (utf8_chars s)
      in if w = [] then ws else ws @ [w])"

fun join :: "string \<Rightarrow> string list \<Rightarrow> string" where
  "join d [] = []"
| "join d [s] = s"
| "join d (s # t # ss) = s @ d @ join d (t # ss)"

text \<open>The query for the full-text index: every word quoted, all of them required.\<close>

definition fts_query :: "string \<Rightarrow> string" where
  "fts_query q =
     join '' AND '' (map (\<lambda>t. [CHR 0x22] @ filter (\<lambda>c. c \<noteq> CHR 0x22) t @ [CHR 0x22])
       (split_whitespace q))"

section \<open>Limits and checks\<close>

definition MAX_FACT_TEXT_CHARS :: nat where "MAX_FACT_TEXT_CHARS = 16 * 1024"
definition DEFAULT_CONTEXT_MAX_BYTES :: nat where "DEFAULT_CONTEXT_MAX_BYTES = 4 * 1024 * 1024"
definition MAX_CONTEXT_MAX_BYTES :: nat where "MAX_CONTEXT_MAX_BYTES = 16 * 1024 * 1024"
definition MAX_EVENT_PAYLOAD_BYTES :: nat where "MAX_EVENT_PAYLOAD_BYTES = 16 * 1024"
definition MAX_EVENT_METADATA_BYTES :: nat where "MAX_EVENT_METADATA_BYTES = 16 * 1024"
definition MAX_RUN_FILES_BYTES :: nat where "MAX_RUN_FILES_BYTES = 64 * 1024"
definition MAX_RUN_DIFF_BYTES :: nat where "MAX_RUN_DIFF_BYTES = 128 * 1024"

definition require :: "bool \<Rightarrow> string \<Rightarrow> store_error + unit" where
  "require b message = rguard b (SInvalid message)"

lemma require_Inr_iff [simp, res_inv]: "require b m = Inr u \<longleftrightarrow> b"
  by (simp add: require_def rguard_def)

lemma require_simps [simp, res_simps]:
  "require True m = Inr ()" "require False m = Inl (SInvalid m)"
  by (simp_all add: require_def)

definition not_empty :: "string \<times> string \<Rightarrow> store_error + unit" where
  "not_empty p = require (\<not> blank (fst p)) (snd p @ '' must not be empty'')"

lemma not_empty_Inr_iff [res_inv]: "not_empty p = Inr u \<longleftrightarrow> \<not> blank (fst p)"
  by (simp add: not_empty_def)

definition validate_fact_text :: "string \<Rightarrow> store_error + unit" where
  "validate_fact_text text =
     rbind (require (\<not> blank text) ''fact text must not be empty'') (\<lambda>_.
     require (length (utf8_chars text) \<le> MAX_FACT_TEXT_CHARS)
       (''fact text exceeds the configured limit ('' @ dec_nat MAX_FACT_TEXT_CHARS
          @ '' characters)''))"

definition validate_workspace :: "string \<Rightarrow> store_error + unit" where
  "validate_workspace ident = require (\<not> blank ident) ''workspace id must not be empty''"

definition validate_graph_workspace :: "string \<Rightarrow> store_error + unit" where
  "validate_graph_workspace workspace =
     require (str_trim workspace = workspace)
       ''graph workspace must not have surrounding whitespace''"

definition validate_context_workspace :: "string \<Rightarrow> store_error + unit" where
  "validate_context_workspace workspace =
     require (\<not> blank workspace) ''context operations require a non-empty workspace''"

definition validate_context ::
    "string \<Rightarrow> string \<Rightarrow> string \<Rightarrow> string option \<Rightarrow> store_error + unit" where
  "validate_context reference name workspace expires_at =
     rbind (validate_context_workspace workspace) (\<lambda>_.
     rbind (require (\<not> blank reference) ''context ref must not be empty'') (\<lambda>_.
     rbind (require (\<not> blank name) ''context name must not be empty'') (\<lambda>_.
     require (case expires_at of None \<Rightarrow> True | Some v \<Rightarrow> \<not> blank v)
       ''context expiry must not be empty'')))"

definition validate_run_key :: "string \<Rightarrow> string \<Rightarrow> store_error + unit" where
  "validate_run_key run_id workspace =
     rbind (validate_graph_workspace workspace) (\<lambda>_.
     require (\<not> blank run_id) ''run_id must not be empty'')"

text \<open>
  \<open>MEMORY_MCP_CONTEXT_MAX_BYTES\<close> as the operating system gives it: bytes, which need not be UTF-8.
\<close>

definition configured_context_max_bytes :: "string option \<Rightarrow> store_error + nat" where
  "configured_context_max_bytes var =
     (case var of
        None \<Rightarrow> Inr DEFAULT_CONTEXT_MAX_BYTES
      | Some v \<Rightarrow>
          if \<not> utf8_valid v
          then Inl (SInvalid ''MEMORY_MCP_CONTEXT_MAX_BYTES must be valid UTF-8'')
          else (case parse_unsigned u64_max v of
              None \<Rightarrow> Inl (SInvalid ''MEMORY_MCP_CONTEXT_MAX_BYTES must be a positive integer'')
            | Some n \<Rightarrow>
                if 1 \<le> n \<and> n \<le> MAX_CONTEXT_MAX_BYTES then Inr n
                else Inl (SInvalid (''MEMORY_MCP_CONTEXT_MAX_BYTES must be between 1 and ''
                       @ dec_nat MAX_CONTEXT_MAX_BYTES))))"

lemma configured_context_max_bytes_le:
  "configured_context_max_bytes v = Inr n \<Longrightarrow> 1 \<le> n \<and> n \<le> MAX_CONTEXT_MAX_BYTES"
  by (auto simp: configured_context_max_bytes_def DEFAULT_CONTEXT_MAX_BYTES_def
      MAX_CONTEXT_MAX_BYTES_def split: option.splits if_splits)

end
