(* ===== verification/StoreBase.thy ===== *)
theory StoreBase
  imports StoreText
begin

text \<open>
  The database of \<open>src/store.rs\<close>: the tables of its schema as lists of rows in the order of
  their keys, what the source uses of SQLite's functions, statements and constraints, and the
  environment of a call.

  Each SQL statement of the source becomes an operation on these lists: \<open>WHERE\<close> is a filter,
  \<open>ORDER BY\<close> the order of the rows, \<open>INSERT\<close> appends a row unless a unique or foreign key refuses
  it. The functions of SQLite that depend on the clock and on its full-text index, SHA-256,
  serde_json and the Unicode tables are in the environment of a call, and the clock stands still
  during a call. A database that refuses a statement for reasons outside these tables (a full
  disk, a lock, a limit of SQLite) is not modelled. Columns that no operation reads are left out.
\<close>

section \<open>Floating point\<close>

text \<open>An \<open>f64\<close> as far as the store looks at it.\<close>

datatype f64 = Finite rat | NegZero | PosInf | NegInf | NotANumber

fun f64_rat :: "f64 \<Rightarrow> rat option" where
  "f64_rat (Finite r) = Some r"
| "f64_rat NegZero = Some 0"
| "f64_rat _ = None"

definition is_finite :: "f64 \<Rightarrow> bool" where
  "is_finite x \<longleftrightarrow> f64_rat x \<noteq> None"

definition in_unit :: "f64 \<Rightarrow> bool" where
  "in_unit x = (case f64_rat x of None \<Rightarrow> False | Some r \<Rightarrow> 0 \<le> r \<and> r \<le> 1)"

text \<open>\<open>==\<close> on \<open>f64\<close> (\<open>to_bits\<close> equality is equality of the datatype).\<close>

definition f64_eq :: "f64 \<Rightarrow> f64 \<Rightarrow> bool" where
  "f64_eq x y \<longleftrightarrow>
     x \<noteq> NotANumber \<and> (x = y \<or> (f64_rat x \<noteq> None \<and> f64_rat x = f64_rat y))"

section \<open>SQLite\<close>

text \<open>The next \<open>INTEGER PRIMARY KEY\<close>: one more than the largest, 1 in an empty table.\<close>

definition next_id :: "int list \<Rightarrow> int" where
  "next_id ids = foldr max ids 0 + 1"

text \<open>\<open>lower()\<close> and \<open>LIKE\<close> fold ASCII letters only.\<close>

definition sql_lower_char :: "char \<Rightarrow> char" where
  "sql_lower_char c = (if 65 \<le> code c \<and> code c \<le> 90 then char_of (code c + 32) else c)"

definition sql_lower :: "string \<Rightarrow> string" where
  "sql_lower s = map sql_lower_char s"

text \<open>\<open>instr(x, y) > 0\<close>.\<close>

fun sql_instr :: "string \<Rightarrow> string \<Rightarrow> bool" where
  "sql_instr s p = (take (length p) s = p \<or> (case s of [] \<Rightarrow> False | _ # t \<Rightarrow> sql_instr t p))"

declare sql_instr.simps [simp del]

function like_chars :: "string list \<Rightarrow> string list \<Rightarrow> bool" where
  "like_chars [] cs = (cs = [])"
| "like_chars (p # ps) cs =
     (if p = ''%'' then
        like_chars ps cs \<or> (case cs of [] \<Rightarrow> False | _ # t \<Rightarrow> like_chars (p # ps) t)
      else
        (case cs of
           [] \<Rightarrow> False
         | c # t \<Rightarrow> (p = ''_'' \<or> sql_lower p = sql_lower c) \<and> like_chars ps t))"
  by pat_completeness auto
termination by (relation "measure (\<lambda>(ps, cs). length ps + length cs)") auto

text \<open>\<open>x LIKE y\<close>; both are read up to their first zero byte.\<close>

definition c_string :: "string \<Rightarrow> string" where
  "c_string s = takeWhile (\<lambda>c. code c \<noteq> 0) s"

definition sql_like :: "string \<Rightarrow> string \<Rightarrow> bool" where
  "sql_like x y \<longleftrightarrow> like_chars (utf8_chars (c_string y)) (utf8_chars (c_string x))"

definition like_pattern :: "string \<Rightarrow> string" where
  "like_pattern q = ''%'' @ q @ ''%''"

text \<open>\<open>LIMIT ?\<close> bound to a \<open>usize\<close> cast to \<open>i64\<close>: a negative limit is none.\<close>

definition sql_limit :: "nat \<Rightarrow> 'a list \<Rightarrow> 'a list" where
  "sql_limit n rows = (if n < 2 ^ 63 then take n rows else rows)"

text \<open>A real that is a whole number is stored as an integer, so the sign of zero is lost.\<close>

fun sql_real :: "f64 \<Rightarrow> f64" where
  "sql_real NegZero = Finite 0"
| "sql_real x = x"

lemma f64_rat_sql_real [simp]: "f64_rat (sql_real x) = f64_rat x"
  by (cases x) simp_all

lemma f64_eq_sql_real: "is_finite x \<Longrightarrow> f64_eq (sql_real x) x"
  by (cases x) (simp_all add: f64_eq_def is_finite_def)

text \<open>\<open>(workspace_id = '' OR workspace_id = ?)\<close>: the shared pool and the workspace.\<close>

definition in_scope :: "string \<Rightarrow> string \<Rightarrow> bool" where
  "in_scope workspace w \<longleftrightarrow> w = [] \<or> w = workspace"

text \<open>
  What a call depends on besides the tables: \<open>sha256\<close>, \<open>CURRENT_TIMESTAMP\<close>, \<open>julianday(x)\<close>,
  \<open>julianday('now')\<close>, \<open>datetime('now', m)\<close>, whether the full-text index matches a query to a
  text, Unicode lower case and letters, and the process environment.
\<close>

record store_env =
  se_sha256 :: "string \<Rightarrow> string"
  se_now :: string
  se_julian :: "string \<Rightarrow> rat option"
  se_julian_now :: rat
  se_datetime :: "string \<Rightarrow> string option"
  se_fts :: "string \<Rightarrow> string \<Rightarrow> bool"
  se_lowercase :: "string \<Rightarrow> string"
  se_alphanumeric :: "string \<Rightarrow> bool"
  se_aliases_text :: "string list \<Rightarrow> string"
  se_aliases :: "string \<Rightarrow> string list"
  se_var :: "string \<Rightarrow> string option"

section \<open>The tables\<close>

record fact =
  fa_id :: int
  fa_text :: string
  fa_sha256 :: string
  fa_workspace :: string
  fa_lifecycle :: string
  fa_source :: string
  fa_project :: string
  fa_domain :: string
  fa_trust :: string
  fa_strong :: bool
  fa_importance :: f64
  fa_category_id :: "int option"
  fa_validity :: string
  fa_session_id :: string
  fa_access_count :: int

record fact_row = fact +
  fa_invalid_at :: string
  fa_superseded_by :: "int option"
  fa_confirmed :: bool
  fa_updated_at :: string
  fa_archived :: bool
  fa_created_at :: string

record fact_history =
  fh_id :: int
  fh_fact_id :: int
  fh_event :: string
  fh_from_lifecycle :: string
  fh_to_lifecycle :: string
  fh_note :: string
  fh_workspace :: string
  fh_created_at :: string

record category =
  ca_id :: int
  ca_name :: string
  ca_workspace :: string
  ca_created_at :: string

record run =
  ru_id :: int
  ru_run_id :: string
  ru_issue_ref :: string
  ru_pr_ref :: string
  ru_session :: string
  ru_git_ref :: string
  ru_files :: string
  ru_diff :: string
  ru_summary :: string
  ru_state :: string
  ru_workspace :: string
  ru_created_at :: string
  ru_ended_at :: "string option"

record measurement =
  me_id :: int
  me_measurement :: string
  me_sample :: string
  me_variant :: string
  me_value :: f64
  me_baseline :: bool
  me_workspace :: string
  me_created_at :: string

record feedback =
  fe_id :: int
  fe_feedback_id :: string
  fe_site :: string
  fe_item_type :: string
  fe_item_ref :: string
  fe_signal :: string
  fe_query_hash :: string
  fe_workspace :: string
  fe_created_at :: string

record context_row =
  cx_reference :: string
  cx_name :: string
  cx_content :: string
  cx_sha256 :: string
  cx_workspace :: string
  cx_schema :: string
  cx_source :: string
  cx_expires_at :: "string option"
  cx_byte_size :: int

record context_lineage =
  cl_parent :: string
  cl_child :: string
  cl_relation :: string
  cl_workspace :: string

record lifecycle_event =
  ev_id :: int
  ev_idempotency_key :: string
  ev_event_type :: string
  ev_context_reference :: string
  ev_metadata :: string
  ev_payload_sha256 :: string
  ev_payload_size :: int
  ev_payload_truncated :: bool
  ev_workspace :: string
  ev_created_at :: string

record handoff =
  ho_id :: int
  ho_idempotency_key :: string
  ho_context_reference :: string
  ho_owner :: string
  ho_session :: string
  ho_source :: string
  ho_workspace :: string
  ho_shared :: bool
  ho_expires_at :: "string option"
  ho_state :: string
  ho_accepted_at :: "string option"
  ho_accepted_by :: "string option"
  ho_cancelled_at :: "string option"
  ho_cancelled_by :: "string option"
  ho_created_at :: string

record workspace_row =
  ws_id :: string
  ws_status :: string

record entity =
  en_id :: int
  en_name :: string
  en_canonical_name :: string
  en_entity_type :: string
  en_aliases :: "string list"
  en_workspace :: string

record entity_row =
  er_id :: int
  er_name :: string
  er_canonical_name :: string
  er_entity_type :: string
  er_aliases :: string
  er_workspace :: string

record relation =
  re_id :: int
  re_subject_id :: int
  re_predicate :: string
  re_object_id :: int
  re_source_fact_id :: "int option"
  re_workspace :: string

record candidate =
  rc_id :: int
  rc_subject :: string
  rc_subject_entity_id :: "int option"
  rc_predicate :: string
  rc_object :: string
  rc_object_entity_id :: "int option"
  rc_relation_type :: string
  rc_direction :: string
  rc_score :: f64
  rc_confidence :: f64
  rc_source_fact_id :: "int option"
  rc_target_fact_id :: "int option"
  rc_source_evidence_id :: "int option"
  rc_target_evidence_id :: "int option"
  rc_provenance :: string
  rc_status :: string
  rc_relation_id :: "int option"
  rc_reviewer :: string
  rc_review_note :: string
  rc_workspace :: string
  rc_created_at :: string
  rc_updated_at :: string

record candidate_row = candidate +
  rc_key :: string

record relation_candidate = candidate +
  rc_source_evidence_status :: string
  rc_target_evidence_status :: string
  rc_evidence_status :: string

record decision =
  de_id :: int
  de_category :: string
  de_subject :: string
  de_scenario :: string
  de_reasoning :: string
  de_outcome :: string
  de_confidence :: "f64 option"
  de_decision_maker :: string
  de_issue_ref :: string
  de_path :: string
  de_symbol :: string
  de_parent_id :: "int option"
  de_workspace :: string

record evidence =
  ee_id :: int
  ee_fact_id :: int
  ee_source_ref :: string
  ee_source :: string
  ee_checksum :: string
  ee_fetched_at :: "string option"
  ee_repository_ref :: string
  ee_path :: string
  ee_symbol :: string
  ee_line_start :: "int option"
  ee_line_end :: "int option"
  ee_column_start :: "int option"
  ee_column_end :: "int option"
  ee_selected_text_sha256 :: string
  ee_resolution_status :: string
  ee_workspace :: string
  ee_created_at :: string

text \<open>The vector of a fact: the little-endian bytes of its \<open>f32\<close> values.\<close>

record fact_embedding_row =
  fb_fact_id :: int
  fb_vector :: string
  fb_model :: string

record store_db =
  db_facts :: "fact_row list"
  db_history :: "fact_history list"
  db_embeddings :: "fact_embedding_row list"
  db_categories :: "category list"
  db_runs :: "run list"
  db_measurements :: "measurement list"
  db_feedback :: "feedback list"
  db_contexts :: "context_row list"
  db_lineage :: "context_lineage list"
  db_events :: "lifecycle_event list"
  db_handoffs :: "handoff list"
  db_entities :: "entity_row list"
  db_relations :: "relation list"
  db_candidates :: "candidate_row list"
  db_decisions :: "decision list"
  db_evidence :: "evidence list"
  db_workspaces :: "workspace_row list"

text \<open>The tables that \<open>migrate\<close> creates in a new database.\<close>

definition empty_db :: store_db where
  "empty_db = \<lparr>db_facts = [], db_history = [], db_embeddings = [], db_categories = [],
     db_runs = [], db_measurements = [], db_feedback = [], db_contexts = [], db_lineage = [],
     db_events = [], db_handoffs = [], db_entities = [], db_relations = [], db_candidates = [],
     db_decisions = [], db_evidence = [], db_workspaces = []\<rparr>"

section \<open>Statements\<close>

text \<open>
  \<open>SELECT\<close> of every row and of the first one (\<open>query_row(...).optional()\<close>), \<open>INSERT\<close> with its
  unique key (\<open>clash\<close>) and foreign keys (\<open>fk\<close>), \<open>INSERT OR IGNORE\<close>, which ignores the unique keys
  only, and \<open>UPDATE\<close>.
\<close>

definition sql_select :: "('s \<Rightarrow> 'r list) \<Rightarrow> ('r \<Rightarrow> bool) \<Rightarrow> ('s, 'e, 'r list) sm" where
  "sql_select get p s = (Inr (filter p (get s)), s)"

definition sql_first :: "('s \<Rightarrow> 'r list) \<Rightarrow> ('r \<Rightarrow> bool) \<Rightarrow> ('s, 'e, 'r option) sm" where
  "sql_first get p s = (Inr (find p (get s)), s)"

definition sql_insert ::
    "('s \<Rightarrow> 'r list) \<Rightarrow> (('r list \<Rightarrow> 'r list) \<Rightarrow> 's \<Rightarrow> 's) \<Rightarrow> ('r \<Rightarrow> 'r \<Rightarrow> bool) \<Rightarrow> ('s \<Rightarrow> 'r \<Rightarrow> bool) \<Rightarrow>
     ('r list \<Rightarrow> 'r) \<Rightarrow> ('s, store_error, unit) sm" where
  "sql_insert get upd clash fk row s =
     (let r = row (get s) in
      if list_ex (clash r) (get s) then (Inl (SSql ''UNIQUE constraint failed''), s)
      else if \<not> fk s r then (Inl (SSql ''FOREIGN KEY constraint failed''), s)
      else (Inr (), upd (\<lambda>rows. rows @ [r]) s))"

definition sql_insert_or_ignore ::
    "('s \<Rightarrow> 'r list) \<Rightarrow> (('r list \<Rightarrow> 'r list) \<Rightarrow> 's \<Rightarrow> 's) \<Rightarrow> ('r \<Rightarrow> 'r \<Rightarrow> bool) \<Rightarrow> ('s \<Rightarrow> 'r \<Rightarrow> bool) \<Rightarrow>
     ('r list \<Rightarrow> 'r) \<Rightarrow> ('s, store_error, unit) sm" where
  "sql_insert_or_ignore get upd clash fk row s =
     (let r = row (get s) in
      if list_ex (clash r) (get s) then (Inr (), s)
      else if \<not> fk s r then (Inl (SSql ''FOREIGN KEY constraint failed''), s)
      else (Inr (), upd (\<lambda>rows. rows @ [r]) s))"

definition update_rows :: "('r \<Rightarrow> bool) \<Rightarrow> ('r \<Rightarrow> 'r) \<Rightarrow> 'r list \<Rightarrow> 'r list" where
  "update_rows p f rows = map (\<lambda>r. if p r then f r else r) rows"

definition sql_update ::
    "(('r list \<Rightarrow> 'r list) \<Rightarrow> 's \<Rightarrow> 's) \<Rightarrow> ('r \<Rightarrow> bool) \<Rightarrow> ('r \<Rightarrow> 'r) \<Rightarrow> ('s, 'e, unit) sm" where
  "sql_update upd p f s = (Inr (), upd (update_rows p f) s)"

definition no_fk :: "'s \<Rightarrow> 'r \<Rightarrow> bool" where
  "no_fk s r \<longleftrightarrow> True"

text \<open>\<open>row.ok_or_else(...)\<close> after an insertion.\<close>

definition readable :: "string \<Rightarrow> 'r option \<Rightarrow> ('s, store_error, 'r) sm" where
  "readable what r =
     (case r of
        None \<Rightarrow> sfail (SInvalid (what @ '' did not produce a readable row''))
      | Some x \<Rightarrow> sret x)"

lemmas sql_simps = sql_select_def sql_first_def sql_insert_def sql_insert_or_ignore_def
  sql_update_def no_fk_def readable_def

named_theorems sql_run "evaluation of programs of statements at a state"

lemma sbind_statements [sql_run]:
  "sbind (sql_select get p) k1 s = k1 (filter p (get s)) s"
  "sbind (sql_first get p) k2 s = k2 (find p (get s)) s"
  "sbind (sql_update upd p g) h s = h () (upd (update_rows p g) s)"
  "sbind (sql_insert get upd clash fk row) h s =
     (if list_ex (clash (row (get s))) (get s) then (Inl (SSql ''UNIQUE constraint failed''), s)
      else if \<not> fk s (row (get s)) then (Inl (SSql ''FOREIGN KEY constraint failed''), s)
      else h () (upd (\<lambda>rows. rows @ [row (get s)]) s))"
  "sbind (sql_insert_or_ignore get upd clash fk row) h s =
     (if list_ex (clash (row (get s))) (get s) then h () s
      else if \<not> fk s (row (get s)) then (Inl (SSql ''FOREIGN KEY constraint failed''), s)
      else h () (upd (\<lambda>rows. rows @ [row (get s)]) s))"
  "sbind (modify_state g') h s = h () (g' s)"
  "sbind get_state k s = k s s"
  by (simp_all add: sbind_def sql_simps Let_def modify_state_def get_state_def)

lemma sql_values [sql_run]:
  "sql_select get p s = (Inr (filter p (get s)), s)"
  "sql_first get p s = (Inr (find p (get s)), s)"
  "readable w (Some r) s = (Inr r, s)" "readable w (Some r) = sret r"
  by (simp_all add: sql_simps sret_def)

lemma apply_branches [sql_run]:
  "(if b then m else n) s = (if b then m s else n s)"
  "(case v of None \<Rightarrow> m | Some x \<Rightarrow> k x) s = (case v of None \<Rightarrow> m s | Some x \<Rightarrow> k x s)"
  "(case v of Some x \<Rightarrow> k x | None \<Rightarrow> m) s = (case v of None \<Rightarrow> m s | Some x \<Rightarrow> k x s)"
  "sbind (if b then m else n) h s = (if b then sbind m h s else sbind n h s)"
  by (simp_all split: option.split)

lemma keeps_reads [keeping]: "keeps P (sql_select get p)" "keeps P (sql_first get p)"
  "keeps P (readable w r)"
  by (auto simp: keeps_def sql_simps sfail_def sret_def split: option.splits)

lemma keeps_sql_insert:
  assumes "\<And>s r. P s \<Longrightarrow> r = row (get s) \<Longrightarrow> \<not> list_ex (clash r) (get s) \<Longrightarrow> fk s r \<Longrightarrow>
      P (upd (\<lambda>rows. rows @ [r]) s)"
  shows "keeps P (sql_insert get upd clash fk row)"
    "keeps P (sql_insert_or_ignore get upd clash fk row)"
  using assms by (auto simp: keeps_def sql_simps Let_def)

lemma keeps_sql_update:
  "(\<And>s. P s \<Longrightarrow> P (upd (update_rows p f) s)) \<Longrightarrow> keeps P (sql_update upd p f)"
  by (simp add: keeps_def sql_simps)

section \<open>Keyed tables\<close>

definition keyed :: "('r \<Rightarrow> int) \<Rightarrow> ('r \<Rightarrow> 'k) \<Rightarrow> 'r list \<Rightarrow> bool" where
  "keyed rid key rows \<longleftrightarrow>
     sorted_wrt (<) (map rid rows) \<and> (\<forall>r\<in>set rows. 0 < rid r) \<and> distinct (map key rows)"

named_theorems tables "keyed tables and the statements that change them"

lemma next_id_gt: "i \<in> set ids \<Longrightarrow> i < next_id ids" "0 < next_id ids"
proof -
  have a: "i \<in> set ids \<Longrightarrow> i \<le> foldr max ids 0" for i by (induction ids) auto
  have b: "0 \<le> foldr max ids (0::int)" by (induction ids) auto
  show "i \<in> set ids \<Longrightarrow> i < next_id ids" "0 < next_id ids"
    using a[of i] b by (simp_all add: next_id_def)
qed

lemma keyed_Nil [tables]: "keyed rid key []"
  by (simp add: keyed_def)

lemma keyed_append:
  assumes "keyed rid key rows" "rid r = next_id (map rid rows)" "key r \<notin> key ` set rows"
  shows "keyed rid key (rows @ [r])"
  using assms next_id_gt(1)[of _ "map rid rows"] next_id_gt(2)[of "map rid rows"]
  by (auto simp: keyed_def sorted_wrt_append)

lemma keyed_update:
  assumes "keyed rid key rows" "\<And>r. rid (f r) = rid r" "\<And>r. key (f r) = key r"
  shows "keyed rid key (update_rows p f rows)"
proof -
  have "map rid (update_rows p f rows) = map rid rows" "map key (update_rows p f rows) = map key rows"
    using assms(2,3) by (simp_all add: update_rows_def)
  moreover have "\<forall>r\<in>set (update_rows p f rows). 0 < rid r"
    using assms(1,2) by (auto simp: keyed_def update_rows_def)
  ultimately show ?thesis using assms(1) by (simp add: keyed_def)
qed

lemma keyed_filter [tables]: "keyed rid key rows \<Longrightarrow> keyed rid key (filter p rows)"
  by (auto simp: keyed_def sorted_wrt_map sorted_wrt_filter distinct_map_filter)

lemma keyed_unique: "keyed rid key rows \<Longrightarrow> r \<in> set rows \<Longrightarrow> t \<in> set rows \<Longrightarrow> key r = key t \<Longrightarrow> r = t"
  by (auto simp: keyed_def distinct_map inj_on_def)

lemma keyed_unique_id: "keyed rid key rows \<Longrightarrow> r \<in> set rows \<Longrightarrow> t \<in> set rows \<Longrightarrow> rid r = rid t \<Longrightarrow> r = t"
  by (metis keyed_def distinct_map inj_onD strict_sorted_iff)

lemma find_keyed:
  assumes "keyed rid key rows" "r \<in> set rows" "\<And>t. p t \<longleftrightarrow> key t = key r"
  shows "find p rows = Some r"
proof -
  have "find p rows \<noteq> None" using assms(2,3) by (auto simp: find_None_iff)
  then obtain t where t: "find p rows = Some t" by blast
  then have "t \<in> set rows" "key t = key r" using assms(3) by (auto simp: find_Some_iff)
  with assms(1,2) t show ?thesis by (metis keyed_unique)
qed

lemma find_keyed_id:
  assumes "keyed rid key rows" "r \<in> set rows" "p r" "\<And>t. p t \<Longrightarrow> rid t = rid r"
  shows "find p rows = Some r"
proof -
  have "find p rows \<noteq> None" using assms(2,3) by (auto simp: find_None_iff)
  then obtain t where t: "find p rows = Some t" by blast
  then have "t \<in> set rows" "rid t = rid r" using assms(4) by (auto simp: find_Some_iff)
  with assms(1,2) t show ?thesis by (metis keyed_unique_id)
qed

lemma find_append: "find p (xs @ ys) = (case find p xs of None \<Rightarrow> find p ys | Some x \<Rightarrow> Some x)"
  by (induction xs) auto

lemma set_update_rows: "set (update_rows p f rows) = (\<lambda>r. if p r then f r else r) ` set rows"
  by (auto simp: update_rows_def)

lemma find_update_rows:
  assumes "\<And>r. q (if p r then f r else r) = q r"
  shows "find q (update_rows p f rows) = map_option (\<lambda>r. if p r then f r else r) (find q rows)"
  unfolding update_rows_def using assms by (induction rows) auto

text \<open>Replacing one row, the effect of an \<open>UPDATE\<close> that selects by a unique key.\<close>

definition replace_row :: "('r \<Rightarrow> int) \<Rightarrow> 'r \<Rightarrow> 'r \<Rightarrow> 'r list \<Rightarrow> 'r list" where
  "replace_row rid r r' rows = map (\<lambda>x. if rid x = rid r then r' else x) rows"

lemma update_rows_single:
  assumes "keyed rid key rows" "r \<in> set rows" "p r" "\<And>x. x \<in> set rows \<Longrightarrow> p x \<Longrightarrow> rid x = rid r"
  shows "update_rows p g rows = replace_row rid r (g r) rows"
proof -
  have "(if p x then g x else x) = (if rid x = rid r then g r else x)" if x: "x \<in> set rows" for x
  proof (cases "rid x = rid r")
    case True
    then have "x = r" using keyed_unique_id[OF assms(1) x assms(2)] by simp
    then show ?thesis using assms(3) by simp
  next
    case False
    then show ?thesis using assms(4)[OF x] by auto
  qed
  then show ?thesis by (simp add: update_rows_def replace_row_def)
qed

lemma keyed_replace:
  assumes "keyed rid key rows" "r \<in> set rows" "rid r' = rid r" "key r' = key r"
  shows "keyed rid key (replace_row rid r r' rows)"
proof -
  have *: "x \<in> set rows \<Longrightarrow> rid x = rid r \<Longrightarrow> x = r" for x
    using keyed_unique_id[OF assms(1)] assms(2) by metis
  have "map rid (replace_row rid r r' rows) = map rid rows"
    "map key (replace_row rid r r' rows) = map key rows"
    using * assms(3,4) by (auto simp: replace_row_def intro!: map_cong)
  moreover have "\<forall>x\<in>set (replace_row rid r r' rows). 0 < rid x"
    using assms(1,3) by (auto simp: keyed_def replace_row_def)
  ultimately show ?thesis using assms(1) by (simp add: keyed_def)
qed

lemma set_replace_row: "set (replace_row rid r r' rows) \<subseteq> insert r' (set rows)"
  by (auto simp: replace_row_def)

lemma in_replace_row:
  assumes "x \<in> set (replace_row rid r r' rows)"
  shows "x = r' \<or> (x \<in> set rows \<and> rid x \<noteq> rid r)"
  using assms by (auto simp: replace_row_def split: if_splits)

lemma replace_row_keeps: "x \<in> set rows \<Longrightarrow> rid x \<noteq> rid r \<Longrightarrow> x \<in> set (replace_row rid r r' rows)"
  by (force simp: replace_row_def)

lemma replace_row_new: "r \<in> set rows \<Longrightarrow> r' \<in> set (replace_row rid r r' rows)"
  by (force simp: replace_row_def)

lemma keyed_replace_same: "keyed rid key rows \<Longrightarrow> r \<in> set rows \<Longrightarrow> replace_row rid r r rows = rows"
  unfolding replace_row_def by (rule map_idI) (metis keyed_unique_id)

end
