(* ===== verification/StoreFacts.thy ===== *)
theory StoreFacts
  imports StoreBase "HOL-Library.Product_Lexorder"
begin

text \<open>
  Facts of \<open>src/store.rs\<close>: remembering and finding them, their categories, validity, lifecycle,
  sessions and embeddings, the audit trail of \<open>fact_history\<close>, and the verification of their
  hashes. Each function of the store is a program over the database; \<open>env\<close> is the environment of
  the call.
\<close>

section \<open>Reading facts\<close>

definition map_fact :: "fact_row \<Rightarrow> fact" where
  "map_fact r = fact.truncate r"

definition fact_by_hash :: "string \<Rightarrow> string \<Rightarrow> (store_db, store_error, fact option) sm" where
  "fact_by_hash hash workspace =
     sbind (sql_first db_facts (\<lambda>r. fa_sha256 r = hash \<and> fa_workspace r = workspace)) (\<lambda>r.
     sret (map_option map_fact r))"

definition fact_by_id :: "int \<Rightarrow> string \<Rightarrow> (store_db, store_error, fact option) sm" where
  "fact_by_id ident workspace =
     sbind (sql_first db_facts (\<lambda>r. fa_id r = ident \<and> in_scope workspace (fa_workspace r))) (\<lambda>r.
     sret (map_option map_fact r))"

definition select_facts :: "(fact_row \<Rightarrow> bool) \<Rightarrow> (store_db, store_error, fact list) sm" where
  "select_facts p = sbind (sql_select db_facts p) (\<lambda>rows. sret (map map_fact rows))"

definition record_fact_history ::
    "store_env \<Rightarrow> int \<Rightarrow> string \<Rightarrow> string \<Rightarrow> string \<Rightarrow> string \<Rightarrow> string \<Rightarrow>
     (store_db, store_error, unit) sm" where
  "record_fact_history env fact_id event from_lifecycle to_lifecycle note workspace =
     sql_insert db_history db_history_update (\<lambda>_ _. False)
       (\<lambda>s h. list_ex (\<lambda>f. fa_id f = fh_fact_id h) (db_facts s))
       (\<lambda>rows. \<lparr>fh_id = next_id (map fh_id rows), fh_fact_id = fact_id, fh_event = event,
          fh_from_lifecycle = from_lifecycle, fh_to_lifecycle = to_lifecycle, fh_note = note,
          fh_workspace = workspace, fh_created_at = se_now env\<rparr>)"

section \<open>Remembering\<close>

record fact_metadata =
  fm_source :: string
  fm_project :: string
  fm_domain :: string
  fm_trust :: string
  fm_strong :: bool
  fm_importance :: f64

definition default_metadata :: fact_metadata where
  "default_metadata = \<lparr>fm_source = [], fm_project = [], fm_domain = [], fm_trust = ''medium'',
     fm_strong = False, fm_importance = Finite (1 / 2)\<rparr>"

definition trust_levels :: "string list" where
  "trust_levels = [''high'', ''medium'', ''low'']"

definition validate_fact_metadata :: "fact_metadata \<Rightarrow> store_error + unit" where
  "validate_fact_metadata m =
     rbind (require (fm_trust m \<in> set trust_levels) ''fact trust must be high, medium, or low'') (\<lambda>_.
     require (is_finite (fm_importance m) \<and> in_unit (fm_importance m))
       ''fact importance must be between 0 and 1'')"

definition new_fact :: "store_env \<Rightarrow> string \<Rightarrow> string \<Rightarrow> fact_metadata \<Rightarrow> fact_row list \<Rightarrow> fact_row" where
  "new_fact env text workspace m rows =
     \<lparr>fa_id = next_id (map fa_id rows), fa_text = text, fa_sha256 = se_sha256 env text,
      fa_workspace = workspace, fa_lifecycle = ''active'', fa_source = fm_source m,
      fa_project = fm_project m, fa_domain = fm_domain m, fa_trust = fm_trust m,
      fa_strong = fm_strong m, fa_importance = sql_real (fm_importance m), fa_category_id = None,
      fa_validity = ''valid'', fa_session_id = [], fa_access_count = 0, fa_invalid_at = [],
      fa_superseded_by = None, fa_confirmed = False, fa_updated_at = se_now env,
      fa_archived = False, fa_created_at = se_now env\<rparr>"

definition same_fact :: "fact_row \<Rightarrow> fact_row \<Rightarrow> bool" where
  "same_fact r t \<longleftrightarrow> fa_sha256 r = fa_sha256 t \<and> fa_workspace r = fa_workspace t"

definition remember_fact_with_metadata ::
    "store_env \<Rightarrow> string \<Rightarrow> string \<Rightarrow> fact_metadata \<Rightarrow> (store_db, store_error, fact) sm" where
  "remember_fact_with_metadata env text workspace m =
     sbind (slift (validate_fact_text text)) (\<lambda>_.
     sbind (slift (validate_fact_metadata m)) (\<lambda>_.
     let sha256 = se_sha256 env text in
     sbind (fact_by_hash sha256 workspace) (\<lambda>present.
     sbind (sql_insert_or_ignore db_facts db_facts_update same_fact no_fk
              (new_fact env text workspace m)) (\<lambda>_.
     sbind (fact_by_hash sha256 workspace) (\<lambda>found.
     sbind (readable ''fact insert'' found) (\<lambda>fact.
     if present = None then
       sbind (record_fact_history env (fa_id fact) ''created'' [] (fa_lifecycle fact)
                ''fact inserted'' workspace) (\<lambda>_.
       sret fact)
     else sret fact))))))"

definition remember_fact :: "store_env \<Rightarrow> string \<Rightarrow> string \<Rightarrow> (store_db, store_error, fact) sm" where
  "remember_fact env text workspace =
     remember_fact_with_metadata env text workspace default_metadata"

definition fact_exists :: "store_env \<Rightarrow> string \<Rightarrow> string \<Rightarrow> (store_db, store_error, bool) sm" where
  "fact_exists env text workspace =
     sbind (fact_by_hash (se_sha256 env text) workspace) (\<lambda>f. sret (f \<noteq> None))"

definition fact_id_for_text ::
    "store_env \<Rightarrow> string \<Rightarrow> string \<Rightarrow> (store_db, store_error, int option) sm" where
  "fact_id_for_text env text workspace =
     sbind (fact_by_hash (se_sha256 env text) workspace) (\<lambda>f. sret (map_option fa_id f))"

definition absorb ::
    "store_env \<Rightarrow> string list \<Rightarrow> string \<Rightarrow> (store_db, store_error, fact list) sm" where
  "absorb env texts workspace = smapM (\<lambda>t. remember_fact env t workspace) texts"

definition ingest_turn :: "store_env \<Rightarrow> string \<Rightarrow> string \<Rightarrow> (store_db, store_error, fact) sm" where
  "ingest_turn env text workspace = remember_fact env text workspace"

section \<open>Categories\<close>

definition category_by_name :: "string \<Rightarrow> string \<Rightarrow> (store_db, store_error, category option) sm" where
  "category_by_name name workspace =
     sql_first db_categories (\<lambda>r. ca_name r = name \<and> ca_workspace r = workspace)"

definition same_category :: "category \<Rightarrow> category \<Rightarrow> bool" where
  "same_category r t \<longleftrightarrow> ca_name r = ca_name t \<and> ca_workspace r = ca_workspace t"

definition create_category ::
    "store_env \<Rightarrow> string \<Rightarrow> string \<Rightarrow> (store_db, store_error, category) sm" where
  "create_category env name workspace =
     sbind (slift (validate_graph_workspace workspace)) (\<lambda>_.
     sbind (slift (not_empty (name, ''category name''))) (\<lambda>_.
     sbind (sql_insert_or_ignore db_categories db_categories_update same_category no_fk
              (\<lambda>rows. \<lparr>ca_id = next_id (map ca_id rows), ca_name = name, ca_workspace = workspace,
                 ca_created_at = se_now env\<rparr>)) (\<lambda>_.
     sbind (category_by_name name workspace) (\<lambda>found.
     readable ''category insert'' found))))"

definition list_categories :: "string \<Rightarrow> (store_db, store_error, category list) sm" where
  "list_categories workspace =
     sbind (slift (validate_graph_workspace workspace)) (\<lambda>_.
     sbind (sql_select db_categories (\<lambda>r. ca_workspace r = workspace)) (\<lambda>rows.
     sret (sort_key (\<lambda>r. (ca_name r, ca_id r)) rows)))"

definition categorize_pending ::
    "store_env \<Rightarrow> string \<Rightarrow> string \<Rightarrow> string \<Rightarrow> nat \<Rightarrow> (store_db, store_error, fact list) sm" where
  "categorize_pending env category query workspace limit =
     sbind (slift (validate_graph_workspace workspace)) (\<lambda>_.
     sbind (slift (require (\<not> blank category) ''categorize_pending requires a category'')) (\<lambda>_.
     sbind (slift (require (limit \<noteq> 0) ''categorize_pending limit must be positive'')) (\<lambda>_.
     sbind (create_category env category workspace) (\<lambda>cat.
     sbind (sql_select db_facts (\<lambda>r. fa_category_id r = None
              \<and> in_scope workspace (fa_workspace r) \<and> fa_lifecycle r \<noteq> ''forgotten''
              \<and> (query = [] \<or> sql_instr (sql_lower (fa_text r)) (sql_lower query)))) (\<lambda>rows.
     sbind (smapM (\<lambda>ident.
              sbind (sql_update db_facts_update
                       (\<lambda>r. fa_id r = ident \<and> fa_category_id r = None)
                       (\<lambda>r. r\<lparr>fa_category_id := Some (ca_id cat)\<rparr>)) (\<lambda>_.
              fact_by_id ident workspace))
            (map fa_id (sql_limit limit rows))) (\<lambda>facts.
     sret (List.map_filter id facts)))))))"

definition set_fact_category ::
    "store_env \<Rightarrow> int \<Rightarrow> string \<Rightarrow> string \<Rightarrow> (store_db, store_error, fact option) sm" where
  "set_fact_category env fact_id category workspace =
     sbind (slift (validate_graph_workspace workspace)) (\<lambda>_.
     let category = str_trim category in
     if category = [] then fact_by_id fact_id workspace
     else
       sbind (create_category env category workspace) (\<lambda>cat.
       sbind (fact_by_id fact_id workspace) (\<lambda>found.
       if found = None then sret None
       else
         sbind (sql_update db_facts_update (\<lambda>r. fa_id r = fact_id)
                  (\<lambda>r. r\<lparr>fa_category_id := Some (ca_id cat), fa_updated_at := se_now env\<rparr>)) (\<lambda>_.
         fact_by_id fact_id workspace))))"

section \<open>Validity and lifecycle\<close>

definition positive_id :: "int \<Rightarrow> store_error + unit" where
  "positive_id ident = require (0 < ident) ''fact id must be positive''"

definition review_pending :: "string \<Rightarrow> (store_db, store_error, fact list) sm" where
  "review_pending workspace =
     sbind (slift (validate_graph_workspace workspace)) (\<lambda>_.
     select_facts (\<lambda>r. in_scope workspace (fa_workspace r) \<and> fa_lifecycle r \<noteq> ''forgotten''
       \<and> (fa_validity r \<noteq> ''valid'' \<or> fa_lifecycle r = ''degraded'')))"

definition validities :: "string list" where
  "validities = [''valid'', ''pending'', ''invalid'']"

definition set_fact_validity ::
    "store_env \<Rightarrow> int \<Rightarrow> string \<Rightarrow> string \<Rightarrow> (store_db, store_error, fact option) sm" where
  "set_fact_validity env ident validity workspace =
     sbind (slift (validate_graph_workspace workspace)) (\<lambda>_.
     sbind (slift (positive_id ident)) (\<lambda>_.
     sbind (slift (require (validity \<in> set validities)
              ''fact validity must be valid, pending, or invalid'')) (\<lambda>_.
     sbind (fact_by_id ident workspace) (\<lambda>found.
     case found of
       None \<Rightarrow> sret None
     | Some existing \<Rightarrow>
         sbind (if fa_validity existing \<noteq> validity then
             sbind (sql_update db_facts_update (\<lambda>r. fa_id r = ident)
                      (\<lambda>r. r\<lparr>fa_validity := validity\<rparr>)) (\<lambda>_.
             record_fact_history env ident ''validity_changed'' (fa_lifecycle existing)
               (fa_lifecycle existing) validity (fa_workspace existing))
           else sret ()) (\<lambda>_.
         fact_by_id ident workspace)))))"

definition confirm_fact ::
    "store_env \<Rightarrow> int \<Rightarrow> string \<Rightarrow> string \<Rightarrow> (store_db, store_error, fact option) sm" where
  "confirm_fact env ident note workspace =
     sbind (slift (validate_graph_workspace workspace)) (\<lambda>_.
     sbind (slift (positive_id ident)) (\<lambda>_.
     sbind (fact_by_id ident workspace) (\<lambda>found.
     case found of
       None \<Rightarrow> sret None
     | Some existing \<Rightarrow>
         sbind (sql_update db_facts_update (\<lambda>r. fa_id r = ident)
                  (\<lambda>r. r\<lparr>fa_validity := ''valid'', fa_lifecycle := ''active'',
                     fa_confirmed := True, fa_trust := ''high'', fa_updated_at := se_now env\<rparr>)) (\<lambda>_.
         sbind (if fa_validity existing \<noteq> ''valid'' \<or> fa_lifecycle existing \<noteq> ''active''
                  \<or> fa_trust existing \<noteq> ''high'' then
             record_fact_history env ident ''confirmed'' (fa_lifecycle existing) ''active'' note
               (fa_workspace existing)
           else sret ()) (\<lambda>_.
         fact_by_id ident workspace)))))"

definition lifecycles :: "string list" where
  "lifecycles = [''active'', ''degraded'', ''forgotten'']"

definition update_fact_lifecycle ::
    "store_env \<Rightarrow> int \<Rightarrow> string \<Rightarrow> string \<Rightarrow> (store_db, store_error, fact option) sm" where
  "update_fact_lifecycle env ident workspace lifecycle =
     sbind (slift (positive_id ident)) (\<lambda>_.
     sbind (slift (require (lifecycle \<in> set lifecycles)
              ''fact lifecycle must be active, degraded, or forgotten'')) (\<lambda>_.
     sbind (fact_by_id ident workspace) (\<lambda>found.
     case found of
       None \<Rightarrow> sret None
     | Some existing \<Rightarrow>
         if fa_lifecycle existing = lifecycle then
           sbind (sql_update db_facts_update
                    (\<lambda>r. fa_id r = ident \<and> in_scope workspace (fa_workspace r))
                    (\<lambda>r. r\<lparr>fa_archived := (lifecycle = ''forgotten''),
                       fa_updated_at := se_now env\<rparr>)) (\<lambda>_.
           sret (Some existing))
         else
           sbind (sql_update db_facts_update
                    (\<lambda>r. fa_id r = ident \<and> in_scope workspace (fa_workspace r))
                    (\<lambda>r. r\<lparr>fa_lifecycle := lifecycle, fa_archived := (lifecycle = ''forgotten''),
                       fa_updated_at := se_now env\<rparr>)) (\<lambda>_.
           sbind (record_fact_history env ident ''lifecycle_changed'' (fa_lifecycle existing)
                    lifecycle ''lifecycle updated'' (fa_workspace existing)) (\<lambda>_.
           fact_by_id ident workspace)))))"

definition forget_fact :: "store_env \<Rightarrow> int \<Rightarrow> string \<Rightarrow> (store_db, store_error, fact option) sm" where
  "forget_fact env ident workspace = update_fact_lifecycle env ident workspace ''forgotten''"

definition restore_fact :: "store_env \<Rightarrow> int \<Rightarrow> string \<Rightarrow> (store_db, store_error, fact option) sm" where
  "restore_fact env ident workspace = update_fact_lifecycle env ident workspace ''active''"

definition sweep_freshness ::
    "store_env \<Rightarrow> int \<Rightarrow> string \<Rightarrow> (store_db, store_error, fact list) sm" where
  "sweep_freshness env max_age_seconds workspace =
     sbind (slift (validate_graph_workspace workspace)) (\<lambda>_.
     sbind (slift (require (0 \<le> max_age_seconds)
              ''freshness max_age_seconds must not be negative'')) (\<lambda>_.
     sbind (sql_select db_facts (\<lambda>r. in_scope workspace (fa_workspace r)
              \<and> fa_lifecycle r = ''active'' \<and> fa_validity r = ''valid'' \<and> fa_created_at r \<noteq> []
              \<and> (case se_julian env (fa_created_at r) of
                   None \<Rightarrow> False
                 | Some t \<Rightarrow> t < se_julian_now env - of_int max_age_seconds / 86400))) (\<lambda>rows.
     sbind (smapM (\<lambda>ident. update_fact_lifecycle env ident workspace ''degraded'')
              (map fa_id rows)) (\<lambda>facts.
     sret (List.map_filter id facts)))))"

definition decay_sweep ::
    "store_env \<Rightarrow> int \<Rightarrow> string \<Rightarrow> (store_db, store_error, fact list) sm" where
  "decay_sweep env max_age_seconds workspace = sweep_freshness env max_age_seconds workspace"

definition invalidate_fact ::
    "store_env \<Rightarrow> int \<Rightarrow> int \<Rightarrow> string \<Rightarrow> string \<Rightarrow> (store_db, store_error, bool) sm" where
  "invalidate_fact env old_id new_id workspace reason =
     sbind (slift (validate_graph_workspace workspace)) (\<lambda>_.
     if old_id \<le> 0 \<or> new_id \<le> 0 \<or> old_id = new_id then sret False
     else
       sbind (fact_by_id old_id workspace) (\<lambda>found.
       case found of
         None \<Rightarrow> sret False
       | Some existing \<Rightarrow>
           if fa_strong existing then sret False
           else
             sbind (sql_update db_facts_update
                      (\<lambda>r. fa_id r = old_id \<and> in_scope workspace (fa_workspace r))
                      (\<lambda>r. r\<lparr>fa_validity := ''invalid'', fa_invalid_at := se_now env,
                         fa_superseded_by := Some new_id, fa_updated_at := se_now env\<rparr>)) (\<lambda>_.
             sbind (record_fact_history env old_id ''invalidated'' (fa_lifecycle existing)
                      (fa_lifecycle existing) reason (fa_workspace existing)) (\<lambda>_.
             sret True))))"

definition fact_history_of :: "int \<Rightarrow> string \<Rightarrow> (store_db, store_error, fact_history list) sm" where
  "fact_history_of ident workspace =
     sbind (slift (validate_graph_workspace workspace)) (\<lambda>_.
     sbind (slift (positive_id ident)) (\<lambda>_.
     sql_select db_history (\<lambda>h. fh_fact_id h = ident \<and> in_scope workspace (fh_workspace h))))"

section \<open>Sessions\<close>

definition set_fact_session ::
    "int \<Rightarrow> string \<Rightarrow> string \<Rightarrow> (store_db, store_error, fact option) sm" where
  "set_fact_session ident session_id workspace =
     sbind (slift (validate_graph_workspace workspace)) (\<lambda>_.
     sbind (slift (positive_id ident)) (\<lambda>_.
     sbind (fact_by_id ident workspace) (\<lambda>found.
     if found = None then sret None
     else
       sbind (sql_update db_facts_update (\<lambda>r. fa_id r = ident)
                (\<lambda>r. r\<lparr>fa_session_id := session_id\<rparr>)) (\<lambda>_.
       fact_by_id ident workspace))))"

definition facts_for_session :: "string \<Rightarrow> string \<Rightarrow> (store_db, store_error, fact list) sm" where
  "facts_for_session session_id workspace =
     sbind (slift (validate_graph_workspace workspace)) (\<lambda>_.
     sbind (slift (not_empty (session_id, ''session_id''))) (\<lambda>_.
     select_facts (\<lambda>r. fa_session_id r = session_id \<and> in_scope workspace (fa_workspace r)
       \<and> fa_lifecycle r \<noteq> ''forgotten'')))"

definition list_sessions :: "string \<Rightarrow> (store_db, store_error, string list) sm" where
  "list_sessions workspace =
     sbind (slift (validate_graph_workspace workspace)) (\<lambda>_.
     sbind (sql_select db_facts (\<lambda>r. fa_session_id r \<noteq> []
              \<and> in_scope workspace (fa_workspace r))) (\<lambda>rows.
     sret (sort (remdups (map fa_session_id rows)))))"

section \<open>Searching and listing\<close>

record fact_filters =
  ff_source :: "string option"
  ff_project :: "string option"
  ff_domain :: "string option"
  ff_trust :: "string option"
  ff_strong :: "bool option"

definition no_filters :: fact_filters where
  "no_filters = \<lparr>ff_source = None, ff_project = None, ff_domain = None, ff_trust = None,
     ff_strong = None\<rparr>"

definition validate_fact_filters :: "fact_filters \<Rightarrow> store_error + unit" where
  "validate_fact_filters f =
     (case ff_trust f of
        None \<Rightarrow> Inr ()
      | Some t \<Rightarrow>
          require (t \<in> set trust_levels) ''fact trust filter must be high, medium, or low'')"

text \<open>\<open>(?n IS NULL OR column = ?n)\<close>.\<close>

definition null_or :: "'a option \<Rightarrow> 'a \<Rightarrow> bool" where
  "null_or v x \<longleftrightarrow> (case v of None \<Rightarrow> True | Some y \<Rightarrow> x = y)"

definition retrievable :: "string \<Rightarrow> fact_filters \<Rightarrow> fact_row \<Rightarrow> bool" where
  "retrievable workspace f r \<longleftrightarrow>
     in_scope workspace (fa_workspace r) \<and> fa_lifecycle r \<noteq> ''forgotten''
     \<and> fa_validity r \<noteq> ''invalid'' \<and> null_or (ff_source f) (fa_source r)
     \<and> null_or (ff_project f) (fa_project r) \<and> null_or (ff_domain f) (fa_domain r)
     \<and> null_or (ff_trust f) (fa_trust r) \<and> null_or (ff_strong f) (fa_strong r)"

definition search_facts_with_filters ::
    "store_env \<Rightarrow> string \<Rightarrow> string \<Rightarrow> fact_filters \<Rightarrow> (store_db, store_error, fact list) sm" where
  "search_facts_with_filters env query workspace f =
     sbind (slift (validate_fact_filters f)) (\<lambda>_.
     if blank query then sret []
     else
       sbind (select_facts (\<lambda>r. se_fts env (fts_query query) (fa_text r)
                \<and> retrievable workspace f r)) (\<lambda>rows.
       if rows \<noteq> [] then sret rows
       else select_facts (\<lambda>r. sql_like (fa_text r) (like_pattern query)
              \<and> retrievable workspace f r)))"

definition search_facts :: "store_env \<Rightarrow> string \<Rightarrow> string \<Rightarrow> (store_db, store_error, fact list) sm" where
  "search_facts env query workspace = search_facts_with_filters env query workspace no_filters"

definition search_facts_for_diagnostics ::
    "store_env \<Rightarrow> string \<Rightarrow> string \<Rightarrow> (store_db, store_error, fact list) sm" where
  "search_facts_for_diagnostics env query workspace =
     sbind (slift (validate_graph_workspace workspace)) (\<lambda>_.
     if blank query then sret []
     else
       sbind (select_facts (\<lambda>r. se_fts env (fts_query query) (fa_text r)
                \<and> in_scope workspace (fa_workspace r))) (\<lambda>rows.
       if rows \<noteq> [] then sret (take 1000 rows)
       else
         sbind (select_facts (\<lambda>r. sql_like (fa_text r) (like_pattern query)
                  \<and> in_scope workspace (fa_workspace r))) (\<lambda>rows.
         sret (take 1000 rows))))"

definition list_facts_with_filters ::
    "string \<Rightarrow> fact_filters \<Rightarrow> (store_db, store_error, fact list) sm" where
  "list_facts_with_filters workspace f =
     sbind (slift (validate_fact_filters f)) (\<lambda>_. select_facts (retrievable workspace f))"

definition list_facts :: "string \<Rightarrow> (store_db, store_error, fact list) sm" where
  "list_facts workspace = list_facts_with_filters workspace no_filters"

definition list_forgotten :: "string \<Rightarrow> (store_db, store_error, fact list) sm" where
  "list_forgotten workspace =
     select_facts (\<lambda>r. in_scope workspace (fa_workspace r) \<and> fa_lifecycle r = ''forgotten'')"

section \<open>Verification and chunks\<close>

record fact_verification =
  fv_checked :: nat
  fv_valid :: bool
  fv_invalid_ids :: "int list"

definition verify_facts :: "store_env \<Rightarrow> string \<Rightarrow> (store_db, store_error, fact_verification) sm" where
  "verify_facts env workspace =
     sbind (sql_select db_facts (\<lambda>r. in_scope workspace (fa_workspace r))) (\<lambda>rows.
     let invalid = map fa_id (filter (\<lambda>r. se_sha256 env (fa_text r) \<noteq> fa_sha256 r) rows) in
     sret \<lparr>fv_checked = length rows, fv_valid = (invalid = []), fv_invalid_ids = invalid\<rparr>)"

definition chunk_fact ::
    "int \<Rightarrow> nat \<Rightarrow> string \<Rightarrow> (store_db, store_error, (int \<times> chunk) list) sm" where
  "chunk_fact ident max_bytes workspace =
     sbind (slift (require (max_bytes \<noteq> 0) ''fact chunk size must be positive'')) (\<lambda>_.
     sbind (fact_by_id ident workspace) (\<lambda>found.
     case found of
       None \<Rightarrow> sfail (SInvalid (''fact not found: '' @ dec_int ident))
     | Some f \<Rightarrow>
         sbind (slift (split_utf8_chunks (fa_text f) max_bytes)) (\<lambda>ks.
         sret (map (\<lambda>c. (ident, c)) (number_chunks ks)))))"

end
