(* ===== verification/StoreEmbeddings.thy ===== *)
theory StoreEmbeddings
  imports StoreFacts "HOL-Library.Word"
begin

text \<open>
  Embedding vectors and search metadata of facts in \<open>src/store.rs\<close>. A vector is a list of \<open>f32\<close>
  values, each its 32 bits, stored as little-endian bytes; the lemmas show that reading a stored
  vector gives it back bit for bit.
\<close>

section \<open>Little-endian words\<close>

type_synonym f32 = "32 word"

definition byte_at :: "f32 \<Rightarrow> nat \<Rightarrow> char" where
  "byte_at w i = char_of (unat w div 256 ^ i mod 256)"

definition to_le_bytes :: "f32 \<Rightarrow> string" where
  "to_le_bytes w = [byte_at w 0, byte_at w 1, byte_at w 2, byte_at w 3]"

definition from_le_bytes :: "string \<Rightarrow> f32" where
  "from_le_bytes bs = of_nat (foldr (\<lambda>b n. code b + 256 * n) bs 0)"

text \<open>\<open>chunks_exact(4)\<close>: a shorter rest is dropped.\<close>

fun chunks_exact :: "string \<Rightarrow> string list" where
  "chunks_exact (a # b # c # d # r) = [a, b, c, d] # chunks_exact r"
| "chunks_exact _ = []"

definition encode_vector :: "f32 list \<Rightarrow> string" where
  "encode_vector v = concat (map to_le_bytes v)"

definition decode_vector :: "string \<Rightarrow> f32 list" where
  "decode_vector bs = map from_le_bytes (chunks_exact bs)"

lemma code_byte_at: "code (byte_at w i) = unat w div 256 ^ i mod 256"
  by (simp add: byte_at_def code_def)

lemma base256:
  fixes n :: nat
  assumes "n < 256 ^ 4"
  shows "n div 256 ^ 0 mod 256 + 256 * (n div 256 ^ 1 mod 256 + 256 * (n div 256 ^ 2 mod 256
    + 256 * (n div 256 ^ 3 mod 256))) = n"
proof -
  have d: "n div 256 ^ 2 = n div 256 div 256" "n div 256 ^ 3 = n div 256 div 256 div 256"
    by (simp_all add: div_mult2_eq[symmetric])
  have "n div 256 div 256 div 256 < 256" using assms by (simp add: div_mult2_eq[symmetric])
  then show ?thesis unfolding d by simp
qed

lemma from_to_le_bytes: "from_le_bytes (to_le_bytes w) = w"
proof -
  have "unat w < 256 ^ 4" using unsigned_less[of w] by simp
  from base256[OF this] have "foldr (\<lambda>b n. code b + 256 * n) (to_le_bytes w) 0 = unat w"
    by (simp only: to_le_bytes_def code_byte_at foldr.simps comp_apply id_apply mult_0_right add_0_right)
  then show ?thesis by (simp add: from_le_bytes_def)
qed

lemma length_encode_vector: "length (encode_vector v) = 4 * length v"
  by (induction v) (simp_all add: encode_vector_def to_le_bytes_def)

lemma decode_encode_vector: "decode_vector (encode_vector v) = v"
proof (induction v)
  case (Cons w v)
  have "decode_vector (encode_vector (w # v)) =
      from_le_bytes (to_le_bytes w) # decode_vector (encode_vector v)"
    by (simp add: encode_vector_def decode_vector_def to_le_bytes_def)
  then show ?case by (simp add: Cons from_to_le_bytes)
qed (simp add: encode_vector_def decode_vector_def)

section \<open>Embeddings\<close>

definition upsert_embedding ::
    "fact_embedding_row \<Rightarrow> fact_embedding_row list \<Rightarrow> fact_embedding_row list" where
  "upsert_embedding b rows =
     (if list_ex (\<lambda>r. fb_fact_id r = fb_fact_id b) rows
      then update_rows (\<lambda>r. fb_fact_id r = fb_fact_id b)
             (\<lambda>r. r\<lparr>fb_vector := fb_vector b, fb_model := fb_model b\<rparr>) rows
      else rows @ [b])"

definition upsert_fact_embedding ::
    "int \<Rightarrow> f32 list \<Rightarrow> string \<Rightarrow> string \<Rightarrow> (store_db, store_error, unit) sm" where
  "upsert_fact_embedding fact_id vector model workspace =
     sbind (slift (validate_graph_workspace workspace)) (\<lambda>_.
     sbind (slift (require (vector \<noteq> []) ''fact embedding vector must not be empty'')) (\<lambda>_.
     sbind (slift (not_empty (model, ''fact embedding model''))) (\<lambda>_.
     sbind (fact_by_id fact_id workspace) (\<lambda>found.
     if found = None then sfail (SInvalid (''fact not found: '' @ dec_int fact_id))
     else
       modify_state (db_embeddings_update (upsert_embedding
         \<lparr>fb_fact_id = fact_id, fb_vector = encode_vector vector, fb_model = model\<rparr>))))))"

definition missing_fact_texts ::
    "string \<Rightarrow> nat \<Rightarrow> (store_db, store_error, (int \<times> string) list) sm" where
  "missing_fact_texts workspace limit =
     sbind (slift (validate_graph_workspace workspace)) (\<lambda>_.
     if limit = 0 then sret []
     else
       sbind get_state (\<lambda>s.
       sbind (sql_select db_facts (\<lambda>f. fa_lifecycle f \<noteq> ''forgotten'' \<and> fa_validity f \<noteq> ''invalid''
                \<and> in_scope workspace (fa_workspace f)
                \<and> \<not> list_ex (\<lambda>b. fb_fact_id b = fa_id f) (db_embeddings s))) (\<lambda>rows.
       sret (map (\<lambda>f. (fa_id f, fa_text f)) (sql_limit limit rows)))))"

definition read_embedding ::
    "string \<Rightarrow> fact_embedding_row \<Rightarrow>
     (store_db, store_error, (fact \<times> f32 list \<times> string) option) sm" where
  "read_embedding workspace b =
     sbind (fact_by_id (fb_fact_id b) workspace) (\<lambda>found.
     case found of
       None \<Rightarrow> sret None
     | Some f \<Rightarrow>
         if length (fb_vector b) mod 4 \<noteq> 0 then
           sfail (SInvalid (''fact embedding '' @ dec_int (fb_fact_id b)
                    @ '' has an invalid byte length''))
         else sret (Some (f, decode_vector (fb_vector b), fb_model b)))"

definition fact_embeddings ::
    "string \<Rightarrow> (store_db, store_error, (fact \<times> f32 list \<times> string) list) sm" where
  "fact_embeddings workspace =
     sbind (slift (validate_graph_workspace workspace)) (\<lambda>_.
     sbind get_state (\<lambda>s.
     sbind (sql_select db_embeddings (\<lambda>b. list_ex (\<lambda>f. fa_id f = fb_fact_id b
              \<and> in_scope workspace (fa_workspace f)) (db_facts s))) (\<lambda>rows.
     sbind (smapM (read_embedding workspace) (sort_key fb_fact_id rows)) (\<lambda>es.
     sret (List.map_filter id es)))))"

section \<open>Search metadata\<close>

record fact_search_metadata =
  fsm_category :: "string option"
  fsm_confirmed :: bool
  fsm_invalid_at :: string
  fsm_archived :: bool
  fsm_created_at :: string
  fsm_updated_at :: string

definition category_name :: "store_db \<Rightarrow> int option \<Rightarrow> string option" where
  "category_name s c =
     (case c of
        None \<Rightarrow> None
      | Some i \<Rightarrow> map_option ca_name (find (\<lambda>r. ca_id r = i) (db_categories s)))"

definition fact_search_metadata_of ::
    "int \<Rightarrow> string \<Rightarrow> (store_db, store_error, fact_search_metadata option) sm" where
  "fact_search_metadata_of fact_id workspace =
     sbind (slift (validate_graph_workspace workspace)) (\<lambda>_.
     sbind get_state (\<lambda>s.
     sbind (sql_first db_facts (\<lambda>f. fa_id f = fact_id \<and> in_scope workspace (fa_workspace f))) (\<lambda>r.
     sret (map_option (\<lambda>f. \<lparr>fsm_category = category_name s (fa_category_id f),
         fsm_confirmed = fa_confirmed f, fsm_invalid_at = fa_invalid_at f,
         fsm_archived = fa_archived f, fsm_created_at = fa_created_at f,
         fsm_updated_at = fa_updated_at f\<rparr>) r))))"

definition category_name_for_fact ::
    "int \<Rightarrow> string \<Rightarrow> (store_db, store_error, string option) sm" where
  "category_name_for_fact fact_id workspace =
     sbind (fact_search_metadata_of fact_id workspace) (\<lambda>m.
     sret (Option.bind m fsm_category))"

end
