(* ===== verification/StoreContexts.thy ===== *)
theory StoreContexts
  imports StoreBase "HOL-Library.Product_Lexorder"
begin

text \<open>
  Contexts of \<open>src/store.rs\<close> with their lineage, lifecycle events and handoffs. A context is
  immutable and may expire; an event and a handoff are recorded once per key and per context, and
  a handoff moves from open to accepted, cancelled or expired.
\<close>

section \<open>Contexts\<close>

record context_metadata =
  cm_schema :: string
  cm_source :: string
  cm_expires_at :: "string option"

definition default_context_metadata :: context_metadata where
  "default_context_metadata = \<lparr>cm_schema = [], cm_source = [], cm_expires_at = None\<rparr>"

definition validate_timestamp :: "store_env \<Rightarrow> string \<Rightarrow> string \<Rightarrow> store_error + unit" where
  "validate_timestamp env v label =
     require (se_julian env v \<noteq> None) (label @ '' is not a valid timestamp'')"

text \<open>\<open>(expires_at IS NULL OR julianday(expires_at) > julianday('now'))\<close>.\<close>

definition not_expired :: "store_env \<Rightarrow> string option \<Rightarrow> bool" where
  "not_expired env expires_at =
     (case expires_at of
        None \<Rightarrow> True
      | Some v \<Rightarrow>
          (case se_julian env v of None \<Rightarrow> False | Some t \<Rightarrow> t > se_julian_now env))"

definition context_raw :: "string \<Rightarrow> string \<Rightarrow> (store_db, store_error, context_row option) sm" where
  "context_raw reference workspace =
     sql_first db_contexts (\<lambda>r. cx_reference r = reference \<and> cx_workspace r = workspace)"

definition live_context ::
    "store_env \<Rightarrow> string \<Rightarrow> string \<Rightarrow> (store_db, store_error, context_row option) sm" where
  "live_context env reference workspace =
     sbind (slift (validate_context_workspace workspace)) (\<lambda>_.
     sql_first db_contexts (\<lambda>r. cx_reference r = reference \<and> cx_workspace r = workspace
       \<and> not_expired env (cx_expires_at r)))"

text \<open>The reference is the primary key of the table, whatever the workspace.\<close>

definition same_context :: "context_row \<Rightarrow> context_row \<Rightarrow> bool" where
  "same_context r t \<longleftrightarrow> cx_reference r = cx_reference t"

definition put_context_with_metadata ::
    "store_env \<Rightarrow> string \<Rightarrow> string \<Rightarrow> string \<Rightarrow> context_metadata \<Rightarrow> string \<Rightarrow>
     (store_db, store_error, context_row) sm" where
  "put_context_with_metadata env reference name content m workspace =
     sbind (slift (validate_context reference name workspace (cm_expires_at m))) (\<lambda>_.
     sbind (slift (configured_context_max_bytes (se_var env ''MEMORY_MCP_CONTEXT_MAX_BYTES'')))
       (\<lambda>max_bytes.
     sbind (slift (require (length content \<le> max_bytes)
              (''context content exceeds the configured size limit ('' @ dec_nat max_bytes
                 @ '' bytes)''))) (\<lambda>_.
     sbind (slift (case cm_expires_at m of
              None \<Rightarrow> Inr ()
            | Some v \<Rightarrow> validate_timestamp env v ''context expiry'')) (\<lambda>_.
     let sha256 = se_sha256 env content; byte_size = int (length content) in
     sbind (context_raw reference workspace) (\<lambda>found.
     case found of
       Some existing \<Rightarrow>
         if cx_sha256 existing \<noteq> sha256 \<or> cx_name existing \<noteq> name
           \<or> cx_schema existing \<noteq> cm_schema m \<or> cx_source existing \<noteq> cm_source m
           \<or> cx_expires_at existing \<noteq> cm_expires_at m
         then sfail (SInvalid (''context ref is immutable: '' @ reference))
         else sret existing
     | None \<Rightarrow>
         sbind (sql_insert db_contexts db_contexts_update same_context no_fk
                  (\<lambda>rows. \<lparr>cx_reference = reference, cx_name = name, cx_content = content,
                     cx_sha256 = sha256, cx_workspace = workspace, cx_schema = cm_schema m,
                     cx_source = cm_source m, cx_expires_at = cm_expires_at m,
                     cx_byte_size = byte_size\<rparr>)) (\<lambda>_.
         sbind (context_raw reference workspace) (\<lambda>r.
         readable ''context insert'' r)))))))"

definition put_context ::
    "store_env \<Rightarrow> string \<Rightarrow> string \<Rightarrow> string \<Rightarrow> string \<Rightarrow> (store_db, store_error, context_row) sm" where
  "put_context env reference name content workspace =
     put_context_with_metadata env reference name content default_context_metadata workspace"

definition list_contexts ::
    "store_env \<Rightarrow> string \<Rightarrow> (store_db, store_error, context_row list) sm" where
  "list_contexts env workspace =
     sbind (slift (validate_context_workspace workspace)) (\<lambda>_.
     sbind (sql_select db_contexts (\<lambda>r. cx_workspace r = workspace
              \<and> not_expired env (cx_expires_at r))) (\<lambda>rows.
     sret (sort_key cx_reference rows)))"

definition resolve_context ::
    "store_env \<Rightarrow> string \<Rightarrow> string \<Rightarrow> (store_db, store_error, context_row option) sm" where
  "resolve_context env query workspace =
     sbind (slift (validate_context_workspace workspace)) (\<lambda>_.
     if blank query then sret None
     else
       sbind (live_context env query workspace) (\<lambda>found.
       case found of
         Some c \<Rightarrow> sret (Some c)
       | None \<Rightarrow>
           sbind (sql_select db_contexts (\<lambda>r. cx_name r = query \<and> cx_workspace r = workspace
                    \<and> not_expired env (cx_expires_at r))) (\<lambda>rows.
           sret (case sort_key cx_reference rows of [] \<Rightarrow> None | c # _ \<Rightarrow> Some c))))"

definition search_contexts ::
    "store_env \<Rightarrow> string \<Rightarrow> string \<Rightarrow> (store_db, store_error, context_row list) sm" where
  "search_contexts env query workspace =
     sbind (slift (validate_context_workspace workspace)) (\<lambda>_.
     if blank query then sret []
     else
       sbind (sql_select db_contexts (\<lambda>r. cx_workspace r = workspace
                \<and> not_expired env (cx_expires_at r)
                \<and> list_ex (\<lambda>c. sql_instr (sql_lower c) (sql_lower query))
                    [cx_reference r, cx_name r, cx_content r])) (\<lambda>rows.
       sret (sort_key cx_reference rows)))"

definition context_not_found :: "string \<Rightarrow> store_error" where
  "context_not_found reference = SInvalid (''context not found: '' @ reference)"

definition chunk_context ::
    "store_env \<Rightarrow> string \<Rightarrow> nat \<Rightarrow> string \<Rightarrow> (store_db, store_error, (string \<times> chunk) list) sm" where
  "chunk_context env reference max_bytes workspace =
     sbind (slift (require (max_bytes \<noteq> 0) ''context chunk size must be positive'')) (\<lambda>_.
     sbind (live_context env reference workspace) (\<lambda>found.
     case found of
       None \<Rightarrow> sfail (context_not_found reference)
     | Some c \<Rightarrow>
         sbind (slift (split_utf8_chunks (cx_content c) max_bytes)) (\<lambda>ks.
         sret (map (\<lambda>k. (reference, k)) (number_chunks ks)))))"

section \<open>Lineage\<close>

definition same_lineage :: "context_lineage \<Rightarrow> context_lineage \<Rightarrow> bool" where
  "same_lineage r t \<longleftrightarrow> cl_parent r = cl_parent t \<and> cl_child r = cl_child t
     \<and> cl_relation r = cl_relation t"

definition has_context :: "store_db \<Rightarrow> string \<Rightarrow> bool" where
  "has_context s reference \<longleftrightarrow> list_ex (\<lambda>c. cx_reference c = reference) (db_contexts s)"

definition link_context ::
    "string \<Rightarrow> string \<Rightarrow> string \<Rightarrow> string \<Rightarrow> (store_db, store_error, context_lineage) sm" where
  "link_context parent child rel workspace =
     sbind (slift (validate_context_workspace workspace)) (\<lambda>_.
     sbind (slift (require (\<not> blank parent \<and> \<not> blank child \<and> \<not> blank rel)
              ''context lineage references and relation must not be empty'')) (\<lambda>_.
     sbind (context_raw parent workspace) (\<lambda>p.
     sbind (if p = None then sret None else context_raw child workspace) (\<lambda>c.
     sbind (slift (require (c \<noteq> None)
              ''context lineage references must belong to the workspace'')) (\<lambda>_.
     sbind (sql_insert_or_ignore db_lineage db_lineage_update same_lineage
              (\<lambda>s r. has_context s (cl_parent r) \<and> has_context s (cl_child r))
              (\<lambda>_. \<lparr>cl_parent = parent, cl_child = child, cl_relation = rel,
                 cl_workspace = workspace\<rparr>)) (\<lambda>_.
     sbind (sql_first db_lineage (\<lambda>r. cl_parent r = parent \<and> cl_child r = child
              \<and> cl_relation r = rel \<and> cl_workspace r = workspace)) (\<lambda>found.
     case found of
       None \<Rightarrow> sfail (SSql ''Query returned no rows'')
     | Some r \<Rightarrow> sret r)))))))"

definition context_map ::
    "string option \<Rightarrow> string \<Rightarrow> (store_db, store_error, context_lineage list) sm" where
  "context_map reference workspace =
     sbind (slift (validate_context_workspace workspace)) (\<lambda>_.
     sbind (sql_select db_lineage (\<lambda>r. cl_workspace r = workspace
              \<and> (case reference of
                   None \<Rightarrow> True
                 | Some c \<Rightarrow> cl_parent r = c \<or> cl_child r = c))) (\<lambda>rows.
     sret (sort_key (\<lambda>r. (cl_parent r, cl_child r, cl_relation r)) rows)))"

definition reduce_context ::
    "store_env \<Rightarrow> string list \<Rightarrow> string option \<Rightarrow> string \<Rightarrow> context_metadata \<Rightarrow> string \<Rightarrow>
     (store_db, store_error, context_row) sm" where
  "reduce_context env references output_reference name m workspace =
     sbind (slift (validate_context_workspace workspace)) (\<lambda>_.
     sbind (slift (require (references \<noteq> []) ''reduce_context requires at least one reference'')) (\<lambda>_.
     sbind (smapM (\<lambda>reference.
              sbind (live_context env reference workspace) (\<lambda>found.
              case found of
                None \<Rightarrow> sfail (context_not_found reference)
              | Some c \<Rightarrow> sret (cx_content c)))
            references) (\<lambda>contents.
     let content = join [CHR 0x0A, CHR 0x0A] contents;
         reference = (case output_reference of
             None \<Rightarrow> ''reduced:'' @ se_sha256 env content
           | Some r \<Rightarrow> r) in
     sbind (put_context_with_metadata env reference name content m workspace) (\<lambda>reduced.
     sbind (sforM (\<lambda>parent.
              sbind (link_context parent reference ''reduced_from'' workspace) (\<lambda>_. sret ()))
            references) (\<lambda>_.
     sret reduced)))))"

section \<open>Lifecycle events\<close>

record event_spec =
  es_idempotency_key :: string
  es_event_type :: string
  es_context_reference :: string
  es_metadata :: string
  es_payload :: string
  es_payload_truncated :: bool
  es_workspace :: string

definition validate_event_spec :: "event_spec \<Rightarrow> store_error + unit" where
  "validate_event_spec spec =
     rbind (validate_context_workspace (es_workspace spec)) (\<lambda>_.
     rbind (rforM not_empty [(es_idempotency_key spec, ''event idempotency key''),
              (es_event_type spec, ''event type''),
              (es_context_reference spec, ''event context ref'')]) (\<lambda>_.
     rbind (require (length (es_metadata spec) \<le> MAX_EVENT_METADATA_BYTES)
              ''event metadata exceeds the configured size limit'') (\<lambda>_.
     require (length (es_payload spec) \<le> MAX_EVENT_PAYLOAD_BYTES)
       ''event payload exceeds the configured size limit'')))"

definition event_by_key ::
    "string \<Rightarrow> string \<Rightarrow> (store_db, store_error, lifecycle_event option) sm" where
  "event_by_key idempotency_key workspace =
     sql_first db_events (\<lambda>r. ev_idempotency_key r = idempotency_key \<and> ev_workspace r = workspace)"

definition event_by_context ::
    "string \<Rightarrow> string \<Rightarrow> (store_db, store_error, lifecycle_event option) sm" where
  "event_by_context context_reference workspace =
     sql_first db_events (\<lambda>r. ev_context_reference r = context_reference
       \<and> ev_workspace r = workspace)"

definition same_event :: "lifecycle_event \<Rightarrow> lifecycle_event \<Rightarrow> bool" where
  "same_event r t \<longleftrightarrow> ev_workspace r = ev_workspace t
     \<and> (ev_idempotency_key r = ev_idempotency_key t
        \<or> ev_context_reference r = ev_context_reference t)"

definition capture_event ::
    "store_env \<Rightarrow> event_spec \<Rightarrow> (store_db, store_error, lifecycle_event) sm" where
  "capture_event env spec =
     sbind (slift (validate_event_spec spec)) (\<lambda>_.
     sbind (live_context env (es_context_reference spec) (es_workspace spec)) (\<lambda>c.
     sbind (if c = None then sfail (context_not_found (es_context_reference spec)) else sret ()) (\<lambda>_.
     let payload_size = int (length (es_payload spec));
         payload_sha256 = se_sha256 env (es_payload spec);
         payload_truncated = es_payload_truncated spec in
     sbind (event_by_key (es_idempotency_key spec) (es_workspace spec)) (\<lambda>found.
     case found of
       Some existing \<Rightarrow>
         if ev_event_type existing \<noteq> es_event_type spec
           \<or> ev_context_reference existing \<noteq> es_context_reference spec
           \<or> ev_metadata existing \<noteq> es_metadata spec
           \<or> ev_payload_sha256 existing \<noteq> payload_sha256
           \<or> ev_payload_size existing \<noteq> payload_size
           \<or> ev_payload_truncated existing \<noteq> payload_truncated
         then sfail (SInvalid ''event idempotency key conflicts with an existing event'')
         else sret existing
     | None \<Rightarrow>
         sbind (event_by_context (es_context_reference spec) (es_workspace spec)) (\<lambda>other.
         sbind (slift (require (other = None) ''context already has a lifecycle event'')) (\<lambda>_.
         sbind (sql_insert db_events db_events_update same_event
                  (\<lambda>s r. has_context s (ev_context_reference r))
                  (\<lambda>rows. \<lparr>ev_id = next_id (map ev_id rows),
                     ev_idempotency_key = es_idempotency_key spec,
                     ev_event_type = es_event_type spec,
                     ev_context_reference = es_context_reference spec,
                     ev_metadata = es_metadata spec, ev_payload_sha256 = payload_sha256,
                     ev_payload_size = payload_size, ev_payload_truncated = payload_truncated,
                     ev_workspace = es_workspace spec, ev_created_at = se_now env\<rparr>)) (\<lambda>_.
         sbind (event_by_key (es_idempotency_key spec) (es_workspace spec)) (\<lambda>r.
         readable ''event insert'' r))))))))"

definition read_event ::
    "string \<Rightarrow> string \<Rightarrow> (store_db, store_error, lifecycle_event option) sm" where
  "read_event idempotency_key workspace =
     sbind (slift (validate_context_workspace workspace)) (\<lambda>_.
     event_by_key idempotency_key workspace)"

definition list_events :: "string \<Rightarrow> (store_db, store_error, lifecycle_event list) sm" where
  "list_events workspace =
     sbind (slift (validate_context_workspace workspace)) (\<lambda>_.
     sql_select db_events (\<lambda>r. ev_workspace r = workspace))"

section \<open>Handoffs\<close>

record handoff_spec =
  hs_idempotency_key :: string
  hs_context_reference :: string
  hs_owner :: string
  hs_session :: string
  hs_source :: string
  hs_workspace :: string
  hs_shared :: bool
  hs_ttl_seconds :: "int option"
  hs_expires_at :: "string option"

definition validate_handoff_spec :: "handoff_spec \<Rightarrow> store_error + unit" where
  "validate_handoff_spec spec =
     rbind (validate_context_workspace (hs_workspace spec)) (\<lambda>_.
     rbind (rforM not_empty [(hs_idempotency_key spec, ''handoff idempotency key''),
              (hs_context_reference spec, ''handoff context ref''),
              (hs_owner spec, ''handoff owner'')]) (\<lambda>_.
     rbind (require (case hs_ttl_seconds spec of None \<Rightarrow> True | Some t \<Rightarrow> 0 \<le> t)
              ''handoff ttl_seconds must not be negative'') (\<lambda>_.
     require (case hs_expires_at spec of None \<Rightarrow> True | Some v \<Rightarrow> \<not> blank v)
       ''handoff expiry must not be empty'')))"

definition ttl_modifier :: "int \<Rightarrow> string" where
  "ttl_modifier seconds = ''+'' @ dec_int seconds @ '' seconds''"

definition expiry_after_seconds :: "store_env \<Rightarrow> int \<Rightarrow> store_error + string option" where
  "expiry_after_seconds env seconds =
     rbind (require (0 \<le> seconds) ''ttl_seconds must not be negative'') (\<lambda>_.
     Inr (se_datetime env (ttl_modifier seconds)))"

definition handoff_expiry :: "store_env \<Rightarrow> handoff_spec \<Rightarrow> store_error + string option" where
  "handoff_expiry env spec =
     rbind (require (\<not> (hs_ttl_seconds spec \<noteq> None \<and> hs_expires_at spec \<noteq> None))
              ''handoff cannot specify both ttl_seconds and expires_at'') (\<lambda>_.
     case hs_expires_at spec of
       Some v \<Rightarrow>
         rbind (validate_timestamp env v ''handoff expiry'') (\<lambda>_. Inr (Some v))
     | None \<Rightarrow>
         (case hs_ttl_seconds spec of
            None \<Rightarrow> Inr None
          | Some ttl \<Rightarrow>
              rbind (require (0 \<le> ttl) ''handoff ttl_seconds must not be negative'') (\<lambda>_.
              case se_datetime env (ttl_modifier ttl) of
                None \<Rightarrow> Inl (SInvalid ''handoff ttl_seconds produced an invalid expiry'')
              | Some t \<Rightarrow> Inr (Some t))))"

definition handoff_by_key :: "string \<Rightarrow> string \<Rightarrow> (store_db, store_error, handoff option) sm" where
  "handoff_by_key idempotency_key workspace =
     sql_first db_handoffs (\<lambda>r. ho_idempotency_key r = idempotency_key
       \<and> ho_workspace r = workspace)"

definition handoff_by_context ::
    "string \<Rightarrow> string \<Rightarrow> (store_db, store_error, handoff option) sm" where
  "handoff_by_context context_reference workspace =
     sql_first db_handoffs (\<lambda>r. ho_context_reference r = context_reference
       \<and> ho_workspace r = workspace)"

definition same_handoff :: "handoff \<Rightarrow> handoff \<Rightarrow> bool" where
  "same_handoff r t \<longleftrightarrow> ho_workspace r = ho_workspace t
     \<and> (ho_idempotency_key r = ho_idempotency_key t
        \<or> ho_context_reference r = ho_context_reference t)"

definition refresh_expired_handoffs ::
    "store_env \<Rightarrow> string \<Rightarrow> (store_db, store_error, unit) sm" where
  "refresh_expired_handoffs env workspace =
     sql_update db_handoffs_update
       (\<lambda>r. ho_workspace r = workspace \<and> ho_state r = ''open''
          \<and> (case ho_expires_at r of
               None \<Rightarrow> False
             | Some v \<Rightarrow>
                 (case se_julian env v of None \<Rightarrow> False | Some t \<Rightarrow> t \<le> se_julian_now env)))
       (\<lambda>r. r\<lparr>ho_state := ''expired''\<rparr>)"

definition begin_handoff :: "store_env \<Rightarrow> handoff_spec \<Rightarrow> (store_db, store_error, handoff) sm" where
  "begin_handoff env spec =
     sbind (slift (validate_handoff_spec spec)) (\<lambda>_.
     sbind (live_context env (hs_context_reference spec) (hs_workspace spec)) (\<lambda>c.
     sbind (if c = None then sfail (context_not_found (hs_context_reference spec)) else sret ()) (\<lambda>_.
     sbind (slift (handoff_expiry env spec)) (\<lambda>expires_at.
     sbind (handoff_by_key (hs_idempotency_key spec) (hs_workspace spec)) (\<lambda>found.
     case found of
       Some existing \<Rightarrow>
         if ho_context_reference existing \<noteq> hs_context_reference spec
           \<or> ho_owner existing \<noteq> hs_owner spec \<or> ho_session existing \<noteq> hs_session spec
           \<or> ho_source existing \<noteq> hs_source spec \<or> ho_shared existing \<noteq> hs_shared spec
         then sfail (SInvalid ''handoff idempotency key conflicts with an existing handoff'')
         else sret existing
     | None \<Rightarrow>
         sbind (handoff_by_context (hs_context_reference spec) (hs_workspace spec)) (\<lambda>other.
         sbind (slift (require (other = None) ''context already has a handoff'')) (\<lambda>_.
         sbind (sql_insert db_handoffs db_handoffs_update same_handoff
                  (\<lambda>s r. has_context s (ho_context_reference r))
                  (\<lambda>rows. \<lparr>ho_id = next_id (map ho_id rows),
                     ho_idempotency_key = hs_idempotency_key spec,
                     ho_context_reference = hs_context_reference spec, ho_owner = hs_owner spec,
                     ho_session = hs_session spec, ho_source = hs_source spec,
                     ho_workspace = hs_workspace spec, ho_shared = hs_shared spec,
                     ho_expires_at = expires_at, ho_state = ''open'', ho_accepted_at = None,
                     ho_accepted_by = None, ho_cancelled_at = None, ho_cancelled_by = None,
                     ho_created_at = se_now env\<rparr>)) (\<lambda>_.
         sbind (handoff_by_key (hs_idempotency_key spec) (hs_workspace spec)) (\<lambda>r.
         readable ''handoff insert'' r)))))))))"

definition list_handoffs :: "store_env \<Rightarrow> string \<Rightarrow> (store_db, store_error, handoff list) sm" where
  "list_handoffs env workspace =
     sbind (slift (validate_context_workspace workspace)) (\<lambda>_.
     sbind (refresh_expired_handoffs env workspace) (\<lambda>_.
     sql_select db_handoffs (\<lambda>r. ho_workspace r = workspace)))"

definition accept_handoff ::
    "store_env \<Rightarrow> string \<Rightarrow> string \<Rightarrow> string \<Rightarrow> (store_db, store_error, handoff option) sm" where
  "accept_handoff env idempotency_key actor workspace =
     sbind (slift (validate_context_workspace workspace)) (\<lambda>_.
     sbind (slift (not_empty (actor, ''handoff acceptor''))) (\<lambda>_.
     sbind (refresh_expired_handoffs env workspace) (\<lambda>_.
     sbind (handoff_by_key idempotency_key workspace) (\<lambda>found.
     case found of
       None \<Rightarrow> sret None
     | Some existing \<Rightarrow>
         if ho_state existing = ''open'' then
           sbind (sql_update db_handoffs_update (\<lambda>r. ho_id r = ho_id existing)
                    (\<lambda>r. r\<lparr>ho_state := ''accepted'', ho_accepted_at := Some (se_now env),
                       ho_accepted_by := Some actor\<rparr>)) (\<lambda>_.
           handoff_by_key idempotency_key workspace)
         else if ho_state existing = ''accepted'' then sret (Some existing)
         else sfail (SInvalid (''cannot accept handoff in state '' @ ho_state existing))))))"

definition cancel_handoff ::
    "store_env \<Rightarrow> string \<Rightarrow> string \<Rightarrow> string \<Rightarrow> (store_db, store_error, handoff option) sm" where
  "cancel_handoff env idempotency_key actor workspace =
     sbind (slift (validate_context_workspace workspace)) (\<lambda>_.
     sbind (slift (not_empty (actor, ''handoff canceller''))) (\<lambda>_.
     sbind (refresh_expired_handoffs env workspace) (\<lambda>_.
     sbind (handoff_by_key idempotency_key workspace) (\<lambda>found.
     case found of
       None \<Rightarrow> sret None
     | Some existing \<Rightarrow>
         if ho_state existing = ''open'' then
           sbind (sql_update db_handoffs_update (\<lambda>r. ho_id r = ho_id existing)
                    (\<lambda>r. r\<lparr>ho_state := ''cancelled'', ho_cancelled_at := Some (se_now env),
                       ho_cancelled_by := Some actor\<rparr>)) (\<lambda>_.
           handoff_by_key idempotency_key workspace)
         else if ho_state existing = ''cancelled'' then sret (Some existing)
         else sfail (SInvalid (''cannot cancel handoff in state '' @ ho_state existing))))))"

end
