(* ===== verification/StoreGraph.thy ===== *)
theory StoreGraph
  imports StoreFacts StoreContexts
begin

text \<open>
  The graph of \<open>src/store.rs\<close>: entities, relations, decisions with their parents, and evidence.
  The alias lists of entities are stored as JSON text, whose coder is a parameter of the
  environment; the full-text index of decisions is a parameter of the queries that use it.
\<close>

section \<open>Names and entities\<close>

definition canonical_name :: "store_env \<Rightarrow> string \<Rightarrow> string" where
  "canonical_name env name = se_lowercase env (join '' '' (split_whitespace name))"

record entity_spec =
  ns_name :: string
  ns_entity_type :: string
  ns_aliases :: "string list"
  ns_workspace :: string

definition validate_entity_spec :: "entity_spec \<Rightarrow> store_error + unit" where
  "validate_entity_spec spec =
     rbind (validate_graph_workspace (ns_workspace spec)) (\<lambda>_.
     require (\<not> blank (ns_name spec)) ''entity name must not be empty'')"

definition map_entity :: "store_env \<Rightarrow> entity_row \<Rightarrow> entity" where
  "map_entity env r = \<lparr>en_id = er_id r, en_name = er_name r,
     en_canonical_name = er_canonical_name r, en_entity_type = er_entity_type r,
     en_aliases = se_aliases env (er_aliases r), en_workspace = er_workspace r\<rparr>"

definition entity_by_name :: "store_env \<Rightarrow> string \<Rightarrow> string \<Rightarrow> (store_db, store_error, entity option) sm" where
  "entity_by_name env name workspace =
     sbind (sql_first db_entities (\<lambda>r. er_name r = name \<and> er_workspace r = workspace)) (\<lambda>r.
     sret (map_option (map_entity env) r))"

definition entity_by_id :: "store_env \<Rightarrow> int \<Rightarrow> string \<Rightarrow> (store_db, store_error, entity option) sm" where
  "entity_by_id env ident workspace =
     sbind (sql_first db_entities (\<lambda>r. er_id r = ident \<and> er_workspace r = workspace)) (\<lambda>r.
     sret (map_option (map_entity env) r))"

definition same_entity :: "entity_row \<Rightarrow> entity_row \<Rightarrow> bool" where
  "same_entity r t \<longleftrightarrow> er_name r = er_name t \<and> er_workspace r = er_workspace t"

definition new_entity :: "store_env \<Rightarrow> entity_spec \<Rightarrow> entity_row list \<Rightarrow> entity_row" where
  "new_entity env spec rows = \<lparr>er_id = next_id (map er_id rows), er_name = ns_name spec,
     er_canonical_name = canonical_name env (ns_name spec), er_entity_type = ns_entity_type spec,
     er_aliases = se_aliases_text env (ns_aliases spec), er_workspace = ns_workspace spec\<rparr>"

definition remember_entity :: "store_env \<Rightarrow> entity_spec \<Rightarrow> (store_db, store_error, entity) sm" where
  "remember_entity env spec =
     sbind (slift (validate_entity_spec spec)) (\<lambda>_.
     sbind (sql_insert_or_ignore db_entities db_entities_update same_entity no_fk
              (new_entity env spec)) (\<lambda>_.
     sbind (entity_by_name env (ns_name spec) (ns_workspace spec)) (\<lambda>r.
     readable ''entity insert'' r)))"

text \<open>
  A reference is the id of an entity of the workspace, its name, or its name up to case and white
  space, tried in this order.
\<close>

definition entity_id_for_reference ::
    "store_env \<Rightarrow> string \<Rightarrow> string \<Rightarrow> (store_db, store_error, int option) sm" where
  "entity_id_for_reference env reference workspace =
     sbind (case parse_i64 reference of
              None \<Rightarrow> sret None
            | Some i \<Rightarrow> entity_by_id env i workspace) (\<lambda>by_id.
     case by_id of
       Some e \<Rightarrow> sret (Some (en_id e))
     | None \<Rightarrow>
         sbind (entity_by_name env reference workspace) (\<lambda>by_name.
         case by_name of
           Some e \<Rightarrow> sret (Some (en_id e))
         | None \<Rightarrow>
             sbind (sql_first db_entities (\<lambda>r. er_canonical_name r = canonical_name env reference
                      \<and> er_workspace r = workspace)) (\<lambda>r.
             sret (map_option er_id r))))"

definition list_entities :: "store_env \<Rightarrow> string \<Rightarrow> (store_db, store_error, entity list) sm" where
  "list_entities env workspace =
     sbind (slift (validate_graph_workspace workspace)) (\<lambda>_.
     sbind (sql_select db_entities (\<lambda>r. er_workspace r = workspace)) (\<lambda>rows.
     sret (map (map_entity env) rows)))"

section \<open>Relations\<close>

record relation_spec =
  ls_subject :: string
  ls_predicate :: string
  ls_object :: string
  ls_source_fact_id :: "int option"
  ls_workspace :: string

definition validate_relation_spec :: "relation_spec \<Rightarrow> store_error + unit" where
  "validate_relation_spec spec =
     rbind (validate_graph_workspace (ls_workspace spec)) (\<lambda>_.
     rbind (rforM not_empty [(ls_subject spec, ''relation subject''),
              (ls_predicate spec, ''relation predicate''), (ls_object spec, ''relation object'')]) (\<lambda>_.
     require (case ls_source_fact_id spec of None \<Rightarrow> True | Some i \<Rightarrow> 0 < i)
       ''relation source fact id must be positive''))"

definition relation_by_key ::
    "int \<Rightarrow> string \<Rightarrow> int \<Rightarrow> string \<Rightarrow> (store_db, store_error, relation option) sm" where
  "relation_by_key subject_id predicate object_id workspace =
     sql_first db_relations (\<lambda>r. re_subject_id r = subject_id \<and> re_predicate r = predicate
       \<and> re_object_id r = object_id \<and> re_workspace r = workspace)"

definition same_relation :: "relation \<Rightarrow> relation \<Rightarrow> bool" where
  "same_relation r t \<longleftrightarrow> re_workspace r = re_workspace t \<and> re_subject_id r = re_subject_id t
     \<and> re_predicate r = re_predicate t \<and> re_object_id r = re_object_id t"

definition has_fact :: "store_db \<Rightarrow> int option \<Rightarrow> bool" where
  "has_fact s v \<longleftrightarrow> (case v of None \<Rightarrow> True | Some i \<Rightarrow> list_ex (\<lambda>f. fa_id f = i) (db_facts s))"

definition has_entity :: "store_db \<Rightarrow> int \<Rightarrow> bool" where
  "has_entity s i \<longleftrightarrow> list_ex (\<lambda>e. er_id e = i) (db_entities s)"

definition relation_fk :: "store_db \<Rightarrow> relation \<Rightarrow> bool" where
  "relation_fk s r \<longleftrightarrow> has_entity s (re_subject_id r) \<and> has_entity s (re_object_id r)
     \<and> has_fact s (re_source_fact_id r)"

definition entity_not_found :: "string \<Rightarrow> string \<Rightarrow> int option \<Rightarrow> store_error + int" where
  "entity_not_found side reference found =
     (case found of
        None \<Rightarrow> Inl (SInvalid (side @ '' entity not found: '' @ reference))
      | Some i \<Rightarrow> Inr i)"

definition remember_relation :: "store_env \<Rightarrow> relation_spec \<Rightarrow> (store_db, store_error, relation) sm" where
  "remember_relation env spec =
     sbind (slift (validate_relation_spec spec)) (\<lambda>_.
     sbind (entity_id_for_reference env (ls_subject spec) (ls_workspace spec)) (\<lambda>found.
     sbind (slift (entity_not_found ''subject'' (ls_subject spec) found)) (\<lambda>subject_id.
     sbind (entity_id_for_reference env (ls_object spec) (ls_workspace spec)) (\<lambda>found.
     sbind (slift (entity_not_found ''object'' (ls_object spec) found)) (\<lambda>object_id.
     sbind (case ls_source_fact_id spec of
              None \<Rightarrow> sret ()
            | Some i \<Rightarrow>
                sbind (fact_by_id i (ls_workspace spec)) (\<lambda>f.
                if f = None then sfail (SInvalid (''source fact not found: '' @ dec_int i))
                else sret ())) (\<lambda>_.
     sbind (sql_insert_or_ignore db_relations db_relations_update same_relation relation_fk
              (\<lambda>rows. \<lparr>re_id = next_id (map re_id rows), re_subject_id = subject_id,
                 re_predicate = ls_predicate spec, re_object_id = object_id,
                 re_source_fact_id = ls_source_fact_id spec, re_workspace = ls_workspace spec\<rparr>)) (\<lambda>_.
     sbind (relation_by_key subject_id (ls_predicate spec) object_id (ls_workspace spec)) (\<lambda>r.
     readable ''relation insert'' r))))))))"

definition list_relations :: "string \<Rightarrow> (store_db, store_error, relation list) sm" where
  "list_relations workspace =
     sbind (slift (validate_graph_workspace workspace)) (\<lambda>_.
     sql_select db_relations (\<lambda>r. re_workspace r = workspace))"

section \<open>Search\<close>

record graph_search =
  gs_entities :: "entity list"
  gs_relations :: "relation list"

definition mentions :: "string \<Rightarrow> string \<Rightarrow> bool" where
  "mentions text query \<longleftrightarrow> sql_instr (sql_lower text) (sql_lower query)"

definition search_graph :: "store_env \<Rightarrow> string \<Rightarrow> string \<Rightarrow> (store_db, store_error, graph_search) sm" where
  "search_graph env query workspace =
     sbind (slift (validate_graph_workspace workspace)) (\<lambda>_.
     if blank query then sret \<lparr>gs_entities = [], gs_relations = []\<rparr>
     else
       sbind (sql_select db_entities (\<lambda>r. er_workspace r = workspace
                \<and> (mentions (er_name r) query \<or> mentions (er_canonical_name r) query
                   \<or> mentions (er_aliases r) query))) (\<lambda>rows.
       sbind (sql_select db_entities (\<lambda>r. er_workspace r = workspace
                \<and> (mentions (er_name r) query \<or> mentions (er_canonical_name r) query))) (\<lambda>named.
       sbind (sql_select db_relations (\<lambda>r. re_workspace r = workspace
                \<and> (mentions (re_predicate r) query \<or> re_subject_id r \<in> set (map er_id named)
                   \<or> re_object_id r \<in> set (map er_id named)))) (\<lambda>relations.
       let entities = map (map_entity env) rows; ids = map en_id entities in
       sret \<lparr>gs_entities = entities, gs_relations =
         (if ids = [] then relations
          else filter (\<lambda>r. sql_instr (se_lowercase env (re_predicate r)) (se_lowercase env query)
                 \<or> re_subject_id r \<in> set ids \<or> re_object_id r \<in> set ids) relations)\<rparr>))))"

text \<open>
  The neighbourhood of an entity: a breadth-first walk of one or two rounds over the relations,
  in both directions. The state of a round is the selected entities and relations, and the next
  frontier.
\<close>

record walk =
  wk_selected :: "int list"
  wk_relation_ids :: "int list"
  wk_relations :: "relation list"
  wk_next :: "int list"

definition neighbor :: "int list \<Rightarrow> relation \<Rightarrow> int option" where
  "neighbor frontier r =
     (if re_subject_id r \<in> set frontier then Some (re_object_id r)
      else if re_object_id r \<in> set frontier then Some (re_subject_id r)
      else None)"

definition walk_relation :: "nat \<Rightarrow> int list \<Rightarrow> int list \<Rightarrow> relation \<Rightarrow> walk \<Rightarrow> walk" where
  "walk_relation limit known frontier r k =
     (case neighbor frontier r of
        None \<Rightarrow> k
      | Some n \<Rightarrow>
          if n \<notin> set known then k
          else if n \<notin> set (wk_selected k) \<and> limit \<le> length (wk_relations k) then k
          else if n \<notin> set (wk_selected k) \<and> limit \<le> length (wk_selected k) then k
          else
            (let k = (if n \<in> set (wk_selected k) then k
                      else k\<lparr>wk_selected := wk_selected k @ [n], wk_next := wk_next k @ [n]\<rparr>)
             in if re_id r \<in> set (wk_relation_ids k) then k
                else if length (wk_relations k) < limit
                then k\<lparr>wk_relation_ids := re_id r # wk_relation_ids k,
                       wk_relations := wk_relations k @ [r]\<rparr>
                else k\<lparr>wk_relation_ids := re_id r # wk_relation_ids k\<rparr>))"

fun walk_rounds :: "nat \<Rightarrow> nat \<Rightarrow> int list \<Rightarrow> relation list \<Rightarrow> int list \<Rightarrow> walk \<Rightarrow> walk" where
  "walk_rounds 0 limit known relations frontier k = k"
| "walk_rounds (Suc d) limit known relations frontier k =
     (if frontier = [] then k
      else
        (let k = fold (walk_relation limit known frontier) relations (k\<lparr>wk_next := []\<rparr>)
         in walk_rounds d limit known relations (wk_next k) k))"

definition names_entity :: "store_env \<Rightarrow> string \<Rightarrow> entity \<Rightarrow> bool" where
  "names_entity env query e \<longleftrightarrow>
     (let q = canonical_name env query in
      en_canonical_name e = q \<or> canonical_name env (en_name e) = q
      \<or> list_ex (\<lambda>a. canonical_name env a = q) (en_aliases e))"

definition resembles_entity :: "store_env \<Rightarrow> string \<Rightarrow> entity \<Rightarrow> bool" where
  "resembles_entity env query e \<longleftrightarrow>
     (let q = canonical_name env query; l = se_lowercase env query in
      sql_instr (se_lowercase env (en_name e)) l \<or> sql_instr (en_canonical_name e) q
      \<or> list_ex (\<lambda>a. sql_instr (se_lowercase env a) l) (en_aliases e))"

definition walk_root :: "store_env \<Rightarrow> string \<Rightarrow> entity list \<Rightarrow> entity option" where
  "walk_root env query entities =
     (case find (names_entity env query) entities of
        Some e \<Rightarrow> Some e
      | None \<Rightarrow> find (resembles_entity env query) entities)"

definition graph_neighborhood ::
    "store_env \<Rightarrow> string \<Rightarrow> nat \<Rightarrow> nat \<Rightarrow> string \<Rightarrow> (store_db, store_error, graph_search) sm" where
  "graph_neighborhood env query depth limit workspace =
     sbind (slift (validate_graph_workspace workspace)) (\<lambda>_.
     if blank query then sret \<lparr>gs_entities = [], gs_relations = []\<rparr>
     else
       sbind (slift (require (depth \<in> {1..2} \<and> limit \<in> {1..200})
                ''depth or limit is outside the supported range'')) (\<lambda>_.
       sbind (list_entities env workspace) (\<lambda>entities.
       case walk_root env query entities of
         None \<Rightarrow> sret \<lparr>gs_entities = [], gs_relations = []\<rparr>
       | Some e0 \<Rightarrow>
           sbind (list_relations workspace) (\<lambda>relations.
           let k = walk_rounds depth limit (map en_id entities) relations [en_id e0]
                 \<lparr>wk_selected = [en_id e0], wk_relation_ids = [], wk_relations = [], wk_next = []\<rparr> in
           sret \<lparr>gs_entities = e0 # take (limit - 1) (filter (\<lambda>e. en_id e \<noteq> en_id e0
                     \<and> en_id e \<in> set (wk_selected k)) entities),
                 gs_relations = wk_relations k\<rparr>))))"

section \<open>Decisions\<close>

record decision_spec =
  ds_category :: string
  ds_subject :: string
  ds_scenario :: string
  ds_reasoning :: string
  ds_outcome :: string
  ds_confidence :: "f64 option"
  ds_decision_maker :: string
  ds_issue_ref :: string
  ds_path :: string
  ds_symbol :: string
  ds_parent_id :: "int option"
  ds_workspace :: string

definition validate_decision_spec :: "decision_spec \<Rightarrow> store_error + unit" where
  "validate_decision_spec spec =
     rbind (validate_graph_workspace (ds_workspace spec)) (\<lambda>_.
     rbind (rforM not_empty [(ds_subject spec, ''decision subject''),
              (ds_scenario spec, ''decision scenario''), (ds_outcome spec, ''decision outcome'')]) (\<lambda>_.
     require (case ds_confidence spec of None \<Rightarrow> True | Some c \<Rightarrow> is_finite c \<and> in_unit c)
       ''decision confidence must be between 0 and 1''))"

definition decision_by_id :: "int \<Rightarrow> string \<Rightarrow> (store_db, store_error, decision option) sm" where
  "decision_by_id ident workspace =
     sql_first db_decisions (\<lambda>r. de_id r = ident \<and> de_workspace r = workspace)"

definition decision_fk :: "store_db \<Rightarrow> decision \<Rightarrow> bool" where
  "decision_fk s r \<longleftrightarrow> (case de_parent_id r of
     None \<Rightarrow> True | Some i \<Rightarrow> list_ex (\<lambda>d. de_id d = i) (db_decisions s))"

definition new_decision :: "decision_spec \<Rightarrow> decision list \<Rightarrow> decision" where
  "new_decision spec rows = \<lparr>de_id = next_id (map de_id rows), de_category = ds_category spec,
     de_subject = ds_subject spec, de_scenario = ds_scenario spec,
     de_reasoning = ds_reasoning spec, de_outcome = ds_outcome spec,
     de_confidence = map_option sql_real (ds_confidence spec),
     de_decision_maker = ds_decision_maker spec, de_issue_ref = ds_issue_ref spec,
     de_path = ds_path spec, de_symbol = ds_symbol spec, de_parent_id = ds_parent_id spec,
     de_workspace = ds_workspace spec\<rparr>"

definition record_decision :: "decision_spec \<Rightarrow> (store_db, store_error, decision) sm" where
  "record_decision spec =
     sbind (slift (validate_decision_spec spec)) (\<lambda>_.
     sbind (case ds_parent_id spec of
              None \<Rightarrow> sret ()
            | Some p \<Rightarrow>
                sbind (decision_by_id p (ds_workspace spec)) (\<lambda>d.
                if d = None then sfail (SInvalid (''parent decision not found: '' @ dec_int p))
                else sret ())) (\<lambda>_.
     sbind get_state (\<lambda>s.
     sbind (sql_insert db_decisions db_decisions_update (\<lambda>_ _. False) decision_fk
              (new_decision spec)) (\<lambda>_.
     sbind (decision_by_id (next_id (map de_id (db_decisions s))) (ds_workspace spec)) (\<lambda>r.
     readable ''decision insert'' r)))))"

text \<open>The full-text index covers the category, scenario and reasoning of a decision.\<close>

definition query_decisions ::
    "(string \<Rightarrow> string list \<Rightarrow> bool) \<Rightarrow> string \<Rightarrow> string \<Rightarrow> (store_db, store_error, decision list) sm" where
  "query_decisions fts query workspace =
     sbind (slift (validate_graph_workspace workspace)) (\<lambda>_.
     if blank query then sret []
     else
       sbind (sql_select db_decisions (\<lambda>d. fts (fts_query query)
                [de_category d, de_scenario d, de_reasoning d] \<and> de_workspace d = workspace)) (\<lambda>rows.
       if rows \<noteq> [] then sret rows
       else
         sql_select db_decisions (\<lambda>d. de_workspace d = workspace
           \<and> list_ex (\<lambda>c. sql_like c (like_pattern query)) [de_category d, de_subject d,
                de_scenario d, de_reasoning d, de_outcome d])))"

definition find_precedents ::
    "(string \<Rightarrow> string list \<Rightarrow> bool) \<Rightarrow> string \<Rightarrow> string \<Rightarrow> (store_db, store_error, decision list) sm" where
  "find_precedents fts query workspace = query_decisions fts query workspace"

text \<open>The walk from a decision to its first ancestor; a second visit is an error.\<close>

function causal_loop ::
    "decision list \<Rightarrow> string \<Rightarrow> int option \<Rightarrow> int list \<Rightarrow> decision list \<Rightarrow> store_error + decision list" where
  "causal_loop rows workspace None seen chain = Inr chain"
| "causal_loop rows workspace (Some i) seen chain =
     (if i \<in> set seen then Inl (SInvalid ''decision parent chain contains a cycle'')
      else
        (case find (\<lambda>r. de_id r = i \<and> de_workspace r = workspace) rows of
           None \<Rightarrow> Inl (SInvalid (''decision not found: '' @ dec_int i))
         | Some d \<Rightarrow> causal_loop rows workspace (de_parent_id d) (seen @ [i]) (chain @ [d])))"
  by pat_completeness auto

termination
proof (relation "measure (\<lambda>(rows, w, i, seen, chain).
    card (de_id ` set rows - set seen) + (if i = None then 0 else 1))", goal_cases)
  case (2 rows workspace i seen chain d)
  have "i \<in> de_id ` set rows" using 2(2) by (auto simp: find_Some_iff)
  then have "de_id ` set rows - set (seen @ [i]) \<subset> de_id ` set rows - set seen" using 2(1) by auto
  then have "card (de_id ` set rows - set (seen @ [i])) < card (de_id ` set rows - set seen)"
    by (intro psubset_card_mono) simp_all
  then show ?case by (auto split: if_splits)
qed simp

definition causal_chain :: "int \<Rightarrow> string \<Rightarrow> (store_db, store_error, decision list) sm" where
  "causal_chain ident workspace =
     sbind (slift (validate_graph_workspace workspace)) (\<lambda>_.
     sbind get_state (\<lambda>s.
     sbind (slift (causal_loop (db_decisions s) workspace (Some ident) [] [])) (\<lambda>chain.
     sret (rev chain))))"

record decision_conflict =
  dc_subject :: string
  dc_scenario :: string
  dc_outcomes :: "string list"

definition outcomes_of :: "decision list \<Rightarrow> string \<times> string \<Rightarrow> string list" where
  "outcomes_of ds k =
     fold (\<lambda>d os. if de_outcome d \<in> set os then os else os @ [de_outcome d])
       (filter (\<lambda>d. (de_subject d, de_scenario d) = k) ds) []"

definition detect_conflicts ::
    "(string \<Rightarrow> string list \<Rightarrow> bool) \<Rightarrow> string \<Rightarrow> string \<Rightarrow>
     (store_db, store_error, decision_conflict list) sm" where
  "detect_conflicts fts query workspace =
     sbind (query_decisions fts query workspace) (\<lambda>ds.
     sret (map (\<lambda>(subject, scenario). \<lparr>dc_subject = subject, dc_scenario = scenario,
              dc_outcomes = outcomes_of ds (subject, scenario)\<rparr>)
       (filter (\<lambda>k. length (outcomes_of ds k) > 1)
          (sort (remdups (map (\<lambda>d. (de_subject d, de_scenario d)) ds))))))"

definition list_decisions :: "string \<Rightarrow> (store_db, store_error, decision list) sm" where
  "list_decisions workspace =
     sbind (slift (validate_graph_workspace workspace)) (\<lambda>_.
     sql_select db_decisions (\<lambda>d. de_workspace d = workspace))"

section \<open>Evidence\<close>

record evidence_spec =
  vs_fact_id :: int
  vs_source_ref :: string
  vs_source :: string
  vs_checksum :: string
  vs_fetched_at :: "string option"
  vs_repository_ref :: string
  vs_path :: string
  vs_symbol :: string
  vs_line_start :: "int option"
  vs_line_end :: "int option"
  vs_column_start :: "int option"
  vs_column_end :: "int option"
  vs_selected_text :: string
  vs_resolution_status :: string
  vs_workspace :: string

definition validate_offsets :: "int option \<times> int option \<times> string \<Rightarrow> store_error + unit" where
  "validate_offsets = (\<lambda>(start, end, label).
     rbind (require (\<not> ((case start of None \<Rightarrow> False | Some v \<Rightarrow> v < 0)
                \<or> (case end of None \<Rightarrow> False | Some v \<Rightarrow> v < 0)))
              (''evidence '' @ label @ '' offsets must not be negative'')) (\<lambda>_.
     require (case (start, end) of (Some a, Some b) \<Rightarrow> a \<le> b | _ \<Rightarrow> True)
       (''evidence '' @ label @ '' end must not precede start'')))"

definition validate_evidence_spec :: "evidence_spec \<Rightarrow> store_error + unit" where
  "validate_evidence_spec spec =
     rbind (validate_context_workspace (vs_workspace spec)) (\<lambda>_.
     rbind (require (0 < vs_fact_id spec) ''evidence fact id must be positive'') (\<lambda>_.
     rbind (rforM not_empty [(vs_source_ref spec, ''evidence source ref''),
              (vs_resolution_status spec, ''evidence resolution status'')]) (\<lambda>_.
     rforM validate_offsets [(vs_line_start spec, vs_line_end spec, ''line''),
       (vs_column_start spec, vs_column_end spec, ''column'')])))"

definition evidence_by_key ::
    "int \<Rightarrow> string \<Rightarrow> string \<Rightarrow> (store_db, store_error, evidence option) sm" where
  "evidence_by_key fact_id source_ref workspace =
     sql_first db_evidence (\<lambda>r. ee_fact_id r = fact_id \<and> ee_source_ref r = source_ref
       \<and> ee_workspace r = workspace)"

definition same_evidence :: "evidence \<Rightarrow> evidence \<Rightarrow> bool" where
  "same_evidence r t \<longleftrightarrow> ee_workspace r = ee_workspace t \<and> ee_fact_id r = ee_fact_id t
     \<and> ee_source_ref r = ee_source_ref t"

definition evidence_fk :: "store_db \<Rightarrow> evidence \<Rightarrow> bool" where
  "evidence_fk s r \<longleftrightarrow> has_fact s (Some (ee_fact_id r))"

definition new_evidence :: "store_env \<Rightarrow> evidence_spec \<Rightarrow> evidence list \<Rightarrow> evidence" where
  "new_evidence env spec rows = \<lparr>ee_id = next_id (map ee_id rows), ee_fact_id = vs_fact_id spec,
     ee_source_ref = vs_source_ref spec, ee_source = vs_source spec,
     ee_checksum = vs_checksum spec, ee_fetched_at = vs_fetched_at spec,
     ee_repository_ref = vs_repository_ref spec, ee_path = vs_path spec,
     ee_symbol = vs_symbol spec, ee_line_start = vs_line_start spec,
     ee_line_end = vs_line_end spec, ee_column_start = vs_column_start spec,
     ee_column_end = vs_column_end spec,
     ee_selected_text_sha256 = se_sha256 env (vs_selected_text spec),
     ee_resolution_status = vs_resolution_status spec, ee_workspace = vs_workspace spec,
     ee_created_at = se_now env\<rparr>"

definition attach_evidence ::
    "store_env \<Rightarrow> evidence_spec \<Rightarrow> (store_db, store_error, evidence) sm" where
  "attach_evidence env spec =
     sbind (slift (validate_evidence_spec spec)) (\<lambda>_.
     sbind (fact_by_id (vs_fact_id spec) (vs_workspace spec)) (\<lambda>f.
     if f = None then sfail (SInvalid (''fact not found: '' @ dec_int (vs_fact_id spec)))
     else
       sbind (slift (case vs_fetched_at spec of
                None \<Rightarrow> Inr ()
              | Some v \<Rightarrow> validate_timestamp env v ''evidence fetched_at'')) (\<lambda>_.
       sbind (evidence_by_key (vs_fact_id spec) (vs_source_ref spec) (vs_workspace spec)) (\<lambda>found.
       case found of
         Some existing \<Rightarrow>
           if ee_source existing \<noteq> vs_source spec \<or> ee_checksum existing \<noteq> vs_checksum spec
             \<or> ee_fetched_at existing \<noteq> vs_fetched_at spec
             \<or> ee_repository_ref existing \<noteq> vs_repository_ref spec
             \<or> ee_path existing \<noteq> vs_path spec \<or> ee_symbol existing \<noteq> vs_symbol spec
             \<or> ee_line_start existing \<noteq> vs_line_start spec
             \<or> ee_line_end existing \<noteq> vs_line_end spec
             \<or> ee_column_start existing \<noteq> vs_column_start spec
             \<or> ee_column_end existing \<noteq> vs_column_end spec
             \<or> ee_selected_text_sha256 existing \<noteq> se_sha256 env (vs_selected_text spec)
             \<or> ee_resolution_status existing \<noteq> vs_resolution_status spec
           then sfail (SInvalid ''evidence source ref conflicts with an existing record'')
           else sret existing
       | None \<Rightarrow>
           sbind (sql_insert db_evidence db_evidence_update same_evidence evidence_fk
                    (new_evidence env spec)) (\<lambda>_.
           sbind (evidence_by_key (vs_fact_id spec) (vs_source_ref spec) (vs_workspace spec)) (\<lambda>r.
           readable ''evidence insert'' r))))))"

definition get_provenance :: "int \<Rightarrow> string \<Rightarrow> (store_db, store_error, evidence list) sm" where
  "get_provenance fact_id workspace =
     sbind (slift (validate_context_workspace workspace)) (\<lambda>_.
     sql_select db_evidence (\<lambda>r. ee_fact_id r = fact_id \<and> ee_workspace r = workspace))"

record evidence_summary =
  es_total :: nat
  es_resolved :: nat
  es_stale :: nat
  es_unresolved :: nat

definition summary_status :: "evidence_summary \<Rightarrow> string" where
  "summary_status m =
     (if es_resolved m > 0 then ''resolved'' else if es_stale m > 0 then ''stale''
      else if es_unresolved m > 0 then ''unresolved'' else ''missing'')"

definition count_status :: "string \<Rightarrow> evidence_summary \<Rightarrow> evidence_summary" where
  "count_status status m =
     (if status = ''resolved'' then m\<lparr>es_resolved := es_resolved m + 1\<rparr>
      else if status = ''stale'' then m\<lparr>es_stale := es_stale m + 1\<rparr>
      else m\<lparr>es_unresolved := es_unresolved m + 1\<rparr>)"

definition fact_evidence_summary ::
    "int \<Rightarrow> string \<Rightarrow> (store_db, store_error, evidence_summary) sm" where
  "fact_evidence_summary fact_id workspace =
     sbind (slift (validate_graph_workspace workspace)) (\<lambda>_.
     sbind (sql_select db_evidence (\<lambda>r. ee_fact_id r = fact_id
              \<and> in_scope workspace (ee_workspace r))) (\<lambda>rows.
     sret (fold count_status (map ee_resolution_status rows)
       \<lparr>es_total = length rows, es_resolved = 0, es_stale = 0, es_unresolved = 0\<rparr>)))"

definition list_evidence :: "string \<Rightarrow> (store_db, store_error, evidence list) sm" where
  "list_evidence workspace =
     sbind (slift (validate_context_workspace workspace)) (\<lambda>_.
     sql_select db_evidence (\<lambda>r. ee_workspace r = workspace))"

end
