(* ===== verification/StoreCandidates.thy ===== *)
theory StoreCandidates
  imports StoreGraph
begin

text \<open>
  Relation candidates of \<open>src/store.rs\<close>: hypotheses about the graph that wait for a review. A
  candidate is created by hand or generated from the words two facts share; confirming it makes
  it a relation, and a contradiction marks it as a conflict.
\<close>

section \<open>Specifications\<close>

record candidate_spec =
  ks_subject :: string
  ks_predicate :: string
  ks_object :: string
  ks_relation_type :: string
  ks_direction :: string
  ks_score :: f64
  ks_confidence :: f64
  ks_source_fact_id :: "int option"
  ks_target_fact_id :: "int option"
  ks_source_evidence_id :: "int option"
  ks_target_evidence_id :: "int option"
  ks_provenance :: string
  ks_workspace :: string

definition candidate_directions :: "string list" where
  "candidate_directions = [''out'', ''in'', ''undirected'']"

definition require_unit :: "f64 \<times> string \<Rightarrow> store_error + unit" where
  "require_unit p = require (is_finite (fst p) \<and> in_unit (fst p)) (snd p @ '' must be between 0 and 1'')"

definition require_positive :: "int option \<times> string \<Rightarrow> store_error + unit" where
  "require_positive p = require (case fst p of None \<Rightarrow> True | Some i \<Rightarrow> 0 < i)
     (snd p @ '' must be positive when provided'')"

definition validate_relation_candidate_spec :: "candidate_spec \<Rightarrow> store_error + unit" where
  "validate_relation_candidate_spec spec =
     rbind (validate_graph_workspace (ks_workspace spec)) (\<lambda>_.
     rbind (rforM not_empty [(ks_subject spec, ''candidate subject''),
              (ks_predicate spec, ''candidate predicate''), (ks_object spec, ''candidate object''),
              (ks_relation_type spec, ''candidate relation type''),
              (ks_direction spec, ''candidate direction''),
              (ks_provenance spec, ''candidate provenance'')]) (\<lambda>_.
     rbind (require (ks_direction spec \<in> set candidate_directions)
              ''candidate direction must be out, in, or undirected'') (\<lambda>_.
     rbind (rforM require_unit [(ks_score spec, ''candidate score''),
              (ks_confidence spec, ''candidate confidence'')]) (\<lambda>_.
     rbind (rforM require_positive [(ks_source_fact_id spec, ''candidate source fact id''),
              (ks_target_fact_id spec, ''candidate target fact id''),
              (ks_source_evidence_id spec, ''candidate source evidence id''),
              (ks_target_evidence_id spec, ''candidate target evidence id'')]) (\<lambda>_.
     require (\<not> (ks_source_fact_id spec = ks_target_fact_id spec \<and> ks_source_fact_id spec \<noteq> None))
       ''candidate source and target facts must differ'')))))"

definition candidate_statuses :: "string list" where
  "candidate_statuses = [''candidate'', ''confirmed'', ''rejected'', ''conflict'']"

definition validate_relation_candidate_status :: "string \<Rightarrow> store_error + unit" where
  "validate_relation_candidate_status status = require (status \<in> set candidate_statuses)
     ''candidate status must be candidate, confirmed, rejected, or conflict''"

text \<open>\<open>None\<close> is below every \<open>Some\<close>.\<close>

definition option_le :: "int option \<Rightarrow> int option \<Rightarrow> bool" where
  "option_le x y \<longleftrightarrow> (case x of None \<Rightarrow> True | Some a \<Rightarrow> (case y of None \<Rightarrow> False | Some b \<Rightarrow> a \<le> b))"

definition canonical_candidate_fact_ids :: "int option \<Rightarrow> int option \<Rightarrow> int option \<times> int option" where
  "canonical_candidate_fact_ids x y = (if option_le x y then (x, y) else (y, x))"

definition or_zero :: "int option \<Rightarrow> int" where
  "or_zero v = (case v of None \<Rightarrow> 0 | Some i \<Rightarrow> i)"

definition relation_candidate_key :: "store_env \<Rightarrow> candidate_spec \<Rightarrow> string" where
  "relation_candidate_key env spec =
     (let (source, target) =
            (if ks_direction spec = ''undirected''
             then canonical_candidate_fact_ids (ks_source_fact_id spec) (ks_target_fact_id spec)
             else (ks_source_fact_id spec, ks_target_fact_id spec))
      in join [CHR 0x1F] [canonical_name env (ks_subject spec), canonical_name env (ks_predicate spec),
           canonical_name env (ks_object spec), canonical_name env (ks_relation_type spec),
           ks_direction spec, dec_int (or_zero source), dec_int (or_zero target)])"

definition relation_candidate_matches :: "'a candidate_scheme \<Rightarrow> candidate_spec \<Rightarrow> bool" where
  "relation_candidate_matches e spec \<longleftrightarrow> rc_subject e = ks_subject spec
     \<and> rc_predicate e = ks_predicate spec \<and> rc_object e = ks_object spec
     \<and> rc_relation_type e = ks_relation_type spec \<and> rc_direction e = ks_direction spec
     \<and> rc_score e = ks_score spec \<and> rc_confidence e = ks_confidence spec
     \<and> ((rc_source_fact_id e = ks_source_fact_id spec \<and> rc_target_fact_id e = ks_target_fact_id spec
         \<and> rc_source_evidence_id e = ks_source_evidence_id spec
         \<and> rc_target_evidence_id e = ks_target_evidence_id spec)
        \<or> (ks_direction spec = ''undirected'' \<and> rc_source_fact_id e = ks_target_fact_id spec
           \<and> rc_target_fact_id e = ks_source_fact_id spec
           \<and> rc_source_evidence_id e = ks_target_evidence_id spec
           \<and> rc_target_evidence_id e = ks_source_evidence_id spec))
     \<and> rc_provenance e = ks_provenance spec"

section \<open>Rows\<close>

definition relation_candidate_by_id ::
    "int \<Rightarrow> string \<Rightarrow> (store_db, store_error, candidate_row option) sm" where
  "relation_candidate_by_id ident workspace =
     sql_first db_candidates (\<lambda>r. rc_id r = ident \<and> rc_workspace r = workspace)"

definition relation_candidate_by_key ::
    "string \<Rightarrow> string \<Rightarrow> (store_db, store_error, candidate_row option) sm" where
  "relation_candidate_by_key key workspace =
     sql_first db_candidates (\<lambda>r. rc_key r = key \<and> rc_workspace r = workspace)"

definition merge_evidence_status :: "string \<Rightarrow> string \<Rightarrow> string" where
  "merge_evidence_status source target =
     (if source = ''resolved'' \<or> target = ''resolved'' then ''resolved''
      else if source = ''stale'' \<or> target = ''stale'' then ''stale''
      else if source = ''unresolved'' \<or> target = ''unresolved'' then ''unresolved''
      else ''missing'')"

definition map_relation_candidate :: "candidate_row \<Rightarrow> string \<Rightarrow> string \<Rightarrow> relation_candidate" where
  "map_relation_candidate r source target =
     candidate.extend (candidate.truncate r) (relation_candidate.fields source target
       (merge_evidence_status source target))"

definition candidate_evidence_status ::
    "int option \<Rightarrow> string \<Rightarrow> (store_db, store_error, string) sm" where
  "candidate_evidence_status fact_id workspace =
     (case fact_id of
        None \<Rightarrow> sret ''missing''
      | Some i \<Rightarrow> sbind (fact_evidence_summary i workspace) (\<lambda>m. sret (summary_status m)))"

definition hydrate_relation_candidate ::
    "candidate_row \<Rightarrow> string \<Rightarrow> (store_db, store_error, relation_candidate) sm" where
  "hydrate_relation_candidate r workspace =
     sbind (candidate_evidence_status (rc_source_fact_id r) workspace) (\<lambda>source.
     sbind (candidate_evidence_status (rc_target_fact_id r) workspace) (\<lambda>target.
     sret (map_relation_candidate r source target)))"

text \<open>For a list, one query collects the evidence of all facts; a fact without any is missing.\<close>

definition summary_in :: "evidence list \<Rightarrow> int option \<Rightarrow> string" where
  "summary_in rows fact_id =
     (case fact_id of
        None \<Rightarrow> ''missing''
      | Some i \<Rightarrow>
          let own = filter (\<lambda>e. ee_fact_id e = i) rows in
          summary_status (fold count_status (map ee_resolution_status own)
            \<lparr>es_total = length own, es_resolved = 0, es_stale = 0, es_unresolved = 0\<rparr>))"

definition candidate_fact_ids :: "candidate_row list \<Rightarrow> int list" where
  "candidate_fact_ids rows =
     List.map_filter id (concat (map (\<lambda>r. [rc_source_fact_id r, rc_target_fact_id r]) rows))"

definition hydrate_relation_candidates ::
    "candidate_row list \<Rightarrow> string \<Rightarrow> (store_db, store_error, relation_candidate list) sm" where
  "hydrate_relation_candidates rows workspace =
     sbind (slift (validate_graph_workspace workspace)) (\<lambda>_.
     sbind (sql_select db_evidence (\<lambda>e. ee_fact_id e \<in> set (candidate_fact_ids rows)
              \<and> in_scope workspace (ee_workspace e))) (\<lambda>evidence.
     sret (map (\<lambda>r. map_relation_candidate r (summary_in evidence (rc_source_fact_id r))
              (summary_in evidence (rc_target_fact_id r))) rows)))"

section \<open>Creating\<close>

definition validate_candidate_fact_and_evidence ::
    "int option \<Rightarrow> int option \<Rightarrow> string \<Rightarrow> string \<Rightarrow> (store_db, store_error, unit) sm" where
  "validate_candidate_fact_and_evidence fact_id evidence_id workspace side =
     (if evidence_id \<noteq> None \<and> fact_id = None
      then sfail (SInvalid (side @ '' evidence requires a '' @ side @ '' fact''))
      else
        case fact_id of
          None \<Rightarrow> sret ()
        | Some i \<Rightarrow>
            sbind (fact_by_id i workspace) (\<lambda>f.
            if f = None then sfail (SInvalid (side @ '' fact not found: '' @ dec_int i))
            else
              case evidence_id of
                None \<Rightarrow> sret ()
              | Some j \<Rightarrow>
                  sbind (sql_first db_evidence (\<lambda>e. ee_id e = j \<and> ee_fact_id e = i
                           \<and> in_scope workspace (ee_workspace e))) (\<lambda>e.
                  if e = None
                  then sfail (SInvalid (side @ '' evidence not found for fact: '' @ dec_int j))
                  else sret ())))"

definition mark_relation_candidate_conflict ::
    "store_env \<Rightarrow> int \<Rightarrow> string \<Rightarrow> string \<Rightarrow> (store_db, store_error, unit) sm" where
  "mark_relation_candidate_conflict env ident note workspace =
     sql_update db_candidates_update (\<lambda>r. rc_id r = ident \<and> rc_workspace r = workspace)
       (\<lambda>r. r\<lparr>rc_status := ''conflict'', rc_review_note := note, rc_updated_at := se_now env\<rparr>)"

definition same_candidate :: "candidate_row \<Rightarrow> candidate_row \<Rightarrow> bool" where
  "same_candidate r t \<longleftrightarrow> rc_workspace r = rc_workspace t \<and> rc_key r = rc_key t"

definition has_evidence :: "store_db \<Rightarrow> int option \<Rightarrow> bool" where
  "has_evidence s v \<longleftrightarrow> (case v of None \<Rightarrow> True | Some i \<Rightarrow> list_ex (\<lambda>e. ee_id e = i) (db_evidence s))"

definition candidate_fk :: "store_db \<Rightarrow> candidate_row \<Rightarrow> bool" where
  "candidate_fk s r \<longleftrightarrow> has_fact s (rc_source_fact_id r) \<and> has_fact s (rc_target_fact_id r)
     \<and> has_evidence s (rc_source_evidence_id r) \<and> has_evidence s (rc_target_evidence_id r)
     \<and> (case rc_relation_id r of None \<Rightarrow> True | Some i \<Rightarrow> list_ex (\<lambda>x. re_id x = i) (db_relations s))"

definition new_candidate ::
    "store_env \<Rightarrow> candidate_spec \<Rightarrow> int option \<Rightarrow> int option \<Rightarrow> candidate_row list \<Rightarrow> candidate_row" where
  "new_candidate env spec subject_id object_id rows =
     \<lparr>rc_id = next_id (map rc_id rows), rc_subject = ks_subject spec,
      rc_subject_entity_id = subject_id, rc_predicate = ks_predicate spec,
      rc_object = ks_object spec, rc_object_entity_id = object_id,
      rc_relation_type = ks_relation_type spec, rc_direction = ks_direction spec,
      rc_score = sql_real (ks_score spec), rc_confidence = sql_real (ks_confidence spec),
      rc_source_fact_id = ks_source_fact_id spec, rc_target_fact_id = ks_target_fact_id spec,
      rc_source_evidence_id = ks_source_evidence_id spec,
      rc_target_evidence_id = ks_target_evidence_id spec, rc_provenance = ks_provenance spec,
      rc_status = ''candidate'', rc_relation_id = None, rc_reviewer = [], rc_review_note = [],
      rc_workspace = ks_workspace spec, rc_created_at = se_now env, rc_updated_at = se_now env,
      rc_key = relation_candidate_key env spec\<rparr>"

definition create_relation_candidate ::
    "store_env \<Rightarrow> candidate_spec \<Rightarrow> (store_db, store_error, relation_candidate) sm" where
  "create_relation_candidate env spec =
     sbind (slift (validate_relation_candidate_spec spec)) (\<lambda>_.
     sbind (entity_id_for_reference env (ks_subject spec) (ks_workspace spec)) (\<lambda>subject_id.
     sbind (entity_id_for_reference env (ks_object spec) (ks_workspace spec)) (\<lambda>object_id.
     sbind (validate_candidate_fact_and_evidence (ks_source_fact_id spec)
              (ks_source_evidence_id spec) (ks_workspace spec) ''source'') (\<lambda>_.
     sbind (validate_candidate_fact_and_evidence (ks_target_fact_id spec)
              (ks_target_evidence_id spec) (ks_workspace spec) ''target'') (\<lambda>_.
     let key = relation_candidate_key env spec in
     sbind (relation_candidate_by_key key (ks_workspace spec)) (\<lambda>found.
     case found of
       Some existing \<Rightarrow>
         if relation_candidate_matches existing spec
         then hydrate_relation_candidate existing (ks_workspace spec)
         else
           sbind (if rc_status existing \<noteq> ''confirmed''
                  then mark_relation_candidate_conflict env (rc_id existing)
                         ''candidate provenance conflicts with an existing candidate''
                         (ks_workspace spec)
                  else sret ()) (\<lambda>_.
           sfail (SInvalid ''relation candidate conflicts with an existing candidate''))
     | None \<Rightarrow>
         sbind (sql_insert db_candidates db_candidates_update same_candidate candidate_fk
                  (new_candidate env spec subject_id object_id)) (\<lambda>_.
         sbind (relation_candidate_by_key key (ks_workspace spec)) (\<lambda>r.
         sbind (readable ''relation candidate insert'' r) (\<lambda>r.
         hydrate_relation_candidate r (ks_workspace spec))))))))))"

section \<open>Reviewing\<close>

definition concept :: "string \<Rightarrow> string \<Rightarrow> entity_spec" where
  "concept name workspace = \<lparr>ns_name = name, ns_entity_type = ''concept'', ns_aliases = [],
     ns_workspace = workspace\<rparr>"

definition hydrate_found ::
    "candidate_row option \<Rightarrow> string \<Rightarrow> (store_db, store_error, relation_candidate option) sm" where
  "hydrate_found found workspace =
     (case found of
        None \<Rightarrow> sret None
      | Some r \<Rightarrow> sbind (hydrate_relation_candidate r workspace) (\<lambda>c. sret (Some c)))"

definition provenance_conflict :: string where
  "provenance_conflict = ''confirmed candidate conflicts with an existing relation provenance''"

definition promoted_relation ::
    "store_env \<Rightarrow> candidate_row \<Rightarrow> string \<Rightarrow> (store_db, store_error, int) sm" where
  "promoted_relation env c workspace =
     sbind (remember_entity env (concept (rc_subject c) workspace)) (\<lambda>subject.
     sbind (remember_entity env (concept (rc_object c) workspace)) (\<lambda>object.
     sbind (relation_by_key (en_id subject) (rc_predicate c) (en_id object) workspace) (\<lambda>found.
     case found of
       Some existing \<Rightarrow>
         if re_source_fact_id existing \<noteq> rc_source_fact_id c then
           sbind (mark_relation_candidate_conflict env (rc_id c) provenance_conflict workspace) (\<lambda>_.
           sfail (SInvalid provenance_conflict))
         else sret (re_id existing)
     | None \<Rightarrow>
         sbind (remember_relation env \<lparr>ls_subject = en_name subject, ls_predicate = rc_predicate c,
                  ls_object = en_name object, ls_source_fact_id = rc_source_fact_id c,
                  ls_workspace = workspace\<rparr>) (\<lambda>r.
         sret (re_id r)))))"

definition positive_candidate_id :: "int \<Rightarrow> store_error + unit" where
  "positive_candidate_id ident = require (0 < ident) ''candidate id must be positive''"

definition confirm_relation_candidate ::
    "store_env \<Rightarrow> int \<Rightarrow> string \<Rightarrow> string \<Rightarrow> string \<Rightarrow>
     (store_db, store_error, relation_candidate option) sm" where
  "confirm_relation_candidate env ident reviewer note workspace =
     sbind (slift (validate_graph_workspace workspace)) (\<lambda>_.
     sbind (slift (positive_candidate_id ident)) (\<lambda>_.
     sbind (relation_candidate_by_id ident workspace) (\<lambda>found.
     case found of
       None \<Rightarrow> sret None
     | Some c \<Rightarrow>
         if rc_status c = ''confirmed'' then hydrate_found (Some c) workspace
         else if rc_status c \<noteq> ''candidate''
         then sfail (SInvalid (''cannot confirm relation candidate in state '' @ rc_status c))
         else
           sbind (validate_candidate_fact_and_evidence (rc_source_fact_id c)
                    (rc_source_evidence_id c) workspace ''source'') (\<lambda>_.
           sbind (validate_candidate_fact_and_evidence (rc_target_fact_id c)
                    (rc_target_evidence_id c) workspace ''target'') (\<lambda>_.
           sbind (promoted_relation env c workspace) (\<lambda>relation_id.
           sbind (sql_update db_candidates_update (\<lambda>r. rc_id r = ident \<and> rc_workspace r = workspace)
                    (\<lambda>r. r\<lparr>rc_status := ''confirmed'', rc_relation_id := Some relation_id,
                       rc_reviewer := reviewer, rc_review_note := note,
                       rc_updated_at := se_now env\<rparr>)) (\<lambda>_.
           sbind (relation_candidate_by_id ident workspace) (\<lambda>r. hydrate_found r workspace)))))))) "

definition reject_relation_candidate ::
    "store_env \<Rightarrow> int \<Rightarrow> string \<Rightarrow> string \<Rightarrow> string \<Rightarrow>
     (store_db, store_error, relation_candidate option) sm" where
  "reject_relation_candidate env ident reviewer note workspace =
     sbind (slift (validate_graph_workspace workspace)) (\<lambda>_.
     sbind (slift (positive_candidate_id ident)) (\<lambda>_.
     sbind (relation_candidate_by_id ident workspace) (\<lambda>found.
     case found of
       None \<Rightarrow> sret None
     | Some c \<Rightarrow>
         sbind (if rc_status c = ''candidate'' then
                  sql_update db_candidates_update (\<lambda>r. rc_id r = ident \<and> rc_workspace r = workspace)
                    (\<lambda>r. r\<lparr>rc_status := ''rejected'', rc_reviewer := reviewer,
                       rc_review_note := note, rc_updated_at := se_now env\<rparr>)
                else if rc_status c = ''rejected'' then sret ()
                else sfail (SInvalid (''cannot reject relation candidate in state '' @ rc_status c))) (\<lambda>_.
         sbind (relation_candidate_by_id ident workspace) (\<lambda>r. hydrate_found r workspace)))))"

definition list_relation_candidates ::
    "store_env \<Rightarrow> string \<Rightarrow> string option \<Rightarrow> string option \<Rightarrow> nat \<Rightarrow>
     (store_db, store_error, relation_candidate list) sm" where
  "list_relation_candidates env workspace status query limit =
     sbind (slift (validate_graph_workspace workspace)) (\<lambda>_.
     sbind (slift (require (limit \<in> {1..200}) ''candidate list limit must be between 1 and 200'')) (\<lambda>_.
     sbind (slift (case status of None \<Rightarrow> Inr () | Some v \<Rightarrow> validate_relation_candidate_status v)) (\<lambda>_.
     sbind (sql_select db_candidates (\<lambda>r. rc_workspace r = workspace
              \<and> null_or status (rc_status r)
              \<and> (case query of
                   None \<Rightarrow> True
                 | Some q \<Rightarrow> sql_like (sql_lower (rc_subject r @ '' '' @ rc_predicate r @ '' '' @ rc_object r))
                     (like_pattern (se_lowercase env q))))) (\<lambda>rows.
     hydrate_relation_candidates
       (sql_limit limit (sort_key (\<lambda>r. - the (f64_rat (rc_score r))) rows)) workspace))))"

definition list_relation_candidates_all ::
    "string \<Rightarrow> (store_db, store_error, relation_candidate list) sm" where
  "list_relation_candidates_all workspace =
     sbind (slift (validate_graph_workspace workspace)) (\<lambda>_.
     sbind (sql_select db_candidates (\<lambda>r. rc_workspace r = workspace)) (\<lambda>rows.
     hydrate_relation_candidates rows workspace))"

end
