(* ===== verification/StoreRecords.thy ===== *)
theory StoreRecords
  imports StoreBase
begin

text \<open>
  Runs, measurements and feedback of \<open>src/store.rs\<close>: records under a key of the caller's, so that
  a retry of a recording finds its first outcome and a different record under the same key is
  refused.
\<close>

section \<open>Runs\<close>

record run_spec =
  rs_run_id :: string
  rs_issue_ref :: string
  rs_pr_ref :: string
  rs_session :: string
  rs_git_ref :: string
  rs_files :: string
  rs_diff :: string
  rs_workspace :: string

definition run_by_key :: "string \<Rightarrow> string \<Rightarrow> (store_db, store_error, run option) sm" where
  "run_by_key run_id workspace =
     sql_first db_runs (\<lambda>r. ru_run_id r = run_id \<and> ru_workspace r = workspace)"

definition same_run :: "run \<Rightarrow> run \<Rightarrow> bool" where
  "same_run r t \<longleftrightarrow> ru_run_id r = ru_run_id t \<and> ru_workspace r = ru_workspace t"

definition validate_run_spec :: "run_spec \<Rightarrow> store_error + unit" where
  "validate_run_spec spec = validate_run_key (rs_run_id spec) (rs_workspace spec)"

definition begin_run :: "store_env \<Rightarrow> run_spec \<Rightarrow> (store_db, store_error, run) sm" where
  "begin_run env spec =
     sbind (slift (validate_run_spec spec)) (\<lambda>_.
     let files = truncate_utf8 (rs_files spec) MAX_RUN_FILES_BYTES;
         diff = truncate_utf8 (rs_diff spec) MAX_RUN_DIFF_BYTES in
     sbind (run_by_key (rs_run_id spec) (rs_workspace spec)) (\<lambda>found.
     case found of
       Some existing \<Rightarrow>
         if ru_issue_ref existing \<noteq> rs_issue_ref spec \<or> ru_pr_ref existing \<noteq> rs_pr_ref spec
           \<or> ru_session existing \<noteq> rs_session spec \<or> ru_git_ref existing \<noteq> rs_git_ref spec
           \<or> ru_files existing \<noteq> files \<or> ru_diff existing \<noteq> diff
         then sfail (SInvalid ''run id conflicts with an existing record'')
         else sret existing
     | None \<Rightarrow>
         sbind (sql_insert db_runs db_runs_update same_run no_fk
                  (\<lambda>rows. \<lparr>ru_id = next_id (map ru_id rows), ru_run_id = rs_run_id spec,
                     ru_issue_ref = rs_issue_ref spec, ru_pr_ref = rs_pr_ref spec,
                     ru_session = rs_session spec, ru_git_ref = rs_git_ref spec, ru_files = files,
                     ru_diff = diff, ru_summary = [], ru_state = ''open'',
                     ru_workspace = rs_workspace spec, ru_created_at = se_now env,
                     ru_ended_at = None\<rparr>)) (\<lambda>_.
         sbind (run_by_key (rs_run_id spec) (rs_workspace spec)) (\<lambda>r.
         readable ''run insert'' r))))"

definition end_run ::
    "store_env \<Rightarrow> string \<Rightarrow> string \<Rightarrow> string \<Rightarrow> (store_db, store_error, run option) sm" where
  "end_run env run_id summary workspace =
     sbind (slift (validate_run_key run_id workspace)) (\<lambda>_.
     sbind (run_by_key run_id workspace) (\<lambda>found.
     case found of
       None \<Rightarrow> sret None
     | Some existing \<Rightarrow>
         if ru_state existing = ''closed'' then
           (if summary \<noteq> [] \<and> ru_summary existing \<noteq> summary
            then sfail (SInvalid ''closed run summary conflicts with an existing record'')
            else sret (Some existing))
         else
           sbind (sql_update db_runs_update (\<lambda>r. ru_run_id r = run_id \<and> ru_workspace r = workspace)
                    (\<lambda>r. r\<lparr>ru_state := ''closed'',
                       ru_summary := truncate_utf8 summary MAX_RUN_DIFF_BYTES,
                       ru_ended_at := Some (se_now env)\<rparr>)) (\<lambda>_.
           run_by_key run_id workspace)))"

text \<open>\<open>COALESCE(?1, column)\<close>.\<close>

definition coalesce :: "'a option \<Rightarrow> 'a \<Rightarrow> 'a" where
  "coalesce v x = (case v of None \<Rightarrow> x | Some y \<Rightarrow> y)"

definition link_run ::
    "string \<Rightarrow> string option \<Rightarrow> string option \<Rightarrow> string option \<Rightarrow> string option \<Rightarrow> string \<Rightarrow>
     (store_db, store_error, run option) sm" where
  "link_run run_id issue_ref pr_ref session git_ref workspace =
     sbind (slift (validate_run_key run_id workspace)) (\<lambda>_.
     sbind (slift (require (\<not> (issue_ref = None \<and> pr_ref = None \<and> session = None \<and> git_ref = None))
              ''link_run requires at least one link field'')) (\<lambda>_.
     sbind (run_by_key run_id workspace) (\<lambda>found.
     if found = None then sret None
     else
       sbind (sql_update db_runs_update (\<lambda>r. ru_run_id r = run_id \<and> ru_workspace r = workspace)
                (\<lambda>r. r\<lparr>ru_issue_ref := coalesce issue_ref (ru_issue_ref r),
                   ru_pr_ref := coalesce pr_ref (ru_pr_ref r),
                   ru_session := coalesce session (ru_session r),
                   ru_git_ref := coalesce git_ref (ru_git_ref r)\<rparr>)) (\<lambda>_.
       run_by_key run_id workspace))))"

text \<open>\<open>(?2 = '%%' OR column LIKE ?2 OR ...)\<close> with the pattern \<open>%query%\<close>.\<close>

definition any_like :: "string \<Rightarrow> string list \<Rightarrow> bool" where
  "any_like query columns \<longleftrightarrow>
     (let pattern = like_pattern (str_trim query)
      in pattern = ''%%'' \<or> list_ex (\<lambda>c. sql_like c pattern) columns)"

definition query_runs :: "string \<Rightarrow> string \<Rightarrow> (store_db, store_error, run list) sm" where
  "query_runs query workspace =
     sbind (slift (validate_graph_workspace workspace)) (\<lambda>_.
     sql_select db_runs (\<lambda>r. ru_workspace r = workspace
       \<and> any_like query [ru_run_id r, ru_issue_ref r, ru_pr_ref r, ru_session r, ru_git_ref r,
           ru_summary r]))"

section \<open>Measurements\<close>

record measurement_spec =
  ms_measurement :: string
  ms_sample :: string
  ms_variant :: string
  ms_value :: f64
  ms_baseline :: bool
  ms_workspace :: string

definition validate_measurement_spec :: "measurement_spec \<Rightarrow> store_error + unit" where
  "validate_measurement_spec spec =
     rbind (validate_graph_workspace (ms_workspace spec)) (\<lambda>_.
     rbind (not_empty (ms_measurement spec, ''measurement name'')) (\<lambda>_.
     rbind (not_empty (ms_sample spec, ''measurement sample'')) (\<lambda>_.
     require (is_finite (ms_value spec)) ''measurement value must be finite'')))"

definition measurement_by_key ::
    "string \<Rightarrow> string \<Rightarrow> string \<Rightarrow> string \<Rightarrow> (store_db, store_error, measurement option) sm" where
  "measurement_by_key m sample variant workspace =
     sql_first db_measurements (\<lambda>r. me_measurement r = m \<and> me_sample r = sample
       \<and> me_variant r = variant \<and> me_workspace r = workspace)"

definition same_measurement :: "measurement \<Rightarrow> measurement \<Rightarrow> bool" where
  "same_measurement r t \<longleftrightarrow> me_measurement r = me_measurement t \<and> me_sample r = me_sample t
     \<and> me_variant r = me_variant t \<and> me_workspace r = me_workspace t"

definition record_measurement ::
    "store_env \<Rightarrow> measurement_spec \<Rightarrow> (store_db, store_error, measurement) sm" where
  "record_measurement env spec =
     sbind (slift (validate_measurement_spec spec)) (\<lambda>_.
     sbind (measurement_by_key (ms_measurement spec) (ms_sample spec) (ms_variant spec)
              (ms_workspace spec)) (\<lambda>found.
     case found of
       Some existing \<Rightarrow>
         if \<not> f64_eq (me_value existing) (ms_value spec) \<or> me_baseline existing \<noteq> ms_baseline spec
         then sfail (SInvalid ''measurement key conflicts with an existing observation'')
         else sret existing
     | None \<Rightarrow>
         sbind (sql_insert db_measurements db_measurements_update same_measurement no_fk
                  (\<lambda>rows. \<lparr>me_id = next_id (map me_id rows), me_measurement = ms_measurement spec,
                     me_sample = ms_sample spec, me_variant = ms_variant spec,
                     me_value = sql_real (ms_value spec), me_baseline = ms_baseline spec,
                     me_workspace = ms_workspace spec, me_created_at = se_now env\<rparr>)) (\<lambda>_.
         sbind (measurement_by_key (ms_measurement spec) (ms_sample spec) (ms_variant spec)
                  (ms_workspace spec)) (\<lambda>r.
         readable ''measurement insert'' r))))"

definition query_measurements :: "string \<Rightarrow> string \<Rightarrow> (store_db, store_error, measurement list) sm" where
  "query_measurements query workspace =
     sbind (slift (validate_graph_workspace workspace)) (\<lambda>_.
     sql_select db_measurements (\<lambda>r. me_workspace r = workspace
       \<and> any_like query [me_measurement r, me_sample r, me_variant r]))"

section \<open>Feedback\<close>

record feedback_spec =
  fs_feedback_id :: string
  fs_site :: string
  fs_item_type :: string
  fs_item_ref :: string
  fs_signal :: string
  fs_query_hash :: string
  fs_workspace :: string

definition feedback_signals :: "string list" where
  "feedback_signals = [''helpful'', ''not_helpful'', ''stale'', ''irrelevant'', ''unsafe'']"

definition validate_feedback_spec :: "feedback_spec \<Rightarrow> store_error + unit" where
  "validate_feedback_spec spec =
     rbind (validate_graph_workspace (fs_workspace spec)) (\<lambda>_.
     rbind (not_empty (fs_feedback_id spec, ''feedback_id'')) (\<lambda>_.
     rbind (require (\<not> blank (fs_item_type spec) \<and> \<not> blank (fs_item_ref spec))
              ''feedback item_type and item_ref must not be empty'') (\<lambda>_.
     require (fs_signal spec \<in> set feedback_signals)
       ''feedback signal must be helpful, not_helpful, stale, irrelevant, or unsafe'')))"

definition feedback_by_key :: "string \<Rightarrow> string \<Rightarrow> (store_db, store_error, feedback option) sm" where
  "feedback_by_key feedback_id workspace =
     sql_first db_feedback (\<lambda>r. fe_feedback_id r = feedback_id \<and> fe_workspace r = workspace)"

definition same_feedback :: "feedback \<Rightarrow> feedback \<Rightarrow> bool" where
  "same_feedback r t \<longleftrightarrow> fe_feedback_id r = fe_feedback_id t \<and> fe_workspace r = fe_workspace t"

definition record_feedback ::
    "store_env \<Rightarrow> feedback_spec \<Rightarrow> (store_db, store_error, feedback) sm" where
  "record_feedback env spec =
     sbind (slift (validate_feedback_spec spec)) (\<lambda>_.
     sbind (feedback_by_key (fs_feedback_id spec) (fs_workspace spec)) (\<lambda>found.
     case found of
       Some existing \<Rightarrow>
         if fe_site existing \<noteq> fs_site spec \<or> fe_item_type existing \<noteq> fs_item_type spec
           \<or> fe_item_ref existing \<noteq> fs_item_ref spec \<or> fe_signal existing \<noteq> fs_signal spec
           \<or> fe_query_hash existing \<noteq> fs_query_hash spec
         then sfail (SInvalid ''feedback id conflicts with an existing record'')
         else sret existing
     | None \<Rightarrow>
         sbind (sql_insert db_feedback db_feedback_update same_feedback no_fk
                  (\<lambda>rows. \<lparr>fe_id = next_id (map fe_id rows), fe_feedback_id = fs_feedback_id spec,
                     fe_site = fs_site spec, fe_item_type = fs_item_type spec,
                     fe_item_ref = fs_item_ref spec, fe_signal = fs_signal spec,
                     fe_query_hash = fs_query_hash spec, fe_workspace = fs_workspace spec,
                     fe_created_at = se_now env\<rparr>)) (\<lambda>_.
         sbind (feedback_by_key (fs_feedback_id spec) (fs_workspace spec)) (\<lambda>r.
         readable ''feedback insert'' r))))"

definition query_feedback :: "string \<Rightarrow> string \<Rightarrow> (store_db, store_error, feedback list) sm" where
  "query_feedback query workspace =
     sbind (slift (validate_graph_workspace workspace)) (\<lambda>_.
     sql_select db_feedback (\<lambda>r. fe_workspace r = workspace
       \<and> any_like query [fe_feedback_id r, fe_site r, fe_item_type r, fe_item_ref r, fe_signal r,
           fe_query_hash r]))"

end
