(* ===== verification/StoreWorkspaces.thy ===== *)
theory StoreWorkspaces
  imports StoreFacts StoreRecords StoreContexts
begin

text \<open>
  Workspaces of \<open>src/store.rs\<close> and what spans the tables: creating, archiving and resetting a
  workspace with the foreign-key actions of the schema, clearing a database, the catalogue of
  workspace ids, and the reads that combine facts with contexts.
\<close>

section \<open>Deletion\<close>

text \<open>
  \<open>DELETE FROM facts\<close> removes the history, the embedding and the evidence of the facts
  (\<open>ON DELETE CASCADE\<close>) and clears the references to them (\<open>ON DELETE SET NULL\<close>), and so does the
  removal of evidence; \<open>DELETE FROM contexts\<close> removes lineage, events and handoffs.
\<close>

definition unset :: "int list \<Rightarrow> int option \<Rightarrow> int option" where
  "unset gone v = (case v of None \<Rightarrow> None | Some i \<Rightarrow> if i \<in> set gone then None else Some i)"

definition delete_facts :: "(fact_row \<Rightarrow> bool) \<Rightarrow> store_db \<Rightarrow> store_db" where
  "delete_facts p s =
     (let gone = map fa_id (filter p (db_facts s));
          gone_evidence = map ee_id (filter (\<lambda>e. ee_fact_id e \<in> set gone) (db_evidence s))
      in s\<lparr>db_facts := filter (\<lambda>f. \<not> p f) (db_facts s),
           db_history := filter (\<lambda>h. fh_fact_id h \<notin> set gone) (db_history s),
           db_embeddings := filter (\<lambda>b. fb_fact_id b \<notin> set gone) (db_embeddings s),
           db_evidence := filter (\<lambda>e. ee_fact_id e \<notin> set gone) (db_evidence s),
           db_relations := map (\<lambda>r. r\<lparr>re_source_fact_id := unset gone (re_source_fact_id r)\<rparr>)
             (db_relations s),
           db_candidates := map (\<lambda>r. r\<lparr>rc_source_fact_id := unset gone (rc_source_fact_id r),
               rc_target_fact_id := unset gone (rc_target_fact_id r),
               rc_source_evidence_id := unset gone_evidence (rc_source_evidence_id r),
               rc_target_evidence_id := unset gone_evidence (rc_target_evidence_id r)\<rparr>)
             (db_candidates s)\<rparr>)"

definition delete_contexts :: "(context_row \<Rightarrow> bool) \<Rightarrow> store_db \<Rightarrow> store_db" where
  "delete_contexts p s =
     (let gone = map cx_reference (filter p (db_contexts s))
      in s\<lparr>db_contexts := filter (\<lambda>c. \<not> p c) (db_contexts s),
           db_lineage := filter (\<lambda>l. cl_parent l \<notin> set gone \<and> cl_child l \<notin> set gone) (db_lineage s),
           db_events := filter (\<lambda>e. ev_context_reference e \<notin> set gone) (db_events s),
           db_handoffs := filter (\<lambda>h. ho_context_reference h \<notin> set gone) (db_handoffs s)\<rparr>)"

section \<open>Workspaces\<close>

definition workspace_by_id :: "string \<Rightarrow> (store_db, store_error, workspace_row option) sm" where
  "workspace_by_id ident = sql_first db_workspaces (\<lambda>w. ws_id w = ident)"

definition same_workspace :: "workspace_row \<Rightarrow> workspace_row \<Rightarrow> bool" where
  "same_workspace r t \<longleftrightarrow> ws_id r = ws_id t"

definition create_workspace :: "string \<Rightarrow> (store_db, store_error, workspace_row) sm" where
  "create_workspace ident =
     sbind (slift (validate_workspace ident)) (\<lambda>_.
     sbind (sql_insert_or_ignore db_workspaces db_workspaces_update same_workspace no_fk
              (\<lambda>_. \<lparr>ws_id = ident, ws_status = ''active''\<rparr>)) (\<lambda>_.
     sbind (workspace_by_id ident) (\<lambda>w. readable ''workspace insert'' w)))"

definition list_workspaces :: "(store_db, store_error, workspace_row list) sm" where
  "list_workspaces =
     sbind (sql_select db_workspaces (\<lambda>_. True)) (\<lambda>rows. sret (sort_key ws_id rows))"

definition archive_workspace :: "string \<Rightarrow> (store_db, store_error, workspace_row option) sm" where
  "archive_workspace ident =
     sbind (slift (validate_workspace ident)) (\<lambda>_.
     sbind (sql_update db_workspaces_update (\<lambda>w. ws_id w = ident)
              (\<lambda>w. w\<lparr>ws_status := ''archived''\<rparr>)) (\<lambda>_.
     workspace_by_id ident))"

definition upsert_reset :: "string \<Rightarrow> workspace_row list \<Rightarrow> workspace_row list" where
  "upsert_reset ident rows =
     (if list_ex (\<lambda>w. ws_id w = ident) rows
      then update_rows (\<lambda>w. ws_id w = ident) (\<lambda>w. w\<lparr>ws_status := ''reset''\<rparr>) rows
      else rows @ [\<lparr>ws_id = ident, ws_status = ''reset''\<rparr>])"

definition reset_workspace :: "string \<Rightarrow> (store_db, store_error, workspace_row) sm" where
  "reset_workspace ident =
     sbind (slift (validate_workspace ident)) (\<lambda>_.
     sbind (modify_state (delete_facts (\<lambda>f. fa_workspace f = ident))) (\<lambda>_.
     sbind (modify_state (db_candidates_update (filter (\<lambda>c. rc_workspace c \<noteq> ident)))) (\<lambda>_.
     sbind (modify_state (delete_contexts (\<lambda>c. cx_workspace c = ident))) (\<lambda>_.
     sbind (modify_state (db_workspaces_update (upsert_reset ident))) (\<lambda>_.
     sbind (workspace_by_id ident) (\<lambda>w. readable ''workspace reset'' w))))))"

definition clear_database :: "(store_db, store_error, unit) sm" where
  "clear_database = modify_state (\<lambda>_. empty_db)"

text \<open>The \<open>UNION\<close> of the ids in the catalogue and of those that any other table mentions.\<close>

definition row_workspaces :: "store_db \<Rightarrow> string list" where
  "row_workspaces s =
     map fa_workspace (db_facts s) @ map cx_workspace (db_contexts s)
     @ map ev_workspace (db_events s) @ map ho_workspace (db_handoffs s)
     @ map er_workspace (db_entities s) @ map re_workspace (db_relations s)
     @ map rc_workspace (db_candidates s) @ map de_workspace (db_decisions s)
     @ map ee_workspace (db_evidence s) @ map ca_workspace (db_categories s)
     @ map ru_workspace (db_runs s) @ map me_workspace (db_measurements s)
     @ map fe_workspace (db_feedback s)"

definition list_workspace_ids :: "(store_db, store_error, string list) sm" where
  "list_workspace_ids =
     sbind get_state (\<lambda>s.
     sret (sort (remdups (map ws_id (db_workspaces s)
             @ filter (\<lambda>w. w \<noteq> []) (row_workspaces s)))))"

section \<open>Recall\<close>

definition compose_recall ::
    "store_env \<Rightarrow> string \<Rightarrow> string \<Rightarrow> (store_db, store_error, fact list \<times> context_row list) sm" where
  "compose_recall env query workspace =
     sbind (slift (validate_context_workspace workspace)) (\<lambda>_.
     sbind (search_facts env query workspace) (\<lambda>facts.
     sbind (search_contexts env query workspace) (\<lambda>contexts.
     sret (facts, contexts))))"

record retrieval_guard =
  rg_status :: string
  rg_reason :: string
  rg_facts :: "fact list"
  rg_contexts :: "context_row list"

definition search_guard ::
    "store_env \<Rightarrow> string \<Rightarrow> string \<Rightarrow> (store_db, store_error, retrieval_guard) sm" where
  "search_guard env query workspace =
     sbind (compose_recall env query workspace) (\<lambda>(facts, contexts).
     let matched = (facts \<noteq> [] \<or> contexts \<noteq> []) in
     sret \<lparr>rg_status = (if matched then ''ok'' else ''abstain''),
           rg_reason = (if matched then ''match'' else ''no_match''),
           rg_facts = facts, rg_contexts = contexts\<rparr>)"

record index_summary =
  is_facts :: nat
  is_active_facts :: nat
  is_forgotten_facts :: nat
  is_contexts :: nat
  is_categories :: nat
  is_runs :: nat
  is_measurements :: nat
  is_feedback :: nat

definition count_rows :: "('s \<Rightarrow> 'r list) \<Rightarrow> ('r \<Rightarrow> bool) \<Rightarrow> ('s, 'e, nat) sm" where
  "count_rows get p = sbind (sql_select get p) (\<lambda>rows. sret (length rows))"

definition summarize_index :: "string \<Rightarrow> (store_db, store_error, index_summary) sm" where
  "summarize_index workspace =
     sbind (slift (validate_graph_workspace workspace)) (\<lambda>_.
     sbind (count_rows db_facts (\<lambda>f. in_scope workspace (fa_workspace f))) (\<lambda>facts.
     sbind (count_rows db_facts (\<lambda>f. in_scope workspace (fa_workspace f)
              \<and> fa_lifecycle f = ''active'')) (\<lambda>active_facts.
     sbind (count_rows db_facts (\<lambda>f. in_scope workspace (fa_workspace f)
              \<and> fa_lifecycle f = ''forgotten'')) (\<lambda>forgotten_facts.
     sbind (count_rows db_contexts (\<lambda>c. cx_workspace c = workspace)) (\<lambda>contexts.
     sbind (count_rows db_categories (\<lambda>c. ca_workspace c = workspace)) (\<lambda>categories.
     sbind (count_rows db_runs (\<lambda>r. ru_workspace r = workspace)) (\<lambda>runs.
     sbind (count_rows db_measurements (\<lambda>m. me_workspace m = workspace)) (\<lambda>measurements.
     sbind (count_rows db_feedback (\<lambda>f. fe_workspace f = workspace)) (\<lambda>feedback.
     sret \<lparr>is_facts = facts, is_active_facts = active_facts,
       is_forgotten_facts = forgotten_facts, is_contexts = contexts, is_categories = categories,
       is_runs = runs, is_measurements = measurements, is_feedback = feedback\<rparr>)))))))))"

definition prepare_summary ::
    "store_env \<Rightarrow> string \<Rightarrow> string \<Rightarrow>
     (store_db, store_error, index_summary \<times> fact list \<times> context_row list) sm" where
  "prepare_summary env query workspace =
     sbind (summarize_index workspace) (\<lambda>summary.
     sbind (compose_recall env query workspace) (\<lambda>recall. sret (summary, recall)))"

record consolidation_report =
  cr_scanned :: nat
  cr_consolidated :: nat
  cr_remaining :: nat

definition consolidate ::
    "store_env \<Rightarrow> string \<Rightarrow> string \<Rightarrow> (store_db, store_error, consolidation_report) sm" where
  "consolidate env query workspace =
     sbind (if blank query then list_facts workspace else search_facts env query workspace) (\<lambda>facts.
     sret \<lparr>cr_scanned = length facts, cr_consolidated = 0, cr_remaining = length facts\<rparr>)"

definition stats :: "(store_db, store_error, nat \<times> nat) sm" where
  "stats =
     sbind (count_rows db_facts (\<lambda>_. True)) (\<lambda>facts.
     sbind (count_rows db_contexts (\<lambda>_. True)) (\<lambda>contexts.
     sret (facts, contexts)))"

end
