(* ===== verification/StoreGraphSpec.thy ===== *)
theory StoreGraphSpec
  imports StoreCandidates StoreWorkspaces
begin

text \<open>
  What the graph tables of \<open>src/store.rs\<close> promise: unique keys, references that exist and are
  visible in the workspace, parents of decisions that come before their children, and the states
  of a candidate. The lemmas tell how the promise survives additions, moves and deletions.
\<close>

section \<open>Integrity\<close>

definition fact_ref :: "fact_row list \<Rightarrow> string \<Rightarrow> int option \<Rightarrow> bool" where
  "fact_ref facts w v \<longleftrightarrow>
     (\<forall>i. v = Some i \<longrightarrow> (\<exists>f\<in>set facts. fa_id f = i \<and> in_scope w (fa_workspace f)))"

definition evidence_ref :: "evidence list \<Rightarrow> string \<Rightarrow> int option \<Rightarrow> bool" where
  "evidence_ref vs w v \<longleftrightarrow>
     (\<forall>i. v = Some i \<longrightarrow> (\<exists>e\<in>set vs. ee_id e = i \<and> in_scope w (ee_workspace e)))"

definition entity_in :: "entity_row list \<Rightarrow> string \<Rightarrow> int \<Rightarrow> bool" where
  "entity_in es w i \<longleftrightarrow> (\<exists>e\<in>set es. er_id e = i \<and> er_workspace e = w)"

definition entity_key :: "entity_row \<Rightarrow> string \<times> string" where
  "entity_key e = (er_name e, er_workspace e)"

definition relation_key :: "relation \<Rightarrow> string \<times> int \<times> string \<times> int" where
  "relation_key r = (re_workspace r, re_subject_id r, re_predicate r, re_object_id r)"

definition candidate_key :: "candidate_row \<Rightarrow> string \<times> string" where
  "candidate_key c = (rc_key c, rc_workspace c)"

definition evidence_key :: "evidence \<Rightarrow> int \<times> string \<times> string" where
  "evidence_key e = (ee_fact_id e, ee_source_ref e, ee_workspace e)"

definition entities_ok :: "entity_row list \<Rightarrow> bool" where
  "entities_ok es \<longleftrightarrow> keyed er_id entity_key es \<and> (\<forall>e\<in>set es. \<not> blank (er_name e))"

definition relation_ok :: "fact_row list \<Rightarrow> entity_row list \<Rightarrow> relation \<Rightarrow> bool" where
  "relation_ok facts es r \<longleftrightarrow> entity_in es (re_workspace r) (re_subject_id r)
     \<and> entity_in es (re_workspace r) (re_object_id r)
     \<and> fact_ref facts (re_workspace r) (re_source_fact_id r)"

definition relations_ok :: "fact_row list \<Rightarrow> entity_row list \<Rightarrow> relation list \<Rightarrow> bool" where
  "relations_ok facts es rs \<longleftrightarrow> keyed re_id relation_key rs \<and> (\<forall>r\<in>set rs. relation_ok facts es r)"

text \<open>Exactly the confirmed candidates have a relation, and it is one of their workspace.\<close>

definition candidate_ok ::
    "fact_row list \<Rightarrow> relation list \<Rightarrow> evidence list \<Rightarrow> candidate_row \<Rightarrow> bool" where
  "candidate_ok facts rs vs c \<longleftrightarrow> rc_status c \<in> set candidate_statuses
     \<and> (rc_status c = ''confirmed'' \<longleftrightarrow> rc_relation_id c \<noteq> None)
     \<and> (\<forall>i. rc_relation_id c = Some i \<longrightarrow> (\<exists>r\<in>set rs. re_id r = i \<and> re_workspace r = rc_workspace c))
     \<and> fact_ref facts (rc_workspace c) (rc_source_fact_id c)
     \<and> fact_ref facts (rc_workspace c) (rc_target_fact_id c)
     \<and> evidence_ref vs (rc_workspace c) (rc_source_evidence_id c)
     \<and> evidence_ref vs (rc_workspace c) (rc_target_evidence_id c)"

definition candidates_ok ::
    "fact_row list \<Rightarrow> relation list \<Rightarrow> evidence list \<Rightarrow> candidate_row list \<Rightarrow> bool" where
  "candidates_ok facts rs vs cs \<longleftrightarrow> keyed rc_id candidate_key cs
     \<and> (\<forall>c\<in>set cs. candidate_ok facts rs vs c)"

text \<open>A parent is an older decision of the same workspace.\<close>

definition parent_ok :: "decision list \<Rightarrow> decision \<Rightarrow> bool" where
  "parent_ok ds d \<longleftrightarrow> (\<forall>p. de_parent_id d = Some p \<longrightarrow>
     p < de_id d \<and> (\<exists>e\<in>set ds. de_id e = p \<and> de_workspace e = de_workspace d))"

definition decisions_ok :: "decision list \<Rightarrow> bool" where
  "decisions_ok ds \<longleftrightarrow> keyed de_id de_id ds \<and> (\<forall>d\<in>set ds. parent_ok ds d)"

definition evidence_row_ok :: "fact_row list \<Rightarrow> evidence \<Rightarrow> bool" where
  "evidence_row_ok facts e \<longleftrightarrow> \<not> blank (ee_workspace e)
     \<and> (\<exists>f\<in>set facts. fa_id f = ee_fact_id e \<and> in_scope (ee_workspace e) (fa_workspace f))"

definition evidence_ok :: "fact_row list \<Rightarrow> evidence list \<Rightarrow> bool" where
  "evidence_ok facts vs \<longleftrightarrow> keyed ee_id evidence_key vs \<and> (\<forall>e\<in>set vs. evidence_row_ok facts e)"

definition graph_ok :: "store_db \<Rightarrow> bool" where
  "graph_ok s \<longleftrightarrow> entities_ok (db_entities s)
     \<and> relations_ok (db_facts s) (db_entities s) (db_relations s)
     \<and> candidates_ok (db_facts s) (db_relations s) (db_evidence s) (db_candidates s)
     \<and> decisions_ok (db_decisions s) \<and> evidence_ok (db_facts s) (db_evidence s)"

section \<open>The states of a candidate\<close>

inductive candidate_next :: "candidate_row \<Rightarrow> candidate_row \<Rightarrow> bool" where
  confirmed: "rc_status c = ''candidate'' \<Longrightarrow>
    candidate_next c (c\<lparr>rc_status := ''confirmed'', rc_relation_id := Some i, rc_reviewer := r,
      rc_review_note := n, rc_updated_at := t\<rparr>)"
| rejected: "rc_status c = ''candidate'' \<Longrightarrow>
    candidate_next c (c\<lparr>rc_status := ''rejected'', rc_reviewer := r, rc_review_note := n,
      rc_updated_at := t\<rparr>)"
| conflicted: "rc_status c \<noteq> ''confirmed'' \<Longrightarrow>
    candidate_next c (c\<lparr>rc_status := ''conflict'', rc_review_note := n, rc_updated_at := t\<rparr>)"

text \<open>What a candidate claims and rests on never changes.\<close>

definition same_claim :: "candidate_row \<Rightarrow> candidate_row \<Rightarrow> bool" where
  "same_claim c d \<longleftrightarrow> rc_id d = rc_id c \<and> rc_key d = rc_key c \<and> rc_workspace d = rc_workspace c
     \<and> rc_subject d = rc_subject c \<and> rc_predicate d = rc_predicate c \<and> rc_object d = rc_object c
     \<and> rc_score d = rc_score c \<and> rc_source_fact_id d = rc_source_fact_id c
     \<and> rc_target_fact_id d = rc_target_fact_id c
     \<and> rc_source_evidence_id d = rc_source_evidence_id c
     \<and> rc_target_evidence_id d = rc_target_evidence_id c"

lemma candidate_next_claim: "candidate_next c d \<Longrightarrow> same_claim c d"
  by (induction rule: candidate_next.induct) (simp_all add: same_claim_def)

lemma candidate_next_ok:
  assumes "candidate_next c d" "candidate_ok facts rs vs c"
    and "\<And>i. rc_relation_id d = Some i \<Longrightarrow> \<exists>r\<in>set rs. re_id r = i \<and> re_workspace r = rc_workspace c"
  shows "candidate_ok facts rs vs d"
  using assms by (induction rule: candidate_next.induct) (auto simp: candidate_ok_def candidate_statuses_def)

section \<open>How the promise survives\<close>

text \<open>Every fact has one with its id and workspace: nothing that refers to facts is broken.\<close>

definition facts_persist :: "fact_row list \<Rightarrow> fact_row list \<Rightarrow> bool" where
  "facts_persist facts facts' \<longleftrightarrow>
     (\<forall>f\<in>set facts. \<exists>g\<in>set facts'. fa_id g = fa_id f \<and> fa_workspace g = fa_workspace f)"

lemma fact_ref_persist: "facts_persist facts facts' \<Longrightarrow> fact_ref facts w v \<Longrightarrow> fact_ref facts' w v"
  unfolding facts_persist_def fact_ref_def by metis

lemma evidence_row_persist:
  "facts_persist facts facts' \<Longrightarrow> evidence_row_ok facts e \<Longrightarrow> evidence_row_ok facts' e"
  unfolding facts_persist_def evidence_row_ok_def by metis

lemma graph_facts_persist:
  assumes "graph_ok s" "facts_persist (db_facts s) (db_facts t)"
    and "db_entities t = db_entities s" "db_relations t = db_relations s"
    and "db_candidates t = db_candidates s" "db_decisions t = db_decisions s"
    and "db_evidence t = db_evidence s"
  shows "graph_ok t"
  using assms fact_ref_persist[OF assms(2)] evidence_row_persist[OF assms(2)]
  by (simp add: graph_ok_def relations_ok_def relation_ok_def candidates_ok_def candidate_ok_def
      evidence_ok_def)

text \<open>A change of other tables does not show in the graph.\<close>

lemma graph_ok_untouched [simp]:
  "graph_ok (db_embeddings_update g1 s) = graph_ok s"
  "graph_ok (db_categories_update g2 s) = graph_ok s"
  "graph_ok (db_runs_update g3 s) = graph_ok s"
  "graph_ok (db_measurements_update g4 s) = graph_ok s"
  "graph_ok (db_feedback_update g5 s) = graph_ok s"
  "graph_ok (db_contexts_update g6 s) = graph_ok s"
  "graph_ok (db_lineage_update g7 s) = graph_ok s"
  "graph_ok (db_events_update g8 s) = graph_ok s"
  "graph_ok (db_handoffs_update g9 s) = graph_ok s"
  "graph_ok (db_workspaces_update g10 s) = graph_ok s"
  "graph_ok (db_history_update g11 s) = graph_ok s"
  "graph_ok (delete_contexts p s) = graph_ok s"
  by (simp_all add: graph_ok_def delete_contexts_def Let_def)

lemma entity_in_append: "entity_in es w i \<Longrightarrow> entity_in (es @ [e]) w i"
  by (auto simp: entity_in_def)

lemma graph_entity_added:
  assumes "graph_ok s" "er_id e = next_id (map er_id (db_entities s))"
    and "entity_key e \<notin> entity_key ` set (db_entities s)" "\<not> blank (er_name e)"
  shows "graph_ok (s\<lparr>db_entities := db_entities s @ [e]\<rparr>)"
  using assms keyed_append[of er_id entity_key "db_entities s" e]
  by (simp add: graph_ok_def entities_ok_def relations_ok_def relation_ok_def entity_in_append)

lemma graph_relation_added:
  assumes "graph_ok s" "re_id r = next_id (map re_id (db_relations s))"
    and "relation_key r \<notin> relation_key ` set (db_relations s)"
    and "relation_ok (db_facts s) (db_entities s) r"
  shows "graph_ok (s\<lparr>db_relations := db_relations s @ [r]\<rparr>)"
  using assms keyed_append[of re_id relation_key "db_relations s" r]
  by (simp add: graph_ok_def relations_ok_def candidates_ok_def candidate_ok_def)

lemma graph_candidate_added:
  assumes "graph_ok s" "rc_id c = next_id (map rc_id (db_candidates s))"
    and "candidate_key c \<notin> candidate_key ` set (db_candidates s)"
    and "candidate_ok (db_facts s) (db_relations s) (db_evidence s) c"
  shows "graph_ok (s\<lparr>db_candidates := db_candidates s @ [c]\<rparr>)"
  using assms keyed_append[of rc_id candidate_key "db_candidates s" c]
  by (simp add: graph_ok_def candidates_ok_def)

lemma graph_candidate_moved:
  assumes "graph_ok s" "c \<in> set (db_candidates s)" "candidate_next c d"
    and "\<And>i. rc_relation_id d = Some i \<Longrightarrow> \<exists>r\<in>set (db_relations s). re_id r = i \<and> re_workspace r = rc_workspace c"
  shows "graph_ok (s\<lparr>db_candidates := replace_row rc_id c d (db_candidates s)\<rparr>)"
proof -
  have k: "keyed rc_id candidate_key (db_candidates s)"
    and c: "candidate_ok (db_facts s) (db_relations s) (db_evidence s) c"
    using assms(1,2) by (simp_all add: graph_ok_def candidates_ok_def)
  have "same_claim c d" by (rule candidate_next_claim[OF assms(3)])
  then have "keyed rc_id candidate_key (replace_row rc_id c d (db_candidates s))"
    by (intro keyed_replace[OF k assms(2)]) (simp_all add: same_claim_def candidate_key_def)
  moreover have "candidate_ok (db_facts s) (db_relations s) (db_evidence s) d"
    by (rule candidate_next_ok[OF assms(3) c assms(4)])
  ultimately show ?thesis
    using assms(1) in_replace_row[of _ rc_id c d "db_candidates s"]
    by (auto simp: graph_ok_def candidates_ok_def)
qed

lemma graph_decision_added:
  assumes "graph_ok s" "de_id d = next_id (map de_id (db_decisions s))"
    and "\<And>p. de_parent_id d = Some p \<Longrightarrow>
      \<exists>e\<in>set (db_decisions s). de_id e = p \<and> de_workspace e = de_workspace d"
  shows "graph_ok (s\<lparr>db_decisions := db_decisions s @ [d]\<rparr>)"
proof -
  have new: "x \<in> set (db_decisions s) \<Longrightarrow> de_id x < de_id d" for x
    using next_id_gt(1)[of "de_id x" "map de_id (db_decisions s)"] assms(2) by simp
  then have "de_id d \<notin> de_id ` set (db_decisions s)" by fastforce
  then have "keyed de_id de_id (db_decisions s @ [d])"
    using assms(1,2) keyed_append[of de_id de_id "db_decisions s" d]
    by (simp add: graph_ok_def decisions_ok_def)
  moreover have "parent_ok (db_decisions s @ [d]) x" if "parent_ok (db_decisions s) x" for x
    using that by (auto simp: parent_ok_def)
  moreover have "parent_ok (db_decisions s @ [d]) d"
    using assms(3) new by (fastforce simp: parent_ok_def)
  ultimately show ?thesis using assms(1) by (simp add: graph_ok_def decisions_ok_def)
qed

lemma graph_evidence_added:
  assumes "graph_ok s" "ee_id e = next_id (map ee_id (db_evidence s))"
    and "evidence_key e \<notin> evidence_key ` set (db_evidence s)" "evidence_row_ok (db_facts s) e"
  shows "graph_ok (s\<lparr>db_evidence := db_evidence s @ [e]\<rparr>)"
proof -
  have "evidence_ref (db_evidence s) w v \<Longrightarrow> evidence_ref (db_evidence s @ [e]) w v" for w v
    by (auto simp: evidence_ref_def)
  then show ?thesis
    using assms keyed_append[of ee_id evidence_key "db_evidence s" e]
    by (simp add: graph_ok_def evidence_ok_def candidates_ok_def candidate_ok_def)
qed

lemma graph_candidates_deleted:
  "graph_ok s \<Longrightarrow> graph_ok (s\<lparr>db_candidates := filter p (db_candidates s)\<rparr>)"
  by (auto simp: graph_ok_def candidates_ok_def intro: tables)

text \<open>Deleting facts deletes their evidence and clears the references to both.\<close>

lemma unset_Some: "unset gone v = Some i \<longleftrightarrow> v = Some i \<and> i \<notin> set gone"
  by (auto simp: unset_def split: option.splits)

lemma keyed_map:
  assumes "keyed rid key rows" "\<And>r. r \<in> set rows \<Longrightarrow> rid (f r) = rid r \<and> key (f r) = key r"
  shows "keyed rid key (map f rows)"
proof -
  have "map rid (map f rows) = map rid rows" "map key (map f rows) = map key rows"
    using assms(2) by simp_all
  moreover have "\<forall>r\<in>set (map f rows). 0 < rid r" using assms by (simp add: keyed_def)
  ultimately show ?thesis using assms(1) unfolding keyed_def by presburger
qed

lemma graph_facts_deleted:
  assumes "graph_ok s"
  shows "graph_ok (delete_facts p s)"
proof -
  let ?gone = "map fa_id (filter p (db_facts s))"
  let ?facts = "filter (\<lambda>f. \<not> p f) (db_facts s)"
  let ?vs = "filter (\<lambda>e. ee_fact_id e \<notin> set ?gone) (db_evidence s)"
  let ?gone_vs = "map ee_id (filter (\<lambda>e. ee_fact_id e \<in> set ?gone) (db_evidence s))"
  have kv: "keyed ee_id evidence_key (db_evidence s)" using assms(1) by (simp add: graph_ok_def evidence_ok_def)
  have kept: "f \<in> set ?facts" if "f \<in> set (db_facts s)" "fa_id f \<notin> set ?gone" for f using that by auto
  have fr: "fact_ref ?facts w (unset ?gone v)" if "fact_ref (db_facts s) w v" for w v
    using that kept unfolding fact_ref_def unset_Some by metis
  have kept_v: "e \<in> set ?vs" if "e \<in> set (db_evidence s)" "ee_id e \<notin> set ?gone_vs" for e
    using that by auto
  have er: "evidence_ref ?vs w (unset ?gone_vs v)" if r: "evidence_ref (db_evidence s) w v" for w v
    unfolding evidence_ref_def unset_Some
  proof (intro allI impI)
    fix i assume i: "v = Some i \<and> i \<notin> set ?gone_vs"
    with r obtain e where e: "e \<in> set (db_evidence s)" "ee_id e = i" "in_scope w (ee_workspace e)"
      by (auto simp: evidence_ref_def)
    then show "\<exists>e\<in>set ?vs. ee_id e = i \<and> in_scope w (ee_workspace e)" using kept_v[OF e(1)] i by blast
  qed
  have v: "evidence_row_ok ?facts e" if "e \<in> set ?vs" for e
  proof -
    have "evidence_row_ok (db_facts s) e" "ee_fact_id e \<notin> set ?gone"
      using assms(1) that by (simp_all add: graph_ok_def evidence_ok_def)
    then show ?thesis using kept unfolding evidence_row_ok_def by metis
  qed
  show ?thesis
    unfolding graph_ok_def
  proof (intro conjI)
    show "entities_ok (db_entities (delete_facts p s))" "decisions_ok (db_decisions (delete_facts p s))"
      using assms(1) by (simp_all add: graph_ok_def delete_facts_def Let_def)
    show "relations_ok (db_facts (delete_facts p s)) (db_entities (delete_facts p s)) (db_relations (delete_facts p s))"
      using assms(1) fr unfolding graph_ok_def relations_ok_def delete_facts_def Let_def
      by (auto simp: relation_ok_def relation_key_def intro!: keyed_map)
    show "evidence_ok (db_facts (delete_facts p s)) (db_evidence (delete_facts p s))"
      using v keyed_filter[OF kv] by (simp add: evidence_ok_def delete_facts_def Let_def)
    show "candidates_ok (db_facts (delete_facts p s)) (db_relations (delete_facts p s))
        (db_evidence (delete_facts p s)) (db_candidates (delete_facts p s))"
      using assms(1) fr er unfolding graph_ok_def candidates_ok_def delete_facts_def Let_def
      by (auto simp: candidate_ok_def candidate_key_def intro!: keyed_map)
  qed
qed

end
