(* ===== verification/StoreKeyed.thy ===== *)
theory StoreKeyed
  imports StoreRecords StoreContexts
begin

text \<open>
  The contract of the operations of \<open>src/store.rs\<close> that record a row once per key of the caller:
  \<open>begin_run\<close>, \<open>record_measurement\<close>, \<open>record_feedback\<close>, \<open>put_context_with_metadata\<close>,
  \<open>capture_event\<close> and \<open>begin_handoff\<close>. The locale states their common shape and proves what a
  caller who retries relies on; each operation is an interpretation.
\<close>

section \<open>The contract\<close>

text \<open>
  \<open>admissible\<close> are the checks before the key is looked up (and what they compute), \<open>blocked\<close> the
  reasons to refuse a new row, \<open>agrees\<close> the comparison with the row found.
\<close>

locale keyed_record =
  fixes rows :: "'db \<Rightarrow> 'r list"
    and upd :: "('r list \<Rightarrow> 'r list) \<Rightarrow> 'db \<Rightarrow> 'db"
    and key :: "'r \<Rightarrow> 'k"
    and spec_key :: "'spec \<Rightarrow> 'k"
    and admissible :: "'env \<Rightarrow> 'spec \<Rightarrow> 'db \<Rightarrow> store_error + 'x"
    and agrees :: "'env \<Rightarrow> 'spec \<Rightarrow> 'r \<Rightarrow> bool"
    and conflict :: "'spec \<Rightarrow> store_error"
    and blocked :: "'spec \<Rightarrow> 'db \<Rightarrow> store_error option"
    and make :: "'env \<Rightarrow> 'spec \<Rightarrow> 'x \<Rightarrow> 'r list \<Rightarrow> 'r"
    and record_once :: "'env \<Rightarrow> 'spec \<Rightarrow> ('db, store_error, 'r) sm"
  assumes eval: "record_once env spec s =
      (case admissible env spec s of
         Inl e \<Rightarrow> (Inl e, s)
       | Inr x \<Rightarrow>
           (case find (\<lambda>r. key r = spec_key spec) (rows s) of
              Some r \<Rightarrow> (if agrees env spec r then Inr r else Inl (conflict spec), s)
            | None \<Rightarrow>
                (case blocked spec s of
                   Some e \<Rightarrow> (Inl e, s)
                 | None \<Rightarrow>
                     (Inr (make env spec x (rows s)),
                      upd (\<lambda>rs. rs @ [make env spec x (rows s)]) s))))"
    and key_make: "key (make env spec x rs) = spec_key spec"
    and rows_upd: "rows (upd f s) = f (rows s)"
    and agrees_make: "admissible env spec s = Inr x \<Longrightarrow> agrees env spec (make env spec x rs)"
begin

lemma outcome:
  assumes "record_once env spec s = (q, t)"
  obtains (unchanged) "t = s"
    | (appended) x r where "q = Inr r" "admissible env spec s = Inr x" "blocked spec s = None"
        "r = make env spec x (rows s)" "t = upd (\<lambda>rs. rs @ [r]) s" "key r \<notin> key ` set (rows s)"
proof (cases "t = s")
  case False
  with assms obtain x where x: "admissible env spec s = Inr x" by (auto simp: eval split: sum.splits)
  with assms False have nf: "find (\<lambda>r. key r = spec_key spec) (rows s) = None"
    by (auto simp: eval split: option.splits)
  with assms False x have b: "blocked spec s = None" by (auto simp: eval split: option.splits)
  have "key (make env spec x (rows s)) \<notin> key ` set (rows s)"
    using nf by (auto simp: find_None_iff key_make)
  then show ?thesis using assms x nf b by (intro appended) (simp_all add: eval)
qed (rule unchanged)

lemma error_unchanged: "record_once env spec s = (Inl e, t) \<Longrightarrow> t = s"
  by (erule outcome) simp_all

lemma recorded:
  "record_once env spec s = (Inr r, t) \<Longrightarrow> find (\<lambda>r. key r = spec_key spec) (rows t) = Some r"
  by (auto simp: eval rows_upd find_append key_make split: sum.splits option.splits if_splits)

lemma retry:
  assumes "find (\<lambda>r. key r = spec_key spec) (rows s) = Some r"
    and "admissible env spec s = Inr x" and "agrees env spec r"
  shows "record_once env spec s = (Inr r, s)"
  using assms by (simp add: eval)

lemma agreed: "record_once env spec s = (Inr r, t) \<Longrightarrow> agrees env spec r"
  by (auto simp: eval dest: agrees_make split: sum.splits option.splits if_splits)

text \<open>A row recorded once answers every later call that agrees, as long as the table only grows.\<close>

lemma durable:
  assumes "record_once env spec s = (Inr r, t)" "rows u = rows t @ new"
    and "admissible env' spec u = Inr x" "agrees env' spec = agrees env spec"
  shows "record_once env' spec u = (Inr r, u)"
proof (rule retry)
  show "find (\<lambda>r. key r = spec_key spec) (rows u) = Some r"
    using recorded[OF assms(1)] assms(2) by (simp add: find_append)
  show "agrees env' spec r" using agreed[OF assms(1)] assms(4) by simp
qed (fact assms(3))

lemma conflicting:
  assumes "find (\<lambda>r. key r = spec_key spec) (rows s) = Some r"
    and "admissible env spec s = Inr x" and "\<not> agrees env spec r"
  shows "record_once env spec s = (Inl (conflict spec), s)"
  using assms by (simp add: eval)

lemma succeeds_admissible:
  "record_once env spec s = (Inr r, t) \<Longrightarrow> \<exists>x. admissible env spec s = Inr x"
  by (auto simp: eval split: sum.splits)

lemma row_keys_distinct:
  "distinct (map key (rows s)) \<Longrightarrow> distinct (map key (rows (snd (record_once env spec s))))"
  by (cases "record_once env spec s") (auto simp: rows_upd elim!: outcome)

end

section \<open>Runs, measurements and feedback\<close>

definition run_agrees :: "store_env \<Rightarrow> run_spec \<Rightarrow> run \<Rightarrow> bool" where
  "run_agrees env spec r \<longleftrightarrow> ru_issue_ref r = rs_issue_ref spec \<and> ru_pr_ref r = rs_pr_ref spec
     \<and> ru_session r = rs_session spec \<and> ru_git_ref r = rs_git_ref spec
     \<and> ru_files r = truncate_utf8 (rs_files spec) MAX_RUN_FILES_BYTES
     \<and> ru_diff r = truncate_utf8 (rs_diff spec) MAX_RUN_DIFF_BYTES"

definition new_run :: "store_env \<Rightarrow> run_spec \<Rightarrow> unit \<Rightarrow> run list \<Rightarrow> run" where
  "new_run env spec u rows = \<lparr>ru_id = next_id (map ru_id rows), ru_run_id = rs_run_id spec,
     ru_issue_ref = rs_issue_ref spec, ru_pr_ref = rs_pr_ref spec,
     ru_session = rs_session spec, ru_git_ref = rs_git_ref spec,
     ru_files = truncate_utf8 (rs_files spec) MAX_RUN_FILES_BYTES,
     ru_diff = truncate_utf8 (rs_diff spec) MAX_RUN_DIFF_BYTES, ru_summary = [],
     ru_state = ''open'', ru_workspace = rs_workspace spec, ru_created_at = se_now env,
     ru_ended_at = None\<rparr>"

interpretation runs: keyed_record db_runs db_runs_update "\<lambda>r. (ru_run_id r, ru_workspace r)"
  "\<lambda>spec. (rs_run_id spec, rs_workspace spec)" "\<lambda>env spec s. validate_run_spec spec" run_agrees
  "\<lambda>_. SInvalid ''run id conflicts with an existing record''" "\<lambda>_ _. None" new_run begin_run
proof (unfold_locales, goal_cases)
  case (1 env spec s)
  have "find (\<lambda>r. ru_run_id r = rs_run_id spec \<and> ru_workspace r = rs_workspace spec) (db_runs s) = None \<Longrightarrow>
      \<not> list_ex (same_run (new_run env spec () (db_runs s))) (db_runs s)"
    by (auto simp: find_None_iff list_ex_iff same_run_def new_run_def)
  then show ?case
    by (cases "validate_run_spec spec";
        cases "find (\<lambda>r. ru_run_id r = rs_run_id spec \<and> ru_workspace r = rs_workspace spec) (db_runs s)")
      (auto simp: begin_run_def run_by_key_def sql_run res_simps Let_def run_agrees_def
        new_run_def no_fk_def find_append)
qed (simp_all add: new_run_def run_agrees_def)

definition measurement_key :: "measurement \<Rightarrow> string \<times> string \<times> string \<times> string" where
  "measurement_key r = (me_measurement r, me_sample r, me_variant r, me_workspace r)"

definition measurement_agrees :: "store_env \<Rightarrow> measurement_spec \<Rightarrow> measurement \<Rightarrow> bool" where
  "measurement_agrees env spec r \<longleftrightarrow>
     f64_eq (me_value r) (ms_value spec) \<and> me_baseline r = ms_baseline spec"

definition new_measurement ::
    "store_env \<Rightarrow> measurement_spec \<Rightarrow> unit \<Rightarrow> measurement list \<Rightarrow> measurement" where
  "new_measurement env spec u rows = \<lparr>me_id = next_id (map me_id rows),
     me_measurement = ms_measurement spec, me_sample = ms_sample spec,
     me_variant = ms_variant spec, me_value = sql_real (ms_value spec),
     me_baseline = ms_baseline spec, me_workspace = ms_workspace spec,
     me_created_at = se_now env\<rparr>"

interpretation measurements: keyed_record db_measurements db_measurements_update measurement_key
  "\<lambda>spec. (ms_measurement spec, ms_sample spec, ms_variant spec, ms_workspace spec)"
  "\<lambda>env spec s. validate_measurement_spec spec" measurement_agrees
  "\<lambda>_. SInvalid ''measurement key conflicts with an existing observation''" "\<lambda>_ _. None"
  new_measurement record_measurement
proof (unfold_locales, goal_cases)
  case (1 env spec s)
  let ?find = "find (\<lambda>r. me_measurement r = ms_measurement spec \<and> me_sample r = ms_sample spec
    \<and> me_variant r = ms_variant spec \<and> me_workspace r = ms_workspace spec) (db_measurements s)"
  have "?find = None \<Longrightarrow>
      \<not> list_ex (same_measurement (new_measurement env spec () (db_measurements s))) (db_measurements s)"
    by (auto simp: find_None_iff list_ex_iff same_measurement_def new_measurement_def)
  then show ?case
    by (cases "validate_measurement_spec spec"; cases ?find)
      (auto simp: record_measurement_def measurement_by_key_def sql_run res_simps Let_def
        measurement_agrees_def measurement_key_def new_measurement_def no_fk_def find_append)
next
  case (4 env spec s x rs)
  then show ?case
    by (auto simp: validate_measurement_spec_def new_measurement_def measurement_agrees_def
        f64_eq_sql_real rbind_Inr_iff)
qed (simp_all add: new_measurement_def measurement_key_def)

definition feedback_agrees :: "store_env \<Rightarrow> feedback_spec \<Rightarrow> feedback \<Rightarrow> bool" where
  "feedback_agrees env spec r \<longleftrightarrow> fe_site r = fs_site spec \<and> fe_item_type r = fs_item_type spec
     \<and> fe_item_ref r = fs_item_ref spec \<and> fe_signal r = fs_signal spec
     \<and> fe_query_hash r = fs_query_hash spec"

definition new_feedback :: "store_env \<Rightarrow> feedback_spec \<Rightarrow> unit \<Rightarrow> feedback list \<Rightarrow> feedback" where
  "new_feedback env spec u rows = \<lparr>fe_id = next_id (map fe_id rows),
     fe_feedback_id = fs_feedback_id spec, fe_site = fs_site spec,
     fe_item_type = fs_item_type spec, fe_item_ref = fs_item_ref spec,
     fe_signal = fs_signal spec, fe_query_hash = fs_query_hash spec,
     fe_workspace = fs_workspace spec, fe_created_at = se_now env\<rparr>"

interpretation feedbacks: keyed_record db_feedback db_feedback_update
  "\<lambda>r. (fe_feedback_id r, fe_workspace r)" "\<lambda>spec. (fs_feedback_id spec, fs_workspace spec)"
  "\<lambda>env spec s. validate_feedback_spec spec" feedback_agrees
  "\<lambda>_. SInvalid ''feedback id conflicts with an existing record''" "\<lambda>_ _. None"
  new_feedback record_feedback
proof (unfold_locales, goal_cases)
  case (1 env spec s)
  let ?find = "find (\<lambda>r. fe_feedback_id r = fs_feedback_id spec \<and> fe_workspace r = fs_workspace spec)
    (db_feedback s)"
  have "?find = None \<Longrightarrow>
      \<not> list_ex (same_feedback (new_feedback env spec () (db_feedback s))) (db_feedback s)"
    by (auto simp: find_None_iff list_ex_iff same_feedback_def new_feedback_def)
  then show ?case
    by (cases "validate_feedback_spec spec"; cases ?find)
      (auto simp: record_feedback_def feedback_by_key_def sql_run res_simps Let_def
        feedback_agrees_def new_feedback_def no_fk_def find_append)
qed (simp_all add: new_feedback_def feedback_agrees_def)

section \<open>Contexts\<close>

definition context_admissible ::
    "store_env \<Rightarrow> string \<times> string \<times> string \<times> context_metadata \<times> string \<Rightarrow> store_db \<Rightarrow>
     store_error + unit" where
  "context_admissible env = (\<lambda>(reference, name, content, m, workspace) s.
     rbind (validate_context reference name workspace (cm_expires_at m)) (\<lambda>_.
     rbind (configured_context_max_bytes (se_var env ''MEMORY_MCP_CONTEXT_MAX_BYTES''))
       (\<lambda>max_bytes.
     rbind (require (length content \<le> max_bytes)
              (''context content exceeds the configured size limit ('' @ dec_nat max_bytes
                 @ '' bytes)'')) (\<lambda>_.
     case cm_expires_at m of
       None \<Rightarrow> Inr ()
     | Some v \<Rightarrow> validate_timestamp env v ''context expiry''))))"

definition context_agrees ::
    "store_env \<Rightarrow> string \<times> string \<times> string \<times> context_metadata \<times> string \<Rightarrow> context_row \<Rightarrow> bool" where
  "context_agrees env = (\<lambda>(reference, name, content, m, workspace) r.
     cx_sha256 r = se_sha256 env content \<and> cx_name r = name \<and> cx_schema r = cm_schema m
     \<and> cx_source r = cm_source m \<and> cx_expires_at r = cm_expires_at m)"

text \<open>A reference that another workspace holds is refused by the primary key.\<close>

definition context_blocked ::
    "string \<times> string \<times> string \<times> context_metadata \<times> string \<Rightarrow> store_db \<Rightarrow> store_error option" where
  "context_blocked = (\<lambda>(reference, _) s.
     if list_ex (\<lambda>c. cx_reference c = reference) (db_contexts s)
     then Some (SSql ''UNIQUE constraint failed'') else None)"

definition new_context ::
    "store_env \<Rightarrow> string \<times> string \<times> string \<times> context_metadata \<times> string \<Rightarrow> unit \<Rightarrow>
     context_row list \<Rightarrow> context_row" where
  "new_context env = (\<lambda>(reference, name, content, m, workspace) u rows.
     \<lparr>cx_reference = reference, cx_name = name, cx_content = content,
      cx_sha256 = se_sha256 env content, cx_workspace = workspace, cx_schema = cm_schema m,
      cx_source = cm_source m, cx_expires_at = cm_expires_at m,
      cx_byte_size = int (length content)\<rparr>)"

interpretation contexts: keyed_record db_contexts db_contexts_update
  "\<lambda>r. (cx_reference r, cx_workspace r)"
  "\<lambda>(reference, name, content, m, workspace). (reference, workspace)"
  context_admissible context_agrees
  "\<lambda>(reference, _). SInvalid (''context ref is immutable: '' @ reference)" context_blocked
  new_context
  "\<lambda>env (reference, name, content, m, workspace).
     put_context_with_metadata env reference name content m workspace"
proof (unfold_locales, goal_cases)
  case (1 env spec s)
  obtain reference name content m workspace where spec: "spec = (reference, name, content, m, workspace)"
    by (cases spec)
  let ?find = "find (\<lambda>r. cx_reference r = reference \<and> cx_workspace r = workspace) (db_contexts s)"
  have "list_ex (same_context (new_context env spec () (db_contexts s))) (db_contexts s)
      \<longleftrightarrow> list_ex (\<lambda>c. cx_reference c = reference) (db_contexts s)"
    by (auto simp: list_ex_iff same_context_def new_context_def spec)
  then show ?case
    by (cases "validate_context reference name workspace (cm_expires_at m)";
        cases "configured_context_max_bytes (se_var env ''MEMORY_MCP_CONTEXT_MAX_BYTES'')";
        cases ?find)
      (auto simp: put_context_with_metadata_def context_raw_def sql_run res_simps Let_def spec
        context_agrees_def context_blocked_def context_admissible_def new_context_def no_fk_def
        find_append require_def rguard_def validate_timestamp_def split: option.splits)
qed (auto simp: new_context_def context_agrees_def)

section \<open>Events and handoffs\<close>

definition live :: "store_env \<Rightarrow> string \<Rightarrow> string \<Rightarrow> store_db \<Rightarrow> store_error + unit" where
  "live env reference workspace s =
     rbind (validate_context_workspace workspace) (\<lambda>_.
     if list_ex (\<lambda>r. cx_reference r = reference \<and> cx_workspace r = workspace
          \<and> not_expired env (cx_expires_at r)) (db_contexts s)
     then Inr () else Inl (context_not_found reference))"

lemma list_ex_find: "list_ex p xs \<longleftrightarrow> find p xs \<noteq> None"
  by (auto simp: find_None_iff list_ex_iff)

lemma sbind_live_context:
  "sbind (live_context env reference workspace)
     (\<lambda>c. sbind (if c = None then sfail (context_not_found reference) else sret ()) k) s =
   (case live env reference workspace s of Inl e \<Rightarrow> (Inl e, s) | Inr u \<Rightarrow> k u s)"
  by (cases "validate_context_workspace workspace")
    (auto simp: live_context_def live_def sbind_def sql_first_def slift_def sfail_def sret_def
      list_ex_find)

lemma live_has_context: "live env reference workspace s = Inr u \<Longrightarrow> has_context s reference"
  by (auto simp: live_def has_context_def list_ex_iff rbind_Inr_iff split: if_splits)

definition event_admissible :: "store_env \<Rightarrow> event_spec \<Rightarrow> store_db \<Rightarrow> store_error + unit" where
  "event_admissible env spec s =
     rbind (validate_event_spec spec) (\<lambda>_. live env (es_context_reference spec) (es_workspace spec) s)"

definition event_agrees :: "store_env \<Rightarrow> event_spec \<Rightarrow> lifecycle_event \<Rightarrow> bool" where
  "event_agrees env spec r \<longleftrightarrow> ev_event_type r = es_event_type spec
     \<and> ev_context_reference r = es_context_reference spec \<and> ev_metadata r = es_metadata spec
     \<and> ev_payload_sha256 r = se_sha256 env (es_payload spec)
     \<and> ev_payload_size r = int (length (es_payload spec))
     \<and> ev_payload_truncated r = es_payload_truncated spec"

definition event_blocked :: "event_spec \<Rightarrow> store_db \<Rightarrow> store_error option" where
  "event_blocked spec s =
     (if list_ex (\<lambda>r. ev_context_reference r = es_context_reference spec
            \<and> ev_workspace r = es_workspace spec) (db_events s)
      then Some (SInvalid ''context already has a lifecycle event'') else None)"

definition new_event ::
    "store_env \<Rightarrow> event_spec \<Rightarrow> unit \<Rightarrow> lifecycle_event list \<Rightarrow> lifecycle_event" where
  "new_event env spec u rows = \<lparr>ev_id = next_id (map ev_id rows),
     ev_idempotency_key = es_idempotency_key spec, ev_event_type = es_event_type spec,
     ev_context_reference = es_context_reference spec, ev_metadata = es_metadata spec,
     ev_payload_sha256 = se_sha256 env (es_payload spec),
     ev_payload_size = int (length (es_payload spec)),
     ev_payload_truncated = es_payload_truncated spec, ev_workspace = es_workspace spec,
     ev_created_at = se_now env\<rparr>"

interpretation events: keyed_record db_events db_events_update
  "\<lambda>r. (ev_idempotency_key r, ev_workspace r)" "\<lambda>spec. (es_idempotency_key spec, es_workspace spec)"
  event_admissible event_agrees
  "\<lambda>_. SInvalid ''event idempotency key conflicts with an existing event''" event_blocked
  new_event capture_event
proof (unfold_locales, goal_cases)
  case (1 env spec s)
  let ?key = "\<lambda>r. ev_idempotency_key r = es_idempotency_key spec \<and> ev_workspace r = es_workspace spec"
  let ?ctx = "\<lambda>r. ev_context_reference r = es_context_reference spec
    \<and> ev_workspace r = es_workspace spec"
  have clash: "list_ex (same_event (new_event env spec () (db_events s))) (db_events s) \<longleftrightarrow>
      list_ex ?key (db_events s) \<or> list_ex ?ctx (db_events s)"
    by (simp add: list_ex_iff same_event_def new_event_def) metis
  have fk: "live env (es_context_reference spec) (es_workspace spec) s = Inr u \<Longrightarrow>
      has_context s (es_context_reference spec)" for u by (rule live_has_context)
  show ?case
    using clash fk
    by (cases "validate_event_spec spec";
        cases "live env (es_context_reference spec) (es_workspace spec) s";
        cases "find ?key (db_events s)"; cases "find ?ctx (db_events s)")
      (auto simp: capture_event_def event_by_key_def event_by_context_def sql_run res_simps Let_def
        sbind_live_context event_agrees_def event_blocked_def event_admissible_def new_event_def
        find_append list_ex_find require_def rguard_def)
qed (auto simp: new_event_def event_agrees_def)

definition handoff_admissible ::
    "store_env \<Rightarrow> handoff_spec \<Rightarrow> store_db \<Rightarrow> store_error + string option" where
  "handoff_admissible env spec s =
     rbind (validate_handoff_spec spec) (\<lambda>_.
     rbind (live env (hs_context_reference spec) (hs_workspace spec) s) (\<lambda>_.
     handoff_expiry env spec))"

definition handoff_agrees :: "store_env \<Rightarrow> handoff_spec \<Rightarrow> handoff \<Rightarrow> bool" where
  "handoff_agrees env spec r \<longleftrightarrow> ho_context_reference r = hs_context_reference spec
     \<and> ho_owner r = hs_owner spec \<and> ho_session r = hs_session spec \<and> ho_source r = hs_source spec
     \<and> ho_shared r = hs_shared spec"

definition handoff_blocked :: "handoff_spec \<Rightarrow> store_db \<Rightarrow> store_error option" where
  "handoff_blocked spec s =
     (if list_ex (\<lambda>r. ho_context_reference r = hs_context_reference spec
            \<and> ho_workspace r = hs_workspace spec) (db_handoffs s)
      then Some (SInvalid ''context already has a handoff'') else None)"

definition new_handoff ::
    "store_env \<Rightarrow> handoff_spec \<Rightarrow> string option \<Rightarrow> handoff list \<Rightarrow> handoff" where
  "new_handoff env spec expires_at rows = \<lparr>ho_id = next_id (map ho_id rows),
     ho_idempotency_key = hs_idempotency_key spec,
     ho_context_reference = hs_context_reference spec, ho_owner = hs_owner spec,
     ho_session = hs_session spec, ho_source = hs_source spec, ho_workspace = hs_workspace spec,
     ho_shared = hs_shared spec, ho_expires_at = expires_at, ho_state = ''open'',
     ho_accepted_at = None, ho_accepted_by = None, ho_cancelled_at = None,
     ho_cancelled_by = None, ho_created_at = se_now env\<rparr>"

interpretation handoffs: keyed_record db_handoffs db_handoffs_update
  "\<lambda>r. (ho_idempotency_key r, ho_workspace r)" "\<lambda>spec. (hs_idempotency_key spec, hs_workspace spec)"
  handoff_admissible handoff_agrees
  "\<lambda>_. SInvalid ''handoff idempotency key conflicts with an existing handoff''" handoff_blocked
  new_handoff begin_handoff
proof (unfold_locales, goal_cases)
  case (1 env spec s)
  let ?key = "\<lambda>r. ho_idempotency_key r = hs_idempotency_key spec \<and> ho_workspace r = hs_workspace spec"
  let ?ctx = "\<lambda>r. ho_context_reference r = hs_context_reference spec
    \<and> ho_workspace r = hs_workspace spec"
  have clash: "list_ex (same_handoff (new_handoff env spec x (db_handoffs s))) (db_handoffs s) \<longleftrightarrow>
      list_ex ?key (db_handoffs s) \<or> list_ex ?ctx (db_handoffs s)" for x
    by (simp add: list_ex_iff same_handoff_def new_handoff_def) metis
  have fk: "live env (hs_context_reference spec) (hs_workspace spec) s = Inr u \<Longrightarrow>
      has_context s (hs_context_reference spec)" for u by (rule live_has_context)
  show ?case
    using clash fk
    by (cases "validate_handoff_spec spec";
        cases "live env (hs_context_reference spec) (hs_workspace spec) s";
        cases "handoff_expiry env spec";
        cases "find ?key (db_handoffs s)"; cases "find ?ctx (db_handoffs s)")
      (auto simp: begin_handoff_def handoff_by_key_def handoff_by_context_def sql_run res_simps
        Let_def sbind_live_context handoff_agrees_def handoff_blocked_def handoff_admissible_def
        new_handoff_def find_append list_ex_find require_def rguard_def)
qed (auto simp: new_handoff_def handoff_agrees_def)

end
