(* ===== verification/StoreSpec.thy ===== *)
theory StoreSpec
  imports StoreEmbeddings StoreGraphSpec StoreKeyed
begin

text \<open>
  What a database of \<open>src/store.rs\<close> promises. \<open>db_ok\<close> is the integrity of its tables: the keys
  of the schema, the references between tables, and the values that the checks of the operations
  admit, the audit trail of every fact included. \<open>change\<close> is the abstract specification of the
  operations in a workspace: the elementary changes they are made of (\<open>d\<close> tells whether deletions
  are among them). Every change keeps the integrity and leaves the rows of other workspaces alone; the theory \<open>StoreSteps\<close> shows that
  every operation is a sequence of changes.
\<close>

section \<open>Integrity of the tables\<close>

definition fact_ok :: "(string \<Rightarrow> string) \<Rightarrow> fact_row \<Rightarrow> bool" where
  "fact_ok sha f \<longleftrightarrow> validate_fact_text (fa_text f) = Inr () \<and> fa_sha256 f = sha (fa_text f)
     \<and> fa_lifecycle f \<in> set lifecycles \<and> fa_validity f \<in> set validities
     \<and> fa_trust f \<in> set trust_levels \<and> in_unit (fa_importance f)"

definition fact_key :: "fact_row \<Rightarrow> string \<times> string" where
  "fact_key f = (fa_sha256 f, fa_workspace f)"

definition facts_ok :: "(string \<Rightarrow> string) \<Rightarrow> fact_row list \<Rightarrow> bool" where
  "facts_ok sha facts \<longleftrightarrow> keyed fa_id fact_key facts \<and> (\<forall>f\<in>set facts. fact_ok sha f)"

text \<open>The audit trail of a fact leads from nothing to its lifecycle, one transition to the next.\<close>

fun linked :: "string \<Rightarrow> fact_history list \<Rightarrow> string \<Rightarrow> bool" where
  "linked a [] b \<longleftrightarrow> a = b"
| "linked a (h # hs) b \<longleftrightarrow> fh_from_lifecycle h = a \<and> linked (fh_to_lifecycle h) hs b"

definition trail :: "fact_history list \<Rightarrow> int \<Rightarrow> fact_history list" where
  "trail hs i = filter (\<lambda>h. fh_fact_id h = i) hs"

definition history_ok :: "fact_row list \<Rightarrow> fact_history list \<Rightarrow> bool" where
  "history_ok facts hs \<longleftrightarrow> keyed fh_id fh_id hs
     \<and> (\<forall>h\<in>set hs. \<exists>f\<in>set facts. fa_id f = fh_fact_id h \<and> fa_workspace f = fh_workspace h)
     \<and> (\<forall>f\<in>set facts. linked [] (trail hs (fa_id f)) (fa_lifecycle f))"

definition embeddings_ok :: "fact_row list \<Rightarrow> fact_embedding_row list \<Rightarrow> bool" where
  "embeddings_ok facts bs \<longleftrightarrow> distinct (map fb_fact_id bs)
     \<and> (\<forall>b\<in>set bs. (\<exists>f\<in>set facts. fa_id f = fb_fact_id b) \<and> length (fb_vector b) mod 4 = 0)"

definition categories_ok :: "category list \<Rightarrow> bool" where
  "categories_ok cs \<longleftrightarrow> keyed ca_id (\<lambda>c. (ca_name c, ca_workspace c)) cs"

definition run_ok :: "run \<Rightarrow> bool" where
  "run_ok r \<longleftrightarrow> ru_state r \<in> {''open'', ''closed''} \<and> (ru_state r = ''closed'' \<longleftrightarrow> ru_ended_at r \<noteq> None)
     \<and> length (ru_files r) \<le> MAX_RUN_FILES_BYTES \<and> length (ru_diff r) \<le> MAX_RUN_DIFF_BYTES
     \<and> length (ru_summary r) \<le> MAX_RUN_DIFF_BYTES \<and> \<not> blank (ru_run_id r)"

definition run_key :: "run \<Rightarrow> string \<times> string" where
  "run_key r = (ru_run_id r, ru_workspace r)"

definition runs_ok :: "run list \<Rightarrow> bool" where
  "runs_ok rs \<longleftrightarrow> keyed ru_id run_key rs \<and> (\<forall>r\<in>set rs. run_ok r)"

definition measurements_ok :: "measurement list \<Rightarrow> bool" where
  "measurements_ok ms \<longleftrightarrow> keyed me_id measurement_key ms \<and> (\<forall>m\<in>set ms. is_finite (me_value m))"

definition feedback_ok :: "feedback list \<Rightarrow> bool" where
  "feedback_ok fs \<longleftrightarrow> keyed fe_id (\<lambda>r. (fe_feedback_id r, fe_workspace r)) fs
     \<and> (\<forall>f\<in>set fs. fe_signal f \<in> set feedback_signals)"

definition context_ok :: "(string \<Rightarrow> string) \<Rightarrow> context_row \<Rightarrow> bool" where
  "context_ok sha c \<longleftrightarrow> \<not> blank (cx_reference c) \<and> \<not> blank (cx_workspace c)
     \<and> cx_sha256 c = sha (cx_content c) \<and> cx_byte_size c = int (length (cx_content c))
     \<and> length (cx_content c) \<le> MAX_CONTEXT_MAX_BYTES"

definition contexts_ok :: "(string \<Rightarrow> string) \<Rightarrow> context_row list \<Rightarrow> bool" where
  "contexts_ok sha cs \<longleftrightarrow> distinct (map cx_reference cs) \<and> (\<forall>c\<in>set cs. context_ok sha c)"

definition holds_context :: "context_row list \<Rightarrow> string \<Rightarrow> string \<Rightarrow> bool" where
  "holds_context cs reference workspace \<longleftrightarrow>
     (\<exists>c\<in>set cs. cx_reference c = reference \<and> cx_workspace c = workspace)"

definition lineage_ok :: "context_row list \<Rightarrow> context_lineage list \<Rightarrow> bool" where
  "lineage_ok cs ls \<longleftrightarrow> distinct (map (\<lambda>l. (cl_parent l, cl_child l, cl_relation l)) ls)
     \<and> (\<forall>l\<in>set ls. holds_context cs (cl_parent l) (cl_workspace l)
          \<and> holds_context cs (cl_child l) (cl_workspace l))"

definition event_ok :: "lifecycle_event \<Rightarrow> bool" where
  "event_ok e \<longleftrightarrow> 0 \<le> ev_payload_size e \<and> ev_payload_size e \<le> int MAX_EVENT_PAYLOAD_BYTES
     \<and> length (ev_metadata e) \<le> MAX_EVENT_METADATA_BYTES"

definition events_ok :: "context_row list \<Rightarrow> lifecycle_event list \<Rightarrow> bool" where
  "events_ok cs es \<longleftrightarrow> keyed ev_id (\<lambda>e. (ev_idempotency_key e, ev_workspace e)) es
     \<and> distinct (map (\<lambda>e. (ev_context_reference e, ev_workspace e)) es)
     \<and> (\<forall>e\<in>set es. event_ok e \<and> holds_context cs (ev_context_reference e) (ev_workspace e))"

definition handoff_states :: "string list" where
  "handoff_states = [''open'', ''accepted'', ''cancelled'', ''expired'']"

definition handoff_ok :: "handoff \<Rightarrow> bool" where
  "handoff_ok h \<longleftrightarrow> ho_state h \<in> set handoff_states
     \<and> (ho_state h = ''accepted'' \<longleftrightarrow> ho_accepted_by h \<noteq> None)
     \<and> (ho_state h = ''accepted'' \<longleftrightarrow> ho_accepted_at h \<noteq> None)
     \<and> (ho_state h = ''cancelled'' \<longleftrightarrow> ho_cancelled_by h \<noteq> None)
     \<and> (ho_state h = ''cancelled'' \<longleftrightarrow> ho_cancelled_at h \<noteq> None)"

definition handoffs_ok :: "context_row list \<Rightarrow> handoff list \<Rightarrow> bool" where
  "handoffs_ok cs hs \<longleftrightarrow> keyed ho_id (\<lambda>h. (ho_idempotency_key h, ho_workspace h)) hs
     \<and> distinct (map (\<lambda>h. (ho_context_reference h, ho_workspace h)) hs)
     \<and> (\<forall>h\<in>set hs. handoff_ok h \<and> holds_context cs (ho_context_reference h) (ho_workspace h))"

definition workspaces_ok :: "workspace_row list \<Rightarrow> bool" where
  "workspaces_ok ws \<longleftrightarrow> distinct (map ws_id ws)
     \<and> (\<forall>w\<in>set ws. ws_status w \<in> {''active'', ''archived'', ''reset''} \<and> \<not> blank (ws_id w))"

definition db_ok :: "(string \<Rightarrow> string) \<Rightarrow> store_db \<Rightarrow> bool" where
  "db_ok sha s \<longleftrightarrow> facts_ok sha (db_facts s) \<and> history_ok (db_facts s) (db_history s)
     \<and> embeddings_ok (db_facts s) (db_embeddings s) \<and> categories_ok (db_categories s)
     \<and> runs_ok (db_runs s) \<and> measurements_ok (db_measurements s) \<and> feedback_ok (db_feedback s)
     \<and> contexts_ok sha (db_contexts s) \<and> lineage_ok (db_contexts s) (db_lineage s)
     \<and> events_ok (db_contexts s) (db_events s) \<and> handoffs_ok (db_contexts s) (db_handoffs s)
     \<and> workspaces_ok (db_workspaces s) \<and> graph_ok s"

lemma db_ok_empty: "db_ok sha empty_db"
  by (simp add: db_ok_def empty_db_def facts_ok_def history_ok_def embeddings_ok_def
      categories_ok_def runs_ok_def measurements_ok_def feedback_ok_def contexts_ok_def
      lineage_ok_def events_ok_def handoffs_ok_def workspaces_ok_def keyed_def graph_ok_def
      entities_ok_def relations_ok_def candidates_ok_def decisions_ok_def evidence_ok_def)

section \<open>Elementary changes\<close>

text \<open>What an update of a fact keeps, and how a handoff moves.\<close>

definition fact_kept :: "fact_row \<Rightarrow> fact_row \<Rightarrow> bool" where
  "fact_kept f f' \<longleftrightarrow> fa_id f' = fa_id f \<and> fa_text f' = fa_text f \<and> fa_sha256 f' = fa_sha256 f
     \<and> fa_workspace f' = fa_workspace f \<and> fa_source f' = fa_source f \<and> fa_project f' = fa_project f
     \<and> fa_domain f' = fa_domain f \<and> fa_strong f' = fa_strong f
     \<and> fa_importance f' = fa_importance f \<and> fa_created_at f' = fa_created_at f
     \<and> (fa_confirmed f \<longrightarrow> fa_confirmed f')
     \<and> (fa_strong f \<longrightarrow> fa_invalid_at f' = fa_invalid_at f \<and> fa_superseded_by f' = fa_superseded_by f)"

definition run_kept :: "run \<Rightarrow> run \<Rightarrow> bool" where
  "run_kept r r' \<longleftrightarrow> ru_id r' = ru_id r \<and> ru_run_id r' = ru_run_id r
     \<and> ru_workspace r' = ru_workspace r \<and> ru_files r' = ru_files r \<and> ru_diff r' = ru_diff r
     \<and> ru_created_at r' = ru_created_at r
     \<and> (ru_state r = ''closed'' \<longrightarrow> ru_state r' = ''closed'' \<and> ru_summary r' = ru_summary r
          \<and> ru_ended_at r' = ru_ended_at r)"

inductive handoff_next :: "handoff \<Rightarrow> handoff \<Rightarrow> bool" where
  accepted: "ho_state h = ''open'' \<Longrightarrow>
    handoff_next h (h\<lparr>ho_state := ''accepted'', ho_accepted_at := Some t, ho_accepted_by := Some a\<rparr>)"
| cancelled: "ho_state h = ''open'' \<Longrightarrow>
    handoff_next h (h\<lparr>ho_state := ''cancelled'', ho_cancelled_at := Some t, ho_cancelled_by := Some a\<rparr>)"
| expired: "ho_state h = ''open'' \<Longrightarrow> handoff_next h (h\<lparr>ho_state := ''expired''\<rparr>)"

definition handoff_moves :: "string \<Rightarrow> handoff \<Rightarrow> handoff \<Rightarrow> bool" where
  "handoff_moves w h h' \<longleftrightarrow> h' = h \<or> (ho_workspace h = w \<and> handoff_next h h')"

inductive change :: "bool \<Rightarrow> (string \<Rightarrow> string) \<Rightarrow> string \<Rightarrow> store_db \<Rightarrow> store_db \<Rightarrow> bool"
  for d sha w where
  fact_added: "\<lbrakk>fa_id f = next_id (map fa_id (db_facts s)); fact_key f \<notin> fact_key ` set (db_facts s);
      fact_ok sha f; fa_workspace f = w; fh_id h = next_id (map fh_id (db_history s));
      fh_fact_id h = fa_id f; fh_workspace h = w; fh_from_lifecycle h = [];
      fh_to_lifecycle h = fa_lifecycle f\<rbrakk> \<Longrightarrow>
    change d sha w s (s\<lparr>db_facts := db_facts s @ [f], db_history := db_history s @ [h]\<rparr>)"
| fact_edited: "\<lbrakk>f \<in> set (db_facts s); in_scope w (fa_workspace f); fact_kept f f'; fact_ok sha f';
      fa_lifecycle f' = fa_lifecycle f\<rbrakk> \<Longrightarrow>
    change d sha w s (s\<lparr>db_facts := replace_row fa_id f f' (db_facts s)\<rparr>)"
| fact_audited: "\<lbrakk>f \<in> set (db_facts s); in_scope w (fa_workspace f); fact_kept f f'; fact_ok sha f';
      fh_id h = next_id (map fh_id (db_history s)); fh_fact_id h = fa_id f;
      fh_workspace h = fa_workspace f; fh_from_lifecycle h = fa_lifecycle f;
      fh_to_lifecycle h = fa_lifecycle f'\<rbrakk> \<Longrightarrow>
    change d sha w s (s\<lparr>db_facts := replace_row fa_id f f' (db_facts s),
      db_history := db_history s @ [h]\<rparr>)"
| embedding_set: "\<lbrakk>f \<in> set (db_facts s); in_scope w (fa_workspace f); fb_fact_id b = fa_id f;
      length (fb_vector b) mod 4 = 0\<rbrakk> \<Longrightarrow>
    change d sha w s (s\<lparr>db_embeddings := upsert_embedding b (db_embeddings s)\<rparr>)"
| category_added: "\<lbrakk>ca_id c = next_id (map ca_id (db_categories s)); ca_workspace c = w;
      (ca_name c, w) \<notin> (\<lambda>c. (ca_name c, ca_workspace c)) ` set (db_categories s)\<rbrakk> \<Longrightarrow>
    change d sha w s (s\<lparr>db_categories := db_categories s @ [c]\<rparr>)"
| run_added: "\<lbrakk>ru_id r = next_id (map ru_id (db_runs s)); ru_workspace r = w;
      run_key r \<notin> run_key ` set (db_runs s); run_ok r\<rbrakk> \<Longrightarrow>
    change d sha w s (s\<lparr>db_runs := db_runs s @ [r]\<rparr>)"
| run_changed: "\<lbrakk>r \<in> set (db_runs s); ru_workspace r = w; run_kept r r'; run_ok r'\<rbrakk> \<Longrightarrow>
    change d sha w s (s\<lparr>db_runs := replace_row ru_id r r' (db_runs s)\<rparr>)"
| measurement_added: "\<lbrakk>me_id m = next_id (map me_id (db_measurements s)); me_workspace m = w;
      measurement_key m \<notin> measurement_key ` set (db_measurements s); is_finite (me_value m)\<rbrakk> \<Longrightarrow>
    change d sha w s (s\<lparr>db_measurements := db_measurements s @ [m]\<rparr>)"
| feedback_added: "\<lbrakk>fe_id f = next_id (map fe_id (db_feedback s)); fe_workspace f = w;
      (fe_feedback_id f, w) \<notin> (\<lambda>r. (fe_feedback_id r, fe_workspace r)) ` set (db_feedback s);
      fe_signal f \<in> set feedback_signals\<rbrakk> \<Longrightarrow>
    change d sha w s (s\<lparr>db_feedback := db_feedback s @ [f]\<rparr>)"
| context_added: "\<lbrakk>cx_workspace c = w; cx_reference c \<notin> cx_reference ` set (db_contexts s);
      context_ok sha c\<rbrakk> \<Longrightarrow>
    change d sha w s (s\<lparr>db_contexts := db_contexts s @ [c]\<rparr>)"
| lineage_added: "\<lbrakk>cl_workspace l = w; holds_context (db_contexts s) (cl_parent l) w;
      holds_context (db_contexts s) (cl_child l) w;
      (cl_parent l, cl_child l, cl_relation l)
        \<notin> (\<lambda>l. (cl_parent l, cl_child l, cl_relation l)) ` set (db_lineage s)\<rbrakk> \<Longrightarrow>
    change d sha w s (s\<lparr>db_lineage := db_lineage s @ [l]\<rparr>)"
| event_added: "\<lbrakk>ev_id e = next_id (map ev_id (db_events s)); ev_workspace e = w;
      (ev_idempotency_key e, w) \<notin> (\<lambda>e. (ev_idempotency_key e, ev_workspace e)) ` set (db_events s);
      (ev_context_reference e, w)
        \<notin> (\<lambda>e. (ev_context_reference e, ev_workspace e)) ` set (db_events s);
      event_ok e; holds_context (db_contexts s) (ev_context_reference e) w\<rbrakk> \<Longrightarrow>
    change d sha w s (s\<lparr>db_events := db_events s @ [e]\<rparr>)"
| handoff_added: "\<lbrakk>ho_id h = next_id (map ho_id (db_handoffs s)); ho_workspace h = w;
      (ho_idempotency_key h, w) \<notin> (\<lambda>h. (ho_idempotency_key h, ho_workspace h)) ` set (db_handoffs s);
      (ho_context_reference h, w)
        \<notin> (\<lambda>h. (ho_context_reference h, ho_workspace h)) ` set (db_handoffs s);
      ho_state h = ''open''; handoff_ok h; holds_context (db_contexts s) (ho_context_reference h) w\<rbrakk> \<Longrightarrow>
    change d sha w s (s\<lparr>db_handoffs := db_handoffs s @ [h]\<rparr>)"
| handoffs_moved: "list_all2 (handoff_moves w) (db_handoffs s) hs \<Longrightarrow>
    change d sha w s (s\<lparr>db_handoffs := hs\<rparr>)"
| workspace_set: "\<lbrakk>\<not> blank w; workspaces_ok ws; filter (\<lambda>x. ws_id x \<noteq> w) ws
        = filter (\<lambda>x. ws_id x \<noteq> w) (db_workspaces s)\<rbrakk> \<Longrightarrow>
    change d sha w s (s\<lparr>db_workspaces := ws\<rparr>)"
| entity_added: "\<lbrakk>er_id e = next_id (map er_id (db_entities s)); er_workspace e = w;
      entity_key e \<notin> entity_key ` set (db_entities s); \<not> blank (er_name e)\<rbrakk> \<Longrightarrow>
    change d sha w s (s\<lparr>db_entities := db_entities s @ [e]\<rparr>)"
| relation_added: "\<lbrakk>re_id r = next_id (map re_id (db_relations s)); re_workspace r = w;
      relation_key r \<notin> relation_key ` set (db_relations s);
      relation_ok (db_facts s) (db_entities s) r\<rbrakk> \<Longrightarrow>
    change d sha w s (s\<lparr>db_relations := db_relations s @ [r]\<rparr>)"
| candidate_added: "\<lbrakk>rc_id c = next_id (map rc_id (db_candidates s)); rc_workspace c = w;
      candidate_key c \<notin> candidate_key ` set (db_candidates s); rc_status c = ''candidate'';
      candidate_ok (db_facts s) (db_relations s) (db_evidence s) c\<rbrakk> \<Longrightarrow>
    change d sha w s (s\<lparr>db_candidates := db_candidates s @ [c]\<rparr>)"
| candidate_moved: "\<lbrakk>c \<in> set (db_candidates s); rc_workspace c = w; candidate_next c c';
      \<And>i. rc_relation_id c' = Some i \<Longrightarrow>
        \<exists>r\<in>set (db_relations s). re_id r = i \<and> re_workspace r = rc_workspace c\<rbrakk> \<Longrightarrow>
    change d sha w s (s\<lparr>db_candidates := replace_row rc_id c c' (db_candidates s)\<rparr>)"
| decision_added: "\<lbrakk>de_id x = next_id (map de_id (db_decisions s)); de_workspace x = w;
      \<And>p. de_parent_id x = Some p \<Longrightarrow>
        \<exists>e\<in>set (db_decisions s). de_id e = p \<and> de_workspace e = de_workspace x\<rbrakk> \<Longrightarrow>
    change d sha w s (s\<lparr>db_decisions := db_decisions s @ [x]\<rparr>)"
| evidence_added: "\<lbrakk>ee_id v = next_id (map ee_id (db_evidence s)); ee_workspace v = w;
      evidence_key v \<notin> evidence_key ` set (db_evidence s); evidence_row_ok (db_facts s) v\<rbrakk> \<Longrightarrow>
    change d sha w s (s\<lparr>db_evidence := db_evidence s @ [v]\<rparr>)"
| facts_deleted: "d \<Longrightarrow> \<not> blank w \<Longrightarrow> change d sha w s (delete_facts (\<lambda>f. fa_workspace f = w) s)"
| candidates_deleted: "d \<Longrightarrow> \<not> blank w \<Longrightarrow>
    change d sha w s (s\<lparr>db_candidates := filter (\<lambda>c. rc_workspace c \<noteq> w) (db_candidates s)\<rparr>)"
| contexts_deleted: "d \<Longrightarrow> \<not> blank w \<Longrightarrow> change d sha w s (delete_contexts (\<lambda>c. cx_workspace c = w) s)"

section \<open>Changes keep the integrity\<close>

lemma linked_append: "linked a (xs @ [h]) b \<longleftrightarrow> (\<exists>c. linked a xs c \<and> fh_from_lifecycle h = c \<and> fh_to_lifecycle h = b)"
  by (induction xs arbitrary: a) auto

lemma trail_append [simp]:
  "trail (hs @ [h]) i = (if fh_fact_id h = i then trail hs i @ [h] else trail hs i)"
  by (simp add: trail_def)

lemma trail_empty: "(\<And>h. h \<in> set hs \<Longrightarrow> fh_fact_id h \<noteq> i) \<Longrightarrow> trail hs i = []"
  by (auto simp: trail_def)

lemma facts_added:
  assumes "facts_ok sha facts" "history_ok facts hs"
    and new: "fa_id f = next_id (map fa_id facts)" "fact_key f \<notin> fact_key ` set facts" "fact_ok sha f"
    and h: "fh_id h = next_id (map fh_id hs)" "fh_fact_id h = fa_id f"
      "fh_workspace h = fa_workspace f" "fh_from_lifecycle h = []" "fh_to_lifecycle h = fa_lifecycle f"
  shows "facts_ok sha (facts @ [f])" "history_ok (facts @ [f]) (hs @ [h])"
proof -
  show "facts_ok sha (facts @ [f])"
    using assms(1) new keyed_append[of fa_id fact_key facts f] by (auto simp: facts_ok_def)
  have lt: "g \<in> set facts \<Longrightarrow> fa_id g \<noteq> fa_id f" for g
    using next_id_gt(1)[of "fa_id g" "map fa_id facts"] new(1) by auto
  have none: "trail hs (fa_id f) = []"
    using assms(2) lt by (intro trail_empty) (metis history_ok_def)
  have "fh_id h \<notin> fh_id ` set hs"
    using next_id_gt(1)[of _ "map fh_id hs"] h(1) by fastforce
  then have "keyed fh_id fh_id (hs @ [h])"
    using assms(2) h(1) keyed_append[of fh_id fh_id hs h] by (simp add: history_ok_def)
  moreover have "\<forall>g\<in>set (facts @ [f]). linked [] (trail (hs @ [h]) (fa_id g)) (fa_lifecycle g)"
    using assms(2) lt none h by (auto simp: history_ok_def) metis
  ultimately show "history_ok (facts @ [f]) (hs @ [h])"
    using assms(2) h by (auto simp: history_ok_def)
qed

lemma facts_replaced:
  assumes "facts_ok sha facts" "f \<in> set facts" "fact_kept f f'" "fact_ok sha f'"
  shows "facts_ok sha (replace_row fa_id f f' facts)"
    "embeddings_ok facts bs \<Longrightarrow> embeddings_ok (replace_row fa_id f f' facts) bs"
    "x \<in> set facts \<Longrightarrow> \<exists>y\<in>set (replace_row fa_id f f' facts). fa_id y = fa_id x \<and> fa_workspace y = fa_workspace x"
proof -
  have k: "keyed fa_id fact_key facts" using assms(1) by (simp add: facts_ok_def)
  show "facts_ok sha (replace_row fa_id f f' facts)"
    using assms keyed_replace[OF k assms(2), of f'] set_replace_row[of fa_id f f' facts]
    by (auto simp: facts_ok_def fact_kept_def fact_key_def)
  have ex: "x \<in> set facts \<Longrightarrow> \<exists>y\<in>set (replace_row fa_id f f' facts). fa_id y = fa_id x \<and> fa_workspace y = fa_workspace x" for x
  proof (cases "fa_id x = fa_id f")
    case True
    assume "x \<in> set facts"
    with True k assms(2) have "x = f" by (metis keyed_unique_id)
    then show ?thesis using replace_row_new[OF assms(2), of f' fa_id] assms(3)
      by (auto simp: fact_kept_def)
  next
    case False
    assume "x \<in> set facts"
    then show ?thesis using replace_row_keeps[of x facts fa_id f f'] False by blast
  qed
  then show "x \<in> set facts \<Longrightarrow> \<exists>y\<in>set (replace_row fa_id f f' facts). fa_id y = fa_id x \<and> fa_workspace y = fa_workspace x" .
  show "embeddings_ok facts bs \<Longrightarrow> embeddings_ok (replace_row fa_id f f' facts) bs"
    using ex unfolding embeddings_ok_def by metis
qed

lemma history_edited:
  assumes "facts_ok sha facts" "history_ok facts hs" "f \<in> set facts" "fact_kept f f'" "fact_ok sha f'"
    and "fa_lifecycle f' = fa_lifecycle f"
  shows "history_ok (replace_row fa_id f f' facts) hs"
proof -
  have "\<forall>g\<in>set (replace_row fa_id f f' facts). linked [] (trail hs (fa_id g)) (fa_lifecycle g)"
  proof
    fix g assume "g \<in> set (replace_row fa_id f f' facts)"
    then consider "g = f'" | "g \<in> set facts" using in_replace_row by metis
    then show "linked [] (trail hs (fa_id g)) (fa_lifecycle g)"
      using assms(2,3,4,6) by cases (simp_all add: history_ok_def fact_kept_def)
  qed
  then show ?thesis
    using assms(2) facts_replaced(3)[OF assms(1,3,4,5)] unfolding history_ok_def by metis
qed

lemma history_audited:
  assumes "facts_ok sha facts" "history_ok facts hs" "f \<in> set facts" "fact_kept f f'" "fact_ok sha f'"
    and h: "fh_id h = next_id (map fh_id hs)" "fh_fact_id h = fa_id f"
      "fh_workspace h = fa_workspace f" "fh_from_lifecycle h = fa_lifecycle f"
      "fh_to_lifecycle h = fa_lifecycle f'"
  shows "history_ok (replace_row fa_id f f' facts) (hs @ [h])"
proof -
  have "fh_id h \<notin> fh_id ` set hs"
    using next_id_gt(1)[of _ "map fh_id hs"] h(1) by fastforce
  then have "keyed fh_id fh_id (hs @ [h])"
    using assms(2) h(1) keyed_append[of fh_id fh_id hs h] by (simp add: history_ok_def)
  moreover have "\<forall>g\<in>set (replace_row fa_id f f' facts).
      linked [] (trail (hs @ [h]) (fa_id g)) (fa_lifecycle g)"
  proof
    fix g assume "g \<in> set (replace_row fa_id f f' facts)"
    then consider (new) "g = f'" | (old) "g \<in> set facts" "fa_id g \<noteq> fa_id f"
      using in_replace_row by metis
    then show "linked [] (trail (hs @ [h]) (fa_id g)) (fa_lifecycle g)"
    proof cases
      case new
      have "linked [] (trail hs (fa_id f)) (fa_lifecycle f)"
        using assms(2,3) by (simp add: history_ok_def)
      then show ?thesis using new h assms(4) by (simp add: fact_kept_def linked_append)
    next
      case old
      then show ?thesis using assms(2) h(2) by (simp add: history_ok_def)
    qed
  qed
  moreover have "\<forall>x\<in>set (hs @ [h]). \<exists>g\<in>set (replace_row fa_id f f' facts).
      fa_id g = fh_fact_id x \<and> fa_workspace g = fh_workspace x"
  proof
    fix x assume "x \<in> set (hs @ [h])"
    then obtain g where "g \<in> set facts" "fa_id g = fh_fact_id x" "fa_workspace g = fh_workspace x"
      using assms(2,3) h(2,3) by (auto simp: history_ok_def)
    then show "\<exists>g\<in>set (replace_row fa_id f f' facts).
        fa_id g = fh_fact_id x \<and> fa_workspace g = fh_workspace x"
      using facts_replaced(3)[OF assms(1,3,4,5)] by metis
  qed
  ultimately show ?thesis by (simp add: history_ok_def)
qed

lemma embeddings_upsert:
  assumes "embeddings_ok facts bs" "f \<in> set facts" "fb_fact_id b = fa_id f"
    "length (fb_vector b) mod 4 = 0"
  shows "embeddings_ok facts (upsert_embedding b bs)"
proof (cases "list_ex (\<lambda>r. fb_fact_id r = fb_fact_id b) bs")
  case True
  have "map fb_fact_id (upsert_embedding b bs) = map fb_fact_id bs"
    using True by (auto simp: upsert_embedding_def update_rows_def)
  moreover have "\<forall>x\<in>set (upsert_embedding b bs).
      (\<exists>f\<in>set facts. fa_id f = fb_fact_id x) \<and> length (fb_vector x) mod 4 = 0"
    using assms True by (auto simp: upsert_embedding_def set_update_rows embeddings_ok_def)
  ultimately show ?thesis using assms(1) by (simp add: embeddings_ok_def)
next
  case False
  then show ?thesis using assms by (auto simp: upsert_embedding_def embeddings_ok_def list_ex_iff)
qed

lemma holds_context_append: "holds_context cs r w \<Longrightarrow> holds_context (cs @ [c]) r w"
  by (auto simp: holds_context_def)

lemma handoff_next_ok:
  "handoff_next h h' \<Longrightarrow> handoff_ok h \<Longrightarrow> handoff_ok h'"
  "handoff_next h h' \<Longrightarrow> ho_id h' = ho_id h \<and> ho_idempotency_key h' = ho_idempotency_key h
     \<and> ho_workspace h' = ho_workspace h \<and> ho_context_reference h' = ho_context_reference h"
  by (induction rule: handoff_next.induct) (simp_all add: handoff_ok_def handoff_states_def)

lemma handoffs_moved_ok:
  assumes "handoffs_ok cs hs" "list_all2 (handoff_moves w) hs hs'"
  shows "handoffs_ok cs hs'"
proof -
  have m: "\<And>h h'. handoff_moves w h h' \<Longrightarrow> ho_id h' = ho_id h \<and> ho_idempotency_key h' = ho_idempotency_key h
     \<and> ho_workspace h' = ho_workspace h \<and> ho_context_reference h' = ho_context_reference h"
    using handoff_next_ok(2) by (auto simp: handoff_moves_def)
  from assms(2) have "map (\<lambda>h. (ho_id h, ho_idempotency_key h, ho_workspace h, ho_context_reference h)) hs'
      = map (\<lambda>h. (ho_id h, ho_idempotency_key h, ho_workspace h, ho_context_reference h)) hs"
    by (induction rule: list_all2_induct) (use m in auto)
  then have eq: "map (f \<circ> (\<lambda>h. (ho_id h, ho_idempotency_key h, ho_workspace h, ho_context_reference h))) hs'
      = map (f \<circ> (\<lambda>h. (ho_id h, ho_idempotency_key h, ho_workspace h, ho_context_reference h))) hs" for f :: "int \<times> string \<times> string \<times> string \<Rightarrow> 'x"
    by (simp only: map_map[symmetric])
  have maps: "map ho_id hs' = map ho_id hs"
    "map (\<lambda>h. (ho_idempotency_key h, ho_workspace h)) hs' = map (\<lambda>h. (ho_idempotency_key h, ho_workspace h)) hs"
    "map (\<lambda>h. (ho_context_reference h, ho_workspace h)) hs' = map (\<lambda>h. (ho_context_reference h, ho_workspace h)) hs"
    using eq[of fst] eq[of "\<lambda>(a, b, c, d). (b, c)"] eq[of "\<lambda>(a, b, c, d). (d, c)"]
    by (simp_all add: comp_def)
  have pos: "\<forall>h\<in>set hs'. 0 < ho_id h"
    using assms(1) maps(1) unfolding handoffs_ok_def keyed_def by (metis (mono_tags) image_iff list.set_map)
  have "\<forall>h\<in>set hs'. handoff_ok h \<and> holds_context cs (ho_context_reference h) (ho_workspace h)"
  proof
    fix h' assume "h' \<in> set hs'"
    then obtain h where h: "h \<in> set hs" "handoff_moves w h h'"
      using assms(2) by (metis in_set_conv_nth list_all2_conv_all_nth)
    then show "handoff_ok h' \<and> holds_context cs (ho_context_reference h') (ho_workspace h')"
      using assms(1) m[OF h(2)] handoff_next_ok(1) by (auto simp: handoffs_ok_def handoff_moves_def)
  qed
  then show ?thesis using assms(1) maps pos by (simp add: handoffs_ok_def keyed_def)
qed

lemma facts_deleted_ok:
  assumes "facts_ok sha facts" "history_ok facts hs" "embeddings_ok facts bs"
    and keep: "\<And>f. f \<in> set facts \<Longrightarrow> fa_id f \<in> set gone \<longleftrightarrow> p f"
  shows "facts_ok sha (filter (\<lambda>f. \<not> p f) facts)"
    "history_ok (filter (\<lambda>f. \<not> p f) facts) (filter (\<lambda>h. fh_fact_id h \<notin> set gone) hs)"
    "embeddings_ok (filter (\<lambda>f. \<not> p f) facts) (filter (\<lambda>b. fb_fact_id b \<notin> set gone) bs)"
proof -
  show "facts_ok sha (filter (\<lambda>f. \<not> p f) facts)"
    using assms(1) by (auto simp: facts_ok_def intro: tables)
  have trail: "f \<in> set facts \<Longrightarrow> \<not> p f \<Longrightarrow>
      trail (filter (\<lambda>h. fh_fact_id h \<notin> set gone) hs) (fa_id f) = trail hs (fa_id f)" for f
    using keep by (auto simp: trail_def intro!: filter_cong)
  show "history_ok (filter (\<lambda>f. \<not> p f) facts) (filter (\<lambda>h. fh_fact_id h \<notin> set gone) hs)"
    using assms(2) keep unfolding history_ok_def
    by (intro conjI) (auto intro: tables simp: trail, metis)
  show "embeddings_ok (filter (\<lambda>f. \<not> p f) facts) (filter (\<lambda>b. fb_fact_id b \<notin> set gone) bs)"
    using assms(3) keep unfolding embeddings_ok_def
    by (intro conjI) (auto simp: distinct_map_filter, metis)
qed

lemma contexts_deleted_ok:
  assumes "contexts_ok sha cs" "lineage_ok cs ls" "events_ok cs es" "handoffs_ok cs hs"
    and gone: "gone = map cx_reference (filter p cs)"
  shows "contexts_ok sha (filter (\<lambda>c. \<not> p c) cs)"
    "lineage_ok (filter (\<lambda>c. \<not> p c) cs) (filter (\<lambda>l. cl_parent l \<notin> set gone \<and> cl_child l \<notin> set gone) ls)"
    "events_ok (filter (\<lambda>c. \<not> p c) cs) (filter (\<lambda>e. ev_context_reference e \<notin> set gone) es)"
    "handoffs_ok (filter (\<lambda>c. \<not> p c) cs) (filter (\<lambda>h. ho_context_reference h \<notin> set gone) hs)"
proof -
  have keep: "holds_context cs r w \<Longrightarrow> r \<notin> set gone \<Longrightarrow> holds_context (filter (\<lambda>c. \<not> p c) cs) r w" for r w
    by (auto simp: holds_context_def gone)
  show "contexts_ok sha (filter (\<lambda>c. \<not> p c) cs)"
    using assms(1) by (auto simp: contexts_ok_def distinct_map_filter)
  show "lineage_ok (filter (\<lambda>c. \<not> p c) cs) (filter (\<lambda>l. cl_parent l \<notin> set gone \<and> cl_child l \<notin> set gone) ls)"
    using assms(2) keep by (auto simp: lineage_ok_def distinct_map_filter)
  show "events_ok (filter (\<lambda>c. \<not> p c) cs) (filter (\<lambda>e. ev_context_reference e \<notin> set gone) es)"
    using assms(3) keep by (auto simp: events_ok_def distinct_map_filter intro: tables)
  show "handoffs_ok (filter (\<lambda>c. \<not> p c) cs) (filter (\<lambda>h. ho_context_reference h \<notin> set gone) hs)"
    using assms(4) keep by (auto simp: handoffs_ok_def distinct_map_filter intro: tables)
qed

lemma change_db_ok: "change d sha w s t \<Longrightarrow> db_ok sha s \<Longrightarrow> db_ok sha t"
proof (induction rule: change.induct)
  case (fact_added f s h)
  have "graph_ok (s\<lparr>db_facts := db_facts s @ [f], db_history := db_history s @ [h]\<rparr>)"
    by (rule graph_facts_persist[of s]) (use fact_added in \<open>auto simp: db_ok_def facts_persist_def\<close>)
  then show ?case using fact_added facts_added[of sha "db_facts s" "db_history s" f h]
    by (auto simp: db_ok_def embeddings_ok_def)
next
  case (fact_edited f s f')
  then have ok: "facts_ok sha (db_facts s)" by (simp add: db_ok_def)
  have "graph_ok (s\<lparr>db_facts := replace_row fa_id f f' (db_facts s)\<rparr>)"
    by (rule graph_facts_persist[of s])
      (use fact_edited facts_replaced(3)[OF ok fact_edited(1,3,4)] in \<open>simp_all add: db_ok_def facts_persist_def\<close>)
  then show ?case
    using fact_edited facts_replaced(1,2)[OF ok fact_edited(1,3,4)]
      history_edited[OF ok _ fact_edited(1,3,4,5)] by (simp add: db_ok_def)
next
  case (fact_audited f s f' h)
  then have ok: "facts_ok sha (db_facts s)" by (simp add: db_ok_def)
  have "graph_ok (s\<lparr>db_facts := replace_row fa_id f f' (db_facts s), db_history := db_history s @ [h]\<rparr>)"
    by (rule graph_facts_persist[of s])
      (use fact_audited facts_replaced(3)[OF ok fact_audited(1,3,4)] in \<open>simp_all add: db_ok_def facts_persist_def\<close>)
  then show ?case
    using fact_audited facts_replaced(1,2)[OF ok fact_audited(1,3,4)]
      history_audited[OF ok _ fact_audited(1,3,4,5,6,7,8,9)] by (simp add: db_ok_def)
next
  case (embedding_set f s b)
  then show ?case using embeddings_upsert[of "db_facts s" "db_embeddings s" f b]
    by (simp add: db_ok_def)
next
  case (category_added c s)
  then show ?case
    using keyed_append[of ca_id "\<lambda>c. (ca_name c, ca_workspace c)" "db_categories s" c]
    by (simp add: db_ok_def categories_ok_def)
next
  case (run_added r s)
  then show ?case using keyed_append[of ru_id run_key "db_runs s" r]
    by (simp add: db_ok_def runs_ok_def)
next
  case (run_changed r s r')
  have k: "keyed ru_id run_key (db_runs s)" using run_changed(5) by (simp add: db_ok_def runs_ok_def)
  have "runs_ok (replace_row ru_id r r' (db_runs s))"
    using run_changed keyed_replace[OF k run_changed(1), of r'] in_replace_row[of _ ru_id r r' "db_runs s"]
    by (auto simp: db_ok_def runs_ok_def run_kept_def run_key_def)
  with run_changed(5) show ?case by (simp add: db_ok_def)
next
  case (measurement_added m s)
  then show ?case using keyed_append[of me_id measurement_key "db_measurements s" m]
    by (simp add: db_ok_def measurements_ok_def)
next
  case (feedback_added f s)
  then show ?case
    using keyed_append[of fe_id "\<lambda>r. (fe_feedback_id r, fe_workspace r)" "db_feedback s" f]
    by (simp add: db_ok_def feedback_ok_def)
next
  case (context_added c s)
  then show ?case
    by (auto simp: db_ok_def contexts_ok_def lineage_ok_def events_ok_def handoffs_ok_def
        holds_context_append)
next
  case (lineage_added l s)
  then show ?case by (auto simp: db_ok_def lineage_ok_def)
next
  case (event_added e s)
  then show ?case
    using keyed_append[of ev_id "\<lambda>e. (ev_idempotency_key e, ev_workspace e)" "db_events s" e]
    by (auto simp: db_ok_def events_ok_def)
next
  case (handoff_added h s)
  then show ?case
    using keyed_append[of ho_id "\<lambda>h. (ho_idempotency_key h, ho_workspace h)" "db_handoffs s" h]
    by (auto simp: db_ok_def handoffs_ok_def)
next
  case (handoffs_moved s hs)
  then show ?case using handoffs_moved_ok[of "db_contexts s" "db_handoffs s" w hs]
    by (simp add: db_ok_def)
next
  case (facts_deleted s)
  let ?p = "\<lambda>f. fa_workspace f = w"
  have k: "keyed fa_id fact_key (db_facts s)" using facts_deleted(3) by (simp add: db_ok_def facts_ok_def)
  have "f \<in> set (db_facts s) \<Longrightarrow> fa_id f \<in> set (map fa_id (filter ?p (db_facts s))) \<longleftrightarrow> ?p f" for f
    using keyed_unique_id[OF k, of f] by auto
  note keep = this
  have ok: "facts_ok sha (db_facts s)" "history_ok (db_facts s) (db_history s)"
    "embeddings_ok (db_facts s) (db_embeddings s)" using facts_deleted(3) by (simp_all add: db_ok_def)
  from facts_deleted_ok[OF ok keep] facts_deleted(3)
    graph_facts_deleted[of s ?p]
  show ?case by (simp add: db_ok_def delete_facts_def Let_def)
next
  case (entity_added e s)
  then show ?case using graph_entity_added by (simp add: db_ok_def)
next
  case (relation_added r s)
  then show ?case using graph_relation_added by (simp add: db_ok_def)
next
  case (candidate_added c s)
  then show ?case using graph_candidate_added by (simp add: db_ok_def)
next
  case (candidate_moved c s c')
  then show ?case using graph_candidate_moved[of s c c'] by (simp add: db_ok_def)
next
  case (decision_added x s)
  then show ?case using graph_decision_added[of s x] by (simp add: db_ok_def)
next
  case (evidence_added v s)
  then show ?case using graph_evidence_added by (simp add: db_ok_def)
next
  case (candidates_deleted s)
  then show ?case using graph_candidates_deleted by (simp add: db_ok_def)
next
  case (contexts_deleted s)
  from contexts_deleted(3) contexts_deleted_ok[OF _ _ _ _ refl, of sha "db_contexts s" "db_lineage s"
      "db_events s" "db_handoffs s" "\<lambda>c. cx_workspace c = w"]
  show ?case by (simp add: db_ok_def delete_contexts_def Let_def)
qed (simp_all add: db_ok_def)

end
