(* ===== verification/StoreSteps.thy ===== *)
theory StoreSteps
  imports StoreSpec
begin

text \<open>
  Every operation of \<open>src/store.rs\<close> that writes is a sequence of the elementary changes of
  \<open>StoreSpec\<close>, in its workspace, from every database that is in order.
\<close>

interpretation changes: guarded_steps "db_ok sha" "change d sha w"
  by unfold_locales (rule change_db_ok)

lemmas changes_intros = changes.bind_lifted changes.basic changes.branch changes.loops

definition writes :: "bool \<Rightarrow> (string \<Rightarrow> string) \<Rightarrow> string \<Rightarrow> (store_db, store_error, 'a) sm \<Rightarrow> bool" where
  "writes d sha w m \<longleftrightarrow> performs (db_ok sha) (change d sha w) m"

lemma writes_intros:
  "writes d sha w (sret a)" "writes d sha w (sfail e)" "writes d sha w (slift r)"
  "(\<And>a. r = Inr a \<Longrightarrow> writes d sha w (k a)) \<Longrightarrow> writes d sha w (sbind (slift r) k)"
  "writes d sha w m \<Longrightarrow> (\<And>a. writes d sha w (f a)) \<Longrightarrow> writes d sha w (sbind m f)"
  "writes d sha w m \<Longrightarrow> writes d sha w n \<Longrightarrow> writes d sha w (if b then m else n)"
  "writes d sha w m \<Longrightarrow> (\<And>x. writes d sha w (g x)) \<Longrightarrow> writes d sha w (case v of None \<Rightarrow> m | Some x \<Rightarrow> g x)"
  "(\<And>x. writes d sha w (h x)) \<Longrightarrow> writes d sha w (smapM h xs)"
  "(\<And>x. writes d sha w (l x)) \<Longrightarrow> writes d sha w (sforM l xs)"
  unfolding writes_def by (auto intro!: changes_intros changes.sbind split: option.splits)

lemma writes_one:
  "(\<And>s. db_ok sha s \<Longrightarrow> snd (m s) = s \<or> change d sha w s (snd (m s))) \<Longrightarrow> writes d sha w m"
  unfolding writes_def by (rule changes.one_step)

lemma writes_reads:
  "writes d sha w (sql_select get p)" "writes d sha w (sql_first get p)"
  "writes d sha w (fact_by_id i v)" "writes d sha w (select_facts q)" "writes d sha w (readable n r)"
  by (rule writes_one, simp add: sql_simps fact_by_id_def select_facts_def sbind_def sret_def sfail_def
      split: option.split)+

section \<open>Facts\<close>

text \<open>What \<open>fact_by_id\<close> finds, and the effect of an update of that row.\<close>

lemma fact_found:
  assumes "db_ok sha s" "find (\<lambda>r. fa_id r = i \<and> in_scope w (fa_workspace r)) (db_facts s) = Some f"
  shows "f \<in> set (db_facts s)" "fa_id f = i" "in_scope w (fa_workspace f)" "fact_ok sha f"
    "db_facts_update (update_rows (\<lambda>r. fa_id r = i) g) s = s\<lparr>db_facts := replace_row fa_id f (g f) (db_facts s)\<rparr>"
    "db_facts_update (update_rows (\<lambda>r. fa_id r = i \<and> in_scope w (fa_workspace r)) g) s
       = s\<lparr>db_facts := replace_row fa_id f (g f) (db_facts s)\<rparr>"
    "list_ex (\<lambda>x. fa_id x = i) (replace_row fa_id f f' (db_facts s)) \<or> fa_id f' \<noteq> i"
proof -
  have k: "keyed fa_id fact_key (db_facts s)" using assms(1) by (simp add: db_ok_def facts_ok_def)
  show f: "f \<in> set (db_facts s)" "fa_id f = i" "in_scope w (fa_workspace f)"
    using assms(2) by (auto simp: find_Some_iff)
  show "fact_ok sha f" using assms(1) f(1) by (simp add: db_ok_def facts_ok_def)
  show "db_facts_update (update_rows (\<lambda>r. fa_id r = i) g) s = s\<lparr>db_facts := replace_row fa_id f (g f) (db_facts s)\<rparr>"
    using update_rows_single[OF k f(1), of "\<lambda>r. fa_id r = i" g] f(2) by simp
  show "db_facts_update (update_rows (\<lambda>r. fa_id r = i \<and> in_scope w (fa_workspace r)) g) s
       = s\<lparr>db_facts := replace_row fa_id f (g f) (db_facts s)\<rparr>"
    using update_rows_single[OF k f(1), of "\<lambda>r. fa_id r = i \<and> in_scope w (fa_workspace r)" g] f(2,3)
    by simp
  show "list_ex (\<lambda>x. fa_id x = i) (replace_row fa_id f f' (db_facts s)) \<or> fa_id f' \<noteq> i"
    using replace_row_new[OF f(1), of f' fa_id] by (auto simp: list_ex_iff)
qed

lemma map_fact_simps [simp]:
  "fa_id (map_fact f) = fa_id f" "fa_text (map_fact f) = fa_text f"
  "fa_sha256 (map_fact f) = fa_sha256 f" "fa_workspace (map_fact f) = fa_workspace f"
  "fa_lifecycle (map_fact f) = fa_lifecycle f" "fa_validity (map_fact f) = fa_validity f"
  "fa_trust (map_fact f) = fa_trust f" "fa_strong (map_fact f) = fa_strong f"
  by (simp_all add: map_fact_def fact.truncate_def)

lemma append_updates:
  "db_facts_update (\<lambda>rows. rows @ [f]) s = s\<lparr>db_facts := db_facts s @ [f]\<rparr>"
  "db_history_update (\<lambda>rows. rows @ [h]) s = s\<lparr>db_history := db_history s @ [h]\<rparr>"
  "db_categories_update (\<lambda>rows. rows @ [c]) s = s\<lparr>db_categories := db_categories s @ [c]\<rparr>"
  "db_runs_update (\<lambda>rows. rows @ [r]) s = s\<lparr>db_runs := db_runs s @ [r]\<rparr>"
  "db_measurements_update (\<lambda>rows. rows @ [m]) s = s\<lparr>db_measurements := db_measurements s @ [m]\<rparr>"
  "db_feedback_update (\<lambda>rows. rows @ [b]) s = s\<lparr>db_feedback := db_feedback s @ [b]\<rparr>"
  "db_contexts_update (\<lambda>rows. rows @ [x]) s = s\<lparr>db_contexts := db_contexts s @ [x]\<rparr>"
  "db_lineage_update (\<lambda>rows. rows @ [l]) s = s\<lparr>db_lineage := db_lineage s @ [l]\<rparr>"
  "db_events_update (\<lambda>rows. rows @ [e]) s = s\<lparr>db_events := db_events s @ [e]\<rparr>"
  "db_handoffs_update (\<lambda>rows. rows @ [o']) s = s\<lparr>db_handoffs := db_handoffs s @ [o']\<rparr>"
  "db_workspaces_update (\<lambda>rows. rows @ [v]) s = s\<lparr>db_workspaces := db_workspaces s @ [v]\<rparr>"
  by simp_all

lemma as_assignment:
  "db_facts_update f s = s\<lparr>db_facts := f (db_facts s)\<rparr>"
  "db_handoffs_update h s = s\<lparr>db_handoffs := h (db_handoffs s)\<rparr>"
  "db_workspaces_update g s = s\<lparr>db_workspaces := g (db_workspaces s)\<rparr>"
  by simp_all

lemma list_ex_False [simp]: "\<not> list_ex (\<lambda>_. False) xs"
  by (simp add: list_ex_iff)

lemmas evaluate = sql_run res_simps Let_def sbind_assoc append_updates record_fact_history_def
  fact_by_id_def no_fk_def

lemmas fact_changes = fact_kept_def fact_ok_def lifecycles_def validities_def trust_levels_def

lemma writes_remember_fact_with_metadata:
  assumes sha: "se_sha256 env = sha"
  shows "writes d sha w (remember_fact_with_metadata env text w m)"
  unfolding remember_fact_with_metadata_def Let_def
proof (intro writes_intros(4) writes_one, goal_cases)
  case (1 _ _ s)
  then have valid: "validate_fact_text text = Inr ()" "validate_fact_metadata m = Inr ()"
    and ok: "db_ok sha s" by simp_all
  let ?p = "\<lambda>r. fa_sha256 r = se_sha256 env text \<and> fa_workspace r = w"
  let ?f = "new_fact env text w m (db_facts s)"
  have clash: "list_ex (same_fact ?f) (db_facts s) \<longleftrightarrow> find ?p (db_facts s) \<noteq> None"
    unfolding list_ex_find[symmetric] by (simp add: list_ex_iff same_fact_def new_fact_def) metis
  show ?case
  proof (cases "find ?p (db_facts s)")
    case (Some f)
    then show ?thesis using clash by (simp add: evaluate fact_by_hash_def)
  next
    case None
    have p: "?p ?f" by (simp add: new_fact_def)
    have "fact_key ?f \<notin> fact_key ` set (db_facts s)"
      using None by (auto simp: find_None_iff fact_key_def new_fact_def)
    moreover have "fact_ok sha ?f"
      using valid sha
      by (simp add: new_fact_def fact_changes validate_fact_metadata_def rbind_Inr_iff in_unit_def)
    ultimately have "change d sha w s (s\<lparr>db_facts := db_facts s @ [?f],
        db_history := db_history s @ [\<lparr>fh_id = next_id (map fh_id (db_history s)),
          fh_fact_id = fa_id ?f, fh_event = ''created'', fh_from_lifecycle = [],
          fh_to_lifecycle = fa_lifecycle ?f, fh_note = ''fact inserted'', fh_workspace = w,
          fh_created_at = se_now env\<rparr>]\<rparr>)"
      by (intro fact_added) (simp_all add: new_fact_def)
    then show ?thesis using None clash p by (simp add: evaluate fact_by_hash_def find_append)
  qed
qed

lemma writes_create_category: "writes d sha w (create_category env name w)"
  unfolding create_category_def
proof (intro writes_intros(4) writes_one, goal_cases)
  case (1 _ _ s)
  let ?c = "\<lparr>ca_id = next_id (map ca_id (db_categories s)), ca_name = name, ca_workspace = w,
    ca_created_at = se_now env\<rparr>"
  let ?p = "\<lambda>r. ca_name r = name \<and> ca_workspace r = w"
  have clash: "list_ex (same_category ?c) (db_categories s) \<longleftrightarrow> find ?p (db_categories s) \<noteq> None"
    unfolding list_ex_find[symmetric] by (simp add: list_ex_iff same_category_def) metis
  show ?case
  proof (cases "find ?p (db_categories s)")
    case (Some f)
    then show ?thesis using clash by (simp add: evaluate category_by_name_def)
  next
    case None
    then have "change d sha w s (s\<lparr>db_categories := db_categories s @ [?c]\<rparr>)"
      by (intro category_added) (auto simp: find_None_iff)
    then show ?thesis using None clash by (simp add: evaluate category_by_name_def find_append)
  qed
qed

lemma writes_set_fact_validity: "writes d sha w (set_fact_validity env i v w)"
  unfolding set_fact_validity_def
proof (intro writes_intros(4) writes_one, goal_cases)
  case (1 _ _ _ s)
  then have ok: "db_ok sha s" and v: "v \<in> set validities" by simp_all
  show ?case
  proof (cases "find (\<lambda>r. fa_id r = i \<and> in_scope w (fa_workspace r)) (db_facts s)")
    case (Some f)
    note f = fact_found[OF ok Some]
    have "change d sha w s (s\<lparr>db_facts := replace_row fa_id f (f\<lparr>fa_validity := v\<rparr>) (db_facts s),
        db_history := db_history s @ [\<lparr>fh_id = next_id (map fh_id (db_history s)),
          fh_fact_id = i, fh_event = ''validity_changed'', fh_from_lifecycle = fa_lifecycle f,
          fh_to_lifecycle = fa_lifecycle f, fh_note = v, fh_workspace = fa_workspace f,
          fh_created_at = se_now env\<rparr>]\<rparr>)"
      by (rule fact_audited[of f]) (use f(1-4) v in \<open>simp_all add: fact_changes\<close>)
    then show ?thesis using Some f(7)[of "f\<lparr>fa_validity := v\<rparr>"] f(2) by (simp add: evaluate f(5))
  qed (simp add: evaluate)
qed

lemma writes_confirm_fact: "writes d sha w (confirm_fact env i note w)"
  unfolding confirm_fact_def
proof (intro writes_intros(4) writes_one, goal_cases)
  case (1 _ _ s)
  then have ok: "db_ok sha s" by simp
  show ?case
  proof (cases "find (\<lambda>r. fa_id r = i \<and> in_scope w (fa_workspace r)) (db_facts s)")
    case (Some f)
    note f = fact_found[OF ok Some]
    let ?f = "f\<lparr>fa_validity := ''valid'', fa_lifecycle := ''active'', fa_confirmed := True,
      fa_trust := ''high'', fa_updated_at := se_now env\<rparr>"
    have kept: "fact_kept f ?f" "fact_ok sha ?f" using f(4) by (simp_all add: fact_changes)
    then have "change d sha w s (s\<lparr>db_facts := replace_row fa_id f ?f (db_facts s),
        db_history := db_history s @ [\<lparr>fh_id = next_id (map fh_id (db_history s)),
          fh_fact_id = i, fh_event = ''confirmed'', fh_from_lifecycle = fa_lifecycle f,
          fh_to_lifecycle = ''active'', fh_note = note, fh_workspace = fa_workspace f,
          fh_created_at = se_now env\<rparr>]\<rparr>)"
      by (intro fact_audited) (use f(1-3) in simp_all)
    moreover have "fa_lifecycle f = ''active'' \<Longrightarrow>
        change d sha w s (s\<lparr>db_facts := replace_row fa_id f ?f (db_facts s)\<rparr>)"
      using kept by (intro fact_edited) (use f(1-3) in simp_all)
    ultimately show ?thesis using Some f(7)[of ?f] f(2) by (simp add: evaluate f(5))
  qed (simp add: evaluate)
qed

lemma writes_update_fact_lifecycle: "writes d sha w (update_fact_lifecycle env i w l)"
  unfolding update_fact_lifecycle_def
proof (intro writes_intros(4) writes_one, goal_cases)
  case (1 _ _ s)
  then have ok: "db_ok sha s" and l: "l \<in> set lifecycles" by simp_all
  show ?case
  proof (cases "find (\<lambda>r. fa_id r = i \<and> in_scope w (fa_workspace r)) (db_facts s)")
    case (Some f)
    note f = fact_found[OF ok Some]
    let ?e = "f\<lparr>fa_archived := (l = ''forgotten''), fa_updated_at := se_now env\<rparr>"
    let ?f = "f\<lparr>fa_lifecycle := l, fa_archived := (l = ''forgotten''), fa_updated_at := se_now env\<rparr>"
    have "change d sha w s (s\<lparr>db_facts := replace_row fa_id f ?e (db_facts s)\<rparr>)"
      by (intro fact_edited) (use f(1-4) in \<open>simp_all add: fact_changes\<close>)
    moreover have "change d sha w s (s\<lparr>db_facts := replace_row fa_id f ?f (db_facts s),
        db_history := db_history s @ [\<lparr>fh_id = next_id (map fh_id (db_history s)),
          fh_fact_id = i, fh_event = ''lifecycle_changed'', fh_from_lifecycle = fa_lifecycle f,
          fh_to_lifecycle = l, fh_note = ''lifecycle updated'', fh_workspace = fa_workspace f,
          fh_created_at = se_now env\<rparr>]\<rparr>)"
      by (intro fact_audited) (use f(1-4) l in \<open>simp_all add: fact_changes\<close>)
    ultimately show ?thesis using Some f(7)[of ?f] f(2) by (simp add: evaluate f(6))
  qed (simp add: evaluate)
qed

lemma writes_invalidate_fact: "writes d sha w (invalidate_fact env i j w reason)"
  unfolding invalidate_fact_def
proof (intro writes_intros(4,6,1) writes_one, goal_cases)
  case (1 _ s)
  then have ok: "db_ok sha s" by simp
  show ?case
  proof (cases "find (\<lambda>r. fa_id r = i \<and> in_scope w (fa_workspace r)) (db_facts s)")
    case (Some f)
    note f = fact_found[OF ok Some]
    let ?f = "f\<lparr>fa_validity := ''invalid'', fa_invalid_at := se_now env,
      fa_superseded_by := Some j, fa_updated_at := se_now env\<rparr>"
    show ?thesis
    proof (cases "fa_strong f")
      case True then show ?thesis using Some f(7)[of ?f] f(2) by (simp add: evaluate f(6))
    next
      case False
      have "change d sha w s (s\<lparr>db_facts := replace_row fa_id f ?f (db_facts s),
          db_history := db_history s @ [\<lparr>fh_id = next_id (map fh_id (db_history s)),
          fh_fact_id = i, fh_event = ''invalidated'', fh_from_lifecycle = fa_lifecycle f,
          fh_to_lifecycle = fa_lifecycle f, fh_note = reason, fh_workspace = fa_workspace f,
          fh_created_at = se_now env\<rparr>]\<rparr>)"
        by (intro fact_audited) (use f(1-4) False in \<open>simp_all add: fact_changes\<close>)
      then show ?thesis using Some f(7)[of ?f] f(2) by (simp add: evaluate f(6))
    qed
  qed (simp add: evaluate)
qed

text \<open>An update of a found row that leaves the lifecycle alone.\<close>

lemma edit_found:
  assumes "db_ok sha s" "find (\<lambda>r. fa_id r = i \<and> in_scope w (fa_workspace r)) (db_facts s) = Some f"
    and "fact_kept f (g f)" "fact_ok sha (g f)" "fa_lifecycle (g f) = fa_lifecycle f"
  shows "change d sha w s (db_facts_update (update_rows (\<lambda>r. fa_id r = i) g) s)"
  using fact_found(1,3)[OF assms(1,2)] assms(3-5)
  unfolding fact_found(5)[OF assms(1,2)] by (intro fact_edited)

lemma writes_set_fact_session: "writes d sha w (set_fact_session i session w)"
  unfolding set_fact_session_def
proof (intro writes_intros(4) writes_one, goal_cases)
  case (1 _ _ s)
  then have ok: "db_ok sha s" by simp
  show ?case
  proof (cases "find (\<lambda>r. fa_id r = i \<and> in_scope w (fa_workspace r)) (db_facts s)")
    case (Some f)
    then show ?thesis
      using edit_found[OF ok Some, of "\<lambda>r. r\<lparr>fa_session_id := session\<rparr>"] fact_found(4)[OF ok Some]
      by (simp add: evaluate fact_changes)
  qed (simp add: evaluate)
qed

lemma writes_set_fact_category: "writes d sha w (set_fact_category env i c w)"
  unfolding set_fact_category_def Let_def
proof (rule writes_intros(4), rule writes_intros(6), rule writes_reads, rule writes_intros(5),
    rule writes_create_category, rule writes_one, goal_cases)
  case (1 _ cat s)
  then have ok: "db_ok sha s" by simp
  show ?case
  proof (cases "find (\<lambda>r. fa_id r = i \<and> in_scope w (fa_workspace r)) (db_facts s)")
    case (Some f)
    then show ?thesis
      using edit_found[OF ok Some,
          of "\<lambda>r. r\<lparr>fa_category_id := Some (ca_id cat), fa_updated_at := se_now env\<rparr>"]
        fact_found(4)[OF ok Some]
      by (simp add: evaluate fact_changes)
  qed (simp add: evaluate)
qed

lemma writes_absorb: "se_sha256 env = sha \<Longrightarrow> writes d sha w (absorb env texts w)"
  unfolding absorb_def remember_fact_def by (intro writes_intros(8) writes_remember_fact_with_metadata)

lemma writes_sweep_freshness: "writes d sha w (sweep_freshness env age w)"
  unfolding sweep_freshness_def
  by (intro writes_intros(1,4,5,8) writes_reads writes_update_fact_lifecycle)

lemma writes_upsert_fact_embedding: "writes d sha w (upsert_fact_embedding i v model w)"
  unfolding upsert_fact_embedding_def
proof (intro writes_intros(4) writes_one, goal_cases)
  case (1 _ _ _ s)
  then have ok: "db_ok sha s" by simp
  show ?case
  proof (cases "find (\<lambda>r. fa_id r = i \<and> in_scope w (fa_workspace r)) (db_facts s)")
    case (Some f)
    note f = fact_found[OF ok Some]
    let ?b = "\<lparr>fb_fact_id = i, fb_vector = encode_vector v, fb_model = model\<rparr>"
    have "change d sha w s (s\<lparr>db_embeddings := upsert_embedding ?b (db_embeddings s)\<rparr>)"
      by (rule embedding_set[OF f(1,3)]) (simp_all add: f(2) length_encode_vector)
    moreover have "s\<lparr>db_embeddings := upsert_embedding ?b (db_embeddings s)\<rparr>
        = db_embeddings_update (upsert_embedding ?b) s" by simp
    ultimately show ?thesis using Some by (simp only: evaluate modify_state_def) simp
  qed (simp add: evaluate)
qed

definition scoped_ids :: "string \<Rightarrow> int list \<Rightarrow> store_db \<Rightarrow> bool" where
  "scoped_ids w is s \<longleftrightarrow>
     (\<forall>i\<in>set is. \<exists>f\<in>set (db_facts s). fa_id f = i \<and> in_scope w (fa_workspace f))"

lemma categorize_loop:
  assumes "db_ok sha s" "scoped_ids w is s"
  shows "(change d sha w)\<^sup>*\<^sup>* s (snd (smapM (\<lambda>i.
      sbind (sql_update db_facts_update (\<lambda>r. fa_id r = i \<and> fa_category_id r = None)
               (\<lambda>r. r\<lparr>fa_category_id := Some c\<rparr>)) (\<lambda>_. fact_by_id i w)) is s))"
proof (rule changes.local_loop[where J = "scoped_ids w is", OF _ assms], goal_cases)
  case (1 i s)
  then have ok: "db_ok sha s" and sc: "scoped_ids w is s" by simp_all
  from 1 obtain f where f: "f \<in> set (db_facts s)" "fa_id f = i" "in_scope w (fa_workspace f)"
    by (auto simp: scoped_ids_def)
  have k: "keyed fa_id fact_key (db_facts s)" using ok by (simp add: db_ok_def facts_ok_def)
  have fo: "fact_ok sha f" using ok f(1) by (simp add: db_ok_def facts_ok_def)
  let ?p = "\<lambda>r. fa_id r = i \<and> fa_category_id r = None"
  let ?g = "\<lambda>r. r\<lparr>fa_category_id := Some c\<rparr>"
  let ?t = "db_facts_update (update_rows ?p ?g) s"
  have res: "snd (sbind (sql_update db_facts_update ?p ?g) (\<lambda>_. fact_by_id i w) s) = ?t"
    by (simp add: evaluate)
  have "\<forall>r\<in>set (db_facts s). ?p r \<longrightarrow> r = f" using keyed_unique_id[OF k] f(1,2) by metis
  then have "update_rows ?p ?g (db_facts s) =
      (if fa_category_id f = None then replace_row fa_id f (?g f) (db_facts s) else db_facts s)"
  proof (cases "fa_category_id f = None")
    case True
    have "update_rows ?p ?g (db_facts s) = replace_row fa_id f (?g f) (db_facts s)"
      using update_rows_single[OF k f(1), of ?p ?g] True f(2) by simp
    with True show ?thesis by simp
  next
    case False
    with \<open>\<forall>r\<in>set (db_facts s). ?p r \<longrightarrow> r = f\<close> have "\<forall>r\<in>set (db_facts s). \<not> ?p r" by metis
    then have "update_rows ?p ?g (db_facts s) = db_facts s"
      unfolding update_rows_def by (intro map_idI) simp
    with False show ?thesis by (simp only: if_False)
  qed
  then have "?t = (if fa_category_id f = None
      then s\<lparr>db_facts := replace_row fa_id f (?g f) (db_facts s)\<rparr> else s)"
    by (subst as_assignment(1)) simp
  moreover have "change d sha w s (s\<lparr>db_facts := replace_row fa_id f (?g f) (db_facts s)\<rparr>)"
    by (rule fact_edited[OF f(1,3)]) (use fo in \<open>simp_all add: fact_changes\<close>)
  moreover have "scoped_ids w is (s\<lparr>db_facts := replace_row fa_id f (?g f) (db_facts s)\<rparr>)"
    using sc facts_replaced(3)[of sha "db_facts s" f "?g f"] ok f(1) fo
    by (fastforce simp: scoped_ids_def db_ok_def fact_changes)
  ultimately show ?case unfolding res using sc by auto
qed

lemma writes_categorize_pending: "writes d sha w (categorize_pending env c q w n)"
  unfolding categorize_pending_def
proof (rule writes_intros(4), rule writes_intros(4), rule writes_intros(4), rule writes_intros(5),
    rule writes_create_category)
  fix cat
  let ?p = "\<lambda>r. fa_category_id r = None \<and> in_scope w (fa_workspace r) \<and> fa_lifecycle r \<noteq> ''forgotten''
    \<and> (q = [] \<or> sql_instr (sql_lower (fa_text r)) (sql_lower q))"
  let ?body = "\<lambda>i. sbind (sql_update db_facts_update (\<lambda>r. fa_id r = i \<and> fa_category_id r = None)
      (\<lambda>r. r\<lparr>fa_category_id := Some (ca_id cat)\<rparr>)) (\<lambda>_. fact_by_id i w)"
  have "(change d sha w)\<^sup>*\<^sup>* s (snd (sbind (sql_select db_facts ?p) (\<lambda>rows.
      sbind (smapM ?body (map fa_id (sql_limit n rows))) (\<lambda>facts. sret (List.map_filter id facts))) s))"
    if ok: "db_ok sha s" for s
  proof -
    let ?is = "map fa_id (sql_limit n (filter ?p (db_facts s)))"
    have "set (sql_limit n (filter ?p (db_facts s))) \<subseteq> set (filter ?p (db_facts s))"
      by (auto simp: sql_limit_def dest: in_set_takeD)
    then have "scoped_ids w ?is s" by (fastforce simp: scoped_ids_def)
    from categorize_loop[OF ok this, where c = "ca_id cat"] show ?thesis
      by (cases "smapM ?body ?is s") (auto simp: evaluate sbind_def split: sum.splits)
  qed
  then show "writes d sha w (sbind (sql_select db_facts ?p) (\<lambda>rows.
      sbind (smapM ?body (map fa_id (sql_limit n rows))) (\<lambda>facts. sret (List.map_filter id facts))))"
    by (simp add: writes_def performs_def)
qed

section \<open>Runs, measurements and feedback\<close>

lemma writes_begin_run: "rs_workspace spec = w \<Longrightarrow> writes d sha w (begin_run env spec)"
proof (rule writes_one, goal_cases)
  case (1 s)
  obtain q t where op: "begin_run env spec s = (q, t)" by fastforce
  then show ?case
  proof (cases rule: runs.outcome)
    case (appended u r)
    have "run_ok r"
      using appended(2) truncate_utf8_le unfolding appended(4)
      by (auto simp: new_run_def run_ok_def validate_run_spec_def validate_run_key_def rbind_Inr_iff)
    moreover have "run_key r \<notin> run_key ` set (db_runs s)"
      using appended(6) by (auto simp: run_key_def)
    ultimately have "change d sha w s (s\<lparr>db_runs := db_runs s @ [r]\<rparr>)"
      using appended(4) 1(1) by (intro run_added) (simp_all add: new_run_def)
    then show ?thesis using op appended(5) by (simp add: append_updates)
  qed (simp add: op)
qed

lemma run_found:
  assumes "db_ok sha s" "find (\<lambda>r. ru_run_id r = i \<and> ru_workspace r = w) (db_runs s) = Some r"
  shows "r \<in> set (db_runs s)" "ru_run_id r = i" "ru_workspace r = w" "run_ok r"
    "db_runs_update (update_rows (\<lambda>r. ru_run_id r = i \<and> ru_workspace r = w) g) s
       = s\<lparr>db_runs := replace_row ru_id r (g r) (db_runs s)\<rparr>"
proof -
  have k: "keyed ru_id run_key (db_runs s)" using assms(1) by (simp add: db_ok_def runs_ok_def)
  show r: "r \<in> set (db_runs s)" "ru_run_id r = i" "ru_workspace r = w"
    using assms(2) by (auto simp: find_Some_iff)
  show "run_ok r" using assms(1) r(1) by (simp add: db_ok_def runs_ok_def)
  have "x \<in> set (db_runs s) \<Longrightarrow> ru_run_id x = i \<and> ru_workspace x = w \<Longrightarrow> ru_id x = ru_id r" for x
    using keyed_unique[OF k, of x r] r by (simp add: run_key_def)
  then show "db_runs_update (update_rows (\<lambda>r. ru_run_id r = i \<and> ru_workspace r = w) g) s
       = s\<lparr>db_runs := replace_row ru_id r (g r) (db_runs s)\<rparr>"
    using update_rows_single[OF k r(1), of "\<lambda>r. ru_run_id r = i \<and> ru_workspace r = w" g] r(2,3)
    by simp
qed

lemma writes_end_run: "writes d sha w (end_run env i summary w)"
  unfolding end_run_def
proof (intro writes_intros(4) writes_one, goal_cases)
  case (1 _ s)
  then have ok: "db_ok sha s" by simp
  show ?case
  proof (cases "find (\<lambda>r. ru_run_id r = i \<and> ru_workspace r = w) (db_runs s)")
    case (Some r)
    note r = run_found[OF ok Some]
    let ?r = "r\<lparr>ru_state := ''closed'', ru_summary := truncate_utf8 summary MAX_RUN_DIFF_BYTES,
      ru_ended_at := Some (se_now env)\<rparr>"
    have "ru_state r \<noteq> ''closed'' \<Longrightarrow> change d sha w s (s\<lparr>db_runs := replace_row ru_id r ?r (db_runs s)\<rparr>)"
      by (rule run_changed[OF r(1,3)]) (use r(4) truncate_utf8_le in \<open>auto simp: run_kept_def run_ok_def\<close>)
    then show ?thesis using Some by (simp add: evaluate run_by_key_def r(5))
  qed (simp add: evaluate run_by_key_def)
qed

lemma writes_link_run: "writes d sha w (link_run i a b c e w)"
  unfolding link_run_def
proof (intro writes_intros(4) writes_one, goal_cases)
  case (1 _ _ s)
  then have ok: "db_ok sha s" by simp
  show ?case
  proof (cases "find (\<lambda>r. ru_run_id r = i \<and> ru_workspace r = w) (db_runs s)")
    case (Some r)
    note r = run_found[OF ok Some]
    let ?r = "r\<lparr>ru_issue_ref := coalesce a (ru_issue_ref r), ru_pr_ref := coalesce b (ru_pr_ref r),
      ru_session := coalesce c (ru_session r), ru_git_ref := coalesce e (ru_git_ref r)\<rparr>"
    have "change d sha w s (s\<lparr>db_runs := replace_row ru_id r ?r (db_runs s)\<rparr>)"
      by (rule run_changed[OF r(1,3)]) (use r(4) in \<open>auto simp: run_kept_def run_ok_def\<close>)
    then show ?thesis using Some by (simp add: evaluate run_by_key_def r(5))
  qed (simp add: evaluate run_by_key_def)
qed

lemma writes_record_measurement: "ms_workspace spec = w \<Longrightarrow> writes d sha w (record_measurement env spec)"
proof (rule writes_one, goal_cases)
  case (1 s)
  obtain q t where op: "record_measurement env spec s = (q, t)" by fastforce
  then show ?case
  proof (cases rule: measurements.outcome)
    case (appended u r)
    have "is_finite (me_value r)"
      using appended(2) unfolding appended(4)
      by (auto simp: new_measurement_def validate_measurement_spec_def rbind_Inr_iff is_finite_def)
    then have "change d sha w s (s\<lparr>db_measurements := db_measurements s @ [r]\<rparr>)"
      using appended(4,6) 1(1) by (intro measurement_added) (simp_all add: new_measurement_def)
    then show ?thesis using op appended(5) by (simp add: append_updates)
  qed (simp add: op)
qed

lemma writes_record_feedback: "fs_workspace spec = w \<Longrightarrow> writes d sha w (record_feedback env spec)"
proof (rule writes_one, goal_cases)
  case (1 s)
  obtain q t where op: "record_feedback env spec s = (q, t)" by fastforce
  then show ?case
  proof (cases rule: feedbacks.outcome)
    case (appended u r)
    have "fe_signal r \<in> set feedback_signals"
      using appended(2) unfolding appended(4)
      by (auto simp: new_feedback_def validate_feedback_spec_def rbind_Inr_iff)
    then have "change d sha w s (s\<lparr>db_feedback := db_feedback s @ [r]\<rparr>)"
      using appended(4,6) 1(1) by (intro feedback_added) (auto simp: new_feedback_def)
    then show ?thesis using op appended(5) by (simp add: append_updates)
  qed (simp add: op)
qed

section \<open>Contexts, events and handoffs\<close>

lemma writes_put_context_with_metadata:
  assumes sha: "se_sha256 env = sha"
  shows "writes d sha w (put_context_with_metadata env reference name content m w)"
proof (rule writes_one, goal_cases)
  case (1 s)
  obtain q t where op: "put_context_with_metadata env reference name content m w s = (q, t)"
    by fastforce
  show ?case
  proof (rule contexts.outcome[of env "(reference, name, content, m, w)" s q t], goal_cases)
    case (3 u r)
    have "context_ok sha r"
      using 3(2) sha configured_context_max_bytes_le unfolding 3(4)
      by (fastforce simp: new_context_def context_ok_def context_admissible_def rbind_Inr_iff
          validate_context_def validate_context_workspace_def)
    moreover have "cx_reference r \<notin> cx_reference ` set (db_contexts s)" "cx_workspace r = w"
      using 3(3) unfolding 3(4)
      by (auto simp: new_context_def context_blocked_def list_ex_iff split: if_splits)
    ultimately have "change d sha w s (s\<lparr>db_contexts := db_contexts s @ [r]\<rparr>)"
      by (intro context_added)
    then show ?case using op 3(5) by (simp add: append_updates)
  qed (simp_all add: op)
qed

lemma find_holds_context:
  "find (\<lambda>r. cx_reference r = reference \<and> cx_workspace r = w) cs = Some c \<Longrightarrow> holds_context cs reference w"
  by (auto simp: find_Some_iff holds_context_def)

lemma writes_link_context: "writes d sha w (link_context p c rel w)"
  unfolding link_context_def
proof (intro writes_intros(4) writes_one, goal_cases)
  case (1 _ _ s)
  let ?l = "\<lparr>cl_parent = p, cl_child = c, cl_relation = rel, cl_workspace = w\<rparr>"
  let ?find = "\<lambda>x. find (\<lambda>r. cx_reference r = x \<and> cx_workspace r = w) (db_contexts s)"
  show ?case
  proof (cases "?find p = None \<or> ?find c = None")
    case False
    then have "holds_context (db_contexts s) p w" "holds_context (db_contexts s) c w"
      using find_holds_context by fastforce+
    then have "\<not> list_ex (same_lineage ?l) (db_lineage s) \<Longrightarrow>
        change d sha w s (s\<lparr>db_lineage := db_lineage s @ [?l]\<rparr>)"
      by (intro lineage_added) (auto simp: list_ex_iff same_lineage_def)
    moreover have "has_context s p" "has_context s c"
      using False by (auto simp: has_context_def list_ex_iff find_Some_iff)
    ultimately show ?thesis using False
      by (cases "list_ex (same_lineage ?l) (db_lineage s)")
        (auto simp: evaluate context_raw_def split: option.split)
  qed (auto simp: evaluate context_raw_def)
qed

lemma writes_reduce_context:
  assumes "se_sha256 env = sha"
  shows "writes d sha w (reduce_context env rs out name m w)"
  unfolding reduce_context_def Let_def live_context_def
  by (intro writes_intros writes_reads writes_link_context writes_put_context_with_metadata assms)

lemma live_holds_context: "live env reference w s = Inr u \<Longrightarrow> holds_context (db_contexts s) reference w"
  by (auto simp: live_def holds_context_def list_ex_iff rbind_Inr_iff split: if_splits)

lemma writes_capture_event: "es_workspace spec = w \<Longrightarrow> writes d sha w (capture_event env spec)"
proof (rule writes_one, goal_cases)
  case (1 s)
  obtain q t where op: "capture_event env spec s = (q, t)" by fastforce
  then show ?case
  proof (cases rule: events.outcome)
    case (appended u r)
    have "event_ok r" "holds_context (db_contexts s) (ev_context_reference r) w"
      using appended(2) 1(1) live_holds_context unfolding appended(4)
      by (auto simp: new_event_def event_ok_def event_admissible_def validate_event_spec_def rbind_Inr_iff)
    moreover have "(ev_context_reference r, w) \<notin> (\<lambda>e. (ev_context_reference e, ev_workspace e)) ` set (db_events s)"
      using appended(3) 1(1) unfolding appended(4)
      by (auto simp: event_blocked_def new_event_def list_ex_iff split: if_splits)
    ultimately have "change d sha w s (s\<lparr>db_events := db_events s @ [r]\<rparr>)"
      using appended(4,6) 1(1) by (intro event_added) (auto simp: new_event_def)
    then show ?thesis using op appended(5) by (simp add: append_updates)
  qed (simp add: op)
qed

lemma writes_begin_handoff: "hs_workspace spec = w \<Longrightarrow> writes d sha w (begin_handoff env spec)"
proof (rule writes_one, goal_cases)
  case (1 s)
  obtain q t where op: "begin_handoff env spec s = (q, t)" by fastforce
  then show ?case
  proof (cases rule: handoffs.outcome)
    case (appended x r)
    have "holds_context (db_contexts s) (ho_context_reference r) w"
      using appended(2) 1(1) live_holds_context unfolding appended(4)
      by (auto simp: new_handoff_def handoff_admissible_def rbind_Inr_iff)
    moreover have "handoff_ok r" unfolding appended(4)
      by (simp add: new_handoff_def handoff_ok_def handoff_states_def)
    moreover have "(ho_context_reference r, w) \<notin> (\<lambda>h. (ho_context_reference h, ho_workspace h)) ` set (db_handoffs s)"
      using appended(3) 1(1) unfolding appended(4)
      by (auto simp: handoff_blocked_def new_handoff_def list_ex_iff split: if_splits)
    ultimately have "change d sha w s (s\<lparr>db_handoffs := db_handoffs s @ [r]\<rparr>)"
      using appended(4,6) 1(1) by (intro handoff_added) (auto simp: new_handoff_def)
    then show ?thesis using op appended(5) by (simp add: append_updates)
  qed (simp add: op)
qed

lemma writes_moves:
  assumes "\<And>h. h \<in> set (db_handoffs s) \<Longrightarrow> p h \<Longrightarrow> ho_workspace h = w \<and> handoff_next h (g h)"
  shows "change d sha w s (db_handoffs_update (update_rows p g) s)"
proof -
  have "list_all2 (handoff_moves w) (db_handoffs s) (update_rows p g (db_handoffs s))"
    using assms by (auto simp: list_all2_conv_all_nth update_rows_def handoff_moves_def)
  then have "change d sha w s (s\<lparr>db_handoffs := update_rows p g (db_handoffs s)\<rparr>)" by (rule handoffs_moved)
  then show ?thesis by (subst as_assignment(2))
qed

lemma writes_refresh_expired_handoffs: "writes d sha w (refresh_expired_handoffs env w)"
  unfolding refresh_expired_handoffs_def
  by (rule writes_one, simp add: sql_simps, rule disjI2, rule writes_moves) (auto intro: expired)

lemma writes_list_handoffs: "writes d sha w (list_handoffs env w)"
  unfolding list_handoffs_def
  by (intro writes_intros writes_reads writes_refresh_expired_handoffs)

text \<open>Moving the handoff found under a key.\<close>

lemma writes_move_found:
  assumes "\<And>h. ho_state h = ''open'' \<Longrightarrow> handoff_next h (g h)"
  shows "writes d sha w (sbind (handoff_by_key key w) (\<lambda>found.
     case found of
       None \<Rightarrow> sret None
     | Some existing \<Rightarrow>
         if ho_state existing = ''open'' then
           sbind (sql_update db_handoffs_update (\<lambda>r. ho_id r = ho_id existing) g) (\<lambda>_.
           handoff_by_key key w)
         else if ho_state existing = final then sret (Some existing)
         else sfail (e existing)))"
proof (rule writes_one, goal_cases)
  case (1 s)
  have k: "keyed ho_id (\<lambda>h. (ho_idempotency_key h, ho_workspace h)) (db_handoffs s)"
    using 1 by (simp add: db_ok_def handoffs_ok_def)
  show ?case
  proof (cases "find (\<lambda>r. ho_idempotency_key r = key \<and> ho_workspace r = w) (db_handoffs s)")
    case (Some h)
    then have h: "h \<in> set (db_handoffs s)" "ho_workspace h = w" by (auto simp: find_Some_iff)
    have "ho_state h = ''open'' \<Longrightarrow>
        change d sha w s (db_handoffs_update (update_rows (\<lambda>r. ho_id r = ho_id h) g) s)"
      using keyed_unique_id[OF k _ h(1)] h(2) assms by (intro writes_moves) auto
    then show ?thesis using Some by (simp add: evaluate handoff_by_key_def)
  qed (simp add: evaluate handoff_by_key_def)
qed

lemma writes_accept_handoff: "writes d sha w (accept_handoff env key actor w)"
  unfolding accept_handoff_def
  by (rule writes_intros(4), rule writes_intros(4), rule writes_intros(5),
      rule writes_refresh_expired_handoffs, rule writes_move_found, rule accepted)

lemma writes_cancel_handoff: "writes d sha w (cancel_handoff env key actor w)"
  unfolding cancel_handoff_def
  by (rule writes_intros(4), rule writes_intros(4), rule writes_intros(5),
      rule writes_refresh_expired_handoffs, rule writes_move_found, rule cancelled)

section \<open>Workspaces\<close>

lemma writes_workspaces:
  assumes "\<not> blank w" "workspaces_ok ws"
    "filter (\<lambda>x. ws_id x \<noteq> w) ws = filter (\<lambda>x. ws_id x \<noteq> w) (db_workspaces s)"
    "g (db_workspaces s) = ws"
  shows "change d sha w s (db_workspaces_update g s)"
  using workspace_set[OF assms(1-3)] assms(4) by (subst as_assignment(3)) simp

lemma workspaces_update_ok:
  assumes "workspaces_ok ws" "st \<in> {''active'', ''archived'', ''reset''}"
  shows "workspaces_ok (update_rows (\<lambda>x. ws_id x = w) (\<lambda>x. x\<lparr>ws_status := st\<rparr>) ws)"
    "filter (\<lambda>x. ws_id x \<noteq> w) (update_rows (\<lambda>x. ws_id x = w) (\<lambda>x. x\<lparr>ws_status := st\<rparr>) ws)
       = filter (\<lambda>x. ws_id x \<noteq> w) ws"
proof -
  have "map ws_id (update_rows (\<lambda>x. ws_id x = w) (\<lambda>x. x\<lparr>ws_status := st\<rparr>) ws) = map ws_id ws"
    by (simp add: update_rows_def)
  then show "workspaces_ok (update_rows (\<lambda>x. ws_id x = w) (\<lambda>x. x\<lparr>ws_status := st\<rparr>) ws)"
    using assms by (auto simp: workspaces_ok_def set_update_rows)
  show "filter (\<lambda>x. ws_id x \<noteq> w) (update_rows (\<lambda>x. ws_id x = w) (\<lambda>x. x\<lparr>ws_status := st\<rparr>) ws)
       = filter (\<lambda>x. ws_id x \<noteq> w) ws"
    by (induction ws) (simp_all add: update_rows_def)
qed

lemma workspaces_append_ok:
  assumes "workspaces_ok ws" "\<not> blank w" "\<not> list_ex (\<lambda>x. ws_id x = w) ws"
    "st \<in> {''active'', ''archived'', ''reset''}"
  shows "workspaces_ok (ws @ [\<lparr>ws_id = w, ws_status = st\<rparr>])"
  using assms by (auto simp: workspaces_ok_def list_ex_iff)

lemma writes_create_workspace: "writes d sha w (create_workspace w)"
  unfolding create_workspace_def
proof (intro writes_intros(4) writes_one, goal_cases)
  case (1 _ s)
  then have ok: "workspaces_ok (db_workspaces s)" and w: "\<not> blank w"
    by (simp_all add: db_ok_def validate_workspace_def)
  let ?w = "\<lparr>ws_id = w, ws_status = ''active''\<rparr>"
  have clash: "list_ex (same_workspace ?w) (db_workspaces s) \<longleftrightarrow> find (\<lambda>x. ws_id x = w) (db_workspaces s) \<noteq> None"
    unfolding list_ex_find[symmetric] by (simp add: list_ex_iff same_workspace_def) metis
  show ?case
  proof (cases "find (\<lambda>x. ws_id x = w) (db_workspaces s)")
    case (Some x)
    then show ?thesis using clash by (simp add: evaluate workspace_by_id_def)
  next
    case None
    then have "change d sha w s (s\<lparr>db_workspaces := db_workspaces s @ [?w]\<rparr>)"
      using ok w by (intro workspace_set workspaces_append_ok) (auto simp: list_ex_find)
    then show ?thesis using None clash by (simp add: evaluate workspace_by_id_def find_append)
  qed
qed

lemma writes_archive_workspace: "writes d sha w (archive_workspace w)"
  unfolding archive_workspace_def
proof (intro writes_intros(4) writes_one, goal_cases)
  case (1 _ s)
  then have "workspaces_ok (db_workspaces s)" "\<not> blank w"
    by (simp_all add: db_ok_def validate_workspace_def)
  then have "change d sha w s (db_workspaces_update (update_rows (\<lambda>x. ws_id x = w)
      (\<lambda>x. x\<lparr>ws_status := ''archived''\<rparr>)) s)"
    using workspaces_update_ok[of "db_workspaces s" "''archived''" w]
    by (intro writes_workspaces[OF _ _ _ refl]) simp_all
  then show ?case by (simp add: evaluate workspace_by_id_def)
qed

lemma writes_modify: "(\<And>s. db_ok sha s \<Longrightarrow> change d sha w s (g s)) \<Longrightarrow> writes d sha w (modify_state g)"
  by (rule writes_one) (simp add: modify_state_def)

lemma writes_reset_workspace: "writes True sha w (reset_workspace w)"
proof -
  have r: "change True sha w s (db_workspaces_update (upsert_reset w) s)"
    if "db_ok sha s" "\<not> blank w" for s
  proof -
    have ok: "workspaces_ok (db_workspaces s)" using that(1) by (simp add: db_ok_def)
    have "workspaces_ok (upsert_reset w (db_workspaces s))"
      "filter (\<lambda>x. ws_id x \<noteq> w) (upsert_reset w (db_workspaces s))
         = filter (\<lambda>x. ws_id x \<noteq> w) (db_workspaces s)"
      using workspaces_update_ok[OF ok, of "''reset''" w]
        workspaces_append_ok[OF ok that(2), of "''reset''"]
      by (auto simp: upsert_reset_def)
    then show ?thesis by (rule writes_workspaces[OF that(2) _ _ refl])
  qed
  have c: "db_candidates_update (filter (\<lambda>c. rc_workspace c \<noteq> w)) s
      = s\<lparr>db_candidates := filter (\<lambda>c. rc_workspace c \<noteq> w) (db_candidates s)\<rparr>" for s by simp
  show ?thesis
    unfolding reset_workspace_def workspace_by_id_def
    by (intro writes_intros(4,5) writes_reads writes_modify r, unfold c)
      (auto simp: validate_workspace_def intro: facts_deleted candidates_deleted contexts_deleted)
qed

end
