(* ===== verification/StoreGenerate.thy ===== *)
theory StoreGenerate
  imports StoreCandidates
begin

text \<open>
  The generation of relation candidates in \<open>src/store.rs\<close>: the facts that share words with a fact,
  ranked by a lexical score, become candidates across domains. Scores are \<open>f64\<close> values of the unit
  interval, rounded as IEEE 754 rounds.
\<close>

section \<open>Rounding to \<open>f64\<close>\<close>

fun bit_length :: "nat \<Rightarrow> nat" where
  "bit_length n = (if n = 0 then 0 else Suc (bit_length (n div 2)))"

declare bit_length.simps [simp del]

definition round_half_even :: "rat \<Rightarrow> int" where
  "round_half_even x =
     (let f = floor x; d = x - of_int f in
      if d < 1 / 2 then f else if 1 / 2 < d then f + 1 else if even f then f else f + 1)"

text \<open>
  The nearest value with 53 bits, for a rational of the unit interval that is not tiny. With the
  lengths of numerator and denominator the scaled value is below \<open>2 ^ 53\<close> and at least \<open>2 ^ 51\<close>.
\<close>

definition round_f64 :: "rat \<Rightarrow> rat" where
  "round_f64 x =
     (if x \<le> 0 then 0
      else
        (let (a, b) = quotient_of x;
             k = 52 + bit_length (nat b) - bit_length (nat a);
             k = (if x * 2 ^ k < 2 ^ 52 then Suc k else k)
         in of_int (round_half_even (x * 2 ^ k)) / 2 ^ k))"

lemma round_half_even_bounds: "floor x \<le> round_half_even x" "round_half_even x \<le> floor x + 1"
  by (simp_all add: round_half_even_def Let_def)

lemma round_half_even_int [simp]: "round_half_even (of_int z) = z"
  by (simp add: round_half_even_def)

lemma round_f64_unit:
  assumes "x \<le> 1"
  shows "0 \<le> round_f64 x" "round_f64 x \<le> 1"
proof -
  have b: "0 \<le> (of_int (round_half_even (x * 2 ^ k)) :: rat) / 2 ^ k \<and>
      (of_int (round_half_even (x * 2 ^ k)) :: rat) / 2 ^ k \<le> 1" if "0 < x" for k :: nat
  proof -
    have le: "x * 2 ^ k \<le> of_int (2 ^ k)" using assms by simp
    have "round_half_even (x * 2 ^ k) \<le> 2 ^ k"
    proof (cases "x * 2 ^ k = of_int (2 ^ k)")
      case True
      then show ?thesis by (metis round_half_even_int order_refl)
    next
      case False
      then have "floor (x * 2 ^ k) < 2 ^ k" using le by (simp add: floor_less_iff)
      then show ?thesis using round_half_even_bounds(2)[of "x * 2 ^ k"] by linarith
    qed
    moreover have "0 \<le> round_half_even (x * 2 ^ k)"
      using round_half_even_bounds(1)[of "x * 2 ^ k"] that by (simp add: order_trans[rotated])
    ultimately show ?thesis
      by (simp add: divide_le_eq)
  qed
  show "0 \<le> round_f64 x" "round_f64 x \<le> 1"
    using b by (auto simp: round_f64_def Let_def split: prod.splits)
qed

section \<open>Words\<close>

definition stop_words :: "string list" where
  "stop_words = [''about'', ''after'', ''also'', ''from'', ''have'', ''into'', ''more'', ''that'',
     ''their'', ''there'', ''these'', ''this'', ''using'', ''with'', ''will'', ''would'']"

text \<open>\<open>split(|c| !c.is_alphanumeric())\<close>, empty pieces included.\<close>

fun split_chars :: "(string \<Rightarrow> bool) \<Rightarrow> string \<Rightarrow> string list \<Rightarrow> string list" where
  "split_chars sep w [] = [w]"
| "split_chars sep w (c # cs) = (if sep c then w # split_chars sep [] cs else split_chars sep (w @ c) cs)"

text \<open>The set of terms, as a list without repetitions.\<close>

definition meaningful_fact_terms :: "store_env \<Rightarrow> string \<Rightarrow> string list" where
  "meaningful_fact_terms env text =
     remdups (filter (\<lambda>t. 4 \<le> length (utf8_chars t) \<and> t \<notin> set stop_words)
       (map (se_lowercase env) (split_chars (\<lambda>c. \<not> se_alphanumeric env c) [] (utf8_chars text))))"

definition lexical_score :: "string list \<Rightarrow> string list \<Rightarrow> rat" where
  "lexical_score a b =
     (let shared = length (filter (\<lambda>t. t \<in> set b) a);
          overlap = round_f64 (of_nat shared / of_nat (min (length a) (length b)));
          jaccard = round_f64 (of_nat shared / of_nat (max 1 (length (remdups (a @ b)))))
      in max 0 (min 1 (round_f64 (overlap / 2 + jaccard / 2))))"

section \<open>Labels\<close>

definition first_reference :: "store_env \<Rightarrow> string \<Rightarrow> entity \<Rightarrow> string option" where
  "first_reference env text e =
     find (\<lambda>r. sql_instr text (se_lowercase env r))
       (filter (\<lambda>r. 3 \<le> length (utf8_chars r)) (en_canonical_name e # en_aliases e))"

text \<open>The longest reference wins, then the smaller id.\<close>

definition better_label :: "nat \<times> int \<times> string \<Rightarrow> (nat \<times> int \<times> string) option \<Rightarrow> bool" where
  "better_label x best = (case best of
     None \<Rightarrow> True
   | Some y \<Rightarrow> fst y < fst x \<or> (fst y = fst x \<and> fst (snd x) \<le> fst (snd y)))"

definition entity_label_for_fact :: "store_env \<Rightarrow> fact \<Rightarrow> entity list \<Rightarrow> string option" where
  "entity_label_for_fact env f entities =
     (let text = se_lowercase env (fa_text f);
          best = fold (\<lambda>e best. case first_reference env text e of
              None \<Rightarrow> best
            | Some r \<Rightarrow>
                (let x = (length (utf8_chars r), en_id e, en_name e)
                 in if better_label x best then Some x else best)) entities None
      in map_option (\<lambda>x. snd (snd x)) best)"

definition fallback_fact_label :: "fact \<Rightarrow> string \<Rightarrow> string" where
  "fallback_fact_label f area =
     (if \<not> blank area then str_trim area else ''fact:'' @ dec_int (fa_id f))"

definition fact_label :: "store_env \<Rightarrow> fact \<Rightarrow> string \<Rightarrow> entity list \<Rightarrow> string" where
  "fact_label env f area entities =
     (case entity_label_for_fact env f entities of Some n \<Rightarrow> n | None \<Rightarrow> fallback_fact_label f area)"

section \<open>Scanning\<close>

text \<open>\<open>trim(x)\<close> of SQLite removes spaces only.\<close>

definition sql_trim :: "string \<Rightarrow> string" where
  "sql_trim s = rev (dropWhile (\<lambda>c. c = CHR '' '') (rev (dropWhile (\<lambda>c. c = CHR '' '') s)))"

definition fact_area :: "store_db \<Rightarrow> fact_row \<Rightarrow> string" where
  "fact_area s f =
     (if sql_trim (fa_domain f) \<noteq> [] then sql_trim (fa_domain f)
      else
        (case fa_category_id f of
           None \<Rightarrow> []
         | Some i \<Rightarrow> (case find (\<lambda>c. ca_id c = i) (db_categories s) of
               None \<Rightarrow> [] | Some c \<Rightarrow> ca_name c)))"

definition first_evidence :: "store_db \<Rightarrow> string \<Rightarrow> int \<Rightarrow> int option" where
  "first_evidence s workspace fact_id =
     map_option ee_id (find (\<lambda>e. ee_fact_id e = fact_id \<and> in_scope workspace (ee_workspace e))
       (db_evidence s))"

definition candidate_fact_context ::
    "int \<Rightarrow> string \<Rightarrow> (store_db, store_error, (string \<times> int option) option) sm" where
  "candidate_fact_context fact_id workspace =
     sbind get_state (\<lambda>s.
     sbind (sql_first db_facts (\<lambda>f. fa_id f = fact_id \<and> in_scope workspace (fa_workspace f))) (\<lambda>r.
     sret (map_option (\<lambda>f. (fact_area s f, first_evidence s workspace fact_id)) r)))"

definition candidate_scan_facts ::
    "string \<Rightarrow> nat \<Rightarrow> (store_db, store_error, (fact \<times> string \<times> int option) list) sm" where
  "candidate_scan_facts workspace limit =
     sbind get_state (\<lambda>s.
     sbind (sql_select db_facts (\<lambda>f. in_scope workspace (fa_workspace f)
              \<and> fa_lifecycle f \<noteq> ''forgotten'' \<and> fa_validity f \<noteq> ''invalid'')) (\<lambda>rows.
     sret (map (\<lambda>f. (map_fact f, fact_area s f, first_evidence s workspace (fa_id f)))
       (sql_limit limit rows))))"

definition candidate_scan_entities :: "store_env \<Rightarrow> string \<Rightarrow> nat \<Rightarrow> (store_db, store_error, entity list) sm" where
  "candidate_scan_entities env workspace limit =
     sbind (sql_select db_entities (\<lambda>r. er_workspace r = workspace)) (\<lambda>rows.
     sret (map (map_entity env) (sql_limit limit rows)))"

section \<open>Generating\<close>

text \<open>The hypothesis about one target fact, unless it is too close, shares nothing or scores low.\<close>

definition rank_target ::
    "store_env \<Rightarrow> string \<Rightarrow> rat \<Rightarrow> entity list \<Rightarrow> fact \<Rightarrow> string list \<Rightarrow> string \<Rightarrow> int option \<Rightarrow>
     fact \<times> string \<times> int option \<Rightarrow> (rat \<times> candidate_spec) option" where
  "rank_target env workspace minimum entities source source_terms source_area source_evidence =
     (\<lambda>(target, area, evidence).
     let source_label = fact_label env source source_area entities;
         terms = meaningful_fact_terms env (fa_text target);
         score = lexical_score source_terms terms;
         target_label = fact_label env target area entities;
         a = canonical_name env source_label; b = canonical_name env target_label in
     if source_area \<noteq> [] \<and> area \<noteq> [] \<and> canonical_name env source_area = canonical_name env area
     then None
     else if terms = [] then None
     else if filter (\<lambda>t. t \<in> set terms) source_terms = [] then None
     else if score < minimum then None
     else if a = b then None
     else Some (score, \<lparr>ks_subject = (if a \<le> b then source_label else target_label),
       ks_predicate = ''related_to'',
       ks_object = (if a \<le> b then target_label else source_label),
       ks_relation_type = ''cross_domain'', ks_direction = ''undirected'',
       ks_score = Finite score, ks_confidence = Finite score,
       ks_source_fact_id = Some (fa_id source), ks_target_fact_id = Some (fa_id target),
       ks_source_evidence_id = source_evidence, ks_target_evidence_id = evidence,
       ks_provenance = ''auto:bounded_lexical_overlap'', ks_workspace = workspace\<rparr>))"

definition ranked_specs :: "(rat \<times> candidate_spec) list \<Rightarrow> candidate_spec list" where
  "ranked_specs xs = map snd (sort_key (\<lambda>(score, spec). (- score, the (ks_target_fact_id spec))) xs)"

definition generate_relation_candidates_with_limits ::
    "store_env \<Rightarrow> int \<Rightarrow> string \<Rightarrow> nat \<Rightarrow> nat \<Rightarrow> f64 \<Rightarrow> (store_db, store_error, relation_candidate list) sm" where
  "generate_relation_candidates_with_limits env fact_id workspace limit scan_limit minimum_score =
     sbind (slift (validate_graph_workspace workspace)) (\<lambda>_.
     sbind (slift (require (0 < fact_id) ''candidate source fact id must be positive'')) (\<lambda>_.
     sbind (slift (require (limit \<in> {1..50} \<and> scan_limit \<in> {1..1000})
              ''candidate limit or scan limit is outside the supported range'')) (\<lambda>_.
     sbind (slift (require (is_finite minimum_score \<and> in_unit minimum_score)
              ''candidate minimum score must be between 0 and 1'')) (\<lambda>_.
     sbind (fact_by_id fact_id workspace) (\<lambda>found.
     case found of
       None \<Rightarrow> sfail (SInvalid (''candidate source fact not found: '' @ dec_int fact_id))
     | Some source \<Rightarrow>
         let source_terms = meaningful_fact_terms env (fa_text source) in
         if source_terms = [] then sret []
         else
           sbind (candidate_fact_context (fa_id source) workspace) (\<lambda>ctx.
           let (source_area, source_evidence) = (case ctx of None \<Rightarrow> ([], None) | Some p \<Rightarrow> p) in
           sbind (candidate_scan_entities env workspace 1000) (\<lambda>entities.
           sbind (candidate_scan_facts workspace scan_limit) (\<lambda>targets.
           smapM (create_relation_candidate env)
             (take limit (ranked_specs (List.map_filter
                (rank_target env workspace (the (f64_rat minimum_score)) entities source
                   source_terms source_area source_evidence)
                (filter (\<lambda>t. fa_id (fst t) \<noteq> fa_id source) targets)))))))))))) "

definition generate_relation_candidates ::
    "store_env \<Rightarrow> int \<Rightarrow> string \<Rightarrow> nat \<Rightarrow> (store_db, store_error, relation_candidate list) sm" where
  "generate_relation_candidates env fact_id workspace limit =
     generate_relation_candidates_with_limits env fact_id workspace limit 200
       (Finite (3602879701896397 / 2 ^ 56))"

end
