(* ===== verification/StoreGraphSteps.thy ===== *)
theory StoreGraphSteps
  imports StoreSteps StoreGenerate
begin

text \<open>
  The operations on the graph of \<open>src/store.rs\<close> are sequences of the elementary changes of
  \<open>StoreSpec\<close>. Those that write more than once are proved with triples: what holds of the
  database before a program, and of the value and the database after it.
\<close>

section \<open>Triples\<close>

definition leads ::
    "('s \<Rightarrow> bool) \<Rightarrow> ('s \<Rightarrow> 's \<Rightarrow> bool) \<Rightarrow> ('s \<Rightarrow> bool) \<Rightarrow> ('s, 'e, 'a) sm \<Rightarrow> ('a \<Rightarrow> 's \<Rightarrow> bool) \<Rightarrow> bool" where
  "leads I R P m Q \<longleftrightarrow> (\<forall>s. I s \<and> P s \<longrightarrow>
     R\<^sup>*\<^sup>* s (snd (m s)) \<and> (\<forall>a. fst (m s) = Inr a \<longrightarrow> Q a (snd (m s))))"

context guarded_steps
begin

lemma leads_performs: "leads I R (\<lambda>_. True) m Q \<Longrightarrow> performs I R m"
  by (simp add: leads_def performs_def)

lemma leads_post: "leads I R P m Q \<Longrightarrow> (\<And>a s. Q a s \<Longrightarrow> T a s) \<Longrightarrow> leads I R P m T"
  by (auto simp: leads_def)

lemma leads_pre: "leads I R T m Q \<Longrightarrow> (\<And>s. P s \<Longrightarrow> T s) \<Longrightarrow> leads I R P m Q"
  by (auto simp: leads_def)

lemma leads_known: "(\<And>s. P s \<Longrightarrow> k) \<Longrightarrow> (k \<Longrightarrow> leads I R P m Q) \<Longrightarrow> leads I R P m Q"
  by (auto simp: leads_def)

lemma leads_sbind:
  assumes m: "leads I R P m Q" and f: "\<And>a. leads I R (Q a) (f a) T"
  shows "leads I R P (sbind m f) T"
  unfolding leads_def
proof (intro allI impI, elim conjE)
  fix s assume s: "I s" "P s"
  obtain r t where mt: "m s = (r, t)" by fastforce
  with m s have st: "R\<^sup>*\<^sup>* s t" and q: "\<And>a. r = Inr a \<Longrightarrow> Q a t" unfolding leads_def by force+
  have "I t" using keeps_I_star[OF st s(1)] .
  then have ft: "r = Inr a \<Longrightarrow> R\<^sup>*\<^sup>* t (snd (f a t)) \<and> (\<forall>b. fst (f a t) = Inr b \<longrightarrow> T b (snd (f a t)))" for a
    using f[of a] q[of a] unfolding leads_def by blast
  show "R\<^sup>*\<^sup>* s (snd (sbind m f s)) \<and> (\<forall>a. fst (sbind m f s) = Inr a \<longrightarrow> T a (snd (sbind m f s)))"
    using st mt ft by (cases r) (auto simp: sbind_def intro: rtranclp_trans)
qed

lemma leads_step:
  assumes "\<And>s. I s \<Longrightarrow> P s \<Longrightarrow> (snd (m s) = s \<or> R s (snd (m s))) \<and> (\<forall>a. fst (m s) = Inr a \<longrightarrow> Q a (snd (m s)))"
  shows "leads I R P m Q"
  unfolding leads_def using assms by (metis r_into_rtranclp rtranclp.rtrancl_refl)

lemma leads_reads:
  assumes "\<And>s. I s \<Longrightarrow> P s \<Longrightarrow> snd (m s) = s \<and> (\<forall>a. fst (m s) = Inr a \<longrightarrow> Q a s)"
  shows "leads I R P m Q"
  by (rule leads_step) (use assms in auto)

lemma leads_lift: "(\<And>a. r = Inr a \<Longrightarrow> leads I R P (f a) Q) \<Longrightarrow> leads I R P (sbind (slift r) f) Q"
  by (cases r) (simp_all add: leads_def sfail_def)

lemma leads_if:
  "(b \<Longrightarrow> leads I R P m Q) \<Longrightarrow> (\<not> b \<Longrightarrow> leads I R P n Q) \<Longrightarrow> leads I R P (if b then m else n) Q"
  by simp

lemma leads_option:
  "(v = None \<Longrightarrow> leads I R P m Q) \<Longrightarrow> (\<And>x. v = Some x \<Longrightarrow> leads I R P (f x) Q) \<Longrightarrow>
     leads I R P (case v of None \<Rightarrow> m | Some x \<Rightarrow> f x) Q"
  by (cases v) simp_all

lemma leads_basic:
  "(\<And>s. P s \<Longrightarrow> Q a s) \<Longrightarrow> leads I R P (sret a) Q"
  "leads I R P (sfail e) Q"
  by (simp_all add: leads_def sret_def sfail_def)

end

lemma writes_leads: "leads (db_ok sha) (change d sha w) (\<lambda>_. True) m Q \<Longrightarrow> writes d sha w m"
  unfolding writes_def by (rule changes.leads_performs)

abbreviation graph_leads ::
    "bool \<Rightarrow> (string \<Rightarrow> string) \<Rightarrow> string \<Rightarrow> (store_db \<Rightarrow> bool) \<Rightarrow> (store_db, store_error, 'a) sm \<Rightarrow>
     ('a \<Rightarrow> store_db \<Rightarrow> bool) \<Rightarrow> bool" where
  "graph_leads d sha w \<equiv> leads (db_ok sha) (change d sha w)"

section \<open>Entities\<close>

lemma graph_appends:
  "db_entities_update (\<lambda>rows. rows @ [e]) s = s\<lparr>db_entities := db_entities s @ [e]\<rparr>"
  "db_relations_update (\<lambda>rows. rows @ [r]) s = s\<lparr>db_relations := db_relations s @ [r]\<rparr>"
  "db_candidates_update (\<lambda>rows. rows @ [c]) s = s\<lparr>db_candidates := db_candidates s @ [c]\<rparr>"
  "db_decisions_update (\<lambda>rows. rows @ [x]) s = s\<lparr>db_decisions := db_decisions s @ [x]\<rparr>"
  "db_evidence_update (\<lambda>rows. rows @ [v]) s = s\<lparr>db_evidence := db_evidence s @ [v]\<rparr>"
  by simp_all

definition named_entity :: "string \<Rightarrow> entity \<Rightarrow> store_db \<Rightarrow> bool" where
  "named_entity w e s \<longleftrightarrow>
     (\<exists>r\<in>set (db_entities s). er_id r = en_id e \<and> er_name r = en_name e \<and> er_workspace r = w)"

lemma leads_remember_entity:
  assumes w: "ns_workspace spec = w"
    and P: "\<And>s e. P s \<Longrightarrow> P (s\<lparr>db_entities := db_entities s @ [e]\<rparr>)"
  shows "graph_leads d sha w P (remember_entity env spec)
     (\<lambda>e s. P s \<and> named_entity w e s \<and> en_name e = ns_name spec)"
  unfolding remember_entity_def
proof (intro changes.leads_lift changes.leads_step, goal_cases)
  case (1 _ s)
  let ?e = "new_entity env spec (db_entities s)"
  let ?p = "\<lambda>r. er_name r = ns_name spec \<and> er_workspace r = w"
  have clash: "list_ex (same_entity ?e) (db_entities s) \<longleftrightarrow> find ?p (db_entities s) \<noteq> None"
    unfolding list_ex_find[symmetric] by (simp add: list_ex_iff same_entity_def new_entity_def w) metis
  show ?case
  proof (cases "find ?p (db_entities s)")
    case (Some r)
    then have "r \<in> set (db_entities s)" "er_name r = ns_name spec" "er_workspace r = w"
      by (auto simp: find_Some_iff)
    then show ?thesis using Some clash 1(3)
      by (auto simp: evaluate entity_by_name_def w named_entity_def map_entity_def)
  next
    case None
    have "change d sha w s (s\<lparr>db_entities := db_entities s @ [?e]\<rparr>)"
      using None 1(1) by (intro entity_added)
        (auto simp: find_None_iff entity_key_def new_entity_def w validate_entity_spec_def rbind_Inr_iff)
    then show ?thesis using None clash P[OF 1(3), of ?e]
      by (simp add: evaluate graph_appends entity_by_name_def w find_append named_entity_def
          map_entity_def new_entity_def)
  qed
qed

lemma writes_remember_entity: "ns_workspace spec = w \<Longrightarrow> writes d sha w (remember_entity env spec)"
  by (rule writes_leads[OF leads_remember_entity]) simp_all

section \<open>References\<close>

lemma leads_entity_id_for_reference:
  "graph_leads d sha w P (entity_id_for_reference env reference w)
     (\<lambda>v s. P s \<and> (\<forall>i. v = Some i \<longrightarrow> entity_in (db_entities s) w i))"
  unfolding entity_id_for_reference_def
  by (rule changes.leads_reads)
    (auto simp: evaluate entity_by_id_def entity_by_name_def map_entity_def entity_in_def find_Some_iff
      split: option.splits)

lemma leads_fact_check:
  "graph_leads d sha w P
     (case v of None \<Rightarrow> sret () | Some i \<Rightarrow> sbind (fact_by_id i w) (\<lambda>f. if f = None then sfail (e i) else sret ()))
     (\<lambda>_ s. P s \<and> fact_ref (db_facts s) w v)"
  by (rule changes.leads_reads)
    (auto simp: evaluate fact_ref_def find_Some_iff split: option.splits if_splits)

section \<open>Relations\<close>

lemma entity_not_found_Inr: "entity_not_found side reference v = Inr i \<longleftrightarrow> v = Some i"
  by (simp add: entity_not_found_def split: option.splits)

definition has_relation :: "string \<Rightarrow> int \<Rightarrow> store_db \<Rightarrow> bool" where
  "has_relation w i s \<longleftrightarrow> (\<exists>r\<in>set (db_relations s). re_id r = i \<and> re_workspace r = w)"

lemma insert_relation:
  assumes P: "\<And>s r. P s \<Longrightarrow> P (s\<lparr>db_relations := db_relations s @ [r]\<rparr>)"
    and r: "\<And>rows. r rows = \<lparr>re_id = next_id (map re_id rows), re_subject_id = i, re_predicate = p,
      re_object_id = j, re_source_fact_id = v, re_workspace = w\<rparr>"
  shows "graph_leads d sha w
     (\<lambda>s. P s \<and> entity_in (db_entities s) w i \<and> entity_in (db_entities s) w j \<and> fact_ref (db_facts s) w v)
     (sbind (sql_insert_or_ignore db_relations db_relations_update same_relation relation_fk r) (\<lambda>_.
      sbind (relation_by_key i p j w) (\<lambda>r. readable ''relation insert'' r)))
     (\<lambda>r s. P s \<and> has_relation w (re_id r) s)"
proof (rule changes.leads_step, goal_cases)
  case (1 s)
  let ?r = "r (db_relations s)"
  let ?p = "\<lambda>r. re_subject_id r = i \<and> re_predicate r = p \<and> re_object_id r = j \<and> re_workspace r = w"
  have clash: "list_ex (same_relation ?r) (db_relations s) \<longleftrightarrow> find ?p (db_relations s) \<noteq> None"
    unfolding list_ex_find[symmetric] by (auto simp: list_ex_iff same_relation_def r)
  have fk: "relation_fk s ?r"
    using 1(2) by (auto simp: relation_fk_def has_entity_def has_fact_def entity_in_def fact_ref_def
        list_ex_iff r split: option.split)
  show ?case
  proof (cases "find ?p (db_relations s)")
    case (Some x)
    then have "x \<in> set (db_relations s)" "re_workspace x = w" by (auto simp: find_Some_iff)
    then show ?thesis using Some clash 1(2) by (auto simp: evaluate relation_by_key_def has_relation_def)
  next
    case None
    have "change d sha w s (s\<lparr>db_relations := db_relations s @ [?r]\<rparr>)"
      using None 1 by (intro relation_added) (auto simp: find_None_iff relation_key_def relation_ok_def r)
    then show ?thesis using None clash fk P[of s ?r] 1(2)
      by (simp add: evaluate graph_appends relation_by_key_def find_append has_relation_def r)
  qed
qed

lemma leads_remember_relation:
  assumes w: "ls_workspace spec = w"
    and P: "\<And>s r. P s \<Longrightarrow> P (s\<lparr>db_relations := db_relations s @ [r]\<rparr>)"
  shows "graph_leads d sha w P (remember_relation env spec)
     (\<lambda>r s. P s \<and> has_relation w (re_id r) s)"
  unfolding remember_relation_def w entity_not_found_Inr
  by (rule changes.leads_lift, rule changes.leads_sbind[OF leads_entity_id_for_reference],
      rule changes.leads_lift, rule changes.leads_sbind[OF leads_entity_id_for_reference],
      rule changes.leads_lift, rule changes.leads_sbind[OF leads_fact_check],
      rule changes.leads_pre[OF insert_relation[where P = P]])
    (auto simp: entity_not_found_Inr P)

lemma writes_remember_relation: "ls_workspace spec = w \<Longrightarrow> writes d sha w (remember_relation env spec)"
  by (rule writes_leads[OF leads_remember_relation]) simp_all

section \<open>Candidates\<close>

lemma candidate_keyed: "db_ok sha s \<Longrightarrow> keyed rc_id candidate_key (db_candidates s)"
  by (simp add: db_ok_def graph_ok_def candidates_ok_def)

text \<open>Moving the one candidate with an id.\<close>

lemma move_candidate:
  assumes "db_ok sha s" "c \<in> set (db_candidates s)" "rc_workspace c = w" "candidate_next c (g c)"
    and "\<And>i. rc_relation_id (g c) = Some i \<Longrightarrow> has_relation w i s"
  shows "change d sha w s
    (db_candidates_update (update_rows (\<lambda>r. rc_id r = rc_id c \<and> rc_workspace r = w) g) s)"
proof -
  have "db_candidates_update (update_rows (\<lambda>r. rc_id r = rc_id c \<and> rc_workspace r = w) g) s
      = s\<lparr>db_candidates := replace_row rc_id c (g c) (db_candidates s)\<rparr>"
    using update_rows_single[OF candidate_keyed[OF assms(1)] assms(2),
        of "\<lambda>r. rc_id r = rc_id c \<and> rc_workspace r = w" g] assms(3) by simp
  then show ?thesis
    using candidate_moved[OF assms(2-4)] assms(3,5) by (simp add: has_relation_def)
qed

definition has_candidate :: "string \<Rightarrow> candidate_row \<Rightarrow> store_db \<Rightarrow> bool" where
  "has_candidate w c s \<longleftrightarrow> c \<in> set (db_candidates s) \<and> rc_workspace c = w"

lemma leads_mark_conflict:
  assumes "rc_status c \<noteq> ''confirmed''" "\<And>s. P s \<Longrightarrow> has_candidate w c s"
  shows "graph_leads d sha w P (mark_relation_candidate_conflict env (rc_id c) note w) (\<lambda>_ _. True)"
proof (rule changes.leads_step, goal_cases)
  case (1 s)
  have "candidate_ok (db_facts s) (db_relations s) (db_evidence s) c"
    using 1 assms(2) by (simp add: db_ok_def graph_ok_def candidates_ok_def has_candidate_def)
  then show ?case
    using 1 assms move_candidate[of sha s c w "\<lambda>r. r\<lparr>rc_status := ''conflict'', rc_review_note := note,
        rc_updated_at := se_now env\<rparr>" d]
    by (auto simp: mark_relation_candidate_conflict_def sql_simps has_candidate_def candidate_ok_def
        intro: conflicted)
qed

lemma leads_validate_candidate_fact_and_evidence:
  "graph_leads d sha w P (validate_candidate_fact_and_evidence v e w side)
     (\<lambda>_ s. P s \<and> fact_ref (db_facts s) w v \<and> evidence_ref (db_evidence s) w e)"
  unfolding validate_candidate_fact_and_evidence_def
  by (rule changes.leads_reads)
    (auto simp: evaluate fact_ref_def evidence_ref_def find_Some_iff split: option.splits if_splits)

lemma leads_hydrate: "graph_leads d sha w P (hydrate_relation_candidate r v) (\<lambda>_. P)"
  "graph_leads d sha w P (hydrate_found x v) (\<lambda>_. P)"
  by (rule changes.leads_reads, simp add: hydrate_relation_candidate_def hydrate_found_def
      candidate_evidence_status_def fact_evidence_summary_def evaluate split: option.split sum.split,
      simp add: validate_graph_workspace_def sbind_def slift_def sql_simps sret_def split: sum.split)+

lemma leads_candidate_by:
  "graph_leads d sha w P (relation_candidate_by_id i w)
     (\<lambda>v s. P s \<and> (\<forall>c. v = Some c \<longrightarrow> has_candidate w c s \<and> rc_id c = i))"
  "graph_leads d sha w P (relation_candidate_by_key k w)
     (\<lambda>v s. P s \<and> (\<forall>c. v = Some c \<longrightarrow> has_candidate w c s)
       \<and> (v = None \<longrightarrow> (k, w) \<notin> candidate_key ` set (db_candidates s)))"
  by (rule changes.leads_reads,
      auto simp: relation_candidate_by_id_def relation_candidate_by_key_def sql_simps
        has_candidate_def find_Some_iff find_None_iff candidate_key_def)+

lemma leads_insert_candidate:
  assumes w: "ks_workspace spec = w"
  shows "graph_leads d sha w
     (\<lambda>s. (relation_candidate_key env spec, w) \<notin> candidate_key ` set (db_candidates s)
        \<and> fact_ref (db_facts s) w (ks_source_fact_id spec) \<and> fact_ref (db_facts s) w (ks_target_fact_id spec)
        \<and> evidence_ref (db_evidence s) w (ks_source_evidence_id spec)
        \<and> evidence_ref (db_evidence s) w (ks_target_evidence_id spec))
     (sql_insert db_candidates db_candidates_update same_candidate candidate_fk
        (new_candidate env spec i j)) (\<lambda>_ _. True)"
proof (rule changes.leads_step, goal_cases)
  case (1 s)
  have "change d sha w s (s\<lparr>db_candidates := db_candidates s @ [new_candidate env spec i j (db_candidates s)]\<rparr>)"
    using 1 by (intro candidate_added)
      (simp_all add: new_candidate_def w candidate_key_def candidate_ok_def candidate_statuses_def)
  then show ?case by (simp add: sql_simps Let_def graph_appends)
qed

lemma leads_True: "graph_leads d sha w P (m :: (store_db, store_error, 'a) sm) Q \<Longrightarrow> graph_leads d sha w P m (\<lambda>_ _. True)"
  by (rule changes.leads_post) simp_all

lemma writes_create_relation_candidate:
  assumes w: "ks_workspace spec = w"
  shows "writes d sha w (create_relation_candidate env spec)"
  unfolding create_relation_candidate_def w Let_def
  apply (rule writes_leads[where Q = "\<lambda>_ _. True"])
  apply (rule changes.leads_lift)
  apply (rule changes.leads_sbind[OF leads_entity_id_for_reference])
  apply (rule changes.leads_sbind[OF leads_entity_id_for_reference])
  apply (rule changes.leads_sbind[OF leads_validate_candidate_fact_and_evidence])
  apply (rule changes.leads_sbind[OF leads_validate_candidate_fact_and_evidence])
  apply (rule changes.leads_sbind[OF leads_candidate_by(2)])
  apply (rule changes.leads_option)
   apply (rule changes.leads_sbind)
    apply (rule changes.leads_pre[OF leads_insert_candidate[OF w]])
    apply simp
   apply (rule changes.leads_sbind[OF leads_candidate_by(2)])
   apply (rule changes.leads_sbind[where Q = "\<lambda>_ _. True"])
    apply (rule changes.leads_reads, simp add: sql_simps sfail_def sret_def split: option.split)
   apply (rule leads_True[OF leads_hydrate(1)])
  apply (rule changes.leads_if, rule leads_True[OF leads_hydrate(1)])
  apply (rule changes.leads_sbind[where Q = "\<lambda>_ _. True"])
   apply (rule changes.leads_if)
    apply (rule leads_mark_conflict, simp, simp)
   apply (rule changes.leads_basic, simp)
  apply (rule changes.leads_basic)
  done

lemma stays:
  "has_candidate w c s \<Longrightarrow> has_candidate w c (s\<lparr>db_entities := es\<rparr>)"
  "has_candidate w c s \<Longrightarrow> has_candidate w c (s\<lparr>db_relations := rs\<rparr>)"
  by (simp_all add: has_candidate_def)

lemma leads_relation_by_key:
  "graph_leads d sha w P (relation_by_key i p j w) (\<lambda>v s. P s \<and> (\<forall>r. v = Some r \<longrightarrow> has_relation w (re_id r) s))"
  by (rule changes.leads_reads) (auto simp: relation_by_key_def sql_simps has_relation_def find_Some_iff)

lemma leads_promoted_relation:
  assumes "rc_status c \<noteq> ''confirmed''"
  shows "graph_leads d sha w (has_candidate w c) (promoted_relation env c w)
     (\<lambda>i s. has_candidate w c s \<and> has_relation w i s)"
  unfolding promoted_relation_def
  apply (rule changes.leads_sbind[OF changes.leads_post[OF leads_remember_entity[where P = "has_candidate w c"]]])
     apply (simp add: concept_def, rule stays, assumption, erule conjunct1)
  apply (rule changes.leads_sbind[OF changes.leads_post[OF leads_remember_entity[where P = "has_candidate w c"]]])
     apply (simp add: concept_def, rule stays, assumption, erule conjunct1)
  apply (rule changes.leads_sbind[OF leads_relation_by_key])
  apply (rule changes.leads_option)
   apply (rule changes.leads_pre[where T = "has_candidate w c"])
    apply (rule changes.leads_sbind[OF leads_remember_relation[where P = "has_candidate w c"]])
      apply (simp, rule stays, assumption)
    apply (rule changes.leads_basic, assumption, erule conjunct1)
  apply (rule changes.leads_if)
   apply (rule changes.leads_sbind[OF leads_mark_conflict])
     apply (rule assms, erule conjunct1, rule changes.leads_basic)
  apply (rule changes.leads_basic, simp)
  done

lemma leads_review:
  assumes "candidate_next c (g c)"
    and "\<And>i s. db_ok sha s \<Longrightarrow> P s \<Longrightarrow> rc_relation_id (g c) = Some i \<Longrightarrow> has_relation w i s"
    and "\<And>s. P s \<Longrightarrow> has_candidate w c s"
  shows "graph_leads d sha w P
     (sql_update db_candidates_update (\<lambda>r. rc_id r = rc_id c \<and> rc_workspace r = w) g) (\<lambda>_ _. True)"
proof (rule changes.leads_step, goal_cases)
  case (1 s)
  then show ?case
    using move_candidate[of sha s c w g] assms(1,2) assms(3)[of s]
    by (auto simp: sql_simps has_candidate_def)
qed

lemma leads_reread: "graph_leads d sha w P (sbind (relation_candidate_by_id i w) (\<lambda>r. hydrate_found r w)) (\<lambda>_ _. True)"
  by (rule changes.leads_sbind[OF leads_candidate_by(1) leads_True[OF leads_hydrate(2)]])

lemma leads_confirm:
  assumes c: "rc_status c = ''candidate''"
  shows "graph_leads d sha w (has_candidate w c)
     (sbind (validate_candidate_fact_and_evidence (rc_source_fact_id c)
              (rc_source_evidence_id c) w ''source'') (\<lambda>_.
      sbind (validate_candidate_fact_and_evidence (rc_target_fact_id c)
              (rc_target_evidence_id c) w ''target'') (\<lambda>_.
      sbind (promoted_relation env c w) (\<lambda>relation_id.
      sbind (sql_update db_candidates_update (\<lambda>r. rc_id r = rc_id c \<and> rc_workspace r = w)
              (\<lambda>r. r\<lparr>rc_status := ''confirmed'', rc_relation_id := Some relation_id,
                 rc_reviewer := reviewer, rc_review_note := note,
                 rc_updated_at := se_now env\<rparr>)) (\<lambda>_.
      sbind (relation_candidate_by_id (rc_id c) w) (\<lambda>r. hydrate_found r w)))))) (\<lambda>_ _. True)"
proof (rule changes.leads_sbind[OF leads_validate_candidate_fact_and_evidence],
      rule changes.leads_sbind[OF leads_validate_candidate_fact_and_evidence],
      rule changes.leads_sbind, rule changes.leads_pre[OF leads_promoted_relation], goal_cases)
  case (3 _ _ i)
  show ?case
    by (rule changes.leads_sbind[OF leads_review[where c = c] leads_reread])
      (use c confirmed in auto)
next
  case 1
  show ?case using c by simp
next
  case (2 s)
  then show ?case by blast
qed

lemma leads_reject:
  "graph_leads d sha w (has_candidate w c)
     (sbind (if rc_status c = ''candidate'' then
               sql_update db_candidates_update (\<lambda>r. rc_id r = rc_id c \<and> rc_workspace r = w)
                 (\<lambda>r. r\<lparr>rc_status := ''rejected'', rc_reviewer := reviewer,
                    rc_review_note := note, rc_updated_at := se_now env\<rparr>)
             else if rc_status c = ''rejected'' then sret ()
             else sfail (e c)) (\<lambda>_.
      sbind (relation_candidate_by_id (rc_id c) w) (\<lambda>r. hydrate_found r w))) (\<lambda>_ _. True)"
proof (rule changes.leads_sbind[where Q = "\<lambda>_ _. True", OF _ leads_reread],
    intro changes.leads_if changes.leads_basic TrueI, goal_cases)
  case 1
  show ?case
  proof (rule leads_review[where c = c], goal_cases)
    case (2 i s)
    then have "rc_relation_id c = None"
      using 1 by (auto simp: db_ok_def graph_ok_def candidates_ok_def candidate_ok_def has_candidate_def)
    then show ?case using 2(3) by simp
  qed (simp_all add: 1 rejected)
qed

text \<open>What is done with the candidate found under an id.\<close>

lemma writes_review:
  assumes "\<And>c. ident = rc_id c \<Longrightarrow> graph_leads d sha w (has_candidate w c) (m c) (\<lambda>_ _. True)"
  shows "writes d sha w (sbind (relation_candidate_by_id ident w) (\<lambda>found.
     case found of None \<Rightarrow> sret None | Some c \<Rightarrow> m c))"
proof (rule writes_leads, rule changes.leads_sbind[OF leads_candidate_by(1)], rule changes.leads_option)
  show "graph_leads d sha w P (sret None) (\<lambda>_ _. True)" for P by (rule changes.leads_basic) simp
next
  fix v :: "candidate_row option" and c
  assume v: "v = Some c"
  show "graph_leads d sha w (\<lambda>s. True \<and> (\<forall>c. v = Some c \<longrightarrow> has_candidate w c s \<and> rc_id c = ident)) (m c) (\<lambda>_ _. True)"
    by (rule changes.leads_known[where k = "ident = rc_id c"], simp add: v,
        rule changes.leads_pre[OF assms]) (simp_all add: v)
qed

lemma writes_confirm_relation_candidate:
  "writes d sha w (confirm_relation_candidate env ident reviewer note w)"
  unfolding confirm_relation_candidate_def
  by (rule writes_intros(4), rule writes_intros(4), rule writes_review, hypsubst)
    (intro changes.leads_if leads_True[OF leads_hydrate(2)] changes.leads_basic leads_confirm, simp)

lemma writes_reject_relation_candidate:
  "writes d sha w (reject_relation_candidate env ident reviewer note w)"
  unfolding reject_relation_candidate_def
  by (rule writes_intros(4), rule writes_intros(4), rule writes_review, hypsubst, rule leads_reject)

lemma leads_reads_only:
  "graph_leads d sha w P (sql_select get p) (\<lambda>_. P)" "graph_leads d sha w P (sql_first gett q) (\<lambda>_. P)"
  "graph_leads d sha w P get_state (\<lambda>_. P)" "graph_leads d sha w P (fact_by_id i v) (\<lambda>_. P)"
  "graph_leads d sha w P (readable n r) (\<lambda>_. P)"
  by (rule changes.leads_reads, simp add: sql_simps get_state_def fact_by_id_def sbind_def sret_def
      sfail_def split: option.split)+

lemma writes_get_state: "writes d sha w get_state"
  unfolding writes_def by (rule changes.basic)

lemma rank_target_workspace:
  "rank_target env w m es f ts a v t = Some (x, spec) \<Longrightarrow> ks_workspace spec = w"
  by (auto simp: rank_target_def Let_def split: prod.splits if_splits)

lemma smapM_cong: "(\<And>x. x \<in> set xs \<Longrightarrow> f x = g x) \<Longrightarrow> smapM f xs = smapM g xs"
  by (induction xs) simp_all

lemma writes_smapM_in: "(\<And>x. x \<in> set xs \<Longrightarrow> writes d sha w (f x)) \<Longrightarrow> writes d sha w (smapM f xs)"
  by (induction xs) (simp_all add: writes_intros)

lemma writes_generate_relation_candidates_with_limits:
  "writes d sha w (generate_relation_candidates_with_limits env i w limit scan minimum)"
proof -
  have ws: "ks_workspace spec = w"
    if "spec \<in> set (take n (ranked_specs (List.map_filter (rank_target env w m es f ts a v) xs)))"
    for spec n m es f ts a v xs
    using in_set_takeD[OF that] rank_target_workspace
    by (fastforce simp: ranked_specs_def map_filter_def)
  show ?thesis
    unfolding generate_relation_candidates_with_limits_def Let_def candidate_fact_context_def
      candidate_scan_entities_def candidate_scan_facts_def
    by (intro writes_intros writes_reads writes_get_state) 
      (auto intro!: writes_intros writes_reads writes_get_state writes_smapM_in
        writes_create_relation_candidate ws split: prod.split)
qed

lemma writes_generate_relation_candidates: "writes d sha w (generate_relation_candidates env i w limit)"
  unfolding generate_relation_candidates_def by (rule writes_generate_relation_candidates_with_limits)

section \<open>Decisions and evidence\<close>

lemma snd_readable: "snd (readable n r s) = s"
  by (simp add: sql_simps sfail_def sret_def split: option.split)

lemma writes_record_decision: "ds_workspace spec = w \<Longrightarrow> writes d sha w (record_decision spec)"
  unfolding record_decision_def
proof (intro writes_intros(4) writes_one, goal_cases)
  case (1 _ s)
  let ?d = "new_decision spec (db_decisions s)"
  have "change d sha w s (s\<lparr>db_decisions := db_decisions s @ [?d]\<rparr>)"
    if "\<And>p. ds_parent_id spec = Some p \<Longrightarrow> find (\<lambda>r. de_id r = p \<and> de_workspace r = w) (db_decisions s) \<noteq> None"
    using that 1(1) by (intro decision_added) (fastforce simp: new_decision_def find_None_iff)+
  then show ?case
    using 1(1) by (cases "ds_parent_id spec")
      (auto simp: evaluate graph_appends decision_by_id_def snd_readable)
qed

lemma writes_attach_evidence: "vs_workspace spec = w \<Longrightarrow> writes d sha w (attach_evidence env spec)"
  unfolding attach_evidence_def
proof (intro writes_intros(4) writes_one, goal_cases)
  case (1 _ s)
  let ?e = "new_evidence env spec (db_evidence s)"
  have "change d sha w s (s\<lparr>db_evidence := db_evidence s @ [?e]\<rparr>)"
    if "find (\<lambda>r. fa_id r = vs_fact_id spec \<and> in_scope w (fa_workspace r)) (db_facts s) \<noteq> None"
      "find (\<lambda>r. ee_fact_id r = vs_fact_id spec \<and> ee_source_ref r = vs_source_ref spec \<and> ee_workspace r = w) (db_evidence s) = None"
  proof (rule evidence_added)
    have "\<not> blank w"
      using 1(1,2) by (auto simp: validate_evidence_spec_def validate_context_workspace_def rbind_Inr_iff)
    then show "evidence_row_ok (db_facts s) ?e"
      using that(1) 1(1) by (auto simp: new_evidence_def find_None_iff evidence_row_ok_def)
    show "evidence_key ?e \<notin> evidence_key ` set (db_evidence s)"
      using that(2) 1(1) by (auto simp: new_evidence_def find_None_iff evidence_key_def)
  qed (use 1(1) in \<open>simp_all add: new_evidence_def\<close>)
  then show ?case
    using 1(1) by (cases "case vs_fetched_at spec of None \<Rightarrow> Inr () | Some v \<Rightarrow> validate_timestamp env v ''evidence fetched_at''")
      (auto simp: evaluate graph_appends evidence_by_key_def snd_readable split: option.split)
qed

end
