(* ===== verification/StoreScope.thy ===== *)
theory StoreScope
  imports StoreSpec
begin

text \<open>
  What the changes of \<open>StoreSpec\<close> leave alone: the rows of other workspaces, and, unless the
  workspace is reset, everything that was recorded. Both are proved once for the changes and
  hold for every operation that is a sequence of them.
\<close>

section \<open>The rows of a workspace\<close>

text \<open>
  The part of a database that belongs to a workspace, over all tables; an embedding belongs to
  the workspace of its fact.
\<close>

definition workspace_rows :: "string \<Rightarrow> store_db \<Rightarrow> store_db" where
  "workspace_rows w s = empty_db\<lparr>
     db_facts := filter (\<lambda>f. fa_workspace f = w) (db_facts s),
     db_history := filter (\<lambda>h. fh_workspace h = w) (db_history s),
     db_embeddings := filter (\<lambda>b. list_ex (\<lambda>f. fa_id f = fb_fact_id b \<and> fa_workspace f = w)
       (db_facts s)) (db_embeddings s),
     db_categories := filter (\<lambda>c. ca_workspace c = w) (db_categories s),
     db_runs := filter (\<lambda>r. ru_workspace r = w) (db_runs s),
     db_measurements := filter (\<lambda>m. me_workspace m = w) (db_measurements s),
     db_feedback := filter (\<lambda>f. fe_workspace f = w) (db_feedback s),
     db_contexts := filter (\<lambda>c. cx_workspace c = w) (db_contexts s),
     db_lineage := filter (\<lambda>l. cl_workspace l = w) (db_lineage s),
     db_events := filter (\<lambda>e. ev_workspace e = w) (db_events s),
     db_handoffs := filter (\<lambda>h. ho_workspace h = w) (db_handoffs s),
     db_workspaces := filter (\<lambda>x. ws_id x = w) (db_workspaces s),
     db_entities := filter (\<lambda>e. er_workspace e = w) (db_entities s),
     db_relations := filter (\<lambda>r. re_workspace r = w) (db_relations s),
     db_candidates := filter (\<lambda>c. rc_workspace c = w) (db_candidates s),
     db_decisions := filter (\<lambda>x. de_workspace x = w) (db_decisions s),
     db_evidence := filter (\<lambda>e. ee_workspace e = w) (db_evidence s)\<rparr>"

lemma filter_map_same:
  "(\<And>x. x \<in> set xs \<Longrightarrow> q (f x) = q x \<and> (q x \<longrightarrow> f x = x)) \<Longrightarrow> filter q (map f xs) = filter q xs"
  by (induction xs) auto

lemma filter_replace_row:
  assumes "\<forall>x\<in>set rows. rid x = rid r \<longrightarrow> \<not> p x" "\<not> p r'"
  shows "filter p (replace_row rid r r' rows) = filter p rows"
  using assms by (induction rows) (auto simp: replace_row_def)

lemma filter_kept: "(\<And>x. x \<in> set xs \<Longrightarrow> q x \<Longrightarrow> p x) \<Longrightarrow> filter q (filter p xs) = filter q xs"
  by (induction xs) auto

lemma filter_update_rows:
  "(\<And>x. p x \<Longrightarrow> \<not> q x \<and> \<not> q (g x)) \<Longrightarrow> filter q (update_rows p g rows) = filter q rows"
  by (induction rows) (auto simp: update_rows_def)

lemma list_all2_filter_same:
  assumes "list_all2 R xs ys" "\<And>x y. R x y \<Longrightarrow> p x \<or> p y \<Longrightarrow> x = y"
  shows "filter p ys = filter p xs"
  using assms by (induction rule: list_all2_induct) auto

lemma handoff_moves_workspace: "handoff_moves w h h' \<Longrightarrow> ho_workspace h' = ho_workspace h"
  by (auto simp: handoff_moves_def elim: handoff_next.cases)

text \<open>Replacing a fact of another workspace, or one of none, does not show in a workspace.\<close>

lemma replaced_elsewhere:
  assumes k: "keyed fa_id fact_key facts" and f: "f \<in> set facts" "in_scope w (fa_workspace f)"
    and kept: "fact_kept f f'" and v: "v \<noteq> w" "v \<noteq> []"
  shows "filter (\<lambda>x. fa_workspace x = v) (replace_row fa_id f f' facts) = filter (\<lambda>x. fa_workspace x = v) facts"
    "list_ex (\<lambda>x. fa_id x = i \<and> fa_workspace x = v) (replace_row fa_id f f' facts)
       = list_ex (\<lambda>x. fa_id x = i \<and> fa_workspace x = v) facts"
proof -
  have n: "\<forall>x\<in>set facts. fa_id x = fa_id f \<longrightarrow> fa_workspace x \<noteq> v"
    using f v keyed_unique_id[OF k] by (metis in_scope_def)
  then show "filter (\<lambda>x. fa_workspace x = v) (replace_row fa_id f f' facts) = filter (\<lambda>x. fa_workspace x = v) facts"
    using f kept by (simp add: filter_replace_row fact_kept_def)
  show "list_ex (\<lambda>x. fa_id x = i \<and> fa_workspace x = v) (replace_row fa_id f f' facts)
       = list_ex (\<lambda>x. fa_id x = i \<and> fa_workspace x = v) facts"
    using n f kept in_replace_row[of _ fa_id f f' facts] replace_row_keeps[of _ facts fa_id f f']
    by (auto simp: list_ex_iff fact_kept_def) metis+
qed

lemma facts_keyed: "db_ok sha s \<Longrightarrow> keyed fa_id fact_key (db_facts s)"
  "db_ok sha s \<Longrightarrow> keyed ru_id run_key (db_runs s)"
  by (simp_all add: db_ok_def facts_ok_def runs_ok_def)

lemma graph_keyed:
  "db_ok sha s \<Longrightarrow> keyed rc_id candidate_key (db_candidates s)"
  "db_ok sha s \<Longrightarrow> keyed ee_id evidence_key (db_evidence s)"
  by (simp_all add: db_ok_def graph_ok_def candidates_ok_def evidence_ok_def)

text \<open>
  Deleting the facts of a workspace does not reach into the graph of another: what a row of
  another workspace refers to is visible there, and a fact of the deleted workspace is not.
\<close>

lemma graph_deleted_elsewhere:
  assumes ok: "db_ok sha s" and v: "v \<noteq> w" "v \<noteq> []" "w \<noteq> []"
  defines "t \<equiv> delete_facts (\<lambda>f. fa_workspace f = w) s"
  shows "filter (\<lambda>r. re_workspace r = v) (db_relations t) = filter (\<lambda>r. re_workspace r = v) (db_relations s)"
    "filter (\<lambda>c. rc_workspace c = v) (db_candidates t) = filter (\<lambda>c. rc_workspace c = v) (db_candidates s)"
    "filter (\<lambda>e. ee_workspace e = v) (db_evidence t) = filter (\<lambda>e. ee_workspace e = v) (db_evidence s)"
proof -
  define gone where "gone = map fa_id (filter (\<lambda>f. fa_workspace f = w) (db_facts s))"
  define gone_vs where "gone_vs = map ee_id (filter (\<lambda>e. ee_fact_id e \<in> set gone) (db_evidence s))"
  note t = t_def[unfolded delete_facts_def Let_def, folded gone_def, folded gone_vs_def]
  have u: "f \<in> set (db_facts s) \<Longrightarrow> fa_id f \<in> set gone \<Longrightarrow> fa_workspace f = w" for f
    using keyed_unique_id[OF facts_keyed(1)[OF ok]] unfolding gone_def by fastforce
  have seen: "i \<notin> set gone" if "f \<in> set (db_facts s)" "fa_id f = i" "in_scope v (fa_workspace f)" for f i
    using u[of f] that v by (auto simp: in_scope_def)
  have e: "ee_fact_id e \<notin> set gone" if "e \<in> set (db_evidence s)" "in_scope v (ee_workspace e)" for e
  proof -
    have "evidence_row_ok (db_facts s) e"
      using ok that(1) by (simp add: db_ok_def graph_ok_def evidence_ok_def)
    then obtain f where "f \<in> set (db_facts s)" "fa_id f = ee_fact_id e"
      "in_scope (ee_workspace e) (fa_workspace f)" "\<not> blank (ee_workspace e)"
      unfolding evidence_row_ok_def by blast
    then show ?thesis using seen[of f] that(2) by (auto simp: in_scope_def)
  qed
  have ue: "e \<in> set (db_evidence s) \<Longrightarrow> ee_id e \<in> set gone_vs \<Longrightarrow> ee_fact_id e \<in> set gone" for e
    using keyed_unique_id[OF graph_keyed(2)[OF ok]] unfolding gone_vs_def by fastforce
  have f: "unset gone x = x" if "fact_ref (db_facts s) v x" for x
    using that seen unfolding fact_ref_def unset_def by (cases x) fastforce+
  have g: "unset gone_vs x = x" if "evidence_ref (db_evidence s) v x" for x
    using that e ue unfolding evidence_ref_def unset_def by (cases x) fastforce+
  show "filter (\<lambda>r. re_workspace r = v) (db_relations t) = filter (\<lambda>r. re_workspace r = v) (db_relations s)"
    unfolding t using ok f
    by (simp, intro filter_map_same) (auto simp: db_ok_def graph_ok_def relations_ok_def relation_ok_def)
  show "filter (\<lambda>c. rc_workspace c = v) (db_candidates t) = filter (\<lambda>c. rc_workspace c = v) (db_candidates s)"
  proof -
    have "candidate_ok (db_facts s) (db_relations s) (db_evidence s) c" if "c \<in> set (db_candidates s)" for c
      using ok that by (simp add: db_ok_def graph_ok_def candidates_ok_def)
    then have "rc_workspace c = v \<Longrightarrow> unset gone (rc_source_fact_id c) = rc_source_fact_id c
        \<and> unset gone (rc_target_fact_id c) = rc_target_fact_id c
        \<and> unset gone_vs (rc_source_evidence_id c) = rc_source_evidence_id c
        \<and> unset gone_vs (rc_target_evidence_id c) = rc_target_evidence_id c"
      if "c \<in> set (db_candidates s)" for c using that f g unfolding candidate_ok_def by blast
    then show ?thesis unfolding t by (simp, intro filter_map_same) simp
  qed
  show "filter (\<lambda>e. ee_workspace e = v) (db_evidence t) = filter (\<lambda>e. ee_workspace e = v) (db_evidence s)"
    unfolding t by (simp del: filter_filter, rule filter_kept, rule e) (simp_all add: in_scope_def)
qed

lemma change_isolated:
  assumes "change d sha w s t" "db_ok sha s" "v \<noteq> w" "v \<noteq> []"
  shows "workspace_rows v t = workspace_rows v s"
  using assms
proof (induction rule: change.induct)
  case (fact_added f s h)
  have "\<forall>b\<in>set (db_embeddings s). fb_fact_id b \<noteq> fa_id f"
    using fact_added(1,10) next_id_gt(1)[of _ "map fa_id (db_facts s)"]
    by (fastforce simp: db_ok_def embeddings_ok_def)
  then show ?case using fact_added by (auto simp: workspace_rows_def intro!: filter_cong)
next
  case (fact_edited f s f')
  then show ?case using replaced_elsewhere[OF facts_keyed(1)[OF fact_edited(6)] fact_edited(1-3)]
    by (simp add: workspace_rows_def)
next
  case (fact_audited f s f' h)
  then have "fh_workspace h \<noteq> v" by (auto simp: in_scope_def)
  then show ?case using fact_audited(11,12)
      replaced_elsewhere[OF facts_keyed(1)[OF fact_audited(10)] fact_audited(1-3)]
    by (simp add: workspace_rows_def)
next
  case (embedding_set f s b)
  have "\<not> list_ex (\<lambda>x. fa_id x = fb_fact_id b \<and> fa_workspace x = v) (db_facts s)"
    using embedding_set keyed_unique_id[OF facts_keyed(1)[OF embedding_set(5)] embedding_set(1)]
    by (auto simp: list_ex_iff in_scope_def) metis+
  then have "filter (\<lambda>b. list_ex (\<lambda>f. fa_id f = fb_fact_id b \<and> fa_workspace f = v) (db_facts s))
        (upsert_embedding b bs)
      = filter (\<lambda>b. list_ex (\<lambda>f. fa_id f = fb_fact_id b \<and> fa_workspace f = v) (db_facts s)) bs" for bs
    unfolding upsert_embedding_def by (cases "list_ex (\<lambda>r. fb_fact_id r = fb_fact_id b) bs")
      (simp_all, rule filter_update_rows, simp)
  then show ?case by (simp add: workspace_rows_def)
next
  case (run_changed r s r')
  then have "\<forall>x\<in>set (db_runs s). ru_id x = ru_id r \<longrightarrow> ru_workspace x \<noteq> v"
    using keyed_unique_id[OF facts_keyed(2)[OF run_changed(5)] run_changed(1)] by metis
  then show ?case using run_changed(2,3,6) by (simp add: workspace_rows_def filter_replace_row run_kept_def)
next
  case (handoffs_moved s hs)
  have "filter (\<lambda>h. ho_workspace h = v) hs = filter (\<lambda>h. ho_workspace h = v) (db_handoffs s)"
    using handoffs_moved(1)
  proof (rule list_all2_filter_same)
    fix h h' assume m: "handoff_moves w h h'" and v: "ho_workspace h = v \<or> ho_workspace h' = v"
    then have "ho_workspace h = v" using handoff_moves_workspace by metis
    with m handoffs_moved(3) show "h = h'" by (auto simp: handoff_moves_def)
  qed
  then show ?case by (simp add: workspace_rows_def)
next
  case (workspace_set ws s)
  have "filter (\<lambda>x. ws_id x = v) (filter (\<lambda>x. ws_id x \<noteq> w) us) = filter (\<lambda>x. ws_id x = v) us" for us
    by (rule filter_kept) (use workspace_set(5) in auto)
  then have "filter (\<lambda>x. ws_id x = v) ws = filter (\<lambda>x. ws_id x = v) (db_workspaces s)"
    using workspace_set(3) by metis
  then show ?case by (simp add: workspace_rows_def)
next
  case (candidate_moved c s c')
  have "\<forall>x\<in>set (db_candidates s). rc_id x = rc_id c \<longrightarrow> rc_workspace x \<noteq> v"
    using keyed_unique_id[OF graph_keyed(1)[OF candidate_moved(5)] candidate_moved(1)] candidate_moved(2,6)
    by metis
  then show ?case using candidate_next_claim[OF candidate_moved(3)] candidate_moved(2,6)
    by (simp add: workspace_rows_def filter_replace_row same_claim_def)
next
  case (facts_deleted s)
  note ok = facts_deleted(3)[unfolded db_ok_def history_ok_def]
  let ?gone = "fa_id ` {f \<in> set (db_facts s). fa_workspace f = w}"
  have u: "f \<in> set (db_facts s) \<Longrightarrow> g \<in> set (db_facts s) \<Longrightarrow> fa_id f = fa_id g \<Longrightarrow> f = g" for f g
    using keyed_unique_id[OF facts_keyed(1)[OF facts_deleted(3)]] by blast
  have h: "h \<in> set (db_history s) \<Longrightarrow> fh_workspace h = v \<Longrightarrow> fh_fact_id h \<notin> ?gone" for h
    using ok u facts_deleted(4) by fastforce
  have f: "f \<in> set (db_facts s) \<Longrightarrow> fa_workspace f = v \<Longrightarrow> fa_id f \<notin> ?gone" for f
    using u facts_deleted(4) by fastforce
  have e: "list_ex (\<lambda>f. fa_id f = i \<and> fa_workspace f = v) (filter (\<lambda>f. fa_workspace f \<noteq> w) (db_facts s))
      = list_ex (\<lambda>f. fa_id f = i \<and> fa_workspace f = v) (db_facts s)" for i
    using facts_deleted(4) by (auto simp: list_ex_iff)
  have b: "list_ex (\<lambda>f. fa_id f = i \<and> fa_workspace f = v) (db_facts s) \<Longrightarrow> i \<notin> ?gone" for i
    using f by (auto simp: list_ex_iff)
  have "w \<noteq> []" using facts_deleted(2) by auto
  note graph = graph_deleted_elsewhere[OF facts_deleted(3,4,5) this]
  have kept: "db_entities (delete_facts p s) = db_entities s" "db_decisions (delete_facts p s) = db_decisions s" for p
    by (simp_all add: delete_facts_def Let_def)
  show ?case
    unfolding workspace_rows_def graph kept unfolding delete_facts_def Let_def
    by (simp add: e filter_kept[of _ _ "\<lambda>h. fh_fact_id h \<notin> ?gone", OF h]
        filter_kept[of _ _ "\<lambda>f. fb_fact_id f \<notin> ?gone", OF b]
        filter_kept[of "db_facts s" "\<lambda>f. fa_workspace f = v" "\<lambda>f. fa_workspace f \<noteq> w"] facts_deleted(4)
        del: filter_filter)
next
  case (candidates_deleted s)
  have "filter (\<lambda>c. rc_workspace c = v) (filter (\<lambda>c. rc_workspace c \<noteq> w) (db_candidates s))
      = filter (\<lambda>c. rc_workspace c = v) (db_candidates s)"
    by (rule filter_kept) (use candidates_deleted(4) in simp)
  then show ?case by (simp add: workspace_rows_def del: filter_filter)
next
  case (contexts_deleted s)
  let ?gone = "cx_reference ` {c \<in> set (db_contexts s). cx_workspace c = w}"
  have g: "holds_context (db_contexts s) r v \<Longrightarrow> r \<notin> ?gone" for r
  proof
    assume "holds_context (db_contexts s) r v" "r \<in> ?gone"
    then obtain c g where "c \<in> set (db_contexts s)" "g \<in> set (db_contexts s)" "cx_workspace c = v"
      "cx_workspace g = w" "cx_reference c = cx_reference g" by (auto simp: holds_context_def)
    moreover have "inj_on cx_reference (set (db_contexts s))"
      using contexts_deleted(3) by (simp add: db_ok_def contexts_ok_def distinct_map)
    ultimately show False using contexts_deleted(4) by (metis inj_onD)
  qed
  have held: "l \<in> set (db_lineage s) \<Longrightarrow> holds_context (db_contexts s) (cl_parent l) (cl_workspace l)"
    "l \<in> set (db_lineage s) \<Longrightarrow> holds_context (db_contexts s) (cl_child l) (cl_workspace l)"
    "e \<in> set (db_events s) \<Longrightarrow> holds_context (db_contexts s) (ev_context_reference e) (ev_workspace e)"
    "h \<in> set (db_handoffs s) \<Longrightarrow> holds_context (db_contexts s) (ho_context_reference h) (ho_workspace h)" for l e h
    using contexts_deleted(3) by (simp_all add: db_ok_def lineage_ok_def events_ok_def handoffs_ok_def)
  have "filter (\<lambda>l. cl_workspace l = v) (filter (\<lambda>l. cl_parent l \<notin> ?gone \<and> cl_child l \<notin> ?gone) (db_lineage s))
      = filter (\<lambda>l. cl_workspace l = v) (db_lineage s)"
    "filter (\<lambda>e. ev_workspace e = v) (filter (\<lambda>e. ev_context_reference e \<notin> ?gone) (db_events s))
      = filter (\<lambda>e. ev_workspace e = v) (db_events s)"
    "filter (\<lambda>h. ho_workspace h = v) (filter (\<lambda>h. ho_context_reference h \<notin> ?gone) (db_handoffs s))
      = filter (\<lambda>h. ho_workspace h = v) (db_handoffs s)"
    "filter (\<lambda>c. cx_workspace c = v) (filter (\<lambda>c. cx_workspace c \<noteq> w) (db_contexts s))
      = filter (\<lambda>c. cx_workspace c = v) (db_contexts s)"
    by (rule filter_kept; use held g contexts_deleted(4) in blast)+
  then show ?case
    by (simp add: workspace_rows_def delete_contexts_def Let_def del: filter_filter)
qed (auto simp: workspace_rows_def)

section \<open>What is recorded stays\<close>

text \<open>
  A table evolves when its rows stay in their places, changed at most as \<open>R\<close> allows, and new rows
  come after them.
\<close>

definition evolves :: "('r \<Rightarrow> 'r \<Rightarrow> bool) \<Rightarrow> 'r list \<Rightarrow> 'r list \<Rightarrow> bool" where
  "evolves R xs ys \<longleftrightarrow> (\<exists>zs new. ys = zs @ new \<and> list_all2 R xs zs)"

definition handoff_moved :: "handoff \<Rightarrow> handoff \<Rightarrow> bool" where
  "handoff_moved h h' \<longleftrightarrow> h' = h \<or> handoff_next h h'"

text \<open>A candidate keeps its claim, and one that is confirmed stays as it is.\<close>

definition candidate_kept :: "candidate_row \<Rightarrow> candidate_row \<Rightarrow> bool" where
  "candidate_kept c d \<longleftrightarrow> same_claim c d \<and> (rc_status c = ''confirmed'' \<longrightarrow> d = c)"

definition store_evolves :: "store_db \<Rightarrow> store_db \<Rightarrow> bool" where
  "store_evolves s t \<longleftrightarrow> evolves fact_kept (db_facts s) (db_facts t)
     \<and> evolves (=) (db_history s) (db_history t) \<and> evolves (=) (db_categories s) (db_categories t)
     \<and> evolves run_kept (db_runs s) (db_runs t)
     \<and> evolves (=) (db_measurements s) (db_measurements t)
     \<and> evolves (=) (db_feedback s) (db_feedback t) \<and> evolves (=) (db_contexts s) (db_contexts t)
     \<and> evolves (=) (db_lineage s) (db_lineage t) \<and> evolves (=) (db_events s) (db_events t)
     \<and> evolves handoff_moved (db_handoffs s) (db_handoffs t)
     \<and> evolves (=) (db_entities s) (db_entities t) \<and> evolves (=) (db_relations s) (db_relations t)
     \<and> evolves candidate_kept (db_candidates s) (db_candidates t)
     \<and> evolves (=) (db_decisions s) (db_decisions t) \<and> evolves (=) (db_evidence s) (db_evidence t)"

lemma evolves_refl: "(\<And>x. R x x) \<Longrightarrow> evolves R xs xs"
  unfolding evolves_def by (intro exI[of _ xs] exI[of _ "[]"]) (simp add: list_all2_refl)

lemma evolves_append: "(\<And>x. R x x) \<Longrightarrow> evolves R xs (xs @ ys)"
  unfolding evolves_def by (intro exI[of _ xs] exI[of _ ys]) (simp add: list_all2_refl)

lemma evolves_moved: "list_all2 R xs ys \<Longrightarrow> evolves R xs ys"
  by (auto simp: evolves_def)

lemma evolves_trans:
  assumes "evolves R xs ys" "evolves R ys zs" "\<And>x y z. R x y \<Longrightarrow> R y z \<Longrightarrow> R x z"
  shows "evolves R xs zs"
proof -
  from assms(1) obtain us new where u: "ys = us @ new" "list_all2 R xs us" by (auto simp: evolves_def)
  from assms(2) obtain vs more where v: "zs = vs @ more" "list_all2 R ys vs" by (auto simp: evolves_def)
  from v(2) u(1) obtain vs1 vs2 where w: "vs = vs1 @ vs2" "list_all2 R us vs1"
    by (auto simp: list_all2_append1)
  have "list_all2 R xs vs1" using u(2) w(2) by (rule list_all2_trans[rotated]) (use assms(3) in blast)
  with v(1) w(1) show ?thesis by (auto simp: evolves_def)
qed

lemma evolves_member:
  assumes "evolves R xs ys" "x \<in> set xs"
  obtains y where "y \<in> set ys" "R x y"
proof -
  obtain zs new where "ys = zs @ new" "list_all2 R xs zs" using assms(1) by (auto simp: evolves_def)
  then show ?thesis using assms(2) that by (metis Un_iff in_set_conv_nth list_all2_conv_all_nth set_append)
qed

lemma evolves_eq: "evolves (=) xs ys \<longleftrightarrow> (\<exists>new. ys = xs @ new)"
  by (auto simp: evolves_def list.rel_eq)

lemma evolves_replace:
  assumes "keyed rid key rows" "r \<in> set rows" "R r r'" "\<And>x. R x x"
  shows "evolves R rows (replace_row rid r r' rows)"
proof (rule evolves_moved)
  have "x \<in> set rows \<Longrightarrow> R x (if rid x = rid r then r' else x)" for x
    using keyed_unique_id[OF assms(1,2), of x] assms(3,4) by auto
  then show "list_all2 R rows (replace_row rid r r' rows)"
    by (simp add: replace_row_def list_all2_map2 list_all2_same)
qed

lemma kept_refl [simp]: "fact_kept f f" "run_kept r r" "handoff_moved h h" "candidate_kept c c"
  by (simp_all add: fact_kept_def run_kept_def handoff_moved_def candidate_kept_def same_claim_def)

lemma candidate_next_kept: "candidate_next c d \<Longrightarrow> candidate_kept c d"
  by (auto simp: candidate_kept_def candidate_next_claim elim: candidate_next.cases)

lemma handoff_next_final: "handoff_next h h' \<Longrightarrow> \<not> handoff_next h' g"
  by (auto elim!: handoff_next.cases)

lemma kept_trans:
  "fact_kept f g \<Longrightarrow> fact_kept g h \<Longrightarrow> fact_kept f h"
  "run_kept r t \<Longrightarrow> run_kept t u \<Longrightarrow> run_kept r u"
  "handoff_moved a b \<Longrightarrow> handoff_moved b c \<Longrightarrow> handoff_moved a c"
  "candidate_kept x y \<Longrightarrow> candidate_kept y z \<Longrightarrow> candidate_kept x z"
  by (auto simp: fact_kept_def run_kept_def handoff_moved_def candidate_kept_def same_claim_def
      dest: handoff_next_final)

lemma store_evolves_refl: "store_evolves s s"
  by (simp add: store_evolves_def evolves_refl)

lemma store_evolves_trans: "store_evolves s t \<Longrightarrow> store_evolves t u \<Longrightarrow> store_evolves s u"
  unfolding store_evolves_def
  by (elim conjE, intro conjI; erule (1) evolves_trans) (blast intro: kept_trans | simp)+

lemma change_evolves:
  assumes "change False sha w s t" "db_ok sha s"
  shows "store_evolves s t"
  using assms
proof (induction rule: change.induct)
  case (fact_edited f s f')
  then show ?case
    by (simp add: store_evolves_def evolves_refl evolves_replace[OF facts_keyed(1)[OF fact_edited(6)]])
next
  case (fact_audited f s f' h)
  then show ?case
    by (simp add: store_evolves_def evolves_refl evolves_append evolves_replace[OF facts_keyed(1)[OF fact_audited(10)]])
next
  case (run_changed r s r')
  then show ?case
    by (simp add: store_evolves_def evolves_refl evolves_replace[OF facts_keyed(2)[OF run_changed(5)]])
next
  case (candidate_moved c s c')
  then show ?case
    by (simp add: store_evolves_def evolves_refl candidate_next_kept
        evolves_replace[OF graph_keyed(1)[OF candidate_moved(5)]])
next
  case (handoffs_moved s hs)
  have "list_all2 handoff_moved (db_handoffs s) hs"
    using handoffs_moved(1) by (rule list_all2_mono) (auto simp: handoff_moves_def handoff_moved_def)
  then show ?case by (simp add: store_evolves_def evolves_refl evolves_moved)
qed (simp_all add: store_evolves_def evolves_refl evolves_append)

end
