(* ===== verification/StoreRun.thy ===== *)
theory StoreRun
  imports StoreGraphSteps StoreScope
begin

text \<open>
  The store of \<open>src/store.rs\<close> as its callers see it: a database that is opened empty and changed
  by calls, one at a time (the connection is behind a lock). A call is the operation with its
  arguments; the environment may differ from call to call, the hash function may not.
  The properties of the whole component are proved here, for every reachable database.
\<close>

section \<open>Calls\<close>

datatype store_call =
    Remember string fact_metadata
  | Absorb "string list"
  | CreateCategory string
  | CategorizePending string string nat
  | SetFactCategory int string
  | SetFactValidity int string
  | ConfirmFact int string
  | UpdateFactLifecycle int string
  | SweepFreshness int
  | InvalidateFact int int string
  | SetFactSession int string
  | UpsertEmbedding int "f32 list" string
  | BeginRun run_spec
  | EndRun string string
  | LinkRun string "string option" "string option" "string option" "string option"
  | RecordMeasurement measurement_spec
  | RecordFeedback feedback_spec
  | PutContext string string string context_metadata
  | LinkContext string string string
  | ReduceContext "string list" "string option" string context_metadata
  | CaptureEvent event_spec
  | BeginHandoff handoff_spec
  | RefreshHandoffs
  | ListHandoffs
  | AcceptHandoff string string
  | CancelHandoff string string
  | RememberEntity entity_spec
  | RememberRelation relation_spec
  | CreateCandidate candidate_spec
  | GenerateCandidates int nat nat f64
  | ConfirmCandidate int string string
  | RejectCandidate int string string
  | RecordDecision decision_spec
  | AttachEvidence evidence_spec
  | CreateWorkspace
  | ArchiveWorkspace
  | ResetWorkspace

text \<open>The database after a call in a workspace; the returned value does not matter here.\<close>

definition after :: "('s, 'e, 'a) sm \<Rightarrow> 's \<Rightarrow> 's" where
  "after m s = snd (m s)"

fun perform :: "store_env \<Rightarrow> string \<Rightarrow> store_call \<Rightarrow> store_db \<Rightarrow> store_db" where
  "perform env w (Remember text m) = after (remember_fact_with_metadata env text w m)"
| "perform env w (Absorb texts) = after (absorb env texts w)"
| "perform env w (CreateCategory name) = after (create_category env name w)"
| "perform env w (CategorizePending c q n) = after (categorize_pending env c q w n)"
| "perform env w (SetFactCategory i c) = after (set_fact_category env i c w)"
| "perform env w (SetFactValidity i v) = after (set_fact_validity env i v w)"
| "perform env w (ConfirmFact i note) = after (confirm_fact env i note w)"
| "perform env w (UpdateFactLifecycle i l) = after (update_fact_lifecycle env i w l)"
| "perform env w (SweepFreshness age) = after (sweep_freshness env age w)"
| "perform env w (InvalidateFact i j reason) = after (invalidate_fact env i j w reason)"
| "perform env w (SetFactSession i session) = after (set_fact_session i session w)"
| "perform env w (UpsertEmbedding i v model) = after (upsert_fact_embedding i v model w)"
| "perform env w (BeginRun spec) = after (begin_run env (spec\<lparr>rs_workspace := w\<rparr>))"
| "perform env w (EndRun i summary) = after (end_run env i summary w)"
| "perform env w (LinkRun i a b c e) = after (link_run i a b c e w)"
| "perform env w (RecordMeasurement spec) = after (record_measurement env (spec\<lparr>ms_workspace := w\<rparr>))"
| "perform env w (RecordFeedback spec) = after (record_feedback env (spec\<lparr>fs_workspace := w\<rparr>))"
| "perform env w (PutContext r name content m) = after (put_context_with_metadata env r name content m w)"
| "perform env w (LinkContext p c rel) = after (link_context p c rel w)"
| "perform env w (ReduceContext rs out name m) = after (reduce_context env rs out name m w)"
| "perform env w (CaptureEvent spec) = after (capture_event env (spec\<lparr>es_workspace := w\<rparr>))"
| "perform env w (BeginHandoff spec) = after (begin_handoff env (spec\<lparr>hs_workspace := w\<rparr>))"
| "perform env w RefreshHandoffs = after (refresh_expired_handoffs env w)"
| "perform env w ListHandoffs = after (list_handoffs env w)"
| "perform env w (AcceptHandoff key actor) = after (accept_handoff env key actor w)"
| "perform env w (CancelHandoff key actor) = after (cancel_handoff env key actor w)"
| "perform env w (RememberEntity spec) = after (remember_entity env (spec\<lparr>ns_workspace := w\<rparr>))"
| "perform env w (RememberRelation spec) = after (remember_relation env (spec\<lparr>ls_workspace := w\<rparr>))"
| "perform env w (CreateCandidate spec) = after (create_relation_candidate env (spec\<lparr>ks_workspace := w\<rparr>))"
| "perform env w (GenerateCandidates i n scan minimum) =
     after (generate_relation_candidates_with_limits env i w n scan minimum)"
| "perform env w (ConfirmCandidate i r note) = after (confirm_relation_candidate env i r note w)"
| "perform env w (RejectCandidate i r note) = after (reject_relation_candidate env i r note w)"
| "perform env w (RecordDecision spec) = after (record_decision (spec\<lparr>ds_workspace := w\<rparr>))"
| "perform env w (AttachEvidence spec) = after (attach_evidence env (spec\<lparr>vs_workspace := w\<rparr>))"
| "perform env w CreateWorkspace = after (create_workspace w)"
| "perform env w ArchiveWorkspace = after (archive_workspace w)"
| "perform env w ResetWorkspace = after (reset_workspace w)"

inductive store_reachable :: "(string \<Rightarrow> string) \<Rightarrow> store_db \<Rightarrow> bool" for sha where
  opened: "store_reachable sha empty_db"
| called: "store_reachable sha s \<Longrightarrow> se_sha256 env = sha \<Longrightarrow> store_reachable sha (perform env w c s)"
| cleared: "store_reachable sha s \<Longrightarrow> store_reachable sha (after clear_database s)"

section \<open>Calls are changes\<close>

lemma perform_changes:
  assumes "se_sha256 env = sha" "db_ok sha s"
  shows "(change (c = ResetWorkspace) sha w)\<^sup>*\<^sup>* s (perform env w c s)"
proof -
  have w: "writes d sha w m \<Longrightarrow> (change d sha w)\<^sup>*\<^sup>* s (after m s)" for d and m :: "(store_db, store_error, 'a) sm"
    using assms(2) by (simp add: writes_def performs_def after_def)
  show ?thesis
    using assms(1)
    by (cases c) (simp_all add: w writes_remember_fact_with_metadata writes_absorb
      writes_create_category writes_categorize_pending writes_set_fact_category
      writes_set_fact_validity writes_confirm_fact writes_update_fact_lifecycle
      writes_sweep_freshness writes_invalidate_fact writes_set_fact_session
      writes_upsert_fact_embedding writes_begin_run writes_end_run writes_link_run
      writes_record_measurement writes_record_feedback writes_put_context_with_metadata
      writes_link_context writes_reduce_context writes_capture_event writes_begin_handoff
      writes_refresh_expired_handoffs writes_list_handoffs writes_accept_handoff
      writes_cancel_handoff writes_remember_entity writes_remember_relation
      writes_create_relation_candidate writes_generate_relation_candidates_with_limits
      writes_confirm_relation_candidate writes_reject_relation_candidate
      writes_record_decision writes_attach_evidence writes_create_workspace writes_archive_workspace
      writes_reset_workspace)
qed

lemma reachable_ok: "store_reachable sha s \<Longrightarrow> db_ok sha s"
proof (induction rule: store_reachable.induct)
  case (called s env w c)
  then show ?case using perform_changes changes.keeps_I_star by blast
qed (simp_all add: db_ok_empty clear_database_def modify_state_def after_def)

lemma perform_evolves:
  assumes "se_sha256 env = sha" "db_ok sha s" "c \<noteq> ResetWorkspace"
  shows "store_evolves s (perform env w c s)"
proof -
  have "(change False sha w)\<^sup>*\<^sup>* s t \<Longrightarrow> store_evolves s t \<and> db_ok sha t" for t
    by (induction rule: rtranclp_induct)
      (use assms(2) in \<open>auto intro: store_evolves_refl store_evolves_trans change_evolves change_db_ok\<close>)
  then show ?thesis using perform_changes[OF assms(1,2), of c w] assms(3) by simp
qed

text \<open>Databases that follow each other by calls other than resets.\<close>

inductive continues :: "(string \<Rightarrow> string) \<Rightarrow> store_db \<Rightarrow> store_db \<Rightarrow> bool" for sha s where
  now: "continues sha s s"
| later: "continues sha s t \<Longrightarrow> se_sha256 env = sha \<Longrightarrow> c \<noteq> ResetWorkspace \<Longrightarrow>
    continues sha s (perform env w c t)"

lemma continues_ok:
  assumes "continues sha s t" "db_ok sha s"
  shows "db_ok sha t" "store_evolves s t"
proof -
  have "db_ok sha t \<and> store_evolves s t"
    using assms
  proof (induction rule: continues.induct)
    case (later t env c w)
    then show ?case
      using perform_changes[OF later(2), of t c w] changes.keeps_I_star
        perform_evolves[OF later(2) _ later(3)] store_evolves_trans by blast
  qed (simp add: store_evolves_refl)
  then show "db_ok sha t" "store_evolves s t" by simp_all
qed

section \<open>An example\<close>

text \<open>A small database: a fact with its embedding, an open run, and a context with a handoff.\<close>

definition example_env :: store_env where
  "example_env = \<lparr>se_sha256 = (\<lambda>s. s), se_now = ''2026-01-01'', se_julian = (\<lambda>_. None),
     se_julian_now = 0, se_datetime = (\<lambda>_. None), se_fts = (\<lambda>_ _. False), se_lowercase = (\<lambda>s. s),
     se_alphanumeric = (\<lambda>_. True), se_aliases_text = (\<lambda>_. ''[]''), se_aliases = (\<lambda>_. []),
     se_var = (\<lambda>_. None)\<rparr>"

definition example_run :: run_spec where
  "example_run = \<lparr>rs_run_id = ''r'', rs_issue_ref = [], rs_pr_ref = [], rs_session = [],
     rs_git_ref = [], rs_files = [], rs_diff = [], rs_workspace = ''w''\<rparr>"

definition example_handoff :: handoff_spec where
  "example_handoff = \<lparr>hs_idempotency_key = ''k'', hs_context_reference = ''c'', hs_owner = ''o'',
     hs_session = [], hs_source = [], hs_workspace = ''w'', hs_shared = False,
     hs_ttl_seconds = None, hs_expires_at = None\<rparr>"

definition example_calls :: "store_call list" where
  "example_calls = [Remember ''a'' default_metadata, UpsertEmbedding 1 [1, 2] ''m'',
     BeginRun example_run, PutContext ''c'' ''n'' ''t'' default_context_metadata,
     BeginHandoff example_handoff]"

definition example_db :: store_db where
  "example_db = foldl (\<lambda>s c. perform example_env ''w'' c s) empty_db example_calls"

lemma example_sha [simp]: "se_sha256 example_env = (\<lambda>s. s)"
  by (simp add: example_env_def)

lemma calls_reachable:
  "store_reachable (\<lambda>s. s) s \<Longrightarrow>
     store_reachable (\<lambda>s. s) (foldl (\<lambda>s c. perform example_env ''w'' c s) s cs)"
  by (induction cs arbitrary: s) (simp_all add: called del: perform.simps)

lemma example_reachable: "store_reachable (\<lambda>s. s) example_db"
  unfolding example_db_def by (rule calls_reachable[OF opened])

lemma example_continues:
  "c \<noteq> ResetWorkspace \<Longrightarrow> continues (\<lambda>s. s) s (perform example_env w c s)"
  by (rule later[OF now]) simp_all

definition example_fact :: fact_row where
  "example_fact = hd (db_facts example_db)"

lemma example_fact: "example_fact \<in> set (db_facts example_db)"
  "fa_id example_fact = 1" "fa_workspace example_fact = ''w''" "fa_text example_fact = ''a''"
  "fa_lifecycle example_fact = ''active''" "fa_archived example_fact = False"
proof -
  have "length (db_facts example_db) = 1" by code_simp
  then show "example_fact \<in> set (db_facts example_db)"
    unfolding example_fact_def by (cases "db_facts example_db") simp_all
qed code_simp+

section \<open>Integrity\<close>

text \<open>
  C24. In every reachable database the keys of the schema are unique, ids are positive and grow,
  every reference between tables has its row, every value is one that the checks admit, the hash
  of every fact and context is that of its text, and the audit trail of every fact leads from its
  creation to its lifecycle.
\<close>

theorem store_integrity:
  assumes "store_reachable sha s"
  shows "db_ok sha s"
  using assms by (rule reachable_ok)

theorem store_integrity_witness: "db_ok (\<lambda>s. s) example_db"
  by (rule store_integrity[OF example_reachable])

text \<open>
  C25. Every call, whether it succeeds or not, is a sequence of elementary changes of its own
  workspace, and only a reset deletes rows.
\<close>

theorem calls_refine_changes:
  assumes "store_reachable sha s" "se_sha256 env = sha"
  shows "(change (c = ResetWorkspace) sha w)\<^sup>*\<^sup>* s (perform env w c s)"
  using assms reachable_ok perform_changes by blast

theorem calls_refine_changes_witness:
  "(change False (\<lambda>s. s) ''w'')\<^sup>*\<^sup>* example_db (perform example_env ''w'' (ConfirmFact 1 ''n'') example_db)"
  using calls_refine_changes[OF example_reachable example_sha, of "ConfirmFact 1 ''n''" "''w''"] by simp

section \<open>Isolation\<close>



section \<open>Chunks of a text\<close>

lemma utf8_conts_le: "snd (utf8_conts rs cs n) \<le> n + length rs"
  by (induction rs cs n rule: utf8_conts.induct) (auto simp: le_Suc_eq)

lemma utf8_step_le: "snd (utf8_step s) \<le> 4"
proof -
  have "length rs \<le> 3 \<Longrightarrow> snd (utf8_conts rs cs 1) \<le> 4" for rs cs
    using utf8_conts_le[of rs cs 1] by linarith
  then show ?thesis by (cases s) (simp_all add: utf8_step.simps Let_def)
qed

lemma utf8_chars_le: "c \<in> set (utf8_chars s) \<Longrightarrow> length c \<le> 4"
proof (induction s rule: utf8_chunks.induct)
  case (2 a cs)
  have "length (a # take (snd (utf8_step (a # cs)) - 1) cs) \<le> 4"
    using utf8_step_le[of "a # cs"] by (auto simp: min_def)
  then show ?case using 2 by (auto simp: utf8_chars_def Let_def)
qed (simp add: utf8_chars_def)

lemma numbered_chunks:
  assumes "utf8_valid text" "4 \<le> n" "text \<noteq> []"
  shows "\<exists>ks. split_utf8_chunks text n = Inr ks \<and> concat (map ch_content (number_chunks ks)) = text
     \<and> concat (map (utf8_chars \<circ> ch_content) (number_chunks ks)) = utf8_chars text
     \<and> (\<forall>c\<in>set (number_chunks ks). ch_content c \<noteq> [] \<and> ch_byte_size c \<le> n
          \<and> ch_byte_size c = length (ch_content c) \<and> ch_total c = length (number_chunks ks))
     \<and> map ch_index (number_chunks ks) = [0..<length (number_chunks ks)]"
proof -
  have "0 < n" "\<forall>c\<in>set (utf8_chars text). length c \<le> n"
    using assms(2) utf8_chars_le order_trans by fastforce+
  then obtain ks css where ks: "split_utf8_chunks text n = Inr ks" "\<forall>k\<in>set ks. length k \<le> n"
    "text \<noteq> [] \<longrightarrow> [] \<notin> set ks" "ks = map concat css" "concat css = utf8_chars text"
    by (rule split_utf8_chunks_fit) blast
  have content: "map ch_content (number_chunks ks) = ks"
    by (simp add: number_chunks_def comp_def split_def)
  have "cs \<in> set css \<Longrightarrow> set cs \<subseteq> set (utf8_chars text)" for cs unfolding ks(5)[symmetric] by auto
  then have "cs \<in> set css \<Longrightarrow> utf8_chars (concat cs) = cs" for cs
    using concat_chars_valid[OF assms(1)] by blast
  then have "map (utf8_chars \<circ> concat) css = css" by (simp add: map_idI)
  then have "concat (map utf8_chars ks) = utf8_chars text"
    using ks(4,5) by simp
  moreover have "concat (map concat css) = concat (concat css)" by (induction css) simp_all
  then have "concat ks = text" using ks(4,5) by simp
  moreover have "map (utf8_chars \<circ> ch_content) (number_chunks ks) = map utf8_chars ks"
    using content by (metis list.map_comp)
  moreover have "\<forall>c\<in>set (number_chunks ks). ch_content c \<in> set ks"
    using content by (metis image_eqI list.set_map)
  moreover have "map ch_index (number_chunks ks) = [0..<length ks]" "length (number_chunks ks) = length ks"
    "\<forall>c\<in>set (number_chunks ks). ch_byte_size c = length (ch_content c) \<and> ch_total c = length ks"
    by (auto simp: number_chunks_def comp_def split_def enumerate_eq_zip)
  ultimately show ?thesis using ks(1,2,3) assms(3) content by (intro exI[of _ ks]) auto
qed

section \<open>What is recorded\<close>



text \<open>
  C28. The history that \<open>fact_history\<close> returns for a fact is its whole audit trail: it starts at
  the creation, each entry starts where the one before ended, and it ends at the lifecycle the
  fact has now.
\<close>

theorem fact_history_complete:
  assumes "store_reachable sha s" "f \<in> set (db_facts s)" "in_scope v (fa_workspace f)"
    and "str_trim v = v"
  shows "\<exists>hs. fact_history_of (fa_id f) v s = (Inr hs, s) \<and> linked [] hs (fa_lifecycle f)"
proof -
  note ok = reachable_ok[OF assms(1)]
  have "h \<in> set (db_history s) \<Longrightarrow> fh_fact_id h = fa_id f \<Longrightarrow> fh_workspace h = fa_workspace f" for h
    using ok keyed_unique_id[OF facts_keyed(1)[OF ok] assms(2)]
    by (force simp: db_ok_def history_ok_def)
  then have "filter (\<lambda>h. fh_fact_id h = fa_id f \<and> in_scope v (fh_workspace h)) (db_history s)
      = trail (db_history s) (fa_id f)"
    using assms(3) by (auto simp: trail_def intro!: filter_cong)
  moreover have "linked [] (trail (db_history s) (fa_id f)) (fa_lifecycle f)" "0 < fa_id f"
    using ok assms(2) by (auto simp: db_ok_def history_ok_def facts_ok_def keyed_def)
  ultimately show ?thesis using assms(4)
    by (simp add: fact_history_of_def validate_graph_workspace_def positive_id_def evaluate)
qed

theorem fact_history_complete_witness:
  "\<exists>hs. fact_history_of 1 ''w'' example_db = (Inr hs, example_db) \<and> linked [] hs ''active''"
proof -
  have "str_trim ''w'' = ''w''" by code_simp
  then show ?thesis
    using fact_history_complete[OF example_reachable example_fact(1), of "''w''"]
    by (simp add: example_fact in_scope_def)
qed

text \<open>Verification finds every fact of every reachable database intact.\<close>

theorem verification_succeeds:
  assumes "store_reachable sha s" "se_sha256 env = sha"
  shows "verify_facts env v s = (Inr \<lparr>fv_checked =
      length (filter (\<lambda>f. in_scope v (fa_workspace f)) (db_facts s)), fv_valid = True,
      fv_invalid_ids = []\<rparr>, s)"
  using reachable_ok[OF assms(1)] assms(2)
  by (auto simp: db_ok_def facts_ok_def fact_ok_def verify_facts_def evaluate filter_empty_conv)

theorem verification_succeeds_witness:
  "verify_facts example_env ''w'' example_db
     = (Inr \<lparr>fv_checked = 1, fv_valid = True, fv_invalid_ids = []\<rparr>, example_db)"
proof -
  have "length (filter (\<lambda>f. in_scope ''w'' (fa_workspace f)) (db_facts example_db)) = 1" by code_simp
  then show ?thesis using verification_succeeds[OF example_reachable example_sha, of "''w''"] by simp
qed

text \<open>
  C29. A fact cut into chunks of at least four bytes is its chunks in order: none is empty or
  longer than the limit, each carries its index, the total and its size, no character is cut,
  and together they are the text.
\<close>

theorem fact_chunks_reassemble:
  assumes "store_reachable sha s" "f \<in> set (db_facts s)" "in_scope v (fa_workspace f)"
    and "utf8_valid (fa_text f)" "4 \<le> n"
  shows "\<exists>cs. chunk_fact (fa_id f) n v s = (Inr (map (Pair (fa_id f)) cs), s)
     \<and> concat (map ch_content cs) = fa_text f
     \<and> concat (map (utf8_chars \<circ> ch_content) cs) = utf8_chars (fa_text f)
     \<and> (\<forall>c\<in>set cs. ch_content c \<noteq> [] \<and> ch_byte_size c \<le> n \<and> ch_byte_size c = length (ch_content c)
          \<and> ch_total c = length cs)
     \<and> map ch_index cs = [0..<length cs]"
proof -
  note ok = reachable_ok[OF assms(1)]
  have "fact_by_id (fa_id f) v s = (Inr (Some (map_fact f)), s)"
    using find_keyed_id[OF facts_keyed(1)[OF ok] assms(2), of "\<lambda>r. fa_id r = fa_id f \<and> in_scope v (fa_workspace r)"]
      assms(3) by (simp add: evaluate)
  moreover have "fa_text f \<noteq> []"
    using ok assms(2) by (auto simp: db_ok_def facts_ok_def fact_ok_def validate_fact_text_def rbind_Inr_iff)
  ultimately show ?thesis
    using assms(5) numbered_chunks[OF assms(4,5)]
    by (auto simp: chunk_fact_def evaluate)
qed

theorem fact_chunks_reassemble_witness:
  "\<exists>cs. chunk_fact 1 4 ''w'' example_db = (Inr (map (Pair 1) cs), example_db)
     \<and> concat (map ch_content cs) = ''a''"
proof -
  have "utf8_valid ''a''" by code_simp
  then show ?thesis
    using fact_chunks_reassemble[OF example_reachable example_fact(1), of "''w''" 4]
    by (auto simp: example_fact in_scope_def)
qed

end
