(* ===== verification/StoreDurable.thy ===== *)
theory StoreDurable
  imports StoreRun
begin

text \<open>
  What a caller of \<open>src/store.rs\<close> can rely on over time: rows recorded once per key stay the answer
  to every retry, contexts are immutable, accepted handoffs are settled, and the effect of
  confirming a fact, ending a run and storing an embedding.
\<close>

section \<open>Once and for all\<close>

lemma evolves_same:
  assumes "evolves R xs ys" "x \<in> set xs" "\<And>y. R x y \<Longrightarrow> y = x"
  shows "x \<in> set ys"
  using evolves_member[OF assms(1,2)] assms(3) by metis

text \<open>
  C30. A measurement that was recorded answers every later recording of the same value under the
  same key, whatever calls but resets came in between, and nothing is written.
\<close>

theorem measurements_durable:
  assumes "store_reachable sha s" "record_measurement env spec s = (Inr r, t)"
    and "se_sha256 env = sha" "continues sha t u"
  shows "record_measurement env' spec u = (Inr r, u)"
proof -
  have t: "t = perform env (ms_workspace spec) (RecordMeasurement spec) s"
    using assms(2) by (simp add: after_def)
  have "store_evolves t u"
    using continues_ok(2)[OF assms(4)] reachable_ok called[OF assms(1,3)] t by blast
  then obtain new where "db_measurements u = db_measurements t @ new"
    by (auto simp: store_evolves_def evolves_eq)
  then show ?thesis
    using measurements.durable[OF assms(2), where new = new and env' = env'] measurements.succeeds_admissible[OF assms(2)]
    by (auto simp: measurement_agrees_def fun_eq_iff)
qed

definition example_measurement :: measurement_spec where
  "example_measurement = \<lparr>ms_measurement = ''m'', ms_sample = ''s'', ms_variant = [],
     ms_value = Finite 1, ms_baseline = True, ms_workspace = ''w''\<rparr>"

theorem measurements_durable_witness:
  "let m = record_measurement example_env example_measurement in
   \<exists>r t. m example_db = (Inr r, t) \<and> m (perform example_env ''w'' (ConfirmFact 1 ''n'') t)
     = (Inr r, perform example_env ''w'' (ConfirmFact 1 ''n'') t)"
proof -
  have "\<not> Option.is_none (case fst (record_measurement example_env example_measurement example_db)
      of Inl e \<Rightarrow> None | Inr r \<Rightarrow> Some r)" by code_simp
  then obtain r t where "record_measurement example_env example_measurement example_db = (Inr r, t)"
    by (cases "record_measurement example_env example_measurement example_db") (auto split: sum.splits)
  then show ?thesis
    using measurements_durable[OF example_reachable _ example_sha example_continues, of _ r t "ConfirmFact 1 ''n''"]
    by auto
qed

text \<open>
  C31. A context is immutable: after it was put, and whatever calls but resets came in between,
  putting it again with the same content, name and metadata returns the stored row, anything else
  under its reference is refused, and nothing is written either way.
\<close>

theorem contexts_immutable:
  assumes "store_reachable sha s" "se_sha256 env = sha" "se_sha256 env' = sha"
    and "put_context_with_metadata env reference name content m w s = (Inr c, t)"
    and "continues sha t u"
    and "context_admissible env' (reference, name', content', m', w) u = Inr ()"
  shows "put_context_with_metadata env' reference name' content' m' w u =
     (if sha content' = sha content \<and> name' = name \<and> cm_schema m' = cm_schema m
         \<and> cm_source m' = cm_source m \<and> cm_expires_at m' = cm_expires_at m
      then Inr c else Inl (SInvalid (''context ref is immutable: '' @ reference)), u)"
proof -
  have t: "t = perform env w (PutContext reference name content m) s"
    using assms(4) by (simp add: after_def)
  have "store_evolves t u"
    using continues_ok(2)[OF assms(5)] reachable_ok called[OF assms(1,2)] t by blast
  then obtain new where u: "db_contexts u = db_contexts t @ new"
    by (auto simp: store_evolves_def evolves_eq)
  let ?put = "(reference, name, content, m, w)"
  have "find (\<lambda>r. cx_reference r = reference \<and> cx_workspace r = w) (db_contexts u) = Some c"
    "context_agrees env ?put c"
    using contexts.recorded[of env ?put s c t] contexts.agreed[of env ?put s c t] assms(4) u
    by (simp_all add: find_append)
  then show ?thesis
    using contexts.eval[of env' "(reference, name', content', m', w)" u] assms(2,3,6)
    by (auto simp: context_agrees_def)
qed

theorem contexts_immutable_witness:
  "let put = (\<lambda>content. put_context_with_metadata example_env ''d'' ''n'' content default_context_metadata ''w'');
       t = snd (put ''t'' example_db) in
   put ''u'' t = (Inl (SInvalid ''context ref is immutable: d''), t)"
proof -
  let ?put = "put_context_with_metadata example_env ''d'' ''n'' ''t'' default_context_metadata ''w''"
  have "\<not> Option.is_none (case fst (?put example_db) of Inl e \<Rightarrow> None | Inr r \<Rightarrow> Some r)" by code_simp
  then obtain c t where put: "?put example_db = (Inr c, t)"
    by (cases "?put example_db") (auto split: sum.splits)
  have "context_admissible example_env (''d'', ''n'', ''u'', default_context_metadata, ''w'') t = Inr ()"
    unfolding context_admissible_def by simp code_simp
  then show ?thesis
    using contexts_immutable[OF example_reachable example_sha example_sha put now] put by simp
qed

text \<open>What remembering a text finds or adds.\<close>

lemma remembered:
  assumes "db_ok sha s" "se_sha256 env = sha" "remember_fact_with_metadata env text w m s = (Inr f, t)"
  obtains r where "r \<in> set (db_facts t)" "f = map_fact r" "fact_key r = (sha text, w)"
    "validate_fact_text text = Inr ()"
proof -
  let ?p = "\<lambda>r. fa_sha256 r = sha text \<and> fa_workspace r = w"
  let ?f = "new_fact env text w m (db_facts s)"
  have clash: "list_ex (same_fact ?f) (db_facts s) \<longleftrightarrow> find ?p (db_facts s) \<noteq> None"
    unfolding list_ex_find[symmetric] using assms(2) by (simp add: list_ex_iff same_fact_def new_fact_def) metis
  have valid: "validate_fact_text text = Inr ()" "validate_fact_metadata m = Inr ()"
    using assms(3) by (cases "validate_fact_text text"; cases "validate_fact_metadata m";
      simp add: remember_fact_with_metadata_def evaluate)+
  have p: "?p ?f" using assms(2) by (simp add: new_fact_def)
  have "\<exists>r. find ?p (db_facts t) = Some r \<and> f = map_fact r"
    using assms(2,3) valid clash p
    by (cases "find ?p (db_facts s)")
      (auto simp: remember_fact_with_metadata_def evaluate fact_by_hash_def find_append)
  then show ?thesis using valid by (auto simp: find_Some_iff fact_key_def intro!: that)
qed

lemma remember_present:
  assumes "db_ok sha s" "se_sha256 env = sha" "r \<in> set (db_facts s)" "fact_key r = (sha text, w)"
    and "validate_fact_text text = Inr ()" "validate_fact_metadata m = Inr ()"
  shows "remember_fact_with_metadata env text w m s = (Inr (map_fact r), s)"
proof -
  have f: "find (\<lambda>r. fa_sha256 r = sha text \<and> fa_workspace r = w) (db_facts s) = Some r"
    using find_keyed[OF facts_keyed(1)[OF assms(1)] assms(3)] assms(4) by (simp add: fact_key_def)
  then have "list_ex (same_fact (new_fact env text w m (db_facts s))) (db_facts s)"
    using assms(2,3,4) by (auto simp: list_ex_iff same_fact_def new_fact_def fact_key_def intro!: bexI[of _ r])
  then show ?thesis using f assms(2,5,6)
    by (simp add: remember_fact_with_metadata_def evaluate fact_by_hash_def)
qed

text \<open>
  A text is remembered once per workspace: remembering it again, whatever calls but resets
  came in between and whatever the metadata, finds the fact with its id and writes nothing.
\<close>

theorem facts_remembered_once:
  assumes "store_reachable sha s" "se_sha256 env = sha" "se_sha256 env' = sha"
    and "remember_fact_with_metadata env text w m s = (Inr f, t)" "continues sha t u"
    and "validate_fact_metadata m' = Inr ()"
  shows "\<exists>g. remember_fact_with_metadata env' text w m' u = (Inr g, u) \<and> fa_id g = fa_id f
     \<and> fa_text g = fa_text f \<and> fa_workspace g = w"
proof -
  note ok = reachable_ok[OF assms(1)]
  obtain r where r: "r \<in> set (db_facts t)" "f = map_fact r" "fact_key r = (sha text, w)"
      "validate_fact_text text = Inr ()"
    using remembered[OF ok assms(2,4)] .
  have t: "t = perform env w (Remember text m) s" using assms(4) by (simp add: after_def)
  have "store_reachable sha t" unfolding t by (rule called[OF assms(1,2)])
  note u = continues_ok[OF assms(5) reachable_ok[OF this]]
  then obtain r' where r': "r' \<in> set (db_facts u)" "fact_kept r r'"
    using evolves_member[OF _ r(1)] unfolding store_evolves_def by metis
  then have k: "fact_key r' = (sha text, w)" using r(3) by (simp add: fact_kept_def fact_key_def)
  from remember_present[OF u(1) assms(3) r'(1) k r(4) assms(6)] show ?thesis
    using r(2) r'(2) k by (intro exI[of _ "map_fact r'"]) (simp add: fact_kept_def fact_key_def)
qed

theorem facts_remembered_once_witness:
  "let m = remember_fact_with_metadata example_env ''b'' ''w'' default_metadata; s = snd (m example_db);
       t = perform example_env ''w'' (UpdateFactLifecycle 2 ''forgotten'') s in
   \<exists>g. m t = (Inr g, t) \<and> fa_text g = ''b''"
proof -
  let ?m = "remember_fact_with_metadata example_env ''b'' ''w'' default_metadata"
  have "case fst (?m example_db) of Inl e \<Rightarrow> False | Inr r \<Rightarrow> fa_text r = ''b''" by code_simp
  then obtain f t where m: "?m example_db = (Inr f, t)" "fa_text f = ''b''"
    by (cases "?m example_db") (auto split: sum.splits)
  have "validate_fact_metadata default_metadata = Inr ()" by code_simp
  from facts_remembered_once[OF example_reachable example_sha example_sha m(1) example_continues this,
      of "UpdateFactLifecycle 2 ''forgotten''" "''w''"] m
  show ?thesis by auto
qed

lemma refreshed: "sbind (refresh_expired_handoffs env w) f s = f () (after (refresh_expired_handoffs env w) s)"
  by (simp add: refresh_expired_handoffs_def sql_update_def after_def sbind_def)

lemma accepted_handoff:
  assumes "accept_handoff env key actor w s = (Inr (Some h), t)"
  shows "h \<in> set (db_handoffs t) \<and> ho_idempotency_key h = key \<and> ho_workspace h = w
    \<and> ho_state h = ''accepted'' \<and> \<not> blank w"
proof -
  let ?p = "\<lambda>r. ho_idempotency_key r = key \<and> ho_workspace r = w"
  let ?g = "\<lambda>r. r\<lparr>ho_state := ''accepted'', ho_accepted_at := Some (se_now env), ho_accepted_by := Some actor\<rparr>"
  let ?v = "after (refresh_expired_handoffs env w) s"
  have w: "\<not> blank w" "\<not> blank actor"
    using assms by (cases "blank w"; cases "blank actor"; simp add: accept_handoff_def evaluate
        validate_context_workspace_def not_empty_def)+
  then obtain e where e: "find ?p (db_handoffs ?v) = Some e"
    using assms by (cases "find ?p (db_handoffs ?v)")
      (auto simp: accept_handoff_def evaluate refreshed validate_context_workspace_def
        not_empty_def handoff_by_key_def)
  have upd: "find ?p (update_rows (\<lambda>r. ho_id r = ho_id e) ?g (db_handoffs ?v)) = Some (?g e)"
    using e by (subst find_update_rows) auto
  then have "find ?p (db_handoffs t) = Some h \<and> ho_state h = ''accepted''"
    using assms upd w e
    by (auto simp: accept_handoff_def evaluate refreshed validate_context_workspace_def
        not_empty_def handoff_by_key_def split: if_splits)
  then show ?thesis using w by (auto simp: find_Some_iff)
qed

text \<open>
  C32. An accepted handoff is settled: whatever calls but resets follow, accepting it again, by
  whomever, returns it as it was accepted, and cancelling it fails.
\<close>

theorem handoffs_settle:
  assumes "store_reachable sha s" "se_sha256 env = sha" "se_sha256 env' = sha"
    and "accept_handoff env key actor w s = (Inr (Some h), t)" "continues sha t u" "\<not> blank actor'"
  shows "ho_state h = ''accepted'' \<and> fst (accept_handoff env' key actor' w u) = Inr (Some h)
     \<and> fst (cancel_handoff env' key actor' w u)
         = Inl (SInvalid ''cannot cancel handoff in state accepted'')"
proof -
  let ?p = "\<lambda>r. ho_idempotency_key r = key \<and> ho_workspace r = w"
  have t: "t = perform env w (AcceptHandoff key actor) s" using assms(4) by (simp add: after_def)
  have rt: "store_reachable sha t" unfolding t by (rule called[OF assms(1,2)])
  have h: "h \<in> set (db_handoffs t)" "?p h" "ho_state h = ''accepted''" "\<not> blank w"
    using accepted_handoff[OF assms(4)] by auto
  have stays: "h \<in> set (db_handoffs v)" if "store_evolves t v" for v
  proof -
    have "handoff_moved h h' \<Longrightarrow> h' = h" for h'
      using h(3) by (auto simp: handoff_moved_def elim: handoff_next.cases)
    then show ?thesis using that h(1) evolves_same[of handoff_moved] by (auto simp: store_evolves_def)
  qed
  note u = continues_ok[OF assms(5) reachable_ok[OF rt]]
  let ?v = "after (refresh_expired_handoffs env' w) u"
  have "?v = perform env' w RefreshHandoffs u" by simp
  then have v: "db_ok sha ?v" "store_evolves t ?v"
    using later[OF assms(5,3), of RefreshHandoffs w] continues_ok[OF _ reachable_ok[OF rt], of ?v] by simp_all
  then have "find ?p (db_handoffs ?v) = Some h"
    using find_keyed[of ho_id "\<lambda>h. (ho_idempotency_key h, ho_workspace h)" "db_handoffs ?v" h ?p] stays[OF v(2)] h(2)
    by (simp add: db_ok_def handoffs_ok_def)
  then show ?thesis using h(3,4) assms(6)
    by (simp add: accept_handoff_def cancel_handoff_def evaluate refreshed handoff_by_key_def
        validate_context_workspace_def not_empty_def)
qed

theorem handoffs_settle_witness:
  "let t = perform example_env ''w'' (AcceptHandoff ''k'' ''p'') example_db in
   \<exists>h. accept_handoff example_env ''k'' ''p'' ''w'' example_db = (Inr (Some h), t)
     \<and> fst (accept_handoff example_env ''k'' ''q'' ''w'' t) = Inr (Some h)"
proof -
  let ?a = "accept_handoff example_env ''k'' ''p'' ''w''"
  have "case fst (?a example_db) of Inr (Some h) \<Rightarrow> True | _ \<Rightarrow> False" by code_simp
  then obtain h where a: "?a example_db = (Inr (Some h), snd (?a example_db))"
    by (cases "?a example_db") (auto split: sum.splits option.splits)
  have "\<not> blank ''q''" by code_simp
  from handoffs_settle[OF example_reachable example_sha example_sha a now this] a
  show ?thesis by (simp add: after_def Let_def)
qed

section \<open>Facts, runs and embeddings\<close>

lemma find_replace_row:
  assumes "r \<in> set rows" "p r'" "\<And>x. x \<in> set rows \<Longrightarrow> p x \<Longrightarrow> rid x = rid r"
  shows "find p (replace_row rid r r' rows) = Some r'"
  using assms unfolding replace_row_def by (induction rows) auto

text \<open>
  C33. Confirming a fact makes it valid, active, confirmed and trusted, records the transition
  exactly when something of that changed, and leaves every other column as it was, the archived
  flag of a forgotten fact included.
\<close>

theorem confirmation_effect:
  assumes "store_reachable sha s" "f \<in> set (db_facts s)" "in_scope w (fa_workspace f)"
    and "str_trim w = w"
  shows "\<exists>g t. confirm_fact env (fa_id f) note w s = (Inr (Some (map_fact g)), t)
     \<and> g = f\<lparr>fa_validity := ''valid'', fa_lifecycle := ''active'', fa_confirmed := True,
         fa_trust := ''high'', fa_updated_at := se_now env\<rparr>
     \<and> db_facts t = replace_row fa_id f g (db_facts s) \<and> fa_archived g = fa_archived f
     \<and> (if fa_validity f = ''valid'' \<and> fa_lifecycle f = ''active'' \<and> fa_trust f = ''high''
        then db_history t = db_history s
        else \<exists>h. db_history t = db_history s @ [h] \<and> fh_fact_id h = fa_id f
          \<and> fh_from_lifecycle h = fa_lifecycle f \<and> fh_to_lifecycle h = ''active'' \<and> fh_note h = note)"
proof -
  note ok = reachable_ok[OF assms(1)]
  let ?p = "\<lambda>r. fa_id r = fa_id f \<and> in_scope w (fa_workspace r)"
  let ?g = "f\<lparr>fa_validity := ''valid'', fa_lifecycle := ''active'', fa_confirmed := True,
         fa_trust := ''high'', fa_updated_at := se_now env\<rparr>"
  have f: "find ?p (db_facts s) = Some f"
    using find_keyed_id[OF facts_keyed(1)[OF ok] assms(2), of ?p] assms(3) by simp
  have i: "0 < fa_id f" using ok assms(2) by (auto simp: db_ok_def facts_ok_def keyed_def)
  have g: "find ?p (replace_row fa_id f ?g (db_facts s)) = Some ?g"
    by (rule find_replace_row[OF assms(2)]) (use assms(3) in simp_all)
  have e: "list_ex (\<lambda>x. fa_id x = fa_id f) (replace_row fa_id f ?g (db_facts s))"
    using fact_found(7)[OF ok f, of ?g] by simp
  note u = fact_found(5)[OF ok f]
  show ?thesis
    using i f g e assms(4)
    by (auto simp: confirm_fact_def evaluate validate_graph_workspace_def positive_id_def u)
qed

theorem confirmation_effect_witness:
  "\<exists>g t. confirm_fact example_env 1 ''n'' ''w'' example_db = (Inr (Some (map_fact g)), t)
     \<and> fa_lifecycle g = ''active'' \<and> fa_trust g = ''high''"
proof -
  have "str_trim ''w'' = ''w''" by code_simp
  from confirmation_effect[OF example_reachable example_fact(1) _ this, of example_env "''n''"]
  show ?thesis by (auto simp: example_fact in_scope_def)
qed

text \<open>
  C34. Ending an open run closes it with its summary cut to 128 KiB; ending it again with the same
  summary returns the closed run, except that a summary that was cut conflicts with itself.
\<close>

theorem end_run_retry:
  assumes "store_reachable sha s" "r \<in> set (db_runs s)" "ru_state r = ''open''"
    and "validate_run_key (ru_run_id r) (ru_workspace r) = Inr ()"
  shows "\<exists>r' t. end_run env (ru_run_id r) summary (ru_workspace r) s = (Inr (Some r'), t)
     \<and> r' = r\<lparr>ru_state := ''closed'', ru_summary := truncate_utf8 summary MAX_RUN_DIFF_BYTES,
         ru_ended_at := Some (se_now env)\<rparr>
     \<and> db_runs t = replace_row ru_id r r' (db_runs s)
     \<and> end_run env' (ru_run_id r) summary (ru_workspace r) t =
         (if length summary \<le> MAX_RUN_DIFF_BYTES then Inr (Some r')
          else Inl (SInvalid ''closed run summary conflicts with an existing record''), t)"
proof -
  note ok = reachable_ok[OF assms(1)]
  let ?p = "\<lambda>x. ru_run_id x = ru_run_id r \<and> ru_workspace x = ru_workspace r"
  let ?r = "r\<lparr>ru_state := ''closed'', ru_summary := truncate_utf8 summary MAX_RUN_DIFF_BYTES,
    ru_ended_at := Some (se_now env)\<rparr>"
  let ?t = "s\<lparr>db_runs := replace_row ru_id r ?r (db_runs s)\<rparr>"
  have f: "find ?p (db_runs s) = Some r"
    by (rule find_keyed[OF facts_keyed(2)[OF ok] assms(2)]) (simp add: run_key_def)
  have "find ?p (replace_row ru_id r ?r (db_runs s)) = Some ?r"
    by (rule find_replace_row[OF assms(2)])
      (use keyed_unique[OF facts_keyed(2)[OF ok] _ assms(2)] in \<open>auto simp: run_key_def\<close>)
  then have t: "find ?p (db_runs ?t) = Some ?r" by simp
  have cut: "summary \<noteq> [] \<and> truncate_utf8 summary MAX_RUN_DIFF_BYTES \<noteq> summary \<longleftrightarrow>
      MAX_RUN_DIFF_BYTES < length summary"
    using truncate_utf8_le[of summary MAX_RUN_DIFF_BYTES]
    by (cases "length summary \<le> MAX_RUN_DIFF_BYTES") (auto simp: truncate_utf8_def)
  have "end_run env (ru_run_id r) summary (ru_workspace r) s = (Inr (Some ?r), ?t)"
    using f t assms(3,4) by (simp add: end_run_def evaluate run_by_key_def run_found(5)[OF ok f])
  moreover have "end_run env' (ru_run_id r) summary (ru_workspace r) ?t =
      (if length summary \<le> MAX_RUN_DIFF_BYTES then Inr (Some ?r)
       else Inl (SInvalid ''closed run summary conflicts with an existing record''), ?t)"
    using t cut assms(4) by (auto simp: end_run_def evaluate run_by_key_def)
  ultimately show ?thesis by auto
qed

theorem end_run_retry_witness:
  "\<exists>r t. end_run example_env ''r'' ''s'' ''w'' example_db = (Inr (Some r), t) \<and> ru_state r = ''closed''
     \<and> end_run example_env ''r'' ''s'' ''w'' t = (Inr (Some r), t)"
proof -
  let ?r = "hd (db_runs example_db)"
  have "length (db_runs example_db) = 1" by code_simp
  then have m: "?r \<in> set (db_runs example_db)" by (cases "db_runs example_db") simp_all
  have r: "ru_state ?r = ''open''" "ru_run_id ?r = ''r''" "ru_workspace ?r = ''w''"
    "validate_run_key ''r'' ''w'' = Inr ()" by code_simp+
  then show ?thesis
    using end_run_retry[OF example_reachable m, of example_env "''s''" example_env]
    by (auto simp: MAX_RUN_DIFF_BYTES_def)
qed

text \<open>Every embedding of a workspace is read with its fact.\<close>

lemma upserted_rows:
  "x \<in> set (upsert_embedding b bs) \<Longrightarrow> fb_fact_id x = fb_fact_id b \<Longrightarrow>
     fb_vector x = fb_vector b \<and> fb_model x = fb_model b"
  "\<exists>x\<in>set (upsert_embedding b bs). fb_fact_id x = fb_fact_id b"
  by (cases "list_ex (\<lambda>r. fb_fact_id r = fb_fact_id b) bs";
      force simp: upsert_embedding_def set_update_rows list_ex_iff split: if_splits)+

lemma smapM_values:
  "(\<And>x. x \<in> set xs \<Longrightarrow> f x s = (Inr (g x), s)) \<Longrightarrow> smapM f xs s = (Inr (map g xs), s)"
  by (induction xs) (simp_all add: sbind_def sret_def)

lemma embeddings_read:
  assumes "db_ok sha s" "str_trim w = w"
  obtains es where "fact_embeddings w s = (Inr es, s)"
    "set es = {(map_fact f, decode_vector (fb_vector b), fb_model b) | f b. f \<in> set (db_facts s)
       \<and> b \<in> set (db_embeddings s) \<and> fa_id f = fb_fact_id b \<and> in_scope w (fa_workspace f)}"
proof -
  let ?in = "\<lambda>b f. fa_id f = fb_fact_id b \<and> in_scope w (fa_workspace f)"
  let ?rows = "sort_key fb_fact_id (filter (\<lambda>b. list_ex (?in b) (db_facts s)) (db_embeddings s))"
  let ?read = "\<lambda>b. (map_fact (the (find (?in b) (db_facts s))), decode_vector (fb_vector b), fb_model b)"
  have one: "read_embedding w b s = (Inr (Some (?read b)), s)" if "b \<in> set ?rows" for b
  proof -
    have "find (?in b) (db_facts s) \<noteq> None" using that by (simp add: list_ex_find)
    then obtain f where "find (?in b) (db_facts s) = Some f" by blast
    moreover have "length (fb_vector b) mod 4 = 0"
      using that assms(1) by (simp add: db_ok_def embeddings_ok_def)
    ultimately show ?thesis by (simp add: read_embedding_def evaluate)
  qed
  have "smapM (read_embedding w) ?rows s = (Inr (map (\<lambda>b. Some (?read b)) ?rows), s)"
    using one by (rule smapM_values)
  then have "fact_embeddings w s = (Inr (map ?read ?rows), s)"
    using assms(2) by (simp add: fact_embeddings_def evaluate validate_graph_workspace_def
        get_state_def List.map_filter_def comp_def sbind_def sret_def)
  moreover have "set (map ?read ?rows) = {(map_fact f, decode_vector (fb_vector b), fb_model b) | f b.
      f \<in> set (db_facts s) \<and> b \<in> set (db_embeddings s) \<and> ?in b f}" (is "_ = ?all")
  proof -
    have f: "find (?in b) (db_facts s) = Some f" if "f \<in> set (db_facts s)" "?in b f" for f b
      using find_keyed_id[OF facts_keyed(1)[OF assms(1)] that(1), of "?in b"] that(2) by simp
    have here: "?read b \<in> ?all" if b: "b \<in> set ?rows" for b
    proof -
      obtain f where "f \<in> set (db_facts s)" "?in b f" using b by (auto simp: list_ex_iff)
      then show ?thesis using b f[of f b] by auto
    qed
    have there: "x \<in> set (map ?read ?rows)" if x: "x \<in> ?all" for x
    proof -
      obtain f b where "x = (map_fact f, decode_vector (fb_vector b), fb_model b)"
        "f \<in> set (db_facts s)" "b \<in> set (db_embeddings s)" "?in b f" using x by auto
      then have "b \<in> set ?rows" "x = ?read b" using f[of f b] by (auto simp: list_ex_iff)
      then show ?thesis by simp
    qed
    show ?thesis
    proof (rule subset_antisym)
      show "set (map ?read ?rows) \<subseteq> ?all" unfolding set_map using here by (rule image_subsetI)
      show "?all \<subseteq> set (map ?read ?rows)" using there by (rule subsetI)
    qed
  qed
  ultimately show ?thesis by (rule that)
qed

text \<open>
  An embedding that was stored for a fact is read back bit by bit: the embeddings of the
  workspace can be read, and the one of the fact is the stored vector with its model.
\<close>

theorem embeddings_round_trip:
  assumes "store_reachable sha s" "upsert_fact_embedding i v model w s = (Inr (), t)"
  shows "\<exists>es. fact_embeddings w t = (Inr es, t) \<and> (\<exists>f. (f, v, model) \<in> set es \<and> fa_id f = i)
     \<and> (\<forall>(g, u, n)\<in>set es. fa_id g = i \<longrightarrow> u = v \<and> n = model)"
proof -
  note ok = reachable_ok[OF assms(1)]
  let ?b = "\<lparr>fb_fact_id = i, fb_vector = encode_vector v, fb_model = model\<rparr>"
  have w: "str_trim w = w"
    using assms(2) by (cases "str_trim w = w")
      (simp_all add: upsert_fact_embedding_def evaluate validate_graph_workspace_def)
  obtain f where "find (\<lambda>r. fa_id r = i \<and> in_scope w (fa_workspace r)) (db_facts s) = Some f"
    and t': "t = db_embeddings_update (upsert_embedding ?b) s"
    using assms(2) w by (cases "find (\<lambda>r. fa_id r = i \<and> in_scope w (fa_workspace r)) (db_facts s)";
        cases "v = []"; cases "not_empty (model, ''fact embedding model'')")
      (simp_all add: upsert_fact_embedding_def evaluate validate_graph_workspace_def modify_state_def)
  then have f: "f \<in> set (db_facts s)" "fa_id f = i" "in_scope w (fa_workspace f)"
    by (auto simp: find_Some_iff)
  have t: "t = s\<lparr>db_embeddings := upsert_embedding ?b (db_embeddings s)\<rparr>" using t' by simp
  have ok': "db_ok sha t"
    using change_db_ok[OF embedding_set[OF f(1,3)] ok, of ?b] f(2) t by (simp add: length_encode_vector)
  have b: "b \<in> set (db_embeddings t) \<Longrightarrow> fb_fact_id b = i \<Longrightarrow> fb_vector b = encode_vector v \<and> fb_model b = model" for b
    using upserted_rows(1)[of b ?b] t by simp
  have "\<exists>b\<in>set (db_embeddings t). fb_fact_id b = i"
    using upserted_rows(2)[of ?b] t by simp
  with b obtain b where b0: "b \<in> set (db_embeddings t)" "fb_fact_id b = i" "fb_vector b = encode_vector v"
    "fb_model b = model" by blast
  obtain es where es: "fact_embeddings w t = (Inr es, t)"
    "set es = {(map_fact f, decode_vector (fb_vector b), fb_model b) | f b. f \<in> set (db_facts t)
       \<and> b \<in> set (db_embeddings t) \<and> fa_id f = fb_fact_id b \<and> in_scope w (fa_workspace f)}"
    by (rule embeddings_read[OF ok' w])
  have "(map_fact f, v, model) \<in> set es"
  proof -
    have "f \<in> set (db_facts t)" using f(1) by (simp add: t')
    then have "(map_fact f, decode_vector (fb_vector b), fb_model b) \<in> set es"
      unfolding es(2) mem_Collect_eq using f(2,3) b0(1,2)
      by (intro exI[of _ f] exI[of _ b] conjI) (rule refl | assumption | simp)+
    then show ?thesis using b0(3,4) by (simp add: decode_encode_vector)
  qed
  moreover have "u = v \<and> n = model" if g: "(g, u, n) \<in> set es" "fa_id g = i" for g u n
  proof -
    obtain b' where "u = decode_vector (fb_vector b')" "n = fb_model b'" "b' \<in> set (db_embeddings t)"
      "fb_fact_id b' = i" using g unfolding es(2) by auto
    then show ?thesis using b[of b'] by (simp add: decode_encode_vector)
  qed
  ultimately show ?thesis
    unfolding case_prod_beta using es(1) f(2) map_fact_simps(1)[of f]
    by (metis prod.collapse)
qed

theorem embeddings_round_trip_witness:
  "\<exists>es f t. upsert_fact_embedding 1 [7, 9] ''m2'' ''w'' example_db = (Inr (), t)
     \<and> fact_embeddings ''w'' t = (Inr es, t) \<and> (f, [7, 9], ''m2'') \<in> set es"
proof -
  have "case fst (upsert_fact_embedding 1 [7, 9] ''m2'' ''w'' example_db) of Inl e \<Rightarrow> False | Inr u \<Rightarrow> True"
    by code_simp
  then obtain t where u: "upsert_fact_embedding 1 [7, 9] ''m2'' ''w'' example_db = (Inr (), t)"
    by (cases "upsert_fact_embedding 1 [7, 9] ''m2'' ''w'' example_db") (auto split: sum.splits)
  then show ?thesis using embeddings_round_trip[OF example_reachable u] by blast
qed

end
