(* ===== verification/StoreExport.thy ===== *)
theory StoreExport
  imports StoreCandidates StoreEmbeddings StoreWorkspaces
begin

text \<open>
  The exports of \<open>src/store.rs\<close>: a workspace, every workspace, and the graph of a workspace as RDF
  triples. Listing handoffs expires overdue ones, so an export may write.
\<close>

record memory_export =
  me_facts :: "fact list"
  me_contexts :: "context_row list"
  me_events :: "lifecycle_event list"
  me_handoffs :: "handoff list"
  me_entities :: "entity list"
  me_relations :: "relation list"
  me_relation_candidates :: "relation_candidate list"
  me_decisions :: "decision list"
  me_evidence :: "evidence list"
  me_categories :: "category list"
  me_runs :: "run list"
  me_measurements :: "measurement list"
  me_feedbacks :: "feedback list"

definition export_snapshot :: "store_env \<Rightarrow> string \<Rightarrow> (store_db, store_error, memory_export) sm" where
  "export_snapshot env workspace =
     sbind (slift (validate_context_workspace workspace)) (\<lambda>_.
     sbind (list_facts workspace) (\<lambda>facts.
     sbind (list_contexts env workspace) (\<lambda>contexts.
     sbind (list_events workspace) (\<lambda>events.
     sbind (list_handoffs env workspace) (\<lambda>handoffs.
     sbind (list_entities env workspace) (\<lambda>entities.
     sbind (list_relations workspace) (\<lambda>relations.
     sbind (list_relation_candidates_all workspace) (\<lambda>candidates.
     sbind (list_decisions workspace) (\<lambda>decisions.
     sbind (list_evidence workspace) (\<lambda>evidence.
     sbind (list_categories workspace) (\<lambda>categories.
     sbind (query_runs [] workspace) (\<lambda>runs.
     sbind (query_measurements [] workspace) (\<lambda>measurements.
     sbind (query_feedback [] workspace) (\<lambda>feedback.
     sret \<lparr>me_facts = facts, me_contexts = contexts, me_events = events, me_handoffs = handoffs,
       me_entities = entities, me_relations = relations, me_relation_candidates = candidates,
       me_decisions = decisions, me_evidence = evidence, me_categories = categories,
       me_runs = runs, me_measurements = measurements, me_feedbacks = feedback\<rparr>))))))))))))))"

definition extend_export :: "memory_export \<Rightarrow> memory_export \<Rightarrow> memory_export" where
  "extend_export e x = \<lparr>me_facts = me_facts e, me_contexts = me_contexts e @ me_contexts x,
     me_events = me_events e @ me_events x, me_handoffs = me_handoffs e @ me_handoffs x,
     me_entities = me_entities e @ me_entities x, me_relations = me_relations e @ me_relations x,
     me_relation_candidates = me_relation_candidates e @ me_relation_candidates x,
     me_decisions = me_decisions e @ me_decisions x, me_evidence = me_evidence e @ me_evidence x,
     me_categories = me_categories e @ me_categories x, me_runs = me_runs e @ me_runs x,
     me_measurements = me_measurements e @ me_measurements x,
     me_feedbacks = me_feedbacks e @ me_feedbacks x\<rparr>"

text \<open>Every fact, forgotten and invalid ones included, then the rest of each workspace.\<close>

definition export_all :: "store_env \<Rightarrow> (store_db, store_error, memory_export) sm" where
  "export_all env =
     sbind list_workspace_ids (\<lambda>ids.
     sbind (select_facts (\<lambda>_. True)) (\<lambda>facts.
     sbind (smapM (export_snapshot env) (filter (\<lambda>i. i \<noteq> []) ids)) (\<lambda>snapshots.
     sret (foldl extend_export \<lparr>me_facts = facts, me_contexts = [], me_events = [],
       me_handoffs = [], me_entities = [], me_relations = [], me_relation_candidates = [],
       me_decisions = [], me_evidence = [], me_categories = [], me_runs = [],
       me_measurements = [], me_feedbacks = []\<rparr> snapshots))))"

section \<open>RDF\<close>

fun escape_rdf :: "string \<Rightarrow> string" where
  "escape_rdf [] = []"
| "escape_rdf (c # cs) =
     (if c = CHR 0x5C then [CHR 0x5C, CHR 0x5C]
      else if c = CHR 0x22 then [CHR 0x5C, CHR 0x22]
      else if c = CHR 0x0A then [CHR 0x5C, CHR ''n'']
      else if c = CHR 0x0D then [CHR 0x5C, CHR ''r'']
      else [c]) @ escape_rdf cs"

definition rdf_line :: "store_db \<Rightarrow> relation \<Rightarrow> string option" where
  "rdf_line s r =
     (case (find (\<lambda>e. er_id e = re_subject_id r) (db_entities s),
            find (\<lambda>e. er_id e = re_object_id r) (db_entities s)) of
        (Some a, Some b) \<Rightarrow> Some (''<'' @ escape_rdf (er_name a) @ ''> <'' @ escape_rdf (re_predicate r)
          @ ''> <'' @ escape_rdf (er_name b) @ ''> .'' @ [CHR 0x0A])
      | _ \<Rightarrow> None)"

definition export_rdf :: "string \<Rightarrow> (store_db, store_error, string) sm" where
  "export_rdf workspace =
     sbind (slift (validate_graph_workspace workspace)) (\<lambda>_.
     sbind get_state (\<lambda>s.
     sbind (sql_select db_relations (\<lambda>r. re_workspace r = workspace)) (\<lambda>rows.
     sret (concat (List.map_filter (rdf_line s) rows)))))"

text \<open>
  Escaping can be undone, and an escaped text has no line break and no bare quote, so that a line
  of the export is one triple.
\<close>

fun unescape_rdf :: "string \<Rightarrow> string" where
  "unescape_rdf (c # d # cs) =
     (if c = CHR 0x5C
      then (if d = CHR ''n'' then CHR 0x0A else if d = CHR ''r'' then CHR 0x0D else d) # unescape_rdf cs
      else c # unescape_rdf (d # cs))"
| "unescape_rdf cs = cs"

lemma escape_rdf_Cons: "c \<noteq> CHR 0x5C \<Longrightarrow> unescape_rdf (c # escape_rdf cs) = c # unescape_rdf (escape_rdf cs)"
  by (cases "escape_rdf cs") simp_all

lemma unescape_escape_rdf: "unescape_rdf (escape_rdf s) = s"
  by (induction s) (auto simp: escape_rdf_Cons)

lemma escape_rdf_one_line: "CHR 0x0A \<notin> set (escape_rdf s) \<and> CHR 0x0D \<notin> set (escape_rdf s)"
  by (induction s) auto

end
