(* ===== verification/StoreReview.thy ===== *)
theory StoreReview
  imports StoreRun StoreExport
begin

text \<open>
  The graph of \<open>src/store.rs\<close> as a whole, in every reachable database: chains of decisions end,
  a neighbourhood is a graph, bulk reads agree with single ones, a confirmed candidate is the
  relation it claimed, and an export has a line for every relation.
\<close>

section \<open>An example\<close>

text \<open>Two entities with a relation, a candidate for another one, and a decision with its cause.\<close>

definition graph_calls :: "store_call list" where
  "graph_calls =
     (let d = \<lparr>ds_category = [], ds_subject = ''s'', ds_scenario = ''a'', ds_reasoning = [],
            ds_outcome = ''o'', ds_confidence = None, ds_decision_maker = [], ds_issue_ref = [],
            ds_path = [], ds_symbol = [], ds_parent_id = None, ds_workspace = []\<rparr>
      in [RememberEntity \<lparr>ns_name = ''a'', ns_entity_type = [], ns_aliases = [], ns_workspace = []\<rparr>,
        RememberEntity \<lparr>ns_name = ''b'', ns_entity_type = [], ns_aliases = [], ns_workspace = []\<rparr>,
        RememberRelation \<lparr>ls_subject = ''a'', ls_predicate = ''p'', ls_object = ''b'',
          ls_source_fact_id = Some 1, ls_workspace = []\<rparr>,
        CreateCandidate \<lparr>ks_subject = ''b'', ks_predicate = ''q'', ks_object = ''a'',
          ks_relation_type = ''t'', ks_direction = ''out'', ks_score = Finite 1,
          ks_confidence = Finite 1, ks_source_fact_id = Some 1, ks_target_fact_id = None,
          ks_source_evidence_id = None, ks_target_evidence_id = None, ks_provenance = ''m'',
          ks_workspace = []\<rparr>,
        RecordDecision d, RecordDecision (d\<lparr>ds_parent_id := Some 1\<rparr>)])"

definition graph_db :: store_db where
  "graph_db = foldl (\<lambda>s c. perform example_env ''w'' c s) example_db graph_calls"

lemma graph_reachable: "store_reachable (\<lambda>s. s) graph_db"
  unfolding graph_db_def by (rule calls_reachable[OF example_reachable])

section \<open>Chains of decisions\<close>

lemma causal_loop_ends:
  assumes "decisions_ok rows" "d \<in> set rows" "de_workspace d = w" "\<forall>i\<in>set seen. de_id d < i"
  shows "\<exists>ds. causal_loop rows w (Some (de_id d)) seen chain = Inr (chain @ d # ds)
     \<and> de_parent_id (last (d # ds)) = None
     \<and> successively (\<lambda>d p. de_parent_id d = Some (de_id p)) (d # ds)"
  using assms
proof (induction "nat (de_id d)" arbitrary: d seen chain rule: less_induct)
  case less
  have k: "keyed de_id de_id rows" and p: "parent_ok rows d"
    using less.prems(1,2) by (simp_all add: decisions_ok_def)
  have found: "find (\<lambda>r. de_id r = de_id d \<and> de_workspace r = w) rows = Some d"
    using find_keyed_id[OF k less.prems(2), of "\<lambda>r. de_id r = de_id d \<and> de_workspace r = w"]
      less.prems(3) by simp
  have fresh: "de_id d \<notin> set seen" using less.prems(4) by auto
  show ?case
  proof (cases "de_parent_id d")
    case None
    then show ?thesis using found fresh by (intro exI[of _ "[]"]) simp
  next
    case (Some i)
    then obtain e where e: "e \<in> set rows" "de_id e = i" "de_workspace e = w" "de_id e < de_id d"
      using p less.prems(3) by (auto simp: parent_ok_def)
    have "0 < de_id e" using k e(1) by (simp add: keyed_def)
    then have lt: "nat (de_id e) < nat (de_id d)" using e(4) by simp
    have "\<forall>j\<in>set (seen @ [de_id d]). de_id e < j" using less.prems(4) e(4) by fastforce
    from less.hyps[OF lt less.prems(1) e(1,3) this, of "chain @ [d]"] obtain ds where
      "causal_loop rows w (Some i) (seen @ [de_id d]) (chain @ [d]) = Inr ((chain @ [d]) @ e # ds)"
      "de_parent_id (last (e # ds)) = None"
      "successively (\<lambda>d p. de_parent_id d = Some (de_id p)) (e # ds)" unfolding e(2) by blast
    then show ?thesis using found fresh Some e(2) by (intro exI[of _ "e # ds"]) simp
  qed
qed

text \<open>
  C35. The chain of causes of a decision is found in every reachable database: the walk over the
  parents ends, without a cycle and without a missing parent, and the chain runs from a decision
  that has no parent to the decision asked for, each one the parent of the next.
\<close>

theorem causal_chain_complete:
  assumes "store_reachable sha s" "d \<in> set (db_decisions s)" "str_trim (de_workspace d) = de_workspace d"
  shows "\<exists>ds. causal_chain (de_id d) (de_workspace d) s = (Inr ds, s) \<and> ds \<noteq> [] \<and> last ds = d
     \<and> de_parent_id (hd ds) = None \<and> successively (\<lambda>p d. de_parent_id d = Some (de_id p)) ds"
proof -
  have "decisions_ok (db_decisions s)"
    using reachable_ok[OF assms(1)] by (simp add: db_ok_def graph_ok_def)
  from causal_loop_ends[OF this assms(2) refl, of "[]" "[]"] obtain ds where
    "causal_loop (db_decisions s) (de_workspace d) (Some (de_id d)) [] [] = Inr (d # ds)"
    "de_parent_id (last (d # ds)) = None"
    "successively (\<lambda>d p. de_parent_id d = Some (de_id p)) (d # ds)" by auto
  moreover have "hd (rev (d # ds)) = last (d # ds)" by (rule hd_rev)
  moreover have "successively (\<lambda>p d. de_parent_id d = Some (de_id p)) (rev (d # ds))"
    using calculation(3) by (simp only: successively_rev)
  ultimately show ?thesis using assms(3)
    by (intro exI[of _ "rev (d # ds)"]) (simp add: causal_chain_def validate_graph_workspace_def evaluate)
qed

theorem causal_chain_complete_witness:
  "map de_id (case fst (causal_chain 2 ''w'' graph_db) of Inr ds \<Rightarrow> ds) = [1, 2]
   \<and> (\<exists>ds. causal_chain 2 ''w'' graph_db = (Inr ds, graph_db) \<and> de_parent_id (hd ds) = None)"
proof
  let ?d = "db_decisions graph_db ! 1"
  have n: "length (db_decisions graph_db) = 2" by code_simp
  have d: "de_id ?d = 2" "de_workspace ?d = ''w''" "str_trim ''w'' = ''w''" by code_simp+
  have "?d \<in> set (db_decisions graph_db)" using n by simp
  from causal_chain_complete[OF graph_reachable this] d
  show "\<exists>ds. causal_chain 2 ''w'' graph_db = (Inr ds, graph_db) \<and> de_parent_id (hd ds) = None" by auto
  show "map de_id (case fst (causal_chain 2 ''w'' graph_db) of Inr ds \<Rightarrow> ds) = [1, 2]" by code_simp
qed

section \<open>Bulk reads\<close>

lemma fact_evidence_summary_eval:
  "str_trim w = w \<Longrightarrow> candidate_evidence_status v w s
     = (Inr (summary_in (filter (\<lambda>e. in_scope w (ee_workspace e)) (db_evidence s)) v), s)"
  by (simp add: candidate_evidence_status_def fact_evidence_summary_def validate_graph_workspace_def
      summary_in_def evaluate sbind_def conj_commute split: option.split)

lemma hydrate_eval:
  "str_trim w = w \<Longrightarrow> hydrate_relation_candidate r w s
     = (Inr (map_relation_candidate r
          (summary_in (filter (\<lambda>e. in_scope w (ee_workspace e)) (db_evidence s)) (rc_source_fact_id r))
          (summary_in (filter (\<lambda>e. in_scope w (ee_workspace e)) (db_evidence s)) (rc_target_fact_id r))), s)"
  by (simp add: hydrate_relation_candidate_def sbind_def[of "candidate_evidence_status _ _"]
      fact_evidence_summary_eval sret_apply)

lemma smapM_reads: "(\<And>x. x \<in> set xs \<Longrightarrow> f x s = (Inr (g x), s)) \<Longrightarrow> smapM f xs s = (Inr (map g xs), s)"
  by (induction xs) (simp_all add: sbind_def sret_def)

lemma in_map_filter_id: "Some i \<in> set xs \<Longrightarrow> i \<in> set (List.map_filter id xs)"
  by (induction xs) (auto simp: map_filter_simps split: option.split)

lemma summary_in_filter:
  assumes "\<And>i. v = Some i \<Longrightarrow> i \<in> ids"
  shows "summary_in (filter (\<lambda>e. ee_fact_id e \<in> ids \<and> q e) es) v = summary_in (filter q es) v"
proof (cases v)
  case (Some i)
  then have "filter (\<lambda>e. ee_fact_id e = i) (filter (\<lambda>e. ee_fact_id e \<in> ids \<and> q e) es)
      = filter (\<lambda>e. ee_fact_id e = i) (filter q es)"
    using assms by (auto intro!: filter_cong)
  then show ?thesis using Some by (simp only: summary_in_def option.case)
qed (simp add: summary_in_def)

text \<open>
  C37. Reading the evidence of a list of candidates with one query gives, for every candidate,
  exactly what reading it for that candidate alone gives.
\<close>

theorem bulk_hydration_agrees:
  assumes "str_trim w = w"
  shows "hydrate_relation_candidates rows w s = smapM (\<lambda>r. hydrate_relation_candidate r w) rows s"
proof -
  have "Some i \<in> set (concat (map (\<lambda>r. [rc_source_fact_id r, rc_target_fact_id r]) rows)) \<Longrightarrow>
      i \<in> set (candidate_fact_ids rows)" for i
    unfolding candidate_fact_ids_def by (rule in_map_filter_id)
  then have ids: "r \<in> set rows \<Longrightarrow> rc_source_fact_id r = Some i \<or> rc_target_fact_id r = Some i \<Longrightarrow>
      i \<in> set (candidate_fact_ids rows)" for r i by force
  show ?thesis
    unfolding hydrate_relation_candidates_def smapM_reads[OF hydrate_eval[OF assms]]
    using assms ids by (simp add: evaluate validate_graph_workspace_def summary_in_filter)
qed

theorem bulk_hydration_agrees_witness:
  "hydrate_relation_candidates (db_candidates graph_db) ''w'' graph_db
     = smapM (\<lambda>r. hydrate_relation_candidate r ''w'') (db_candidates graph_db) graph_db
   \<and> db_candidates graph_db \<noteq> []"
proof
  have "str_trim ''w'' = ''w''" by code_simp
  then show "hydrate_relation_candidates (db_candidates graph_db) ''w'' graph_db
     = smapM (\<lambda>r. hydrate_relation_candidate r ''w'') (db_candidates graph_db) graph_db"
    by (rule bulk_hydration_agrees)
  show "db_candidates graph_db \<noteq> []" by code_simp
qed

section \<open>Neighbourhoods\<close>

text \<open>What a round of the walk keeps: the relations it has collected join entities it has selected.\<close>

definition walk_ok :: "int \<Rightarrow> nat \<Rightarrow> int list \<Rightarrow> relation list \<Rightarrow> walk \<Rightarrow> bool" where
  "walk_ok start limit known relations k \<longleftrightarrow> start \<in> set (wk_selected k) \<and> distinct (wk_selected k)
     \<and> set (wk_selected k) \<subseteq> set known
     \<and> length (wk_selected k) \<le> limit \<and> set (wk_next k) \<subseteq> set (wk_selected k)
     \<and> length (wk_relations k) \<le> limit \<and> distinct (wk_relations k)
     \<and> re_id ` set (wk_relations k) \<subseteq> set (wk_relation_ids k) \<and> set (wk_relations k) \<subseteq> set relations
     \<and> (\<forall>r\<in>set (wk_relations k). re_subject_id r \<in> set (wk_selected k) \<and> re_object_id r \<in> set (wk_selected k))"

lemma neighbor_ends:
  "neighbor frontier r = Some n \<Longrightarrow> set frontier \<subseteq> S \<Longrightarrow> n \<in> S \<Longrightarrow> re_subject_id r \<in> S \<and> re_object_id r \<in> S"
  by (auto simp: neighbor_def split: if_splits)

lemma walk_relation_ok:
  assumes "walk_ok start limit known relations k" "set frontier \<subseteq> set (wk_selected k)" "r \<in> set relations"
  shows "walk_ok start limit known relations (walk_relation limit known frontier r k)"
    "set (wk_selected k) \<subseteq> set (wk_selected (walk_relation limit known frontier r k))"
proof -
  have ends: "neighbor frontier r = Some n \<Longrightarrow> re_subject_id r \<in> insert n (set (wk_selected k))
      \<and> re_object_id r \<in> insert n (set (wk_selected k))" for n
    by (rule neighbor_ends) (use assms(2) in auto)
  show "walk_ok start limit known relations (walk_relation limit known frontier r k)"
    using assms(1,3) ends unfolding walk_relation_def walk_ok_def
    by (auto simp: Let_def image_subset_iff split: option.split)
  show "set (wk_selected k) \<subseteq> set (wk_selected (walk_relation limit known frontier r k))"
    by (auto simp: walk_relation_def Let_def split: option.split)
qed

lemma walk_round_ok:
  assumes "walk_ok start limit known relations k" "set frontier \<subseteq> set (wk_selected k)" "set rs \<subseteq> set relations"
  shows "walk_ok start limit known relations (fold (walk_relation limit known frontier) rs k)"
  using assms
proof (induction rs arbitrary: k)
  case (Cons r rs)
  then show ?case using walk_relation_ok[of start limit known relations k frontier r] by simp
qed simp

lemma walk_rounds_ok:
  assumes "walk_ok start limit known relations k" "set frontier \<subseteq> set (wk_selected k)"
  shows "walk_ok start limit known relations (walk_rounds d limit known relations frontier k)"
  using assms
proof (induction d arbitrary: k frontier)
  case (Suc d)
  let ?k = "fold (walk_relation limit known frontier) relations (k\<lparr>wk_next := []\<rparr>)"
  have "walk_ok start limit known relations ?k"
    using Suc.prems by (intro walk_round_ok) (simp_all add: walk_ok_def)
  then show ?case using Suc.prems(1) Suc.IH[of ?k "wk_next ?k"]
    by (simp add: Let_def) (simp add: walk_ok_def)
qed simp

lemma selected_entities:
  assumes es: "distinct (map en_id es)" and k: "walk_ok (en_id e0) limit (map en_id es) rs k"
    and e0: "e0 \<in> set es"
  defines "out \<equiv> e0 # take (limit - 1) (filter (\<lambda>e. en_id e \<noteq> en_id e0 \<and> en_id e \<in> set (wk_selected k)) es)"
  shows "length out \<le> limit" "distinct (map en_id out)" "set out \<subseteq> set es"
    "i \<in> set (wk_selected k) \<Longrightarrow> i \<in> en_id ` set out"
proof -
  let ?F = "filter (\<lambda>e. en_id e \<noteq> en_id e0 \<and> en_id e \<in> set (wk_selected k)) es"
  let ?S = "set (wk_selected k) - {en_id e0}"
  have d: "distinct (map en_id ?F)" using es by (rule distinct_map_filter)
  have "length ?F = card (set (map en_id ?F))" using distinct_card[OF d] by simp
  also have "\<dots> \<le> card ?S" by (rule card_mono) auto
  also have "\<dots> = length (wk_selected k) - 1"
    using k by (simp add: walk_ok_def card_Diff_singleton distinct_card)
  also have "\<dots> \<le> limit - 1" using k by (simp add: walk_ok_def diff_le_mono)
  finally have F: "take (limit - 1) ?F = ?F" "length ?F \<le> limit - 1" by simp_all
  have "0 < limit" using k by (cases "wk_selected k") (auto simp: walk_ok_def)
  then show "length out \<le> limit" "distinct (map en_id out)" "set out \<subseteq> set es"
    using F d e0 unfolding out_def F(1) by auto
  show "i \<in> en_id ` set out" if "i \<in> set (wk_selected k)"
  proof -
    have "i \<in> set (map en_id es)" using k that by (auto simp: walk_ok_def)
    then show ?thesis using that unfolding out_def F(1) by auto
  qed
qed

lemma find_in_set: "find p xs = Some x \<Longrightarrow> x \<in> set xs"
  by (auto simp: find_Some_iff)

lemma sbind_lists:
  assumes "validate_graph_workspace w = Inr ()"
  shows "sbind (list_entities env w) f s = f (map (map_entity env) (filter (\<lambda>r. er_workspace r = w) (db_entities s))) s"
    "sbind (list_relations w) h s = h (filter (\<lambda>r. re_workspace r = w) (db_relations s)) s"
  by (simp_all add: list_entities_def list_relations_def assms evaluate sbind_def)

text \<open>
  C38. A neighbourhood is a graph within its bounds: at most \<open>limit\<close> entities of the workspace,
  each once, and at most \<open>limit\<close> of its relations, each once and joining two of the entities
  returned.
\<close>

theorem neighborhood_is_a_graph:
  assumes "store_reachable sha s" "graph_neighborhood env query depth limit w s = (Inr g, t)"
  shows "t = s \<and> length (gs_entities g) \<le> limit \<and> length (gs_relations g) \<le> limit
     \<and> distinct (map en_id (gs_entities g)) \<and> distinct (gs_relations g)
     \<and> (\<forall>e\<in>set (gs_entities g). entity_in (db_entities s) w (en_id e))
     \<and> (\<forall>r\<in>set (gs_relations g). r \<in> set (db_relations s) \<and> re_workspace r = w
          \<and> re_subject_id r \<in> en_id ` set (gs_entities g) \<and> re_object_id r \<in> en_id ` set (gs_entities g))"
proof -
  let ?es = "map (map_entity env) (filter (\<lambda>r. er_workspace r = w) (db_entities s))"
  let ?rs = "filter (\<lambda>r. re_workspace r = w) (db_relations s)"
  have "keyed er_id entity_key (db_entities s)"
    using reachable_ok[OF assms(1)] by (simp add: db_ok_def graph_ok_def entities_ok_def)
  then have "distinct (map er_id (filter (\<lambda>r. er_workspace r = w) (db_entities s)))"
    by (simp add: keyed_def distinct_map_filter strict_sorted_iff)
  moreover have "map en_id ?es = map er_id (filter (\<lambda>r. er_workspace r = w) (db_entities s))"
    by (simp add: map_entity_def)
  ultimately have es: "distinct (map en_id ?es)" by metis
  have w: "validate_graph_workspace w = Inr ()"
    using assms(2) by (cases "validate_graph_workspace w") (simp_all add: graph_neighborhood_def evaluate)
  show ?thesis
  proof (cases "blank query \<or> walk_root env query ?es = None")
    case True
    then have "g = \<lparr>gs_entities = [], gs_relations = []\<rparr> \<and> t = s"
      using assms(2) by (cases "depth \<in> {1..2} \<and> limit \<in> {1..200}")
        (auto simp: graph_neighborhood_def sbind_lists[OF w] w evaluate split: if_splits)
    then show ?thesis by simp
  next
    case False
    then obtain e0 where e0: "walk_root env query ?es = Some e0" by blast
    then have start: "e0 \<in> set ?es"
      using find_in_set[of _ ?es] unfolding walk_root_def by (simp split: option.splits)
    let ?k = "walk_rounds depth limit (map en_id ?es) ?rs [en_id e0]
      \<lparr>wk_selected = [en_id e0], wk_relation_ids = [], wk_relations = [], wk_next = []\<rparr>"
    have g: "t = s" "limit \<in> {1..200}" "gs_relations g = wk_relations ?k" "gs_entities g = e0 # take (limit - 1)
        (filter (\<lambda>e. en_id e \<noteq> en_id e0 \<and> en_id e \<in> set (wk_selected ?k)) ?es)"
      using assms(2) e0 False by (cases "depth \<in> {1..2} \<and> limit \<in> {1..200}"; 
        auto simp: graph_neighborhood_def sbind_lists[OF w] w evaluate)+
    have k: "walk_ok (en_id e0) limit (map en_id ?es) ?rs ?k"
      by (rule walk_rounds_ok) (use g(2) start in \<open>auto simp: walk_ok_def\<close>)
    note out = selected_entities[OF es k start, folded g(4)]
    have "entity_in (db_entities s) w (en_id e)" if "e \<in> set ?es" for e
      using that by (auto simp: entity_in_def map_entity_def)
    then show ?thesis using g(1,3) k out by (auto simp: walk_ok_def)
  qed
qed

theorem neighborhood_is_a_graph_witness:
  "\<exists>g. graph_neighborhood example_env ''a'' 2 5 ''w'' graph_db = (Inr g, graph_db)
     \<and> length (gs_entities g) = 2 \<and> length (gs_relations g) = 1 \<and> length (gs_entities g) \<le> 5"
proof -
  have "(case graph_neighborhood example_env ''a'' 2 5 ''w'' graph_db of
      (Inr g, t) \<Rightarrow> length (gs_entities g) = 2 \<and> length (gs_relations g) = 1 | _ \<Rightarrow> False)" by code_simp
  then obtain g t where g: "graph_neighborhood example_env ''a'' 2 5 ''w'' graph_db = (Inr g, t)"
    "length (gs_entities g) = 2" "length (gs_relations g) = 1"
    by (auto split: prod.splits sum.splits)
  with neighborhood_is_a_graph[OF graph_reachable g(1)] show ?thesis by auto
qed

section \<open>Confirmation\<close>

lemma leads_named_reference:
  assumes "parse_i64 (en_name e) = None" "\<And>s. P s \<Longrightarrow> named_entity w e s"
  shows "graph_leads d sha w P (entity_id_for_reference env (en_name e) w) (\<lambda>v s. P s \<and> v = Some (en_id e))"
proof (rule changes.leads_reads, goal_cases)
  case (1 s)
  then obtain r where r: "r \<in> set (db_entities s)" "er_id r = en_id e" "er_name r = en_name e" "er_workspace r = w"
    using assms(2) by (auto simp: named_entity_def)
  have "keyed er_id entity_key (db_entities s)"
    using 1(1) by (simp add: db_ok_def graph_ok_def entities_ok_def)
  then have "find (\<lambda>r. er_name r = en_name e \<and> er_workspace r = w) (db_entities s) = Some r"
    by (rule find_keyed[OF _ r(1)]) (auto simp: entity_key_def r(3,4))
  then show ?case using 1(2) r(2) assms(1)
    by (simp add: entity_id_for_reference_def entity_by_name_def evaluate map_entity_def)
qed

text \<open>A relation that says what a candidate claims, between entities with the names it gives.\<close>

definition realizes :: "string \<Rightarrow> candidate_row \<Rightarrow> int \<Rightarrow> store_db \<Rightarrow> bool" where
  "realizes w c i s \<longleftrightarrow> (\<exists>r\<in>set (db_relations s). \<exists>a\<in>set (db_entities s). \<exists>b\<in>set (db_entities s).
     re_id r = i \<and> re_workspace r = w \<and> re_predicate r = rc_predicate c
     \<and> re_source_fact_id r = rc_source_fact_id c
     \<and> er_id a = re_subject_id r \<and> er_name a = rc_subject c \<and> er_workspace a = w
     \<and> er_id b = re_object_id r \<and> er_name b = rc_object c \<and> er_workspace b = w)"

abbreviation ends :: "string \<Rightarrow> candidate_row \<Rightarrow> entity \<Rightarrow> entity \<Rightarrow> store_db \<Rightarrow> bool" where
  "ends w c a b s \<equiv> has_candidate w c s \<and> named_entity w a s \<and> en_name a = rc_subject c
     \<and> named_entity w b s \<and> en_name b = rc_object c"

lemma realizesI:
  "r \<in> set (db_relations s) \<Longrightarrow> ends w c a b s \<Longrightarrow> re_workspace r = w \<Longrightarrow> re_subject_id r = en_id a \<Longrightarrow>
     re_predicate r = rc_predicate c \<Longrightarrow> re_object_id r = en_id b \<Longrightarrow>
     re_source_fact_id r = rc_source_fact_id c \<Longrightarrow> realizes w c (re_id r) s"
  unfolding realizes_def named_entity_def by fastforce

lemma insert_fresh_relation:
  assumes r: "\<And>rows. r rows = \<lparr>re_id = next_id (map re_id rows), re_subject_id = en_id a,
      re_predicate = rc_predicate c, re_object_id = en_id b,
      re_source_fact_id = rc_source_fact_id c, re_workspace = w\<rparr>"
  shows "graph_leads d sha w
     (\<lambda>s. ends w c a b s \<and> fact_ref (db_facts s) w (rc_source_fact_id c)
        \<and> find (\<lambda>r. re_subject_id r = en_id a \<and> re_predicate r = rc_predicate c
            \<and> re_object_id r = en_id b \<and> re_workspace r = w) (db_relations s) = None)
     (sbind (sql_insert_or_ignore db_relations db_relations_update same_relation relation_fk r) (\<lambda>_.
      sbind (relation_by_key (en_id a) (rc_predicate c) (en_id b) w) (\<lambda>r. readable ''relation insert'' r)))
     (\<lambda>x s. has_candidate w c s \<and> realizes w c (re_id x) s)"
proof (rule changes.leads_step, goal_cases)
  case (1 s)
  let ?r = "r (db_relations s)"
  have ends: "ends w c a b s" using 1(2) by blast
  have clash: "\<not> list_ex (same_relation ?r) (db_relations s)"
    using 1(2) by (auto simp: list_ex_iff same_relation_def r find_None_iff)
  have ref: "entity_in (db_entities s) w (en_id a)" "entity_in (db_entities s) w (en_id b)"
    using ends by (auto simp: entity_in_def named_entity_def)
  have fk: "relation_fk s ?r"
    using 1(2) ref by (auto simp: relation_fk_def has_entity_def has_fact_def entity_in_def fact_ref_def
        list_ex_iff r split: option.split)
  have "change d sha w s (s\<lparr>db_relations := db_relations s @ [?r]\<rparr>)"
    using 1(2) ref by (intro relation_added) (auto simp: find_None_iff relation_key_def relation_ok_def r)
  moreover have "realizes w c (re_id ?r) (s\<lparr>db_relations := db_relations s @ [?r]\<rparr>)"
    by (rule realizesI[of _ _ _ _ a b]) (use ends in \<open>auto simp: r named_entity_def has_candidate_def\<close>)
  ultimately show ?case using clash fk 1(2)
    by (simp add: evaluate graph_appends relation_by_key_def find_append has_candidate_def r)
qed

abbreviation fresh_ends :: "string \<Rightarrow> candidate_row \<Rightarrow> entity \<Rightarrow> entity \<Rightarrow> store_db \<Rightarrow> bool" where
  "fresh_ends w c a b s \<equiv> ends w c a b s \<and> fact_ref (db_facts s) w (rc_source_fact_id c)
     \<and> find (\<lambda>r. re_subject_id r = en_id a \<and> re_predicate r = rc_predicate c
         \<and> re_object_id r = en_id b \<and> re_workspace r = w) (db_relations s) = None"

lemma leads_fresh_relation:
  assumes names: "parse_i64 (rc_subject c) = None" "parse_i64 (rc_object c) = None"
  shows "graph_leads d sha w (fresh_ends w c a b)
     (remember_relation env \<lparr>ls_subject = en_name a, ls_predicate = rc_predicate c,
        ls_object = en_name b, ls_source_fact_id = rc_source_fact_id c, ls_workspace = w\<rparr>)
     (\<lambda>r s. has_candidate w c s \<and> realizes w c (re_id r) s)"
proof (rule changes.leads_known[where k = "en_name a = rc_subject c \<and> en_name b = rc_object c"])
  show "fresh_ends w c a b s \<Longrightarrow> en_name a = rc_subject c \<and> en_name b = rc_object c" for s by blast
  assume k: "en_name a = rc_subject c \<and> en_name b = rc_object c"
  let ?P = "fresh_ends w c a b"
  have a: "graph_leads d sha w ?P (entity_id_for_reference env (en_name a) w) (\<lambda>v s. ?P s \<and> v = Some (en_id a))"
    by (rule leads_named_reference) (use names k in simp_all)
  have b: "graph_leads d sha w (\<lambda>s. ?P s \<and> v = Some (en_id a)) (entity_id_for_reference env (en_name b) w)
      (\<lambda>v s. ?P s \<and> v = Some (en_id b))" for v
    by (rule changes.leads_pre[OF leads_named_reference[where P = ?P]]) (use names k in simp_all)
  have i: "graph_leads d sha w ?P
     (sbind (sql_insert_or_ignore db_relations db_relations_update same_relation relation_fk
        (\<lambda>rows. \<lparr>re_id = next_id (map re_id rows), re_subject_id = en_id a,
           re_predicate = rc_predicate c, re_object_id = en_id b,
           re_source_fact_id = rc_source_fact_id c, re_workspace = w\<rparr>)) (\<lambda>_.
      sbind (relation_by_key (en_id a) (rc_predicate c) (en_id b) w) (\<lambda>r. readable ''relation insert'' r)))
     (\<lambda>x s. has_candidate w c s \<and> realizes w c (re_id x) s)"
    by (rule changes.leads_pre[OF insert_fresh_relation[where a = a and b = b]]) simp_all
  show "graph_leads d sha w ?P
     (remember_relation env \<lparr>ls_subject = en_name a, ls_predicate = rc_predicate c,
        ls_object = en_name b, ls_source_fact_id = rc_source_fact_id c, ls_workspace = w\<rparr>)
     (\<lambda>r s. has_candidate w c s \<and> realizes w c (re_id r) s)"
    unfolding remember_relation_def relation_spec.simps entity_not_found_Inr
    apply (rule changes.leads_lift, rule changes.leads_sbind[OF a], rule changes.leads_lift)
    apply (rule changes.leads_known[where k = "aa = en_id a" for aa], simp add: entity_not_found_Inr)
    apply (hypsubst, rule changes.leads_sbind[OF b], rule changes.leads_lift)
    apply (rule changes.leads_known[where k = "aa = en_id b" for aa], simp add: entity_not_found_Inr)
    apply (hypsubst, rule changes.leads_sbind[OF leads_fact_check])
    apply (rule changes.leads_pre[OF i], blast)
    done
qed

lemma leads_promoted_realizes:
  assumes names: "parse_i64 (rc_subject c) = None" "parse_i64 (rc_object c) = None"
    and c: "rc_status c \<noteq> ''confirmed''"
  shows "graph_leads d sha w (\<lambda>s. has_candidate w c s \<and> fact_ref (db_facts s) w (rc_source_fact_id c))
     (promoted_relation env c w) (\<lambda>i s. has_candidate w c s \<and> realizes w c i s)"
  unfolding promoted_relation_def
proof (rule changes.leads_sbind[OF leads_remember_entity], goal_cases)
  case (3 a)
  let ?ref = "\<lambda>s. fact_ref (db_facts s) w (rc_source_fact_id c)"
  let ?found = "\<lambda>b s. find (\<lambda>r. re_subject_id r = en_id a \<and> re_predicate r = rc_predicate c
    \<and> re_object_id r = en_id b \<and> re_workspace r = w) (db_relations s)"
  show ?case
  proof (rule changes.leads_sbind[OF leads_remember_entity], goal_cases)
    case (3 b)
    show ?case
    proof (rule changes.leads_sbind[where Q = "\<lambda>v s. ends w c a b s \<and> ?ref s \<and> v = ?found b s"], goal_cases)
      case 1
      show ?case by (rule changes.leads_reads) (simp add: relation_by_key_def sql_simps concept_def)
    next
      case (2 found)
      show ?case
      proof (rule changes.leads_option, goal_cases)
        case (2 r)
        show ?case
          by (rule changes.leads_if, rule changes.leads_sbind[OF leads_mark_conflict[OF c]], blast,
              rule changes.leads_basic, rule changes.leads_basic)
            (use 2 in \<open>auto intro!: realizesI[of _ _ _ _ a b] dest!: sym[of "Some r"] simp: find_Some_iff\<close>)
      next
        case 1
        show ?case
          by (rule changes.leads_sbind[OF changes.leads_pre[OF leads_fresh_relation[OF names, where a = a and b = b]]],
              simp add: 1, rule changes.leads_basic)
      qed
    qed
  qed (auto simp: concept_def stays named_entity_def)
qed (simp_all add: concept_def stays)

text \<open>The row that a confirmation leaves.\<close>

definition promoted :: "string \<Rightarrow> candidate_row \<Rightarrow> string \<Rightarrow> string \<Rightarrow> store_db \<Rightarrow> bool" where
  "promoted w c reviewer note s \<longleftrightarrow> (\<exists>i. realizes w c i s \<and> (\<exists>c'\<in>set (db_candidates s).
     same_claim c c' \<and> rc_status c' = ''confirmed'' \<and> rc_relation_id c' = Some i
     \<and> rc_reviewer c' = reviewer \<and> rc_review_note c' = note))"

lemma leads_review_promotes:
  "graph_leads d sha w (\<lambda>s. has_candidate w c s \<and> realizes w c i s)
     (sql_update db_candidates_update (\<lambda>r. rc_id r = rc_id c \<and> rc_workspace r = w)
        (\<lambda>r. r\<lparr>rc_status := ''confirmed'', rc_relation_id := Some i, rc_reviewer := reviewer,
           rc_review_note := note, rc_updated_at := t\<rparr>))
     (\<lambda>_. promoted w c reviewer note)"
  if "rc_status c = ''candidate''"
proof (rule changes.leads_step, goal_cases)
  case (1 s)
  let ?g = "\<lambda>r. r\<lparr>rc_status := ''confirmed'', rc_relation_id := Some i, rc_reviewer := reviewer,
    rc_review_note := note, rc_updated_at := t\<rparr>"
  let ?p = "\<lambda>r. rc_id r = rc_id c \<and> rc_workspace r = w"
  have c: "c \<in> set (db_candidates s)" "?p c" using 1(2) by (simp_all add: has_candidate_def)
  have "change d sha w s (db_candidates_update (update_rows ?p ?g) s)"
    by (rule move_candidate[OF 1(1) c(1)])
      (use 1(2) that confirmed in \<open>auto simp: has_candidate_def has_relation_def realizes_def\<close>)
  moreover have "?g c \<in> set (update_rows ?p ?g (db_candidates s))"
    using c by (force simp: set_update_rows image_iff)
  then have "promoted w c reviewer note (db_candidates_update (update_rows ?p ?g) s)"
    using 1(2) unfolding promoted_def realizes_def
    by (auto simp: same_claim_def intro!: exI[of _ i] bexI[of _ "?g c"])
  ultimately show ?case by (simp add: sql_simps)
qed

lemma leads_confirm_promotes:
  assumes c: "rc_status c = ''candidate''" "parse_i64 (rc_subject c) = None" "parse_i64 (rc_object c) = None"
    and w: "rc_workspace c = w" "validate_graph_workspace w = Inr ()" "0 < rc_id c"
  shows "graph_leads d sha w (has_candidate w c)
     (confirm_relation_candidate env (rc_id c) reviewer note w) (\<lambda>_. promoted w c reviewer note)"
proof -
  have b: "graph_leads d sha w (has_candidate w c) (relation_candidate_by_id (rc_id c) w)
      (\<lambda>v s. has_candidate w c s \<and> v = Some c)"
  proof (rule changes.leads_reads, goal_cases)
    case (1 s)
    then have "find (\<lambda>r. rc_id r = rc_id c \<and> rc_workspace r = w) (db_candidates s) = Some c"
      by (intro find_keyed_id[OF candidate_keyed]) (auto simp: has_candidate_def)
    with 1(2) show ?case by (simp add: relation_candidate_by_id_def sql_simps)
  qed
  have tail: "graph_leads d sha w (promoted w c reviewer note)
      (sbind (relation_candidate_by_id (rc_id c) w) (\<lambda>r. hydrate_found r w)) (\<lambda>_. promoted w c reviewer note)"
    by (rule changes.leads_sbind[OF leads_candidate_by(1)], rule changes.leads_post[OF leads_hydrate(2)]) simp
  have main: "graph_leads d sha w (\<lambda>s. has_candidate w c s \<and> found = Some c)
      (case found of None \<Rightarrow> sret None | Some c \<Rightarrow>
         if rc_status c = ''confirmed'' then hydrate_found (Some c) w
         else if rc_status c \<noteq> ''candidate'' then sfail (e c)
         else k c) (\<lambda>_. promoted w c reviewer note)"
    if "graph_leads d sha w (has_candidate w c) (k c) (\<lambda>_. promoted w c reviewer note)" for found e k
    by (rule changes.leads_known[where k = "found = Some c"], blast)
      (simp add: c(1), rule changes.leads_pre[OF that], blast)
  show ?thesis
    unfolding confirm_relation_candidate_def
    by (rule changes.leads_lift, rule changes.leads_lift, rule changes.leads_sbind[OF b], rule main,
        rule changes.leads_sbind[OF leads_validate_candidate_fact_and_evidence],
        rule changes.leads_sbind[OF leads_validate_candidate_fact_and_evidence],
        rule changes.leads_sbind[OF changes.leads_pre[OF leads_promoted_realizes[OF c(2,3)]]],
        simp add: c(1), blast,
        rule changes.leads_sbind[OF leads_review_promotes[OF c(1)] tail])
qed



section \<open>Export\<close>

lemma rdf_line_ends:
  assumes "rdf_line s r = Some l"
  shows "\<exists>x. l = x @ [CHR 0x0A] \<and> CHR 0x0A \<notin> set x \<and> CHR 0x0D \<notin> set x"
  using assms escape_rdf_one_line by (auto simp: rdf_line_def split: option.splits)

text \<open>
  The RDF export of a workspace has one line for each of its relations, whatever the names of
  the entities and the predicates are: a line break in them is escaped.
\<close>

theorem rdf_has_a_line_per_relation:
  assumes "store_reachable sha s" "str_trim w = w"
  shows "\<exists>ls. export_rdf w s = (Inr (concat (map (\<lambda>l. l @ [CHR 0x0A]) ls)), s)
     \<and> length ls = length (filter (\<lambda>r. re_workspace r = w) (db_relations s))
     \<and> (\<forall>l\<in>set ls. CHR 0x0A \<notin> set l \<and> CHR 0x0D \<notin> set l)"
proof -
  let ?rs = "filter (\<lambda>r. re_workspace r = w) (db_relations s)"
  have known: "\<exists>l. rdf_line s r = Some l" if "r \<in> set ?rs" for r
  proof -
    have "relation_ok (db_facts s) (db_entities s) r"
      using reachable_ok[OF assms(1)] that by (simp add: db_ok_def graph_ok_def relations_ok_def)
    then have "find (\<lambda>e. er_id e = re_subject_id r) (db_entities s) \<noteq> None"
      "find (\<lambda>e. er_id e = re_object_id r) (db_entities s) \<noteq> None"
      by (auto simp: relation_ok_def entity_in_def find_None_iff)
    then show ?thesis by (auto simp: rdf_line_def)
  qed
  have "\<exists>ls. List.map_filter (rdf_line s) rs = map (\<lambda>l. l @ [CHR 0x0A]) ls \<and> length ls = length rs
      \<and> (\<forall>l\<in>set ls. CHR 0x0A \<notin> set l \<and> CHR 0x0D \<notin> set l)" if "set rs \<subseteq> set ?rs" for rs
    using that
  proof (induction rs)
    case (Cons r rs)
    then obtain ls where ls: "List.map_filter (rdf_line s) rs = map (\<lambda>l. l @ [CHR 0x0A]) ls"
      "length ls = length rs" "\<forall>l\<in>set ls. CHR 0x0A \<notin> set l \<and> CHR 0x0D \<notin> set l" by auto
    obtain l where "rdf_line s r = Some l" using known[of r] Cons.prems by auto
    with rdf_line_ends obtain x where "rdf_line s r = Some (x @ [CHR 0x0A])"
      "CHR 0x0A \<notin> set x" "CHR 0x0D \<notin> set x" by blast
    with ls show ?case by (intro exI[of _ "x # ls"]) (simp add: map_filter_simps)
  qed (simp add: map_filter_simps)
  from this[OF subset_refl] show ?thesis
    using assms(2) by (auto simp: export_rdf_def validate_graph_workspace_def evaluate)
qed

theorem rdf_has_a_line_per_relation_witness:
  "\<exists>l. export_rdf ''w'' graph_db = (Inr (l @ [CHR 0x0A]), graph_db) \<and> CHR 0x0A \<notin> set l"
proof -
  have "str_trim ''w'' = ''w''" "length (filter (\<lambda>r. re_workspace r = ''w'') (db_relations graph_db)) = 1"
    by code_simp+
  with rdf_has_a_line_per_relation[OF graph_reachable, of "''w''"] show ?thesis
    by (auto simp: length_Suc_conv)
qed

text \<open>
  A name may hold the characters that close it, so that a line does not tell its triple: two
  different triples have the same line.
\<close>

lemma rdf_triples_ambiguous:
  "''<'' @ escape_rdf ''a> <b'' @ ''> <'' @ escape_rdf ''c'' @ ''> <'' @ escape_rdf ''d'' @ ''> .''
   = ''<'' @ escape_rdf ''a'' @ ''> <'' @ escape_rdf ''b> <c'' @ ''> <'' @ escape_rdf ''d'' @ ''> .''"
  by simp

end
