(* ===== verification/ProtocolArgs.thy ===== *)
theory ProtocolArgs
  imports StoreGenerate Json
begin

text \<open>
  The request layer of \<open>src/protocol.rs\<close>: JSON-RPC dispatch, the results of tools, and the readers
  of tool arguments. The tool call itself and the advertised tools are arguments of the
  dispatcher; writing and reading JSON text (\<open>serde_json\<close>) is a parameter.
\<close>

section \<open>Objects\<close>

text \<open>Inserting into a \<open>serde_json::Map\<close>, and the \<open>json!\<close> macro.\<close>

fun jinsert :: "string \<Rightarrow> json \<Rightarrow> json_map \<Rightarrow> json_map" where
  "jinsert k v [] = [(k, v)]"
| "jinsert k v ((l, u) # m) =
     (if k = l then (k, v) # m
      else if k < l then (k, v) # (l, u) # m
      else (l, u) # jinsert k v m)"

definition jobject :: "json_map \<Rightarrow> json" where
  "jobject kvs = JObject (fold (\<lambda>(k, v) m. jinsert k v m) kvs [])"

definition has_arg :: "json_map \<Rightarrow> string \<Rightarrow> bool" where
  "has_arg m k \<longleftrightarrow> jget m k \<noteq> None"

lemma jget_jinsert: "jget (jinsert k v m) l = (if l = k then Some v else jget m l)"
  by (induction k v m rule: jinsert.induct) (auto simp: jget_def)

lemma jget_fold:
  "jget (fold (\<lambda>(k, v) m. jinsert k v m) kvs m) l = or_else (map_of (rev kvs) l) (jget m l)"
  by (induction kvs arbitrary: m) (auto simp: jget_jinsert map_add_def split: option.split)

text \<open>\<open>as_f64\<close>: an integer is rounded to 53 bits, ties to even.\<close>

definition int_f64 :: "int \<Rightarrow> f64" where
  "int_f64 i =
     (let n = nat (abs i); k = bit_length n - 53
      in Finite (of_int (sgn i * round_half_even (of_nat n / 2 ^ k)) * 2 ^ k))"

fun as_f64 :: "json \<Rightarrow> f64 option" where
  "as_f64 (JInt i) = Some (int_f64 i)"
| "as_f64 (JFloat r) = Some (Finite r)"
| "as_f64 _ = None"

text \<open>\<open>Value::get\<close> of a key.\<close>

fun field :: "json \<Rightarrow> string \<Rightarrow> json option" where
  "field (JObject m) k = jget m k"
| "field _ k = None"

lemma field_jobject [simp]: "field (jobject kvs) l = map_of (rev kvs) l"
  using jget_fold[of kvs "[]" l] by (cases "map_of (rev kvs) l") (simp_all add: jobject_def jget_def)

section \<open>Errors\<close>

datatype call_error =
    InvalidCall string
  | ExecutionCall store_error

definition call_error_to_store_error :: "call_error \<Rightarrow> store_error" where
  "call_error_to_store_error e =
     (case e of InvalidCall message \<Rightarrow> SInvalid message | ExecutionCall x \<Rightarrow> x)"

type_synonym 'a call = "call_error + 'a"

definition invalid :: "string \<Rightarrow> 'a call" where
  "invalid message = Inl (InvalidCall message)"

definition some_or :: "string \<Rightarrow> 'a option \<Rightarrow> 'a call" where
  "some_or message v = (case v of None \<Rightarrow> invalid message | Some a \<Rightarrow> Inr a)"

definition on_error :: "'a call \<Rightarrow> 'a call \<Rightarrow> 'a call" where
  "on_error a b = (case a of Inl _ \<Rightarrow> b | Inr x \<Rightarrow> Inr x)"

section \<open>Responses\<close>

definition result_response :: "json \<Rightarrow> json \<Rightarrow> json" where
  "result_response ident result =
     jobject [(''jsonrpc'', JString ''2.0''), (''id'', ident), (''result'', result)]"

definition error_response :: "json \<Rightarrow> int \<Rightarrow> string \<Rightarrow> json" where
  "error_response ident number message =
     jobject [(''jsonrpc'', JString ''2.0''), (''id'', ident),
       (''error'', jobject [(''code'', JInt number), (''message'', JString message)])]"

definition tool_result :: "(json \<Rightarrow> string) \<Rightarrow> json \<Rightarrow> json" where
  "tool_result render result =
     jobject [(''content'', JArray [jobject [(''type'', JString ''text''), (''text'', JString (render result))]]),
       (''isError'', JBool (field result ''error'' \<noteq> None))]"

definition DEFAULT_PROTOCOL_VERSION :: string where "DEFAULT_PROTOCOL_VERSION = ''2024-11-05''"
definition SERVER_NAME :: string where "SERVER_NAME = ''memory-mcp''"
definition SERVER_VERSION :: string where "SERVER_VERSION = ''0.23.0''"

definition initialize_result :: "json_map \<Rightarrow> json" where
  "initialize_result request = jobject
     [(''protocolVersion'', JString
         (case Option.bind (Option.bind (jget request ''params'') (\<lambda>p. field p ''protocolVersion'')) as_str of
            None \<Rightarrow> DEFAULT_PROTOCOL_VERSION | Some v \<Rightarrow> v)),
      (''capabilities'', jobject [(''tools'', jobject [(''listChanged'', JBool False)])]),
      (''serverInfo'', jobject [(''name'', JString SERVER_NAME), (''version'', JString SERVER_VERSION)])]"

definition execution_failed :: json where
  "execution_failed = jobject
     [(''content'', JArray [jobject [(''type'', JString ''text''),
         (''text'', JString (''{'' @ [CHR 0x22] @ ''error'' @ [CHR 0x22] @ '':'' @ [CHR 0x22]
            @ ''tool execution failed'' @ [CHR 0x22] @ ''}''))]]),
      (''isError'', JBool True)]"

definition or_null :: "json option \<Rightarrow> json" where
  "or_null v = (case v of None \<Rightarrow> JNull | Some x \<Rightarrow> x)"

text \<open>
  A request is answered with its id; one without an id is a notification, which is carried out
  and not answered, except that a missing method is always reported.
\<close>

definition handle_request_with ::
    "(json option \<Rightarrow> ('s, call_error, json) sm) \<Rightarrow> json list \<Rightarrow> json \<Rightarrow> 's \<Rightarrow> json option \<times> 's" where
  "handle_request_with call_tool tools request s =
     (case as_object request of
        None \<Rightarrow> (Some (error_response JNull (-32600) ''Invalid Request''), s)
      | Some object \<Rightarrow>
          let ident = jget object ''id''; answer = (\<lambda>r. if ident = None then None else Some r) in
          if Option.bind (jget object ''jsonrpc'') as_str \<noteq> Some ''2.0''
          then (answer (error_response (or_null ident) (-32600) ''Invalid Request''), s)
          else
            case Option.bind (jget object ''method'') as_str of
              None \<Rightarrow> (Some (error_response (or_null ident) (-32600) ''Invalid Request''), s)
            | Some m \<Rightarrow>
                if m = ''initialize''
                then (answer (result_response (or_null ident) (initialize_result object)), s)
                else if m = ''tools/list''
                then (answer (result_response (or_null ident) (jobject [(''tools'', JArray tools)])), s)
                else if m = ''tools/call''
                then
                  (case call_tool (jget object ''params'') s of
                     (Inr result, t) \<Rightarrow> (answer (result_response (or_null ident) result), t)
                   | (Inl (InvalidCall message), t) \<Rightarrow>
                       (answer (error_response (or_null ident) (-32602) message), t)
                   | (Inl (ExecutionCall _), t) \<Rightarrow>
                       (answer (result_response (or_null ident) execution_failed), t))
                else (answer (error_response (or_null ident) (-32601) ''Method not found''), s))"

definition handle_line ::
    "(string \<Rightarrow> json option) \<Rightarrow> (json option \<Rightarrow> ('s, call_error, json) sm) \<Rightarrow> json list \<Rightarrow> string \<Rightarrow> 's \<Rightarrow>
     json option \<times> 's" where
  "handle_line parse call_tool tools line s =
     (case parse line of
        Some request \<Rightarrow> handle_request_with call_tool tools request s
      | None \<Rightarrow> (Some (error_response JNull (-32700) ''Parse error''), s))"

section \<open>Arguments\<close>

definition not_a :: "string \<Rightarrow> string \<Rightarrow> string" where
  "not_a key what = ''tool argument '' @ key @ '' must be '' @ what"

definition required_string :: "json_map \<Rightarrow> string \<Rightarrow> string call" where
  "required_string arguments key =
     some_or (not_a key ''a string'') (Option.bind (jget arguments key) as_str)"

definition optional_string :: "json_map \<Rightarrow> string \<Rightarrow> string option call" where
  "optional_string arguments key =
     (case jget arguments key of
        None \<Rightarrow> Inr None
      | Some v \<Rightarrow> some_or (not_a key ''a string'') (map_option Some (as_str v)))"

definition string_item :: "string \<Rightarrow> json \<Rightarrow> string call" where
  "string_item key v = some_or (''tool argument '' @ key @ '' must contain strings'') (as_str v)"

definition optional_string_array :: "json_map \<Rightarrow> string \<Rightarrow> string list option call" where
  "optional_string_array arguments key =
     (case jget arguments key of
        None \<Rightarrow> Inr None
      | Some v \<Rightarrow>
          rbind (some_or (not_a key ''an array'') (as_array v)) (\<lambda>values.
          rbind (rmapM (string_item key) values) (\<lambda>xs. Inr (Some xs))))"

text \<open>The first of several keys that is present, with its value.\<close>

definition find_arg :: "json_map \<Rightarrow> string list \<Rightarrow> (string \<times> json) option" where
  "find_arg arguments keys =
     (case filter (has_arg arguments) keys of
        [] \<Rightarrow> None
      | k # _ \<Rightarrow> Some (k, the (jget arguments k)))"

definition required_string_array :: "json_map \<Rightarrow> string list \<Rightarrow> string list call" where
  "required_string_array arguments keys =
     rbind (some_or (not_a (join '' or '' keys) ''an array of strings'') (find_arg arguments keys)) (\<lambda>(key, v).
     rbind (some_or (not_a key ''an array of strings'') (as_array v)) (\<lambda>values.
     rmapM (string_item key) values))"

fun single_string :: "json_map \<Rightarrow> string list \<Rightarrow> string list call" where
  "single_string arguments [] = invalid ''tool requires text or an array of texts''"
| "single_string arguments (k # ks) =
     rbind (optional_string arguments k) (\<lambda>v.
     case v of Some x \<Rightarrow> Inr [x] | None \<Rightarrow> single_string arguments ks)"

definition string_array_or_single :: "json_map \<Rightarrow> string list \<Rightarrow> string list \<Rightarrow> string list call" where
  "string_array_or_single arguments array_keys single_keys =
     (case find_arg arguments array_keys of
        Some (key, _) \<Rightarrow>
          rbind (optional_string_array arguments key) (\<lambda>xs.
          Inr (case xs of None \<Rightarrow> [] | Some v \<Rightarrow> v))
      | None \<Rightarrow> single_string arguments single_keys)"

definition optional_text_or_json :: "(json \<Rightarrow> string) \<Rightarrow> json_map \<Rightarrow> string list \<Rightarrow> string call" where
  "optional_text_or_json render arguments keys =
     (case find_arg arguments keys of
        None \<Rightarrow> Inr []
      | Some (_, v) \<Rightarrow> Inr (case as_str v of Some text \<Rightarrow> text | None \<Rightarrow> render v))"

definition optional_usize :: "json_map \<Rightarrow> string list \<Rightarrow> nat \<Rightarrow> nat call" where
  "optional_usize arguments keys dflt =
     (case find_arg arguments keys of
        None \<Rightarrow> Inr dflt
      | Some (key, v) \<Rightarrow> some_or (not_a key ''a non-negative integer'') (as_u64 v))"

definition optional_i64 :: "json_map \<Rightarrow> string list \<Rightarrow> int option call" where
  "optional_i64 arguments keys =
     (case find_arg arguments keys of
        None \<Rightarrow> Inr None
      | Some (key, v) \<Rightarrow> some_or (not_a key ''an integer'') (map_option Some (as_i64 v)))"

definition optional_bool :: "json_map \<Rightarrow> string list \<Rightarrow> bool \<Rightarrow> bool call" where
  "optional_bool arguments keys dflt =
     (case find_arg arguments keys of
        None \<Rightarrow> Inr dflt
      | Some (key, v) \<Rightarrow> some_or (not_a key ''a boolean'') (as_bool v))"

definition optional_f64 :: "json_map \<Rightarrow> string \<Rightarrow> f64 option call" where
  "optional_f64 arguments key =
     (case jget arguments key of
        None \<Rightarrow> Inr None
      | Some v \<Rightarrow> some_or (not_a key ''a number'') (map_option Some (as_f64 v)))"

definition required_f64 :: "json_map \<Rightarrow> string \<Rightarrow> f64 call" where
  "required_f64 arguments key = some_or (not_a key ''a number'') (Option.bind (jget arguments key) as_f64)"

definition required_i64 :: "json_map \<Rightarrow> string \<Rightarrow> int call" where
  "required_i64 arguments key = some_or (not_a key ''an integer'') (Option.bind (jget arguments key) as_i64)"

definition fact_filters_of :: "json_map \<Rightarrow> fact_filters call" where
  "fact_filters_of arguments =
     rbind (optional_string arguments ''source'') (\<lambda>source.
     rbind (optional_string arguments ''project'') (\<lambda>project.
     rbind (optional_string arguments ''domain'') (\<lambda>domain.
     rbind (optional_string arguments ''trust'') (\<lambda>trust.
     rbind (if has_arg arguments ''strong''
            then rbind (optional_bool arguments [''strong''] False) (\<lambda>b. Inr (Some b))
            else Inr None) (\<lambda>strong.
     Inr \<lparr>ff_source = source, ff_project = project, ff_domain = domain, ff_trust = trust,
       ff_strong = strong\<rparr>)))))"

definition workspace_value_of :: "json_map \<Rightarrow> json option" where
  "workspace_value_of arguments = or_else (jget arguments ''workspace'') (jget arguments ''workspace_id'')"

definition required_context_workspace :: "json_map \<Rightarrow> string call" where
  "required_context_workspace arguments =
     (let e = ''context tools require a non-empty workspace or workspace_id'' in
      rbind (some_or e (Option.bind (workspace_value_of arguments) as_str)) (\<lambda>workspace.
      if blank workspace then invalid e else Inr workspace))"

definition optional_workspace :: "json_map \<Rightarrow> string call" where
  "optional_workspace arguments =
     (case workspace_value_of arguments of
        None \<Rightarrow> Inr []
      | Some v \<Rightarrow> some_or ''workspace must be a string'' (as_str v))"

definition workspace_argument :: "json_map \<Rightarrow> string call" where
  "workspace_argument arguments =
     some_or ''workspace tool requires workspace_id, workspace, or name''
       (or_else (get_str arguments ''workspace_id'')
         (or_else (get_str arguments ''workspace'') (get_str arguments ''name'')))"

definition database_name_argument :: "json_map \<Rightarrow> string call" where
  "database_name_argument arguments =
     on_error (required_string arguments ''name'') (required_string arguments ''database'')"

section \<open>Answers\<close>

text \<open>An answer carries the id and either a result or an error.\<close>

definition answers :: "json \<Rightarrow> json \<Rightarrow> bool" where
  "answers i r \<longleftrightarrow> field r ''id'' = Some i \<and> (field r ''result'' = None \<longleftrightarrow> field r ''error'' \<noteq> None)"

lemma answers_simps [simp]:
  "answers i (result_response i x)" "answers i (error_response i n e)"
  "field (error_response i n e) ''error''
     = Some (jobject [(''code'', JInt n), (''message'', JString e)])"
  by (simp_all add: answers_def result_response_def error_response_def)

text \<open>
  C39. A request with an id is answered once, with its id and either a result or an error,
  whatever the tool does. A notification is not answered, unless it names no method: then an
  error with the id null is sent.
\<close>

theorem requests_are_answered:
  "case fst (handle_request_with call_tool tools (JObject m) s) of
     None \<Rightarrow> jget m ''id'' = None
   | Some a \<Rightarrow> answers (or_null (jget m ''id'')) a
       \<and> (jget m ''id'' = None \<longrightarrow> get_str m ''method'' = None \<and> field a ''error'' \<noteq> None)"
proof (cases "jget m ''id''")
  case None
  then show ?thesis
    by (simp add: handle_request_with_def Let_def or_null_def get_str_def
        split: option.split sum.split call_error.split prod.split)
next
  case (Some i)
  then show ?thesis
    by (simp add: handle_request_with_def Let_def or_null_def get_str_def
        split: option.split sum.split call_error.split prod.split)
qed

theorem requests_are_answered_witness:
  "case fst (handle_request_with (\<lambda>p. sret JNull) [] (JObject [(''jsonrpc'', JString ''2.0'')]) (0 :: nat)) of
     None \<Rightarrow> False
   | Some a \<Rightarrow> answers JNull a \<and> field a ''error'' \<noteq> None"
proof -
  let ?m = "[(''jsonrpc'', JString ''2.0'')]"
  have none: "jget ?m ''id'' = None" and version: "jget ?m ''jsonrpc'' = Some (JString ''2.0'')"
    and no_method: "jget ?m ''method'' = None"
    by (simp_all add: jget_def)
  have "fst (handle_request_with (\<lambda>p. sret JNull) [] (JObject ?m) (0 :: nat)) \<noteq> None"
    by (simp add: handle_request_with_def Let_def none version no_method)
  then show ?thesis
    using requests_are_answered[where call_tool = "\<lambda>p. sret JNull" and tools = "[]" and m = ?m and s = "0 :: nat"] none
    by (simp add: or_null_def split: option.splits)
qed

end
