(* ===== verification/ProtocolSanitize.thy ===== *)
theory ProtocolSanitize
  imports ProtocolArgs
begin

text \<open>
  The sanitizer of captured events in \<open>src/protocol.rs\<close>: what is written about an event leaves out
  excluded paths, redacts the values of sensitive keys and sensitive strings, and is cut to size.
\<close>

section \<open>Limits\<close>

definition MAX_EVENT_STRING_BYTES :: nat where "MAX_EVENT_STRING_BYTES = 4096"
definition MAX_EVENT_EXCLUDE_PATHS :: nat where "MAX_EVENT_EXCLUDE_PATHS = 32"
definition MAX_EVENT_PATH_BYTES :: nat where "MAX_EVENT_PATH_BYTES = 256"
definition REDACTED_EVENT_VALUE :: string where "REDACTED_EVENT_VALUE = ''[REDACTED]''"

section \<open>Texts\<close>

definition starts_with :: "string \<Rightarrow> string \<Rightarrow> bool" where
  "starts_with s p \<longleftrightarrow> take (length p) s = p"

definition ends_with :: "string \<Rightarrow> string \<Rightarrow> bool" where
  "ends_with s p \<longleftrightarrow> length p \<le> length s \<and> drop (length s - length p) s = p"

definition strip_prefix :: "string \<Rightarrow> string \<Rightarrow> string option" where
  "strip_prefix s p = (if starts_with s p then Some (drop (length p) s) else None)"

fun split_byte :: "char \<Rightarrow> string \<Rightarrow> string \<Rightarrow> string list" where
  "split_byte sep w [] = [w]"
| "split_byte sep w (c # cs) =
     (if c = sep then w # split_byte sep [] cs else split_byte sep (w @ [c]) cs)"

section \<open>What is sensitive\<close>

definition ascii_alphanumeric :: "char \<Rightarrow> bool" where
  "ascii_alphanumeric c \<longleftrightarrow>
     (let n = of_char c :: nat in (48 \<le> n \<and> n \<le> 57) \<or> (65 \<le> n \<and> n \<le> 90) \<or> (97 \<le> n \<and> n \<le> 122))"

definition sensitive_needles :: "string list" where
  "sensitive_needles = [''password'', ''passwd'', ''secret'', ''token'', ''apikey'', ''apikey'',
     ''authorization'', ''credential'', ''privatekey'', ''accesskey'', ''clientsecret'', ''cookie'',
     ''sessionid'', ''clientid'', ''refreshtoken'', ''sessiontoken'']"

definition is_sensitive_event_key :: "string \<Rightarrow> bool" where
  "is_sensitive_event_key key \<longleftrightarrow>
     (let k = map to_ascii_lower (filter ascii_alphanumeric key) in
      k = ''cwd'' \<or> k = ''path'' \<or> ends_with k ''path'' \<or> k = ''key'' \<or> ends_with k ''key''
      \<or> list_ex (sql_instr k) sensitive_needles)"

definition credential_starts :: "string list" where
  "credential_starts = [''bearer '', ''basic '', ''sk-'', ''ghp_'', ''github_pat_'', ''xoxb-'', ''akia'']"

definition credential_parts :: "string list" where
  "credential_parts = [''bearer '', ''basic '', ''-----begin '', ''authorization:'', ''authorization='',
     ''password='', ''password:'', ''password '', ''passwd='', ''passwd:'', ''secret='', ''secret:'',
     ''secret '', ''token='', ''token:'', ''token '', ''api_key='', ''api_key:'', ''api-key='',
     ''api-key:'', ''apikey='', ''apikey:'', ''access_key='', ''access_key:'', ''private_key='',
     ''private_key:'', ''client_secret='', ''client_secret:'', ''refresh_token='', ''refresh_token:'',
     ''session_token='', ''session_token:'']"

definition looks_like_filesystem_path :: "string \<Rightarrow> bool" where
  "looks_like_filesystem_path value \<longleftrightarrow>
     (let v = str_trim value in
      starts_with v ''/'' \<or> starts_with v [CHR 0x5C, CHR 0x5C]
      \<or> (3 \<le> length v \<and> v ! 1 = CHR '':'' \<and> v ! 2 \<in> {CHR ''/'', CHR 0x5C}))"

definition jwt_separator :: "string \<Rightarrow> bool" where
  "jwt_separator c \<longleftrightarrow> is_ws c \<or> c \<in> set [[CHR 0x22], [CHR 0x27], '','', '';'', ''('', '')'', ''['', '']'']"

definition is_jwt :: "string \<Rightarrow> bool" where
  "is_jwt candidate \<longleftrightarrow>
     (case split_byte CHR ''.'' [] candidate of
        [header, payload, signature] \<Rightarrow> starts_with header ''eyj'' \<and> 8 \<le> length header
          \<and> 8 \<le> length payload \<and> 8 \<le> length signature
      | _ \<Rightarrow> False)"

definition looks_like_jwt :: "string \<Rightarrow> bool" where
  "looks_like_jwt value \<longleftrightarrow> list_ex is_jwt (split_chars jwt_separator [] (utf8_chars value))"

definition event_string_is_sensitive :: "string \<Rightarrow> bool" where
  "event_string_is_sensitive value \<longleftrightarrow>
     (let lower = map to_ascii_lower (str_trim value) in
      list_ex (starts_with lower) credential_starts \<or> list_ex (sql_instr lower) credential_parts
      \<or> sql_instr lower ''://'' \<or> looks_like_filesystem_path value \<or> looks_like_jwt lower)"

definition reject_sensitive_event_string :: "string \<Rightarrow> string \<Rightarrow> unit call" where
  "reject_sensitive_event_string value label =
     (if event_string_is_sensitive value then invalid (label @ '' contains restricted data'')
      else Inr ())"

section \<open>Sanitizing\<close>

definition truncate_event_utf8 :: "string \<Rightarrow> nat \<Rightarrow> string" where
  "truncate_event_utf8 value max_bytes =
     (if length value \<le> max_bytes then value
      else
        (let offsets = takeWhile (\<lambda>i. i \<le> max_bytes) (char_offsets 0 (utf8_chars value))
         in take (if offsets = [] then 0 else last offsets) value))"

definition sanitize_event_string :: "string \<Rightarrow> string" where
  "sanitize_event_string value =
     truncate_event_utf8 (if event_string_is_sensitive value then REDACTED_EVENT_VALUE else value)
       MAX_EVENT_STRING_BYTES"

definition join_event_path :: "string \<Rightarrow> string \<Rightarrow> string" where
  "join_event_path parent child = (if parent = [] then child else parent @ ''.'' @ child)"

definition event_path_excluded :: "string \<Rightarrow> string list \<Rightarrow> bool" where
  "event_path_excluded path exclusions \<longleftrightarrow>
     list_ex (\<lambda>x. path = x \<or> (case strip_prefix path x of
         None \<Rightarrow> False | Some suffix \<Rightarrow> starts_with suffix ''.'')) exclusions"

fun sanitize_event_value :: "string list \<Rightarrow> string \<Rightarrow> json \<Rightarrow> json"
and sanitize_members :: "string list \<Rightarrow> string \<Rightarrow> json_map \<Rightarrow> json_map"
and sanitize_items :: "string list \<Rightarrow> string \<Rightarrow> nat \<Rightarrow> json list \<Rightarrow> json list" where
  "sanitize_event_value ex path (JObject m) = JObject (sanitize_members ex path m)"
| "sanitize_event_value ex path (JArray vs) = JArray (sanitize_items ex path 0 vs)"
| "sanitize_event_value ex path (JString s) = JString (sanitize_event_string s)"
| "sanitize_event_value ex path (JInt i) = JInt i"
| "sanitize_event_value ex path (JFloat r) = JFloat r"
| "sanitize_event_value ex path (JBool b) = JBool b"
| "sanitize_event_value ex path JNull = JNull"
| "sanitize_members ex path [] = []"
| "sanitize_members ex path ((k, v) # m) =
     (let child = join_event_path path k in
      if event_path_excluded child ex then sanitize_members ex path m
      else (k, if is_sensitive_event_key k then JString REDACTED_EVENT_VALUE
               else sanitize_event_value ex child v) # sanitize_members ex path m)"
| "sanitize_items ex path i [] = []"
| "sanitize_items ex path i (v # vs) =
     (let child = join_event_path path (dec_nat i) in
      (if event_path_excluded child ex then JNull else sanitize_event_value ex child v)
      # sanitize_items ex path (Suc i) vs)"

fun event_value_was_truncated :: "json \<Rightarrow> bool"
and any_truncated :: "json list \<Rightarrow> bool"
and any_member_truncated :: "json_map \<Rightarrow> bool" where
  "event_value_was_truncated (JString s) = (MAX_EVENT_STRING_BYTES < length s)"
| "event_value_was_truncated (JArray vs) = any_truncated vs"
| "event_value_was_truncated (JObject m) = any_member_truncated m"
| "event_value_was_truncated _ = False"
| "any_truncated [] = False"
| "any_truncated (v # vs) = (event_value_was_truncated v \<or> any_truncated vs)"
| "any_member_truncated [] = False"
| "any_member_truncated ((k, v) # m) = (event_value_was_truncated v \<or> any_member_truncated m)"

definition truncation_marker :: json where
  "truncation_marker = jobject [(''truncated'', JBool True), (''reason'', JString ''size_limit'')]"

definition prepare_sanitized_json ::
    "(json \<Rightarrow> string) \<Rightarrow> json \<Rightarrow> string list \<Rightarrow> nat \<Rightarrow> json \<times> string \<times> bool" where
  "prepare_sanitized_json render v ex max_bytes =
     (let truncated = max_bytes < length (render v) \<or> event_value_was_truncated v;
          sanitized = sanitize_event_value ex [] v
      in if max_bytes < length (render sanitized)
         then (truncation_marker, render truncation_marker, True)
         else (sanitized, render sanitized, truncated))"

definition event_payload_text :: "json \<Rightarrow> string \<Rightarrow> string" where
  "event_payload_text v serialized = (case as_str v of Some s \<Rightarrow> s | None \<Rightarrow> serialized)"

section \<open>Exclusions\<close>

definition exclusion_path :: "string \<Rightarrow> string call" where
  "exclusion_path value =
     (let path = map (\<lambda>c. if c = CHR ''/'' then CHR ''.'' else c) (str_trim value) in
      if MAX_EVENT_PATH_BYTES < length path then invalid ''exclude_paths entries are too long''
      else
        (let path = (case strip_prefix path ''$.'' of Some p \<Rightarrow> p | None \<Rightarrow> path);
             path = (case strip_prefix path ''payload.'' of Some p \<Rightarrow> p | None \<Rightarrow> path);
             components = map str_trim (split_byte CHR ''.'' [] path)
         in if components = [] \<or> list_ex (\<lambda>c. c = [] \<or> c = ''..'') components
            then invalid ''exclude_paths must contain non-empty object paths''
            else Inr (join ''.'' components)))"

definition event_exclusions :: "json_map \<Rightarrow> string list call" where
  "event_exclusions arguments =
     rbind (optional_string_array arguments ''exclude_paths'') (\<lambda>values.
     let values = (case values of None \<Rightarrow> [] | Some v \<Rightarrow> v) in
     if MAX_EVENT_EXCLUDE_PATHS < length values
     then invalid (''exclude_paths may contain at most '' @ dec_nat MAX_EVENT_EXCLUDE_PATHS @ '' paths'')
     else rmapM exclusion_path values)"

section \<open>What the sanitizer hides\<close>

text \<open>
  Two values are alike when they differ only in what is to be hidden: sensitive strings, the
  values of sensitive keys, and whatever stands at an excluded path.
\<close>

definition visible :: "string list \<Rightarrow> string \<Rightarrow> string \<times> json \<Rightarrow> bool" where
  "visible ex path p \<longleftrightarrow> \<not> event_path_excluded (join_event_path path (fst p)) ex"

inductive alike :: "string list \<Rightarrow> string \<Rightarrow> json \<Rightarrow> json \<Rightarrow> bool" for ex where
  same: "alike ex path v v"
| strings: "event_string_is_sensitive s \<Longrightarrow> event_string_is_sensitive t \<Longrightarrow>
    alike ex path (JString s) (JString t)"
| arrays: "length vs = length us \<Longrightarrow>
    (\<And>i. i < length vs \<Longrightarrow> event_path_excluded (join_event_path path (dec_nat i)) ex
       \<or> alike ex (join_event_path path (dec_nat i)) (vs ! i) (us ! i)) \<Longrightarrow>
    alike ex path (JArray vs) (JArray us)"
| objects: "list_all2 (\<lambda>p q. fst p = fst q \<and> (is_sensitive_event_key (fst p)
         \<or> alike ex (join_event_path path (fst p)) (snd p) (snd q)))
      (filter (visible ex path) m) (filter (visible ex path) n) \<Longrightarrow>
    alike ex path (JObject m) (JObject n)"

lemma sanitize_members_map:
  "sanitize_members ex path m = map (\<lambda>(k, v). (k, if is_sensitive_event_key k then JString REDACTED_EVENT_VALUE
     else sanitize_event_value ex (join_event_path path k) v)) (filter (visible ex path) m)"
  by (induction m) (auto simp: visible_def Let_def)

lemma sanitize_items_nth:
  "length (sanitize_items ex path j vs) = length vs"
  "i < length vs \<Longrightarrow> sanitize_items ex path j vs ! i =
     (let child = join_event_path path (dec_nat (j + i)) in
      if event_path_excluded child ex then JNull else sanitize_event_value ex child (vs ! i))"
proof -
  show "length (sanitize_items ex path j vs) = length vs"
    by (induction vs arbitrary: j) (simp_all add: Let_def)
  show "i < length vs \<Longrightarrow> sanitize_items ex path j vs ! i =
     (let child = join_event_path path (dec_nat (j + i)) in
      if event_path_excluded child ex then JNull else sanitize_event_value ex child (vs ! i))"
    by (induction vs arbitrary: i j) (auto simp: Let_def nth_Cons split: nat.split)
qed

lemma sanitize_alike:
  "alike ex path v u \<Longrightarrow> sanitize_event_value ex path v = sanitize_event_value ex path u"
proof (induction rule: alike.induct)
  case (strings s t path)
  then show ?case by (simp add: sanitize_event_string_def)
next
  case (arrays vs us path)
  have "sanitize_items ex path 0 vs = sanitize_items ex path 0 us"
    using arrays by (intro nth_equalityI) (auto simp: sanitize_items_nth Let_def)
  then show ?case by simp
next
  case (objects path m n)
  have "list_all2 (\<lambda>p q. (case p of (k, v) \<Rightarrow> (k, if is_sensitive_event_key k then JString REDACTED_EVENT_VALUE
        else sanitize_event_value ex (join_event_path path k) v))
      = (case q of (k, v) \<Rightarrow> (k, if is_sensitive_event_key k then JString REDACTED_EVENT_VALUE
        else sanitize_event_value ex (join_event_path path k) v)))
      (filter (visible ex path) m) (filter (visible ex path) n)"
    using objects by (rule list_all2_mono) auto
  then show ?case by (simp add: sanitize_members_map list_all2_map1 list_all2_map2 list.rel_eq[symmetric])
qed simp



text \<open>
  The written text stays within its limit, if the marker does, and every string in it within
  4096 bytes.
\<close>

theorem sanitized_size:
  assumes "length (render truncation_marker) \<le> n"
  shows "length (fst (snd (prepare_sanitized_json render v ex n))) \<le> n"
  using assms by (simp add: prepare_sanitized_json_def Let_def)

lemma truncate_event_utf8_le: "length (truncate_event_utf8 s n) \<le> n"
proof -
  have "last xs \<le> n" if "xs = takeWhile (\<lambda>i. i \<le> n) ys" "xs \<noteq> []" for xs ys :: "nat list"
    using that set_takeWhileD[of "last xs" "\<lambda>i. i \<le> n" ys] by simp
  then show ?thesis by (auto simp: truncate_event_utf8_def Let_def min_le_iff_disj)
qed

end
