(* ===== verification/StoreReads.thy ===== *)
theory StoreReads
  imports StoreRun StoreExport
begin

text \<open>
  The operations of \<open>src/store.rs\<close> that only read: they keep every predicate of the database,
  hence leave it as it is, whether they succeed or fail.
\<close>

lemma keeps_everything:
  assumes "\<And>P. keeps P m"
  shows "snd (m s) = s"
  using assms[of "\<lambda>t. t = s"] by (simp add: keeps_def)

section \<open>Facts\<close>

lemma keeps_fact_by [keeping]: "keeps P (fact_by_id i v)" "keeps P (fact_by_hash h v)" "keeps P (select_facts q)"
  unfolding fact_by_id_def fact_by_hash_def select_facts_def by (intro keeping)+

lemma keeps_fact_reads [keeping]:
  "keeps P (fact_id_for_text env text v)" "keeps P (fact_exists env text v)"
  "keeps P (list_categories v)" "keeps P (review_pending v)" "keeps P (fact_history_of i v)"
  "keeps P (facts_for_session session v)" "keeps P (list_sessions v)"
  "keeps P (search_facts_with_filters env q v f)" "keeps P (search_facts env q v)"
  "keeps P (list_facts_with_filters v f)" "keeps P (list_facts v)" "keeps P (list_forgotten v)"
  "keeps P (fact_search_metadata_of i v)" "keeps P (category_name_for_fact i v)"
  unfolding fact_id_for_text_def fact_exists_def list_categories_def review_pending_def
    fact_history_of_def facts_for_session_def list_sessions_def search_facts_def
    search_facts_with_filters_def list_facts_def list_facts_with_filters_def list_forgotten_def
    fact_search_metadata_of_def category_name_for_fact_def Let_def
  by (intro keeping)+

section \<open>Contexts and events\<close>

lemma keeps_context_reads [keeping]:
  "keeps P (context_raw r v)" "keeps P (live_context env r v)" "keeps P (list_contexts env v)"
  "keeps P (search_contexts env q v)" "keeps P (context_map ref v)" "keeps P (list_events v)"
  "keeps P (read_event key v)"
  unfolding context_raw_def live_context_def list_contexts_def search_contexts_def context_map_def
    list_events_def read_event_def event_by_key_def
  by (intro keeping)+

section \<open>Records\<close>

lemma keeps_record_reads [keeping]:
  "keeps P (query_runs q v)" "keeps P (query_measurements q v)" "keeps P (query_feedback q v)"
  "keeps P list_workspaces" "keeps P list_workspace_ids" "keeps P (summarize_index v)"
  unfolding query_runs_def query_measurements_def query_feedback_def list_workspaces_def
    list_workspace_ids_def summarize_index_def count_rows_def
  by (intro keeping)+

section \<open>Graph\<close>

lemma keeps_graph_reads [keeping]:
  "keeps P (list_entities env v)" "keeps P (list_relations v)" "keeps P (list_decisions v)"
  "keeps P (list_evidence v)" "keeps P (get_provenance i v)" "keeps P (fact_evidence_summary i v)"
  "keeps P (graph_neighborhood env q depth limit v)" "keeps P (query_decisions fts q v)"
  "keeps P (detect_conflicts fts q v)" "keeps P (causal_chain i v)"
  "keeps P (hydrate_relation_candidates rows v)" "keeps P (list_relation_candidates env v status query limit)"
  "keeps P (list_relation_candidates_all v)"
  "keeps P (export_rdf v)" "keeps P (decision_by_id i v)"
  unfolding list_entities_def list_relations_def list_decisions_def list_evidence_def get_provenance_def
    fact_evidence_summary_def graph_neighborhood_def detect_conflicts_def export_rdf_def
    decision_by_id_def query_decisions_def causal_chain_def hydrate_relation_candidates_def
    list_relation_candidates_def list_relation_candidates_all_def Let_def
  by (intro keeping)+

end
