(* ===== verification/ProtocolState.thy ===== *)
theory ProtocolState
  imports ProtocolSanitize StoreReads "HOL-Library.Word"
begin

text \<open>
  What the tool handlers of \<open>src/protocol.rs\<close> share: the state of the server (the database, the
  counter of generated references, how many searches in a row each session has made, and which
  sessions were oriented), store operations within a handler, references, checksums and
  the JSON form of a context with its lineage.
\<close>

section \<open>State\<close>

text \<open>
  The environment of the store, \<open>serde_json\<close> (the text of a value and the value of a text), which
  texts a query of the full-text index on decisions matches, \<open>str::parse::<f64>\<close>, what the
  embedding service answers for a text (none when it fails), what the language model answers to an
  attempt to ask it (none when it fails), the ranking by embeddings, which reads the database, and
  how \<open>{:?}\<close> writes a text.
\<close>

record tool_env =
  te_store :: store_env
  te_render :: "json \<Rightarrow> string"
  te_parse :: "string \<Rightarrow> json option"
  te_fts :: "string \<Rightarrow> string list \<Rightarrow> bool"
  te_parse_f64 :: "string \<Rightarrow> f64 option"
  te_debug :: "string \<Rightarrow> string"
  te_embed :: "string \<Rightarrow> f32 list option"
  te_chat :: "nat \<Rightarrow> (string \<times> string) list \<Rightarrow> json option"
  te_semantic :: "json_map \<Rightarrow> store_db \<Rightarrow> store_error + json"

record tool_server =
  sv_db :: store_db
  sv_context_counter :: "64 word"
  sv_search_counts :: "string \<Rightarrow> nat option"
  sv_oriented :: "string set"

type_synonym 'a tool = "(tool_server, call_error, 'a) sm"

text \<open>\<open>map_err(CallError::Execution)?\<close>.\<close>

definition executed :: "store_error + 'a \<Rightarrow> 'a call" where
  "executed r = (case r of Inl e \<Rightarrow> Inl (ExecutionCall e) | Inr a \<Rightarrow> Inr a)"

definition on_store :: "(store_db, store_error, 'a) sm \<Rightarrow> 'a tool" where
  "on_store m s = (case m (sv_db s) of (r, t) \<Rightarrow> (executed r, s\<lparr>sv_db := t\<rparr>))"

text \<open>\<open>ok_or_else\<close> of a value that the store did not find.\<close>

definition found_or :: "string \<Rightarrow> 'a option \<Rightarrow> 'a tool" where
  "found_or message v = (case v of None \<Rightarrow> sfail (ExecutionCall (SInvalid message)) | Some a \<Rightarrow> sret a)"

definition or_text :: "string \<Rightarrow> string option \<Rightarrow> string" where
  "or_text d v = (case v of None \<Rightarrow> d | Some x \<Rightarrow> x)"

text \<open>\<open>optional_string(arguments, key)?.unwrap_or("")\<close>.\<close>

definition string_or :: "string \<Rightarrow> json_map \<Rightarrow> string \<Rightarrow> string call" where
  "string_or d arguments key = rbind (optional_string arguments key) (\<lambda>v. Inr (or_text d v))"

definition optional_json :: "string option \<Rightarrow> json" where
  "optional_json v = (case v of None \<Rightarrow> JNull | Some s \<Rightarrow> JString s)"

text \<open>\<open>value[key] = v\<close> of an object.\<close>

fun put_field :: "json \<Rightarrow> string \<Rightarrow> json \<Rightarrow> json" where
  "put_field (JObject m) k v = JObject (jinsert k v m)"
| "put_field u k v = u"

definition put_fields :: "json \<Rightarrow> json_map \<Rightarrow> json" where
  "put_fields u kvs = fold (\<lambda>(k, v) u. put_field u k v) kvs u"

text \<open>The number of characters of a text, and a range of them.\<close>

definition char_count :: "string \<Rightarrow> nat" where
  "char_count s = length (utf8_chars s)"

definition char_slice :: "string \<Rightarrow> nat \<Rightarrow> nat \<Rightarrow> string" where
  "char_slice content start stop = concat (take (stop - start) (drop start (utf8_chars content)))"

text \<open>\<open>(1..=100).contains(&limit)\<close>.\<close>

definition limit_argument :: "json_map \<Rightarrow> nat \<Rightarrow> nat call" where
  "limit_argument arguments d =
     rbind (optional_usize arguments [''limit''] d) (\<lambda>limit.
     if 1 \<le> limit \<and> limit \<le> 100 then Inr limit else invalid ''limit must be between 1 and 100'')"

section \<open>References\<close>

definition le_bytes64 :: "64 word \<Rightarrow> string" where
  "le_bytes64 c = map (\<lambda>i. char_of (unat c div 256 ^ i mod 256)) [0..<8]"

definition context_ref :: "tool_env \<Rightarrow> string \<Rightarrow> string \<Rightarrow> string tool" where
  "context_ref te prefix seed s =
     (Inr (prefix @ ''_'' @ se_sha256 (te_store te)
        (prefix @ [CHR 0x00] @ seed @ [CHR 0x00] @ le_bytes64 (sv_context_counter s))),
      s\<lparr>sv_context_counter := sv_context_counter s + 1\<rparr>)"

definition stable_context_ref :: "tool_env \<Rightarrow> string \<Rightarrow> string \<Rightarrow> string" where
  "stable_context_ref te prefix seed =
     prefix @ ''_'' @ se_sha256 (te_store te) (prefix @ [CHR 0x00] @ seed)"

definition nul_joined :: "string list \<Rightarrow> string" where
  "nul_joined xs = join [CHR 0x00] xs"

section \<open>Contexts\<close>

definition context_expiry :: "tool_env \<Rightarrow> json_map \<Rightarrow> string option call" where
  "context_expiry te arguments =
     rbind (optional_i64 arguments [''ttl_seconds'']) (\<lambda>ttl.
     case ttl of
       None \<Rightarrow> Inr None
     | Some ttl \<Rightarrow> executed (expiry_after_seconds (te_store te) ttl))"

definition schema_string :: "tool_env \<Rightarrow> json_map \<Rightarrow> string" where
  "schema_string te arguments =
     (case jget arguments ''schema'' of
        None \<Rightarrow> []
      | Some schema \<Rightarrow> (case as_str schema of Some text \<Rightarrow> text | None \<Rightarrow> te_render te schema))"

definition sha256_text :: "tool_env \<Rightarrow> string \<Rightarrow> string" where
  "sha256_text te content = se_sha256 (te_store te) content"

definition checksum_matches :: "tool_env \<Rightarrow> json_map \<Rightarrow> string \<Rightarrow> unit call" where
  "checksum_matches te arguments content =
     (case get_str arguments ''checksum'' of
        None \<Rightarrow> Inr ()
      | Some expected \<Rightarrow>
          if blank expected \<or> eq_ignore_ascii_case expected (sha256_text te content) then Inr ()
          else invalid (''checksum does not match content (sha256: '' @ sha256_text te content @ '')''))"

definition put_context_metadata :: "tool_env \<Rightarrow> json_map \<Rightarrow> context_metadata call" where
  "put_context_metadata te arguments =
     rbind (string_or [] arguments ''source'') (\<lambda>source.
     rbind (context_expiry te arguments) (\<lambda>expires_at.
     Inr \<lparr>cm_schema = schema_string te arguments, cm_source = source, cm_expires_at = expires_at\<rparr>))"

definition context_metadata_value :: "tool_env \<Rightarrow> context_row \<Rightarrow> json" where
  "context_metadata_value te c = jobject
     [(''ref'', JString (cx_reference c)), (''name'', JString (cx_name c)),
      (''schema'', if blank (cx_schema c) then JString []
         else (case te_parse te (cx_schema c) of Some v \<Rightarrow> v | None \<Rightarrow> JString (cx_schema c))),
      (''source'', JString (cx_source c)), (''sha256'', JString (cx_sha256 c)),
      (''workspace'', JString (cx_workspace c)), (''created_at'', JNull),
      (''expires_at'', optional_json (cx_expires_at c)), (''size_bytes'', JInt (cx_byte_size c))]"

definition lineage_entry ::
    "tool_env \<Rightarrow> string \<Rightarrow> string \<Rightarrow> context_lineage \<Rightarrow> (bool \<times> json) tool" where
  "lineage_entry te reference workspace row =
     (let parent = (cl_child row = reference);
          other = (if parent then cl_parent row else cl_child row)
      in sbind (on_store (live_context (te_store te) other workspace)) (\<lambda>found.
         sret (parent, jobject [(''ref'', JString other),
           (''name'', JString (case found of None \<Rightarrow> [] | Some c \<Rightarrow> cx_name c)),
           (''relation'', JString (cl_relation row))])))"

definition context_lineage_value :: "tool_env \<Rightarrow> string \<Rightarrow> string \<Rightarrow> json tool" where
  "context_lineage_value te reference workspace =
     sbind (on_store (context_map (Some reference) workspace)) (\<lambda>rows.
     sbind (smapM (lineage_entry te reference workspace) rows) (\<lambda>entries.
     sret (jobject
       [(''parents'', JArray (map snd (filter fst entries))),
        (''children'', JArray (map snd (filter (\<lambda>e. \<not> fst e) entries)))])))"

definition found_context :: "tool_env \<Rightarrow> string \<Rightarrow> string \<Rightarrow> context_row tool" where
  "found_context te reference workspace =
     sbind (on_store (live_context (te_store te) reference workspace))
       (found_or (''context not found: '' @ reference))"

section \<open>What handlers do to the database\<close>

text \<open>
  The workspaces that the arguments of a tool name (the workspace tools also take a name), and
  the shared one, which is meant when none is named.
\<close>

definition named_workspaces :: "json_map \<Rightarrow> string set" where
  "named_workspaces arguments =
     insert [] (set (List.map_filter (get_str arguments) [''workspace'', ''workspace_id'', ''name'']))"

definition tool_change :: "bool \<Rightarrow> (string \<Rightarrow> string) \<Rightarrow> string set \<Rightarrow> tool_server \<Rightarrow> tool_server \<Rightarrow> bool" where
  "tool_change d sha W s t \<longleftrightarrow> sv_db s = sv_db t \<or> (\<exists>w\<in>W. change d sha w (sv_db s) (sv_db t))"

interpretation tools: guarded_steps "\<lambda>s. db_ok sha (sv_db s)" "tool_change d sha W"
  by unfold_locales (auto simp: tool_change_def intro: change_db_ok)

definition tool_writes :: "bool \<Rightarrow> (string \<Rightarrow> string) \<Rightarrow> string set \<Rightarrow> 'a tool \<Rightarrow> bool" where
  "tool_writes d sha W m \<longleftrightarrow> performs (\<lambda>s. db_ok sha (sv_db s)) (tool_change d sha W) m"

lemmas tool_intros = tools.bind_lifted tools.basic tools.branch tools.loops tools.sbind

lemma on_store_writes:
  assumes "writes d sha w m" "w \<in> W"
  shows "tool_writes d sha W (on_store m)"
  unfolding tool_writes_def performs_def
proof (intro allI impI)
  fix s :: tool_server assume "db_ok sha (sv_db s)"
  then have "(change d sha w)\<^sup>*\<^sup>* (sv_db s) (snd (m (sv_db s)))"
    using assms(1) by (simp add: writes_def performs_def)
  then have "(tool_change d sha W)\<^sup>*\<^sup>* s (s\<lparr>sv_db := snd (m (sv_db s))\<rparr>)"
  proof (induction rule: rtranclp_induct)
    case (step t u)
    have "tool_change d sha W (s\<lparr>sv_db := t\<rparr>) (s\<lparr>sv_db := u\<rparr>)"
      using step(2) assms(2) by (auto simp: tool_change_def)
    with step(3) show ?case by (rule rtranclp.rtrancl_into_rtrancl)
  qed simp
  then show "(tool_change d sha W)\<^sup>*\<^sup>* s (snd (on_store m s))"
    by (simp add: on_store_def split_beta)
qed

lemma tool_writes_intros:
  "tool_writes d sha W (sret a)" "tool_writes d sha W (sfail e)" "tool_writes d sha W (slift r)"
  "(\<And>a. r = Inr a \<Longrightarrow> tool_writes d sha W (k a)) \<Longrightarrow> tool_writes d sha W (sbind (slift r) k)"
  "tool_writes d sha W m \<Longrightarrow> (\<And>a. tool_writes d sha W (f a)) \<Longrightarrow> tool_writes d sha W (sbind m f)"
  "tool_writes d sha W m \<Longrightarrow> tool_writes d sha W n \<Longrightarrow> tool_writes d sha W (if b then m else n)"
  "tool_writes d sha W m \<Longrightarrow> (\<And>x. tool_writes d sha W (g x)) \<Longrightarrow> tool_writes d sha W (case v of None \<Rightarrow> m | Some x \<Rightarrow> g x)"
  "(\<And>x. tool_writes d sha W (h x)) \<Longrightarrow> tool_writes d sha W (smapM h xs)"
  "(\<And>x. tool_writes d sha W (l x)) \<Longrightarrow> tool_writes d sha W (sforM l xs)"
  "tool_writes d sha W (found_or message v)"
  "(\<And>a b. tool_writes d sha W (q a b)) \<Longrightarrow> tool_writes d sha W (case p of (a, b) \<Rightarrow> q a b)"
  unfolding tool_writes_def found_or_def
  by (auto split: prod.split intro!: tools.bind_lifted tools.basic tools.branch tools.loops intro: tools.sbind split: option.splits)

lemma on_store_reads:
  assumes "\<And>P. keeps P m"
  shows "tool_writes d sha W (on_store m)"
  by (simp add: tool_writes_def performs_def on_store_def split_beta keeps_everything[OF assms])

lemma tool_writes_contexts:
  "tool_writes d sha W (found_context te reference w)"
  "tool_writes d sha W (context_lineage_value te reference w)"
  "tool_writes d sha W (context_ref te prefix seed)"
proof -
  show "tool_writes d sha W (found_context te reference w)"
    unfolding found_context_def by (intro tool_writes_intros on_store_reads keeping)
  have "tool_writes d sha W (lineage_entry te reference w row)" for row
    unfolding lineage_entry_def Let_def by (intro tool_writes_intros on_store_reads keeping)
  then show "tool_writes d sha W (context_lineage_value te reference w)"
    unfolding context_lineage_value_def
    by (intro tool_writes_intros on_store_reads keeping)
  show "tool_writes d sha W (context_ref te prefix seed)"
    by (auto simp: tool_writes_def performs_def context_ref_def tool_change_def)
qed

lemma or_else_Some: "or_else a b = Some x \<longleftrightarrow> a = Some x \<or> (a = None \<and> b = Some x)"
  by (cases a) auto

lemma named_workspace:
  "required_context_workspace arguments = Inr w \<Longrightarrow> w \<in> named_workspaces arguments"
  "optional_workspace arguments = Inr w \<Longrightarrow> w \<in> named_workspaces arguments"
  "workspace_argument arguments = Inr w \<Longrightarrow> w \<in> named_workspaces arguments"
  "or_text [] (get_str arguments ''workspace'') \<in> named_workspaces arguments"
  "[] \<in> named_workspaces arguments"
proof -
  have named: "jget arguments k = Some v \<Longrightarrow> as_str v = Some w \<Longrightarrow> k \<in> {''workspace'', ''workspace_id'', ''name''} \<Longrightarrow>
      w \<in> named_workspaces arguments" for k v w
    by (auto simp: named_workspaces_def map_filter_def get_str_def)
  show "required_context_workspace arguments = Inr w \<Longrightarrow> w \<in> named_workspaces arguments"
    by (auto simp: required_context_workspace_def workspace_value_of_def some_or_def invalid_def get_str_def
        rbind_Inr_iff Let_def Option.bind_eq_Some_conv or_else_Some split: option.splits if_splits intro: named)
  show "optional_workspace arguments = Inr w \<Longrightarrow> w \<in> named_workspaces arguments"
    by (auto simp: optional_workspace_def workspace_value_of_def some_or_def invalid_def get_str_def
        or_else_Some named_workspaces_def split: option.splits intro: named)
  show "workspace_argument arguments = Inr w \<Longrightarrow> w \<in> named_workspaces arguments"
    by (auto simp: workspace_argument_def some_or_def invalid_def or_else_Some get_str_def
        Option.bind_eq_Some_conv split: option.splits intro: named)
  show "or_text [] (get_str arguments ''workspace'') \<in> named_workspaces arguments"
    by (auto simp: or_text_def named_workspaces_def map_filter_def split: option.split)
  show "[] \<in> named_workspaces arguments" by (simp add: named_workspaces_def)
qed

end
