(* ===== verification/ProtocolContexts.thy ===== *)
theory ProtocolContexts
  imports ProtocolState
begin

text \<open>
  The tools on contexts in \<open>src/protocol.rs\<close>: putting, reading by pages, listing, resolving,
  searching, chunking and reducing contexts, and the ingestion of a document from a directory.
\<close>

section \<open>Putting and reading\<close>

definition exact_put_context :: "tool_env \<Rightarrow> json_map \<Rightarrow> json tool" where
  "exact_put_context te arguments =
     sbind (slift (required_context_workspace arguments)) (\<lambda>workspace.
     sbind (slift (required_string arguments ''name'')) (\<lambda>name.
     let name = str_trim name in
     sbind (slift (required_string arguments ''content'')) (\<lambda>content.
     if name = [] \<or> content = [] then slift (invalid ''name and content must be non-empty'')
     else
       sbind (slift (checksum_matches te arguments content)) (\<lambda>_.
       sbind (context_ref te ''ctx'' (nul_joined [workspace, name, content])) (\<lambda>reference.
       sbind (slift (put_context_metadata te arguments)) (\<lambda>m.
       sbind (on_store (put_context_with_metadata (te_store te) reference name content m workspace)) (\<lambda>context.
       sbind (slift (optional_string_array arguments ''parent_refs'')) (\<lambda>parents.
       sbind (sforM (\<lambda>parent.
                sbind (on_store (link_context parent reference ''derived'' workspace)) (\<lambda>_. sret ()))
              (case parents of None \<Rightarrow> [] | Some ps \<Rightarrow> ps)) (\<lambda>_.
       sbind (context_lineage_value te reference workspace) (\<lambda>lineage.
       sret (jobject [(''context'', context_metadata_value te context), (''lineage'', lineage)])))))))))))"

text \<open>A page of a content, with where the next one starts.\<close>

definition page_fields :: "string \<Rightarrow> nat \<Rightarrow> nat \<Rightarrow> json_map" where
  "page_fields content start stop =
     (let count = char_count content in
      [(''content'', JString (char_slice content start stop)), (''start'', JInt (int start)),
       (''end'', JInt (int stop)), (''total_chars'', JInt (int count)),
       (''truncated'', JBool (stop < count)),
       (''next_start'', if stop < count then JInt (int stop) else JNull)])"

definition read_range :: "json_map \<Rightarrow> (nat \<times> nat \<times> nat option) call" where
  "read_range arguments =
     rbind (optional_usize arguments [''start''] 0) (\<lambda>start.
     rbind (optional_usize arguments [''max_chars''] 4000) (\<lambda>max_chars.
     if max_chars = 0 \<or> 16000 < max_chars then invalid ''max_chars must be between 1 and 16000''
     else
       rbind (if has_arg arguments ''end''
              then rbind (optional_usize arguments [''end''] 0) (\<lambda>e. Inr (Some e))
              else Inr None) (\<lambda>stop.
       if (case stop of None \<Rightarrow> False | Some e \<Rightarrow> e < start)
       then invalid ''end must be greater than or equal to start''
       else Inr (start, max_chars, stop))))"

definition page_range :: "nat \<Rightarrow> nat \<Rightarrow> nat option \<Rightarrow> nat \<Rightarrow> nat \<times> nat" where
  "page_range start max_chars stop count =
     (let start = min start count;
          requested = min (case stop of None \<Rightarrow> count | Some e \<Rightarrow> e) count
      in (start, min requested (sat_add start max_chars)))"

definition exact_read_context :: "tool_env \<Rightarrow> json_map \<Rightarrow> json tool" where
  "exact_read_context te arguments =
     sbind (slift (required_context_workspace arguments)) (\<lambda>workspace.
     sbind (slift (required_string arguments ''ref'')) (\<lambda>reference.
     sbind (slift (read_range arguments)) (\<lambda>(start, max_chars, stop).
     sbind (found_context te reference workspace) (\<lambda>c.
     let (start, stop) = page_range start max_chars stop (char_count (cx_content c)) in
     sbind (context_lineage_value te reference workspace) (\<lambda>lineage.
     sret (jobject
       [(''context'', put_fields (context_metadata_value te c) (page_fields (cx_content c) start stop)),
        (''lineage'', lineage)]))))))"

definition exact_list_context :: "tool_env \<Rightarrow> json_map \<Rightarrow> json tool" where
  "exact_list_context te arguments =
     sbind (slift (required_context_workspace arguments)) (\<lambda>workspace.
     sbind (slift (limit_argument arguments 50)) (\<lambda>limit.
     sbind (slift (string_or [] arguments ''name'')) (\<lambda>name.
     sbind (on_store (list_contexts (te_store te) workspace)) (\<lambda>contexts.
     let shown = take limit (map (context_metadata_value te)
           (filter (\<lambda>c. name = [] \<or> cx_name c = name) contexts))
     in sret (jobject [(''count'', JInt (int (length shown))), (''contexts'', JArray shown)])))))"

definition exact_resolve_context :: "tool_env \<Rightarrow> json_map \<Rightarrow> json tool" where
  "exact_resolve_context te arguments =
     sbind (slift (required_context_workspace arguments)) (\<lambda>workspace.
     sbind (slift (required_string arguments ''ref'')) (\<lambda>reference.
     sbind (found_context te reference workspace) (\<lambda>context.
     sbind (context_lineage_value te reference workspace) (\<lambda>lineage.
     sret (jobject [(''context'', context_metadata_value te context), (''lineage'', lineage)])))))"

definition exact_search_context :: "tool_env \<Rightarrow> json_map \<Rightarrow> json tool" where
  "exact_search_context te arguments =
     sbind (slift (required_context_workspace arguments)) (\<lambda>workspace.
     sbind (slift (required_string arguments ''query'')) (\<lambda>query.
     let query = str_trim query in
     if query = [] then slift (invalid ''query must not be empty'')
     else if 256 < char_count query then slift (invalid ''query must be at most 256 characters'')
     else
       sbind (slift (limit_argument arguments 20)) (\<lambda>limit.
       sbind (on_store (search_contexts (te_store te) query workspace)) (\<lambda>contexts.
       let shown = take limit (map (context_metadata_value te) contexts) in
       sret (jobject [(''query'', JString query), (''count'', JInt (int (length shown))),
         (''contexts'', JArray shown)])))))"

section \<open>Chunks\<close>

definition chunk_value :: "string \<Rightarrow> nat \<Rightarrow> nat \<Rightarrow> json" where
  "chunk_value content n i =
     (let start = i * n; stop = min (char_count content) (start + n) in
      jobject [(''index'', JInt (int i)), (''start'', JInt (int start)), (''end'', JInt (int stop)),
        (''content'', JString (char_slice content start stop))])"

definition chunk_bounds :: "json_map \<Rightarrow> (nat \<times> nat \<times> nat) call" where
  "chunk_bounds arguments =
     rbind (optional_usize arguments [''chunk_chars''] 4000) (\<lambda>chunk_chars.
     rbind (optional_usize arguments [''start_chunk''] 0) (\<lambda>start_chunk.
     rbind (optional_usize arguments [''max_chunks''] 8) (\<lambda>max_chunks.
     if chunk_chars = 0 \<or> 16000 < chunk_chars \<or> max_chunks = 0 \<or> 32 < max_chunks
     then invalid ''invalid context chunk bounds''
     else Inr (chunk_chars, start_chunk, max_chunks))))"

definition total_chunks :: "nat \<Rightarrow> nat \<Rightarrow> nat" where
  "total_chunks count n = (count + (n - 1)) div n"

definition exact_chunk_context :: "tool_env \<Rightarrow> json_map \<Rightarrow> json tool" where
  "exact_chunk_context te arguments =
     sbind (slift (required_context_workspace arguments)) (\<lambda>workspace.
     sbind (slift (required_string arguments ''ref'')) (\<lambda>reference.
     sbind (slift (chunk_bounds arguments)) (\<lambda>(chunk_chars, start_chunk, max_chunks).
     sbind (found_context te reference workspace) (\<lambda>c.
     let count = total_chunks (char_count (cx_content c)) chunk_chars;
         start = min start_chunk count;
         stop = min count (sat_add start max_chunks)
     in sret (jobject
          [(''context'', context_metadata_value te c),
           (''chunks'', JArray (map (chunk_value (cx_content c) chunk_chars) [start..<stop])),
           (''start_chunk'', JInt (int start)),
           (''next_chunk'', if stop < count then JInt (int stop) else JNull),
           (''total_chunks'', JInt (int count)), (''chunk_chars'', JInt (int chunk_chars))])))))"

section \<open>Reducing\<close>

definition exact_reduce_context :: "tool_env \<Rightarrow> json_map \<Rightarrow> json tool" where
  "exact_reduce_context te arguments =
     sbind (slift (required_context_workspace arguments)) (\<lambda>workspace.
     sbind (slift (required_string arguments ''name'')) (\<lambda>name.
     let name = str_trim name in
     sbind (slift (required_string_array arguments [''refs''])) (\<lambda>references.
     if name = [] \<or> references = [] then slift (invalid ''name and refs are required'')
     else if 64 < length references then slift (invalid ''refs may contain at most 64 refs'')
     else
       sbind (slift (string_or [CHR 0x0A, CHR 0x0A] arguments ''separator'')) (\<lambda>separator.
       if 1024 < char_count separator then slift (invalid ''separator must be at most 1024 characters'')
       else
         sbind (smapM (\<lambda>reference. found_context te reference workspace) references) (\<lambda>contexts.
         let content = join separator (map cx_content contexts);
             reference = stable_context_ref te ''ctx'' (nul_joined [''reduced'', workspace, name, content])
         in sbind (slift (checksum_matches te arguments content)) (\<lambda>_.
         sbind (slift (put_context_metadata te arguments)) (\<lambda>m.
         sbind (on_store (put_context_with_metadata (te_store te) reference name content m workspace)) (\<lambda>context.
         sbind (sforM (\<lambda>parent.
                  sbind (on_store (link_context parent reference ''reduced_from'' workspace)) (\<lambda>_. sret ()))
                references) (\<lambda>_.
         sbind (context_lineage_value te reference workspace) (\<lambda>lineage.
         sret (jobject [(''context'', context_metadata_value te context), (''lineage'', lineage),
           (''reduced_from'', JArray (map JString references)),
           (''reduction'', JString ''deterministic-concat'')])))))))))))"

section \<open>Documents\<close>

text \<open>
  The file system as the source uses it: canonical paths, kinds of files, their size, and reading
  at most a number of bytes. Errors are what \<open>std::io\<close> reports.
\<close>

record file_system =
  fs_canonicalize :: "string \<Rightarrow> string + string"
  fs_is_dir :: "string \<Rightarrow> bool"
  fs_is_file :: "string \<Rightarrow> bool"
  fs_size :: "string \<Rightarrow> string + nat"
  fs_open :: "string \<Rightarrow> string + unit"
  fs_read :: "string \<Rightarrow> nat \<Rightarrow> string + string"

text \<open>The components of a path on Unix: the root, names and parents.\<close>

definition is_absolute :: "string \<Rightarrow> bool" where
  "is_absolute p \<longleftrightarrow> starts_with p ''/''"

definition path_components :: "string \<Rightarrow> string list" where
  "path_components p =
     (if is_absolute p then [''/''] else if split_byte CHR ''/'' [] p ! 0 = ''.'' then [''.''] else [])
     @ filter (\<lambda>c. c \<noteq> [] \<and> c \<noteq> ''.'') (split_byte CHR ''/'' [] p)"

definition path_join :: "string \<Rightarrow> string \<Rightarrow> string" where
  "path_join root_path p =
     (if is_absolute p then p
      else if root_path = [] \<or> last root_path = CHR ''/'' then root_path @ p
      else root_path @ ''/'' @ p)"

definition path_starts_with :: "string \<Rightarrow> string \<Rightarrow> bool" where
  "path_starts_with p q \<longleftrightarrow> take (length (path_components q)) (path_components p) = path_components q"

definition io_result :: "string + 'a \<Rightarrow> 'a call" where
  "io_result r = (case r of Inl e \<Rightarrow> Inl (ExecutionCall (SIo e)) | Inr a \<Rightarrow> Inr a)"

definition io_context :: "string \<Rightarrow> string + 'a \<Rightarrow> 'a call" where
  "io_context message r =
     (case r of Inl e \<Rightarrow> Inl (ExecutionCall (SInvalid (message @ e))) | Inr a \<Rightarrow> Inr a)"

definition max_bytes_argument :: "json_map \<Rightarrow> nat call" where
  "max_bytes_argument arguments = optional_usize arguments [''max_bytes''] (4 * 1024 * 1024)"

definition read_document_under_root ::
    "file_system \<Rightarrow> string \<Rightarrow> string \<Rightarrow> json_map \<Rightarrow> (string \<times> string) call" where
  "read_document_under_root fs root_path relative arguments =
     rbind (max_bytes_argument arguments) (\<lambda>max_bytes.
     if max_bytes = 0 \<or> 16 * 1024 * 1024 < max_bytes
     then invalid ''max_bytes must be between 1 and 16777216''
     else
       rbind (io_context ''document root is not readable: '' (fs_canonicalize fs root_path)) (\<lambda>canonical_root.
       if \<not> fs_is_dir fs canonical_root then invalid ''root must be a directory''
       else if is_absolute relative \<or> ''..'' \<in> set (path_components relative)
       then invalid ''path must stay inside root''
       else
         rbind (io_context ''document file was not found: ''
                  (fs_canonicalize fs (path_join canonical_root relative))) (\<lambda>candidate.
         if \<not> path_starts_with candidate canonical_root \<or> \<not> fs_is_file fs candidate
         then invalid ''path must stay inside root''
         else
           rbind (io_result (fs_size fs candidate)) (\<lambda>size.
           if max_bytes < size then invalid ''document exceeds max_bytes''
           else
             rbind (io_result (fs_open fs candidate)) (\<lambda>_.
             rbind (io_result (fs_read fs candidate (max_bytes + 1))) (\<lambda>bytes.
             if max_bytes < length bytes then invalid ''document exceeds max_bytes''
             else if \<not> utf8_valid bytes then invalid ''document must be UTF-8 text''
             else Inr (map (\<lambda>c. if c = CHR 0x5C then CHR ''/'' else c) relative, bytes)))))))"

text \<open>\<open>chunks(n)\<close> of the characters.\<close>

fun char_groups :: "nat \<Rightarrow> nat \<Rightarrow> string list \<Rightarrow> string list list" where
  "char_groups 0 n cs = []"
| "char_groups (Suc fuel) n cs = (if cs = [] then [] else take n cs # char_groups fuel n (drop n cs))"

definition char_chunks :: "string \<Rightarrow> nat \<Rightarrow> string list" where
  "char_chunks content n = map concat (char_groups (char_count content) n (utf8_chars content))"

definition pad4 :: "nat \<Rightarrow> string" where
  "pad4 n = replicate (4 - length (dec_nat n)) CHR ''0'' @ dec_nat n"

text \<open>What is known of the document: its path, hash, source, name and number of chunks.\<close>

record document =
  dc_path :: string
  dc_sha256 :: string
  dc_source :: string
  dc_name :: string
  dc_chunks :: "string list"
  dc_expires_at :: "string option"

definition document_ref :: "tool_env \<Rightarrow> string \<Rightarrow> string \<Rightarrow> nat \<Rightarrow> string" where
  "document_ref te workspace source i =
     stable_context_ref te ''ctx'' (nul_joined [''document'', workspace, source, dec_nat i])"

definition ingest_chunk :: "tool_env \<Rightarrow> string \<Rightarrow> document \<Rightarrow> nat \<times> string \<Rightarrow> (string \<times> bool) tool" where
  "ingest_chunk te workspace doc = (\<lambda>(i, chunk).
     let reference = document_ref te workspace (dc_source doc) i in
     sbind (on_store (live_context (te_store te) reference workspace)) (\<lambda>existed.
     let schema = te_render te (jobject
           [(''kind'', JString ''local_document_chunk''), (''version'', JInt 1),
            (''path'', JString (dc_path doc)), (''document_sha256'', JString (dc_sha256 doc)),
            (''chunk_index'', JInt (int i)), (''chunk_count'', JInt (int (length (dc_chunks doc))))])
     in sbind (on_store (put_context_with_metadata (te_store te) reference
                 (dc_name doc @ ''#'' @ pad4 (i + 1)) chunk
                 \<lparr>cm_schema = schema, cm_source = dc_source doc @ ''#chunk='' @ dec_nat i,
                  cm_expires_at = dc_expires_at doc\<rparr> workspace)) (\<lambda>_.
        sret (reference, existed \<noteq> None))))"

definition document_answer :: "json \<Rightarrow> bool \<Rightarrow> bool \<Rightarrow> nat \<Rightarrow> string list \<Rightarrow> string \<Rightarrow> json" where
  "document_answer base committed duplicate n refs status = jobject
     [(''committed'', JBool committed), (''duplicate'', JBool duplicate), (''document'', base),
      (''chunks'', JInt (int n)), (''refs'', JArray (map JString refs)),
      (''result_status'', JString status)]"

definition document_base :: "document \<Rightarrow> nat \<Rightarrow> nat \<Rightarrow> json" where
  "document_base doc bytes chunk_chars = jobject
     [(''path'', JString (dc_path doc)), (''sha256'', JString (dc_sha256 doc)),
      (''bytes'', JInt (int bytes)), (''chunks'', JInt (int (length (dc_chunks doc)))),
      (''chunk_chars'', JInt (int chunk_chars)), (''source'', JString (dc_source doc))]"

definition commit_document :: "tool_env \<Rightarrow> string \<Rightarrow> json \<Rightarrow> document \<Rightarrow> json tool" where
  "commit_document te workspace base doc =
     sbind (smapM (ingest_chunk te workspace doc) (enumerate 0 (dc_chunks doc))) (\<lambda>results.
     let duplicate = list_all snd results; refs = map fst results in
     sret (document_answer base True duplicate (length refs) refs
       (if duplicate then ''duplicate'' else ''ok'')))"

definition exact_ingest_document :: "tool_env \<Rightarrow> file_system \<Rightarrow> json_map \<Rightarrow> json tool" where
  "exact_ingest_document te fs arguments =
     sbind (slift (required_context_workspace arguments)) (\<lambda>workspace.
     sbind (slift (required_string arguments ''root'')) (\<lambda>root_path.
     sbind (slift (required_string arguments ''path'')) (\<lambda>relative.
     sbind (slift (read_document_under_root fs root_path relative arguments)) (\<lambda>(normalized, content).
     sbind (slift (optional_usize arguments [''chunk_chars''] 4000)) (\<lambda>chunk_chars.
     if \<not> (256 \<le> chunk_chars \<and> chunk_chars \<le> 16000)
     then slift (invalid ''chunk_chars must be between 256 and 16000'')
     else
       sbind (slift (max_bytes_argument arguments)) (\<lambda>max_bytes.
       if max_bytes = 0 \<or> 16 * 1024 * 1024 < max_bytes \<or> max_bytes < length content
       then slift (invalid ''document exceeds max_bytes'')
       else if char_chunks content chunk_chars = [] then slift (invalid ''document is empty'')
       else
         sbind (slift (optional_string arguments ''name'')) (\<lambda>name.
         let sha256 = sha256_text te content;
             doc = \<lparr>dc_path = normalized, dc_sha256 = sha256,
               dc_source = ''local-document:'' @ normalized @ ''@'' @ sha256 @ '':chars='' @ dec_nat chunk_chars,
               dc_name = or_text (''document:'' @ normalized) (option_filter (\<lambda>n. \<not> blank n) name),
               dc_chunks = char_chunks content chunk_chars, dc_expires_at = None\<rparr>;
             base = document_base doc (length content) chunk_chars
         in if Option.bind (jget arguments ''commit'') as_bool \<noteq> Some True
         then sret (document_answer base False False (length (dc_chunks doc)) [] ''preview'')
         else
           sbind (slift (context_expiry te arguments)) (\<lambda>expires_at.
           commit_document te workspace base (doc\<lparr>dc_expires_at := expires_at\<rparr>)))))))))"

section \<open>What they write\<close>

lemmas context_tool_rules = tool_writes_intros tool_writes_contexts
  writes_put_context_with_metadata[THEN on_store_writes] writes_link_context[THEN on_store_writes]
  on_store_reads keeping

lemma context_tools_write:
  assumes "se_sha256 (te_store te) = sha"
  shows "tool_writes d sha (named_workspaces arguments) (exact_put_context te arguments)"
    "tool_writes d sha (named_workspaces arguments) (exact_read_context te arguments)"
    "tool_writes d sha (named_workspaces arguments) (exact_list_context te arguments)"
    "tool_writes d sha (named_workspaces arguments) (exact_resolve_context te arguments)"
    "tool_writes d sha (named_workspaces arguments) (exact_search_context te arguments)"
    "tool_writes d sha (named_workspaces arguments) (exact_chunk_context te arguments)"
    "tool_writes d sha (named_workspaces arguments) (exact_reduce_context te arguments)"
    "tool_writes d sha (named_workspaces arguments) (exact_ingest_document te fs arguments)"
  unfolding exact_put_context_def exact_read_context_def exact_list_context_def exact_resolve_context_def
    exact_search_context_def exact_chunk_context_def exact_reduce_context_def exact_ingest_document_def
    commit_document_def ingest_chunk_def Let_def
  by (-, (intro context_tool_rules assms; erule named_workspace)+)

end
