(* ===== verification/DiagnosticsTelemetry.thy ===== *)
theory DiagnosticsTelemetry
  imports ProtocolSanitize
begin

text \<open>
  Access telemetry in \<open>src/diagnostics.rs\<close>: an event about an access to the memory carries only a
  fixed set of aggregate fields, which may come at the top, in \<open>telemetry\<close>, or in the payload, must
  agree, and are checked one by one.
\<close>

type_synonym 'a checked = "string + 'a"

definition TELEMETRY_FIELDS :: "string list" where
  "TELEMETRY_FIELDS = [''issue_ref'', ''run_id'', ''site'', ''outcome'', ''fallback'',
     ''result_count'', ''latency_ms'', ''query_hash'']"

definition COMMON_FIELDS :: "string list" where
  "COMMON_FIELDS = [''idempotency_key'', ''event_kind'', ''event_id'', ''session_id'', ''source'',
     ''cwd'', ''path'', ''tool_name'', ''workspace'', ''workspace_id'', ''capture'']"

definition MAX_REFERENCE_CHARS :: nat where "MAX_REFERENCE_CHARS = 256"
definition MAX_ACCESS_RESULT_COUNT :: nat where "MAX_ACCESS_RESULT_COUNT = 1000000"
definition MAX_ACCESS_LATENCY_MS :: rat where "MAX_ACCESS_LATENCY_MS = 86400000"

section \<open>Fields\<close>

definition string_value :: "json \<Rightarrow> string checked" where
  "string_value v =
     (case as_str v of None \<Rightarrow> Inl ''memory-access telemetry field must be a string'' | Some x \<Rightarrow> Inr x)"

definition bool_value :: "json \<Rightarrow> bool checked" where
  "bool_value v =
     (case as_bool v of None \<Rightarrow> Inl ''memory-access telemetry fallback must be a boolean'' | Some x \<Rightarrow> Inr x)"

definition u64_value :: "json \<Rightarrow> nat checked" where
  "u64_value v =
     (case as_u64 v of
        None \<Rightarrow> Inl ''memory-access telemetry result_count must be an integer'' | Some x \<Rightarrow> Inr x)"

definition f64_value :: "json \<Rightarrow> f64 checked" where
  "f64_value v =
     (case as_f64 v of
        None \<Rightarrow> Inl ''memory-access telemetry latency_ms must be a number'' | Some x \<Rightarrow> Inr x)"

text \<open>\<open>fields.get(key).map(read).transpose()?.unwrap_or(d)\<close>.\<close>

definition field_or :: "'a \<Rightarrow> (json \<Rightarrow> 'a checked) \<Rightarrow> json_map \<Rightarrow> string \<Rightarrow> 'a checked" where
  "field_or d read fs key = (case jget fs key of None \<Rightarrow> Inr d | Some v \<Rightarrow> read v)"

definition not_allowed :: "string \<Rightarrow> string" where
  "not_allowed key = ''memory-access telemetry field is not allowed: '' @ key"

definition merge_field :: "json_map \<Rightarrow> string \<Rightarrow> json \<Rightarrow> json_map checked" where
  "merge_field fs key v =
     (case jget fs key of
        Some existing \<Rightarrow>
          if existing \<noteq> v then Inl (''memory-access telemetry field conflicts: '' @ key) else Inr fs
      | None \<Rightarrow> Inr (jinsert key v fs))"

fun merge_members :: "string list \<Rightarrow> json_map \<Rightarrow> json_map \<Rightarrow> json_map checked" where
  "merge_members allowed fs [] = Inr fs"
| "merge_members allowed fs ((k, v) # m) =
     (if k \<notin> set allowed then Inl (not_allowed k)
      else rbind (merge_field fs k v) (\<lambda>fs. merge_members allowed fs m))"

definition merge_telemetry_object ::
    "json_map \<Rightarrow> json \<Rightarrow> string \<Rightarrow> string list \<Rightarrow> json_map checked" where
  "merge_telemetry_object fs v source allowed =
     (case as_object v of
        None \<Rightarrow> Inl (''memory-access '' @ source @ '' must be an aggregate object'')
      | Some m \<Rightarrow> merge_members allowed fs m)"

text \<open>\<open>char::is_control\<close>.\<close>

definition is_control :: "string \<Rightarrow> bool" where
  "is_control c \<longleftrightarrow>
     (case c of
        [b] \<Rightarrow> code b < 32 \<or> code b = 127
      | [a, b] \<Rightarrow> code a = 194 \<and> 128 \<le> code b \<and> code b < 160
      | _ \<Rightarrow> False)"

definition sensitive_starts :: "string list" where
  "sensitive_starts = [''/'', [CHR 0x5C, CHR 0x5C], ''../'', ''..'' @ [CHR 0x5C], ''./'',
     ''.'' @ [CHR 0x5C], ''~/'', ''bearer '', ''basic '']"

definition sensitive_parts :: "string list" where
  "sensitive_parts = [''token='', ''secret='', ''password='', ''api_key='', ''private_key='']"

definition contains_sensitive_marker :: "string \<Rightarrow> bool" where
  "contains_sensitive_marker value \<longleftrightarrow>
     (let lower = map to_ascii_lower (str_trim value) in
      sql_instr lower ''://'' \<or> list_ex (starts_with lower) sensitive_starts
      \<or> (3 \<le> length lower \<and> lower ! 1 = CHR '':'' \<and> lower ! 2 \<in> {CHR ''/'', CHR 0x5C})
      \<or> list_ex (sql_instr lower) sensitive_parts)"

definition bounded_opaque_string :: "json_map \<Rightarrow> string \<Rightarrow> string checked" where
  "bounded_opaque_string fs key =
     rbind (field_or [] string_value fs key) (\<lambda>value.
     if MAX_REFERENCE_CHARS < length (utf8_chars value) \<or> list_ex is_control (utf8_chars value)
       \<or> contains_sensitive_marker value
     then Inl (''memory-access telemetry '' @ key @ '' is not a safe opaque reference'')
     else Inr value)"

text \<open>\<open>round3\<close> of a number that is not negative: \<open>round\<close> takes halves away from zero.\<close>

definition round3 :: "rat \<Rightarrow> rat" where
  "round3 v = round_f64 (of_int (floor (round_f64 (v * 1000) + 1 / 2)) / 1000)"

section \<open>Telemetry\<close>

definition merge_payload :: "json_map \<Rightarrow> string \<times> json \<Rightarrow> json_map checked" where
  "merge_payload fs = (\<lambda>(key, v).
     case as_object v of
       None \<Rightarrow> Inl ''memory-access telemetry payload must be an aggregate object''
     | Some m \<Rightarrow>
         (case jget m ''telemetry'' of
            Some telemetry \<Rightarrow>
              if list_ex (\<lambda>p. fst p \<noteq> ''telemetry'') m
              then Inl ''memory-access telemetry wrapper contains a non-aggregate field''
              else merge_telemetry_object fs telemetry key TELEMETRY_FIELDS
          | None \<Rightarrow> merge_telemetry_object fs v key TELEMETRY_FIELDS))"

text \<open>The keys of a list that are present, in its order, with their values.\<close>

definition present_fields :: "json_map \<Rightarrow> string list \<Rightarrow> json_map" where
  "present_fields arguments keys =
     List.map_filter (\<lambda>k. map_option (Pair k) (jget arguments k)) keys"

fun merge_payloads :: "json_map \<Rightarrow> json_map \<Rightarrow> json_map checked" where
  "merge_payloads fs [] = Inr fs"
| "merge_payloads fs (p # ps) = rbind (merge_payload fs p) (\<lambda>fs. merge_payloads fs ps)"

fun merge_fields :: "json_map \<Rightarrow> json_map \<Rightarrow> json_map checked" where
  "merge_fields fs [] = Inr fs"
| "merge_fields fs ((k, v) # ps) = rbind (merge_field fs k v) (\<lambda>fs. merge_fields fs ps)"

definition telemetry_fields :: "json_map \<Rightarrow> json_map checked" where
  "telemetry_fields arguments =
     (case filter (\<lambda>k. k \<notin> set COMMON_FIELDS \<and> k \<notin> set TELEMETRY_FIELDS
             \<and> k \<notin> {''telemetry'', ''payload'', ''content''}) (map fst arguments) of
        key # _ \<Rightarrow> Inl (not_allowed key)
      | [] \<Rightarrow>
          rbind (case jget arguments ''telemetry'' of
                   None \<Rightarrow> Inr []
                 | Some v \<Rightarrow> merge_telemetry_object [] v ''telemetry'' TELEMETRY_FIELDS) (\<lambda>fs.
          rbind (merge_payloads fs (present_fields arguments [''payload'', ''content''])) (\<lambda>fs.
          merge_fields fs (present_fields arguments TELEMETRY_FIELDS))))"

definition telemetry_outcomes :: "string list" where
  "telemetry_outcomes = [''succeeded'', ''fallback'', ''failed'', ''abstained'', ''timeout'',
     ''unsupported'', ''unavailable'']"

definition access_telemetry :: "json_map \<Rightarrow> json checked" where
  "access_telemetry arguments =
     rbind (telemetry_fields arguments) (\<lambda>fs.
     rbind (bounded_opaque_string fs ''issue_ref'') (\<lambda>issue_ref.
     rbind (bounded_opaque_string fs ''run_id'') (\<lambda>run_id.
     rbind (bounded_opaque_string fs ''site'') (\<lambda>site.
     rbind (field_or ''succeeded'' string_value fs ''outcome'') (\<lambda>outcome.
     rbind (rguard (outcome \<in> set telemetry_outcomes) ''memory-access telemetry outcome is invalid'') (\<lambda>_.
     rbind (field_or False bool_value fs ''fallback'') (\<lambda>fallback.
     rbind (field_or 0 u64_value fs ''result_count'') (\<lambda>result_count.
     rbind (rguard (result_count \<le> MAX_ACCESS_RESULT_COUNT)
              ''memory-access telemetry result_count is too large'') (\<lambda>_.
     rbind (field_or (Finite 0) f64_value fs ''latency_ms'') (\<lambda>latency_ms.
     rbind (case f64_rat latency_ms of
              None \<Rightarrow> Inl ''memory-access telemetry latency_ms is out of range''
            | Some r \<Rightarrow>
                if 0 \<le> r \<and> r \<le> MAX_ACCESS_LATENCY_MS then Inr r
                else Inl ''memory-access telemetry latency_ms is out of range'') (\<lambda>latency_ms.
     rbind (field_or [] string_value fs ''query_hash'') (\<lambda>query_hash.
     if query_hash \<noteq> [] \<and> (length query_hash \<noteq> 64 \<or> \<not> list_all is_hexdigit query_hash)
     then Inl ''memory-access telemetry query_hash must be a SHA-256 hex string''
     else Inr (jobject
       [(''version'', JInt 1), (''issue_ref'', JString issue_ref), (''run_id'', JString run_id),
        (''site'', JString site), (''outcome'', JString outcome), (''fallback'', JBool fallback),
        (''result_count'', JInt (int result_count)), (''latency_ms'', JFloat (round3 latency_ms)),
        (''query_hash'', JString query_hash)])))))))))))))"

end
