(* ===== verification/ProtocolEvents.thy ===== *)
theory ProtocolEvents
  imports ProtocolContexts DiagnosticsTelemetry
begin

text \<open>
  The tools on lifecycle events and handoffs in \<open>src/protocol.rs\<close>. Capturing an event checks its
  strings, sanitizes the payload and the metadata, stores an envelope as a context and records the
  event under its key; a handoff is a context with an owner that another actor accepts or cancels.
\<close>

section \<open>Capturing events\<close>

definition validate_event_string :: "string \<Rightarrow> nat \<Rightarrow> string \<Rightarrow> unit call" where
  "validate_event_string value max_chars label =
     (if max_chars < char_count value
      then invalid (label @ '' exceeds the configured limit ('' @ dec_nat max_chars @ '' characters)'')
      else Inr ())"

definition event_kind_of :: "tool_env \<Rightarrow> string \<Rightarrow> string" where
  "event_kind_of te raw =
     map (\<lambda>c. if c = CHR ''_'' then CHR ''-'' else c) (se_lowercase (te_store te) (str_trim raw))"

text \<open>The strings of a request, once they have been checked.\<close>

record event_request =
  rq_workspace :: string
  rq_key :: string
  rq_event_id :: string
  rq_kind :: string
  rq_session :: string
  rq_source :: string
  rq_cwd :: string
  rq_path :: string
  rq_tool :: string

definition event_request_of :: "tool_env \<Rightarrow> json_map \<Rightarrow> event_request call" where
  "event_request_of te arguments =
     rbind (required_context_workspace arguments) (\<lambda>workspace.
     rbind (required_string arguments ''idempotency_key'') (\<lambda>key.
     rbind (string_or key arguments ''event_id'') (\<lambda>event_id.
     rbind (required_string arguments ''event_kind'') (\<lambda>raw_kind.
     rbind (string_or [] arguments ''session_id'') (\<lambda>session.
     rbind (string_or [] arguments ''source'') (\<lambda>source.
     rbind (string_or [] arguments ''cwd'') (\<lambda>cwd.
     rbind (string_or [] arguments ''path'') (\<lambda>path.
     rbind (string_or [] arguments ''tool_name'') (\<lambda>tool_name.
     rbind (rforM (\<lambda>(v, n, label). validate_event_string v n label)
              [(key, 256, ''idempotency_key''), (event_id, 256, ''event_id''),
               (raw_kind, 64, ''event_kind''), (session, 256, ''session_id''),
               (source, 256, ''source''), (cwd, 1024, ''cwd''), (path, 1024, ''path''),
               (tool_name, 256, ''tool_name''),
               (event_kind_of te raw_kind, 64, ''event_kind'')]) (\<lambda>_.
     let kind = event_kind_of te raw_kind in
     if kind = [] then invalid ''event_kind must not be empty''
     else
       rbind (rforM (\<lambda>(v, label). reject_sensitive_event_string v label)
                [(key, ''idempotency_key''), (event_id, ''event_id''), (kind, ''event_kind''),
                 (session, ''session_id'')]) (\<lambda>_.
       Inr \<lparr>rq_workspace = workspace, rq_key = key, rq_event_id = event_id, rq_kind = kind,
         rq_session = session, rq_source = source, rq_cwd = cwd, rq_path = path,
         rq_tool = tool_name\<rparr>)))))))))))"

text \<open>What is stored of the payload.\<close>

record event_payload =
  ep_format :: string
  ep_payload :: json
  ep_json :: string
  ep_truncated :: bool

definition is_json_string :: "json \<Rightarrow> bool" where
  "is_json_string v \<longleftrightarrow> as_str v \<noteq> None"

definition access_telemetry_of :: "string \<Rightarrow> json_map \<Rightarrow> json option call" where
  "access_telemetry_of kind arguments =
     (if kind = ''memory-access''
      then (case access_telemetry arguments of Inl e \<Rightarrow> invalid e | Inr v \<Rightarrow> Inr (Some v))
      else Inr None)"

definition event_payload_of :: "tool_env \<Rightarrow> json option \<Rightarrow> json_map \<Rightarrow> event_payload call" where
  "event_payload_of te telemetry arguments =
     (case telemetry of
        Some telemetry \<Rightarrow>
          let payload = jobject [(''telemetry'', telemetry)] in
          Inr \<lparr>ep_format = ''json'', ep_payload = payload, ep_json = te_render te payload,
            ep_truncated = False\<rparr>
      | None \<Rightarrow>
          rbind (some_or ''payload or content is required''
                   (or_else (jget arguments ''payload'') (jget arguments ''content''))) (\<lambda>payload.
          rbind (event_exclusions arguments) (\<lambda>exclusions.
          let (sanitized, text, truncated) =
                prepare_sanitized_json (te_render te) payload exclusions MAX_EVENT_PAYLOAD_BYTES
          in Inr \<lparr>ep_format = (if is_json_string payload then ''text'' else ''json''),
               ep_payload = sanitized, ep_json = text, ep_truncated = truncated\<rparr>)))"

definition event_metadata :: "event_request \<Rightarrow> json option \<Rightarrow> json" where
  "event_metadata r telemetry =
     (let v = jobject
           [(''event_id'', JString (rq_event_id r)), (''session_id'', JString (rq_session r)),
            (''source'', JString (rq_source r)), (''cwd'', JString (rq_cwd r)),
            (''path'', JString (rq_path r)), (''tool_name'', JString (rq_tool r))]
      in case telemetry of None \<Rightarrow> v | Some t \<Rightarrow> put_field v ''telemetry'' t)"

definition event_envelope :: "event_request \<Rightarrow> event_payload \<Rightarrow> json" where
  "event_envelope r p = jobject
     [(''version'', JInt 1), (''event_id'', JString (sanitize_event_string (rq_event_id r))),
      (''event_kind'', JString (rq_kind r)),
      (''session_id'', JString (sanitize_event_string (rq_session r))),
      (''source'', JString (sanitize_event_string (rq_source r))),
      (''tool_name'', JString (sanitize_event_string (rq_tool r))),
      (''payload_format'', JString (ep_format p)), (''payload'', ep_payload p),
      (''truncated'', JBool (ep_truncated p)), (''sanitized'', JBool True)]"

definition event_field :: "json \<Rightarrow> string \<Rightarrow> json \<Rightarrow> json" where
  "event_field metadata k d = (case field metadata k of None \<Rightarrow> d | Some v \<Rightarrow> v)"

definition parsed_or :: "tool_env \<Rightarrow> json \<Rightarrow> string \<Rightarrow> json" where
  "parsed_or te d text = (case te_parse te text of None \<Rightarrow> d | Some v \<Rightarrow> v)"

definition event_value :: "tool_env \<Rightarrow> lifecycle_event \<Rightarrow> json" where
  "event_value te ev =
     (let metadata = parsed_or te (jobject []) (ev_metadata ev) in jobject
       [(''event_ref'', JString (ev_context_reference ev)),
        (''context_ref'', JString (ev_context_reference ev)),
        (''idempotency_key'', JString (ev_idempotency_key ev)),
        (''event_id'', event_field metadata ''event_id'' (JString (ev_idempotency_key ev))),
        (''event_kind'', JString (ev_event_type ev)),
        (''session_id'', event_field metadata ''session_id'' (JString [])),
        (''source'', event_field metadata ''source'' (JString [])),
        (''tool_name'', event_field metadata ''tool_name'' (JString [])),
        (''sha256'', JString (ev_payload_sha256 ev)), (''payload_bytes'', JInt (ev_payload_size ev)),
        (''payload_truncated'', JBool (ev_payload_truncated ev)),
        (''workspace'', JString (ev_workspace ev)), (''created_at'', JString (ev_created_at ev))])"

text \<open>
  Storing the event: a key that is known answers with its event, whatever the payload is. What is
  stored depends on the request only through these values.
\<close>

definition store_event ::
    "tool_env \<Rightarrow> event_request \<Rightarrow> event_payload \<Rightarrow> string \<Rightarrow> json tool" where
  "store_event te r p metadata_text =
     sbind (on_store (read_event (rq_key r) (rq_workspace r))) (\<lambda>found.
     case found of
       Some existing \<Rightarrow>
         sret (jobject [(''accepted'', JBool True), (''duplicate'', JBool True),
           (''event'', event_value te existing), (''context'', JNull), (''pruned'', JInt 0)])
     | None \<Rightarrow>
         let reference = stable_context_ref te ''ctx'' (nul_joined [''event'', rq_workspace r, rq_key r]);
             m = \<lparr>cm_schema = te_render te (jobject [(''kind'', JString ''lifecycle_event''),
                   (''version'', JInt 1), (''event_kind'', JString (rq_kind r))]),
                  cm_source = sanitize_event_string (rq_source r), cm_expires_at = None\<rparr>
         in sbind (on_store (put_context_with_metadata (te_store te) reference
                     (''event-'' @ take 32 (sha256_text te (rq_key r)))
                     (te_render te (event_envelope r p)) m (rq_workspace r))) (\<lambda>context.
            sbind (on_store (capture_event (te_store te)
                     \<lparr>es_idempotency_key = rq_key r, es_event_type = rq_kind r,
                      es_context_reference = reference, es_metadata = metadata_text,
                      es_payload = event_payload_text (ep_payload p) (ep_json p),
                      es_payload_truncated = ep_truncated p, es_workspace = rq_workspace r\<rparr>)) (\<lambda>ev.
            sret (jobject [(''accepted'', JBool True), (''duplicate'', JBool False),
              (''event'', event_value te ev), (''context'', context_metadata_value te context),
              (''pruned'', JInt 0)]))))"

definition exact_capture_event :: "tool_env \<Rightarrow> json_map \<Rightarrow> json tool" where
  "exact_capture_event te arguments =
     sbind (slift (event_request_of te arguments)) (\<lambda>r.
     if Option.bind (jget arguments ''capture'') as_bool = Some False
     then sret (jobject [(''accepted'', JBool False), (''status'', JString ''excluded''),
            (''reason'', JString ''capture_disabled'')])
     else
       sbind (slift (access_telemetry_of (rq_kind r) arguments)) (\<lambda>telemetry.
       sbind (slift (event_payload_of te telemetry arguments)) (\<lambda>p.
       store_event te r p (fst (snd (prepare_sanitized_json (te_render te) (event_metadata r telemetry) []
         MAX_EVENT_METADATA_BYTES))))))"

section \<open>Reading events\<close>

definition event_matches :: "tool_env \<Rightarrow> string \<Rightarrow> string \<Rightarrow> lifecycle_event \<Rightarrow> bool" where
  "event_matches te session kind ev \<longleftrightarrow>
     (session = [] \<or> Option.bind (field (parsed_or te (jobject []) (ev_metadata ev)) ''session_id'') as_str
        = Some session)
     \<and> (kind = [] \<or> ev_event_type ev = kind)"

definition exact_list_events :: "tool_env \<Rightarrow> json_map \<Rightarrow> json tool" where
  "exact_list_events te arguments =
     sbind (slift (required_context_workspace arguments)) (\<lambda>workspace.
     sbind (slift (limit_argument arguments 50)) (\<lambda>limit.
     sbind (slift (string_or [] arguments ''session_id'')) (\<lambda>session.
     sbind (slift (string_or [] arguments ''event_kind'')) (\<lambda>kind.
     let kind = map (\<lambda>c. if c = CHR ''_'' then CHR ''-'' else c) kind in
     sbind (on_store (list_events workspace)) (\<lambda>events.
     let shown = take limit (rev (map (event_value te) (filter (event_matches te session kind) events))) in
     sret (jobject [(''count'', JInt (int (length shown))), (''events'', JArray shown)]))))))"

definition exact_read_event :: "tool_env \<Rightarrow> json_map \<Rightarrow> json tool" where
  "exact_read_event te arguments =
     sbind (slift (required_context_workspace arguments)) (\<lambda>workspace.
     sbind (slift (on_error (required_string arguments ''event_ref'') (required_string arguments ''ref''))) (\<lambda>reference.
     sbind (on_store (list_events workspace)) (\<lambda>events.
     sbind (found_or (''event not found: '' @ reference)
              (find (\<lambda>e. ev_context_reference e = reference \<or> ev_idempotency_key e = reference) events)) (\<lambda>ev.
     sbind (on_store (live_context (te_store te) (ev_context_reference ev) workspace)) (\<lambda>c.
     sbind (found_or ''event context not found'' c) (\<lambda>c.
     sbind (slift (optional_usize arguments [''max_chars''] 4000)) (\<lambda>max_chars.
     let stop = min (char_count (cx_content c)) max_chars in
     sbind (context_lineage_value te (ev_context_reference ev) workspace) (\<lambda>lineage.
     sret (jobject [(''event'', event_value te ev),
       (''context'', put_fields (context_metadata_value te c) (page_fields (cx_content c) 0 stop)),
       (''lineage'', lineage)])))))))))"

section \<open>Handoffs\<close>

definition handoff_value :: "handoff \<Rightarrow> json" where
  "handoff_value h = jobject
     [(''ref'', JString (''hnd_'' @ dec_int (ho_id h))), (''context_ref'', JString (ho_context_reference h)),
      (''owner'', JString (ho_owner h)), (''session_id'', JString (ho_session h)),
      (''source'', JString (ho_source h)), (''sha256'', JString []),
      (''workspace'', JString (ho_workspace h)), (''shared'', JBool (ho_shared h)),
      (''state'', JString (ho_state h)), (''created_at'', JString (ho_created_at h)),
      (''expires_at'', optional_json (ho_expires_at h)), (''accepted_at'', optional_json (ho_accepted_at h)),
      (''accepted_by'', optional_json (ho_accepted_by h)), (''cancelled_at'', optional_json (ho_cancelled_at h)),
      (''cancelled_by'', optional_json (ho_cancelled_by h))]"

definition handoff_request_key :: "tool_env \<Rightarrow> string \<Rightarrow> string \<Rightarrow> string \<Rightarrow> string option \<Rightarrow> string" where
  "handoff_request_key te workspace owner content key =
     or_text (''handoff:'' @ sha256_text te (nul_joined [workspace, owner, content]))
       (option_filter (\<lambda>k. \<not> blank k) key)"

definition exact_handoff_begin :: "tool_env \<Rightarrow> json_map \<Rightarrow> json tool" where
  "exact_handoff_begin te arguments =
     sbind (slift (required_context_workspace arguments)) (\<lambda>workspace.
     sbind (slift (required_string arguments ''content'')) (\<lambda>content.
     sbind (slift (required_string arguments ''owner'')) (\<lambda>owner.
     if content = [] \<or> blank owner then slift (invalid ''content and owner are required'')
     else
       sbind (slift (checksum_matches te arguments content)) (\<lambda>_.
       sbind (slift (optional_string arguments ''idempotency_key'')) (\<lambda>key.
       let key = handoff_request_key te workspace owner content key;
           reference = stable_context_ref te ''ctx'' (nul_joined [''handoff'', workspace, key])
       in sbind (on_store (list_handoffs (te_store te) workspace)) (\<lambda>handoffs.
          case find (\<lambda>h. ho_idempotency_key h = key) handoffs of
            Some existing \<Rightarrow>
              sret (jobject [(''created'', JBool True), (''duplicate'', JBool True),
                (''handoff'', handoff_value existing), (''context'', JNull)])
          | None \<Rightarrow>
              sbind (slift (string_or ''handoff'' arguments ''name'')) (\<lambda>name.
              sbind (slift (string_or [] arguments ''source'')) (\<lambda>source.
              sbind (slift (context_expiry te arguments)) (\<lambda>expires_at.
              sbind (on_store (put_context_with_metadata (te_store te) reference name content
                       \<lparr>cm_schema = te_render te (jobject [(''kind'', JString ''typed_handoff''),
                          (''version'', JInt 1), (''owner'', JString owner)]),
                        cm_source = source, cm_expires_at = expires_at\<rparr> workspace)) (\<lambda>context.
              sbind (slift (string_or [] arguments ''session_id'')) (\<lambda>session.
              sbind (slift (optional_bool arguments [''shared''] False)) (\<lambda>shared.
              sbind (slift (optional_i64 arguments [''ttl_seconds''])) (\<lambda>ttl.
              sbind (on_store (begin_handoff (te_store te)
                       \<lparr>hs_idempotency_key = key, hs_context_reference = reference, hs_owner = owner,
                        hs_session = session, hs_source = source, hs_workspace = workspace,
                        hs_shared = shared, hs_ttl_seconds = ttl, hs_expires_at = None\<rparr>)) (\<lambda>h.
              sret (jobject [(''created'', JBool True), (''duplicate'', JBool False),
                (''handoff'', handoff_value h),
                (''context'', context_metadata_value te context)]))))))))))))))) "

definition handoff_key :: "tool_env \<Rightarrow> string \<Rightarrow> string \<Rightarrow> string tool" where
  "handoff_key te reference workspace =
     (case Option.bind (strip_prefix reference ''hnd_'') parse_i64 of
        None \<Rightarrow> sret reference
      | Some i \<Rightarrow>
          sbind (on_store (list_handoffs (te_store te) workspace)) (\<lambda>handoffs.
          found_or (''handoff not found: '' @ reference)
            (map_option ho_idempotency_key (find (\<lambda>h. ho_id h = i) handoffs))))"

definition exact_list_handoffs :: "tool_env \<Rightarrow> json_map \<Rightarrow> json tool" where
  "exact_list_handoffs te arguments =
     sbind (slift (required_context_workspace arguments)) (\<lambda>workspace.
     sbind (slift (limit_argument arguments 50)) (\<lambda>limit.
     sbind (slift (string_or [] arguments ''owner'')) (\<lambda>owner.
     sbind (slift (string_or [] arguments ''state'')) (\<lambda>state.
     sbind (on_store (list_handoffs (te_store te) workspace)) (\<lambda>handoffs.
     let shown = take limit (rev (map handoff_value
           (filter (\<lambda>h. (owner = [] \<or> ho_owner h = owner) \<and> (state = [] \<or> ho_state h = state)) handoffs)))
     in sret (jobject [(''count'', JInt (int (length shown))), (''handoffs'', JArray shown)]))))))"

definition exact_handoff_transition :: "tool_env \<Rightarrow> bool \<Rightarrow> json_map \<Rightarrow> json tool" where
  "exact_handoff_transition te accept arguments =
     sbind (slift (required_context_workspace arguments)) (\<lambda>workspace.
     sbind (slift (required_string arguments ''handoff_ref'')) (\<lambda>reference.
     sbind (handoff_key te reference workspace) (\<lambda>key.
     sbind (slift (required_string arguments ''actor'')) (\<lambda>actor.
     sbind (if accept then on_store (accept_handoff (te_store te) key actor workspace)
            else on_store (cancel_handoff (te_store te) key actor workspace)) (\<lambda>h.
     sbind (found_or (''handoff not found: '' @ reference) h) (\<lambda>h.
     sbind (on_store (live_context (te_store te) (ho_context_reference h) workspace)) (\<lambda>c.
     sret (jobject [(if accept then ''accepted'' else ''cancelled'', JBool True),
       (''handoff'', handoff_value h),
       (''context'', case c of None \<Rightarrow> JNull | Some c \<Rightarrow> context_metadata_value te c)]))))))))"

definition exact_handoff_accept :: "tool_env \<Rightarrow> json_map \<Rightarrow> json tool" where
  "exact_handoff_accept te arguments = exact_handoff_transition te True arguments"

definition exact_handoff_cancel :: "tool_env \<Rightarrow> json_map \<Rightarrow> json tool" where
  "exact_handoff_cancel te arguments = exact_handoff_transition te False arguments"

section \<open>What they write\<close>

lemmas event_tool_rules = writes_capture_event[THEN on_store_writes]
  writes_begin_handoff[THEN on_store_writes] writes_list_handoffs[THEN on_store_writes]
  writes_accept_handoff[THEN on_store_writes] writes_cancel_handoff[THEN on_store_writes]
  context_tool_rules

lemma event_request_workspace:
  "event_request_of te arguments = Inr r \<Longrightarrow> required_context_workspace arguments = Inr (rq_workspace r)"
  by (auto simp: event_request_of_def rbind_Inr_iff Let_def invalid_def split: if_splits)

lemma event_tools_write:
  assumes "se_sha256 (te_store te) = sha"
  shows "tool_writes d sha (named_workspaces arguments) (exact_capture_event te arguments)"
    "tool_writes d sha (named_workspaces arguments) (exact_list_events te arguments)"
    "tool_writes d sha (named_workspaces arguments) (exact_read_event te arguments)"
    "tool_writes d sha (named_workspaces arguments) (exact_handoff_begin te arguments)"
    "tool_writes d sha (named_workspaces arguments) (exact_list_handoffs te arguments)"
    "tool_writes d sha (named_workspaces arguments) (exact_handoff_accept te arguments)"
    "tool_writes d sha (named_workspaces arguments) (exact_handoff_cancel te arguments)"
  unfolding exact_capture_event_def store_event_def exact_list_events_def exact_read_event_def
    exact_handoff_begin_def exact_list_handoffs_def exact_handoff_accept_def exact_handoff_cancel_def
    exact_handoff_transition_def handoff_key_def Let_def
  by (-, (intro event_tool_rules assms; (simp; fail)?;
      (erule named_workspace | drule event_request_workspace, erule named_workspace))+)

end
