(* ===== verification/ProtocolValues.thy ===== *)
theory ProtocolValues
  imports ProtocolState StoreExport
begin

text \<open>
  The JSON of the rows that tools answer with: what \<open>Serialize\<close> derives for the structs of
  \<open>src/store.rs\<close>, field by field.
\<close>

text \<open>\<open>json!\<close> of numbers: an \<open>f64\<close> that is not finite is null.\<close>

definition f64_json :: "f64 \<Rightarrow> json" where
  "f64_json x = (case f64_rat x of None \<Rightarrow> JNull | Some r \<Rightarrow> JFloat r)"

definition optional_f64_json :: "f64 option \<Rightarrow> json" where
  "optional_f64_json v = (case v of None \<Rightarrow> JNull | Some x \<Rightarrow> f64_json x)"

definition optional_int :: "int option \<Rightarrow> json" where
  "optional_int v = (case v of None \<Rightarrow> JNull | Some i \<Rightarrow> JInt i)"

definition fact_json :: "'a fact_scheme \<Rightarrow> json" where
  "fact_json f = jobject
     [(''id'', JInt (fa_id f)), (''text'', JString (fa_text f)),
      (''sha256'', JString (fa_sha256 f)), (''workspace'', JString (fa_workspace f)),
      (''lifecycle'', JString (fa_lifecycle f)), (''source'', JString (fa_source f)),
      (''project'', JString (fa_project f)), (''domain'', JString (fa_domain f)),
      (''trust'', JString (fa_trust f)), (''strong'', JBool (fa_strong f)),
      (''importance'', f64_json (fa_importance f)),
      (''category_id'', optional_int (fa_category_id f)),
      (''validity'', JString (fa_validity f)), (''session_id'', JString (fa_session_id f)),
      (''access_count'', JInt (fa_access_count f))]"

definition entity_json :: "entity \<Rightarrow> json" where
  "entity_json r = jobject
     [(''id'', JInt (en_id r)), (''name'', JString (en_name r)),
      (''canonical_name'', JString (en_canonical_name r)),
      (''entity_type'', JString (en_entity_type r)),
      (''aliases'', JArray (map JString (en_aliases r))),
      (''workspace'', JString (en_workspace r))]"

definition relation_json :: "relation \<Rightarrow> json" where
  "relation_json r = jobject
     [(''id'', JInt (re_id r)), (''subject_id'', JInt (re_subject_id r)),
      (''predicate'', JString (re_predicate r)), (''object_id'', JInt (re_object_id r)),
      (''source_fact_id'', optional_int (re_source_fact_id r)),
      (''workspace'', JString (re_workspace r))]"

definition candidate_json :: "relation_candidate \<Rightarrow> json" where
  "candidate_json r = jobject
     [(''id'', JInt (rc_id r)), (''subject'', JString (rc_subject r)),
      (''subject_entity_id'', optional_int (rc_subject_entity_id r)),
      (''predicate'', JString (rc_predicate r)), (''object'', JString (rc_object r)),
      (''object_entity_id'', optional_int (rc_object_entity_id r)),
      (''relation_type'', JString (rc_relation_type r)),
      (''direction'', JString (rc_direction r)), (''score'', f64_json (rc_score r)),
      (''confidence'', f64_json (rc_confidence r)),
      (''source_fact_id'', optional_int (rc_source_fact_id r)),
      (''target_fact_id'', optional_int (rc_target_fact_id r)),
      (''source_evidence_id'', optional_int (rc_source_evidence_id r)),
      (''target_evidence_id'', optional_int (rc_target_evidence_id r)),
      (''source_evidence_status'', JString (rc_source_evidence_status r)),
      (''target_evidence_status'', JString (rc_target_evidence_status r)),
      (''evidence_status'', JString (rc_evidence_status r)),
      (''provenance'', JString (rc_provenance r)), (''status'', JString (rc_status r)),
      (''relation_id'', optional_int (rc_relation_id r)),
      (''reviewer'', JString (rc_reviewer r)), (''review_note'', JString (rc_review_note r)),
      (''workspace'', JString (rc_workspace r)), (''created_at'', JString (rc_created_at r)),
      (''updated_at'', JString (rc_updated_at r))]"

definition decision_json :: "decision \<Rightarrow> json" where
  "decision_json r = jobject
     [(''id'', JInt (de_id r)), (''category'', JString (de_category r)),
      (''subject'', JString (de_subject r)), (''scenario'', JString (de_scenario r)),
      (''reasoning'', JString (de_reasoning r)), (''outcome'', JString (de_outcome r)),
      (''confidence'', optional_f64_json (de_confidence r)),
      (''decision_maker'', JString (de_decision_maker r)),
      (''issue_ref'', JString (de_issue_ref r)), (''path'', JString (de_path r)),
      (''symbol'', JString (de_symbol r)), (''parent_id'', optional_int (de_parent_id r)),
      (''workspace'', JString (de_workspace r))]"

definition evidence_json :: "evidence \<Rightarrow> json" where
  "evidence_json r = jobject
     [(''id'', JInt (ee_id r)), (''fact_id'', JInt (ee_fact_id r)),
      (''source_ref'', JString (ee_source_ref r)), (''source'', JString (ee_source r)),
      (''checksum'', JString (ee_checksum r)), (''fetched_at'', optional_json (ee_fetched_at r)),
      (''repository_ref'', JString (ee_repository_ref r)), (''path'', JString (ee_path r)),
      (''symbol'', JString (ee_symbol r)), (''line_start'', optional_int (ee_line_start r)),
      (''line_end'', optional_int (ee_line_end r)),
      (''column_start'', optional_int (ee_column_start r)),
      (''column_end'', optional_int (ee_column_end r)),
      (''selected_text_sha256'', JString (ee_selected_text_sha256 r)),
      (''resolution_status'', JString (ee_resolution_status r)),
      (''workspace'', JString (ee_workspace r)), (''created_at'', JString (ee_created_at r))]"

definition context_json :: "context_row \<Rightarrow> json" where
  "context_json r = jobject
     [(''reference'', JString (cx_reference r)), (''name'', JString (cx_name r)),
      (''content'', JString (cx_content r)), (''sha256'', JString (cx_sha256 r)),
      (''workspace'', JString (cx_workspace r)), (''schema'', JString (cx_schema r)),
      (''source'', JString (cx_source r)), (''expires_at'', optional_json (cx_expires_at r)),
      (''byte_size'', JInt (cx_byte_size r))]"

definition event_json :: "lifecycle_event \<Rightarrow> json" where
  "event_json r = jobject
     [(''id'', JInt (ev_id r)), (''idempotency_key'', JString (ev_idempotency_key r)),
      (''event_type'', JString (ev_event_type r)),
      (''context_reference'', JString (ev_context_reference r)),
      (''metadata'', JString (ev_metadata r)),
      (''payload_sha256'', JString (ev_payload_sha256 r)),
      (''payload_size'', JInt (ev_payload_size r)),
      (''payload_truncated'', JBool (ev_payload_truncated r)),
      (''workspace'', JString (ev_workspace r)), (''created_at'', JString (ev_created_at r))]"

definition handoff_json :: "handoff \<Rightarrow> json" where
  "handoff_json r = jobject
     [(''id'', JInt (ho_id r)), (''idempotency_key'', JString (ho_idempotency_key r)),
      (''context_reference'', JString (ho_context_reference r)),
      (''owner'', JString (ho_owner r)), (''session'', JString (ho_session r)),
      (''source'', JString (ho_source r)), (''workspace'', JString (ho_workspace r)),
      (''shared'', JBool (ho_shared r)), (''expires_at'', optional_json (ho_expires_at r)),
      (''state'', JString (ho_state r)), (''accepted_at'', optional_json (ho_accepted_at r)),
      (''accepted_by'', optional_json (ho_accepted_by r)),
      (''cancelled_at'', optional_json (ho_cancelled_at r)),
      (''cancelled_by'', optional_json (ho_cancelled_by r)),
      (''created_at'', JString (ho_created_at r))]"

definition run_json :: "run \<Rightarrow> json" where
  "run_json r = jobject
     [(''id'', JInt (ru_id r)), (''run_id'', JString (ru_run_id r)),
      (''issue_ref'', JString (ru_issue_ref r)), (''pr_ref'', JString (ru_pr_ref r)),
      (''session'', JString (ru_session r)), (''git_ref'', JString (ru_git_ref r)),
      (''files'', JString (ru_files r)), (''diff'', JString (ru_diff r)),
      (''summary'', JString (ru_summary r)), (''state'', JString (ru_state r)),
      (''workspace'', JString (ru_workspace r)), (''created_at'', JString (ru_created_at r)),
      (''ended_at'', optional_json (ru_ended_at r))]"

definition measurement_json :: "measurement \<Rightarrow> json" where
  "measurement_json r = jobject
     [(''id'', JInt (me_id r)), (''measurement'', JString (me_measurement r)),
      (''sample'', JString (me_sample r)), (''variant'', JString (me_variant r)),
      (''value'', f64_json (me_value r)), (''baseline'', JBool (me_baseline r)),
      (''workspace'', JString (me_workspace r)), (''created_at'', JString (me_created_at r))]"

definition feedback_json :: "feedback \<Rightarrow> json" where
  "feedback_json r = jobject
     [(''id'', JInt (fe_id r)), (''feedback_id'', JString (fe_feedback_id r)),
      (''site'', JString (fe_site r)), (''item_type'', JString (fe_item_type r)),
      (''item_ref'', JString (fe_item_ref r)), (''signal'', JString (fe_signal r)),
      (''query_hash'', JString (fe_query_hash r)), (''workspace'', JString (fe_workspace r)),
      (''created_at'', JString (fe_created_at r))]"

definition category_json :: "category \<Rightarrow> json" where
  "category_json r = jobject
     [(''id'', JInt (ca_id r)), (''name'', JString (ca_name r)),
      (''workspace'', JString (ca_workspace r)), (''created_at'', JString (ca_created_at r))]"

definition history_json :: "fact_history \<Rightarrow> json" where
  "history_json r = jobject
     [(''id'', JInt (fh_id r)), (''fact_id'', JInt (fh_fact_id r)),
      (''event'', JString (fh_event r)), (''from_lifecycle'', JString (fh_from_lifecycle r)),
      (''to_lifecycle'', JString (fh_to_lifecycle r)), (''note'', JString (fh_note r)),
      (''workspace'', JString (fh_workspace r)), (''created_at'', JString (fh_created_at r))]"

text \<open>An export.\<close>

definition export_json :: "memory_export \<Rightarrow> json" where
  "export_json x = jobject
     [(''facts'', JArray (map fact_json (me_facts x))), (''contexts'', JArray (map context_json (me_contexts x))),
      (''events'', JArray (map event_json (me_events x))),
      (''handoffs'', JArray (map handoff_json (me_handoffs x))),
      (''entities'', JArray (map entity_json (me_entities x))),
      (''relations'', JArray (map relation_json (me_relations x))),
      (''relation_candidates'', JArray (map candidate_json (me_relation_candidates x))),
      (''decisions'', JArray (map decision_json (me_decisions x))),
      (''evidence'', JArray (map evidence_json (me_evidence x))),
      (''categories'', JArray (map category_json (me_categories x))),
      (''runs'', JArray (map run_json (me_runs x))),
      (''measurements'', JArray (map measurement_json (me_measurements x))),
      (''feedback'', JArray (map feedback_json (me_feedbacks x)))]"

text \<open>A list with its length, as most tools answer.\<close>

definition counted :: "string \<Rightarrow> json list \<Rightarrow> json_map" where
  "counted name vs = [(''count'', JInt (int (length vs))), (name, JArray vs)]"

end
