(* ===== verification/PipelineRetrieval.thy ===== *)
theory PipelineRetrieval
  imports ProtocolValues
begin

text \<open>
  The retrieval policy and the enrichment of facts in \<open>src/pipeline.rs\<close>: profiles, eligibility,
  review-only links between facts, categories by rule, and the fusion of lexical, semantic and
  graph rankings. The environment switches of \<open>src/providers.rs\<close> decide what is on; the embedding
  service itself is a parameter.
\<close>

section \<open>Switches\<close>

definition env_var :: "tool_env \<Rightarrow> string \<Rightarrow> string option" where
  "env_var te name = se_var (te_store te) name"

definition embeddings_enabled :: "tool_env \<Rightarrow> bool" where
  "embeddings_enabled te \<longleftrightarrow> env_var te ''MEMORY_MCP_EMBEDDINGS'' = Some ''1''"

definition embedding_provider :: "tool_env \<Rightarrow> string" where
  "embedding_provider te =
     (let v = map to_ascii_lower (str_trim (or_text ''ollama'' (env_var te ''MEMORY_MCP_EMBED_PROVIDER'')))
      in if v \<in> {''ollama'', ''openai'', ''fastembed'', ''test''} then v else ''ollama'')"

definition embedding_model :: "tool_env \<Rightarrow> string" where
  "embedding_model te =
     (case env_var te ''MEMORY_MCP_EMBED_MODEL'' of
        Some m \<Rightarrow> m
      | None \<Rightarrow>
          let p = embedding_provider te in
          if p = ''ollama'' then ''nomic-embed-text''
          else if p = ''openai'' then ''text-embedding-3-small''
          else if p = ''fastembed'' then ''intfloat/multilingual-e5-small''
          else ''test-n-gram-v1'')"

section \<open>Profiles\<close>

record retrieval_profile =
  rp_name :: string
  rp_max_hits :: nat
  rp_max_chars :: nat
  rp_graph_depth :: nat
  rp_requires_resolved_evidence :: bool

definition mk_profile :: "string \<Rightarrow> nat \<Rightarrow> nat \<Rightarrow> nat \<Rightarrow> bool \<Rightarrow> retrieval_profile" where
  "mk_profile name hits chars depth resolved =
     \<lparr>rp_name = name, rp_max_hits = hits, rp_max_chars = chars, rp_graph_depth = depth,
      rp_requires_resolved_evidence = resolved\<rparr>"

definition retrieval_profile_of :: "string \<Rightarrow> retrieval_profile option" where
  "retrieval_profile_of name =
     (if name = ''balanced'' then Some (mk_profile name 100 12000 0 False)
      else if name = ''orientation'' then Some (mk_profile name 6 4000 0 False)
      else if name = ''implementation'' then Some (mk_profile name 12 8000 1 False)
      else if name = ''review'' then Some (mk_profile name 20 12000 1 True)
      else if name = ''incident'' then Some (mk_profile name 20 16000 2 True)
      else None)"

type_synonym 'a store_result = "store_error + 'a"

definition sinvalid :: "string \<Rightarrow> 'a store_result" where
  "sinvalid message = Inl (SInvalid message)"

definition string_arg :: "json_map \<Rightarrow> string \<Rightarrow> string option" where
  "string_arg arguments key = get_str arguments key"

definition bool_arg :: "json_map \<Rightarrow> string \<Rightarrow> bool" where
  "bool_arg arguments key \<longleftrightarrow> Option.bind (jget arguments key) as_bool = Some True"

definition pipeline_required_string :: "json_map \<Rightarrow> string \<Rightarrow> string store_result" where
  "pipeline_required_string arguments key =
     (case get_str arguments key of
        None \<Rightarrow> sinvalid (''tool argument '' @ key @ '' must be a string'')
      | Some v \<Rightarrow> Inr v)"

definition profile_config :: "json_map \<Rightarrow> retrieval_profile store_result" where
  "profile_config arguments =
     (case retrieval_profile_of (str_trim (or_text ''balanced'' (string_arg arguments ''profile''))) of
        None \<Rightarrow> sinvalid ''profile must be one of balanced, orientation, implementation, review, incident''
      | Some p \<Rightarrow> Inr p)"

definition evidence_policy :: "retrieval_profile \<Rightarrow> string" where
  "evidence_policy p =
     (if rp_requires_resolved_evidence p then ''resolved_anchor_required'' else ''advisory_metadata'')"

text \<open>A purpose that is not advisory is refused.\<close>

definition advisory_only :: "string \<Rightarrow> json" where
  "advisory_only operation = jobject
     [(''error'', JString (operation @ '' is advisory-only and cannot authorize safety-critical work'')),
      (''code'', JString ''advisory_only''), (''memory_policy'', JString ''advisory_only''),
      (''safety_critical_allowed'', JBool False)]"

definition advisory_result :: "json_map \<Rightarrow> string \<Rightarrow> json option store_result" where
  "advisory_result arguments operation =
     (let purpose = or_text ''advisory'' (string_arg arguments ''purpose'') in
      if purpose = ''advisory'' then Inr None
      else if purpose = ''safety_critical'' then Inr (Some (advisory_only operation))
      else sinvalid ''purpose must be advisory or safety_critical'')"

section \<open>Linking candidates\<close>

definition MAX_CANDIDATE_LIMIT :: nat where "MAX_CANDIDATE_LIMIT = 50"
definition MAX_CANDIDATE_SCAN_LIMIT :: nat where "MAX_CANDIDATE_SCAN_LIMIT = 1000"
definition MAX_CANDIDATE_SOURCE_FACTS :: nat where "MAX_CANDIDATE_SOURCE_FACTS = 8"
definition DEFAULT_CANDIDATE_LIMIT :: nat where "DEFAULT_CANDIDATE_LIMIT = 8"
definition DEFAULT_CANDIDATE_SCAN_LIMIT :: nat where "DEFAULT_CANDIDATE_SCAN_LIMIT = 200"

definition DEFAULT_CANDIDATE_MIN_SCORE :: f64 where
  "DEFAULT_CANDIDATE_MIN_SCORE = Finite (round_f64 (1 / 20))"

definition candidate_linking_enabled :: "tool_env \<Rightarrow> json_map \<Rightarrow> bool store_result" where
  "candidate_linking_enabled te arguments =
     (case jget arguments ''candidate_linking'' of
        Some v \<Rightarrow>
          (case as_bool v of None \<Rightarrow> sinvalid ''candidate_linking must be a boolean'' | Some b \<Rightarrow> Inr b)
      | None \<Rightarrow>
          Inr (case env_var te ''MEMORY_MCP_CANDIDATE_LINKING'' of
                 None \<Rightarrow> False
               | Some v \<Rightarrow> str_trim v \<in> {''1'', ''true'', ''yes''}))"

definition usize_from_env :: "tool_env \<Rightarrow> string \<Rightarrow> nat \<Rightarrow> nat \<Rightarrow> nat" where
  "usize_from_env te name maximum d =
     (case option_filter (\<lambda>n. 1 \<le> n \<and> n \<le> maximum)
             (Option.bind (env_var te name) (parse_unsigned u64_max)) of
        None \<Rightarrow> d | Some n \<Rightarrow> n)"

definition candidate_limit_from_env :: "tool_env \<Rightarrow> nat" where
  "candidate_limit_from_env te =
     usize_from_env te ''MEMORY_MCP_CANDIDATE_LIMIT'' MAX_CANDIDATE_LIMIT DEFAULT_CANDIDATE_LIMIT"

definition candidate_scan_limit_from_env :: "tool_env \<Rightarrow> nat" where
  "candidate_scan_limit_from_env te =
     usize_from_env te ''MEMORY_MCP_CANDIDATE_SCAN_LIMIT'' MAX_CANDIDATE_SCAN_LIMIT
       DEFAULT_CANDIDATE_SCAN_LIMIT"

definition candidate_min_score_from_env :: "tool_env \<Rightarrow> f64 option" where
  "candidate_min_score_from_env te =
     option_filter in_unit (Option.bind (env_var te ''MEMORY_MCP_CANDIDATE_MIN_SCORE'') (te_parse_f64 te))"

definition bounded_usize :: "json_map \<Rightarrow> string \<Rightarrow> nat \<Rightarrow> nat \<Rightarrow> nat \<Rightarrow> nat store_result" where
  "bounded_usize arguments key d minimum maximum =
     rbind (case jget arguments key of
              None \<Rightarrow> Inr d
            | Some v \<Rightarrow>
                (case as_u64 v of
                   None \<Rightarrow> sinvalid (key @ '' must be a non-negative integer'')
                 | Some n \<Rightarrow> Inr n)) (\<lambda>value.
     if value < minimum \<or> maximum < value
     then sinvalid (key @ '' must be between '' @ dec_nat minimum @ '' and '' @ dec_nat maximum)
     else Inr value)"

definition candidate_min_score :: "tool_env \<Rightarrow> json_map \<Rightarrow> f64 store_result" where
  "candidate_min_score te arguments =
     rbind (case jget arguments ''candidate_min_score'' of
              None \<Rightarrow>
                Inr (case candidate_min_score_from_env te of
                       None \<Rightarrow> DEFAULT_CANDIDATE_MIN_SCORE | Some v \<Rightarrow> v)
            | Some v \<Rightarrow>
                (case as_f64 v of
                   None \<Rightarrow> sinvalid ''candidate_min_score must be a number'' | Some x \<Rightarrow> Inr x)) (\<lambda>value.
     if in_unit value then Inr value else sinvalid ''candidate_min_score must be between 0 and 1'')"

definition candidate_limit :: "tool_env \<Rightarrow> json_map \<Rightarrow> nat store_result" where
  "candidate_limit te arguments =
     bounded_usize arguments ''candidate_limit'' (candidate_limit_from_env te) 1 MAX_CANDIDATE_LIMIT"

definition candidate_scan_limit :: "tool_env \<Rightarrow> json_map \<Rightarrow> nat store_result" where
  "candidate_scan_limit te arguments =
     bounded_usize arguments ''candidate_scan_limit'' (candidate_scan_limit_from_env te) 1
       MAX_CANDIDATE_SCAN_LIMIT"

definition validate_candidate_linking_arguments :: "tool_env \<Rightarrow> json_map \<Rightarrow> unit store_result" where
  "validate_candidate_linking_arguments te arguments =
     rbind (candidate_linking_enabled te arguments) (\<lambda>_.
     rbind (candidate_limit te arguments) (\<lambda>_.
     rbind (candidate_scan_limit te arguments) (\<lambda>_.
     rbind (candidate_min_score te arguments) (\<lambda>_. Inr ()))))"

definition candidate_measurement_contract :: json where
  "candidate_measurement_contract = jobject
     [(''status'', JString ''not_claimed''), (''min_pairs'', JInt 10),
      (''metrics'', JArray (map JString [''recall_at_k'', ''precision_at_k'',
         ''time_to_first_useful_fact_ms'', ''useful_cross_domain_findings'', ''false_positive_rate'',
         ''candidate_linking_latency_ms''])),
      (''paired_variants'', JArray [JString ''baseline'', JString ''memory''])]"

definition linking_disabled :: json where
  "linking_disabled = jobject
     [(''enabled'', JBool False), (''count'', JInt 0), (''candidates'', JArray []),
      (''result_status'', JString ''disabled''), (''retrieval_impact'', JString ''none'')]"

definition linking_degraded :: json where
  "linking_degraded = jobject
     [(''enabled'', JBool True), (''count'', JInt 0), (''candidates'', JArray []),
      (''result_status'', JString ''degraded''), (''retrieval_impact'', JString ''none''),
      (''error'', JString ''candidate linking unavailable; existing retrieval preserved'')]"

text \<open>A failure becomes a value; what the program had written stays.\<close>

definition recover :: "('s, 'e, 'a) sm \<Rightarrow> ('s, 'f, 'e + 'a) sm" where
  "recover m s = (case m s of (r, t) \<Rightarrow> (Inr r, t))"

type_synonym 'a query = "(store_db, store_error, 'a) sm"

definition ok_or_empty :: "'a list \<Rightarrow> json" where
  "ok_or_empty xs = JString (if xs = [] then ''empty'' else ''ok'')"

definition auto_link_new_fact :: "tool_env \<Rightarrow> int \<Rightarrow> json_map \<Rightarrow> string \<Rightarrow> json query" where
  "auto_link_new_fact te fact_id arguments workspace =
     sbind (slift (validate_candidate_linking_arguments te arguments)) (\<lambda>_.
     sbind (slift (candidate_linking_enabled te arguments)) (\<lambda>enabled.
     if \<not> enabled then sret linking_disabled
     else
       sbind (slift (candidate_limit te arguments)) (\<lambda>limit.
       sbind (slift (candidate_scan_limit te arguments)) (\<lambda>scan_limit.
       sbind (slift (candidate_min_score te arguments)) (\<lambda>minimum_score.
       sbind (recover (generate_relation_candidates_with_limits (te_store te) fact_id workspace limit
                scan_limit minimum_score)) (\<lambda>r.
       case r of
         Inl _ \<Rightarrow> sret linking_degraded
       | Inr candidates \<Rightarrow>
           sret (jobject (counted ''candidates'' (map candidate_json candidates)
             @ [(''enabled'', JBool True), (''result_status'', ok_or_empty candidates),
                (''retrieval_impact'', JString ''candidates_are_review_only''),
                (''minimum_score'', f64_json minimum_score), (''limit'', JInt (int limit)),
                (''scan_limit'', JInt (int scan_limit)),
                (''measurement'', candidate_measurement_contract)]))))))))"

text \<open>The candidates of a report that are new, each with its id; at most 50 are kept, all are counted.\<close>

definition report_candidates :: "json \<Rightarrow> (int \<times> json) list" where
  "report_candidates report =
     (case Option.bind (field report ''candidates'') as_array of
        None \<Rightarrow> []
      | Some vs \<Rightarrow> List.map_filter (\<lambda>v. map_option (\<lambda>i. (i, v)) (Option.bind (field v ''id'') as_i64)) vs)"

fun append_candidate_items ::
    "(int \<times> json) list \<Rightarrow> int list \<times> json list \<times> nat \<Rightarrow> int list \<times> json list \<times> nat" where
  "append_candidate_items [] acc = acc"
| "append_candidate_items ((i, v) # cs) (ids, items, n) =
     append_candidate_items cs
       (if i \<in> set ids then (ids, items, n)
        else (i # ids, if length items < MAX_CANDIDATE_LIMIT then items @ [v] else items, n + 1))"

definition auto_link_facts :: "tool_env \<Rightarrow> int list \<Rightarrow> json_map \<Rightarrow> string \<Rightarrow> json query" where
  "auto_link_facts te fact_ids arguments workspace =
     sbind (slift (validate_candidate_linking_arguments te arguments)) (\<lambda>_.
     sbind (slift (candidate_linking_enabled te arguments)) (\<lambda>enabled.
     if \<not> enabled then sret linking_disabled
     else
       sbind (smapM (\<lambda>i. auto_link_new_fact te i arguments workspace)
                (take MAX_CANDIDATE_SOURCE_FACTS fact_ids)) (\<lambda>reports.
       let (_, items, n) = fold (\<lambda>r. append_candidate_items (report_candidates r)) reports ([], [], 0)
       in sret (jobject
         [(''enabled'', JBool True),
          (''source_fact_count'', JInt (int (min (length fact_ids) MAX_CANDIDATE_SOURCE_FACTS))),
          (''count'', JInt (int n)), (''candidates'', JArray items),
          (''result_status'', ok_or_empty items),
          (''retrieval_impact'', JString ''candidates_are_review_only''),
          (''measurement'', candidate_measurement_contract)]))))"

section \<open>Enriching a fact\<close>

definition cyrillic_skill :: string where
  "cyrillic_skill = [CHR 0xD1, CHR 0x81, CHR 0xD0, CHR 0xBA, CHR 0xD0, CHR 0xB8, CHR 0xD0, CHR 0xBB]"

definition category_rules :: "(string \<times> string) list" where
  "category_rules = [(''memory-mcp'', ''memory-mcp''), (''memory_mcp'', ''memory-mcp''),
     (''sqlite'', ''database''), (''docker'', ''docker''), (''compose'', ''docker''),
     (''skill'', ''skills''), (cyrillic_skill, ''skills''), (''git'', ''git''), (''rust'', ''runtimes''),
     (''ollama'', ''llm''), (''embed'', ''llm''), (''test'', ''testing'')]"

definition rule_category :: "tool_env \<Rightarrow> string \<Rightarrow> string option" where
  "rule_category te text =
     map_option snd (find (\<lambda>r. sql_instr (se_lowercase (te_store te) text) (fst r)) category_rules)"

definition not_blank_arg :: "json_map \<Rightarrow> string \<Rightarrow> string option" where
  "not_blank_arg arguments key = option_filter (\<lambda>v. \<not> blank v) (get_str arguments key)"

definition category_for_fact :: "tool_env \<Rightarrow> json_map \<Rightarrow> fact \<Rightarrow> string option" where
  "category_for_fact te arguments f =
     or_else (not_blank_arg arguments ''category'')
       (or_else (not_blank_arg arguments ''domain'') (rule_category te (fa_text f)))"

definition maybe_enrich_fact :: "tool_env \<Rightarrow> fact \<Rightarrow> json_map \<Rightarrow> fact query" where
  "maybe_enrich_fact te f arguments =
     (let workspace = or_text [] (string_arg arguments ''workspace'') in
      sbind (case category_for_fact te arguments f of
               None \<Rightarrow> sret f
             | Some c \<Rightarrow>
                 sbind (recover (set_fact_category (te_store te) (fa_id f) c (fa_workspace f))) (\<lambda>r.
                 sbind (case r of
                          Inr found \<Rightarrow> sret found
                        | Inl _ \<Rightarrow> set_fact_category (te_store te) (fa_id f) c workspace) (\<lambda>found.
                 sret (case found of None \<Rightarrow> f | Some g \<Rightarrow> g)))) (\<lambda>f.
      sbind (case (if embeddings_enabled te then te_embed te (fa_text f) else None) of
               None \<Rightarrow> sret (Inr ())
             | Some v \<Rightarrow> recover (upsert_fact_embedding (fa_id f) v (embedding_model te) (fa_workspace f))) (\<lambda>_.
      sret f)))"

section \<open>Eligibility\<close>

text \<open>Higher trust has a lower rank; anything unknown ranks last.\<close>

definition trust_order :: "string \<Rightarrow> nat" where
  "trust_order v = (if v = ''high'' then 0 else if v = ''medium'' then 1 else 2)"

definition trust_matches :: "string \<Rightarrow> string option \<Rightarrow> bool" where
  "trust_matches trust minimum \<longleftrightarrow>
     (case minimum of None \<Rightarrow> True | Some v \<Rightarrow> trust_order trust \<le> trust_order v)"

definition valid_at_allows :: "string \<Rightarrow> json option \<Rightarrow> bool" where
  "valid_at_allows invalid_at v \<longleftrightarrow>
     (case Option.bind v as_str of None \<Rightarrow> False | Some x \<Rightarrow> invalid_at = [] \<or> x \<le> invalid_at)"

definition arg_matches :: "json_map \<Rightarrow> string \<Rightarrow> string option \<Rightarrow> bool" where
  "arg_matches arguments key v \<longleftrightarrow>
     (case string_arg arguments key of None \<Rightarrow> True | Some x \<Rightarrow> v = Some x)"

definition fact_is_eligible ::
    "fact \<Rightarrow> string \<Rightarrow> json_map \<Rightarrow> retrieval_profile \<Rightarrow> bool query" where
  "fact_is_eligible f workspace arguments profile =
     sbind (fact_search_metadata_of (fa_id f) workspace) (\<lambda>m.
     case m of
       None \<Rightarrow> sret False
     | Some m \<Rightarrow>
         if fsm_archived m \<or> fa_lifecycle f = ''forgotten''
           \<or> (fa_validity f = ''invalid'' \<and> \<not> valid_at_allows (fsm_invalid_at m) (jget arguments ''valid_at''))
           \<or> \<not> arg_matches arguments ''project'' (Some (fa_project f))
           \<or> \<not> arg_matches arguments ''domain'' (Some (fa_domain f))
           \<or> \<not> arg_matches arguments ''category'' (fsm_category m)
           \<or> (bool_arg arguments ''strong_only'' \<and> \<not> fa_strong f)
           \<or> \<not> trust_matches (fa_trust f) (string_arg arguments ''trust_min'')
         then sret False
         else if rp_requires_resolved_evidence profile
         then sbind (fact_evidence_summary (fa_id f) workspace) (\<lambda>e. sret (es_resolved e \<noteq> 0))
         else sret True)"

fun filter_eligible :: "(fact \<Rightarrow> bool query) \<Rightarrow> fact list \<Rightarrow> fact list query" where
  "filter_eligible p [] = sret []"
| "filter_eligible p (f # fs) =
     sbind (p f) (\<lambda>keep. sbind (filter_eligible p fs) (\<lambda>gs. sret (if keep then f # gs else gs)))"

end
