(* ===== verification/PipelineHybrid.thy ===== *)
theory PipelineHybrid
  imports PipelineRetrieval
begin

text \<open>
  The fusion of rankings in \<open>src/pipeline.rs\<close>: facts found by words, by embeddings and through the
  graph are scored by reciprocal rank and answered in order of their scores. The scores are \<open>f64\<close>
  values, rounded as IEEE 754 rounds.
\<close>

section \<open>Facts through the graph\<close>

definition lexical_terms :: "tool_env \<Rightarrow> string \<Rightarrow> string list" where
  "lexical_terms te text =
     map (se_lowercase (te_store te))
       (filter (\<lambda>t. 1 < char_count t)
         (split_chars (\<lambda>c. \<not> se_alphanumeric (te_store te) c) [] (utf8_chars text)))"

text \<open>
  The source facts of relations that were not seen before. The flag says that the limit is
  reached.
\<close>

fun source_facts ::
    "nat \<Rightarrow> relation list \<Rightarrow> int list \<times> int list \<Rightarrow> (int list \<times> int list) \<times> bool" where
  "source_facts limit [] (seen, ids) = ((seen, ids), False)"
| "source_facts limit (r # rs) (seen, ids) =
     (if re_id r \<in> set seen then source_facts limit rs (seen, ids)
      else
        (case re_source_fact_id r of
           None \<Rightarrow> source_facts limit rs (re_id r # seen, ids)
         | Some i \<Rightarrow>
             let ids = (if i \<in> set ids then ids else ids @ [i]) in
             if limit \<le> length ids then ((re_id r # seen, ids), True)
             else source_facts limit rs (re_id r # seen, ids)))"

fun graph_fact_ids ::
    "tool_env \<Rightarrow> nat \<Rightarrow> nat \<Rightarrow> nat \<Rightarrow> string \<Rightarrow> string list \<Rightarrow> int list \<times> int list \<Rightarrow> int list query" where
  "graph_fact_ids te depth graph_limit limit workspace [] acc = sret (snd acc)"
| "graph_fact_ids te depth graph_limit limit workspace (t # ts) acc =
     sbind (graph_neighborhood (te_store te) t depth graph_limit workspace) (\<lambda>g.
     let (acc, full) = source_facts limit (gs_relations g) acc in
     if full \<or> limit \<le> length (snd acc) then sret (snd acc)
     else graph_fact_ids te depth graph_limit limit workspace ts acc)"

fun eligible_by_id ::
    "string \<Rightarrow> json_map \<Rightarrow> retrieval_profile \<Rightarrow> nat \<Rightarrow> int list \<Rightarrow> fact list \<Rightarrow> fact list query" where
  "eligible_by_id workspace arguments profile limit [] fs = sret fs"
| "eligible_by_id workspace arguments profile limit (i # is) fs =
     sbind (fact_by_id i workspace) (\<lambda>found.
     case found of
       None \<Rightarrow> eligible_by_id workspace arguments profile limit is fs
     | Some f \<Rightarrow>
         sbind (fact_is_eligible f workspace arguments profile) (\<lambda>ok.
         let fs = (if ok then fs @ [f] else fs) in
         if limit \<le> length fs then sret fs
         else eligible_by_id workspace arguments profile limit is fs))"

definition graph_facts ::
    "tool_env \<Rightarrow> string \<Rightarrow> string \<Rightarrow> json_map \<Rightarrow> retrieval_profile \<Rightarrow> nat \<Rightarrow> fact list query" where
  "graph_facts te query workspace arguments profile limit =
     sbind (graph_fact_ids te (max 1 (rp_graph_depth profile)) (max 1 (min limit 200)) limit workspace
              (lexical_terms te query) ([], [])) (\<lambda>ids.
     eligible_by_id workspace arguments profile limit ids [])"

section \<open>Ranking\<close>

datatype ranked_source = Lexical | Semantic | Graph

record ranked_fact =
  rk_fact :: fact
  rk_score :: rat
  rk_lexical_score :: rat
  rk_semantic_score :: rat
  rk_graph_score :: rat

definition contribution :: "nat \<Rightarrow> rat" where
  "contribution rank = round_f64 (1 / (61 + of_nat rank))"

definition add_score :: "ranked_source \<Rightarrow> rat \<Rightarrow> ranked_fact \<Rightarrow> ranked_fact" where
  "add_score source c r =
     (let r = r\<lparr>rk_score := round_f64 (rk_score r + c)\<rparr> in
      case source of
        Lexical \<Rightarrow> r\<lparr>rk_lexical_score := round_f64 (rk_lexical_score r + c)\<rparr>
      | Semantic \<Rightarrow> r\<lparr>rk_semantic_score := round_f64 (rk_semantic_score r + c)\<rparr>
      | Graph \<Rightarrow> r\<lparr>rk_graph_score := round_f64 (rk_graph_score r + c)\<rparr>)"

text \<open>The map from ids to ranked facts, as a list in the order of the ids.\<close>

fun add_ranked_fact :: "ranked_source \<Rightarrow> nat \<Rightarrow> fact \<Rightarrow> ranked_fact list \<Rightarrow> ranked_fact list" where
  "add_ranked_fact source rank f [] =
     [add_score source (contribution rank)
        \<lparr>rk_fact = f, rk_score = 0, rk_lexical_score = 0, rk_semantic_score = 0, rk_graph_score = 0\<rparr>]"
| "add_ranked_fact source rank f (r # rs) =
     (if fa_id f = fa_id (rk_fact r) then add_score source (contribution rank) r # rs
      else if fa_id f < fa_id (rk_fact r) then add_ranked_fact source rank f [] @ r # rs
      else r # add_ranked_fact source rank f rs)"

definition rank_all :: "ranked_source \<Rightarrow> (nat \<times> fact) list \<Rightarrow> ranked_fact list \<Rightarrow> ranked_fact list" where
  "rank_all source fs rs = fold (\<lambda>(rank, f) rs. add_ranked_fact source rank f rs) fs rs"

text \<open>\<open>(score * 10_000.0).round() / 10_000.0\<close>.\<close>

definition rounded_score :: "rat \<Rightarrow> json" where
  "rounded_score s = JFloat (round_f64 (of_int (floor (round_f64 (s * 10000) + 1 / 2)) / 10000))"

definition metadata_fields :: "fact_search_metadata \<Rightarrow> json_map" where
  "metadata_fields m =
     [(''category'', optional_json (fsm_category m)), (''confirmed'', JBool (fsm_confirmed m)),
      (''invalid_at'', JString (fsm_invalid_at m)), (''archived'', JBool (fsm_archived m)),
      (''created_at'', JString (fsm_created_at m)), (''updated_at'', JString (fsm_updated_at m))]"

definition evidence_fields :: "evidence_summary \<Rightarrow> json_map" where
  "evidence_fields e =
     [(''evidence_count'', JInt (int (es_total e))), (''evidence_status'', JString (summary_status e)),
      (''resolved_evidence_count'', JInt (int (es_resolved e)))]"

definition pipeline_fact_value :: "fact \<Rightarrow> fact_search_metadata option \<Rightarrow> json" where
  "pipeline_fact_value f m =
     put_fields (fact_json f) (case m of None \<Rightarrow> [] | Some m \<Rightarrow> metadata_fields m)"

definition ranked_value :: "string \<Rightarrow> ranked_fact \<Rightarrow> json query" where
  "ranked_value workspace r =
     sbind (fact_search_metadata_of (fa_id (rk_fact r)) workspace) (\<lambda>m.
     sbind (fact_evidence_summary (fa_id (rk_fact r)) workspace) (\<lambda>e.
     sret (put_fields (pipeline_fact_value (rk_fact r) m)
       (evidence_fields e @
        [(''rrf_score'', rounded_score (rk_score r)),
         (''lexical_score'', rounded_score (rk_lexical_score r)),
         (''semantic_score'', rounded_score (rk_semantic_score r)),
         (''graph_score'', rounded_score (rk_graph_score r))]))))"

section \<open>Facts from JSON\<close>

text \<open>\<open>serde_json::from_value\<close> of a fact: every field with its type; an absent option is none.\<close>

definition option_field :: "json_map \<Rightarrow> string \<Rightarrow> int option option" where
  "option_field m k =
     (case jget m k of
        None \<Rightarrow> Some None
      | Some JNull \<Rightarrow> Some None
      | Some v \<Rightarrow> map_option Some (as_i64 v))"

definition value_to_fact :: "json \<Rightarrow> fact option" where
  "value_to_fact v =
     Option.bind (as_object v) (\<lambda>m.
     let s = (\<lambda>k. get_str m k); i = (\<lambda>k. Option.bind (jget m k) as_i64) in
     Option.bind (i ''id'') (\<lambda>ident. Option.bind (s ''text'') (\<lambda>text.
     Option.bind (s ''sha256'') (\<lambda>sha256. Option.bind (s ''workspace'') (\<lambda>workspace.
     Option.bind (s ''lifecycle'') (\<lambda>lifecycle. Option.bind (s ''source'') (\<lambda>source.
     Option.bind (s ''project'') (\<lambda>project. Option.bind (s ''domain'') (\<lambda>domain.
     Option.bind (s ''trust'') (\<lambda>trust. Option.bind (Option.bind (jget m ''strong'') as_bool) (\<lambda>strong.
     Option.bind (Option.bind (jget m ''importance'') as_f64) (\<lambda>importance.
     Option.bind (option_field m ''category_id'') (\<lambda>category_id.
     Option.bind (s ''validity'') (\<lambda>validity. Option.bind (s ''session_id'') (\<lambda>session_id.
     Option.bind (i ''access_count'') (\<lambda>access_count.
     Some \<lparr>fa_id = ident, fa_text = text, fa_sha256 = sha256, fa_workspace = workspace,
       fa_lifecycle = lifecycle, fa_source = source, fa_project = project, fa_domain = domain,
       fa_trust = trust, fa_strong = strong, fa_importance = importance,
       fa_category_id = category_id, fa_validity = validity, fa_session_id = session_id,
       fa_access_count = access_count\<rparr>))))))))))))))))"

section \<open>Hybrid search\<close>

definition json_args :: "json_map \<Rightarrow> string \<Rightarrow> nat \<Rightarrow> json_map" where
  "json_args arguments query limit =
     jinsert ''limit'' (JInt (int limit)) (jinsert ''query'' (JString query) arguments)"

text \<open>The eligible facts of a ranking with their ranks in it.\<close>

fun eligible_ranks :: "(fact \<Rightarrow> bool query) \<Rightarrow> (nat \<times> fact) list \<Rightarrow> (nat \<times> fact) list query" where
  "eligible_ranks p [] = sret []"
| "eligible_ranks p (x # xs) =
     sbind (p (snd x)) (\<lambda>keep. sbind (eligible_ranks p xs) (\<lambda>ys. sret (if keep then x # ys else ys)))"

definition retrieval_mode :: "bool \<Rightarrow> bool \<Rightarrow> string" where
  "retrieval_mode semantic graph =
     (if semantic then (if graph then ''rrf_lexical_semantic_graph'' else ''rrf_lexical_semantic'')
      else if graph then ''rrf_lexical_graph'' else ''lexical'')"

definition semantic_facts :: "json list \<Rightarrow> (nat \<times> fact) list" where
  "semantic_facts rows =
     List.map_filter (\<lambda>(rank, v). map_option (Pair rank) (value_to_fact v)) (enumerate 0 rows)"

definition hybrid_search :: "tool_env \<Rightarrow> string \<Rightarrow> json_map \<Rightarrow> fact list \<Rightarrow> json query" where
  "hybrid_search te query arguments lexical =
     sbind (slift (advisory_result arguments ''search_facts'')) (\<lambda>refusal.
     case refusal of
       Some v \<Rightarrow> sret v
     | None \<Rightarrow>
     sbind (slift (profile_config arguments)) (\<lambda>profile.
     let workspace = or_text [] (string_arg arguments ''workspace'') in
     sbind (slift (bounded_usize arguments ''limit'' 20 1 100)) (\<lambda>requested.
     let limit = min requested (rp_max_hits profile);
         semantic_enabled = (bool_arg arguments ''semantic'' \<and> embeddings_enabled te);
         graph_enabled = (bool_arg arguments ''graph'' \<or> 0 < rp_graph_depth profile);
         eligible = (\<lambda>f. fact_is_eligible f workspace arguments profile) in
     sbind (if semantic_enabled
            then sbind get_state (\<lambda>s. slift (te_semantic te (json_args arguments query limit) s))
            else sret JNull) (\<lambda>semantic.
     let rows = (case Option.bind (field semantic ''facts'') as_array of None \<Rightarrow> [] | Some vs \<Rightarrow> vs) in
     sbind (if graph_enabled then graph_facts te query workspace arguments profile limit else sret []) (\<lambda>via_graph.
     sbind (eligible_ranks eligible (take limit (enumerate 0 lexical))) (\<lambda>by_words.
     sbind (eligible_ranks eligible (semantic_facts rows)) (\<lambda>by_meaning.
     let ranked = rank_all Graph (enumerate 0 via_graph)
           (rank_all Semantic by_meaning (rank_all Lexical by_words [])) in
     sbind (smapM (ranked_value workspace) (take limit (sort_key (\<lambda>r. - rk_score r) ranked))) (\<lambda>values.
     sret (jobject (counted ''facts'' values @
       [(''model'', JString (embedding_model te)), (''memory_policy'', JString ''advisory_only''),
        (''safety_critical_allowed'', JBool False), (''profile'', JString (rp_name profile)),
        (''evidence_policy'', JString (evidence_policy profile)),
        (''retrieval_mode'', JString (retrieval_mode semantic_enabled graph_enabled)),
        (''semantic_count'', JInt (int (length rows))), (''graph_count'', JInt (int (length via_graph))),
        (''result_status'', ok_or_empty values),
        (''retrieval_outcome'', JString (if values = [] then ''abstained'' else ''matched''))]))))))))))"

end
