(* ===== verification/PipelineIngest.thy ===== *)
theory PipelineIngest
  imports PipelineReview
begin

text \<open>
  Storing many facts in \<open>src/pipeline.rs\<close>: from a transcript, by way of a language model, and from
  a list, with a preview.
\<close>

section \<open>What both report\<close>

text \<open>The candidates found for the facts that are new.\<close>

definition new_fact_candidates ::
    "tool_env \<Rightarrow> json_map \<Rightarrow> (int \<times> string) list \<Rightarrow> json query" where
  "new_fact_candidates te arguments news =
     sbind (smapM (\<lambda>(i, workspace). auto_link_new_fact te i arguments workspace) news) (\<lambda>reports.
     sbind (slift (candidate_linking_enabled te arguments)) (\<lambda>enabled.
     let (_, items, n) = fold (\<lambda>r. append_candidate_items (report_candidates r)) reports ([], [], 0)
     in sret (jobject
       [(''enabled'', JBool enabled), (''count'', JInt (int n)), (''candidates'', JArray items),
        (''retrieval_impact'', JString ''candidates_are_review_only''),
        (''measurement'', candidate_measurement_contract)])))"

section \<open>Ingesting a turn\<close>

definition minimum_transcript :: "tool_env \<Rightarrow> nat" where
  "minimum_transcript te =
     (case Option.bind (env_var te ''MEMORY_MCP_EXTRACT_MIN_CHARS'') (parse_unsigned u64_max) of
        None \<Rightarrow> 800 | Some n \<Rightarrow> max n 100)"

definition extract_prompt :: string where
  "extract_prompt = quoting (''You extract durable facts from a conversation transcript. Return ONLY JSON ''
     @ ''matching {`facts`:[{`text`:`...`,`type`:`user|feedback|project|reference`,''
     @ ''`trust`:`high|medium|low`,`strong`:false,`scope`:`project|global`,`importance`:0.5}]}'')"

text \<open>Three attempts; the first answer that has a list of facts is taken.\<close>

definition extracted :: "tool_env \<Rightarrow> string \<Rightarrow> json list option" where
  "extracted te transcript =
     (let attempt = (\<lambda>n. Option.bind (te_chat te n
            [(''system'', extract_prompt), (''user'', ''Transcript:'' @ newline @ transcript)])
            (\<lambda>v. Option.bind (field v ''facts'') as_array))
      in or_else (attempt 0) (or_else (attempt 1) (attempt 2)))"

definition no_facts :: "string \<Rightarrow> json" where
  "no_facts message = jobject [(''error'', JString message), (''ingested'', JInt 0), (''stored'', JInt 0),
     (''deduped'', JInt 0), (''failed'', JInt 0)]"

record ingest =
  ig_stored :: nat
  ig_deduped :: nat
  ig_failed :: nat
  ig_new :: "(int \<times> string \<times> string) list"

definition failed_item :: "ingest \<Rightarrow> ingest" where
  "failed_item g = g\<lparr>ig_failed := ig_failed g + 1\<rparr>"

text \<open>The model's trust is advisory: it never gives more than \<open>medium\<close>, and never \<open>strong\<close>.\<close>

definition ingest_metadata :: "json_map \<Rightarrow> json_map \<Rightarrow> fact_metadata" where
  "ingest_metadata arguments item =
     (let domain = or_text [] (string_arg arguments ''domain'') in
      \<lparr>fm_source = or_text [] (string_arg arguments ''session_ref''),
       fm_project = or_text [] (string_arg arguments ''project''),
       fm_domain = (if domain = [] then or_text ''project'' (get_str item ''type'') else domain),
       fm_trust = (if get_str item ''trust'' = Some ''low'' then ''low'' else ''medium''), fm_strong = False,
       fm_importance = clamp_unit (case Option.bind (jget item ''importance'') as_f64 of
         None \<Rightarrow> Finite (round_f64 (7 / 10)) | Some v \<Rightarrow> v)\<rparr>)"

definition attach_session :: "tool_env \<Rightarrow> string \<Rightarrow> string \<Rightarrow> int \<Rightarrow> unit query" where
  "attach_session te session workspace i =
     (if session = [] then sret ()
      else sbind (try_evidence te (unresolved_evidence i session session workspace)) (\<lambda>_.
           sbind (recover (set_fact_session i session workspace)) (\<lambda>_. sret ())))"

definition ingest_item :: "tool_env \<Rightarrow> json_map \<Rightarrow> json_map \<Rightarrow> ingest \<Rightarrow> ingest query" where
  "ingest_item te arguments item g =
     (let text = str_trim (or_text [] (get_str item ''text''));
          workspace = (if get_str item ''scope'' = Some ''global'' then []
            else or_text [] (string_arg arguments ''workspace''));
          metadata = ingest_metadata arguments item
      in if text = [] \<or> MAX_FACT_TEXT_CHARS < char_count text then sret (failed_item g)
         else
           sbind (fact_exists (te_store te) text workspace) (\<lambda>was_present.
           sbind (recover (remember_fact_with_metadata (te_store te) text workspace metadata)) (\<lambda>r.
           case r of
             Inl _ \<Rightarrow> sret (failed_item g)
           | Inr f \<Rightarrow>
               sbind (maybe_enrich_fact te f (pipeline_arguments workspace metadata text)) (\<lambda>f.
               sbind (attach_session te (fm_source metadata) workspace (fa_id f)) (\<lambda>_.
               sret (if was_present then g\<lparr>ig_deduped := ig_deduped g + 1\<rparr>
                     else g\<lparr>ig_stored := ig_stored g + 1,
                            ig_new := ig_new g @ [(fa_id f, text, workspace)]\<rparr>))))))"

fun ingest_items :: "tool_env \<Rightarrow> json_map \<Rightarrow> json list \<Rightarrow> ingest \<Rightarrow> ingest query" where
  "ingest_items te arguments [] g = sret g"
| "ingest_items te arguments (v # vs) g =
     sbind (case as_object v of
              None \<Rightarrow> sret (failed_item g)
            | Some item \<Rightarrow> ingest_item te arguments item g) (ingest_items te arguments vs)"

definition ingest_answer :: "tool_env \<Rightarrow> json_map \<Rightarrow> nat \<Rightarrow> ingest \<Rightarrow> json query" where
  "ingest_answer te arguments n g =
     sbind (new_fact_candidates te arguments (map (\<lambda>(i, _, workspace). (i, workspace)) (ig_new g))) (\<lambda>linking.
     sbind (if flag_enabled te ''MEMORY_MCP_VERIFY'' \<and> ig_new g \<noteq> []
            then sbind (verify_new_facts te (ig_new g)) (\<lambda>v. sret [(''verification'', v)])
            else sret []) (\<lambda>verified.
     sret (jobject
       ([(''ingested'', JInt (int n)), (''stored'', JInt (int (ig_stored g))),
         (''deduped'', JInt (int (ig_deduped g))), (''failed'', JInt (int (ig_failed g))),
         (''candidate_linking'', linking)] @ verified))))"

definition ingest_transcript :: "tool_env \<Rightarrow> json_map \<Rightarrow> json query" where
  "ingest_transcript te arguments =
     (if \<not> flag_enabled te ''MEMORY_MCP_EXTRACT'' then sret (disabled ''MEMORY_MCP_EXTRACT'')
      else
        sbind (slift (validate_candidate_linking_arguments te arguments)) (\<lambda>_.
        sbind (slift (pipeline_required_string arguments ''transcript'')) (\<lambda>transcript.
        let transcript = str_trim transcript in
        if transcript = [] then sret (jobject [(''error'', JString ''transcript is required'')])
        else if char_count transcript < minimum_transcript te
        then sret (no_facts (''transcript too short ('' @ dec_nat (char_count transcript) @ '' chars, min ''
               @ dec_nat (minimum_transcript te) @ '')''))
        else
          case extracted te transcript of
            None \<Rightarrow> sret (no_facts ''extraction failed after 3 attempts (provider error; see server stderr)'')
          | Some facts \<Rightarrow>
              sbind (ingest_items te arguments facts
                \<lparr>ig_stored = 0, ig_deduped = 0, ig_failed = 0, ig_new = []\<rparr>)
                (ingest_answer te arguments (length facts)))))"

section \<open>Absorbing a list\<close>

definition refusal :: "string \<Rightarrow> json" where
  "refusal message = jobject [(''error'', JString message)]"

definition absorb_values :: "json_map \<Rightarrow> json list option" where
  "absorb_values arguments =
     map_option (\<lambda>raw. case as_array raw of Some vs \<Rightarrow> vs | None \<Rightarrow> [raw])
       (or_else (jget arguments ''facts'') (jget arguments ''text''))"

definition merged_keys :: "string list" where
  "merged_keys = [''source'', ''project'', ''domain'', ''category'', ''trust'', ''strong'', ''importance'']"

definition merged_arguments :: "json_map \<Rightarrow> json_map \<Rightarrow> string \<Rightarrow> json_map" where
  "merged_arguments arguments item text =
     jinsert ''text'' (JString text)
       (fold (\<lambda>k m. case jget item k of None \<Rightarrow> m | Some v \<Rightarrow> jinsert k v m) merged_keys arguments)"

definition item_name :: "nat \<Rightarrow> string" where
  "item_name n = ''facts['' @ dec_nat n @ '']''"

definition absorb_item :: "json_map \<Rightarrow> nat \<Rightarrow> json \<Rightarrow> json + (string \<times> json_map)" where
  "absorb_item arguments n v =
     rbind (case v of
              JString text \<Rightarrow> Inr (text, [])
            | JObject item \<Rightarrow> Inr (or_text [] (get_str item ''text''), item)
            | _ \<Rightarrow> Inl (refusal (item_name n @ '' must be a string or object''))) (\<lambda>(text, item).
     let text = str_trim text in
     if text = [] then Inl (refusal (item_name n @ ''.text is required''))
     else if MAX_FACT_TEXT_CHARS < char_count text
     then Inl (refusal (item_name n @ ''.text is too long (max '' @ dec_nat MAX_FACT_TEXT_CHARS
            @ '' characters)''))
     else Inr (text, merged_arguments arguments item text))"

record planned =
  pl_value :: json
  pl_arguments :: json_map
  pl_class :: string

definition plan_item :: "tool_env \<Rightarrow> string \<Rightarrow> nat \<times> string \<times> json_map \<Rightarrow> planned query" where
  "plan_item te workspace x =
     (case x of (n, text, arguments) \<Rightarrow>
        sbind (fact_exists (te_store te) text workspace) (\<lambda>duplicate.
        sbind (if duplicate then sret [] else related_facts te text workspace) (\<lambda>candidates.
        sbind (if duplicate then fact_id_for_text (te_store te) text workspace else sret None) (\<lambda>existing.
        let (class, action) = (if duplicate then (''duplicate'', ''noop'')
              else if candidates = [] then (''new'', ''create'') else (''related'', ''review''))
        in sret
          \<lparr>pl_value = jobject
             ([(''index'', JInt (int n)), (''sha256'', JString (se_sha256 (te_store te) text)),
               (''text_preview'', JString (first_chars 300 text)), (''classification'', JString class),
               (''action'', JString action),
               (''candidate_ids'', JArray (map (\<lambda>f. JInt (fa_id f)) candidates)), (''evidence_count'', JInt 0)]
              @ (case existing of None \<Rightarrow> [] | Some i \<Rightarrow> [(''existing_id'', JInt i)])),
           pl_arguments = arguments, pl_class = class\<rparr>))))"

definition absorb_metadata :: "json_map \<Rightarrow> fact_metadata" where
  "absorb_metadata arguments =
     \<lparr>fm_source = or_text [] (string_arg arguments ''source''),
      fm_project = or_text [] (string_arg arguments ''project''),
      fm_domain = or_text [] (string_arg arguments ''domain''),
      fm_trust = or_text ''medium'' (string_arg arguments ''trust''),
      fm_strong = bool_arg arguments ''strong'',
      fm_importance = clamp_unit (case Option.bind (jget arguments ''importance'') as_f64 of
        None \<Rightarrow> Finite (1 / 2) | Some v \<Rightarrow> v)\<rparr>"

text \<open>Storing what is new; the other items stay as they were planned.\<close>

definition store_planned :: "tool_env \<Rightarrow> string \<Rightarrow> planned \<Rightarrow> (json \<times> int option) query" where
  "store_planned te workspace p =
     (if pl_class p \<noteq> ''new'' then sret (pl_value p, None)
      else
        sbind (remember_fact_with_metadata (te_store te) (or_text [] (get_str (pl_arguments p) ''text'')) workspace
                 (absorb_metadata (pl_arguments p))) (\<lambda>f.
        sbind (maybe_enrich_fact te f (pl_arguments p)) (\<lambda>f.
        sret (put_field (pl_value p) ''id'' (JInt (fa_id f)), Some (fa_id f)))))"

definition absorb_answer :: "bool \<Rightarrow> planned list \<Rightarrow> (json \<times> int option) list \<Rightarrow> json_map \<Rightarrow> json" where
  "absorb_answer commit plan done extra =
     (let classed = (\<lambda>c. JInt (int (length (filter (\<lambda>p. pl_class p = c) plan)))) in
      jobject
       ([(''dry_run'', JBool (\<not> commit)), (''committed'', JBool commit), (''count'', JInt (int (length plan))),
         (''created'', JInt (int (length (List.map_filter snd done)))), (''deduped'', classed ''duplicate''),
         (''pending_review'', classed ''related''), (''rejected'', JInt 0),
         (''admission'', JString ''advisory''), (''evidence_attached'', JInt 0),
         (''items'', JArray (map fst done)),
         (''result_status'', JString (if commit then ''committed'' else ''preview''))] @ extra))"

text \<open>What is asked for: a preview, a commit, or both.\<close>

definition absorb_mode :: "json_map \<Rightarrow> bool \<times> bool" where
  "absorb_mode arguments =
     (let flag = (\<lambda>k d. case Option.bind (jget arguments k) as_bool of None \<Rightarrow> d | Some b \<Rightarrow> b);
          dry_run = flag ''dry_run'' True
      in (dry_run, flag ''commit'' (\<not> dry_run)))"

definition absorb_items :: "tool_env \<Rightarrow> json_map \<Rightarrow> string \<Rightarrow> bool \<Rightarrow> (string \<times> json_map) list \<Rightarrow> json query" where
  "absorb_items te arguments workspace commit items =
     sbind (smapM (plan_item te workspace) (enumerate 0 items)) (\<lambda>plan.
     if \<not> commit then sret (absorb_answer False plan (map (\<lambda>p. (pl_value p, None)) plan) [])
     else
       sbind (smapM (store_planned te workspace) plan) (\<lambda>done.
       sbind (new_fact_candidates te arguments (map (\<lambda>i. (i, workspace)) (List.map_filter snd done))) (\<lambda>linking.
       sret (absorb_answer True plan done [(''candidate_linking'', linking)]))))"

definition absorb_facts :: "tool_env \<Rightarrow> json_map \<Rightarrow> json query" where
  "absorb_facts te arguments =
     sbind (slift (validate_candidate_linking_arguments te arguments)) (\<lambda>_.
     case absorb_values arguments of
       None \<Rightarrow> sret (refusal ''facts must be a non-empty array'')
     | Some values \<Rightarrow>
         let (dry_run, commit) = absorb_mode arguments in
         if values = [] then sret (refusal ''facts must be a non-empty array'')
         else if 100 < length values then sret (refusal ''facts may contain at most 100 items'')
         else if dry_run \<and> commit then sret (refusal ''dry_run and commit cannot both be true'')
         else
           case rmapM (\<lambda>(n, v). absorb_item arguments n v) (enumerate 0 values) of
             Inl answer \<Rightarrow> sret answer
           | Inr items \<Rightarrow>
               absorb_items te arguments (or_text [] (string_arg arguments ''workspace'')) commit items)"

end
