(* ===== verification/PipelineRecall.thy ===== *)
theory PipelineRecall
  imports PipelineReview
begin

text \<open>
  Recall in \<open>src/pipeline.rs\<close>: the facts for a turn of a conversation, widened by the sessions they
  come from and rendered into a bounded block, and the guard that counts searches.
\<close>

section \<open>The hits\<close>

text \<open>Adds the eligible facts that are not there yet.\<close>

fun add_hits :: "(fact \<Rightarrow> bool query) \<Rightarrow> fact list \<Rightarrow> fact list \<Rightarrow> fact list query" where
  "add_hits p [] hits = sret hits"
| "add_hits p (f # fs) hits =
     sbind (p f) (\<lambda>eligible.
     add_hits p fs (if eligible \<and> fa_id f \<notin> fa_id ` set hits then hits @ [f] else hits))"

fun term_hits ::
    "tool_env \<Rightarrow> (fact \<Rightarrow> bool query) \<Rightarrow> string \<Rightarrow> string list \<Rightarrow> fact list \<Rightarrow> fact list query" where
  "term_hits te p workspace [] hits = sret hits"
| "term_hits te p workspace (t # ts) hits =
     sbind (search_facts (te_store te) t workspace) (\<lambda>facts.
     sbind (add_hits p facts hits) (term_hits te p workspace ts))"

text \<open>The facts of a session, as many as may still be added.\<close>

fun add_siblings ::
    "(fact \<Rightarrow> bool query) \<Rightarrow> nat \<Rightarrow> fact list \<Rightarrow> fact list \<times> nat \<Rightarrow> (fact list \<times> nat) query" where
  "add_siblings p limit [] acc = sret acc"
| "add_siblings p limit (f # fs) (hits, n) =
     (if limit \<le> n then sret (hits, n)
      else if fa_id f \<in> fa_id ` set hits then add_siblings p limit fs (hits, n)
      else
        sbind (p f) (\<lambda>eligible.
        add_siblings p limit fs (if eligible then (hits @ [f], n + 1) else (hits, n))))"

text \<open>The first hit without a session ends the expansion.\<close>

fun expand_sessions ::
    "(fact \<Rightarrow> bool query) \<Rightarrow> string \<Rightarrow> nat \<Rightarrow> fact list \<Rightarrow> fact list \<times> nat \<Rightarrow> (fact list \<times> nat) query" where
  "expand_sessions p workspace limit [] acc = sret acc"
| "expand_sessions p workspace limit (f # fs) (hits, n) =
     (if limit \<le> n \<or> blank (fa_session_id f) then sret (hits, n)
      else
        sbind (facts_for_session (fa_session_id f) workspace) (\<lambda>siblings.
        sbind (add_siblings p limit siblings (hits, n)) (expand_sessions p workspace limit fs)))"

definition hybrid_hits :: "json \<Rightarrow> nat \<Rightarrow> fact list \<Rightarrow> fact list \<times> nat" where
  "hybrid_hits retrieval limit lexical =
     (case Option.bind (field retrieval ''facts'') as_array of
        None \<Rightarrow> take limit lexical
      | Some rows \<Rightarrow> take limit (List.map_filter value_to_fact rows),
      case Option.bind (field retrieval ''graph_count'') as_u64 of None \<Rightarrow> 0 | Some n \<Rightarrow> n)"

section \<open>The block\<close>

definition recall_line :: "fact \<Rightarrow> evidence_summary \<Rightarrow> string" where
  "recall_line f e =
     ''- id='' @ dec_int (fa_id f) @ '' trust='' @ fa_trust f @ '' type='' @ fa_domain f
       @ '' evidence='' @ summary_status e @ newline @ ''  fact: '' @ fa_text f @ newline"

text \<open>Lines are added while the block and its end keep within the limit; 0 is no limit.\<close>

fun recall_block :: "nat \<Rightarrow> (fact \<times> evidence_summary) list \<Rightarrow> string \<times> nat \<Rightarrow> string \<times> nat" where
  "recall_block chars [] acc = acc"
| "recall_block chars ((f, e) # rest) (block, n) =
     (let line = recall_line f e in
      if 0 < chars \<and> chars < char_count block + char_count line + 14 then (block, n)
      else recall_block chars rest (block @ line, n + 1))"

definition recall_chars :: "json_map \<Rightarrow> retrieval_profile \<Rightarrow> nat store_result" where
  "recall_chars arguments profile =
     rbind (bounded_usize arguments ''chars'' 1400 0 1000000) (\<lambda>requested.
     Inr (if requested = 0 then rp_max_chars profile else min requested (rp_max_chars profile)))"

definition rendered_recall :: "fact list \<Rightarrow> string \<Rightarrow> nat \<Rightarrow> (string \<times> nat) query" where
  "rendered_recall hits workspace chars =
     sbind (smapM (\<lambda>f. sbind (fact_evidence_summary (fa_id f) workspace) (\<lambda>e. sret (f, e))) hits) (\<lambda>lines.
     let (block, n) = recall_block chars lines (''<memory-recall>'' @ newline, 0) in
     sret (block @ ''</memory-recall>'', n))"

definition recall_answer ::
    "retrieval_profile \<Rightarrow> fact list \<Rightarrow> nat \<Rightarrow> nat \<Rightarrow> string \<Rightarrow> nat \<Rightarrow> bool \<Rightarrow> json" where
  "recall_answer profile hits graph_count session_expanded block rendered rrf = jobject
     [(''count'', JInt (int (length hits))),
      (''authoritative'', JInt (int (length (filter fa_strong hits)))),
      (''background'', JInt (int (length (filter (\<lambda>f. \<not> fa_strong f) hits)))),
      (''authority_granted'', JBool False), (''graph'', JInt (int graph_count)),
      (''session_expanded'', JInt (int session_expanded)), (''rendered'', JInt (int rendered)),
      (''chars'', JInt (int (length block))), (''block'', JString block),
      (''query_mode'', JString (if rrf then ''direct_turn_rrf'' else ''direct_turn'')),
      (''memory_policy'', JString ''advisory_only''), (''safety_critical_allowed'', JBool False),
      (''profile'', JString (rp_name profile)), (''evidence_policy'', JString (evidence_policy profile)),
      (''retrieval_outcome'', JString (if hits = [] then ''abstained'' else ''matched'')),
      (''abstention_reason'', JString (if hits \<noteq> [] then []
         else if rp_requires_resolved_evidence profile then ''no_resolved_evidence''
         else ''no_matching_facts''))]"

definition recall_hits ::
    "tool_env \<Rightarrow> json_map \<Rightarrow> string \<Rightarrow> string \<Rightarrow> retrieval_profile \<Rightarrow> nat \<Rightarrow> bool \<Rightarrow> (fact list \<times> nat) query" where
  "recall_hits te arguments turn workspace profile limit rrf =
     sbind (term_hits te (\<lambda>f. fact_is_eligible f workspace arguments profile) workspace
       (lexical_terms te turn) []) (\<lambda>lexical.
     if rrf
     then sbind (hybrid_search te turn arguments lexical) (\<lambda>r. sret (hybrid_hits r limit lexical))
     else sret (take limit lexical, 0))"

definition recall_turn ::
    "tool_env \<Rightarrow> json_map \<Rightarrow> string \<Rightarrow> retrieval_profile \<Rightarrow> json query" where
  "recall_turn te arguments turn profile =
     (let workspace = or_text [] (string_arg arguments ''workspace'');
          rrf = (bool_arg arguments ''semantic'' \<and> embeddings_enabled te
            \<or> bool_arg arguments ''graph'' \<or> 0 < rp_graph_depth profile)
      in
      sbind (slift (bounded_usize arguments ''limit'' 8 1 20)) (\<lambda>requested.
      sbind (recall_hits te arguments turn workspace profile (min requested (rp_max_hits profile)) rrf)
        (\<lambda>(hits, graph_count).
      sbind (slift (bounded_usize arguments ''session_expand'' 0 0 20)) (\<lambda>session_expand.
      sbind (if 0 < session_expand
             then expand_sessions (\<lambda>f. fact_is_eligible f workspace arguments profile) workspace session_expand
                    hits (hits, 0)
             else sret (hits, 0)) (\<lambda>(hits, expanded).
      sbind (slift (recall_chars arguments profile)) (\<lambda>chars.
      sbind (rendered_recall hits workspace chars) (\<lambda>(block, rendered).
      sret (recall_answer profile hits graph_count expanded block rendered rrf))))))))"

definition compose_recall_turn :: "tool_env \<Rightarrow> json_map \<Rightarrow> json query" where
  "compose_recall_turn te arguments =
     sbind (slift (advisory_result arguments ''compose_recall'')) (\<lambda>refusal.
     case refusal of
       Some v \<Rightarrow> sret v
     | None \<Rightarrow>
     sbind (slift (profile_config arguments)) (\<lambda>profile.
     if \<not> flag_enabled te ''MEMORY_MCP_RECALL'' then sret (disabled ''MEMORY_MCP_RECALL'')
     else
       sbind (slift (pipeline_required_string arguments ''turn_text'')) (\<lambda>turn.
       let turn = str_trim turn in
       if turn = [] then sret (jobject [(''error'', JString ''turn_text is required'')])
       else recall_turn te arguments turn profile)))"

section \<open>Orientation\<close>

definition orient_policy :: "json_map \<Rightarrow> json_map" where
  "orient_policy arguments =
     [(''session_id'', JString (or_text [] (string_arg arguments ''session_id''))),
      (''memory_policy'', JString ''advisory_only''), (''safety_critical_allowed'', JBool False)]"

definition degraded_orient :: "json_map \<Rightarrow> string \<Rightarrow> json" where
  "degraded_orient arguments reason = jobject
     ([(''oriented'', JBool True), (''degraded'', JBool True), (''reason'', JString reason),
       (''count'', JInt 0), (''block'', JString [])] @ orient_policy arguments)"

definition auto_orient :: "tool_env \<Rightarrow> json_map \<Rightarrow> bool \<Rightarrow> json query" where
  "auto_orient te arguments already_oriented =
     sbind (slift (advisory_result arguments ''auto_orient'')) (\<lambda>refusal.
     case refusal of
       Some v \<Rightarrow> sret v
     | None \<Rightarrow>
     if already_oriented
     then sret (jobject ([(''oriented'', JBool False), (''skipped'', JString ''already_oriented''),
            (''count'', JInt 0), (''block'', JString [])] @ orient_policy arguments))
     else
       sbind (slift (pipeline_required_string arguments ''turn_text'')) (\<lambda>turn.
       if \<not> flag_enabled te ''MEMORY_MCP_RECALL'' then sret (degraded_orient arguments ''disabled'')
       else
         sbind (compose_recall_turn te (jinsert ''turn_text'' (JString turn) arguments)) (\<lambda>r.
         let value = (\<lambda>k d. case field r k of None \<Rightarrow> d | Some v \<Rightarrow> v) in
         if field r ''error'' \<noteq> None then sret (degraded_orient arguments ''unavailable'')
         else sret (jobject
           ([(''oriented'', JBool True), (''degraded'', JBool False), (''count'', value ''count'' (JInt 0)),
             (''authoritative'', value ''authoritative'' (JInt 0)),
             (''background'', value ''background'' (JInt 0)), (''chars'', value ''chars'' (JInt 0)),
             (''block'', value ''block'' (JString [])), (''query_mode'', value ''query_mode'' (JString []))]
            @ orient_policy arguments)))))"

section \<open>Searches in a row\<close>

definition guard_message :: "nat \<Rightarrow> string" where
  "guard_message n =
     ''Memory has not been consulted after '' @ dec_nat n
       @ '' consecutive searches; consider a bounded memory lookup.''"

definition search_guard_turn :: "json_map \<Rightarrow> nat \<Rightarrow> json store_result" where
  "search_guard_turn arguments consecutive_searches =
     rbind (pipeline_required_string arguments ''session_id'') (\<lambda>session.
     rbind (pipeline_required_string arguments ''action'') (\<lambda>action.
     if action \<notin> {''search'', ''memory'', ''reset''}
     then Inr (jobject [(''error'', JString ''action must be search, memory, or reset'')])
     else
       rbind (bounded_usize arguments ''threshold'' 3 1 20) (\<lambda>threshold.
       let n = (if action = ''search'' then consecutive_searches + 1 else 0);
           warn = (action = ''search'' \<and> threshold \<le> n)
       in Inr (jobject
         ([(''session_id'', JString (str_trim session)), (''action'', JString action),
           (''consecutive_searches'', JInt (int n)), (''threshold'', JInt (int threshold)),
           (''warn'', JBool warn), (''blocking'', JBool False), (''memory_policy'', JString ''advisory_only'')]
          @ (if warn then [(''message'', JString (guard_message n))] else []))))))"

end
