(* ===== verification/PipelineSteps.thy ===== *)
theory PipelineSteps
  imports PipelineIngest PipelineRecall
begin

text \<open>
  What the operations of \<open>src/pipeline.rs\<close> may change: recall and search only read, and the others
  change the rows of the workspaces they are given, in the ways the store allows.
\<close>

section \<open>Programs that write to several workspaces\<close>

definition alters :: "bool \<Rightarrow> (string \<Rightarrow> string) \<Rightarrow> string set \<Rightarrow> store_db \<Rightarrow> store_db \<Rightarrow> bool" where
  "alters d sha W s t \<longleftrightarrow> (\<exists>w\<in>W. change d sha w s t)"

interpretation queries: guarded_steps "db_ok sha" "alters d sha W"
  by unfold_locales (auto simp: alters_def intro: change_db_ok)

definition writes_in :: "bool \<Rightarrow> (string \<Rightarrow> string) \<Rightarrow> string set \<Rightarrow> 'a query \<Rightarrow> bool" where
  "writes_in d sha W m \<longleftrightarrow> performs (db_ok sha) (alters d sha W) m"

lemma writes_writes_in:
  assumes "writes d sha w m" "w \<in> W"
  shows "writes_in d sha W m"
proof -
  have "(alters d sha W)\<^sup>*\<^sup>* s t" if "(change d sha w)\<^sup>*\<^sup>* s t" for s t
    using that by (rule rtranclp_mono[THEN predicate2D, rotated]) (use assms(2) in \<open>auto simp: alters_def\<close>)
  then show ?thesis using assms(1) by (simp add: writes_in_def writes_def performs_def)
qed

lemma writes_in_reads: "(\<And>P. keeps P m) \<Longrightarrow> writes_in d sha W m"
  by (simp add: writes_in_def performs_def keeps_everything)

lemma writes_in_intros:
  "writes_in d sha W (sret a)" "writes_in d sha W (sfail e)" "writes_in d sha W (slift r)"
  "(\<And>a. r = Inr a \<Longrightarrow> writes_in d sha W (k a)) \<Longrightarrow> writes_in d sha W (sbind (slift r) k)"
  "writes_in d sha W m \<Longrightarrow> (\<And>a. writes_in d sha W (f a)) \<Longrightarrow> writes_in d sha W (sbind m f)"
  "writes_in d sha W m \<Longrightarrow> writes_in d sha W n \<Longrightarrow> writes_in d sha W (if b then m else n)"
  "writes_in d sha W m \<Longrightarrow> (\<And>x. writes_in d sha W (g x)) \<Longrightarrow> writes_in d sha W (case v of None \<Rightarrow> m | Some x \<Rightarrow> g x)"
  "(\<And>x. writes_in d sha W (h x)) \<Longrightarrow> writes_in d sha W (smapM h xs)"
  "(\<And>x. writes_in d sha W (l x)) \<Longrightarrow> writes_in d sha W (case y of Inl e \<Rightarrow> l e | Inr x \<Rightarrow> sret z) "
  "(\<And>a b. writes_in d sha W (q a b)) \<Longrightarrow> writes_in d sha W (case p of (a, b) \<Rightarrow> q a b)"
  unfolding writes_in_def
  by (auto split: prod.split sum.split intro!: queries.bind_lifted queries.basic queries.branch queries.loops
      intro: queries.sbind split: option.splits)

lemma writes_in_sum:
  "(\<And>e. writes_in d sha W (f e)) \<Longrightarrow> (\<And>x. writes_in d sha W (g x)) \<Longrightarrow>
     writes_in d sha W (case y of Inl e \<Rightarrow> f e | Inr x \<Rightarrow> g x)"
  by (simp split: sum.split)

lemma writes_in_recover: "writes_in d sha W m \<Longrightarrow> writes_in d sha W (recover m)"
  by (simp add: writes_in_def performs_def recover_def split_beta)

lemma on_store_writes_in:
  assumes "writes_in d sha W m"
  shows "tool_writes d sha W (on_store m)"
  unfolding tool_writes_def performs_def
proof (intro allI impI)
  fix s :: tool_server assume "db_ok sha (sv_db s)"
  then have "(alters d sha W)\<^sup>*\<^sup>* (sv_db s) (snd (m (sv_db s)))"
    using assms by (simp add: writes_in_def performs_def)
  then have "(tool_change d sha W)\<^sup>*\<^sup>* s (s\<lparr>sv_db := snd (m (sv_db s))\<rparr>)"
  proof (induction rule: rtranclp_induct)
    case (step t u)
    have "tool_change d sha W (s\<lparr>sv_db := t\<rparr>) (s\<lparr>sv_db := u\<rparr>)"
      using step(2) by (auto simp: tool_change_def alters_def)
    with step(3) show ?case by (rule rtranclp.rtrancl_into_rtrancl)
  qed simp
  then show "(tool_change d sha W)\<^sup>*\<^sup>* s (snd (on_store m s))"
    by (simp add: on_store_def split_beta)
qed

section \<open>What programs return\<close>

definition returns :: "('a \<Rightarrow> bool) \<Rightarrow> ('s, 'e, 'a) sm \<Rightarrow> bool" where
  "returns Q m \<longleftrightarrow> (\<forall>s a. fst (m s) = Inr a \<longrightarrow> Q a)"

lemma returns_intros:
  "Q a \<Longrightarrow> returns Q (sret a)" "returns Q (sfail e)"
  "(\<And>a. returns Q (f a)) \<Longrightarrow> returns Q (sbind l f)"
  "returns Q m \<Longrightarrow> returns Q n \<Longrightarrow> returns Q (if b then m else n)"
  "(v = None \<Longrightarrow> returns Q m) \<Longrightarrow> (\<And>x. v = Some x \<Longrightarrow> returns Q (g x)) \<Longrightarrow>
     returns Q (case v of None \<Rightarrow> m | Some x \<Rightarrow> g x)"
  by (auto simp: returns_def sret_def sfail_def sbind_def split: prod.splits sum.splits option.splits)

lemma returns_bind:
  assumes "returns R m" "\<And>a. R a \<Longrightarrow> returns Q (f a)"
  shows "returns Q (sbind m f)"
  unfolding returns_def
proof (intro allI impI)
  fix s b assume b: "fst (sbind m f s) = Inr b"
  obtain r t where m: "m s = (r, t)" by fastforce
  with b obtain a where a: "r = Inr a" by (cases r) (simp_all add: sbind_def)
  then have "R a" using assms(1) m by (metis returns_def fst_conv)
  moreover have "fst (f a t) = Inr b" using b m a by (simp add: sbind_def)
  ultimately show "Q b" using assms(2) by (auto simp: returns_def)
qed

context guarded_steps
begin

lemma sbind_returns:
  assumes "performs I R m" "returns Q m" "\<And>a. Q a \<Longrightarrow> performs I R (f a)"
  shows "performs I R (sbind m f)"
proof -
  let ?f = "\<lambda>a. if Q a then f a else sfail undefined"
  have "performs I R (sbind m ?f)" using assms(1,3) by (intro sbind) (simp_all add: basic)
  moreover have "sbind m ?f s = sbind m f s" for s
    using assms(2) by (cases "m s"; cases "fst (m s)") (auto simp: returns_def sbind_def dest: spec[of _ s])
  ultimately show ?thesis by (simp add: performs_def)
qed

end

lemma writes_in_bind:
  "writes_in d sha W m \<Longrightarrow> returns Q m \<Longrightarrow> (\<And>a. Q a \<Longrightarrow> writes_in d sha W (f a)) \<Longrightarrow> writes_in d sha W (sbind m f)"
  unfolding writes_in_def by (rule queries.sbind_returns)

lemma tool_writes_bind:
  "tool_writes d sha W m \<Longrightarrow> returns Q m \<Longrightarrow> (\<And>a. Q a \<Longrightarrow> tool_writes d sha W (f a)) \<Longrightarrow> tool_writes d sha W (sbind m f)"
  unfolding tool_writes_def by (rule tools.sbind_returns)

lemma returns_on_store: "returns Q m \<Longrightarrow> returns Q (on_store m)"
  by (auto simp: returns_def on_store_def executed_def split: prod.splits sum.splits) (metis fst_conv)

definition in_scope_fact :: "string \<Rightarrow> fact option \<Rightarrow> bool" where
  "in_scope_fact w found \<longleftrightarrow> (\<forall>f. found = Some f \<longrightarrow> fa_workspace f \<in> {[], w})"

lemma returns_fact_by:
  "returns (in_scope_fact w) (fact_by_id i w)"
  "returns (\<lambda>found. \<forall>f. found = Some f \<longrightarrow> fa_workspace f = w) (fact_by_hash h w)"
  by (auto simp: returns_def fact_by_id_def fact_by_hash_def in_scope_fact_def in_scope_def sbind_def sret_def
      sql_first_def map_fact_def fact.defs find_Some_iff)

lemma returns_remembered: "returns (\<lambda>f. fa_workspace f = w) (remember_fact_with_metadata env text w m)"
proof -
  have read: "returns (\<lambda>f. fa_workspace f = w) (readable what found)"
    if "\<forall>f. found = Some f \<longrightarrow> fa_workspace f = w" for what and found :: "fact option"
    using that by (auto simp: readable_def intro!: returns_intros)
  show ?thesis
    unfolding remember_fact_with_metadata_def Let_def
    apply (rule returns_intros(3), rule returns_intros(3), rule returns_intros(3), rule returns_intros(3))
    apply (rule returns_bind[OF returns_fact_by(2)])
    apply (rule returns_bind[OF read], assumption)
    apply (intro returns_intros; assumption)
    done
qed

lemma returns_set_facts:
  "returns (in_scope_fact w) (set_fact_validity env i v w)"
  "returns (in_scope_fact w) (set_fact_session i session w)"
  "returns (in_scope_fact w) (set_fact_category env i c w)"
proof -
  have none: "in_scope_fact w None" by (simp add: in_scope_fact_def)
  show "returns (in_scope_fact w) (set_fact_validity env i v w)"
    unfolding set_fact_validity_def by (intro returns_intros returns_fact_by none)
  show "returns (in_scope_fact w) (set_fact_session i session w)"
    unfolding set_fact_session_def by (intro returns_intros returns_fact_by none)
  show "returns (in_scope_fact w) (set_fact_category env i c w)"
    unfolding set_fact_category_def Let_def by (intro returns_intros returns_fact_by none)
qed

section \<open>Reading\<close>

lemma keeps_eligibility [keeping]:
  "keeps P (fact_is_eligible f w arguments profile)"
  unfolding fact_is_eligible_def by (intro keeping)

lemma keeps_filter_eligible [keeping]: "(\<And>f. keeps P (p f)) \<Longrightarrow> keeps P (filter_eligible p fs)"
  by (induction fs) (auto intro!: keeping)

lemma keeps_eligible_ranks [keeping]: "(\<And>f. keeps P (p f)) \<Longrightarrow> keeps P (eligible_ranks p xs)"
  by (induction xs) (auto intro!: keeping)

lemma keeps_recover [keeping]: "keeps P m \<Longrightarrow> keeps P (recover m)"
  by (simp add: keeps_def recover_def split_beta)

lemma keeps_graph_facts [keeping]: "keeps P (graph_facts te query w arguments profile limit)"
proof -
  have ids: "keeps P (graph_fact_ids te depth n limit w ts acc)" for depth n ts acc
  proof (induction ts arbitrary: acc)
    case (Cons t ts)
    show ?case unfolding graph_fact_ids.simps Let_def by (intro keeping Cons.IH)
  qed (simp, intro keeping)
  have facts: "keeps P (eligible_by_id w arguments profile limit is fs)" for "is" fs
  proof (induction "is" arbitrary: fs)
    case (Cons i "is")
    show ?case unfolding eligible_by_id.simps Let_def by (intro keeping Cons.IH)
  qed (simp, intro keeping)
  show ?thesis unfolding graph_facts_def by (intro keeping ids facts)
qed

lemma keeps_hybrid_search [keeping]: "keeps P (hybrid_search te query arguments lexical)"
  unfolding hybrid_search_def ranked_value_def Let_def by (intro keeping)

lemma keeps_related_facts [keeping]: "keeps P (related_facts te text w)"
  unfolding related_facts_def Let_def by (intro keeping)

lemma keeps_verify_facts [keeping]: "keeps P (verify_text te arguments)"
  unfolding verify_text_def Let_def by (intro keeping)

lemma keeps_recall_loops [keeping]:
  assumes "\<And>f. keeps P (p f)"
  shows "keeps P (add_hits p fs hits)" "keeps P (term_hits te p w ts hits)"
    "keeps P (add_siblings p limit fs acc)" "keeps P (expand_sessions p w limit fs acc)"
proof -
  show hits: "keeps P (add_hits p fs hits)" for fs hits
    by (induction fs arbitrary: hits) (auto intro!: keeping assms)
  show "keeps P (term_hits te p w ts hits)"
    by (induction ts arbitrary: hits) (auto intro!: keeping hits)
  show siblings: "keeps P (add_siblings p limit fs acc)" for fs acc
    by (induction fs arbitrary: acc) (auto intro!: keeping assms)
  show "keeps P (expand_sessions p w limit fs acc)"
    by (induction fs arbitrary: acc) (auto intro!: keeping siblings)
qed

lemma keeps_compose_recall [keeping]: "keeps P (compose_recall_turn te arguments)"
  unfolding compose_recall_turn_def recall_turn_def recall_hits_def rendered_recall_def Let_def
  by (intro keeping)

lemma keeps_auto_orient [keeping]: "keeps P (auto_orient te arguments already)"
  unfolding auto_orient_def Let_def by (intro keeping)

section \<open>Writing\<close>

lemmas writes_in_rules = writes_in_intros writes_in_sum writes_in_recover

lemma writes_in_one:
  assumes "w \<in> W"
  shows "writes_in d sha W (set_fact_category env i c w)" "writes_in d sha W (upsert_fact_embedding i v model w)"
    "writes_in d sha W (invalidate_fact env i j w reason)" "writes_in d sha W (set_fact_session i session w)"
    "writes_in d sha W (generate_relation_candidates_with_limits env i w limit scan minimum)"
    "vs_workspace spec = w \<Longrightarrow> writes_in d sha W (attach_evidence env spec)"
    "se_sha256 env = sha \<Longrightarrow> writes_in d sha W (remember_fact_with_metadata env text w m)"
  using assms by (auto intro!: writes_writes_in writes_set_fact_category writes_upsert_fact_embedding
      writes_invalidate_fact writes_set_fact_session writes_generate_relation_candidates_with_limits
      writes_attach_evidence writes_remember_fact_with_metadata)

lemma returns_recover: "returns Q m \<Longrightarrow> returns (\<lambda>r. case r of Inl _ \<Rightarrow> True | Inr a \<Rightarrow> Q a) (recover m)"
  by (auto simp: returns_def recover_def split: prod.splits sum.splits) (metis fst_conv)

lemma scoped_fact:
  "in_scope_fact w found \<Longrightarrow> [] \<in> W \<Longrightarrow> w \<in> W \<Longrightarrow> fa_workspace f \<in> W \<Longrightarrow>
     fa_workspace (case found of None \<Rightarrow> f | Some g \<Rightarrow> g) \<in> W"
  by (cases found) (auto simp: in_scope_fact_def)

lemma writes_in_maybe_enrich_fact:
  assumes W: "[] \<in> W" "fa_workspace f \<in> W" "or_text [] (string_arg arguments ''workspace'') \<in> W"
  shows "writes_in d sha W (maybe_enrich_fact te f arguments)"
proof -
  let ?v = "or_text [] (string_arg arguments ''workspace'')"
  have first: "returns (\<lambda>r. case r of Inl _ \<Rightarrow> True | Inr a \<Rightarrow> in_scope_fact w a)
      (recover (set_fact_category env i c w) :: (store_db, store_error, store_error + fact option) sm)"
    for env i c w by (rule returns_recover[OF returns_set_facts(3)])
  have found: "returns (\<lambda>found. fa_workspace (case found of None \<Rightarrow> f | Some g \<Rightarrow> g) \<in> W)
      (case r of Inl e \<Rightarrow> set_fact_category (te_store te) (fa_id f) c ?v | Inr found \<Rightarrow> sret found)"
    if "case r of Inl _ \<Rightarrow> True | Inr a \<Rightarrow> in_scope_fact (fa_workspace f) a" for r :: "store_error + fact option" and c
  proof (cases r)
    case (Inl e)
    then show ?thesis using returns_set_facts(3)[of ?v "te_store te" "fa_id f" c]
      by (auto simp: returns_def intro!: scoped_fact[of ?v] W)
  next
    case (Inr a)
    then show ?thesis using that by (auto intro!: returns_intros scoped_fact[of "fa_workspace f"] W)
  qed
  have "writes_in d sha W (case category_for_fact te arguments f of None \<Rightarrow> sret f | Some c \<Rightarrow>
      sbind (recover (set_fact_category (te_store te) (fa_id f) c (fa_workspace f))) (\<lambda>r.
      sbind (case r of Inl e \<Rightarrow> set_fact_category (te_store te) (fa_id f) c ?v | Inr found \<Rightarrow> sret found) (\<lambda>found.
      sret (case found of None \<Rightarrow> f | Some g \<Rightarrow> g))))"
    by (intro writes_in_rules writes_in_one W)
  moreover have "returns (\<lambda>g. fa_workspace g \<in> W) (case category_for_fact te arguments f of None \<Rightarrow> sret f | Some c \<Rightarrow>
      sbind (recover (set_fact_category (te_store te) (fa_id f) c (fa_workspace f))) (\<lambda>r.
      sbind (case r of Inl e \<Rightarrow> set_fact_category (te_store te) (fa_id f) c ?v | Inr found \<Rightarrow> sret found) (\<lambda>found.
      sret (case found of None \<Rightarrow> f | Some g \<Rightarrow> g))))"
    by (intro returns_intros(5)) (auto intro!: returns_intros(1) W returns_bind[OF first] returns_bind[OF found])
  ultimately show ?thesis
    unfolding maybe_enrich_fact_def Let_def
    by (rule writes_in_bind) (intro writes_in_rules writes_in_one)
qed

lemma writes_in_auto_link:
  assumes "w \<in> W"
  shows "writes_in d sha W (auto_link_new_fact te i arguments w)"
    "writes_in d sha W (auto_link_facts te is arguments w)"
proof -
  have one: "writes_in d sha W (auto_link_new_fact te i arguments w)" for i
    unfolding auto_link_new_fact_def by (intro writes_in_rules writes_in_one assms)
  show "writes_in d sha W (auto_link_new_fact te i arguments w)" by (rule one)
  show "writes_in d sha W (auto_link_facts te is arguments w)"
    unfolding auto_link_facts_def Let_def by (intro writes_in_rules one)
qed

lemma writes_in_categorize_pending:
  assumes "or_text [] (string_arg arguments ''workspace'') \<in> W"
  shows "writes_in d sha W (categorize_with_model te arguments)"
  unfolding categorize_with_model_def categorize_one_def Let_def
  by (intro writes_in_rules writes_in_one writes_in_reads keeping assms)

lemma writes_in_try_evidence:
  assumes "vs_workspace spec \<in> W"
  shows "writes_in d sha W (try_evidence te spec)"
  unfolding try_evidence_def by (intro writes_in_rules writes_in_one[OF assms] refl)

lemma unresolved_evidence_workspace [simp]: "vs_workspace (unresolved_evidence i r s w) = w"
  by (simp add: unresolved_evidence_def)

lemma writes_in_verify_new_facts:
  assumes "\<forall>(i, t, w)\<in>set news. w \<in> W"
  shows "writes_in d sha W (verify_new_facts te news)"
proof -
  have verdicts: "writes_in d sha W (apply_verdict te facts verdict i w v)" if "w \<in> W" for facts verdict i w v
    unfolding apply_verdict_def Let_def
    by (intro writes_in_rules writes_in_one[OF that] writes_in_try_evidence) (simp_all add: that)
  have one: "writes_in d sha W (verify_new_fact te (i, t, w) v)" if "w \<in> W" for i t w v
    unfolding verify_new_fact_def Let_def prod.case by (intro writes_in_rules writes_in_reads keeping verdicts that)
  have "writes_in d sha W (verify_all te news v)" for v
    using assms by (induction news arbitrary: v) (auto intro!: writes_in_intros one)
  then show ?thesis unfolding verify_new_facts_def by (intro writes_in_rules)
qed

lemma writes_in_consolidate:
  assumes sha: "se_sha256 (te_store te) = sha"
    and W: "[] \<in> W" "or_text [] (string_arg arguments ''workspace'') \<in> W"
  shows "writes_in d sha W (consolidate_ids te arguments)"
proof -
  let ?w = "or_text [] (string_arg arguments ''workspace'')"
  have facts: "keeps P (consolidated_facts w is fs)" for P w "is" fs
    by (induction "is" arbitrary: fs) (auto simp: Let_def intro!: keeping)
  have sources: "writes_in d sha W (invalidate_sources te ?w i fs)" for i fs
    by (induction fs) (auto intro!: writes_in_rules writes_in_one W writes_in_try_evidence)
  have arguments: "or_text [] (string_arg (pipeline_arguments w m t) ''workspace'') = w" for w m t
    by (simp add: string_arg_def get_str_def pipeline_arguments_def jget_def or_text_def)
  have "writes_in d sha W (merge_facts te ?w fs verdict t)" for fs verdict t
    unfolding merge_facts_def Let_def
    apply (rule writes_in_bind[OF writes_in_one(7)[OF W(2) sha] returns_remembered])
    apply (rule writes_in_intros(5)[OF writes_in_maybe_enrich_fact])
    by (simp_all add: W arguments) (intro writes_in_rules sources)
  then show ?thesis
    unfolding consolidate_ids_def Let_def
    by (auto split: option.split sum.split intro!: writes_in_intros writes_in_reads[OF facts])
qed

section \<open>Ingesting and absorbing\<close>

lemma returns_smapM: "(\<And>x. x \<in> set xs \<Longrightarrow> returns Q (f x)) \<Longrightarrow> returns (\<lambda>ys. \<forall>y\<in>set ys. Q y) (smapM f xs)"
  by (induction xs) (auto intro!: returns_intros(1) returns_bind)

lemma writes_in_smapM: "(\<And>x. x \<in> set xs \<Longrightarrow> writes_in d sha W (f x)) \<Longrightarrow> writes_in d sha W (smapM f xs)"
  by (induction xs) (simp_all add: writes_in_intros)

lemma writes_in_new_fact_candidates:
  assumes "\<forall>(i, w)\<in>set news. w \<in> W"
  shows "writes_in d sha W (new_fact_candidates te arguments news)"
proof -
  have "writes_in d sha W (smapM (\<lambda>(i, w). auto_link_new_fact te i arguments w) news)"
    by (rule writes_in_smapM) (use assms in \<open>auto intro: writes_in_auto_link(1)\<close>)
  then show ?thesis
    unfolding new_fact_candidates_def Let_def
    by (rule writes_in_intros(5)) (intro writes_in_intros(1,4,10))
qed

definition new_in :: "string set \<Rightarrow> ingest \<Rightarrow> bool" where
  "new_in W g \<longleftrightarrow> (\<forall>(i, t, w)\<in>set (ig_new g). w \<in> W)"

lemma writes_in_ingest_turn:
  assumes sha: "se_sha256 (te_store te) = sha"
    and W: "[] \<in> W" "or_text [] (string_arg arguments ''workspace'') \<in> W"
  shows "writes_in d sha W (ingest_transcript te arguments)"
proof -
  have arguments: "or_text [] (string_arg (pipeline_arguments w m t) ''workspace'') = w" for w m t
    by (simp add: string_arg_def get_str_def pipeline_arguments_def jget_def or_text_def)
  have session: "writes_in d sha W (attach_session te session w i)" if "w \<in> W" for session w i
    unfolding attach_session_def
    by (intro writes_in_rules writes_in_one[OF that] writes_in_try_evidence) (simp_all add: that)
  have item: "writes_in d sha W (ingest_item te arguments v g)" for v g
  proof -
    let ?w = "if get_str v ''scope'' = Some ''global'' then [] else or_text [] (string_arg arguments ''workspace'')"
    have w: "?w \<in> W" by (simp add: W)
    have r: "returns (\<lambda>r. case r of Inl _ \<Rightarrow> True | Inr f \<Rightarrow> fa_workspace f = ?w)
        (recover (remember_fact_with_metadata (te_store te) t ?w m) :: (store_db, store_error, store_error + fact) sm)"
      for t m by (rule returns_recover[OF returns_remembered])
    show ?thesis
      unfolding ingest_item_def Let_def
      apply (rule writes_in_intros(6), rule writes_in_intros(1), rule writes_in_intros(5), rule writes_in_reads, rule keeping)
      apply (rule writes_in_bind[OF writes_in_recover[OF writes_in_one(7)[OF w sha]] r])
      apply (auto simp: arguments W intro!: writes_in_intros(1) writes_in_intros(5)[OF writes_in_maybe_enrich_fact] writes_in_intros(5)[OF session] split: sum.split)
      done
  qed
  have kept: "returns (new_in W) (ingest_item te arguments v g)" if "new_in W g" for v g
    using that W unfolding ingest_item_def Let_def
    by (auto simp: new_in_def failed_item_def intro!: returns_intros split: sum.split)
  have items: "writes_in d sha W (ingest_items te arguments vs g)" for vs g
    by (induction vs arbitrary: g) (auto intro!: writes_in_intros item split: option.split)
  have failed: "new_in W g \<Longrightarrow> new_in W (failed_item g)" for g
    by (simp add: new_in_def failed_item_def)
  have all: "returns (new_in W) (ingest_items te arguments vs g)" if "new_in W g" for vs g
    using that
  proof (induction vs arbitrary: g)
    case (Cons v vs)
    have "returns (new_in W) (case as_object v of None \<Rightarrow> sret (failed_item g) | Some item \<Rightarrow> ingest_item te arguments item g)"
      using Cons.prems by (auto intro!: returns_intros(1) failed kept split: option.split)
    then show ?case unfolding ingest_items.simps by (rule returns_bind) (rule Cons.IH)
  qed (simp add: returns_intros(1))
  have answer: "writes_in d sha W (ingest_answer te arguments n g)" if "new_in W g" for n g
    using that unfolding ingest_answer_def new_in_def
    by (intro writes_in_intros(1,5,6) writes_in_new_fact_candidates writes_in_verify_new_facts) auto
  have "writes_in d sha W (sbind (ingest_items te arguments vs \<lparr>ig_stored = 0, ig_deduped = 0, ig_failed = 0, ig_new = []\<rparr>)
      (ingest_answer te arguments n))" for vs n
    by (rule writes_in_bind[OF items all answer]) (simp_all add: new_in_def)
  then show ?thesis
    unfolding ingest_transcript_def Let_def by (intro writes_in_intros(1,4,6,7))
qed

lemma merged_arguments_workspace:
  "get_str (merged_arguments arguments item t) ''workspace'' = get_str arguments ''workspace''"
proof -
  have "jget (fold (\<lambda>k m. case jget item k of None \<Rightarrow> m | Some v \<Rightarrow> jinsert k v m) ks m) ''workspace''
      = jget m ''workspace''" if "''workspace'' \<notin> set ks" for ks m
    using that by (induction ks arbitrary: m) (auto simp: jget_jinsert split: option.split)
  from this[of merged_keys arguments] show ?thesis
    by (simp add: get_str_def merged_arguments_def jget_jinsert) (simp add: merged_keys_def)
qed

lemma absorb_items_workspace:
  assumes "rmapM (\<lambda>(n, v). absorb_item arguments n v) xs = Inr items" "x \<in> set items"
  shows "get_str (snd x) ''workspace'' = get_str arguments ''workspace''"
  using assms
proof (induction xs arbitrary: items)
  case (Cons y ys)
  have "get_str b ''workspace'' = get_str arguments ''workspace''" if "absorb_item arguments n v = Inr (a, b)" for n v a b
    using that by (auto simp: absorb_item_def Let_def rbind_Inr_iff merged_arguments_workspace
        split: json.splits if_splits)
  then show ?case using Cons by (auto simp: rbind_Inr_iff split: prod.splits)
qed simp

lemma writes_in_absorb_facts:
  assumes sha: "se_sha256 (te_store te) = sha"
    and W: "[] \<in> W" "or_text [] (string_arg arguments ''workspace'') \<in> W"
  shows "writes_in d sha W (absorb_facts te arguments)"
proof -
  let ?w = "or_text [] (string_arg arguments ''workspace'')"
  let ?ok = "\<lambda>p. get_str (pl_arguments p) ''workspace'' = get_str arguments ''workspace''"
  have plan: "keeps P (plan_item te w x)" for P w x
    unfolding plan_item_def Let_def by (intro keeping)
  have planned: "returns ?ok (plan_item te w x)"
    if "get_str (snd (snd x)) ''workspace'' = get_str arguments ''workspace''" for w x
    using that unfolding plan_item_def Let_def by (auto split: prod.split intro!: returns_intros)
  have store: "writes_in d sha W (store_planned te ?w p)" if "?ok p" for p
    unfolding store_planned_def
    by (intro writes_in_intros(1,6) writes_in_bind[OF writes_in_one(7)[OF W(2) sha] returns_remembered]
        writes_in_intros(5)[OF writes_in_maybe_enrich_fact] W)
      (use that W in \<open>simp_all add: string_arg_def\<close>)
  have stored: "writes_in d sha W (smapM (store_planned te ?w) plan)" if "\<forall>p\<in>set plan. ?ok p" for plan
    by (rule writes_in_smapM, rule store) (use that in blast)
  have "writes_in d sha W (absorb_items te arguments ?w commit items)"
    if "\<forall>x\<in>set items. get_str (snd x) ''workspace'' = get_str arguments ''workspace''" for commit items
    unfolding absorb_items_def
    apply (rule writes_in_bind[where Q = "\<lambda>plan. \<forall>p\<in>set plan. ?ok p"])
    subgoal by (intro writes_in_reads keeping plan)
    subgoal by (rule returns_smapM, rule planned) (use that in \<open>fastforce simp: in_set_enumerate_eq dest: nth_mem\<close>)
    subgoal by (intro writes_in_intros(1,6) writes_in_intros(5)[OF stored]
        writes_in_intros(5)[OF writes_in_new_fact_candidates]) (use W in auto)
    done
  then show ?thesis
    unfolding absorb_facts_def Let_def
    by (auto split: option.split sum.split prod.split intro!: writes_in_intros dest: absorb_items_workspace)
qed

end
