(* ===== verification/ProtocolRecords.thy ===== *)
theory ProtocolRecords
  imports ProtocolValues
begin

text \<open>
  The tools on runs, measurements, feedback, exports and workspaces in \<open>src/protocol.rs\<close>.
\<close>

text \<open>\<open>arguments.get("workspace").and_then(Value::as_str).unwrap_or("")\<close>.\<close>

definition plain_workspace :: "json_map \<Rightarrow> string" where
  "plain_workspace arguments = or_text [] (get_str arguments ''workspace'')"

section \<open>Runs\<close>

definition run_value ::
    "tool_env \<Rightarrow> run \<Rightarrow> string option \<Rightarrow> string option \<Rightarrow> json option \<Rightarrow> json" where
  "run_value te r base_sha head_sha files_changed =
     (let files = (case or_else files_changed (te_parse te (ru_files r)) of
            None \<Rightarrow> JArray [] | Some v \<Rightarrow> v);
          summary = (case te_parse te (ru_summary r) of None \<Rightarrow> jobject [] | Some v \<Rightarrow> v);
          text = (\<lambda>k. Option.bind (field summary k) as_str);
          get = (\<lambda>k d. case field summary k of None \<Rightarrow> d | Some v \<Rightarrow> v)
      in jobject
        [(''id'', JInt (ru_id r)), (''run_id'', JString (ru_run_id r)),
         (''issue_ref'', JString (ru_issue_ref r)), (''pr_ref'', JString (ru_pr_ref r)),
         (''session_id'', JString (ru_session r)), (''cwd'', get ''cwd'' (JString [])),
         (''source'', get ''source'' (JString [])),
         (''base_sha'', JString (or_text [] (or_else base_sha (text ''base_sha'')))),
         (''head_sha'', JString (or_text [] (or_else head_sha (text ''head_sha'')))),
         (''files_changed'', files), (''diff'', get ''diff'' (JString (ru_diff r))),
         (''diff_truncated'', get ''diff_truncated'' (JBool False)),
         (''state'', JString (ru_state r)), (''workspace'', JString (ru_workspace r)),
         (''created_at'', JString (ru_created_at r)), (''ended_at'', optional_json (ru_ended_at r))])"

definition exact_run_begin :: "tool_env \<Rightarrow> json_map \<Rightarrow> json tool" where
  "exact_run_begin te arguments =
     sbind (slift (required_string arguments ''run_id'')) (\<lambda>run_id.
     sbind (slift (string_or [] arguments ''issue_ref'')) (\<lambda>issue_ref.
     sbind (slift (string_or [] arguments ''pr_ref'')) (\<lambda>pr_ref.
     sbind (slift (string_or [] arguments ''session_id'')) (\<lambda>session.
     sbind (on_store (begin_run (te_store te)
              \<lparr>rs_run_id = run_id, rs_issue_ref = issue_ref, rs_pr_ref = pr_ref, rs_session = session,
               rs_git_ref = [], rs_files = [], rs_diff = [],
               rs_workspace = plain_workspace arguments\<rparr>)) (\<lambda>r.
     sret (jobject [(''run'', run_value te r None None None), (''duplicate'', JBool False)]))))))"

definition run_summary :: "json_map \<Rightarrow> json \<Rightarrow> json call" where
  "run_summary arguments files =
     rbind (string_or [] arguments ''base_sha'') (\<lambda>base_sha.
     rbind (string_or [] arguments ''head_sha'') (\<lambda>head_sha.
     rbind (string_or [] arguments ''diff'') (\<lambda>diff.
     rbind (string_or [] arguments ''issue_ref'') (\<lambda>issue_ref.
     rbind (string_or [] arguments ''pr_ref'') (\<lambda>pr_ref.
     Inr (jobject
       [(''base_sha'', JString base_sha), (''head_sha'', JString head_sha), (''files_changed'', files),
        (''diff'', JString diff), (''issue_ref'', JString issue_ref), (''pr_ref'', JString pr_ref),
        (''diff_truncated'', JBool False)]))))))"

definition exact_run_end :: "tool_env \<Rightarrow> json_map \<Rightarrow> json tool" where
  "exact_run_end te arguments =
     sbind (slift (required_string arguments ''run_id'')) (\<lambda>run_id.
     let workspace = plain_workspace arguments;
         files = (case jget arguments ''files_changed'' of None \<Rightarrow> JArray [] | Some v \<Rightarrow> v) in
     if as_array files = None then slift (invalid ''files_changed must be an array'')
     else
       sbind (slift (run_summary arguments files)) (\<lambda>summary.
       sbind (on_store (end_run (te_store te) run_id (te_render te summary) workspace)) (\<lambda>r.
       sbind (found_or (''run not found: '' @ run_id) r) (\<lambda>r.
       sbind (slift (optional_string arguments ''base_sha'')) (\<lambda>base_sha.
       sbind (slift (optional_string arguments ''head_sha'')) (\<lambda>head_sha.
       sret (jobject [(''run'', run_value te r base_sha head_sha (Some files)),
         (''duplicate'', JBool False)])))))))"

definition exact_query_run :: "tool_env \<Rightarrow> json_map \<Rightarrow> json tool" where
  "exact_query_run te arguments =
     sbind (on_store (query_runs [] (plain_workspace arguments))) (\<lambda>runs.
     sbind (slift (optional_usize arguments [''limit''] 20)) (\<lambda>limit.
     let shown = map (\<lambda>r. run_value te r None None None) (take limit (rev runs)) in
     sret (jobject (counted ''runs'' shown))))"

section \<open>Measurements\<close>

definition metric_names :: "string list" where
  "metric_names = [''input_tokens'', ''output_tokens'', ''memory_calls'', ''external_tool_calls'',
     ''context_bytes'', ''comment_bytes'', ''wall_time_ms'', ''time_to_first_useful_ms'',
     ''memory_latency_ms'', ''recall_at_k'', ''precision_at_k'', ''time_to_first_useful_fact_ms'',
     ''useful_cross_domain_findings'', ''false_positive_rate'', ''candidate_linking_latency_ms'',
     ''duplicate_rate'', ''conflict_rate'', ''reference_resolution_rate'', ''fallback_rate'',
     ''qa_rework'', ''quality_score'', ''safety_regression'']"

text \<open>The first metric that is a number.\<close>

fun first_metric :: "json_map \<Rightarrow> string list \<Rightarrow> (string \<times> f64) option" where
  "first_metric arguments [] = None"
| "first_metric arguments (name # names) =
     (case Option.bind (jget arguments name) as_f64 of
        Some v \<Rightarrow> Some (name, v)
      | None \<Rightarrow> first_metric arguments names)"

definition aggregate_metric :: "json_map \<Rightarrow> (string \<times> f64) call" where
  "aggregate_metric arguments =
     some_or ''at least one aggregate metric is required''
       (or_else (first_metric arguments metric_names)
         (map_option (\<lambda>i. (''wall_time_ms'', int_f64 i)) (Option.bind (jget arguments ''wall_time_ms'') as_i64)))"

definition known_run :: "json_map \<Rightarrow> string \<Rightarrow> unit tool" where
  "known_run arguments workspace =
     sbind (slift (optional_string arguments ''run_id'')) (\<lambda>run_id.
     case run_id of
       None \<Rightarrow> sret ()
     | Some run_id \<Rightarrow>
         sbind (on_store (query_runs run_id workspace)) (\<lambda>runs.
         if list_all (\<lambda>r. ru_run_id r \<noteq> run_id) runs
         then slift (invalid ''run_id was not found in the requested workspace'')
         else sret ()))"

definition exact_record_measurement :: "tool_env \<Rightarrow> json_map \<Rightarrow> json tool" where
  "exact_record_measurement te arguments =
     sbind (slift (required_context_workspace arguments)) (\<lambda>workspace.
     sbind (slift (required_string arguments ''measurement_id'')) (\<lambda>measurement_id.
     sbind (slift (required_string arguments ''sample_key'')) (\<lambda>sample_key.
     sbind (slift (required_string arguments ''variant'')) (\<lambda>variant.
     if variant \<notin> {''baseline'', ''memory''} then slift (invalid ''variant must be baseline or memory'')
     else if \<not> has_arg arguments ''run_id'' \<and> \<not> has_arg arguments ''issue_ref''
     then slift (invalid ''run_id or issue_ref is required'')
     else
       sbind (known_run arguments workspace) (\<lambda>_.
       sbind (slift (aggregate_metric arguments)) (\<lambda>(m, v).
       sbind (on_store (record_measurement (te_store te)
                \<lparr>ms_measurement = m, ms_sample = sample_key, ms_variant = variant, ms_value = v,
                 ms_baseline = (variant = ''baseline''), ms_workspace = workspace\<rparr>)) (\<lambda>observation.
       sbind (slift (string_or [] arguments ''run_id'')) (\<lambda>run_id.
       sbind (slift (string_or [] arguments ''issue_ref'')) (\<lambda>issue_ref.
       sret (jobject
         [(''observation'', put_fields (measurement_json observation)
             ([(''measurement_id'', JString measurement_id), (''sample_key'', JString sample_key),
               (''run_id'', JString run_id), (''issue_ref'', JString issue_ref)]
              @ List.map_filter (\<lambda>name. map_option (Pair name) (jget arguments name)) metric_names)),
          (''duplicate'', JBool False)]))))))))))"

definition variant_count :: "string \<Rightarrow> measurement list \<Rightarrow> nat" where
  "variant_count v rows = length (filter (\<lambda>r. me_variant r = v) rows)"

definition exact_query_measurement :: "tool_env \<Rightarrow> json_map \<Rightarrow> json tool" where
  "exact_query_measurement te arguments =
     sbind (slift (required_context_workspace arguments)) (\<lambda>workspace.
     sbind (slift (required_string arguments ''measurement_id'')) (\<lambda>measurement_id.
     sbind (slift (optional_usize arguments [''min_pairs''] 10)) (\<lambda>min_pairs.
     sbind (on_store (query_measurements measurement_id workspace)) (\<lambda>rows.
     let rows = filter (\<lambda>r. me_measurement r = measurement_id \<or> me_sample r = measurement_id) rows;
         baseline = variant_count ''baseline'' rows; memory = variant_count ''memory'' rows;
         paired = min baseline memory;
         count = (\<lambda>n. jobject [(''observations'', JInt (int n)), (''paired_samples'', JInt (int paired)),
           (''unpaired_samples'', JInt (int (n - paired)))])
     in sret (jobject
       [(''measurement_id'', JString measurement_id), (''min_pairs'', JInt (int min_pairs)),
        (''paired_samples'', JInt (int paired)),
        (''observations'', jobject [(''baseline'', JInt (int baseline)), (''memory'', JInt (int memory))]),
        (''status'', JString (if min_pairs \<le> paired then ''ready_for_review'' else ''not_claimed'')),
        (''variants'', jobject [(''baseline'', count baseline), (''memory'', count memory)])])))))"

section \<open>Feedback\<close>

definition exact_record_feedback :: "tool_env \<Rightarrow> json_map \<Rightarrow> json tool" where
  "exact_record_feedback te arguments =
     sbind (slift (required_context_workspace arguments)) (\<lambda>workspace.
     sbind (slift (required_string arguments ''feedback_id'')) (\<lambda>feedback_id.
     sbind (slift (string_or [] arguments ''site'')) (\<lambda>site.
     sbind (slift (required_string arguments ''item_ref'')) (\<lambda>item_ref.
     sbind (slift (required_string arguments ''signal'')) (\<lambda>signal.
     sbind (slift (string_or ''fact'' arguments ''item_type'')) (\<lambda>item_type.
     sbind (on_store (query_feedback [] workspace)) (\<lambda>known.
     let duplicate = list_ex (\<lambda>f. fe_feedback_id f = str_trim feedback_id) known in
     sbind (slift (string_or [] arguments ''query_hash'')) (\<lambda>query_hash.
     sbind (on_store (record_feedback (te_store te)
              \<lparr>fs_feedback_id = str_trim feedback_id, fs_site = str_trim site,
               fs_item_type = str_trim item_type, fs_item_ref = str_trim item_ref,
               fs_signal = str_trim signal, fs_query_hash = query_hash, fs_workspace = workspace\<rparr>)) (\<lambda>feedback.
     sret (jobject [(''accepted'', JBool True), (''duplicate'', JBool duplicate),
       (''result_status'', JString (if duplicate then ''duplicate'' else ''recorded'')),
       (''feedback'', feedback_json feedback)]))))))))))"

text \<open>How often each signal occurs. A \<open>HashMap\<close> becomes an object with sorted keys.\<close>

definition signal_counts :: "feedback list \<Rightarrow> json" where
  "signal_counts fs = jobject (map (\<lambda>signal. (signal,
       JInt (int (length (filter (\<lambda>f. fe_signal f = signal) fs))))) (remdups (map fe_signal fs)))"

definition exact_query_feedback :: "tool_env \<Rightarrow> json_map \<Rightarrow> json tool" where
  "exact_query_feedback te arguments =
     sbind (slift (required_context_workspace arguments)) (\<lambda>workspace.
     sbind (slift (string_or [] arguments ''query'')) (\<lambda>query.
     sbind (slift (optional_string arguments ''site'')) (\<lambda>site.
     sbind (slift (optional_usize arguments [''limit''] 100)) (\<lambda>limit.
     sbind (on_store (query_feedback query workspace)) (\<lambda>feedback.
     let shown = take limit (rev (filter (\<lambda>f. case site of None \<Rightarrow> True | Some v \<Rightarrow> fe_site f = v) feedback)) in
     sret (jobject (counted ''feedback'' (map feedback_json shown)
       @ [(''signals'', signal_counts shown)])))))))"

section \<open>Exports\<close>

text \<open>
  \<open>str::lines\<close>: the pieces at line feeds, without a final empty one. (A carriage return at the end
  of a line is dropped too, which does not change whether the line is blank.)
\<close>

definition rdf_lines :: "string \<Rightarrow> string list" where
  "rdf_lines rdf = (let ls = split_byte CHR 0x0A [] rdf in if last ls = [] then butlast ls else ls)"

definition exact_export_rdf :: "tool_env \<Rightarrow> json_map \<Rightarrow> json tool" where
  "exact_export_rdf te arguments =
     sbind (slift (optional_workspace arguments)) (\<lambda>workspace.
     sbind (on_store (export_rdf workspace)) (\<lambda>rdf.
     let triples = length (filter (\<lambda>l. \<not> blank l) (rdf_lines rdf)) in
     sret (jobject [(''format'', JString ''text/turtle''), (''triples'', JInt (int triples)),
       (''records'', JInt (int triples)), (''truncated'', JBool False), (''rdf'', JString rdf)])))"

definition exact_export :: "tool_env \<Rightarrow> json_map \<Rightarrow> json tool" where
  "exact_export te arguments =
     sbind (slift (optional_workspace arguments)) (\<lambda>workspace.
     sbind (on_store (if workspace = [] then export_all (te_store te)
                      else export_snapshot (te_store te) workspace)) (\<lambda>snapshot.
     sret (put_field (export_json snapshot) ''workspace'' (JString workspace))))"

section \<open>Workspaces\<close>

definition workspace_value :: "workspace_row \<Rightarrow> json" where
  "workspace_value w = jobject [(''workspace'', JString (ws_id w)), (''id'', JString (ws_id w)),
     (''status'', JString (ws_status w))]"

definition refused :: "string \<Rightarrow> json" where
  "refused message = jobject [(''error'', JString message)]"

definition exact_create_workspace :: "tool_env \<Rightarrow> json_map \<Rightarrow> json tool" where
  "exact_create_workspace te arguments =
     sbind (slift (workspace_argument arguments)) (\<lambda>workspace.
     sbind (on_store list_workspaces) (\<lambda>known.
     let existed = list_ex (\<lambda>r. ws_id r = workspace) known in
     sbind (on_store (create_workspace workspace)) (\<lambda>v.
     sret (put_field (workspace_value v) ''created'' (JBool (\<not> existed))))))"

definition workspace_counts :: "tool_env \<Rightarrow> workspace_row \<Rightarrow> json tool" where
  "workspace_counts te w =
     sbind (on_store (list_facts (ws_id w))) (\<lambda>active.
     sbind (on_store (list_forgotten (ws_id w))) (\<lambda>forgotten.
     sbind (on_store (list_entities (te_store te) (ws_id w))) (\<lambda>entities.
     sbind (on_store (list_relations (ws_id w))) (\<lambda>relations.
     sbind (on_store (list_decisions (ws_id w))) (\<lambda>decisions.
     sbind (on_store (list_evidence (ws_id w))) (\<lambda>evidence.
     sret (jobject
       [(''workspace'', JString (ws_id w)), (''id'', JString (ws_id w)), (''status'', JString (ws_status w)),
        (''active_facts'', JInt (int (length active))),
        (''facts'', JInt (int (length active + length forgotten))),
        (''entities'', JInt (int (length entities))), (''relations'', JInt (int (length relations))),
        (''decisions'', JInt (int (length decisions))), (''evidence'', JInt (int (length evidence)))])))))))"

definition exact_list_workspaces :: "tool_env \<Rightarrow> json_map \<Rightarrow> json tool" where
  "exact_list_workspaces te arguments =
     sbind (slift (optional_string arguments ''status'')) (\<lambda>status.
     if (case status of None \<Rightarrow> False | Some v \<Rightarrow> v \<notin> {''active'', ''archived'', ''reset''})
     then slift (invalid ''status must be active, archived, or reset'')
     else
       sbind (on_store list_workspaces) (\<lambda>known.
       sbind (smapM (workspace_counts te)
                (filter (\<lambda>w. case status of None \<Rightarrow> True | Some v \<Rightarrow> ws_status w = v) known)) (\<lambda>workspaces.
       sret (jobject (counted ''workspaces'' workspaces)))))"

text \<open>\<open>hard\<close> asks for \<open>confirm\<close>.\<close>

definition unconfirmed :: "json_map \<Rightarrow> (bool \<times> bool) call" where
  "unconfirmed arguments =
     rbind (optional_bool arguments [''hard''] False) (\<lambda>hard.
     if hard then rbind (optional_bool arguments [''confirm''] False) (\<lambda>confirm. Inr (hard, \<not> confirm))
     else Inr (hard, False))"

definition exact_archive_workspace :: "tool_env \<Rightarrow> json_map \<Rightarrow> json tool" where
  "exact_archive_workspace te arguments =
     sbind (slift (workspace_argument arguments)) (\<lambda>workspace.
     sbind (slift (unconfirmed arguments)) (\<lambda>(hard, stop).
     if stop then sret (refused ''confirm: true is required for hard archive'')
     else
       sbind (on_store (archive_workspace workspace)) (\<lambda>v.
       case v of
         None \<Rightarrow> sret (refused (''workspace not found: '' @ workspace))
       | Some v \<Rightarrow>
           sret (jobject [(''archived'', JString workspace), (''hard'', JBool hard),
             (''workspace'', workspace_value v)]))))"

definition exact_reset_workspace :: "tool_env \<Rightarrow> json_map \<Rightarrow> json tool" where
  "exact_reset_workspace te arguments =
     sbind (slift (workspace_argument arguments)) (\<lambda>workspace.
     sbind (slift (unconfirmed arguments)) (\<lambda>(hard, stop).
     if stop then sret (refused ''confirm: true is required for hard reset'')
     else
       sbind (on_store (reset_workspace workspace)) (\<lambda>v.
       sret (jobject [(''reset'', JString workspace), (''hard'', JBool hard),
         (''workspace'', workspace_value v)]))))"

section \<open>What they write\<close>

lemma writes_keeps: "(\<And>P. keeps P m) \<Longrightarrow> writes d sha w m"
  by (simp add: writes_def performs_def keeps_everything)

lemma writes_export_snapshot: "writes d sha w (export_snapshot env w)"
  unfolding export_snapshot_def
  by (intro writes_intros writes_list_handoffs; intro writes_keeps keeping)

lemmas record_tool_rules = writes_begin_run[OF refl, THEN on_store_writes] writes_end_run[THEN on_store_writes]
  writes_record_measurement[OF refl, THEN on_store_writes] writes_record_feedback[OF refl, THEN on_store_writes]
  writes_create_workspace[THEN on_store_writes] writes_archive_workspace[THEN on_store_writes]
  writes_export_snapshot[THEN on_store_writes] tool_writes_intros on_store_reads keeping

lemma plain_workspace_named: "plain_workspace arguments \<in> named_workspaces arguments"
  unfolding plain_workspace_def by (rule named_workspace)

lemma record_tools_write:
  "tool_writes d sha (named_workspaces arguments) (exact_run_begin te arguments)"
  "tool_writes d sha (named_workspaces arguments) (exact_run_end te arguments)"
  "tool_writes d sha (named_workspaces arguments) (exact_query_run te arguments)"
  "tool_writes d sha (named_workspaces arguments) (exact_record_measurement te arguments)"
  "tool_writes d sha (named_workspaces arguments) (exact_query_measurement te arguments)"
  "tool_writes d sha (named_workspaces arguments) (exact_record_feedback te arguments)"
  "tool_writes d sha (named_workspaces arguments) (exact_query_feedback te arguments)"
  "tool_writes d sha (named_workspaces arguments) (exact_export_rdf te arguments)"
  "tool_writes d sha (named_workspaces arguments) (exact_create_workspace te arguments)"
  "tool_writes d sha (named_workspaces arguments) (exact_list_workspaces te arguments)"
  "tool_writes d sha (named_workspaces arguments) (exact_archive_workspace te arguments)"
  unfolding exact_run_begin_def exact_run_end_def exact_query_run_def exact_record_measurement_def
    known_run_def exact_query_measurement_def exact_record_feedback_def exact_query_feedback_def
    exact_export_rdf_def exact_create_workspace_def exact_list_workspaces_def workspace_counts_def
    exact_archive_workspace_def Let_def
  by (-, (intro record_tool_rules; simp?; (rule plain_workspace_named | erule named_workspace))+)

lemma reset_tool_writes:
  "tool_writes True sha (named_workspaces arguments) (exact_reset_workspace te arguments)"
  unfolding exact_reset_workspace_def
  by (intro writes_reset_workspace[THEN on_store_writes] tool_writes_intros; erule named_workspace)

text \<open>
  Listing the handoffs for an export marks the expired ones, so an export of everything may
  change rows of every workspace.
\<close>

lemma export_tool_writes:
  assumes "optional_workspace arguments \<noteq> Inr []"
  shows "tool_writes d sha (named_workspaces arguments) (exact_export te arguments)"
proof -
  have "tool_writes d sha (named_workspaces arguments)
      (on_store (if workspace = [] then export_all (te_store te) else export_snapshot (te_store te) workspace))"
    if "optional_workspace arguments = Inr workspace" for workspace
    using that assms writes_export_snapshot[THEN on_store_writes] named_workspace(2)[OF that] by auto
  then show ?thesis unfolding exact_export_def by (intro tool_writes_intros) simp
qed

end
