(* ===== verification/ProtocolGraph.thy ===== *)
theory ProtocolGraph
  imports PipelineHybrid ProtocolRecords
begin

text \<open>
  The tools on the graph in \<open>src/protocol.rs\<close>: the neighbourhood of an entity, decisions with their
  precedents and chains, provenance and evidence, conflicts, entities, relations, and the review
  of relation candidates.
\<close>

section \<open>Policy\<close>

definition compatibility_profile :: "json_map \<Rightarrow> (string \<times> retrieval_profile) call" where
  "compatibility_profile arguments =
     rbind (string_or ''balanced'' arguments ''profile'') (\<lambda>profile.
     let profile = str_trim profile in
     case retrieval_profile_of profile of
       None \<Rightarrow> invalid (''unknown retrieval profile: '' @ profile)
     | Some p \<Rightarrow> Inr (profile, p))"

definition advisory_guard :: "json_map \<Rightarrow> string \<Rightarrow> json option call" where
  "advisory_guard arguments operation =
     rbind (string_or ''advisory'' arguments ''purpose'') (\<lambda>purpose.
     if purpose = ''advisory'' then Inr None
     else if purpose = ''safety_critical'' then Inr (Some (advisory_only operation))
     else invalid ''purpose must be advisory or safety_critical'')"

text \<open>\<open>optional_string(k)?.or(optional_string(l)?)\<close>.\<close>

definition either_string :: "json_map \<Rightarrow> string \<Rightarrow> string \<Rightarrow> string option call" where
  "either_string arguments k l =
     rbind (optional_string arguments k) (\<lambda>a.
     rbind (optional_string arguments l) (\<lambda>b. Inr (or_else a b)))"

definition either_bool :: "json_map \<Rightarrow> string \<Rightarrow> string \<Rightarrow> bool call" where
  "either_bool arguments k l =
     rbind (optional_bool arguments [k] False) (\<lambda>a.
     if a then Inr True else optional_bool arguments [l] False)"

section \<open>Neighbourhoods\<close>

definition name_of :: "entity list \<Rightarrow> int \<Rightarrow> string" where
  "name_of entities i =
     (case find (\<lambda>e. en_id e = i) (rev entities) of None \<Rightarrow> dec_int i | Some e \<Rightarrow> en_name e)"

definition edge_value :: "entity list \<Rightarrow> relation \<Rightarrow> json" where
  "edge_value entities r =
     (let subject = name_of entities (re_subject_id r); object = name_of entities (re_object_id r);
          root_id = (case entities of [] \<Rightarrow> None | e # _ \<Rightarrow> Some (en_id e));
          direction = (if root_id = Some (re_subject_id r) then ''out''
            else if root_id = Some (re_object_id r) then ''in'' else ''through'')
      in jobject
        [(''relation_id'', JInt (re_id r)), (''subject'', JString subject),
         (''predicate'', JString (re_predicate r)), (''object'', JString object),
         (''source_fact_id'', optional_int (re_source_fact_id r)), (''direction'', JString direction),
         (''hops'', JInt (if direction = ''through'' then 2 else 1)),
         (''path'', JArray [JString subject, JString (re_predicate r), JString object])])"

definition graph_value :: "graph_search \<Rightarrow> nat \<Rightarrow> nat \<Rightarrow> bool \<Rightarrow> json" where
  "graph_value g depth limit include_candidates = jobject
     [(''root'', case gs_entities g of [] \<Rightarrow> JNull | e # _ \<Rightarrow> jobject [(''id'', JInt (en_id e)),
          (''name'', JString (en_name e)), (''type'', JString (en_entity_type e))]),
      (''nodes'', JArray (map (\<lambda>e. jobject [(''id'', JInt (en_id e)), (''name'', JString (en_name e))])
          (take limit (gs_entities g)))),
      (''edges'', JArray (map (edge_value (gs_entities g)) (take limit (gs_relations g)))),
      (''depth'', JInt (int depth)), (''candidate_linking'', JBool include_candidates),
      (''retrieval_impact'', JString ''confirmed_relations_only'')]"

definition not_empty_arg :: "json_map \<Rightarrow> string \<Rightarrow> string option call" where
  "not_empty_arg arguments key =
     rbind (optional_string arguments key) (\<lambda>v.
     Inr (option_filter (\<lambda>s. s \<noteq> []) (map_option str_trim v)))"

definition no_graph :: "string \<Rightarrow> json" where
  "no_graph message = jobject [(''error'', JString message), (''nodes'', JArray []), (''edges'', JArray [])]"

definition exact_search_graph :: "tool_env \<Rightarrow> json_map \<Rightarrow> json tool" where
  "exact_search_graph te arguments =
     sbind (slift (optional_workspace arguments)) (\<lambda>workspace.
     sbind (slift (either_bool arguments ''include_candidates'' ''candidate_linking'')) (\<lambda>include_candidates.
     sbind (slift (either_string arguments ''entity'' ''query'')) (\<lambda>entity.
     let entity = str_trim (or_text [] entity) in
     if entity = [] \<and> \<not> include_candidates then sret (no_graph ''entity is required'')
     else
       sbind (slift (optional_usize arguments [''depth''] 1)) (\<lambda>depth.
       sbind (slift (optional_usize arguments [''limit''] 50)) (\<lambda>limit.
       if \<not> (1 \<le> depth \<and> depth \<le> 2) \<or> \<not> (1 \<le> limit \<and> limit \<le> 200)
       then slift (invalid ''depth or limit is outside the supported range'')
       else
         sbind (if entity = [] then sret \<lparr>gs_entities = [], gs_relations = []\<rparr>
                else on_store (graph_neighborhood (te_store te) entity depth limit workspace)) (\<lambda>g.
         if gs_entities g = [] \<and> entity \<noteq> [] \<and> \<not> include_candidates
         then sret (no_graph (''entity '' @ te_debug te entity @ '' not found''))
         else if \<not> include_candidates then sret (graph_value g depth limit include_candidates)
         else
           sbind (slift (not_empty_arg arguments ''candidate_status'')) (\<lambda>status.
           sbind (slift (optional_usize arguments [''candidate_limit''] 50)) (\<lambda>candidate_limit.
           sbind (on_store (list_relation_candidates (te_store te) workspace status
                    (if entity = [] then None else Some entity) candidate_limit)) (\<lambda>candidates.
           sret (put_fields (graph_value g depth limit include_candidates)
             [(''candidates'', JArray (map candidate_json candidates)),
              (''candidate_count'', JInt (int (length candidates))),
              (''measurement'', candidate_measurement_contract)])))))))))) "

section \<open>Decisions\<close>

definition decision_value :: "decision \<Rightarrow> json" where
  "decision_value d = jobject
     [(''id'', JInt (de_id d)), (''category'', JString (de_category d)), (''subject'', JString (de_subject d)),
      (''scenario'', JString (de_scenario d)), (''reasoning'', JString (de_reasoning d)),
      (''outcome'', JString (de_outcome d)), (''confidence'', optional_f64_json (de_confidence d)),
      (''decision_maker'', JString (de_decision_maker d)), (''issue_ref'', JString (de_issue_ref d)),
      (''path'', JString (de_path d)), (''symbol'', JString (de_symbol d)),
      (''parent_decision_id'', optional_int (de_parent_id d)), (''workspace'', JString (de_workspace d))]"

definition decision_request :: "json_map \<Rightarrow> string \<Rightarrow> string \<Rightarrow> decision_spec call" where
  "decision_request arguments scenario workspace =
     rbind (string_or scenario arguments ''subject'') (\<lambda>subject.
     rbind (string_or ''recorded'' arguments ''outcome'') (\<lambda>outcome.
     rbind (string_or [] arguments ''category'') (\<lambda>category.
     rbind (string_or [] arguments ''reasoning'') (\<lambda>reasoning.
     rbind (optional_f64 arguments ''confidence'') (\<lambda>confidence.
     rbind (string_or [] arguments ''decision_maker'') (\<lambda>decision_maker.
     rbind (string_or [] arguments ''issue_ref'') (\<lambda>issue_ref.
     rbind (string_or [] arguments ''path'') (\<lambda>path.
     rbind (string_or [] arguments ''symbol'') (\<lambda>symbol.
     rbind (optional_i64 arguments [''parent_decision_id'']) (\<lambda>parent_id.
     Inr \<lparr>ds_category = category, ds_subject = subject, ds_scenario = scenario, ds_reasoning = reasoning,
       ds_outcome = outcome, ds_confidence = confidence, ds_decision_maker = decision_maker,
       ds_issue_ref = issue_ref, ds_path = path, ds_symbol = symbol, ds_parent_id = parent_id,
       ds_workspace = workspace\<rparr>))))))))))"

definition exact_record_decision :: "tool_env \<Rightarrow> json_map \<Rightarrow> json tool" where
  "exact_record_decision te arguments =
     sbind (slift (required_string arguments ''scenario'')) (\<lambda>scenario.
     let scenario = str_trim scenario in
     if scenario = [] then sret (refused ''scenario is required'')
     else
       sbind (slift (decision_request arguments scenario (plain_workspace arguments))) (\<lambda>spec.
       sbind (on_store (record_decision spec)) (\<lambda>d.
       sret (jobject [(''id'', JInt (de_id d)), (''category'', JString (de_category d)),
         (''scenario'', JString (de_scenario d)), (''created_at'', JNull)]))))"

definition equal_filter :: "(decision \<Rightarrow> string) \<Rightarrow> string option \<Rightarrow> decision \<Rightarrow> bool" where
  "equal_filter get v d \<longleftrightarrow> (case v of None \<Rightarrow> True | Some x \<Rightarrow> get d = x)"

definition contains_filter :: "tool_env \<Rightarrow> (decision \<Rightarrow> string) \<Rightarrow> string option \<Rightarrow> decision \<Rightarrow> bool" where
  "contains_filter te get v d \<longleftrightarrow>
     (case v of
        None \<Rightarrow> True
      | Some x \<Rightarrow> sql_instr (se_lowercase (te_store te) (get d)) (se_lowercase (te_store te) x))"

definition exact_query_decisions :: "tool_env \<Rightarrow> json_map \<Rightarrow> json tool" where
  "exact_query_decisions te arguments =
     sbind (slift (limit_argument arguments 20)) (\<lambda>limit.
     sbind (on_store (list_decisions (plain_workspace arguments))) (\<lambda>decisions.
     sbind (slift (optional_string arguments ''category'')) (\<lambda>category.
     sbind (slift (optional_string arguments ''subject'')) (\<lambda>subject.
     sbind (slift (optional_string arguments ''outcome'')) (\<lambda>outcome.
     sbind (slift (optional_string arguments ''decision_maker'')) (\<lambda>decision_maker.
     sbind (slift (optional_string arguments ''issue_ref'')) (\<lambda>issue_ref.
     sbind (slift (optional_string arguments ''path'')) (\<lambda>path.
     sbind (slift (optional_string arguments ''symbol'')) (\<lambda>symbol.
     let matches = (\<lambda>d. equal_filter de_category category d \<and> equal_filter de_subject subject d
           \<and> equal_filter de_outcome outcome d \<and> equal_filter de_decision_maker decision_maker d
           \<and> equal_filter de_issue_ref issue_ref d \<and> contains_filter te de_path path d
           \<and> contains_filter te de_symbol symbol d)
     in sret (jobject (counted ''decisions''
          (map decision_value (take limit (rev (filter matches decisions)))))))))))))))"

definition decision_score :: "tool_env \<Rightarrow> string list \<Rightarrow> decision \<Rightarrow> nat" where
  "decision_score te terms d =
     (let haystack = se_lowercase (te_store te)
            (join '' '' [de_category d, de_scenario d, de_reasoning d, de_outcome d])
      in length (filter (sql_instr haystack) terms))"

definition lower_words :: "tool_env \<Rightarrow> string \<Rightarrow> string list" where
  "lower_words te text = map (se_lowercase (te_store te)) (split_whitespace text)"

definition exact_find_precedents :: "tool_env \<Rightarrow> json_map \<Rightarrow> json tool" where
  "exact_find_precedents te arguments =
     sbind (slift (advisory_guard arguments ''find_precedents'')) (\<lambda>refusal.
     case refusal of
       Some v \<Rightarrow> sret v
     | None \<Rightarrow>
     sbind (slift (required_string arguments ''scenario'')) (\<lambda>scenario.
     let scenario = str_trim scenario in
     sbind (slift (compatibility_profile arguments)) (\<lambda>(name, profile).
     sbind (slift (optional_usize arguments [''limit''] 10)) (\<lambda>limit.
     let limit = min limit (rp_max_hits profile) in
     if scenario = []
     then sret (jobject [(''error'', JString ''scenario has no searchable terms''), (''count'', JInt 0),
            (''precedents'', JArray []), (''profile'', JString name), (''result_status'', JString ''empty'')])
     else if \<not> (1 \<le> limit \<and> limit \<le> 50) then slift (invalid ''limit must be between 1 and 50'')
     else
       sbind (slift (string_or [] arguments ''category'')) (\<lambda>category.
       sbind (on_store (list_decisions (plain_workspace arguments))) (\<lambda>decisions.
       let score = decision_score te (lower_words te scenario);
           ranked = sort_key (\<lambda>d. (- int (score d), - de_id d))
             (filter (\<lambda>d. (category = [] \<or> de_category d = category) \<and> 0 < score d) decisions);
           precedents = map decision_value (take limit ranked)
       in sret (jobject (counted ''precedents'' precedents @
         [(''semantic'', JBool (bool_arg arguments ''semantic'')), (''memory_policy'', JString ''advisory_only''),
          (''safety_critical_allowed'', JBool False), (''profile'', JString name),
          (''result_status'', ok_or_empty precedents),
          (''retrieval'', jobject [(''matched'', JInt (int (length precedents))),
             (''reason'', JString (if precedents = [] then ''no_matching_decisions'' else ''match''))])])))))))) "

definition chain_value :: "decision \<Rightarrow> json" where
  "chain_value d = jobject
     [(''id'', JInt (de_id d)), (''category'', JString (de_category d)), (''subject'', JString (de_subject d)),
      (''scenario'', JString (de_scenario d)), (''outcome'', JString (de_outcome d)),
      (''decision_maker'', JString (de_decision_maker d)), (''issue_ref'', JString (de_issue_ref d)),
      (''parent_decision_id'', optional_int (de_parent_id d))]"

definition exact_causal_chain :: "tool_env \<Rightarrow> json_map \<Rightarrow> json tool" where
  "exact_causal_chain te arguments =
     sbind (slift (required_i64 arguments ''decision_id'')) (\<lambda>ident.
     sbind (on_store (causal_chain ident (plain_workspace arguments))) (\<lambda>chain.
     sret (jobject (counted ''chain'' (map chain_value chain)))))"

section \<open>Provenance and evidence\<close>

text \<open>The fact that the arguments name by id or by hash.\<close>

definition named_fact :: "json_map \<Rightarrow> string list \<Rightarrow> string \<Rightarrow> fact option tool" where
  "named_fact arguments keys workspace =
     sbind (slift (optional_i64 arguments keys)) (\<lambda>ident.
     case ident of
       Some i \<Rightarrow> on_store (fact_by_id i workspace)
     | None \<Rightarrow>
         sbind (slift (optional_string arguments ''sha256'')) (\<lambda>hash.
         case hash of
           Some h \<Rightarrow> on_store (fact_by_hash h workspace)
         | None \<Rightarrow> sret None))"

definition repo_and_ref :: "string \<Rightarrow> string \<times> string" where
  "repo_and_ref s = (takeWhile (\<lambda>c. c \<noteq> CHR ''@'') s, drop 1 (dropWhile (\<lambda>c. c \<noteq> CHR ''@'') s))"

definition evidence_value :: "evidence \<Rightarrow> json" where
  "evidence_value e =
     (let (repo, reference) = repo_and_ref (ee_repository_ref e) in jobject
       [(''id'', JInt (ee_id e)), (''fact_id'', JInt (ee_fact_id e)), (''source_ref'', JString (ee_source_ref e)),
        (''source_checksum'', JString (ee_checksum e)), (''fetched_at'', optional_json (ee_fetched_at e)),
        (''repo'', JString repo), (''ref'', JString reference), (''path'', JString (ee_path e)),
        (''symbol'', JString (ee_symbol e)), (''start_line'', optional_int (ee_line_start e)),
        (''end_line'', optional_int (ee_line_end e)), (''start_col'', optional_int (ee_column_start e)),
        (''end_col'', optional_int (ee_column_end e)),
        (''selected_text_hash'', JString (ee_selected_text_sha256 e)),
        (''resolution_status'', JString (ee_resolution_status e)), (''workspace'', JString (ee_workspace e)),
        (''created_at'', JString (ee_created_at e))])"

definition exact_provenance :: "tool_env \<Rightarrow> json_map \<Rightarrow> json tool" where
  "exact_provenance te arguments =
     sbind (named_fact arguments [''fact_id''] (plain_workspace arguments)) (\<lambda>found.
     case found of
       None \<Rightarrow>
         sret (jobject [(''error'', JString ''fact not found (use fact_id or sha256)''), (''fact'', JNull),
           (''evidence'', JArray [])])
     | Some f \<Rightarrow>
         sbind (on_store (get_provenance (fa_id f) (plain_workspace arguments))) (\<lambda>evidence.
         sret (jobject [(''fact'', fact_json f), (''evidence'', JArray (map evidence_value evidence))])))"

definition repository_ref :: "string \<Rightarrow> string \<Rightarrow> string" where
  "repository_ref repo reference =
     (if repo \<noteq> [] \<and> reference \<noteq> [] then repo @ ''@'' @ reference else if repo \<noteq> [] then repo else reference)"

definition evidence_request :: "json_map \<Rightarrow> int \<Rightarrow> string \<Rightarrow> string \<Rightarrow> evidence_spec call" where
  "evidence_request arguments fact_id source_ref workspace =
     rbind (string_or [] arguments ''selected_text'') (\<lambda>selected_text.
     rbind (string_or [] arguments ''repo'') (\<lambda>repo.
     rbind (string_or [] arguments ''ref'') (\<lambda>reference.
     rbind (string_or ''unresolved'' arguments ''resolution_status'') (\<lambda>status.
     rbind (string_or [] arguments ''source_checksum'') (\<lambda>checksum.
     rbind (optional_string arguments ''fetched_at'') (\<lambda>fetched_at.
     rbind (string_or [] arguments ''path'') (\<lambda>path.
     rbind (string_or [] arguments ''symbol'') (\<lambda>symbol.
     rbind (optional_i64 arguments [''start_line'']) (\<lambda>line_start.
     rbind (optional_i64 arguments [''end_line'']) (\<lambda>line_end.
     rbind (optional_i64 arguments [''start_col'']) (\<lambda>column_start.
     rbind (optional_i64 arguments [''end_col'']) (\<lambda>column_end.
     Inr \<lparr>vs_fact_id = fact_id, vs_source_ref = source_ref, vs_source = repo, vs_checksum = checksum,
       vs_fetched_at = fetched_at, vs_repository_ref = repository_ref repo reference, vs_path = path,
       vs_symbol = symbol, vs_line_start = line_start, vs_line_end = line_end,
       vs_column_start = column_start, vs_column_end = column_end, vs_selected_text = selected_text,
       vs_resolution_status = status, vs_workspace = workspace\<rparr>))))))))))))"

definition exact_attach_evidence :: "tool_env \<Rightarrow> json_map \<Rightarrow> json tool" where
  "exact_attach_evidence te arguments =
     sbind (slift (required_context_workspace arguments)) (\<lambda>workspace.
     sbind (slift (required_i64 arguments ''fact_id'')) (\<lambda>fact_id.
     sbind (slift (required_string arguments ''source_ref'')) (\<lambda>source_ref.
     let source_ref = str_trim source_ref in
     if source_ref = [] then slift (invalid ''source_ref is required'')
     else
       sbind (slift (evidence_request arguments fact_id source_ref workspace)) (\<lambda>spec.
       sbind (on_store (attach_evidence (te_store te) spec)) (\<lambda>e.
       sret (jobject [(''fact_id'', JInt fact_id), (''source_ref'', JString source_ref),
         (''dedup'', JBool False), (''duplicate'', JBool False), (''evidence'', evidence_value e)]))))))"

section \<open>Conflicts\<close>

definition coverage :: "tool_env \<Rightarrow> string list \<Rightarrow> fact \<Rightarrow> rat" where
  "coverage te terms f =
     (let lower = se_lowercase (te_store te) (fa_text f) in
      round_f64 (of_nat (length (filter (sql_instr lower) terms)) / of_nat (max 1 (length terms))))"

definition near_duplicate :: "tool_env \<Rightarrow> string list \<Rightarrow> fact \<Rightarrow> json option" where
  "near_duplicate te terms f =
     (let c = coverage te terms f in
      if round_f64 (3 / 5) \<le> c
      then Some (jobject
        [(''id'', JInt (fa_id f)), (''text'', JString (fa_text f)), (''source'', JString (fa_source f)),
         (''project'', JString (fa_project f)), (''trust'', JString (fa_trust f)),
         (''strong'', JBool (fa_strong f)),
         (''coverage'', JFloat (round_f64 (of_int (floor (round_f64 (c * 100) + 1 / 2)) / 100)))])
      else None)"

definition conflict_json :: "decision_conflict \<Rightarrow> json" where
  "conflict_json c = jobject [(''subject'', JString (dc_subject c)), (''scenario'', JString (dc_scenario c)),
     (''outcomes'', JArray (map JString (dc_outcomes c)))]"

definition exact_detect_conflicts :: "tool_env \<Rightarrow> json_map \<Rightarrow> json tool" where
  "exact_detect_conflicts te arguments =
     (let workspace = plain_workspace arguments in
     sbind (slift (required_string arguments ''text'')) (\<lambda>text.
     let text = str_trim text in
     if text = [] then sret (refused ''text is required'')
     else
       sbind (on_store (search_facts (te_store te) text workspace)) (\<lambda>facts.
       sbind (on_store (detect_conflicts (te_fts te) text workspace)) (\<lambda>conflicts.
       sret (jobject [(''text'', JString text),
         (''near_duplicates'', JArray (take 5 (List.map_filter (near_duplicate te (lower_words te text)) facts))),
         (''decision_conflicts'', JArray (map conflict_json conflicts))])))))"

section \<open>Entities and relations\<close>

definition aliases_argument :: "json_map \<Rightarrow> string list call" where
  "aliases_argument arguments =
     (case jget arguments ''aliases'' of
        None \<Rightarrow> Inr []
      | Some (JArray _) \<Rightarrow>
          rbind (optional_string_array arguments ''aliases'') (\<lambda>v.
          Inr (case v of None \<Rightarrow> [] | Some xs \<Rightarrow> xs))
      | Some (JString x) \<Rightarrow> Inr [x]
      | Some _ \<Rightarrow> invalid ''tool argument aliases must be a string or an array'')"

definition exact_remember_entity :: "tool_env \<Rightarrow> json_map \<Rightarrow> json tool" where
  "exact_remember_entity te arguments =
     sbind (slift (optional_workspace arguments)) (\<lambda>workspace.
     sbind (slift (required_string arguments ''name'')) (\<lambda>name.
     let name = str_trim name in
     if name = [] then slift (invalid ''entity name must not be empty'')
     else
       sbind (on_store (list_entities (te_store te) workspace)) (\<lambda>known.
       let existed = list_ex (\<lambda>e. en_canonical_name e = se_lowercase (te_store te) name) known in
       sbind (slift (aliases_argument arguments)) (\<lambda>aliases.
       sbind (slift (either_string arguments ''entity_type'' ''type'')) (\<lambda>entity_type.
       sbind (on_store (remember_entity (te_store te)
                \<lparr>ns_name = name, ns_entity_type = or_text ''concept'' entity_type, ns_aliases = aliases,
                 ns_workspace = workspace\<rparr>)) (\<lambda>e.
       sret (jobject [(''id'', JInt (en_id e)), (''name'', JString (en_name e)),
         (''created'', JBool (\<not> existed)), (''entity'', entity_json e)])))))))"

definition concept_of :: "string \<Rightarrow> string \<Rightarrow> entity_spec" where
  "concept_of name workspace =
     \<lparr>ns_name = name, ns_entity_type = ''concept'', ns_aliases = [], ns_workspace = workspace\<rparr>"

definition optional_candidate :: "relation_candidate option \<Rightarrow> json" where
  "optional_candidate v = (case v of None \<Rightarrow> JNull | Some c \<Rightarrow> candidate_json c)"

definition review_candidate :: "tool_env \<Rightarrow> json_map \<Rightarrow> string \<Rightarrow> int \<Rightarrow> json tool" where
  "review_candidate te arguments workspace candidate_id =
     sbind (slift (string_or ''confirm'' arguments ''action'')) (\<lambda>action.
     sbind (slift (either_string arguments ''reviewer'' ''actor'')) (\<lambda>reviewer.
     sbind (slift (string_or ''confirmed'' arguments ''note'')) (\<lambda>review_note.
     sbind (if action = ''confirm''
            then on_store (confirm_relation_candidate (te_store te) candidate_id (or_text [] reviewer)
                   review_note workspace)
            else if action = ''reject''
            then on_store (reject_relation_candidate (te_store te) candidate_id (or_text [] reviewer)
                   review_note workspace)
            else slift (invalid ''action must be confirm or reject'')) (\<lambda>candidate.
     sret (jobject
       [(''candidate_id'', JInt candidate_id), (''action'', JString action),
        (''candidate'', optional_candidate candidate), (''confirmed'', JBool (action = ''confirm'')),
        (''retrieval_impact'', JString (if action = ''confirm''
           then ''confirmed_relation_available_to_graph_retrieval'' else ''none''))])))))"

definition exact_remember_relation :: "tool_env \<Rightarrow> json_map \<Rightarrow> json tool" where
  "exact_remember_relation te arguments =
     sbind (slift (optional_workspace arguments)) (\<lambda>workspace.
     sbind (slift (optional_i64 arguments [''candidate_id'', ''candidate''])) (\<lambda>candidate_id.
     case candidate_id of
       Some i \<Rightarrow> review_candidate te arguments workspace i
     | None \<Rightarrow>
     sbind (slift (required_string arguments ''subject'')) (\<lambda>subject.
     sbind (slift (required_string arguments ''predicate'')) (\<lambda>predicate.
     sbind (slift (required_string arguments ''object'')) (\<lambda>object.
     let subject = str_trim subject; predicate = str_trim predicate; object = str_trim object in
     if subject = [] \<or> predicate = [] \<or> object = []
     then slift (invalid ''subject, predicate, and object are required'')
     else
       sbind (on_store (remember_entity (te_store te) (concept_of subject workspace))) (\<lambda>s.
       sbind (on_store (remember_entity (te_store te) (concept_of object workspace))) (\<lambda>t.
       sbind (slift (optional_i64 arguments [''source_fact_id'', ''fact_id''])) (\<lambda>source_fact_id.
       sbind (on_store (remember_relation (te_store te)
                \<lparr>ls_subject = en_name s, ls_predicate = predicate, ls_object = en_name t,
                 ls_source_fact_id = source_fact_id, ls_workspace = workspace\<rparr>)) (\<lambda>r.
       sret (jobject [(''id'', JInt (re_id r)), (''subject'', JString (en_name s)),
         (''predicate'', JString (re_predicate r)), (''object'', JString (en_name t)),
         (''dedup'', JBool False), (''relation'', relation_json r)]))))))))))"

section \<open>Candidates\<close>

definition candidate_source :: "tool_env \<Rightarrow> json_map \<Rightarrow> string \<Rightarrow> int option tool" where
  "candidate_source te arguments workspace =
     sbind (slift (optional_i64 arguments [''fact_id'', ''id''])) (\<lambda>ident.
     case ident of
       Some i \<Rightarrow> sret (Some i)
     | None \<Rightarrow>
         if \<not> has_arg arguments ''text'' then sret None
         else
           sbind (slift (string_or [] arguments ''text'')) (\<lambda>text.
           if str_trim text = [] then sret None
           else on_store (fact_id_for_text (te_store te) (str_trim text) workspace)))"

definition exact_suggest_relation_candidates :: "tool_env \<Rightarrow> json_map \<Rightarrow> json tool" where
  "exact_suggest_relation_candidates te arguments =
     sbind (slift (optional_workspace arguments)) (\<lambda>workspace.
     sbind (candidate_source te arguments workspace) (\<lambda>found.
     sbind (slift (some_or ''fact_id or text identifying an existing fact is required'' found)) (\<lambda>fact_id.
     sbind (slift (optional_bool arguments [''candidate_linking''] True)) (\<lambda>linking.
     if \<not> linking then sret linking_disabled
     else
       sbind (slift (optional_usize arguments [''limit'', ''candidate_limit''] 8)) (\<lambda>limit.
       if \<not> (1 \<le> limit \<and> limit \<le> 50) then slift (invalid ''candidate limit must be between 1 and 50'')
       else
         sbind (slift (optional_usize arguments [''candidate_scan_limit''] 200)) (\<lambda>scan_limit.
         if \<not> (1 \<le> scan_limit \<and> scan_limit \<le> 1000)
         then slift (invalid ''candidate scan limit must be between 1 and 1000'')
         else
           sbind (slift (optional_f64 arguments ''candidate_min_score'')) (\<lambda>minimum_score.
           sbind (on_store (generate_relation_candidates_with_limits (te_store te) fact_id workspace limit
                    scan_limit (case minimum_score of None \<Rightarrow> DEFAULT_CANDIDATE_MIN_SCORE | Some v \<Rightarrow> v))) (\<lambda>candidates.
           sret (jobject (counted ''candidates'' (map candidate_json candidates) @
             [(''enabled'', JBool True), (''fact_id'', JInt fact_id),
              (''result_status'', ok_or_empty candidates),
              (''retrieval_impact'', JString ''candidates_are_review_only''),
              (''measurement'', candidate_measurement_contract)]))))))))))"

definition exact_list_relation_candidates :: "tool_env \<Rightarrow> json_map \<Rightarrow> json tool" where
  "exact_list_relation_candidates te arguments =
     sbind (slift (optional_workspace arguments)) (\<lambda>workspace.
     sbind (slift (not_empty_arg arguments ''status'')) (\<lambda>status.
     sbind (slift (not_empty_arg arguments ''query'')) (\<lambda>query.
     sbind (slift (optional_usize arguments [''limit'', ''candidate_limit''] 50)) (\<lambda>limit.
     sbind (on_store (list_relation_candidates (te_store te) workspace status query limit)) (\<lambda>candidates.
     sret (jobject (counted ''candidates'' (map candidate_json candidates) @
       [(''status'', JString (or_text ''all'' status)),
        (''retrieval_impact'', JString ''candidates_are_review_only''),
        (''measurement'', candidate_measurement_contract)])))))))"

definition reviewed_candidate ::
    "(int \<Rightarrow> string \<Rightarrow> string \<Rightarrow> string \<Rightarrow> relation_candidate option query) \<Rightarrow> string \<Rightarrow> string \<Rightarrow>
     json_map \<Rightarrow> json tool" where
  "reviewed_candidate act verb impact arguments =
     sbind (slift (optional_workspace arguments)) (\<lambda>workspace.
     sbind (slift (required_i64 arguments ''candidate_id'')) (\<lambda>i.
     sbind (slift (either_string arguments ''reviewer'' ''actor'')) (\<lambda>reviewer.
     sbind (slift (string_or verb arguments ''note'')) (\<lambda>review_note.
     sbind (on_store (act i (or_text [] reviewer) review_note workspace)) (\<lambda>found.
     case found of
       None \<Rightarrow> sret (jobject [(''error'', JString ''relation candidate not found''), (''candidate_id'', JInt i)])
     | Some c \<Rightarrow>
         sret (jobject [(''candidate_id'', JInt i), (verb, JBool True), (''candidate'', candidate_json c),
           (''retrieval_impact'', JString impact)]))))))"

definition exact_confirm_relation_candidate :: "tool_env \<Rightarrow> json_map \<Rightarrow> json tool" where
  "exact_confirm_relation_candidate te =
     reviewed_candidate (confirm_relation_candidate (te_store te)) ''confirmed''
       ''confirmed_relation_available_to_graph_retrieval''"

definition exact_reject_relation_candidate :: "tool_env \<Rightarrow> json_map \<Rightarrow> json tool" where
  "exact_reject_relation_candidate te =
     reviewed_candidate (reject_relation_candidate (te_store te)) ''rejected'' ''none''"

end
