(* ===== verification/ProtocolFacts.thy ===== *)
theory ProtocolFacts
  imports ProtocolGraph
begin

text \<open>
  The tools on facts in \<open>src/protocol.rs\<close>: remembering a fact with its evidence, searching and
  listing facts, the index of a workspace, categories, chunks, sessions, and forgetting.
\<close>

section \<open>Values and arguments\<close>

definition canonical_fact_value :: "fact \<Rightarrow> string \<Rightarrow> json tool" where
  "canonical_fact_value f workspace =
     sbind (on_store (fact_evidence_summary (fa_id f) workspace)) (\<lambda>e.
     sbind (on_store (fact_search_metadata_of (fa_id f) workspace)) (\<lambda>m.
     sret (put_fields (fact_json f)
       (evidence_fields e @ (case m of None \<Rightarrow> [] | Some m \<Rightarrow> metadata_fields m)))))"

definition fact_values :: "fact list \<Rightarrow> string \<Rightarrow> json list tool" where
  "fact_values facts workspace = smapM (\<lambda>f. canonical_fact_value f workspace) facts"

definition trust_rank :: "string \<Rightarrow> nat" where
  "trust_rank v = (if v = ''low'' then 1 else if v = ''medium'' then 2 else if v = ''high'' then 3 else 0)"

definition trust_at_least :: "string \<Rightarrow> string option \<Rightarrow> bool" where
  "trust_at_least v minimum \<longleftrightarrow> (case minimum of None \<Rightarrow> True | Some m \<Rightarrow> trust_rank m \<le> trust_rank v)"

definition fact_id_argument :: "json_map \<Rightarrow> int call" where
  "fact_id_argument arguments = on_error (required_i64 arguments ''id'') (required_i64 arguments ''fact_id'')"

definition strong_enough :: "json_map \<Rightarrow> fact \<Rightarrow> bool" where
  "strong_enough arguments f \<longleftrightarrow> \<not> bool_arg arguments ''strong_only'' \<or> fa_strong f"

text \<open>A category that cannot be read counts as none.\<close>

definition in_category :: "string option \<Rightarrow> string \<Rightarrow> fact \<Rightarrow> bool query" where
  "in_category wanted workspace f =
     (case wanted of
        None \<Rightarrow> sret True
      | Some c \<Rightarrow>
          sbind (recover (category_name_for_fact (fa_id f) workspace)) (\<lambda>r.
          sret (r = Inr (Some c))))"

section \<open>Remembering\<close>

definition fact_metadata_argument :: "json_map \<Rightarrow> fact_metadata call" where
  "fact_metadata_argument arguments =
     rbind (string_or [] arguments ''source'') (\<lambda>source.
     rbind (string_or [] arguments ''project'') (\<lambda>project.
     rbind (string_or [] arguments ''domain'') (\<lambda>domain.
     rbind (string_or ''medium'' arguments ''trust'') (\<lambda>trust.
     rbind (optional_bool arguments [''strong''] False) (\<lambda>strong.
     rbind (optional_f64 arguments ''importance'') (\<lambda>importance.
     Inr \<lparr>fm_source = source, fm_project = project, fm_domain = domain, fm_trust = trust,
       fm_strong = strong,
       fm_importance = (case importance of None \<Rightarrow> Finite (1 / 2) | Some v \<Rightarrow> v)\<rparr>))))))"

definition strict_admission :: "json_map \<Rightarrow> bool call" where
  "strict_admission arguments =
     rbind (optional_bool arguments [''strict''] False) (\<lambda>strict.
     if strict then Inr True
     else rbind (optional_string arguments ''admission'') (\<lambda>v. Inr (v = Some ''strict'')))"

definition evidence_argument_maps :: "json_map \<Rightarrow> json_map list" where
  "evidence_argument_maps arguments =
     (case jget arguments ''evidence'' of
        Some (JArray vs) \<Rightarrow> List.map_filter as_object vs
      | Some (JObject m) \<Rightarrow> [m]
      | _ \<Rightarrow> if has_arg arguments ''source_ref'' then [arguments] else [])"

definition either_value :: "json_map \<Rightarrow> string \<Rightarrow> string \<Rightarrow> json option" where
  "either_value m k l = or_else (jget m k) (jget m l)"

definition remembered_evidence :: "json_map \<Rightarrow> int \<Rightarrow> string \<Rightarrow> evidence_spec call" where
  "remembered_evidence m fact_id workspace =
     (let text = (\<lambda>d v. or_text d (Option.bind v as_str)); number = (\<lambda>v. Option.bind v as_i64);
          source_ref = str_trim (text [] (either_value m ''source_ref'' ''ref''));
          repo = text [] (either_value m ''repo'' ''repository'');
          reference = text [] (jget m ''ref'')
      in if source_ref = [] then invalid ''evidence source_ref must not be empty''
         else Inr
           \<lparr>vs_fact_id = fact_id, vs_source_ref = source_ref, vs_source = text repo (jget m ''source''),
            vs_checksum = text [] (either_value m ''source_checksum'' ''checksum''),
            vs_fetched_at = Option.bind (jget m ''fetched_at'') as_str,
            vs_repository_ref = repository_ref repo reference, vs_path = text [] (jget m ''path''),
            vs_symbol = text [] (jget m ''symbol''),
            vs_line_start = number (either_value m ''start_line'' ''line_start''),
            vs_line_end = number (either_value m ''end_line'' ''line_end''),
            vs_column_start = number (either_value m ''start_col'' ''column_start''),
            vs_column_end = number (either_value m ''end_col'' ''column_end''),
            vs_selected_text = text [] (jget m ''selected_text''),
            vs_resolution_status = text ''unresolved'' (jget m ''resolution_status''),
            vs_workspace = workspace\<rparr>)"

definition attach_remembered_evidence :: "tool_env \<Rightarrow> json_map \<Rightarrow> int \<Rightarrow> string \<Rightarrow> json list tool" where
  "attach_remembered_evidence te arguments fact_id workspace =
     smapM (\<lambda>m.
       sbind (slift (remembered_evidence m fact_id workspace)) (\<lambda>spec.
       sbind (on_store (attach_evidence (te_store te) spec)) (\<lambda>e. sret (evidence_value e))))
       (evidence_argument_maps arguments)"

definition with_validity :: "tool_env \<Rightarrow> json_map \<Rightarrow> string \<Rightarrow> fact \<Rightarrow> fact tool" where
  "with_validity te arguments workspace f =
     sbind (slift (optional_string arguments ''validity'')) (\<lambda>validity.
     case validity of
       None \<Rightarrow> sret f
     | Some v \<Rightarrow>
         sbind (on_store (set_fact_validity (te_store te) (fa_id f) v workspace)) (\<lambda>found.
         found_or ''fact disappeared while setting validity'' found))"

definition with_session :: "json_map \<Rightarrow> string \<Rightarrow> fact \<Rightarrow> fact tool" where
  "with_session arguments workspace f =
     sbind (slift (either_string arguments ''session_id'' ''session'')) (\<lambda>session.
     case session of
       None \<Rightarrow> sret f
     | Some v \<Rightarrow>
         sbind (on_store (set_fact_session (fa_id f) v workspace)) (\<lambda>found.
         found_or ''fact disappeared while setting session'' found))"

definition remembered_value ::
    "tool_env \<Rightarrow> json_map \<Rightarrow> string \<Rightarrow> bool \<Rightarrow> bool \<Rightarrow> fact \<Rightarrow> json tool" where
  "remembered_value te arguments workspace strict created f =
     sbind (attach_remembered_evidence te arguments (fa_id f) workspace) (\<lambda>evidence.
     sbind (canonical_fact_value f workspace) (\<lambda>value.
     sbind (if created
            then sbind (on_store (auto_link_new_fact te (fa_id f) arguments workspace)) (\<lambda>r. sret [(''candidate_linking'', r)])
            else sret []) (\<lambda>linking.
     sret (jobject
       ([(''id'', JInt (fa_id f)), (''sha256'', JString (fa_sha256 f)), (''dedup'', JBool (\<not> created)),
         (''created'', JBool created), (''created_at'', or_null (field value ''created_at'')),
         (''updated_at'', or_null (field value ''updated_at'')), (''fact'', value),
         (''result_status'', JString (if created then ''created'' else ''duplicate''))]
        @ (if evidence = [] then [] else [(''evidence'', JArray evidence)])
        @ (if strict then [(''admission'', JString ''accepted'')] else []) @ linking)))))"

definition exact_remember_fact :: "tool_env \<Rightarrow> json_map \<Rightarrow> json tool" where
  "exact_remember_fact te arguments =
     sbind (slift (optional_workspace arguments)) (\<lambda>workspace.
     sbind (slift (executed (validate_candidate_linking_arguments te arguments))) (\<lambda>_.
     sbind (slift (required_string arguments ''text'')) (\<lambda>text.
     let text = str_trim text in
     if text = [] then slift (invalid ''fact text must not be empty'')
     else if MAX_FACT_TEXT_CHARS < char_count text
     then slift (invalid (''fact text exceeds the configured limit ('' @ dec_nat MAX_FACT_TEXT_CHARS @ '' characters)''))
     else
       sbind (slift (strict_admission arguments)) (\<lambda>strict.
       if strict \<and> \<not> has_arg arguments ''evidence'' \<and> \<not> has_arg arguments ''source_ref''
       then sret (jobject [(''error'', JString ''strict admission requires evidence''),
              (''admission'', JString ''rejected''), (''result_status'', JString ''rejected'')])
       else
         sbind (slift (fact_metadata_argument arguments)) (\<lambda>metadata.
         sbind (on_store (fact_id_for_text (te_store te) text workspace)) (\<lambda>existing_id.
         sbind (on_store (remember_fact_with_metadata (te_store te) text workspace metadata)) (\<lambda>f.
         sbind (with_validity te arguments workspace f) (\<lambda>f.
         sbind (with_session arguments workspace f) (\<lambda>f.
         sbind (on_store (maybe_enrich_fact te f arguments)) (\<lambda>f.
         remembered_value te arguments workspace strict (existing_id = None) f))))))))))"

section \<open>One fact\<close>

definition exact_fact_history :: "json_map \<Rightarrow> json tool" where
  "exact_fact_history arguments =
     sbind (slift (optional_workspace arguments)) (\<lambda>workspace.
     sbind (slift (fact_id_argument arguments)) (\<lambda>i.
     sbind (on_store (fact_by_id i workspace)) (\<lambda>found.
     case found of
       None \<Rightarrow>
         sret (jobject [(''count'', JInt 0), (''root_id'', JInt i), (''chain'', JArray []), (''history'', JArray [])])
     | Some f \<Rightarrow>
         sbind (on_store (fact_history_of i workspace)) (\<lambda>history.
         sbind (canonical_fact_value f workspace) (\<lambda>value.
         sret (jobject (counted ''history'' (map history_json history) @
           [(''root_id'', JInt i), (''chain'', JArray [value])])))))))"

definition exact_confirm_fact :: "tool_env \<Rightarrow> json_map \<Rightarrow> json tool" where
  "exact_confirm_fact te arguments =
     sbind (slift (optional_workspace arguments)) (\<lambda>workspace.
     sbind (slift (fact_id_argument arguments)) (\<lambda>i.
     sbind (slift (string_or ''confirmed'' arguments ''note'')) (\<lambda>remark.
     sbind (on_store (confirm_fact (te_store te) i remark workspace)) (\<lambda>found.
     case found of
       None \<Rightarrow> sret (jobject [(''error'', JString ''fact not found or not in your workspace''), (''id'', JInt i)])
     | Some f \<Rightarrow>
         sbind (canonical_fact_value f workspace) (\<lambda>value.
         sret (jobject [(''id'', JInt (fa_id f)), (''confirmed'', JBool True), (''trust'', JString ''high''),
           (''updated_at'', or_null (field value ''updated_at'')), (''fact'', value)]))))))"

definition exact_fact_references :: "json_map \<Rightarrow> json tool" where
  "exact_fact_references arguments =
     sbind (slift (optional_workspace arguments)) (\<lambda>workspace.
     sbind (slift (fact_id_argument arguments)) (\<lambda>i.
     sbind (on_store (fact_by_id i workspace)) (\<lambda>found.
     case found of
       None \<Rightarrow> sret (jobject [(''error'', JString ''fact not found''), (''fact_id'', JInt i)])
     | Some f \<Rightarrow>
         sbind (on_store (get_provenance i workspace)) (\<lambda>evidence.
         sret (jobject [(''fact_id'', JInt i), (''text'', JString (fa_text f)),
           (''incoming'', jobject (map (\<lambda>k. (k, JArray [])) [''superseded_by_me'', ''supersedes_me'',
              ''consolidated_into'', ''referenced_via_supersedes''])),
           (''outgoing'', jobject (map (\<lambda>k. (k, JArray [])) [''supersedes'', ''consolidated_from''])),
           (''evidence'', JArray (map evidence_value evidence))])))))"

end
