(* ===== verification/ProtocolSearch.thy ===== *)
theory ProtocolSearch
  imports ProtocolFacts PipelineReview
begin

text \<open>
  The tools of \<open>src/protocol.rs\<close> that search and list facts: lexical and semantic search, the
  index of a workspace, categories, statistics, the chunks of a fact, sessions, forgetting and
  restoring.
\<close>

section \<open>Chunks of a text\<close>

text \<open>
  The ranges of characters that the chunks take. Both callers check that the overlap is smaller
  than the chunk, as the subtraction needs.
\<close>

function chunk_spans :: "nat \<Rightarrow> nat \<Rightarrow> nat \<Rightarrow> nat \<Rightarrow> (nat \<times> nat) list" where
  "chunk_spans count width overlap start =
     (if count \<le> start \<or> width \<le> overlap then []
      else
        let stop = min (start + width) count in
        (start, stop) #
          (if stop = count then [] else chunk_spans count width overlap (start + (width - overlap))))"
  by pat_completeness auto

termination chunk_spans by (relation "measure (\<lambda>(count, width, overlap, start). count - start)") auto

declare chunk_spans.simps [simp del]

definition span_value :: "string \<Rightarrow> nat \<times> (nat \<times> nat) \<Rightarrow> json" where
  "span_value text x = jobject
     [(''index'', JInt (int (fst x))), (''start'', JInt (int (fst (snd x)))),
      (''end'', JInt (int (snd (snd x)))),
      (''content'', JString (char_slice text (fst (snd x)) (snd (snd x))))]"

definition text_chunks :: "string \<Rightarrow> nat \<Rightarrow> nat \<Rightarrow> json list" where
  "text_chunks text width overlap =
     map (span_value text) (enumerate 0 (chunk_spans (char_count text) width overlap 0))"

definition fact_chunk_values :: "fact \<Rightarrow> nat \<Rightarrow> nat \<Rightarrow> json" where
  "fact_chunk_values f width overlap = JArray (text_chunks (fa_text f) width overlap)"

definition fact_bounds :: "json_map \<Rightarrow> (nat \<times> nat \<times> nat \<times> nat) call" where
  "fact_bounds arguments =
     rbind (optional_usize arguments [''chunk_chars''] 4000) (\<lambda>chunk_chars.
     rbind (optional_usize arguments [''chunk_overlap''] 0) (\<lambda>overlap.
     rbind (optional_usize arguments [''start_chunk''] 0) (\<lambda>start_chunk.
     rbind (optional_usize arguments [''max_chunks''] 8) (\<lambda>max_chunks.
     if chunk_chars = 0 \<or> 16000 < chunk_chars \<or> chunk_chars \<le> overlap \<or> max_chunks = 0 \<or> 32 < max_chunks
     then invalid ''invalid fact chunk bounds''
     else Inr (chunk_chars, overlap, start_chunk, max_chunks)))))"

definition without_text :: "fact \<Rightarrow> json" where
  "without_text f =
     (case fact_json f of
        JObject m \<Rightarrow> JObject (jinsert ''text_length'' (JInt (int (char_count (fa_text f))))
          (filter (\<lambda>kv. fst kv \<noteq> ''text'') m))
      | v \<Rightarrow> v)"

definition exact_chunk_fact :: "json_map \<Rightarrow> json tool" where
  "exact_chunk_fact arguments =
     sbind (slift (fact_bounds arguments)) (\<lambda>(chunk_chars, overlap, start_chunk, max_chunks).
     sbind (named_fact arguments [''id'', ''fact_id''] (plain_workspace arguments)) (\<lambda>found.
     case found of
       None \<Rightarrow> sret (refused ''fact not found or not in your workspace'')
     | Some f \<Rightarrow>
         let chunks = text_chunks (fa_text f) chunk_chars overlap;
             first = min start_chunk (length chunks);
             stop = min (length chunks) (sat_add first max_chunks)
         in sret (jobject
           [(''fact'', without_text f), (''chunks'', JArray (take (stop - first) (drop first chunks))),
            (''start_chunk'', JInt (int first)),
            (''next_chunk'', if stop < length chunks then JInt (int stop) else JNull),
            (''total_chunks'', JInt (int (length chunks))), (''chunk_chars'', JInt (int chunk_chars)),
            (''chunk_overlap'', JInt (int overlap))])))"

section \<open>Searching\<close>

definition search_limits :: "json_map \<Rightarrow> (nat \<times> string option) call" where
  "search_limits arguments =
     rbind (limit_argument arguments 20) (\<lambda>limit.
     rbind (optional_string arguments ''trust_min'') (\<lambda>trust_min.
     case trust_min of
       None \<Rightarrow> Inr (limit, None)
     | Some v \<Rightarrow>
         if trust_rank v = 0 then invalid ''trust_min must be low, medium, or high''
         else Inr (limit, Some v)))"

definition lexical_hits ::
    "tool_env \<Rightarrow> json_map \<Rightarrow> string \<Rightarrow> string \<Rightarrow> retrieval_profile \<Rightarrow> string option \<Rightarrow> fact list tool" where
  "lexical_hits te arguments query workspace profile trust_min =
     sbind (slift (fact_filters_of arguments)) (\<lambda>filters.
     sbind (slift (optional_string arguments ''category'')) (\<lambda>category.
     sbind (on_store (search_facts_with_filters (te_store te) query workspace filters)) (\<lambda>facts.
     sbind (on_store (filter_eligible (in_category category workspace)
       (filter (\<lambda>f. trust_at_least (fa_trust f) trust_min \<and> strong_enough arguments f) facts))) (\<lambda>facts.
     on_store (filter_eligible (\<lambda>f. fact_is_eligible f workspace arguments profile) facts)))))"

definition candidates_wanted :: "tool_env \<Rightarrow> json_map \<Rightarrow> bool store_result" where
  "candidates_wanted te arguments =
     (if list_ex (has_arg arguments)
          [''candidate_linking'', ''candidate_limit'', ''candidate_scan_limit'', ''candidate_min_score'']
      then Inr True else candidate_linking_enabled te arguments)"

definition candidate_report :: "tool_env \<Rightarrow> json_map \<Rightarrow> string \<Rightarrow> fact list \<Rightarrow> json_map tool" where
  "candidate_report te arguments workspace facts =
     sbind (slift (executed (candidates_wanted te arguments))) (\<lambda>wanted.
     if wanted
     then sbind (on_store (auto_link_facts te (map fa_id facts) arguments workspace)) (\<lambda>r.
       sret [(''candidate_linking'', r)])
     else sret [])"

definition chunk_arguments :: "json_map \<Rightarrow> (nat \<times> nat) call" where
  "chunk_arguments arguments =
     rbind (optional_usize arguments [''chunk_chars''] 0) (\<lambda>width.
     rbind (optional_usize arguments [''chunk_overlap''] 0) (\<lambda>overlap.
     if 16000 < width \<or> (0 < width \<and> width \<le> overlap)
     then invalid ''chunk_chars or chunk_overlap is outside the supported range''
     else Inr (width, overlap)))"

definition lexical_answer :: "json_map \<Rightarrow> string \<Rightarrow> string \<Rightarrow> fact list \<Rightarrow> json tool" where
  "lexical_answer arguments workspace profile facts =
     sbind (slift (chunk_arguments arguments)) (\<lambda>(width, overlap).
     sbind (smapM (\<lambda>f. sbind (canonical_fact_value f workspace) (\<lambda>v.
       sret (if 0 < width then put_field v ''chunks'' (fact_chunk_values f width overlap) else v))) facts) (\<lambda>values.
     sret (jobject (counted ''facts'' values @
       [(''memory_policy'', JString ''advisory_only''), (''safety_critical_allowed'', JBool False),
        (''profile'', JString profile), (''result_status'', ok_or_empty values),
        (''retrieval_outcome'', JString (if values = [] then ''abstained'' else ''matched'')),
        (''retrieval_mode'', JString ''lexical'')]))))"

definition exact_search_facts :: "tool_env \<Rightarrow> json_map \<Rightarrow> json tool" where
  "exact_search_facts te arguments =
     sbind (slift (advisory_guard arguments ''search_facts'')) (\<lambda>refusal.
     case refusal of
       Some v \<Rightarrow> sret v
     | None \<Rightarrow>
     sbind (slift (optional_workspace arguments)) (\<lambda>workspace.
     sbind (slift (required_string arguments ''query'')) (\<lambda>query.
     let query = str_trim query in
     if query = [] then slift (invalid ''query must not be empty'')
     else
       sbind (slift (compatibility_profile arguments)) (\<lambda>(profile_name, profile).
       sbind (slift (search_limits arguments)) (\<lambda>(limit, trust_min).
       sbind (lexical_hits te arguments query workspace profile trust_min) (\<lambda>hits.
       let facts = take (min limit (rp_max_hits profile)) hits in
       sbind (candidate_report te arguments workspace facts) (\<lambda>report.
       sbind (if bool_arg arguments ''semantic'' \<or> bool_arg arguments ''graph'' \<or> 0 < rp_graph_depth profile
              then on_store (hybrid_search te query arguments facts)
              else lexical_answer arguments workspace profile_name facts) (\<lambda>answer.
       sret (put_fields answer report)))))))))"

definition exact_search_semantic :: "tool_env \<Rightarrow> json_map \<Rightarrow> json tool" where
  "exact_search_semantic te arguments =
     sbind (slift (advisory_guard arguments ''search_semantic'')) (\<lambda>refusal.
     case refusal of
       Some v \<Rightarrow> sret v
     | None \<Rightarrow>
     sbind (slift (compatibility_profile arguments)) (\<lambda>(_, profile).
     if embeddings_enabled te
     then on_store (sbind get_state (\<lambda>s. slift (te_semantic te arguments s)))
     else
       sbind (slift (optional_workspace arguments)) (\<lambda>workspace.
       sbind (slift (required_string arguments ''query'')) (\<lambda>query.
       sbind (slift (limit_argument arguments 20)) (\<lambda>limit.
       sbind (on_store (search_facts (te_store te) query workspace)) (\<lambda>facts.
       sbind (on_store (filter_eligible (\<lambda>f. fact_is_eligible f workspace arguments profile) facts)) (\<lambda>hits.
       sbind (fact_values (take (min limit (rp_max_hits profile)) hits) workspace) (\<lambda>values.
       let status = (if values = [] then ''empty'' else ''degraded'') in
       sret (jobject (counted ''facts'' values @
         [(''model'', JString (embedding_model te)), (''profile'', JString (rp_name profile)),
          (''evidence_policy'', JString (evidence_policy profile)), (''result_status'', JString status),
          (''retrieval_outcome'', JString (if status = ''empty'' then ''abstained'' else ''matched'')),
          (''error'', JString ''semantic search is disabled; lexical fallback returned'')]))))))))))"

definition exact_list_facts :: "json_map \<Rightarrow> json tool" where
  "exact_list_facts arguments =
     sbind (slift (optional_workspace arguments)) (\<lambda>workspace.
     sbind (slift (optional_usize arguments [''limit''] 50)) (\<lambda>limit.
     if \<not> (1 \<le> limit \<and> limit \<le> 200) then slift (invalid ''limit must be between 1 and 200'')
     else
       sbind (slift (optional_string arguments ''category'')) (\<lambda>category.
       sbind (slift (fact_filters_of arguments)) (\<lambda>filters.
       sbind (on_store (list_facts_with_filters workspace filters)) (\<lambda>facts.
       sbind (on_store (filter_eligible (in_category category workspace) facts)) (\<lambda>facts.
       sbind (fact_values (take limit (rev facts)) workspace) (\<lambda>values.
       sret (jobject (counted ''facts'' values)))))))))"

section \<open>The index of a workspace\<close>

definition index_line :: "fact \<Rightarrow> string \<Rightarrow> string" where
  "index_line f category =
     ''#'' @ dec_int (fa_id f) @ '' '' @ fa_trust f @ (if fa_strong f then ''!'' else [])
       @ '' ['' @ category @ ''] '' @ fa_text f @ [CHR 0x0A]"

text \<open>Lines are added as long as they fit; the first that does not ends the index.\<close>

fun index_text :: "nat \<Rightarrow> (fact \<times> string option) list \<Rightarrow> string \<times> nat \<Rightarrow> string \<times> nat" where
  "index_text max_chars [] acc = acc"
| "index_text max_chars ((f, category) # fs) (text, n) =
     (let line = index_line f (or_text [] category) in
      if max_chars < length text + length line then (text, n)
      else index_text max_chars fs (text @ line, n + 1))"

definition with_categories :: "string \<Rightarrow> fact list \<Rightarrow> (fact \<times> string option) list tool" where
  "with_categories workspace facts =
     smapM (\<lambda>f. sbind (on_store (category_name_for_fact (fa_id f) workspace)) (\<lambda>c. sret (f, c))) facts"

definition exact_summarize_index :: "json_map \<Rightarrow> json tool" where
  "exact_summarize_index arguments =
     sbind (slift (optional_workspace arguments)) (\<lambda>workspace.
     sbind (slift (optional_usize arguments [''max_chars'', ''chars''] 4000)) (\<lambda>max_chars.
     sbind (slift (optional_usize arguments [''limit''] 200)) (\<lambda>limit.
     sbind (on_store (summarize_index workspace)) (\<lambda>summary.
     sbind (slift (optional_string arguments ''trust_min'')) (\<lambda>trust_min.
     sbind (slift (optional_string arguments ''category'')) (\<lambda>category.
     sbind (slift (fact_filters_of arguments)) (\<lambda>filters.
     sbind (on_store (list_facts_with_filters workspace filters)) (\<lambda>facts.
     sbind (on_store (filter_eligible (in_category category workspace)
       (filter (\<lambda>f. trust_at_least (fa_trust f) trust_min \<and> strong_enough arguments f) facts))) (\<lambda>facts.
     sbind (with_categories workspace (take limit (rev facts))) (\<lambda>named.
     let (text, n) = index_text max_chars named ([], 0) in
     sret (jobject
       [(''count'', JInt (int n)), (''total'', JInt (int (length named))),
        (''chars'', JInt (int (length text))), (''truncated'', JBool (n < length named)),
        (''index'', JString text), (''active_facts'', JInt (int (is_active_facts summary))),
        (''forgotten_facts'', JInt (int (is_forgotten_facts summary))),
        (''contexts'', JInt (int (is_contexts summary))), (''categories'', JInt (int (is_categories summary))),
        (''runs'', JInt (int (is_runs summary))), (''measurements'', JInt (int (is_measurements summary))),
        (''feedback'', JInt (int (is_feedback summary)))])))))))))))"

definition exact_list_categories :: "tool_env \<Rightarrow> json_map \<Rightarrow> json tool" where
  "exact_list_categories te arguments =
     sbind (slift (optional_workspace arguments)) (\<lambda>workspace.
     sbind (slift (string_or [] arguments ''query'')) (\<lambda>query.
     let query = se_lowercase (te_store te) query in
     sbind (on_store (list_facts workspace)) (\<lambda>facts.
     sbind (on_store (list_categories workspace)) (\<lambda>categories.
     let value = (\<lambda>c.
           let active = JInt (int (length (filter (\<lambda>f. fa_category_id f = Some (ca_id c)) facts))) in
           jobject [(''id'', JInt (ca_id c)), (''name'', JString (ca_name c)),
             (''workspace'', JString (ca_workspace c)), (''active_facts'', active), (''facts'', active),
             (''created_at'', JString (ca_created_at c))])
     in sret (jobject (counted ''categories''
          (map value (filter (\<lambda>c. sql_instr (se_lowercase (te_store te) (ca_name c)) query) categories))))))))"

end
