(* ===== verification/ProtocolIndex.thy ===== *)
theory ProtocolIndex
  imports ProtocolSearch
begin

text \<open>
  The remaining tools on facts in \<open>src/protocol.rs\<close>: the grouped index, statistics, what awaits
  review, sessions, and forgetting and restoring.
\<close>

section \<open>The grouped index\<close>

type_synonym index_group = "string \<times> json list"

text \<open>A row joins the first group of its category, or opens one at the end.\<close>

fun add_row :: "string \<Rightarrow> json \<Rightarrow> index_group list \<Rightarrow> index_group list" where
  "add_row category row [] = [(category, [row])]"
| "add_row category row ((c, rows) # groups) =
     (if c = category then (c, rows @ [row]) # groups else (c, rows) # add_row category row groups)"

definition group_value :: "string \<Rightarrow> json list \<Rightarrow> json" where
  "group_value category rows = jobject [(''category'', JString category), (''facts'', JArray rows)]"

definition index_row :: "fact \<Rightarrow> string \<Rightarrow> fact_search_metadata option \<Rightarrow> json" where
  "index_row f category m = jobject
     [(''id'', JInt (fa_id f)), (''category'', JString category), (''snippet'', JString (fa_text f)),
      (''trust'', JString (fa_trust f)), (''strong'', JBool (fa_strong f)),
      (''importance'', f64_json (fa_importance f)),
      (''updated_at'', optional_json (map_option fsm_updated_at m))]"

fun index_groups :: "string \<Rightarrow> fact list \<Rightarrow> index_group list \<Rightarrow> index_group list tool" where
  "index_groups workspace [] groups = sret groups"
| "index_groups workspace (f # fs) groups =
     sbind (on_store (category_name_for_fact (fa_id f) workspace)) (\<lambda>c.
     sbind (on_store (fact_search_metadata_of (fa_id f) workspace)) (\<lambda>m.
     let category = or_text ''uncategorized'' c in
     index_groups workspace fs (add_row category (index_row f category m) groups)))"

text \<open>
  Rows are shown while their size, each counted as a group of its own, fits. The first that does
  not ends everything, and the group it is in is dropped with the rows that were counted for it.
\<close>

record index_page =
  ip_groups :: "index_group list"
  ip_shown :: nat
  ip_rendered :: nat
  ip_truncated :: bool

fun bounded_rows :: "(json \<Rightarrow> string) \<Rightarrow> nat \<Rightarrow> string \<Rightarrow> json list \<Rightarrow> json list \<Rightarrow> index_page \<Rightarrow> json list \<times> index_page" where
  "bounded_rows render max_chars category [] bounded p = (bounded, p)"
| "bounded_rows render max_chars category (row # rows) bounded p =
     (let width = length (render (group_value category [row])) in
      if max_chars < sat_add (ip_rendered p) width then (bounded, p\<lparr>ip_truncated := True\<rparr>)
      else bounded_rows render max_chars category rows (bounded @ [row])
             (p\<lparr>ip_rendered := ip_rendered p + width, ip_shown := ip_shown p + 1\<rparr>))"

fun bounded_groups :: "(json \<Rightarrow> string) \<Rightarrow> nat \<Rightarrow> index_group list \<Rightarrow> index_page \<Rightarrow> index_page" where
  "bounded_groups render max_chars [] p = p"
| "bounded_groups render max_chars ((category, rows) # groups) p =
     (let (bounded, q) = bounded_rows render max_chars category rows [] p in
      if ip_truncated q then q
      else bounded_groups render max_chars groups
             (if bounded = [] then q else q\<lparr>ip_groups := ip_groups q @ [(category, bounded)]\<rparr>))"

definition index_page_value :: "index_page \<Rightarrow> json" where
  "index_page_value p = jobject
     [(''count'', JInt (int (ip_shown p))), (''shown'', JInt (int (ip_shown p))),
      (''truncated'', JBool (ip_truncated p)),
      (''groups'', JArray (map (\<lambda>(c, rows). group_value c rows) (ip_groups p)))]"

definition exact_search_index :: "tool_env \<Rightarrow> json_map \<Rightarrow> json tool" where
  "exact_search_index te arguments =
     sbind (slift (advisory_guard arguments ''search_index'')) (\<lambda>refusal.
     case refusal of
       Some v \<Rightarrow> sret v
     | None \<Rightarrow>
     sbind (slift (optional_workspace arguments)) (\<lambda>workspace.
     sbind (slift (required_string arguments ''query'')) (\<lambda>query.
     sbind (slift (optional_usize arguments [''limit''] 20)) (\<lambda>limit.
     sbind (slift (optional_usize arguments [''max_chars'', ''chars''] 12000)) (\<lambda>max_chars.
     sbind (slift (optional_string arguments ''category'')) (\<lambda>category.
     sbind (on_store (search_facts (te_store te) (str_trim query) workspace)) (\<lambda>facts.
     sbind (on_store (filter_eligible (in_category category workspace) facts)) (\<lambda>facts.
     sbind (index_groups workspace (take limit facts) []) (\<lambda>groups.
     sret (index_page_value (bounded_groups (te_render te) max_chars groups
       \<lparr>ip_groups = [], ip_shown = 0, ip_rendered = 0, ip_truncated = False\<rparr>)))))))))))"

definition exact_categorize_pending :: "tool_env \<Rightarrow> json_map \<Rightarrow> json tool" where
  "exact_categorize_pending te arguments = on_store (categorize_with_model te arguments)"

section \<open>Statistics\<close>

definition counts_value :: "string list \<Rightarrow> json" where
  "counts_value keys = jobject (map (\<lambda>k. (k, JInt (int (count_list keys k)))) (remdups keys))"

definition no_access :: json where
  "no_access = jobject
     [(''events'', JInt 0), (''by_site'', jobject []), (''last_at'', JString []), (''pull_events'', JInt 0),
      (''pull_hits'', JInt 0), (''pull_misses'', JInt 0), (''hit_rate'', JFloat 0)]"

definition exact_stats :: "tool_env \<Rightarrow> json_map \<Rightarrow> json tool" where
  "exact_stats te arguments =
     (let workspace = plain_workspace arguments in
     sbind (on_store (list_facts workspace)) (\<lambda>facts.
     sbind (on_store (summarize_index workspace)) (\<lambda>summary.
     sbind (on_store (list_entities (te_store te) workspace)) (\<lambda>entities.
     sbind (on_store (list_relations workspace)) (\<lambda>relations.
     sbind (on_store (list_decisions workspace)) (\<lambda>decisions.
     sbind (on_store (list_evidence workspace)) (\<lambda>evidence.
     sret (jobject
       [(''total'', JInt (int (length facts))), (''strong'', JInt (int (length (filter fa_strong facts)))),
        (''by_trust'', counts_value (map fa_trust facts)),
        (''by_domain'', counts_value (map (\<lambda>f. if fa_domain f = [] then ''(none)'' else fa_domain f) facts)),
        (''counts'', jobject
           [(''entities'', JInt (int (length entities))), (''relations'', JInt (int (length relations))),
            (''decisions'', JInt (int (length decisions))), (''evidence'', JInt (int (length evidence))),
            (''runs'', JInt (int (is_runs summary))),
            (''measurements'', JInt (int (is_measurements summary))),
            (''feedback'', JInt (int (is_feedback summary)))]),
        (''access'', no_access)]))))))))"

section \<open>Review and sessions\<close>

definition exact_review_pending :: "json_map \<Rightarrow> json tool" where
  "exact_review_pending arguments =
     sbind (slift (limit_argument arguments 20)) (\<lambda>limit.
     sbind (on_store (review_pending (plain_workspace arguments))) (\<lambda>facts.
     sret (jobject
       [(''count'', JInt (int (min (length facts) limit))), (''total'', JInt (int (length facts))),
        (''facts'', JArray (map fact_json (take limit facts)))])))"

definition exact_facts_for_session :: "json_map \<Rightarrow> json tool" where
  "exact_facts_for_session arguments =
     sbind (slift (required_string arguments ''session_ref'')) (\<lambda>session.
     sbind (slift (optional_usize arguments [''limit''] 50)) (\<lambda>limit.
     sbind (on_store (facts_for_session session (plain_workspace arguments))) (\<lambda>facts.
     sret (jobject (counted ''facts'' (map fact_json (take limit facts)))))))"

definition session_sources :: "fact list \<Rightarrow> string list" where
  "session_sources facts =
     filter (\<lambda>s. s \<noteq> []) (map (\<lambda>f. if fa_source f = [] then fa_session_id f else fa_source f) facts)"

definition session_value :: "string list \<Rightarrow> string \<Rightarrow> json" where
  "session_value sources s = jobject
     [(''source'', JString s), (''facts'', JInt (int (count_list sources s))), (''last_activity'', JNull)]"

definition exact_list_sessions :: "json_map \<Rightarrow> json tool" where
  "exact_list_sessions arguments =
     sbind (slift (optional_usize arguments [''limit''] 50)) (\<lambda>limit.
     sbind (on_store (list_facts (plain_workspace arguments))) (\<lambda>facts.
     let sources = session_sources facts in
     sret (jobject (counted ''sessions''
       (map (session_value sources) (take limit (sort (remdups sources))))))))"

section \<open>Forgetting and restoring\<close>

text \<open>The fact to forget, with the id the answer names.\<close>

definition forgettable :: "json_map \<Rightarrow> string \<Rightarrow> (int \<times> fact option) option tool" where
  "forgettable arguments workspace =
     sbind (slift (optional_i64 arguments [''id'', ''fact_id''])) (\<lambda>ident.
     case ident of
       Some i \<Rightarrow> sbind (on_store (fact_by_id i workspace)) (\<lambda>f. sret (Some (i, f)))
     | None \<Rightarrow>
         sbind (slift (optional_string arguments ''sha256'')) (\<lambda>hash.
         case hash of
           None \<Rightarrow> sret None
         | Some h \<Rightarrow>
             sbind (on_store (fact_by_hash h workspace)) (\<lambda>f.
             sret (Some (case f of None \<Rightarrow> 0 | Some g \<Rightarrow> fa_id g, f)))))"

definition exact_forget_fact :: "tool_env \<Rightarrow> json_map \<Rightarrow> json tool" where
  "exact_forget_fact te arguments =
     sbind (forgettable arguments (plain_workspace arguments)) (\<lambda>found.
     case found of
       None \<Rightarrow> sret (refused ''id or sha256 is required'')
     | Some (i, f) \<Rightarrow>
         if i \<le> 0 \<or> f = None
         then sret (jobject [(''archived'', JInt 0), (''status'', JString ''not_found'')])
         else
           sbind (on_store (forget_fact (te_store te) i (plain_workspace arguments))) (\<lambda>forgotten.
           sret (jobject [(''archived'', JInt (if forgotten \<noteq> None then 1 else 0)),
             (''status'', JString ''forgotten''), (''id'', JInt i)])))"

definition exact_restore_fact :: "tool_env \<Rightarrow> json_map \<Rightarrow> json tool" where
  "exact_restore_fact te arguments =
     (let workspace = plain_workspace arguments in
     sbind (slift (required_i64 arguments ''id'')) (\<lambda>i.
     sbind (on_store (fact_by_id i workspace)) (\<lambda>found.
     case found of
       None \<Rightarrow> sret (jobject [(''error'', JString ''fact not found or not in your workspace''), (''id'', JInt i)])
     | Some existing \<Rightarrow>
         sbind (on_store (fact_search_metadata_of i workspace)) (\<lambda>m.
         if (case m of None \<Rightarrow> False | Some m \<Rightarrow> fsm_archived m)
         then sret (jobject
           [(''error'', JString ''fact is archived (soft-deleted); re-remember it instead''), (''id'', JInt i)])
         else
           sbind (on_store (restore_fact (te_store te) i workspace)) (\<lambda>_.
           sret (jobject [(''restored'', JInt i), (''from'', JString (fa_lifecycle existing)),
             (''to'', JString ''active'')]))))))"

text \<open>
  \<open>total_cmp\<close> of importances, the greatest first: numbers by value, with -0.0 below 0.0 and what is
  not a number above the infinities.
\<close>

definition importance_rank :: "f64 \<Rightarrow> int \<times> rat \<times> int" where
  "importance_rank x =
     (case x of NegInf \<Rightarrow> (0, 0, 0) | NegZero \<Rightarrow> (1, 0, 0) | Finite r \<Rightarrow> (1, r, 1) | PosInf \<Rightarrow> (2, 0, 0)
      | NotANumber \<Rightarrow> (3, 0, 0))"

definition forgotten_order :: "fact \<Rightarrow> int \<times> rat \<times> int \<times> int" where
  "forgotten_order f =
     (case importance_rank (fa_importance f) of (a, r, b) \<Rightarrow> (- a, - r, - b, fa_id f))"

definition exact_list_forgotten :: "json_map \<Rightarrow> json tool" where
  "exact_list_forgotten arguments =
     sbind (slift (optional_usize arguments [''limit''] 50)) (\<lambda>limit.
     if \<not> (1 \<le> limit \<and> limit \<le> 200) then slift (invalid ''limit must be between 1 and 200'')
     else
       sbind (on_store (list_forgotten (plain_workspace arguments))) (\<lambda>facts.
       sret (jobject (counted ''facts'' (map fact_json (take limit (sort_key forgotten_order facts)))))))"

end
