(* ===== verification/ProtocolSteps.thy ===== *)
theory ProtocolSteps
  imports PipelineSteps ProtocolIndex
begin

text \<open>
  What the tools on the graph and on facts may write: rows of the workspaces that the arguments
  name, in the ways the store allows. The tools that only read change nothing.
\<close>

section \<open>Reading tools\<close>

lemma tool_writes_values:
  "tool_writes d sha W (canonical_fact_value f w)" "tool_writes d sha W (fact_values fs w)"
  "tool_writes d sha W (named_fact arguments keys w)" "tool_writes d sha W (with_categories w fs)"
  "tool_writes d sha W (index_groups w fs groups)" "tool_writes d sha W (forgettable arguments w)"
proof -
  have one: "tool_writes d sha W (canonical_fact_value f w)" for f
    unfolding canonical_fact_value_def by (intro tool_writes_intros on_store_reads keeping)
  then show "tool_writes d sha W (canonical_fact_value f w)" .
  show "tool_writes d sha W (fact_values fs w)"
    unfolding fact_values_def by (intro tool_writes_intros one)
  show "tool_writes d sha W (named_fact arguments keys w)"
    unfolding named_fact_def by (intro tool_writes_intros on_store_reads keeping)
  show "tool_writes d sha W (with_categories w fs)"
    unfolding with_categories_def by (intro tool_writes_intros on_store_reads keeping)
  show "tool_writes d sha W (index_groups w fs groups)"
    by (induction fs arbitrary: groups) (auto simp: Let_def intro!: tool_writes_intros on_store_reads keeping)
  show "tool_writes d sha W (forgettable arguments w)"
    unfolding forgettable_def by (intro tool_writes_intros on_store_reads keeping)
qed

lemma keeps_in_category [keeping]: "keeps P (in_category wanted w f)"
  unfolding in_category_def by (intro keeping)

lemmas reading = tool_writes_intros tool_writes_values on_store_reads keeping

lemma reading_graph_tools:
  "tool_writes d sha W (exact_search_graph te arguments)"
  "tool_writes d sha W (exact_query_decisions te arguments)"
  "tool_writes d sha W (exact_find_precedents te arguments)"
  "tool_writes d sha W (exact_causal_chain te arguments)"
  "tool_writes d sha W (exact_provenance te arguments)"
  "tool_writes d sha W (exact_detect_conflicts te arguments)"
  "tool_writes d sha W (exact_list_relation_candidates te arguments)"
  unfolding exact_search_graph_def exact_query_decisions_def exact_find_precedents_def exact_causal_chain_def
    exact_provenance_def exact_detect_conflicts_def exact_list_relation_candidates_def Let_def
  by (-, (intro reading)+)

lemma reading_fact_tools:
  "tool_writes d sha W (exact_fact_history arguments)"
  "tool_writes d sha W (exact_fact_references arguments)"
  "tool_writes d sha W (exact_chunk_fact arguments)"
  "tool_writes d sha W (exact_search_semantic te arguments)"
  "tool_writes d sha W (exact_list_facts arguments)"
  "tool_writes d sha W (exact_summarize_index arguments)"
  "tool_writes d sha W (exact_list_categories te arguments)"
  "tool_writes d sha W (exact_search_index te arguments)"
  "tool_writes d sha W (exact_stats te arguments)"
  "tool_writes d sha W (exact_review_pending arguments)"
  "tool_writes d sha W (exact_facts_for_session arguments)"
  "tool_writes d sha W (exact_list_sessions arguments)"
  "tool_writes d sha W (exact_list_forgotten arguments)"
  unfolding exact_fact_history_def exact_fact_references_def exact_chunk_fact_def exact_search_semantic_def
    exact_list_facts_def exact_summarize_index_def exact_list_categories_def exact_search_index_def
    exact_stats_def exact_review_pending_def exact_facts_for_session_def exact_list_sessions_def
    exact_list_forgotten_def Let_def
  by (-, (intro reading)+)

section \<open>Writing tools\<close>

lemma writes_in_sha: "se_sha256 env = sha \<Longrightarrow> w \<in> W \<Longrightarrow> writes_in d sha W (remember_fact_with_metadata env text w m)"
  by (rule writes_in_one(7))

lemma tool_writes_graph:
  "tool_writes d sha (named_workspaces arguments) (exact_record_decision te arguments)"
  "tool_writes d sha (named_workspaces arguments) (exact_attach_evidence te arguments)"
  "tool_writes d sha (named_workspaces arguments) (exact_remember_entity te arguments)"
  "tool_writes d sha (named_workspaces arguments) (exact_remember_relation te arguments)"
proof -
  let ?W = "named_workspaces arguments"
  have decision: "ds_workspace spec = w" if "decision_request arguments scenario w = Inr spec" for spec scenario w
    using that by (auto simp: decision_request_def rbind_Inr_iff)
  show "tool_writes d sha ?W (exact_record_decision te arguments)"
    unfolding exact_record_decision_def Let_def
    by (intro tool_writes_intros on_store_writes[OF writes_record_decision plain_workspace_named] decision)
  have evidence: "vs_workspace spec = w" if "evidence_request arguments i r w = Inr spec" for spec i r w
    using that by (auto simp: evidence_request_def rbind_Inr_iff)
  show "tool_writes d sha ?W (exact_attach_evidence te arguments)"
    unfolding exact_attach_evidence_def Let_def
    by (intro tool_writes_intros on_store_writes[OF writes_attach_evidence named_workspace(1)] evidence; assumption)
  show "tool_writes d sha ?W (exact_remember_entity te arguments)"
    unfolding exact_remember_entity_def Let_def
    by (intro tool_writes_intros on_store_reads keeping on_store_writes[OF writes_remember_entity named_workspace(2)]; simp)
  have review: "tool_writes d sha ?W (review_candidate te arguments w i)" if "w \<in> ?W" for w i
    unfolding review_candidate_def
    by (intro tool_writes_intros on_store_writes[OF writes_confirm_relation_candidate that]
        on_store_writes[OF writes_reject_relation_candidate that])
  show "tool_writes d sha ?W (exact_remember_relation te arguments)"
    unfolding exact_remember_relation_def Let_def concept_of_def
    by (intro tool_writes_intros review on_store_writes[OF writes_remember_entity named_workspace(2)]
        on_store_writes[OF writes_remember_relation named_workspace(2)] named_workspace(2); simp)
qed

lemma tool_writes_candidates:
  "tool_writes d sha (named_workspaces arguments) (exact_suggest_relation_candidates te arguments)"
  "tool_writes d sha (named_workspaces arguments) (exact_confirm_relation_candidate te arguments)"
  "tool_writes d sha (named_workspaces arguments) (exact_reject_relation_candidate te arguments)"
  unfolding exact_suggest_relation_candidates_def candidate_source_def exact_confirm_relation_candidate_def
    exact_reject_relation_candidate_def reviewed_candidate_def
  by (-, (intro reading on_store_writes[OF writes_generate_relation_candidates_with_limits named_workspace(2)]
      on_store_writes[OF writes_confirm_relation_candidate named_workspace(2)]
      on_store_writes[OF writes_reject_relation_candidate named_workspace(2)]; assumption?)+)

lemma string_arg_workspace: "or_text [] (string_arg arguments ''workspace'') \<in> named_workspaces arguments"
  unfolding string_arg_def by (rule named_workspace(4))

lemma returns_found: "returns (in_scope_fact w) m \<Longrightarrow> [] \<in> W \<Longrightarrow> w \<in> W \<Longrightarrow>
    returns (\<lambda>f. fa_workspace f \<in> W) (sbind (on_store m) (found_or message))"
  by (rule returns_bind, erule returns_on_store)
    (auto simp: found_or_def in_scope_fact_def intro!: returns_intros split: option.split)

lemma tool_writes_remember_fact:
  assumes "se_sha256 (te_store te) = sha"
  shows "tool_writes d sha (named_workspaces arguments) (exact_remember_fact te arguments)"
proof -
  let ?W = "named_workspaces arguments"
  have evidence: "vs_workspace spec = w" if "remembered_evidence m i w = Inr spec" for spec m i w
    using that by (auto simp: remembered_evidence_def Let_def invalid_def split: if_splits)
  have attach: "tool_writes d sha ?W (attach_remembered_evidence te arguments i w)" if "w \<in> ?W" for i w
    unfolding attach_remembered_evidence_def
    by (intro tool_writes_intros on_store_writes[OF writes_attach_evidence that] evidence)
  have answer: "tool_writes d sha ?W (remembered_value te arguments w strict created f)" if "w \<in> ?W" for w strict created f
    unfolding remembered_value_def
    by (intro reading attach on_store_writes_in writes_in_auto_link that)
  have validity: "tool_writes d sha ?W (with_validity te arguments w f)" if "w \<in> ?W" for w f
    unfolding with_validity_def by (intro tool_writes_intros on_store_writes[OF writes_set_fact_validity that])
  have session: "tool_writes d sha ?W (with_session arguments w f)" if "w \<in> ?W" for w f
    unfolding with_session_def by (intro tool_writes_intros on_store_writes[OF writes_set_fact_session that])
  have scoped: "returns (\<lambda>f. fa_workspace f \<in> ?W) (with_validity te arguments w f)"
      "returns (\<lambda>f. fa_workspace f \<in> ?W) (with_session arguments w f)" if "w \<in> ?W" "fa_workspace f \<in> ?W" for w f
    unfolding with_validity_def with_session_def
    by (intro returns_intros(1,3,5) that returns_found[OF returns_set_facts(1)] returns_found[OF returns_set_facts(2)]
        named_workspace(5))+
  show ?thesis
    unfolding exact_remember_fact_def Let_def
    apply (intro tool_writes_intros(1,3,4,6))
    apply (rule tool_writes_intros(5)[OF on_store_reads], rule keeping)
    apply (rule tool_writes_bind[OF on_store_writes[OF writes_remember_fact_with_metadata[OF assms]]
        returns_on_store[OF returns_remembered]], erule named_workspace)
    apply (rule tool_writes_bind[OF validity scoped(1)], (simp add: named_workspace)+)
    apply (rule tool_writes_bind[OF session scoped(2)], (simp add: named_workspace)+)
    apply (rule tool_writes_intros(5)[OF on_store_writes_in[OF writes_in_maybe_enrich_fact]])
    apply (simp_all add: named_workspace string_arg_workspace answer)
    done
qed

lemma tool_writes_facts:
  "tool_writes d sha (named_workspaces arguments) (exact_confirm_fact te arguments)"
  "tool_writes d sha (named_workspaces arguments) (exact_search_facts te arguments)"
  "tool_writes d sha (named_workspaces arguments) (exact_categorize_pending te arguments)"
  "tool_writes d sha (named_workspaces arguments) (exact_forget_fact te arguments)"
  "tool_writes d sha (named_workspaces arguments) (exact_restore_fact te arguments)"
proof -
  let ?W = "named_workspaces arguments"
  show "tool_writes d sha ?W (exact_confirm_fact te arguments)"
    unfolding exact_confirm_fact_def
    by (intro reading on_store_writes[OF writes_confirm_fact named_workspace(2)]; assumption)
  show "tool_writes d sha ?W (exact_search_facts te arguments)"
    unfolding exact_search_facts_def lexical_hits_def candidate_report_def lexical_answer_def Let_def
    by (intro reading on_store_writes_in[OF writes_in_auto_link(2)] named_workspace(2); assumption)
  show "tool_writes d sha ?W (exact_categorize_pending te arguments)"
    unfolding exact_categorize_pending_def
    by (intro on_store_writes_in writes_in_categorize_pending string_arg_workspace)
  show "tool_writes d sha ?W (exact_forget_fact te arguments)"
    unfolding exact_forget_fact_def forget_fact_def
    by (intro reading on_store_writes[OF writes_update_fact_lifecycle plain_workspace_named])
  show "tool_writes d sha ?W (exact_restore_fact te arguments)"
    unfolding exact_restore_fact_def restore_fact_def Let_def
    by (intro reading on_store_writes[OF writes_update_fact_lifecycle plain_workspace_named])
qed

end
