(* ===== verification/Spec2Isabelle.thy ===== *)
theory Spec2Isabelle
  imports CoordinatorTools StoreDurable StoreReview ProtocolEvents ProtocolSteps
begin

text \<open>
  Verification library of memory-mcp, a memory server for coding agents. The server reads JSON-RPC
  requests line by line, runs a tool for each, and keeps what the tools record in SQLite; a Redis
  server can take over as the primary copy, with an outbox for what it has not yet seen. The
  library translates the Rust sources under \<open>src/src/\<close> into definitions and proves what makes
  them correct.

  \<^item> The program and its models

  A request passes through these parts, from the outside in.

  \<open>protocol.rs\<close>: requests, tools and what a tool may say. \<open>ProtocolArgs\<close> has the dispatcher
  \<open>handle_request_with\<close>, the responses, and the readers of arguments; \<open>ProtocolSanitize\<close> what is
  removed from an event before it is written; \<open>ProtocolState\<close> the state of the server (the database
  and the counter of generated references) and what the tools share; \<open>ProtocolContexts\<close>,
  \<open>ProtocolEvents\<close>, \<open>ProtocolRecords\<close>, \<open>ProtocolGraph\<close>, \<open>ProtocolFacts\<close>, \<open>ProtocolSearch\<close> and
  \<open>ProtocolIndex\<close> the \<open>exact_*\<close> functions, one definition per tool, \<open>ProtocolValues\<close> the JSON of the
  rows they answer with. A tool is a program over the server state: the value or the error of the
  call, and the state after it, which an error does not undo.

  \<open>diagnostics.rs\<close>: \<open>DiagnosticsTelemetry\<close> has the checks of access telemetry.

  \<open>pipeline.rs\<close> (and the readers of the environment in \<open>providers.rs\<close>): \<open>PipelineRetrieval\<close> has the
  retrieval profiles, candidate linking, enrichment and eligibility; \<open>PipelineHybrid\<close> the search
  through words, embeddings and graph; \<open>PipelineReview\<close> categories, verification and consolidation by
  a language model; \<open>PipelineIngest\<close> storing many facts; \<open>PipelineRecall\<close> the block of memories for
  a turn.

  \<open>store.rs\<close>: the database. \<open>StoreText\<close> has the functions on text; \<open>StoreBase\<close> the tables, as
  lists of rows in the order of their ids, and the SQL statements the source uses, each with its
  constraints; \<open>StoreFacts\<close>, \<open>StoreEmbeddings\<close>, \<open>StoreRecords\<close>, \<open>StoreContexts\<close>, \<open>StoreGraph\<close>,
  \<open>StoreCandidates\<close>, \<open>StoreGenerate\<close>, \<open>StoreWorkspaces\<close> and \<open>StoreExport\<close> the methods of \<open>Store\<close>, by
  the tables they are about, under their Rust names.

  \<open>backend.rs\<close>: \<open>NativeDelta\<close> has the differences that are sent to Redis, \<open>Outbox\<close> the append-only
  file of pending operations, \<open>Coordinator\<close> the coordinator with its modes, the execution of tools,
  the watcher's tick, reconciliation and mirroring.

  \<open>redis.rs\<close>: \<open>Resp\<close> has the wire format, \<open>RedisConfig\<close> endpoints, \<open>RedisConn\<close> connections and the
  handshake, \<open>RedisAdapter\<close> the key space and the two publishing transactions.

  \<open>Prelude\<close> and \<open>Programs\<close> hold what all parts use: \<open>Result\<close> as a sum with the error on the left,
  programs as functions of a state (\<open>sbind\<close>, \<open>sret\<close>, \<open>sfail\<close>), UTF-8, decimal numbers, and the rules
  by which a property of the state passes through a program. \<open>Json\<close> has the values of \<open>serde_json\<close>.
  Names are those of the source; a name that is taken in HOL or used twice has a suffix
  (\<open>absorb_facts\<close>, \<open>compose_recall_turn\<close>). A Rust string is the list of its bytes.

  \<^item> What is proved

  The wire and the connection: replies are read back as they were written and never past their end
  (\<open>Resp\<close>), endpoints are read back and only loopback addresses are ever connected
  (\<open>RedisConfig\<close>, \<open>RedisConn\<close>).

  Publishing (\<open>RedisPublish\<close>): a successful publish was one transaction at the revision it was
  prepared for, a failed one was applied wholly or not at all. The server is not part of the
  repository: the locale \<open>redis_client\<close> of \<open>RedisContract\<close> states what is used of it, and
  \<open>RedisServer\<close> gives a server for which the contract holds, over the bytes of the connection.

  The outbox (\<open>OutboxCodec\<close>): it refines a map from keys to operations in the order of insertion,
  failures lose no entry, and the file stays within its bound. The contract of the encoding is the
  locale \<open>outbox_codec\<close>, with a reference encoding as its interpretation.

  The coordinator (\<open>CoordinatorInv\<close>, \<open>CoordinatorRun\<close>, \<open>CoordinatorReconcile\<close>, \<open>CoordinatorTools\<close>):
  an invariant of its reachable states, what an acknowledged mutation guarantees, what a failed one
  leaves behind, what reconciliation and mirroring achieve, and that reads stay local.

  The store: \<open>StoreSpec\<close> states the integrity of a database (\<open>db_ok\<close>) and the elementary changes
  (\<open>change\<close>) a workspace may undergo. \<open>StoreSteps\<close> and \<open>StoreGraphSteps\<close> show that every writing
  operation is a sequence of such changes, and \<open>StoreScope\<close> what these leave alone. From this come,
  in \<open>StoreRun\<close>, integrity, isolation of workspaces and the evolution of records for all reachable
  databases; \<open>StoreDurable\<close> and \<open>StoreReview\<close> have what callers rely on over time: records kept under
  a key (\<open>keyed_record\<close> of \<open>StoreKeyed\<close>, interpreted on six tables), contexts, handoffs, chains of
  decisions, candidates and neighbourhoods.

  The tools and the pipeline: every request is answered as JSON-RPC asks, and what is written about
  an event does not depend on what is sensitive in it. \<open>StoreReads\<close>, \<open>PipelineSteps\<close> and
  \<open>ProtocolSteps\<close> carry the store's guarantees through the programs above it (\<open>tool_writes\<close>,
  \<open>writes_in\<close>): tools that only read change nothing, and the others change rows of the workspaces
  their arguments name, in the ways the store allows. An export of everything is the exception,
  since listing handoffs marks the expired ones of each workspace.

  \<^item> Parameters, bounds and simplifications

  Not in the repository, and so arguments of the definitions: SHA-256, \<open>serde_json\<close>'s text of a
  value, Unicode lower case and letters, the parser of \<open>f64\<close>, the full-text index on decisions, the
  clock, the environment, the file system, TCP sockets and name resolution, the Redis server, the
  embedding service and the language model. What a theorem needs of them is a hypothesis of the
  theorem or of a locale that is interpreted.

  Loops with a bound in the source follow it; \<open>char_groups\<close> takes the number of characters as
  fuel and cuts at least one per round; \<open>chunk_spans\<close> ends because the start grows, and the walk
  over the parents of a decision has the number of rows as fuel, which \<open>causal_chain_complete\<close>
  shows to be enough. Integers are kept at their width where they can wrap (the counter of
  references is a 64-bit word, ids and revisions check their range); lengths and counters of rows
  are natural numbers. \<open>f64\<close> is exact rational arithmetic rounded to 53 bits, with the special
  values; \<open>f32\<close> is its bit pattern. JSON does not distinguish -0.0 from 0.0.

  The clock stands still during one call. SQLite either performs a statement or refuses it for a
  constraint: I/O errors, a full disk and busy connections are not modelled, nor are threads; the
  coordinator's lock makes calls and ticks a sequence, which is the model.

  \<^item> Not modelled

  \<open>store.rs\<close>: the database files, their catalogue, backups and the migration of columns, the
  query of access telemetry, the backfill of embeddings, anchored search and the schema diagnostics:
  they act on files and connections rather than on rows. \<open>protocol.rs\<close>: the older forms of the tools
  (the match of \<open>call_tool_with_backend\<close> after \<open>exact_compatibility_route\<close>), \<open>context_map\<close>, which reads the
  files of a checkout, and the tools on databases, backups and diagnostics. \<open>pipeline.rs\<close>: the ranking by embeddings
  (a parameter of the hybrid search) and the backfill. \<open>providers.rs\<close>: HTTP requests to providers.
  \<open>diagnostics.rs\<close>: reports. \<open>tools.rs\<close>: the JSON schemas of the tools, of which only the
  classification by mutation is used. \<open>migration.rs\<close>, \<open>main.rs\<close> and \<open>lib.rs\<close>: moving old databases
  and starting the process.
\<close>

end
